(* ===== verification/Nexa_Prelude.thy ===== *)
theory Nexa_Prelude
  imports Main "HOL-Library.Word" "HOL-Library.Sublist" "HOL-Library.Multiset"
begin

text \<open>
  Shared vocabulary of the development: the machine integers of the Rust sources with their
  saturating operations, the string operations the sources use, a few facts on lists that are
  searched and updated in place, and two generic interfaces (a state machine that keeps an
  invariant, a textual wire codec) that the component theories interpret.

  Conventions.
  \<^item> \<open>u8\<close>, \<open>u16\<close>, \<open>u32\<close> and \<open>u64\<close> are words of that width; \<open>usize\<close> values that
    count elements of a list in memory are \<open>nat\<close>.
  \<^item> A Rust \<open>String\<close> is a \<open>string\<close>, one \<open>char\<close> per Unicode scalar value; the model
    covers the scalar values below 256, for which the Unicode tables the standard library
    consults are written out below.
  \<^item> A \<open>Result\<close> is a sum with the error on the left.
\<close>

section \<open>Collections of rules\<close>

named_theorems sat_simps \<open>saturating machine arithmetic read as natural numbers\<close>
named_theorems inv_intros \<open>operations keep their component's invariant\<close>
named_theorems frame_simps \<open>what an operation leaves unchanged\<close>

section \<open>Machine integers\<close>

type_synonym u8 = "8 word"
type_synonym u16 = "16 word"
type_synonym u32 = "32 word"
type_synonym u64 = "64 word"

definition saturating_add :: "'a::len word \<Rightarrow> 'a word \<Rightarrow> 'a word" where
  "saturating_add a b = (if unat a + unat b < 2 ^ LENGTH('a) then a + b else - 1)"

definition saturating_sub :: "'a::len word \<Rightarrow> 'a word \<Rightarrow> 'a word" where
  "saturating_sub a b = (if b \<le> a then a - b else 0)"

definition saturating_mul :: "'a::len word \<Rightarrow> 'a word \<Rightarrow> 'a word" where
  "saturating_mul a b = (if unat a * unat b < 2 ^ LENGTH('a) then a * b else - 1)"

lemma unat_max: "unat (- 1 :: 'a::len word) = 2 ^ LENGTH('a) - 1"
  by (simp add: unsigned_minus_1_eq_mask mask_eq_exp_minus_1)

lemma unat_le_max: "unat (a :: 'a::len word) \<le> 2 ^ LENGTH('a) - 1"
  using unsigned_less [where w = a and 'a = nat] by linarith

lemma unat_saturating_add [sat_simps]:
  "unat (saturating_add (a :: 'a::len word) b) = min (unat a + unat b) (2 ^ LENGTH('a) - 1)"
proof (cases "unat a + unat b < 2 ^ LENGTH('a)")
  case True
  then show ?thesis
    by (simp add: saturating_add_def unat_word_ariths)
next
  case False
  then show ?thesis
    by (simp add: saturating_add_def unat_max)
qed

lemma unat_saturating_sub [sat_simps]:
  "unat (saturating_sub (a :: 'a::len word) b) = unat a - unat b"
  by (auto simp: saturating_sub_def unat_sub word_le_nat_alt)

lemma unat_saturating_mul [sat_simps]:
  "unat (saturating_mul (a :: 'a::len word) b) = min (unat a * unat b) (2 ^ LENGTH('a) - 1)"
proof (cases "unat a * unat b < 2 ^ LENGTH('a)")
  case True
  then show ?thesis
    by (simp add: saturating_mul_def unat_word_ariths)
next
  case False
  then show ?thesis
    by (simp add: saturating_mul_def unat_max)
qed

text \<open>Evaluation compares integers, which have binary representations.\<close>

lemma int_unat_bound: "int n < 2 ^ k \<longleftrightarrow> n < 2 ^ k"
  by (metis of_nat_less_iff of_nat_numeral of_nat_power)

lemma saturating_add_code [code]:
  "saturating_add a (b :: 'a::len word) = (if uint a + uint b < 2 ^ LENGTH('a) then a + b else - 1)"
proof -
  have "uint a + uint b = int (unat a + unat b)" by simp
  then show ?thesis by (simp only: saturating_add_def int_unat_bound)
qed

lemma saturating_mul_code [code]:
  "saturating_mul a (b :: 'a::len word) = (if uint a * uint b < 2 ^ LENGTH('a) then a * b else - 1)"
proof -
  have "uint a * uint b = int (unat a * unat b)" by simp
  then show ?thesis by (simp only: saturating_mul_def int_unat_bound)
qed

lemma saturating_add_ge: "a \<le> saturating_add a (b :: 'a::len word)"
  using unat_le_max [of a] by (simp add: word_le_nat_alt unat_saturating_add)

lemma saturating_add_mono:
  "a \<le> b \<Longrightarrow> saturating_add a c \<le> saturating_add b (c :: 'a::len word)"
  by (simp add: word_le_nat_alt unat_saturating_add)

lemma saturating_add_one_pos: "saturating_add a (1 :: 'a::len word) \<noteq> 0"
proof -
  have "0 < unat (saturating_add a (1 :: 'a word))"
    using one_less_power [of "2 :: nat" "LENGTH('a)"] by (simp add: unat_saturating_add)
  then show ?thesis by (metis less_numeral_extra(3) unat_0)
qed

lemma saturating_sub_le: "saturating_sub a b \<le> (a :: 'a::len word)"
  by (simp add: word_le_nat_alt unat_saturating_sub)

lemma saturating_add_zero [simp]: "saturating_add a 0 = a"
  using unat_le_max [of a] by (simp add: saturating_add_def)

lemma saturating_sub_zero [simp]: "saturating_sub a 0 = a"
  by (simp add: saturating_sub_def)

section \<open>Results\<close>

text \<open>The \<open>?\<close> operator: continue with the value, return the error unchanged.\<close>

definition res_bind :: "'e + 'a \<Rightarrow> ('a \<Rightarrow> 'e + 'b) \<Rightarrow> 'e + 'b" where
  "res_bind r f = (case r of Inl e \<Rightarrow> Inl e | Inr x \<Rightarrow> f x)"

lemma res_bind_simps [simp]: "res_bind (Inl e) f = Inl e" "res_bind (Inr x) f = f x"
  by (simp_all add: res_bind_def)

lemma res_bind_InrE [elim!]:
  assumes "res_bind r f = Inr y"
  obtains x where "r = Inr x" and "f x = Inr y"
  using assms by (cases r) auto

lemma res_bind_ok_iff: "res_bind r f = Inr x \<longleftrightarrow> (\<exists>y. r = Inr y \<and> f y = Inr x)"
  by (cases r) auto

definition unwrap_or :: "'a \<Rightarrow> 'a option \<Rightarrow> 'a" where
  "unwrap_or d x = (case x of Some v \<Rightarrow> v | None \<Rightarrow> d)"

lemma unwrap_or_simps [simp]: "unwrap_or d None = d" "unwrap_or d (Some v) = v"
  by (simp_all add: unwrap_or_def)

section \<open>Strings\<close>

text \<open>Decimal rendering, as \<open>format!\<close> prints unsigned integers.\<close>

fun nat_to_string :: "nat \<Rightarrow> string" where
  "nat_to_string n =
     (if n < 10 then [char_of (48 + n)] else nat_to_string (n div 10) @ [char_of (48 + n mod 10)])"

declare nat_to_string.simps [simp del]

definition int_to_string :: "int \<Rightarrow> string" where
  "int_to_string i = (if i < 0 then CHR ''-'' # nat_to_string (nat (- i)) else nat_to_string (nat i))"

definition char_code :: "char \<Rightarrow> nat" where
  "char_code c = of_char c"

definition is_whitespace :: "char \<Rightarrow> bool" where
  "is_whitespace c = (let n = char_code c in
     (9 \<le> n \<and> n \<le> 13) \<or> n = 32 \<or> n = 133 \<or> n = 160)"

definition trim_start :: "string \<Rightarrow> string" where
  "trim_start s = dropWhile is_whitespace s"

definition trim :: "string \<Rightarrow> string" where
  "trim s = rev (trim_start (rev (trim_start s)))"

definition is_blank :: "string \<Rightarrow> bool" where
  "is_blank s = (trim s = [])"

lemma is_blank_iff: "is_blank s \<longleftrightarrow> (\<forall>c \<in> set s. is_whitespace c)"
proof -
  have "trim s = [] \<longleftrightarrow> (\<forall>c \<in> set (trim_start s). is_whitespace c)"
    by (simp add: trim_def trim_start_def)
  also have "\<dots> \<longleftrightarrow> (\<forall>c \<in> set s. is_whitespace c)"
    by (metis dropWhile_eq_Nil_conv hd_dropWhile list.set_sel(1) set_dropWhileD trim_start_def)
  finally show ?thesis by (simp add: is_blank_def)
qed

definition starts_with :: "string \<Rightarrow> string \<Rightarrow> bool" where
  "starts_with s p = (take (length p) s = p)"

definition strip_prefix :: "string \<Rightarrow> string \<Rightarrow> string option" where
  "strip_prefix s p = (if starts_with s p then Some (drop (length p) s) else None)"

definition ends_with :: "string \<Rightarrow> string \<Rightarrow> bool" where
  "ends_with s p = starts_with (rev s) (rev p)"

text \<open>\<open>trim_end_matches\<close> with a non-empty pattern: the suffix is removed as often as it occurs.\<close>

function trim_end_matches :: "string \<Rightarrow> string \<Rightarrow> string" where
  "trim_end_matches p s =
     (if p \<noteq> [] \<and> ends_with s p \<and> length p \<le> length s
      then trim_end_matches p (take (length s - length p) s) else s)"
  by pat_completeness auto

termination
  by (relation "measure (\<lambda>(p, s). length s)") (auto simp: neq_Nil_conv)

declare trim_end_matches.simps [simp del]

fun str_contains :: "string \<Rightarrow> string \<Rightarrow> bool" where
  "str_contains [] p = (p = [])"
| "str_contains (c # s) p = (starts_with (c # s) p \<or> str_contains s p)"

fun split_char_acc :: "char \<Rightarrow> string \<Rightarrow> string \<Rightarrow> string list" where
  "split_char_acc d acc [] = [rev acc]"
| "split_char_acc d acc (c # s) =
     (if c = d then rev acc # split_char_acc d [] s else split_char_acc d (c # acc) s)"

definition split_char :: "char \<Rightarrow> string \<Rightarrow> string list" where
  "split_char d s = split_char_acc d [] s"

fun join_with :: "string \<Rightarrow> string list \<Rightarrow> string" where
  "join_with sep [] = []"
| "join_with sep [x] = x"
| "join_with sep (x # y # xs) = x @ sep @ join_with sep (y # xs)"

text \<open>\<open>str::lines\<close>: split at line feeds, without the carriage return before one and without an
  empty last line.\<close>

definition strip_cr :: "string \<Rightarrow> string" where
  "strip_cr l = (if l \<noteq> [] \<and> last l = CHR 0x0D then butlast l else l)"

definition str_lines :: "string \<Rightarrow> string list" where
  "str_lines s =
     (let parts = split_char (CHR 0x0A) s
      in map strip_cr (butlast parts) @ (if last parts = [] then [] else [last parts]))"

definition to_ascii_lowercase :: "string \<Rightarrow> string" where
  "to_ascii_lowercase s = map (\<lambda>c. if 65 \<le> char_code c \<and> char_code c \<le> 90
     then char_of (char_code c + 32) else c) s"

text \<open>
  The Unicode classes the sources ask for, on the scalar values below 256: the letters of the
  two Latin blocks, the digits with the superscripts and fractions, and the case mapping.
\<close>

definition is_numeric :: "char \<Rightarrow> bool" where
  "is_numeric c = (let n = char_code c in
     (48 \<le> n \<and> n \<le> 57) \<or> n = 178 \<or> n = 179 \<or> n = 185 \<or> (188 \<le> n \<and> n \<le> 190))"

definition is_alphabetic :: "char \<Rightarrow> bool" where
  "is_alphabetic c = (let n = char_code c in
     (65 \<le> n \<and> n \<le> 90) \<or> (97 \<le> n \<and> n \<le> 122) \<or> n = 170 \<or> n = 181 \<or> n = 186
     \<or> (192 \<le> n \<and> n \<noteq> 215 \<and> n \<noteq> 247))"

definition is_alphanumeric :: "char \<Rightarrow> bool" where
  "is_alphanumeric c = (is_alphabetic c \<or> is_numeric c)"

definition char_to_lowercase :: "char \<Rightarrow> char" where
  "char_to_lowercase c = (let n = char_code c in
     if (65 \<le> n \<and> n \<le> 90) \<or> (192 \<le> n \<and> n \<le> 222 \<and> n \<noteq> 215) then char_of (n + 32) else c)"

definition to_lowercase :: "string \<Rightarrow> string" where
  "to_lowercase s = map char_to_lowercase s"

lemma starts_with_iff_prefix: "starts_with s p \<longleftrightarrow> prefix p s"
  by (metis append_eq_conv_conj append_take_drop_id prefix_def starts_with_def)

lemma str_contains_iff_sublist: "str_contains s p \<longleftrightarrow> sublist p s"
  by (induction s) (auto simp: starts_with_iff_prefix sublist_Cons_right)

lemma split_char_acc_nonempty: "split_char_acc d acc s \<noteq> []"
  by (induction s arbitrary: acc) auto

lemma join_split_char_acc: "join_with [d] (split_char_acc d acc s) = rev acc @ s"
proof (induction s arbitrary: acc)
  case Nil
  show ?case by simp
next
  case (Cons c s)
  show ?case
  proof (cases "c = d")
    case True
    obtain x xs where "split_char_acc d [] s = x # xs"
      using split_char_acc_nonempty [of d "[]" s] by (cases "split_char_acc d [] s") auto
    with True Cons.IH [of "[]"] show ?thesis by simp
  next
    case False
    with Cons.IH [of "c # acc"] show ?thesis by simp
  qed
qed

lemma join_split_char: "join_with [d] (split_char d s) = s"
  by (simp add: split_char_def join_split_char_acc)

section \<open>Words and numbers in text\<close>

fun split_whitespace_acc :: "string \<Rightarrow> string \<Rightarrow> string list" where
  "split_whitespace_acc acc [] = (if acc = [] then [] else [rev acc])"
| "split_whitespace_acc acc (c # s) =
     (if is_whitespace c then (if acc = [] then [] else [rev acc]) @ split_whitespace_acc [] s
      else split_whitespace_acc (c # acc) s)"

definition split_whitespace :: "string \<Rightarrow> string list" where
  "split_whitespace s = split_whitespace_acc [] s"

definition eq_ignore_ascii_case :: "string \<Rightarrow> string \<Rightarrow> bool" where
  "eq_ignore_ascii_case s t = (to_ascii_lowercase s = to_ascii_lowercase t)"

definition quoted :: "string \<Rightarrow> string" where
  "quoted s = CHR 0x27 # s @ [CHR 0x27]"

fun digits_value :: "nat \<Rightarrow> string \<Rightarrow> nat option" where
  "digits_value n [] = Some n"
| "digits_value n (c # s) =
     (if 48 \<le> char_code c \<and> char_code c \<le> 57
      then digits_value (10 * n + (char_code c - 48)) s else None)"

text \<open>\<open>str::parse::<u32>\<close>: an optional plus sign, at least one digit, no overflow.\<close>

definition parse_u32 :: "string \<Rightarrow> nat option" where
  "parse_u32 s = (let d = (if s \<noteq> [] \<and> hd s = CHR ''+'' then tl s else s) in
     if d = [] then None
     else case digits_value 0 d of
       None \<Rightarrow> None
     | Some n \<Rightarrow> if n < 2 ^ 32 then Some n else None)"

lemma dropWhile_end_head:
  "\<lbrakk> t \<noteq> []; \<not> P (hd t) \<rbrakk> \<Longrightarrow> dropWhile P (rev (dropWhile P (rev t))) = rev (dropWhile P (rev t))"
  by (cases t) (auto simp: dropWhile_append)

lemma trim_idem: "trim (trim s) = trim s"
proof (cases "trim_start s = []")
  case False
  then have "dropWhile is_whitespace (trim s) = trim s"
    using dropWhile_end_head [OF False, of is_whitespace]
    by (simp add: trim_def trim_start_def hd_dropWhile)
  then show ?thesis unfolding trim_def [of "trim s"] by (simp add: trim_def trim_start_def)
next
  case True
  have "trim s = []" unfolding trim_def True by (simp add: trim_start_def)
  then show ?thesis by (simp add: trim_def [of "[]"] trim_start_def)
qed

text \<open>\<open>value.map(str::trim).filter(|text| !text.is_empty())\<close>.\<close>

definition trimmed_nonempty :: "string option \<Rightarrow> string option" where
  "trimmed_nonempty v = (case v of None \<Rightarrow> None
     | Some s \<Rightarrow> if trim s = [] then None else Some (trim s))"

text \<open>Joining the words of a text and splitting again gives the same words.\<close>

lemma split_whitespace_acc_fields:
  "\<lbrakk> w \<in> set (split_whitespace_acc acc s); \<forall>c \<in> set acc. \<not> is_whitespace c \<rbrakk>
     \<Longrightarrow> w \<noteq> [] \<and> (\<forall>c \<in> set w. \<not> is_whitespace c)"
  by (induction acc s rule: split_whitespace_acc.induct) (auto split: if_splits)

lemma split_whitespace_fields:
  "w \<in> set (split_whitespace s) \<Longrightarrow> w \<noteq> [] \<and> (\<forall>c \<in> set w. \<not> is_whitespace c)"
  unfolding split_whitespace_def by (rule split_whitespace_acc_fields) auto

lemma split_whitespace_acc_word:
  "\<forall>c \<in> set w. \<not> is_whitespace c \<Longrightarrow>
     split_whitespace_acc acc (w @ s) = split_whitespace_acc (rev w @ acc) s"
  by (induction w arbitrary: acc) auto

lemma split_whitespace_join:
  "(\<And>w. w \<in> set ws \<Longrightarrow> w \<noteq> [] \<and> (\<forall>c \<in> set w. \<not> is_whitespace c)) \<Longrightarrow>
     split_whitespace (join_with '' '' ws) = ws"
proof (induction ws rule: induct_list012)
  case 1
  then show ?case by (simp add: split_whitespace_def)
next
  case (2 w)
  then show ?case
    using split_whitespace_acc_word [of w "[]" "[]"] by (simp add: split_whitespace_def)
next
  case (3 w v ws)
  have blank: "is_whitespace CHR '' ''"
    by (simp add: is_whitespace_def char_code_def)
  have "split_whitespace (join_with '' '' (w # v # ws))
      = split_whitespace_acc (rev w) ('' '' @ join_with '' '' (v # ws))"
    using "3.prems" [of w] split_whitespace_acc_word [of w "[]"] by (simp add: split_whitespace_def)
  also have "\<dots> = w # split_whitespace (join_with '' '' (v # ws))"
    using "3.prems" [of w] blank by (simp add: split_whitespace_def)
  also have "split_whitespace (join_with '' '' (v # ws)) = v # ws"
    by (rule "3.IH"(2), rule "3.prems") simp
  finally show ?case .
qed

lemma split_whitespace_normalized [simp]:
  "split_whitespace (join_with '' '' (split_whitespace s)) = split_whitespace s"
  by (rule split_whitespace_join) (rule split_whitespace_fields)

section \<open>Options\<close>

definition opt_or :: "'a option \<Rightarrow> 'a option \<Rightarrow> 'a option" where
  "opt_or a b = (case a of Some x \<Rightarrow> Some x | None \<Rightarrow> b)"

lemma opt_or_simps [simp]: "opt_or None b = b" "opt_or (Some x) b = Some x"
  by (simp_all add: opt_or_def)

fun find_map :: "('a \<Rightarrow> 'b option) \<Rightarrow> 'a list \<Rightarrow> 'b option" where
  "find_map f [] = None"
| "find_map f (x # xs) = opt_or (f x) (find_map f xs)"

lemma find_map_SomeD: "find_map f xs = Some y \<Longrightarrow> \<exists>x \<in> set xs. f x = Some y"
  by (induction xs) (auto simp: opt_or_def split: option.splits)

lemma find_map_None_iff: "find_map f xs = None \<longleftrightarrow> (\<forall>x \<in> set xs. f x = None)"
  by (induction xs) (auto simp: opt_or_def split: option.splits)

section \<open>Searching and updating a list in place\<close>

text \<open>
  \<open>iter_mut().find(p)\<close> followed by an assignment through the reference: the first element
  that satisfies \<open>p\<close> is rewritten, the others stay.
\<close>

fun update_first :: "('a \<Rightarrow> bool) \<Rightarrow> ('a \<Rightarrow> 'a) \<Rightarrow> 'a list \<Rightarrow> 'a list" where
  "update_first p f [] = []"
| "update_first p f (x # xs) = (if p x then f x # xs else x # update_first p f xs)"

lemma length_update_first [simp]: "length (update_first p f xs) = length xs"
  by (induction xs) auto

lemma map_update_first:
  "(\<And>x. g (f x) = g x) \<Longrightarrow> map g (update_first p f xs) = map g xs"
  by (induction xs) auto

lemma update_first_none: "find p xs = None \<Longrightarrow> update_first p f xs = xs"
  by (induction xs) (auto split: if_splits)

lemma set_update_first_subset: "set (update_first p f xs) \<subseteq> set xs \<union> f ` set xs"
  by (induction xs) auto

text \<open>
  Where the predicate selects by a key that the list holds at most once and the update keeps,
  the in-place update is a pointwise map.
\<close>

lemma update_first_eq_map:
  assumes "distinct (map key xs)"
  shows "update_first (\<lambda>x. key x = k) f xs = map (\<lambda>x. if key x = k then f x else x) xs"
  using assms
proof (induction xs)
  case Nil
  then show ?case by simp
next
  case (Cons x xs)
  have "map (\<lambda>x. if key x = k then f x else x) xs = xs" if "key x = k"
    using that Cons.prems by (intro map_idI) (metis distinct.simps(2) image_eqI list.simps(9) set_map)
  with Cons show ?case by auto
qed

lemma find_SomeD: "find p xs = Some x \<Longrightarrow> p x \<and> x \<in> set xs"
  by (induction xs) (auto split: if_splits)

lemma find_key_unique:
  assumes "distinct (map key xs)" and "x \<in> set xs" and "key x = k"
  shows "find (\<lambda>y. key y = k) xs = Some x"
  using assms by (induction xs) (auto simp: rev_image_eqI)

lemma find_map_key:
  "(\<And>x. key (f x) = key x) \<Longrightarrow>
   find (\<lambda>y. key y = k) (map f xs) = map_option f (find (\<lambda>y. key y = k) xs)"
  by (induction xs) auto

section \<open>Counting elements\<close>

definition count_where :: "('a \<Rightarrow> bool) \<Rightarrow> 'a list \<Rightarrow> nat" where
  "count_where p xs = length (filter p xs)"

lemma count_where_simps [simp]:
  "count_where p [] = 0"
  "count_where p (x # xs) = of_bool (p x) + count_where p xs"
  "count_where p (xs @ ys) = count_where p xs + count_where p ys"
  by (simp_all add: count_where_def)

lemma count_where_update:
  "i < length xs \<Longrightarrow> count_where p (xs[i := y]) + of_bool (p (xs ! i)) = count_where p xs + of_bool (p y)"
proof (induction xs arbitrary: i)
  case Nil
  then show ?case by simp
next
  case (Cons x xs)
  then show ?case by (cases i) auto
qed

section \<open>Interface: a machine whose operations keep an invariant\<close>

text \<open>
  A component is a state and a total step function over the operations its callers may
  perform. The contract is that every operation keeps the invariant and does not lower the
  component's progress measure; what follows for whole runs is proved once here.
\<close>

fun run_ops :: "('op \<Rightarrow> 's \<Rightarrow> 's) \<Rightarrow> 'op list \<Rightarrow> 's \<Rightarrow> 's" where
  "run_ops step [] s = s"
| "run_ops step (x # xs) s = run_ops step xs (step x s)"

lemma run_ops_append [simp]: "run_ops step (xs @ ys) s = run_ops step ys (run_ops step xs s)"
  by (induction xs arbitrary: s) auto

locale invariant_machine =
  fixes step :: "'op \<Rightarrow> 's \<Rightarrow> 's"
    and inv :: "'s \<Rightarrow> bool"
  assumes step_inv: "inv s \<Longrightarrow> inv (step x s)"
begin

lemma run_inv: "inv s \<Longrightarrow> inv (run_ops step xs s)"
  by (induction xs arbitrary: s) (auto simp: step_inv)

lemma run_preserves:
  assumes "inv s" and "P s"
    and "\<And>x s. inv s \<Longrightarrow> P s \<Longrightarrow> P (step x s)"
  shows "P (run_ops step xs s)"
  using assms by (induction xs arbitrary: s) (auto simp: step_inv)

end

text \<open>
  A machine that implements a specification: an abstraction maps each step on a state that
  satisfies the invariant to the step of the specification with the same operation.
\<close>

locale refinement_machine = invariant_machine step inv
  for step :: "'op \<Rightarrow> 's \<Rightarrow> 's" and inv :: "'s \<Rightarrow> bool" +
  fixes spec :: "'op \<Rightarrow> 'a \<Rightarrow> 'a" and abs :: "'s \<Rightarrow> 'a"
  assumes step_refines: "inv s \<Longrightarrow> abs (step x s) = spec x (abs s)"
begin

lemma run_refines: "inv s \<Longrightarrow> abs (run_ops step xs s) = run_ops spec xs (abs s)"
  by (induction xs arbitrary: s) (simp_all add: step_refines step_inv)

end

locale monotone_machine = invariant_machine step inv
  for step :: "'op \<Rightarrow> 's \<Rightarrow> 's" and inv :: "'s \<Rightarrow> bool" +
  fixes measure_of :: "'s \<Rightarrow> nat"
  assumes step_mono: "inv s \<Longrightarrow> measure_of s \<le> measure_of (step x s)"
begin

lemma run_mono: "inv s \<Longrightarrow> measure_of s \<le> measure_of (run_ops step xs s)"
proof (induction xs arbitrary: s)
  case Nil
  show ?case by simp
next
  case (Cons x xs)
  have "measure_of s \<le> measure_of (step x s)"
    using Cons.prems by (rule step_mono)
  also have "\<dots> \<le> measure_of (run_ops step xs (step x s))"
    using Cons.prems by (intro Cons.IH step_inv)
  finally show ?case by simp
qed

end

section \<open>Interface: a textual wire codec\<close>

text \<open>
  Every enumeration that crosses the storage or the event boundary has a pair of functions
  \<open>as_str\<close> and \<open>from_wire\<close>. The contract is that they are inverse to each other: what is
  written can be read back, and only what is written can be read.
\<close>

locale wire_codec =
  fixes as_str :: "'a \<Rightarrow> string"
    and from_wire :: "string \<Rightarrow> 'a option"
  assumes from_wire_as_str: "from_wire (as_str x) = Some x"
    and as_str_from_wire: "from_wire s = Some x \<Longrightarrow> as_str x = s"
begin

lemma as_str_inject: "as_str x = as_str y \<longleftrightarrow> x = y"
  by (metis from_wire_as_str option.inject)

lemma from_wire_Some_iff: "from_wire s = Some x \<longleftrightarrow> s = as_str x"
  using from_wire_as_str as_str_from_wire by blast

lemma from_wire_None_iff: "from_wire s = None \<longleftrightarrow> s \<notin> range as_str"
  using from_wire_Some_iff by (metis (no_types, lifting) not_None_eq rangeE rangeI)

end

end
