(* ===== verification/Nexa_Json.thy ===== *)
theory Nexa_Json
  imports Nexa_Prelude "HOL-Library.Char_ord" "HOL-Library.List_Lexorder"
begin

text \<open>
  JSON trees. The sources build, match on and rewrite values of \<open>serde_json::Value\<close> through
  its public constructors, so the model has a datatype with those constructors. An object is
  the key-ordered map of the \<open>serde_json\<close> configuration the workspace uses (no
  \<open>preserve_order\<close>): an association list sorted by key. Parsing text into a tree and printing
  a tree are third-party code; where a component uses them they are arguments of its
  definitions.

  The second half models the structural part of \<open>sensitive_data.rs\<close>: the recursive rewrite
  of the string leaves, over a redaction function for one string (regular expressions, an
  argument).
\<close>

section \<open>Values\<close>

datatype json_number = PosInt u64 | NegInt int | FloatNum string

datatype json =
    JNull
  | JBool bool
  | JNumber json_number
  | JString string
  | JArray "json list"
  | JObject "(string \<times> json) list"

type_synonym jmap = "(string \<times> json) list"

section \<open>Object maps\<close>

definition jmap_get :: "jmap \<Rightarrow> string \<Rightarrow> json option" where
  "jmap_get m k = map_of m k"

fun jmap_insert :: "string \<Rightarrow> json \<Rightarrow> jmap \<Rightarrow> jmap" where
  "jmap_insert k v [] = [(k, v)]"
| "jmap_insert k v ((k', v') # m) =
     (if k = k' then (k, v) # m
      else if k < k' then (k, v) # (k', v') # m
      else (k', v') # jmap_insert k v m)"

definition jmap_remove :: "string \<Rightarrow> jmap \<Rightarrow> jmap" where
  "jmap_remove k m = filter (\<lambda>(k', v). k' \<noteq> k) m"

definition jmap_entry_or_insert :: "string \<Rightarrow> json \<Rightarrow> jmap \<Rightarrow> jmap" where
  "jmap_entry_or_insert k v m = (if jmap_get m k = None then jmap_insert k v m else m)"

definition jmap_ok :: "jmap \<Rightarrow> bool" where
  "jmap_ok m = sorted_wrt (<) (map fst m)"

lemma jmap_ok_distinct: "jmap_ok m \<Longrightarrow> distinct (map fst m)"
  by (simp add: jmap_ok_def strict_sorted_iff)

lemma jmap_get_insert:
  "jmap_ok m \<Longrightarrow> jmap_get (jmap_insert k v m) k' = (if k' = k then Some v else jmap_get m k')"
  by (induction k v m rule: jmap_insert.induct) (auto simp: jmap_get_def jmap_ok_def)

lemma fst_jmap_insert: "set (map fst (jmap_insert k v m)) = insert k (set (map fst m))"
  by (induction k v m rule: jmap_insert.induct) auto

lemma jmap_ok_insert [intro]: "jmap_ok m \<Longrightarrow> jmap_ok (jmap_insert k v m)"
proof (induction k v m rule: jmap_insert.induct)
  case (1 k v)
  then show ?case by (simp add: jmap_ok_def)
next
  case (2 k v k' v' m)
  have tail: "jmap_ok m" and above: "\<forall>x \<in> set (map fst m). k' < x"
    using "2.prems" by (auto simp: jmap_ok_def)
  consider "k = k'" | "k < k'" | "k' < k" by fastforce
  then show ?case
  proof cases
    case 1
    with "2.prems" show ?thesis by (simp add: jmap_ok_def)
  next
    case c2: 2
    with above have "\<forall>x \<in> set (map fst m). k < x" by (meson less_trans)
    with c2 "2.prems" show ?thesis by (auto simp: jmap_ok_def)
  next
    case c3: 3
    with tail have "jmap_ok (jmap_insert k v m)" using "2.IH" by auto
    with above c3 show ?thesis
      using fst_jmap_insert [of k v m] by (auto simp: jmap_ok_def)
  qed
qed

lemma jmap_get_remove: "jmap_get (jmap_remove k m) k' = (if k' = k then None else jmap_get m k')"
  by (induction m) (auto simp: jmap_get_def jmap_remove_def)

lemma jmap_ok_remove [intro]: "jmap_ok m \<Longrightarrow> jmap_ok (jmap_remove k m)"
  by (induction m) (auto simp: jmap_ok_def jmap_remove_def)

lemma jmap_ok_Nil [simp]: "jmap_ok []"
  by (simp add: jmap_ok_def)

lemma jmap_get_entry_or_insert:
  "jmap_ok m \<Longrightarrow> jmap_get (jmap_entry_or_insert k v m) k' =
     (if k' = k \<and> jmap_get m k = None then Some v else jmap_get m k')"
  by (simp add: jmap_entry_or_insert_def jmap_get_insert)

lemma jmap_ok_entry_or_insert [intro]: "jmap_ok m \<Longrightarrow> jmap_ok (jmap_entry_or_insert k v m)"
  by (auto simp: jmap_entry_or_insert_def)

text \<open>A tree is well formed when the maps of all its objects are key-ordered.\<close>

fun json_ok :: "json \<Rightarrow> bool" where
  "json_ok (JArray xs) = list_all json_ok xs"
| "json_ok (JObject m) = (jmap_ok m \<and> list_all (\<lambda>kv. json_ok (snd kv)) m)"
| "json_ok _ = True"

section \<open>Accessors\<close>

text \<open>\<open>Value::get\<close> with a string key: the entry of an object, nothing for other values.\<close>

fun json_get :: "json \<Rightarrow> string \<Rightarrow> json option" where
  "json_get (JObject m) k = jmap_get m k"
| "json_get _ k = None"

fun json_as_str :: "json \<Rightarrow> string option" where
  "json_as_str (JString s) = Some s"
| "json_as_str _ = None"

fun json_as_bool :: "json \<Rightarrow> bool option" where
  "json_as_bool (JBool b) = Some b"
| "json_as_bool _ = None"

fun json_as_u64 :: "json \<Rightarrow> u64 option" where
  "json_as_u64 (JNumber (PosInt n)) = Some n"
| "json_as_u64 _ = None"

fun json_as_i64 :: "json \<Rightarrow> int option" where
  "json_as_i64 (JNumber (PosInt n)) = (if uint n < 2 ^ 63 then Some (uint n) else None)"
| "json_as_i64 (JNumber (NegInt i)) = Some i"
| "json_as_i64 _ = None"

fun json_as_array :: "json \<Rightarrow> json list option" where
  "json_as_array (JArray xs) = Some xs"
| "json_as_array _ = None"

text \<open>A string argument of a call: \<open>args.get(key).and_then(Value::as_str)\<close>.\<close>

definition str_arg :: "json \<Rightarrow> string \<Rightarrow> string option" where
  "str_arg args k = Option.bind (json_get args k) json_as_str"

section \<open>Redaction of string leaves\<close>

text \<open>
  \<open>sanitize_json_strings\<close> of \<open>sensitive_data.rs\<close>. The argument \<open>redact\<close> is
  \<open>sanitize_diagnostic\<close> with the explicit secret fixed; it runs regular expressions and is
  not modelled.
\<close>

primrec sanitize_json_strings :: "(string \<Rightarrow> string) \<Rightarrow> json \<Rightarrow> json" where
  "sanitize_json_strings redact JNull = JNull"
| "sanitize_json_strings redact (JBool b) = JBool b"
| "sanitize_json_strings redact (JNumber n) = JNumber n"
| "sanitize_json_strings redact (JString s) = JString (redact s)"
| "sanitize_json_strings redact (JArray xs) = JArray (map (sanitize_json_strings redact) xs)"
| "sanitize_json_strings redact (JObject m) =
     JObject (map (map_prod id (sanitize_json_strings redact)) m)"

lemma sanitize_null [simp]: "sanitize_json_strings redact v = JNull \<longleftrightarrow> v = JNull"
  by (cases v) auto

lemma json_get_sanitize:
  "json_get (sanitize_json_strings redact v) k =
     map_option (sanitize_json_strings redact) (json_get v k)"
proof (cases v)
  case (JObject m)
  have "map_of (map (map_prod id (sanitize_json_strings redact)) m) k
      = map_option (sanitize_json_strings redact) (map_of m k)"
    by (induction m) auto
  with JObject show ?thesis by (simp add: jmap_get_def)
qed auto

end
