(* ===== verification/Agent_Run.thy ===== *)
theory Agent_Run
  imports Nexa_Json
begin

text \<open>
  The run event protocol, \<open>crates/core/src/agent_run.rs\<close>: the enumerations that cross the
  storage boundary with their wire names, the presentation table, the payload contract of
  every event kind, the event record, its builders and its validation. The enumeration
  variants carry the name of their type as a prefix (\<open>Kind_Done\<close>, \<open>Phase_Done\<close>), because
  several types of the source share variant names.

  The wire codecs are interpretations of \<open>wire_codec\<close>. The lemmas show when validation
  accepts an event, what it reports otherwise, and that the builders only construct events
  the contract accepts.
\<close>

section \<open>Enumerations and wire names\<close>

datatype agent_run_phase =
    Phase_Routing | Phase_Planning | Phase_Responding | Phase_Tooling | Phase_Approval
  | Phase_AwaitingUserInput | Phase_Paused | Phase_Compacting | Phase_Accounting | Phase_Done

fun phase_as_str :: "agent_run_phase \<Rightarrow> string" where
  "phase_as_str Phase_Routing = ''routing''"
| "phase_as_str Phase_Planning = ''planning''"
| "phase_as_str Phase_Responding = ''responding''"
| "phase_as_str Phase_Tooling = ''tooling''"
| "phase_as_str Phase_Approval = ''approval''"
| "phase_as_str Phase_AwaitingUserInput = ''awaiting_user_input''"
| "phase_as_str Phase_Paused = ''paused''"
| "phase_as_str Phase_Compacting = ''compacting''"
| "phase_as_str Phase_Accounting = ''accounting''"
| "phase_as_str Phase_Done = ''done''"

definition phase_from_wire :: "string \<Rightarrow> agent_run_phase option" where
  "phase_from_wire = map_of
     [(''routing'', Phase_Routing), (''planning'', Phase_Planning),
      (''responding'', Phase_Responding), (''tooling'', Phase_Tooling),
      (''approval'', Phase_Approval), (''awaiting_user_input'', Phase_AwaitingUserInput),
      (''paused'', Phase_Paused), (''compacting'', Phase_Compacting),
      (''accounting'', Phase_Accounting), (''done'', Phase_Done)]"

datatype agent_run_event_kind =
    Kind_OutputDelta | Kind_OutputSnapshot | Kind_StreamReset | Kind_Thinking | Kind_Status
  | Kind_PlanUpdated | Kind_ToolPreparing | Kind_ToolStarted | Kind_ToolProgress
  | Kind_ToolCompleted | Kind_ApprovalRequested | Kind_ApprovalResolved | Kind_RecoveryAttempt
  | Kind_UsageUpdated | Kind_AutoCompacted | Kind_Done | Kind_Error

definition all_kinds :: "agent_run_event_kind list" where
  "all_kinds =
     [Kind_OutputDelta, Kind_OutputSnapshot, Kind_StreamReset, Kind_Thinking, Kind_Status,
      Kind_PlanUpdated, Kind_ToolPreparing, Kind_ToolStarted, Kind_ToolProgress,
      Kind_ToolCompleted, Kind_ApprovalRequested, Kind_ApprovalResolved, Kind_RecoveryAttempt,
      Kind_UsageUpdated, Kind_AutoCompacted, Kind_Done, Kind_Error]"

fun kind_as_str :: "agent_run_event_kind \<Rightarrow> string" where
  "kind_as_str Kind_OutputDelta = ''outputDelta''"
| "kind_as_str Kind_OutputSnapshot = ''outputSnapshot''"
| "kind_as_str Kind_StreamReset = ''streamReset''"
| "kind_as_str Kind_Thinking = ''thinking''"
| "kind_as_str Kind_Status = ''status''"
| "kind_as_str Kind_PlanUpdated = ''planUpdated''"
| "kind_as_str Kind_ToolPreparing = ''toolPreparing''"
| "kind_as_str Kind_ToolStarted = ''toolStarted''"
| "kind_as_str Kind_ToolProgress = ''toolProgress''"
| "kind_as_str Kind_ToolCompleted = ''toolCompleted''"
| "kind_as_str Kind_ApprovalRequested = ''approvalRequested''"
| "kind_as_str Kind_ApprovalResolved = ''approvalResolved''"
| "kind_as_str Kind_RecoveryAttempt = ''recoveryAttempt''"
| "kind_as_str Kind_UsageUpdated = ''usageUpdated''"
| "kind_as_str Kind_AutoCompacted = ''autoCompacted''"
| "kind_as_str Kind_Done = ''done''"
| "kind_as_str Kind_Error = ''error''"

definition kind_from_wire :: "string \<Rightarrow> agent_run_event_kind option" where
  "kind_from_wire = map_of
     [(''outputDelta'', Kind_OutputDelta), (''outputSnapshot'', Kind_OutputSnapshot),
      (''streamReset'', Kind_StreamReset), (''thinking'', Kind_Thinking),
      (''status'', Kind_Status), (''planUpdated'', Kind_PlanUpdated),
      (''toolPreparing'', Kind_ToolPreparing), (''toolStarted'', Kind_ToolStarted),
      (''toolProgress'', Kind_ToolProgress), (''toolCompleted'', Kind_ToolCompleted),
      (''approvalRequested'', Kind_ApprovalRequested),
      (''approvalResolved'', Kind_ApprovalResolved),
      (''recoveryAttempt'', Kind_RecoveryAttempt), (''usageUpdated'', Kind_UsageUpdated),
      (''autoCompacted'', Kind_AutoCompacted), (''done'', Kind_Done), (''error'', Kind_Error)]"

definition kind_is_terminal :: "agent_run_event_kind \<Rightarrow> bool" where
  "kind_is_terminal k = (k = Kind_Done \<or> k = Kind_Error)"

datatype agent_run_event_visibility = Visibility_User | Visibility_Developer | Visibility_Internal

fun visibility_as_str :: "agent_run_event_visibility \<Rightarrow> string" where
  "visibility_as_str Visibility_User = ''user''"
| "visibility_as_str Visibility_Developer = ''developer''"
| "visibility_as_str Visibility_Internal = ''internal''"

definition visibility_from_wire :: "string \<Rightarrow> agent_run_event_visibility option" where
  "visibility_from_wire = map_of
     [(''user'', Visibility_User), (''developer'', Visibility_Developer),
      (''internal'', Visibility_Internal)]"

datatype agent_run_event_persistence = Persistence_Durable | Persistence_Ephemeral

fun persistence_as_str :: "agent_run_event_persistence \<Rightarrow> string" where
  "persistence_as_str Persistence_Durable = ''durable''"
| "persistence_as_str Persistence_Ephemeral = ''ephemeral''"

definition persistence_from_wire :: "string \<Rightarrow> agent_run_event_persistence option" where
  "persistence_from_wire = map_of
     [(''durable'', Persistence_Durable), (''ephemeral'', Persistence_Ephemeral)]"

datatype agent_run_display_kind =
    Display_Output | Display_Reasoning | Display_Status | Display_Plan | Display_Tool
  | Display_Approval | Display_Recovery | Display_Steering | Display_Usage
  | Display_Compaction | Display_Completion | Display_Error

fun display_as_str :: "agent_run_display_kind \<Rightarrow> string" where
  "display_as_str Display_Output = ''output''"
| "display_as_str Display_Reasoning = ''reasoning''"
| "display_as_str Display_Status = ''status''"
| "display_as_str Display_Plan = ''plan''"
| "display_as_str Display_Tool = ''tool''"
| "display_as_str Display_Approval = ''approval''"
| "display_as_str Display_Recovery = ''recovery''"
| "display_as_str Display_Steering = ''steering''"
| "display_as_str Display_Usage = ''usage''"
| "display_as_str Display_Compaction = ''compaction''"
| "display_as_str Display_Completion = ''completion''"
| "display_as_str Display_Error = ''error''"

definition display_from_wire :: "string \<Rightarrow> agent_run_display_kind option" where
  "display_from_wire = map_of
     [(''output'', Display_Output), (''reasoning'', Display_Reasoning),
      (''status'', Display_Status), (''plan'', Display_Plan), (''tool'', Display_Tool),
      (''approval'', Display_Approval), (''recovery'', Display_Recovery),
      (''steering'', Display_Steering), (''usage'', Display_Usage),
      (''compaction'', Display_Compaction), (''completion'', Display_Completion),
      (''error'', Display_Error)]"

datatype agent_run_event_importance = Importance_Low | Importance_Normal | Importance_High

fun importance_as_str :: "agent_run_event_importance \<Rightarrow> string" where
  "importance_as_str Importance_Low = ''low''"
| "importance_as_str Importance_Normal = ''normal''"
| "importance_as_str Importance_High = ''high''"

definition importance_from_wire :: "string \<Rightarrow> agent_run_event_importance option" where
  "importance_from_wire = map_of
     [(''low'', Importance_Low), (''normal'', Importance_Normal), (''high'', Importance_High)]"

lemmas wire_tables =
  phase_from_wire_def kind_from_wire_def visibility_from_wire_def persistence_from_wire_def
  display_from_wire_def importance_from_wire_def

interpretation phase_wire: wire_codec phase_as_str phase_from_wire
proof unfold_locales
  show "phase_from_wire (phase_as_str x) = Some x" for x
    by (cases x) (simp_all add: wire_tables)
  show "phase_from_wire s = Some x \<Longrightarrow> phase_as_str x = s" for s x
    by (auto simp: wire_tables split: if_splits)
qed

interpretation kind_wire: wire_codec kind_as_str kind_from_wire
proof unfold_locales
  show "kind_from_wire (kind_as_str x) = Some x" for x
    by (cases x) (simp_all add: wire_tables)
  show "kind_from_wire s = Some x \<Longrightarrow> kind_as_str x = s" for s x
    by (auto simp: wire_tables split: if_splits)
qed

interpretation visibility_wire: wire_codec visibility_as_str visibility_from_wire
proof unfold_locales
  show "visibility_from_wire (visibility_as_str x) = Some x" for x
    by (cases x) (simp_all add: wire_tables)
  show "visibility_from_wire s = Some x \<Longrightarrow> visibility_as_str x = s" for s x
    by (auto simp: wire_tables split: if_splits)
qed

interpretation persistence_wire: wire_codec persistence_as_str persistence_from_wire
proof unfold_locales
  show "persistence_from_wire (persistence_as_str x) = Some x" for x
    by (cases x) (simp_all add: wire_tables)
  show "persistence_from_wire s = Some x \<Longrightarrow> persistence_as_str x = s" for s x
    by (auto simp: wire_tables split: if_splits)
qed

interpretation display_wire: wire_codec display_as_str display_from_wire
proof unfold_locales
  show "display_from_wire (display_as_str x) = Some x" for x
    by (cases x) (simp_all add: wire_tables)
  show "display_from_wire s = Some x \<Longrightarrow> display_as_str x = s" for s x
    by (auto simp: wire_tables split: if_splits)
qed

interpretation importance_wire: wire_codec importance_as_str importance_from_wire
proof unfold_locales
  show "importance_from_wire (importance_as_str x) = Some x" for x
    by (cases x) (simp_all add: wire_tables)
  show "importance_from_wire s = Some x \<Longrightarrow> importance_as_str x = s" for s x
    by (auto simp: wire_tables split: if_splits)
qed

section \<open>Presentation and payload contract of a kind\<close>

fun event_presentation ::
  "agent_run_event_kind \<Rightarrow>
     agent_run_event_visibility \<times> agent_run_display_kind \<times> agent_run_event_importance" where
  "event_presentation Kind_OutputDelta = (Visibility_User, Display_Output, Importance_Normal)"
| "event_presentation Kind_OutputSnapshot = (Visibility_User, Display_Output, Importance_Normal)"
| "event_presentation Kind_Thinking = (Visibility_User, Display_Reasoning, Importance_Normal)"
| "event_presentation Kind_PlanUpdated = (Visibility_Developer, Display_Plan, Importance_Normal)"
| "event_presentation Kind_ToolPreparing = (Visibility_User, Display_Tool, Importance_Normal)"
| "event_presentation Kind_ToolStarted = (Visibility_User, Display_Tool, Importance_Normal)"
| "event_presentation Kind_ToolProgress = (Visibility_User, Display_Tool, Importance_Normal)"
| "event_presentation Kind_ToolCompleted = (Visibility_User, Display_Tool, Importance_Normal)"
| "event_presentation Kind_ApprovalRequested = (Visibility_User, Display_Approval, Importance_High)"
| "event_presentation Kind_ApprovalResolved = (Visibility_User, Display_Approval, Importance_High)"
| "event_presentation Kind_StreamReset = (Visibility_Developer, Display_Recovery, Importance_Low)"
| "event_presentation Kind_RecoveryAttempt = (Visibility_User, Display_Recovery, Importance_High)"
| "event_presentation Kind_UsageUpdated = (Visibility_Developer, Display_Usage, Importance_Low)"
| "event_presentation Kind_AutoCompacted = (Visibility_User, Display_Compaction, Importance_Normal)"
| "event_presentation Kind_Done = (Visibility_User, Display_Completion, Importance_High)"
| "event_presentation Kind_Error = (Visibility_User, Display_Error, Importance_High)"
| "event_presentation Kind_Status = (Visibility_User, Display_Status, Importance_Normal)"

record agent_run_event_kind_contract =
  ct_kind :: agent_run_event_kind
  ct_required_payload_paths :: "string list"
  ct_alternative_payload_paths :: "string list list"

fun contract_for_kind :: "agent_run_event_kind \<Rightarrow> agent_run_event_kind_contract" where
  "contract_for_kind Kind_OutputDelta =
     \<lparr>ct_kind = Kind_OutputDelta, ct_required_payload_paths = [''delta''],
      ct_alternative_payload_paths = [[''blockId'', ''channel'', ''offset'', ''delta'']]\<rparr>"
| "contract_for_kind Kind_OutputSnapshot =
     \<lparr>ct_kind = Kind_OutputSnapshot,
      ct_required_payload_paths = [''blockId'', ''channel'', ''text''],
      ct_alternative_payload_paths = []\<rparr>"
| "contract_for_kind Kind_StreamReset =
     \<lparr>ct_kind = Kind_StreamReset, ct_required_payload_paths = [''reason''],
      ct_alternative_payload_paths = []\<rparr>"
| "contract_for_kind Kind_Thinking =
     \<lparr>ct_kind = Kind_Thinking, ct_required_payload_paths = [''content''],
      ct_alternative_payload_paths = []\<rparr>"
| "contract_for_kind Kind_Status =
     \<lparr>ct_kind = Kind_Status, ct_required_payload_paths = [''content''],
      ct_alternative_payload_paths = []\<rparr>"
| "contract_for_kind Kind_PlanUpdated =
     \<lparr>ct_kind = Kind_PlanUpdated, ct_required_payload_paths = [''plan''],
      ct_alternative_payload_paths = []\<rparr>"
| "contract_for_kind Kind_ToolPreparing =
     \<lparr>ct_kind = Kind_ToolPreparing,
      ct_required_payload_paths = [''run.callId'', ''run.toolName'', ''run.status''],
      ct_alternative_payload_paths = [[''toolName'']]\<rparr>"
| "contract_for_kind Kind_ToolStarted =
     \<lparr>ct_kind = Kind_ToolStarted,
      ct_required_payload_paths = [''run.callId'', ''run.toolName'', ''run.status''],
      ct_alternative_payload_paths = [[''toolName'']]\<rparr>"
| "contract_for_kind Kind_ToolProgress =
     \<lparr>ct_kind = Kind_ToolProgress,
      ct_required_payload_paths = [''run.callId'', ''run.toolName'', ''run.status''],
      ct_alternative_payload_paths = [[''note'']]\<rparr>"
| "contract_for_kind Kind_ToolCompleted =
     \<lparr>ct_kind = Kind_ToolCompleted,
      ct_required_payload_paths = [''run.callId'', ''run.toolName'', ''run.status''],
      ct_alternative_payload_paths = [[''toolName'']]\<rparr>"
| "contract_for_kind Kind_ApprovalRequested =
     \<lparr>ct_kind = Kind_ApprovalRequested, ct_required_payload_paths = [''request''],
      ct_alternative_payload_paths = []\<rparr>"
| "contract_for_kind Kind_ApprovalResolved =
     \<lparr>ct_kind = Kind_ApprovalResolved,
      ct_required_payload_paths = [''requestId'', ''decision''],
      ct_alternative_payload_paths = []\<rparr>"
| "contract_for_kind Kind_RecoveryAttempt =
     \<lparr>ct_kind = Kind_RecoveryAttempt, ct_required_payload_paths = [''reason''],
      ct_alternative_payload_paths =
        [[''state.state'', ''state.providerId'', ''state.modelId'', ''state.attempt'',
          ''state.maxAttempts'']]\<rparr>"
| "contract_for_kind Kind_UsageUpdated =
     \<lparr>ct_kind = Kind_UsageUpdated,
      ct_required_payload_paths = [''usageTotal'', ''lastPromptTokens''],
      ct_alternative_payload_paths = []\<rparr>"
| "contract_for_kind Kind_AutoCompacted =
     \<lparr>ct_kind = Kind_AutoCompacted, ct_required_payload_paths = [''evictedCount''],
      ct_alternative_payload_paths = []\<rparr>"
| "contract_for_kind Kind_Done =
     \<lparr>ct_kind = Kind_Done, ct_required_payload_paths = [''message'', ''usageTotal''],
      ct_alternative_payload_paths = []\<rparr>"
| "contract_for_kind Kind_Error =
     \<lparr>ct_kind = Kind_Error, ct_required_payload_paths = [''message''],
      ct_alternative_payload_paths = []\<rparr>"

section \<open>Events\<close>

definition AGENT_RUN_EVENT_VERSION :: u16 where
  "AGENT_RUN_EVENT_VERSION = 2"

datatype agent_run_event_contract_error =
    UnsupportedVersion u16 u16
  | MissingRunId
  | MissingTurnId
  | MissingEventSequence
  | MissingPayloadField string string

record agent_run_event =
  ev_version :: u16
  ev_run_id :: string
  ev_turn_id :: string
  ev_event_seq :: u64
  ev_kind :: agent_run_event_kind
  ev_phase :: agent_run_phase
  ev_visibility :: agent_run_event_visibility
  ev_persistence :: agent_run_event_persistence
  ev_display_kind :: agent_run_display_kind
  ev_importance :: agent_run_event_importance
  ev_label :: string
  ev_status :: "string option"
  ev_payload :: json
  ev_created_at :: "string option"

definition with_context ::
  "agent_run_event \<Rightarrow> string option \<Rightarrow> string option \<Rightarrow> u64 option \<Rightarrow> agent_run_event" where
  "with_context e run_id turn_id event_seq =
     (let e1 = (case run_id of Some r \<Rightarrow> e\<lparr>ev_run_id := r\<rparr> | None \<Rightarrow> e);
          e2 = (case turn_id of Some t \<Rightarrow> e1\<lparr>ev_turn_id := t\<rparr> | None \<Rightarrow> e1)
      in (case event_seq of Some n \<Rightarrow> e2\<lparr>ev_event_seq := n\<rparr> | None \<Rightarrow> e2))"

definition with_presentation ::
  "agent_run_event \<Rightarrow> agent_run_event_visibility \<Rightarrow> agent_run_display_kind \<Rightarrow>
     agent_run_event_importance \<Rightarrow> agent_run_event" where
  "with_presentation e v d i = e\<lparr>ev_visibility := v, ev_display_kind := d, ev_importance := i\<rparr>"

definition is_durable :: "agent_run_event \<Rightarrow> bool" where
  "is_durable e = (ev_persistence e = Persistence_Durable)"

definition is_terminal :: "agent_run_event \<Rightarrow> bool" where
  "is_terminal e = kind_is_terminal (ev_kind e)"

definition closes_run :: "agent_run_event \<Rightarrow> bool" where
  "closes_run e = (is_terminal e \<and> \<not> (ev_kind e = Kind_Done \<and> ev_status e = Some ''paused''))"

subsection \<open>Builders\<close>

text \<open>
  The fields every builder fills in the same way: the protocol version, the presentation of
  the kind, durable persistence and no creation time.
\<close>

definition base_event ::
  "string \<Rightarrow> string option \<Rightarrow> u64 \<Rightarrow> agent_run_event_kind \<Rightarrow> agent_run_phase \<Rightarrow> string \<Rightarrow>
     string option \<Rightarrow> json \<Rightarrow> agent_run_event" where
  "base_event run_id turn_id event_seq kind phase label status payload =
     (case event_presentation kind of (visibility, display_kind, importance) \<Rightarrow>
       \<lparr>ev_version = AGENT_RUN_EVENT_VERSION, ev_run_id = run_id,
        ev_turn_id = (case turn_id of Some t \<Rightarrow> t | None \<Rightarrow> []), ev_event_seq = event_seq,
        ev_kind = kind, ev_phase = phase, ev_visibility = visibility,
        ev_persistence = Persistence_Durable, ev_display_kind = display_kind,
        ev_importance = importance, ev_label = label, ev_status = status,
        ev_payload = payload, ev_created_at = None\<rparr>)"

datatype stream_block_channel = Channel_Answer | Channel_Thinking

fun channel_label :: "stream_block_channel \<Rightarrow> string" where
  "channel_label Channel_Answer = ''answer''"
| "channel_label Channel_Thinking = ''thinking''"

definition output_delta ::
  "string \<Rightarrow> string option \<Rightarrow> u64 \<Rightarrow> string \<Rightarrow> stream_block_channel \<Rightarrow> u64 \<Rightarrow> string \<Rightarrow>
     agent_run_event" where
  "output_delta run_id turn_id event_seq block_id channel offset delta =
     base_event run_id turn_id event_seq Kind_OutputDelta Phase_Responding
       ''Assistant response'' (Some ''streaming'')
       (JObject [(''blockId'', JString block_id), (''channel'', JString (channel_label channel)),
                 (''delta'', JString delta), (''offset'', JNumber (PosInt offset))])"

definition stream_reset ::
  "string \<Rightarrow> string option \<Rightarrow> u64 \<Rightarrow> string \<Rightarrow> bool \<Rightarrow> agent_run_event" where
  "stream_reset run_id turn_id event_seq reason discard_sample =
     base_event run_id turn_id event_seq Kind_StreamReset Phase_Responding reason (Some ''running'')
       (JObject [(''discardSample'', JBool discard_sample), (''reason'', JString reason)])"

definition recovery_attempt ::
  "string \<Rightarrow> string option \<Rightarrow> u64 \<Rightarrow> string \<Rightarrow> u32 option \<Rightarrow> string option \<Rightarrow> agent_run_event" where
  "recovery_attempt run_id turn_id event_seq reason attempt mode =
     base_event run_id turn_id event_seq Kind_RecoveryAttempt Phase_Responding reason
       (Some ''recovering'')
       (JObject [(''attempt'', case attempt of Some n \<Rightarrow> JNumber (PosInt (ucast n)) | None \<Rightarrow> JNull),
                 (''mode'', case mode of Some m \<Rightarrow> JString m | None \<Rightarrow> JNull),
                 (''reason'', JString reason)])"

text \<open>The object a builder starts from: the given object, or other payload under \<open>data\<close>.\<close>

definition payload_map_of :: "json option \<Rightarrow> jmap" where
  "payload_map_of payload =
     (case payload of
        Some (JObject existing) \<Rightarrow> existing
      | Some existing \<Rightarrow> [(''data'', existing)]
      | None \<Rightarrow> [])"

definition status_update ::
  "string \<Rightarrow> string option \<Rightarrow> u64 \<Rightarrow> agent_run_phase \<Rightarrow> string \<Rightarrow> string option \<Rightarrow> json option \<Rightarrow>
     agent_run_event" where
  "status_update run_id turn_id event_seq phase label status payload =
     base_event run_id turn_id event_seq Kind_Status phase label status
       (JObject (jmap_entry_or_insert ''content'' (JString label) (payload_map_of payload)))"

definition terminal_error ::
  "(string \<Rightarrow> string) \<Rightarrow> string \<Rightarrow> string option \<Rightarrow> u64 \<Rightarrow> string \<Rightarrow> string \<Rightarrow> json option \<Rightarrow>
     agent_run_event" where
  "terminal_error redact run_id turn_id event_seq message status payload =
     (let message' = redact message;
          m = jmap_insert ''status'' (JString status)
                (jmap_insert ''message'' (JString message')
                  (jmap_insert ''type'' (JString ''error'') (payload_map_of payload)))
      in base_event run_id turn_id event_seq Kind_Error Phase_Done message' (Some status)
           (sanitize_json_strings redact (JObject m)))"

definition terminal_status ::
  "string \<Rightarrow> string option \<Rightarrow> u64 \<Rightarrow> string \<Rightarrow> string \<Rightarrow> json option \<Rightarrow> agent_run_event" where
  "terminal_status run_id turn_id event_seq message status payload =
     (let m = jmap_entry_or_insert ''usageTotal'' (JObject [])
                (jmap_insert ''message'' (JString message) (payload_map_of payload))
      in base_event run_id turn_id event_seq Kind_Done Phase_Done message (Some status)
           (JObject m))"

subsection \<open>Validation\<close>

fun payload_has_parts :: "json \<Rightarrow> string list \<Rightarrow> bool" where
  "payload_has_parts current [] = (current \<noteq> JNull)"
| "payload_has_parts current (part # parts) =
     (case current of
        JObject m \<Rightarrow> (case jmap_get m part of
           None \<Rightarrow> False
         | Some nxt \<Rightarrow> payload_has_parts nxt parts)
      | _ \<Rightarrow> False)"

definition payload_has_path :: "json \<Rightarrow> string \<Rightarrow> bool" where
  "payload_has_path payload path = payload_has_parts payload (split_char (CHR ''.'') path)"

definition payload_has_all_paths :: "json \<Rightarrow> string list \<Rightarrow> bool" where
  "payload_has_all_paths payload paths = list_all (payload_has_path payload) paths"

definition validate_durable_contract ::
  "agent_run_event \<Rightarrow> agent_run_event_contract_error + unit" where
  "validate_durable_contract e =
     (if ev_version e \<noteq> AGENT_RUN_EVENT_VERSION
      then Inl (UnsupportedVersion (ev_version e) AGENT_RUN_EVENT_VERSION)
      else if is_blank (ev_run_id e) then Inl MissingRunId
      else if is_blank (ev_turn_id e) then Inl MissingTurnId
      else if ev_event_seq e = 0 then Inl MissingEventSequence
      else
        (let contract = contract_for_kind (ev_kind e);
             required = ct_required_payload_paths contract
         in if payload_has_all_paths (ev_payload e) required
               \<or> list_ex (payload_has_all_paths (ev_payload e))
                    (ct_alternative_payload_paths contract)
            then Inr ()
            else Inl (MissingPayloadField (kind_as_str (ev_kind e))
              (case find (\<lambda>path. \<not> payload_has_path (ev_payload e) path) required of
                 Some path \<Rightarrow> path
               | None \<Rightarrow> (case required of path # _ \<Rightarrow> path | [] \<Rightarrow> [])))))"

subsection \<open>Legacy projections\<close>

text \<open>
  \<open>recovery_metadata\<close> also looks for one Chinese character, which lies outside the scalar
  values of the model and so never occurs in a modelled reason.
\<close>

definition recovery_metadata ::
  "string \<Rightarrow> agent_run_event_kind \<times> agent_run_phase \<times> string \<times> string option" where
  "recovery_metadata reason =
     (if str_contains (to_ascii_lowercase reason) ''retry''
         \<or> str_contains (to_ascii_lowercase reason) ''fallback''
         \<or> str_contains (to_ascii_lowercase reason) ''interrupted''
      then (Kind_RecoveryAttempt, Phase_Responding, reason, Some ''recovering'')
      else (Kind_StreamReset, Phase_Responding, reason, Some ''running''))"

definition controller_status_phase :: "string \<Rightarrow> agent_run_phase" where
  "controller_status_phase code =
     (if code = ''route_selected'' then Phase_Routing
      else if code = ''prefetch_started'' \<or> code = ''prefetch_completed'' then Phase_Planning
      else if code = ''awaiting_user_input'' then Phase_AwaitingUserInput
      else Phase_Responding)"

definition plan_phase :: "string \<Rightarrow> agent_run_phase" where
  "plan_phase phase =
     (if phase = ''routing'' then Phase_Routing
      else if phase = ''tooling'' then Phase_Tooling
      else if phase = ''approval'' then Phase_Approval
      else if phase = ''awaiting_user_input'' then Phase_AwaitingUserInput
      else if phase = ''compacting'' then Phase_Compacting
      else if phase = ''done'' then Phase_Done
      else Phase_Planning)"

text \<open>
  \<open>from_task_payload\<close> reads a stored task payload back. The argument \<open>event_from_value\<close> is
  the derived deserializer of \<open>AgentRunEvent\<close> (\<open>None\<close> when it rejects the value). The
  \<open>usize\<close> offset keeps the 64-bit value.
\<close>

definition from_task_payload ::
  "(json \<Rightarrow> agent_run_event option) \<Rightarrow> json \<Rightarrow> string \<Rightarrow> agent_run_event option" where
  "from_task_payload event_from_value payload fallback_run_id =
     (case json_get payload ''agentRun'' of
        Some agent_run \<Rightarrow> event_from_value agent_run
      | None \<Rightarrow>
        (let field_str = (\<lambda>k. Option.bind (json_get payload k) json_as_str);
             event_type = (case field_str ''eventType'' of Some t \<Rightarrow> t | None \<Rightarrow> []);
             event_seq = (case Option.bind (json_get payload ''eventSeq'') json_as_u64 of
                            Some n \<Rightarrow> n | None \<Rightarrow> 0)
         in if event_type = ''streamReset'' then
              Some (stream_reset fallback_run_id None event_seq
                (case field_str ''reason'' of Some r \<Rightarrow> r | None \<Rightarrow> ''Stream restarted.'')
                (case Option.bind (json_get payload ''discardSample'') json_as_bool of
                   Some b \<Rightarrow> b | None \<Rightarrow> False))
            else if event_type = ''streamBlockDelta'' then
              Option.bind (field_str ''blockId'') (\<lambda>block_id.
              Option.bind (field_str ''channel'') (\<lambda>channel.
              Option.bind (field_str ''delta'') (\<lambda>delta.
                Some (output_delta fallback_run_id None event_seq block_id
                  (if channel = ''thinking'' then Channel_Thinking else Channel_Answer)
                  (case Option.bind (json_get payload ''offset'') json_as_u64 of
                     Some n \<Rightarrow> n | None \<Rightarrow> 0)
                  delta))))
            else None))"

section \<open>Properties\<close>

lemma all_kinds_complete: "k \<in> set all_kinds"
  by (cases k) (simp_all add: all_kinds_def)

lemma contract_required_nonempty: "ct_required_payload_paths (contract_for_kind k) \<noteq> []"
  by (cases k) simp_all

text \<open>
  Wire round trip: for each of the six enumerations of the run event protocol, a stored
  name is read back as exactly the value that writes it, and nothing else is read at all.
\<close>

theorem event_wire_round_trip:
  "(phase_from_wire s = Some p \<longleftrightarrow> s = phase_as_str p)
   \<and> (kind_from_wire s = Some k \<longleftrightarrow> s = kind_as_str k)
   \<and> (visibility_from_wire s = Some v \<longleftrightarrow> s = visibility_as_str v)
   \<and> (persistence_from_wire s = Some d \<longleftrightarrow> s = persistence_as_str d)
   \<and> (display_from_wire s = Some y \<longleftrightarrow> s = display_as_str y)
   \<and> (importance_from_wire s = Some i \<longleftrightarrow> s = importance_as_str i)"
  by (simp add: phase_wire.from_wire_Some_iff kind_wire.from_wire_Some_iff
      visibility_wire.from_wire_Some_iff persistence_wire.from_wire_Some_iff
      display_wire.from_wire_Some_iff importance_wire.from_wire_Some_iff)

subsection \<open>What validation accepts and reports\<close>

definition payload_meets_contract :: "agent_run_event_kind \<Rightarrow> json \<Rightarrow> bool" where
  "payload_meets_contract k payload =
     (\<exists>paths \<in> set (ct_required_payload_paths (contract_for_kind k)
                 # ct_alternative_payload_paths (contract_for_kind k)).
        \<forall>path \<in> set paths. payload_has_path payload path)"

lemma payload_meets_contract_alt:
  "payload_meets_contract k payload \<longleftrightarrow>
     payload_has_all_paths payload (ct_required_payload_paths (contract_for_kind k))
     \<or> list_ex (payload_has_all_paths payload) (ct_alternative_payload_paths (contract_for_kind k))"
  by (auto simp: payload_meets_contract_def payload_has_all_paths_def list_all_iff list_ex_iff)

lemma validate_ok_iff:
  "validate_durable_contract e = Inr () \<longleftrightarrow>
     ev_version e = AGENT_RUN_EVENT_VERSION \<and> \<not> is_blank (ev_run_id e)
     \<and> \<not> is_blank (ev_turn_id e) \<and> ev_event_seq e \<noteq> 0
     \<and> payload_meets_contract (ev_kind e) (ev_payload e)"
  by (simp add: validate_durable_contract_def payload_meets_contract_alt Let_def)

lemma validate_missing_field:
  assumes "validate_durable_contract e = Inl (MissingPayloadField k path)"
  shows "k = kind_as_str (ev_kind e)
    \<and> path \<in> set (ct_required_payload_paths (contract_for_kind (ev_kind e)))
    \<and> \<not> payload_has_path (ev_payload e) path"
proof -
  let ?req = "ct_required_payload_paths (contract_for_kind (ev_kind e))"
  let ?missing = "find (\<lambda>path. \<not> payload_has_path (ev_payload e) path) ?req"
  have not_all: "\<not> payload_has_all_paths (ev_payload e) ?req"
    and k: "k = kind_as_str (ev_kind e)"
    and path: "path = (case ?missing of Some path \<Rightarrow> path
        | None \<Rightarrow> (case ?req of path # _ \<Rightarrow> path | [] \<Rightarrow> []))"
    using assms by (auto simp: validate_durable_contract_def Let_def split: if_splits)
  from not_all obtain q where "?missing = Some q"
    by (auto simp: payload_has_all_paths_def list_all_iff find_None_iff dest: find_None_iff
        [THEN iffD1] split: option.splits) (metis find_None_iff not_Some_eq)
  with find_SomeD [OF this] k path show ?thesis by simp
qed

text \<open>
  durable contract. Validation accepts an event exactly when it has protocol version 2, a
  run and a turn that are not blank, a sequence number above zero and a payload with all
  required paths or all paths of one alternative; a payload error names a required path that
  the payload really lacks.
\<close>

theorem validate_durable_contract_correct:
  "(validate_durable_contract e = Inr () \<longleftrightarrow>
      ev_version e = 2 \<and> \<not> is_blank (ev_run_id e) \<and> \<not> is_blank (ev_turn_id e)
      \<and> 0 < unat (ev_event_seq e) \<and> payload_meets_contract (ev_kind e) (ev_payload e))
   \<and> (\<forall>k path. validate_durable_contract e = Inl (MissingPayloadField k path) \<longrightarrow>
        path \<in> set (ct_required_payload_paths (contract_for_kind (ev_kind e)))
        \<and> \<not> payload_has_path (ev_payload e) path)"
  using validate_missing_field [of e]
  by (auto simp: validate_ok_iff AGENT_RUN_EVENT_VERSION_def unat_gt_0)

text \<open>Validation does not look at the sequence number beyond its being positive.\<close>

lemma validate_resequence:
  "m \<noteq> 0 \<Longrightarrow> n \<noteq> 0 \<Longrightarrow>
   validate_durable_contract (e\<lparr>ev_event_seq := m\<rparr>)
     = validate_durable_contract (e\<lparr>ev_event_seq := n\<rparr>)"
  by (simp add: validate_durable_contract_def Let_def)

subsection \<open>What the builders construct\<close>

lemma base_event_sel [simp]:
  "ev_version (base_event r t n k p l s j) = AGENT_RUN_EVENT_VERSION"
  "ev_run_id (base_event r t n k p l s j) = r"
  "ev_turn_id (base_event r t n k p l s j) = (case t of Some t \<Rightarrow> t | None \<Rightarrow> [])"
  "ev_event_seq (base_event r t n k p l s j) = n"
  "ev_kind (base_event r t n k p l s j) = k"
  "ev_phase (base_event r t n k p l s j) = p"
  "ev_persistence (base_event r t n k p l s j) = Persistence_Durable"
  "ev_label (base_event r t n k p l s j) = l"
  "ev_status (base_event r t n k p l s j) = s"
  "ev_payload (base_event r t n k p l s j) = j"
  by (simp_all add: base_event_def split: prod.splits)

lemma payload_map_of_ok: "(\<And>j. payload = Some j \<Longrightarrow> json_ok j) \<Longrightarrow> jmap_ok (payload_map_of payload)"
  by (auto simp: payload_map_of_def jmap_ok_def split: option.splits json.splits)

lemma has_path_single:
  "CHR ''.'' \<notin> set key \<Longrightarrow>
   payload_has_path (JObject m) key \<longleftrightarrow> (\<exists>v. jmap_get m key = Some v \<and> v \<noteq> JNull)"
proof -
  have split: "split_char_acc d acc s = [rev acc @ s]" if "d \<notin> set s" for d acc s
    using that by (induction s arbitrary: acc) auto
  show "CHR ''.'' \<notin> set key \<Longrightarrow> ?thesis"
    by (simp add: payload_has_path_def split_char_def split split: option.splits)
qed

lemmas payload_contract_simps =
  payload_meets_contract_def has_path_single jmap_get_insert jmap_get_entry_or_insert
  jmap_ok_insert jmap_ok_entry_or_insert

lemma builder_payloads:
  assumes "jmap_ok (payload_map_of payload)"
  shows "payload_meets_contract Kind_OutputDelta
           (ev_payload (output_delta r t n block channel offset delta))"
    and "payload_meets_contract Kind_StreamReset (ev_payload (stream_reset r t n reason discard))"
    and "payload_meets_contract Kind_RecoveryAttempt
           (ev_payload (recovery_attempt r t n reason attempt mode))"
    and "payload_meets_contract Kind_Status (ev_payload (status_update r t n p l s payload))
           \<longleftrightarrow> jmap_get (payload_map_of payload) ''content'' \<noteq> Some JNull"
    and "payload_meets_contract Kind_Done (ev_payload (terminal_status r t n msg st payload))
           \<longleftrightarrow> jmap_get (payload_map_of payload) ''usageTotal'' \<noteq> Some JNull"
proof -
  show "payload_meets_contract Kind_OutputDelta
         (ev_payload (output_delta r t n block channel offset delta))"
    by (simp add: output_delta_def payload_contract_simps jmap_get_def)
  show "payload_meets_contract Kind_StreamReset (ev_payload (stream_reset r t n reason discard))"
    by (simp add: stream_reset_def payload_contract_simps jmap_get_def)
  show "payload_meets_contract Kind_RecoveryAttempt
         (ev_payload (recovery_attempt r t n reason attempt mode))"
    by (simp add: recovery_attempt_def payload_contract_simps jmap_get_def)
  show "payload_meets_contract Kind_Status (ev_payload (status_update r t n p l s payload))
         \<longleftrightarrow> jmap_get (payload_map_of payload) ''content'' \<noteq> Some JNull"
    using assms by (auto simp: status_update_def payload_contract_simps)
  show "payload_meets_contract Kind_Done (ev_payload (terminal_status r t n msg st payload))
         \<longleftrightarrow> jmap_get (payload_map_of payload) ''usageTotal'' \<noteq> Some JNull"
    using assms by (auto simp: terminal_status_def payload_contract_simps)
qed

lemma terminal_error_payload:
  assumes "jmap_ok (payload_map_of payload)"
  shows "payload_meets_contract Kind_Error
           (ev_payload (terminal_error redact r t n msg st payload))"
proof -
  let ?m = "jmap_insert ''status'' (JString st) (jmap_insert ''message'' (JString (redact msg))
              (jmap_insert ''type'' (JString ''error'') (payload_map_of payload)))"
  have "json_get (sanitize_json_strings redact (JObject ?m)) ''message''
      = Some (JString (redact (redact msg)))"
    using assms unfolding json_get_sanitize by (simp add: jmap_get_insert jmap_ok_insert)
  then show ?thesis
    by (simp add: terminal_error_def Let_def payload_meets_contract_def has_path_single)
qed

lemmas builder_sels =
  output_delta_def stream_reset_def recovery_attempt_def status_update_def terminal_status_def
  terminal_error_def Let_def

text \<open>
  the builders construct valid events. With a run and a turn that are not blank and a
  positive sequence number, every builder's event passes validation; for \<open>status_update\<close> and
  \<open>terminal_status\<close> this needs that the caller's payload does not hold an explicit null under
  the key the builder would otherwise fill.
\<close>

theorem builders_meet_contract:
  assumes "\<not> is_blank r" and "\<not> is_blank t" and "n \<noteq> 0"
    and "\<And>j. payload = Some j \<Longrightarrow> json_ok j"
  shows "validate_durable_contract (output_delta r (Some t) n block channel offset delta) = Inr ()
    \<and> validate_durable_contract (stream_reset r (Some t) n reason discard) = Inr ()
    \<and> validate_durable_contract (recovery_attempt r (Some t) n reason attempt mode) = Inr ()
    \<and> validate_durable_contract (terminal_error redact r (Some t) n msg st payload) = Inr ()
    \<and> (validate_durable_contract (status_update r (Some t) n p l s payload) = Inr ()
        \<longleftrightarrow> jmap_get (payload_map_of payload) ''content'' \<noteq> Some JNull)
    \<and> (validate_durable_contract (terminal_status r (Some t) n msg st payload) = Inr ()
        \<longleftrightarrow> jmap_get (payload_map_of payload) ''usageTotal'' \<noteq> Some JNull)"
proof -
  have ok: "jmap_ok (payload_map_of payload)"
    using assms(4) by (rule payload_map_of_ok)
  have kinds:
    "ev_kind (output_delta r (Some t) n block channel offset delta) = Kind_OutputDelta"
    "ev_kind (stream_reset r (Some t) n reason discard) = Kind_StreamReset"
    "ev_kind (recovery_attempt r (Some t) n reason attempt mode) = Kind_RecoveryAttempt"
    "ev_kind (status_update r (Some t) n p l s payload) = Kind_Status"
    "ev_kind (terminal_status r (Some t) n msg st payload) = Kind_Done"
    "ev_kind (terminal_error redact r (Some t) n msg st payload) = Kind_Error"
    by (simp_all add: builder_sels)
  have "validate_durable_contract e = Inr () \<longleftrightarrow> payload_meets_contract (ev_kind e) (ev_payload e)"
    if "ev_version e = AGENT_RUN_EVENT_VERSION" "ev_run_id e = r" "ev_turn_id e = t"
      "ev_event_seq e = n" for e
    using that assms(1-3) by (simp add: validate_ok_iff)
  then show ?thesis
    using builder_payloads [OF ok] terminal_error_payload [OF ok] kinds
    by (simp add: builder_sels)
qed

theorem builders_meet_contract_witness:
  "validate_durable_contract (terminal_error id ''r'' (Some ''t'') 1 ''m'' ''failed'' None) = Inr ()
   \<and> validate_durable_contract (status_update ''r'' (Some ''t'') 1 Phase_Paused ''l'' None
        (Some (JObject [(''content'', JNull)]))) \<noteq> Inr ()"
proof -
  have blank: "\<not> is_blank ''r''" "\<not> is_blank ''t''"
    by (simp_all add: is_blank_iff is_whitespace_def char_code_def Let_def)
  show ?thesis
    using builders_meet_contract [OF blank, of 1 None] 
      builders_meet_contract [OF blank, of 1 "Some (JObject [(''content'', JNull)])"]
    by (simp add: payload_map_of_def jmap_get_def jmap_ok_def)
qed

theorem validate_durable_contract_witness:
  "validate_durable_contract (stream_reset ''r'' (Some ''t'') 1 ''why'' False) = Inr ()
   \<and> validate_durable_contract
       ((stream_reset ''r'' (Some ''t'') 1 ''why'' False)\<lparr>ev_payload := JObject []\<rparr>)
     = Inl (MissingPayloadField ''streamReset'' ''reason'')
   \<and> \<not> payload_has_path (JObject []) ''reason''"
proof -
  let ?e = "stream_reset ''r'' (Some ''t'') 1 ''why'' False"
  let ?bad = "?e\<lparr>ev_payload := JObject []\<rparr>"
  have bad: "validate_durable_contract ?bad
      = Inl (MissingPayloadField ''streamReset'' ''reason'')"
    by code_simp
  then have "\<not> payload_has_path (ev_payload ?bad) ''reason''"
    using validate_durable_contract_correct [of ?bad] by blast
  moreover have "validate_durable_contract ?e = Inr ()"
    by code_simp
  ultimately show ?thesis using bad by simp
qed

end
