(* ===== verification/Core_Error.thy ===== *)
theory Core_Error
  imports Nexa_Prelude
begin

text \<open>
  The error type of the core crate, \<open>crates/core/src/error.rs\<close>. The three variants that wrap
  a foreign error (\<open>rusqlite\<close>, \<open>std::io\<close>, \<open>serde_json\<close>) keep no detail of it.
\<close>

datatype core_error =
    CE_Database
  | CE_Io
  | CE_Serialization
  | CE_Parse string
  | CE_NotFound string
  | CE_InvalidInput string
  | CE_Conflict string
  | CE_Embedding string
  | CE_Llm string
  | CE_RateLimited u64
  | CE_ContextOverflow u32 u32
  | CE_Agent string
  | CE_Ocr string
  | CE_Video string
  | CE_Internal string
  | CE_TransientLlm string
  | CE_ProviderUnavailable u16 string
  | CE_StreamIncomplete string
  | CE_Cancelled string
  | CE_AwaitingUserInput string
  | CE_Mcp string
  | CE_McpTransport string

text \<open>The rendering of an error; \<open>foreign\<close> is the text of the wrapped foreign error.\<close>

fun core_error_display :: "string \<Rightarrow> core_error \<Rightarrow> string" where
  "core_error_display foreign CE_Database = ''Database error: '' @ foreign"
| "core_error_display foreign CE_Io = ''IO error: '' @ foreign"
| "core_error_display foreign CE_Serialization = ''Serialization error: '' @ foreign"
| "core_error_display foreign (CE_Parse m) = ''Parse error: '' @ m"
| "core_error_display foreign (CE_NotFound m) = ''Not found: '' @ m"
| "core_error_display foreign (CE_InvalidInput m) = ''Invalid input: '' @ m"
| "core_error_display foreign (CE_Conflict m) = ''Conflict: '' @ m"
| "core_error_display foreign (CE_Embedding m) = ''Embedding error: '' @ m"
| "core_error_display foreign (CE_Llm m) = ''LLM error: '' @ m"
| "core_error_display foreign (CE_RateLimited n) =
     ''LLM rate limited, retry after '' @ nat_to_string (unat n) @ ''s''"
| "core_error_display foreign (CE_ContextOverflow a b) =
     ''LLM context window exceeded: '' @ nat_to_string (unat a) @ '' tokens > ''
       @ nat_to_string (unat b) @ '' max''"
| "core_error_display foreign (CE_Agent m) = ''Agent error: '' @ m"
| "core_error_display foreign (CE_Ocr m) = ''OCR error: '' @ m"
| "core_error_display foreign (CE_Video m) = ''Video error: '' @ m"
| "core_error_display foreign (CE_Internal m) = ''Internal error: '' @ m"
| "core_error_display foreign (CE_TransientLlm m) = ''LLM transient error (retriable): '' @ m"
| "core_error_display foreign (CE_ProviderUnavailable status m) =
     ''Provider HTTP '' @ nat_to_string (unat status) @ '': '' @ m"
| "core_error_display foreign (CE_StreamIncomplete m) = ''Stream interrupted: '' @ m"
| "core_error_display foreign (CE_Cancelled m) = ''Operation cancelled: '' @ m"
| "core_error_display foreign (CE_AwaitingUserInput i) =
     ''Agent is awaiting user input for interaction '' @ i"
| "core_error_display foreign (CE_Mcp m) = ''MCP error: '' @ m"
| "core_error_display foreign (CE_McpTransport m) = ''MCP transport error: '' @ m"

end
