(* ===== verification/Task_Run.thy ===== *)
theory Task_Run
  imports Agent_Run Core_Error
begin

text \<open>
  The durable run ledger and its task projection: \<open>crates/core/src/task_run.rs\<close> and the SQL it
  issues (\<open>db.rs\<close>, \<open>conversation/mod.rs\<close>). The database is a record of tables, a table is a
  list of rows in insertion order.

  A function that runs inside a transaction returns the changed tables or an error; a
  transaction either commits all of its changes or, when any statement fails, none of them,
  which the sum type expresses. SQLite itself may fail at any point (disk, lock): the
  environment of a transaction says whether it does, and gives \<open>datetime('now')\<close>.

  The lemmas show that a run's ledger only ever grows by events above its head, that it holds
  at most one event that closes the run, and that once a run is closed no batch, no pause
  and no failure claim changes it any more.
\<close>

section \<open>Status names\<close>

datatype task_run_status =
    TRS_Queued | TRS_Running | TRS_Cancelling | TRS_WaitingApproval | TRS_AwaitingUserInput
  | TRS_Completed | TRS_Failed | TRS_TimedOut | TRS_Cancelled | TRS_Paused

fun task_run_status_as_str :: "task_run_status \<Rightarrow> string" where
  "task_run_status_as_str TRS_Queued = ''queued''"
| "task_run_status_as_str TRS_Running = ''running''"
| "task_run_status_as_str TRS_Cancelling = ''cancelling''"
| "task_run_status_as_str TRS_WaitingApproval = ''waiting_approval''"
| "task_run_status_as_str TRS_AwaitingUserInput = ''awaiting_user_input''"
| "task_run_status_as_str TRS_Completed = ''completed''"
| "task_run_status_as_str TRS_Failed = ''failed''"
| "task_run_status_as_str TRS_TimedOut = ''timed_out''"
| "task_run_status_as_str TRS_Cancelled = ''cancelled''"
| "task_run_status_as_str TRS_Paused = ''paused''"

datatype subtask_run_status =
    SRS_Queued | SRS_Running | SRS_Completed | SRS_Failed | SRS_Cancelled

fun subtask_run_status_as_str :: "subtask_run_status \<Rightarrow> string" where
  "subtask_run_status_as_str SRS_Queued = ''queued''"
| "subtask_run_status_as_str SRS_Running = ''running''"
| "subtask_run_status_as_str SRS_Completed = ''completed''"
| "subtask_run_status_as_str SRS_Failed = ''failed''"
| "subtask_run_status_as_str SRS_Cancelled = ''cancelled''"

definition terminal_task_status :: "string \<Rightarrow> bool" where
  "terminal_task_status s =
     (s \<in> {''completed'', ''failed'', ''timed_out'', ''cancelled''})"

section \<open>Tables\<close>

record agent_task_run =
  tr_id :: string
  tr_conversation_id :: string
  tr_turn_id :: string
  tr_user_message_id :: string
  tr_status :: string
  tr_phase :: string
  tr_title :: string
  tr_route_kind :: "string option"
  tr_summary :: "string option"
  tr_error_message :: "string option"
  tr_provider :: "string option"
  tr_model :: "string option"
  tr_plan :: "json option"
  tr_artifacts :: "json option"
  tr_created_at :: string
  tr_updated_at :: string
  tr_started_at :: "string option"
  tr_finished_at :: "string option"

record conversation_turn =
  tn_id :: string
  tn_conversation_id :: string
  tn_status :: string
  tn_assistant_message_id :: "string option"
  tn_updated_at :: string
  tn_finished_at :: "string option"

text \<open>An assistant message with the conversation it is in and the turn its artifacts name.\<close>

record assistant_message =
  am_id :: string
  am_conversation_id :: string
  am_turn_id :: "string option"

record task_resume_checkpoint =
  cp_id :: string
  cp_run_id :: string
  cp_reason :: string
  cp_status :: string
  cp_phase :: string
  cp_state :: json
  cp_resume_prompt :: string
  cp_created_at :: string

record database =
  db_run_events :: "agent_run_event list"
  db_task_runs :: "agent_task_run list"
  db_turns :: "conversation_turn list"
  db_assistant_messages :: "assistant_message list"
  db_checkpoints :: "task_resume_checkpoint list"
  db_unresolved_interactions :: "string list"

record storage_env =
  se_ok :: bool
  se_now :: string

definition run_rows :: "database \<Rightarrow> string \<Rightarrow> agent_run_event list" where
  "run_rows db run_id = filter (\<lambda>e. ev_run_id e = run_id) (db_run_events db)"

section \<open>Ledger queries and inserts (db.rs)\<close>

definition agent_run_event_head :: "database \<Rightarrow> string \<Rightarrow> u64 \<times> bool" where
  "agent_run_event_head db run_id =
     (fold (\<lambda>e m. max m (ev_event_seq e)) (run_rows db run_id) 0,
      list_ex (\<lambda>e. ev_kind e = Kind_Error
                  \<or> (ev_kind e = Kind_Done \<and> unwrap_or [] (ev_status e) \<noteq> ''paused''))
        (run_rows db run_id)
      \<or> list_ex (\<lambda>t. tr_id t = run_id \<and> terminal_task_status (tr_status t)) (db_task_runs db))"

definition agent_event_seq_to_i64 :: "u64 \<Rightarrow> core_error + u64" where
  "agent_event_seq_to_i64 n =
     (if uint n < 2 ^ 63 then Inr n
      else Inl (CE_InvalidInput (''agent run event_seq '' @ nat_to_string (unat n)
             @ '' exceeds SQLite integer range'')))"

fun prepare_events :: "agent_run_event list \<Rightarrow> core_error + agent_run_event list" where
  "prepare_events [] = Inr []"
| "prepare_events (e # es) =
     (case validate_durable_contract e of
        Inl _ \<Rightarrow> Inl (CE_InvalidInput ''invalid agent run event'')
      | Inr _ \<Rightarrow> res_bind (agent_event_seq_to_i64 (ev_event_seq e))
          (\<lambda>_. res_bind (prepare_events es) (\<lambda>rest. Inr (e # rest))))"

text \<open>The primary key of \<open>agent_run_events\<close> is the pair of run and sequence number.\<close>

fun insert_rows :: "agent_run_event list \<Rightarrow> agent_run_event list \<Rightarrow>
    core_error + agent_run_event list" where
  "insert_rows table [] = Inr table"
| "insert_rows table (e # es) =
     (if list_ex (\<lambda>r. ev_run_id r = ev_run_id e \<and> ev_event_seq r = ev_event_seq e) table
      then Inl CE_Database
      else insert_rows (table @ [e]) es)"

definition insert_agent_run_events ::
  "agent_run_event list \<Rightarrow> database \<Rightarrow> core_error + database" where
  "insert_agent_run_events events db =
     (if events = [] then Inr db
      else res_bind (prepare_events events) (\<lambda>prepared.
           res_bind (insert_rows (db_run_events db) prepared) (\<lambda>table.
             Inr (db\<lparr>db_run_events := table\<rparr>))))"

section \<open>Task rows (conversation/mod.rs)\<close>

definition coalesce :: "'a option \<Rightarrow> 'a option \<Rightarrow> 'a option" where
  "coalesce x y = (case x of Some v \<Rightarrow> Some v | None \<Rightarrow> y)"

definition get_agent_task_run :: "database \<Rightarrow> string \<Rightarrow> core_error + agent_task_run" where
  "get_agent_task_run db run_id =
     (case find (\<lambda>t. tr_id t = run_id) (db_task_runs db) of
        Some t \<Rightarrow> Inr t
      | None \<Rightarrow> Inl (CE_NotFound (''Agent task run '' @ run_id)))"

text \<open>
  The guarded updates: they touch the row of the run only while its status is not terminal,
  and report a missing row.
\<close>

definition guarded_task_update ::
  "(agent_task_run \<Rightarrow> agent_task_run) \<Rightarrow> string \<Rightarrow> database \<Rightarrow> core_error + database" where
  "guarded_task_update f run_id db =
     (if list_ex (\<lambda>t. tr_id t = run_id) (db_task_runs db)
      then Inr (db\<lparr>db_task_runs :=
             map (\<lambda>t. if tr_id t = run_id \<and> \<not> terminal_task_status (tr_status t) then f t else t)
               (db_task_runs db)\<rparr>)
      else Inl (CE_NotFound (''Agent task run '' @ run_id)))"

definition project_agent_task_run_progress ::
  "storage_env \<Rightarrow> string \<Rightarrow> string option \<Rightarrow> string option \<Rightarrow> string option \<Rightarrow> string option \<Rightarrow>
     json option \<Rightarrow> json option \<Rightarrow> database \<Rightarrow> core_error + database" where
  "project_agent_task_run_progress env run_id status phase route_kind summary plan artifacts =
     guarded_task_update (\<lambda>t. t\<lparr>
       tr_status := unwrap_or (tr_status t) status,
       tr_phase := unwrap_or (tr_phase t) phase,
       tr_route_kind := coalesce route_kind (tr_route_kind t),
       tr_summary := coalesce summary (tr_summary t),
       tr_plan := coalesce plan (tr_plan t),
       tr_artifacts := coalesce artifacts (tr_artifacts t),
       tr_started_at := (if status = Some ''running'' \<and> tr_status t \<in> {''queued'', ''paused''}
                         then coalesce (tr_started_at t) (Some (se_now env))
                         else tr_started_at t),
       tr_updated_at := se_now env\<rparr>) run_id"

definition project_agent_task_run_finished ::
  "storage_env \<Rightarrow> string \<Rightarrow> string \<Rightarrow> string option \<Rightarrow> string option \<Rightarrow> json option \<Rightarrow>
     database \<Rightarrow> core_error + database" where
  "project_agent_task_run_finished env run_id status summary error_message artifacts =
     guarded_task_update (\<lambda>t. t\<lparr>
       tr_status := status,
       tr_phase := ''done'',
       tr_summary := coalesce summary (tr_summary t),
       tr_error_message := coalesce error_message (tr_error_message t),
       tr_artifacts := coalesce artifacts (tr_artifacts t),
       tr_finished_at := coalesce (tr_finished_at t) (Some (se_now env)),
       tr_updated_at := se_now env\<rparr>) run_id"

definition has_unresolved_interactions :: "database \<Rightarrow> string \<Rightarrow> bool" where
  "has_unresolved_interactions db run_id = (run_id \<in> set (db_unresolved_interactions db))"

section \<open>Projection of one event (task\_run.rs)\<close>

definition emits_snapshot :: "agent_run_event \<Rightarrow> bool" where
  "emits_snapshot e =
     (ev_kind e \<notin> {Kind_OutputDelta, Kind_OutputSnapshot, Kind_Thinking, Kind_UsageUpdated})"

definition preserves_awaiting_status :: "agent_run_event \<Rightarrow> bool" where
  "preserves_awaiting_status e =
     (ev_kind e \<notin> {Kind_Done, Kind_Error}
      \<and> \<not> (ev_kind e = Kind_Status
           \<and> (ev_phase e = Phase_AwaitingUserInput \<or> ev_status e = Some ''cancelling'')))"

definition status_event_task_status :: "agent_run_event \<Rightarrow> task_run_status" where
  "status_event_task_status e =
     (if ev_status e = Some ''queued'' then TRS_Queued
      else if ev_status e = Some ''cancelling'' then TRS_Cancelling
      else if ev_phase e = Phase_AwaitingUserInput then TRS_AwaitingUserInput
      else if ev_phase e = Phase_Paused then TRS_Paused
      else TRS_Running)"

definition done_event_task_status :: "agent_run_event \<Rightarrow> task_run_status \<times> string" where
  "done_event_task_status e =
     (if ev_status e = Some ''cancelled'' then (TRS_Cancelled, ''Agent execution cancelled'')
      else if ev_status e = Some ''timed_out'' then (TRS_TimedOut, ''Agent execution timed out'')
      else if ev_status e = Some ''paused'' then (TRS_Paused, ev_label e)
      else (TRS_Completed, ev_label e))"

definition error_event_task_status :: "agent_run_event \<Rightarrow> task_run_status \<times> string" where
  "error_event_task_status e =
     (if ev_status e = Some ''cancelled'' then (TRS_Cancelled, ''Agent execution cancelled'')
      else if ev_status e = Some ''timed_out'' then (TRS_TimedOut, ''Agent execution timed out'')
      else (TRS_Failed, ''Agent execution failed''))"

definition project_event ::
  "storage_env \<Rightarrow> string \<Rightarrow> agent_run_event \<Rightarrow> database \<Rightarrow> core_error + database" where
  "project_event env run_id e db =
     (case ev_kind e of
        Kind_ApprovalRequested \<Rightarrow>
          project_agent_task_run_progress env run_id
            (Some (task_run_status_as_str TRS_WaitingApproval)) (Some ''approval'') None
            (Some (ev_label e)) None None db
      | Kind_ApprovalResolved \<Rightarrow>
          project_agent_task_run_progress env run_id
            (Some (task_run_status_as_str TRS_Running)) (Some ''tooling'') None
            (Some (ev_label e)) None None db
      | Kind_ToolPreparing \<Rightarrow>
          project_agent_task_run_progress env run_id
            (Some (task_run_status_as_str TRS_Running)) (Some ''tooling'') None
            (Some (ev_label e)) None None db
      | Kind_ToolStarted \<Rightarrow>
          project_agent_task_run_progress env run_id
            (Some (task_run_status_as_str TRS_Running)) (Some ''tooling'') None
            (Some (ev_label e)) None None db
      | Kind_ToolProgress \<Rightarrow>
          project_agent_task_run_progress env run_id
            (Some (task_run_status_as_str TRS_Running)) (Some ''tooling'') None
            (Some (ev_label e)) None None db
      | Kind_ToolCompleted \<Rightarrow>
          project_agent_task_run_progress env run_id
            (Some (task_run_status_as_str TRS_Running)) (Some ''tooling'') None
            (Some (ev_label e)) None None db
      | Kind_PlanUpdated \<Rightarrow>
          project_agent_task_run_progress env run_id
            (Some (task_run_status_as_str TRS_Running)) (Some (phase_as_str (ev_phase e))) None
            (Some (ev_label e)) (json_get (ev_payload e) ''plan'') None db
      | Kind_Status \<Rightarrow>
          project_agent_task_run_progress env run_id
            (Some (task_run_status_as_str (status_event_task_status e)))
            (Some (phase_as_str (ev_phase e)))
            (map_option trim (strip_prefix (ev_label e) ''Route selected: ''))
            (Some (ev_label e)) None
            (if ev_phase e = Phase_Paused then Some (ev_payload e) else None) db
      | Kind_RecoveryAttempt \<Rightarrow>
          project_agent_task_run_progress env run_id
            (Some (task_run_status_as_str TRS_Running)) (Some ''recovering'') None
            (Some (ev_label e)) None None db
      | Kind_Done \<Rightarrow>
          (case done_event_task_status e of (status, summary) \<Rightarrow>
             project_agent_task_run_finished env run_id (task_run_status_as_str status)
               (Some summary) None None db)
      | Kind_Error \<Rightarrow>
          (case error_event_task_status e of (status, summary) \<Rightarrow>
             project_agent_task_run_finished env run_id (task_run_status_as_str status)
               (Some summary) (Some (ev_label e)) None db)
      | _ \<Rightarrow> Inr db)"

definition expected_final_status :: "agent_run_event \<Rightarrow> string" where
  "expected_final_status e =
     (if ev_status e = Some ''cancelled'' then ''cancelled''
      else if ev_status e = Some ''timed_out'' then ''timed_out''
      else if ev_kind e = Kind_Done then ''completed'' else ''failed'')"

definition finalize_open_conversation_turn ::
  "storage_env \<Rightarrow> string \<Rightarrow> agent_run_event \<Rightarrow> database \<Rightarrow> core_error + database" where
  "finalize_open_conversation_turn env run_id e db =
     (case find (\<lambda>t. tr_id t = run_id) (db_task_runs db) of
        None \<Rightarrow> Inl CE_Database
      | Some task \<Rightarrow>
        (if tr_status task \<noteq> expected_final_status e then Inr db
         else
           (let assistant_id =
                  (if tr_status task = ''completed''
                   then Option.bind (json_get (ev_payload e) ''assistantMessageId'') json_as_str
                   else None);
                turn_status =
                  (if tr_status task = ''completed'' then ''success''
                   else if tr_status task = ''cancelled'' then ''cancelled'' else ''error'')
            in if assistant_id \<noteq> None
                  \<and> \<not> list_ex (\<lambda>m. Some (am_id m) = assistant_id
                         \<and> am_conversation_id m = tr_conversation_id task
                         \<and> am_turn_id m = Some (tr_turn_id task)) (db_assistant_messages db)
               then Inl (CE_InvalidInput
                 ''Final assistant message does not belong to this run's conversation turn'')
               else Inr (db\<lparr>db_turns := map (\<lambda>n.
                      if tn_id n = tr_turn_id task
                         \<and> tn_conversation_id n = tr_conversation_id task
                         \<and> tn_finished_at n = None
                      then n\<lparr>tn_status := turn_status,
                             tn_assistant_message_id :=
                               coalesce assistant_id (tn_assistant_message_id n),
                             tn_updated_at := se_now env,
                             tn_finished_at := Some (se_now env)\<rparr>
                      else n) (db_turns db)\<rparr>))))"

definition update_progress_from_event ::
  "storage_env \<Rightarrow> string \<Rightarrow> agent_run_event \<Rightarrow> database \<Rightarrow> core_error + database \<times> bool" where
  "update_progress_from_event env run_id e db =
     (if ev_kind e = Kind_Status \<and> ev_phase e = Phase_AwaitingUserInput
         \<and> \<not> has_unresolved_interactions db run_id
      then Inr (db, emits_snapshot e)
      else
        res_bind
          (if preserves_awaiting_status e
           then res_bind (get_agent_task_run db run_id) (\<lambda>task.
                  Inr (tr_status task = task_run_status_as_str TRS_AwaitingUserInput))
           else Inr False)
          (\<lambda>keep. if keep then Inr (db, emits_snapshot e)
            else res_bind (project_event env run_id e db) (\<lambda>db1.
                 res_bind (if closes_run e
                           then finalize_open_conversation_turn env run_id e db1
                           else Inr db1)
                   (\<lambda>db2. Inr (db2, emits_snapshot e)))))"

section \<open>Transactions (task\_run.rs)\<close>

fun project_batch ::
  "storage_env \<Rightarrow> string \<Rightarrow> agent_run_event list \<Rightarrow> database \<Rightarrow>
     core_error + database \<times> agent_task_run list" where
  "project_batch env run_id [] db = Inr (db, [])"
| "project_batch env run_id (e # es) db =
     res_bind (update_progress_from_event env run_id e db) (\<lambda>(db1, snapshot).
     res_bind (if snapshot
               then res_bind (get_agent_task_run db1 run_id) (\<lambda>task. Inr [task])
               else Inr [])
       (\<lambda>head. res_bind (project_batch env run_id es db1) (\<lambda>(db2, rest).
         Inr (db2, head @ rest))))"

definition commit_run_event_batch ::
  "storage_env \<Rightarrow> string \<Rightarrow> agent_run_event list \<Rightarrow> database \<Rightarrow>
     core_error + database \<times> agent_task_run list" where
  "commit_run_event_batch env run_id events db =
     (if events = [] then Inr (db, [])
      else if \<not> se_ok env then Inl CE_Database
      else if snd (agent_run_event_head db run_id)
      then Inl (CE_Conflict (''Agent Run '' @ run_id @ '' is already closed''))
      else res_bind (insert_agent_run_events events db) (project_batch env run_id events))"

definition pause_artifacts :: "task_resume_checkpoint \<Rightarrow> json" where
  "pause_artifacts cp =
     JObject [(''checkpointId'', JString (cp_id cp)), (''kind'', JString ''resumeCheckpoint''),
              (''resumePrompt'', JString (cp_resume_prompt cp))]"

definition pause_event ::
  "string \<Rightarrow> string \<Rightarrow> u64 \<Rightarrow> task_resume_checkpoint \<Rightarrow> agent_run_event" where
  "pause_event run_id turn_id event_seq cp =
     status_update run_id (Some turn_id) event_seq Phase_Paused
       ''Paused with a resumable checkpoint'' (Some (task_run_status_as_str TRS_Paused))
       (Some (pause_artifacts cp))"

text \<open>The writes of a pause, once its guards have passed: checkpoint, event, task and turn.\<close>

definition write_pause_boundary ::
  "storage_env \<Rightarrow> string \<Rightarrow> string \<Rightarrow> task_resume_checkpoint \<Rightarrow> agent_run_event \<Rightarrow> database \<Rightarrow>
     core_error + database \<times> task_resume_checkpoint \<times> agent_run_event \<times> agent_task_run" where
  "write_pause_boundary env run_id turn_id cp event db =
     (if list_ex (\<lambda>c. cp_id c = cp_id cp) (db_checkpoints db) then Inl CE_Database
      else
        res_bind (insert_agent_run_events [event]
                    (db\<lparr>db_checkpoints := db_checkpoints db @ [cp]\<rparr>)) (\<lambda>db1.
        res_bind (update_progress_from_event env run_id event db1) (\<lambda>(db2, _).
        if length (filter (\<lambda>n. tn_id n = turn_id
               \<and> tn_status n \<notin> {''success'', ''error'', ''cancelled''}) (db_turns db2)) \<noteq> 1
        then Inl (CE_Conflict (''Conversation turn '' @ turn_id
               @ '' changed while its pause was being committed''))
        else
          (let db3 = db2\<lparr>db_turns := map (\<lambda>n.
                 if tn_id n = turn_id
                    \<and> tn_status n \<notin> {''success'', ''error'', ''cancelled''}
                 then n\<lparr>tn_status := ''paused'', tn_finished_at := None,
                        tn_updated_at := se_now env\<rparr>
                 else n) (db_turns db2)\<rparr>
           in res_bind (get_agent_task_run db3 run_id) (\<lambda>snapshot.
                Inr (db3, cp, event, snapshot))))))"

text \<open>
  \<open>prepared\<close> is the checkpoint row that \<open>prepare_task_resume_checkpoint\<close> builds from a fresh
  identifier, the clock and the stored rows before the transaction starts, or its error.
\<close>

definition commit_pause_checkpoint ::
  "storage_env \<Rightarrow> core_error + task_resume_checkpoint \<Rightarrow> string \<Rightarrow> string \<Rightarrow> u64 \<Rightarrow> database \<Rightarrow>
     core_error + database \<times> task_resume_checkpoint \<times> agent_run_event \<times> agent_task_run" where
  "commit_pause_checkpoint env prepared run_id turn_id event_seq db =
     res_bind prepared (\<lambda>cp.
     (let event = pause_event run_id turn_id event_seq cp in
      case validate_durable_contract event of
        Inl _ \<Rightarrow> Inl (CE_InvalidInput ''invalid pause Run Event'')
      | Inr _ \<Rightarrow>
        (if \<not> se_ok env then Inl CE_Database
         else res_bind (get_agent_task_run db run_id) (\<lambda>task.
           if tr_turn_id task \<noteq> turn_id
           then Inl (CE_Conflict (''Agent Run '' @ run_id
                  @ '' changed turns while its pause was being committed''))
           else if tr_status task \<notin> {''queued'', ''running'', ''waiting_approval''}
           then Inl (CE_Conflict (''Agent Run '' @ run_id
                  @ '' cannot be paused from status '' @ tr_status task))
           else if has_unresolved_interactions db run_id
           then Inl (CE_Conflict (''Agent Run '' @ run_id
                  @ '' established a required user-input barrier before pause commit''))
           else
             (case agent_run_event_head db run_id of (durable_head, already_closed) \<Rightarrow>
              if already_closed \<or> event_seq \<noteq> saturating_add durable_head 1
              then Inl (CE_Conflict (''Agent Run '' @ run_id @ '' changed at sequence ''
                     @ nat_to_string (unat durable_head)
                     @ '' while its pause was being committed''))
              else write_pause_boundary env run_id turn_id cp event db)))))"

datatype agent_run_fail_closed_outcome =
    FC_Claimed u64 agent_task_run
  | FC_AlreadyClosed u64

definition fail_run_event_outbox_if_open ::
  "storage_env \<Rightarrow> string \<Rightarrow> string \<Rightarrow> database \<Rightarrow>
     core_error + database \<times> agent_run_fail_closed_outcome" where
  "fail_run_event_outbox_if_open env run_id failure_reason db =
     (if \<not> se_ok env then Inl CE_Database
      else case agent_run_event_head db run_id of (event_seq, already_closed) \<Rightarrow>
        if already_closed then Inr (db, FC_AlreadyClosed event_seq)
        else res_bind (project_agent_task_run_finished env run_id
               (task_run_status_as_str TRS_Failed) (Some ''Run Event outbox failed closed'')
               (Some failure_reason) (Some (JObject [(''reason'', JString failure_reason)])) db)
             (\<lambda>db1. res_bind (get_agent_task_run db1 run_id) (\<lambda>snapshot.
               if tr_status snapshot \<noteq> task_run_status_as_str TRS_Failed
               then Inl (CE_Conflict (''Agent Run '' @ run_id
                      @ '' closed while the outbox failure claim was in progress''))
               else Inr (db1, FC_Claimed event_seq snapshot))))"

definition fail_pre_executor_launch_if_open ::
  "storage_env \<Rightarrow> string \<Rightarrow> string \<Rightarrow> database \<Rightarrow> core_error + database \<times> bool" where
  "fail_pre_executor_launch_if_open env run_id failure_reason db =
     res_bind (fail_run_event_outbox_if_open env run_id failure_reason db) (\<lambda>(db1, outcome).
       Inr (db1, case outcome of FC_Claimed _ _ \<Rightarrow> True | FC_AlreadyClosed _ \<Rightarrow> False))"

section \<open>Closing rows\<close>

lemma closing_row_iff:
  "(ev_kind e = Kind_Error \<or> (ev_kind e = Kind_Done \<and> unwrap_or [] (ev_status e) \<noteq> ''paused''))
     \<longleftrightarrow> closes_run e"
  by (cases "ev_status e") (auto simp: closes_run_def is_terminal_def kind_is_terminal_def)

abbreviation run_closed :: "database \<Rightarrow> string \<Rightarrow> bool" where
  "run_closed db r \<equiv> snd (agent_run_event_head db r)"

abbreviation run_head :: "database \<Rightarrow> string \<Rightarrow> u64" where
  "run_head db r \<equiv> fst (agent_run_event_head db r)"

lemma run_closed_iff:
  "run_closed db r \<longleftrightarrow>
     (\<exists>e \<in> set (run_rows db r). closes_run e)
     \<or> (\<exists>t \<in> set (db_task_runs db). tr_id t = r \<and> terminal_task_status (tr_status t))"
  by (simp add: agent_run_event_head_def closing_row_iff list_ex_iff)

lemma fold_max_ge:
  fixes m :: "'b::linorder"
  shows "m \<le> fold (\<lambda>e m. max m (f e)) xs m \<and> (\<forall>x \<in> set xs. f x \<le> fold (\<lambda>e m. max m (f e)) xs m)"
proof (induction xs arbitrary: m)
  case Nil
  show ?case by simp
next
  case (Cons x xs)
  from Cons.IH [of "max m (f x)"] show ?case by (auto intro: order_trans)
qed

lemma fold_max_le_iff:
  fixes m :: "'b::linorder"
  shows "fold (\<lambda>e m. max m (f e)) xs m \<le> b \<longleftrightarrow> m \<le> b \<and> (\<forall>x \<in> set xs. f x \<le> b)"
  by (induction xs arbitrary: m) auto

lemma run_head_ge: "e \<in> set (run_rows db r) \<Longrightarrow> ev_event_seq e \<le> run_head db r"
  using fold_max_ge [where xs = "run_rows db r" and f = ev_event_seq and m = 0]
  by (auto simp: agent_run_event_head_def)

lemma run_head_le_iff:
  "run_head db r \<le> b \<longleftrightarrow> (\<forall>e \<in> set (run_rows db r). ev_event_seq e \<le> b)"
  by (simp add: agent_run_event_head_def fold_max_le_iff)

section \<open>Ledger inserts\<close>

definition ledger_key :: "agent_run_event \<Rightarrow> string \<times> u64" where
  "ledger_key e = (ev_run_id e, ev_event_seq e)"

definition storable :: "agent_run_event \<Rightarrow> bool" where
  "storable e = (validate_durable_contract e = Inr () \<and> uint (ev_event_seq e) < 2 ^ 63)"

lemma prepare_events_iff:
  "prepare_events es = Inr ps \<longleftrightarrow> ps = es \<and> (\<forall>e \<in> set es. storable e)"
  by (induction es arbitrary: ps)
    (auto simp: storable_def agent_event_seq_to_i64_def res_bind_def split: sum.splits if_splits)

lemma insert_rows_iff:
  "insert_rows table es = Inr out \<longleftrightarrow>
     out = table @ es \<and> distinct (map ledger_key es)
     \<and> ledger_key ` set table \<inter> ledger_key ` set es = {}"
proof (induction es arbitrary: table)
  case Nil
  show ?case by auto
next
  case (Cons e es)
  have "list_ex (\<lambda>r. ev_run_id r = ev_run_id e \<and> ev_event_seq r = ev_event_seq e) table
      \<longleftrightarrow> ledger_key e \<in> ledger_key ` set table"
    by (simp add: list_ex_iff ledger_key_def image_iff) metis
  then show ?case using Cons.IH [of "table @ [e]"] by auto
qed

lemma insert_agent_run_events_iff:
  "insert_agent_run_events es db = Inr db' \<longleftrightarrow>
     db' = db\<lparr>db_run_events := db_run_events db @ es\<rparr>
     \<and> (\<forall>e \<in> set es. storable e) \<and> distinct (map ledger_key es)
     \<and> ledger_key ` set (db_run_events db) \<inter> ledger_key ` set es = {}"
proof (cases "es = []")
  case True
  then show ?thesis by (auto simp: insert_agent_run_events_def)
next
  case False
  have "insert_agent_run_events es db = Inr db' \<longleftrightarrow>
      (\<exists>ps t. prepare_events es = Inr ps \<and> insert_rows (db_run_events db) ps = Inr t
         \<and> db' = db\<lparr>db_run_events := t\<rparr>)"
    using False by (auto simp: insert_agent_run_events_def res_bind_def split: sum.splits)
  then show ?thesis by (auto simp: prepare_events_iff insert_rows_iff)
qed

section \<open>What the task projections leave alone\<close>

lemma guarded_task_update_frame:
  assumes "guarded_task_update f r db = Inr db'"
  shows "db_run_events db' = db_run_events db" "db_turns db' = db_turns db"
    "db_checkpoints db' = db_checkpoints db"
    "db_assistant_messages db' = db_assistant_messages db"
    "db_unresolved_interactions db' = db_unresolved_interactions db"
    "db_task_runs db' = map (\<lambda>t. if tr_id t = r \<and> \<not> terminal_task_status (tr_status t)
        then f t else t) (db_task_runs db)"
    "\<exists>t \<in> set (db_task_runs db). tr_id t = r"
  using assms by (auto simp: guarded_task_update_def list_ex_iff split: if_splits)

text \<open>
  The relation every projection of run \<open>r\<close> keeps: the ledger is untouched, the task table
  changes only in rows of \<open>r\<close> that are not yet terminal, and row identities stay.
\<close>

definition row_step :: "string \<Rightarrow> agent_task_run \<Rightarrow> agent_task_run \<Rightarrow> bool" where
  "row_step r t t' = (tr_id t' = tr_id t \<and> (tr_id t \<noteq> r \<or> terminal_task_status (tr_status t) \<longrightarrow> t' = t))"

definition projects :: "string \<Rightarrow> database \<Rightarrow> database \<Rightarrow> bool" where
  "projects r db db' = (db_run_events db' = db_run_events db
     \<and> db_checkpoints db' = db_checkpoints db
     \<and> list_all2 (row_step r) (db_task_runs db) (db_task_runs db'))"

lemma row_step_trans: "row_step r a b \<Longrightarrow> row_step r b c \<Longrightarrow> row_step r a c"
  by (auto simp: row_step_def)

lemma projects_refl [simp]: "projects r db db"
  by (simp add: projects_def row_step_def list.rel_refl)

lemma projects_trans: "projects r a b \<Longrightarrow> projects r b c \<Longrightarrow> projects r a c"
  by (auto simp: projects_def elim: list_all2_trans [rotated] intro: row_step_trans)

lemma guarded_task_update_projects:
  assumes "guarded_task_update f r db = Inr db'" and "\<And>t. tr_id (f t) = tr_id t"
  shows "projects r db db'"
  using guarded_task_update_frame [OF assms(1)] assms(2)
  by (simp add: projects_def list_all2_map2 row_step_def list.rel_refl_strong)

lemma project_event_projects:
  assumes "project_event env r e db = Inr db'"
  shows "projects r db db'"
  using assms
  by (auto simp: project_event_def project_agent_task_run_progress_def
        project_agent_task_run_finished_def split: agent_run_event_kind.splits prod.splits
      dest!: guarded_task_update_projects)

lemma finalize_frame:
  assumes "finalize_open_conversation_turn env r e db = Inr db'"
  shows "db_run_events db' = db_run_events db" "db_task_runs db' = db_task_runs db"
    "db_checkpoints db' = db_checkpoints db"
    "db_unresolved_interactions db' = db_unresolved_interactions db"
  using assms
  by (auto simp: finalize_open_conversation_turn_def Let_def split: option.splits if_splits)

lemma finalize_projects:
  "finalize_open_conversation_turn env r e db = Inr db' \<Longrightarrow> projects r db db'"
  by (simp add: projects_def finalize_frame row_step_def list.rel_refl)

lemma update_progress_cases:
  assumes "update_progress_from_event env r e db = Inr (db', s)"
  shows "s = emits_snapshot e
    \<and> (db' = db \<and> \<not> closes_run e
       \<or> (\<exists>db1. project_event env r e db = Inr db1
            \<and> (if closes_run e then finalize_open_conversation_turn env r e db1 = Inr db'
               else db' = db1)))"
proof -
  have "\<not> closes_run e" if "preserves_awaiting_status e \<or> ev_kind e = Kind_Status"
    using that by (auto simp: preserves_awaiting_status_def closes_run_def is_terminal_def
        kind_is_terminal_def)
  with assms show ?thesis
    by (auto simp: update_progress_from_event_def split: if_splits)
qed

lemma update_progress_projects:
  assumes "update_progress_from_event env r e db = Inr (db', s)"
  shows "projects r db db'"
  using update_progress_cases [OF assms] project_event_projects finalize_projects projects_trans
    projects_refl by metis

lemma project_batch_projects:
  "project_batch env r es db = Inr (db', ts) \<Longrightarrow> projects r db db'"
proof (induction es arbitrary: db ts)
  case Nil
  then show ?case by simp
next
  case (Cons e es)
  then obtain db1 s ts' where "update_progress_from_event env r e db = Inr (db1, s)"
    and "project_batch env r es db1 = Inr (db', ts')"
    by auto
  then show ?case using Cons.IH update_progress_projects projects_trans by blast
qed

section \<open>Committed batches\<close>

lemma projects_run_rows: "projects r db db' \<Longrightarrow> run_rows db' q = run_rows db q"
  by (simp add: projects_def run_rows_def)

lemma projects_task_row:
  assumes "projects r db db'" and "t \<in> set (db_task_runs db)"
  obtains t' where "t' \<in> set (db_task_runs db')" and "row_step r t t'"
  using assms unfolding projects_def in_set_conv_nth list_all2_conv_all_nth by metis

lemma commit_run_event_batch_ledger:
  assumes "commit_run_event_batch env r es db = Inr (db', ts)"
  shows "db_run_events db' = db_run_events db @ es"
    and "\<forall>e \<in> set es. storable e"
    and "distinct (map ledger_key es)"
    and "ledger_key ` set (db_run_events db) \<inter> ledger_key ` set es = {}"
    and "projects r (db\<lparr>db_run_events := db_run_events db @ es\<rparr>) db'"
    and "es = [] \<or> \<not> run_closed db r"
proof -
  have *: "db_run_events db' = db_run_events db @ es \<and> (\<forall>e \<in> set es. storable e)
    \<and> distinct (map ledger_key es)
    \<and> ledger_key ` set (db_run_events db) \<inter> ledger_key ` set es = {}
    \<and> projects r (db\<lparr>db_run_events := db_run_events db @ es\<rparr>) db' \<and> (es = [] \<or> \<not> run_closed db r)"
  proof (cases "es = []")
    case True
    with assms show ?thesis by (simp add: commit_run_event_batch_def)
  next
    case False
    with assms obtain db1 where ins: "insert_agent_run_events es db = Inr db1"
      and proj: "project_batch env r es db1 = Inr (db', ts)" and "\<not> run_closed db r"
      by (auto simp: commit_run_event_batch_def split: if_splits)
    with project_batch_projects [OF proj] show ?thesis
      by (simp add: insert_agent_run_events_iff projects_def)
  qed
  then show "db_run_events db' = db_run_events db @ es" "\<forall>e \<in> set es. storable e"
    "distinct (map ledger_key es)"
    "ledger_key ` set (db_run_events db) \<inter> ledger_key ` set es = {}"
    "projects r (db\<lparr>db_run_events := db_run_events db @ es\<rparr>) db'" "es = [] \<or> \<not> run_closed db r"
    by blast+
qed

lemma write_pause_boundary_ledger:
  assumes "write_pause_boundary env r t cp e db = Inr (db', cp', e', snap)"
  shows "db_run_events db' = db_run_events db @ [e] \<and> storable e \<and> e' = e \<and> cp' = cp
    \<and> ledger_key e \<notin> ledger_key ` set (db_run_events db)
    \<and> list_all2 (row_step r) (db_task_runs db) (db_task_runs db')
    \<and> db_checkpoints db' = db_checkpoints db @ [cp]"
proof -
  from assms obtain db1 db2 s where
    ins: "insert_agent_run_events [e] (db\<lparr>db_checkpoints := db_checkpoints db @ [cp]\<rparr>) = Inr db1"
    and upd: "update_progress_from_event env r e db1 = Inr (db2, s)"
    and out: "db_run_events db' = db_run_events db2" "db_task_runs db' = db_task_runs db2"
      "db_checkpoints db' = db_checkpoints db2" "e' = e" "cp' = cp"
    by (auto simp: write_pause_boundary_def Let_def split: if_splits)
  from ins have "db1 = db\<lparr>db_checkpoints := db_checkpoints db @ [cp],
      db_run_events := db_run_events db @ [e]\<rparr>"
    and "storable e" and "ledger_key e \<notin> ledger_key ` set (db_run_events db)"
    by (simp_all add: insert_agent_run_events_iff)
  with update_progress_projects [OF upd] out show ?thesis by (simp add: projects_def)
qed

lemma commit_pause_checkpointE:
  assumes "commit_pause_checkpoint env prepared r t n db = Inr out"
  obtains cp task where "prepared = Inr cp" and "get_agent_task_run db r = Inr task"
    and "tr_turn_id task = t" and "tr_status task \<in> {''queued'', ''running'', ''waiting_approval''}"
    and "\<not> run_closed db r" and "n = saturating_add (run_head db r) 1"
    and "write_pause_boundary env r t cp (pause_event r t n cp) db = Inr out"
  using assms
  by (auto simp: commit_pause_checkpoint_def Let_def split: sum.splits if_splits prod.splits)

lemma commit_pause_checkpoint_ledger:
  assumes "commit_pause_checkpoint env prepared r t n db = Inr (db', cp, e, snap)"
  shows "db_run_events db' = db_run_events db @ [e] \<and> storable e
    \<and> ledger_key e \<notin> ledger_key ` set (db_run_events db)
    \<and> \<not> run_closed db r \<and> n = saturating_add (run_head db r) 1 \<and> e = pause_event r t n cp
    \<and> list_all2 (row_step r) (db_task_runs db) (db_task_runs db')
    \<and> db_checkpoints db' = db_checkpoints db @ [cp]"
  using assms by (elim commit_pause_checkpointE) (auto dest: write_pause_boundary_ledger)

lemma fail_run_event_outbox_ledger:
  assumes "fail_run_event_outbox_if_open env r reason db = Inr (db', out)"
  shows "projects r db db'
    \<and> (if run_closed db r then db' = db \<and> out = FC_AlreadyClosed (run_head db r)
       else \<exists>snap. out = FC_Claimed (run_head db r) snap
           \<and> tr_status snap = ''failed'' \<and> snap \<in> set (db_task_runs db') \<and> tr_id snap = r)"
proof (cases "run_closed db r")
  case True
  with assms show ?thesis
    by (auto simp: fail_run_event_outbox_if_open_def split: if_splits prod.splits)
next
  case False
  with assms obtain f snap where "guarded_task_update f r db = Inr db'"
    and "\<And>t. tr_id (f t) = tr_id t" and "get_agent_task_run db' r = Inr snap"
    and "tr_status snap = ''failed''" and "out = FC_Claimed (run_head db r) snap"
    by (auto simp: fail_run_event_outbox_if_open_def project_agent_task_run_finished_def
        split: if_splits prod.splits)
  with False show ?thesis
    by (auto simp: get_agent_task_run_def split: option.splits dest!: find_SomeD
        dest: guarded_task_update_projects)
qed

section \<open>The ledger as a state machine\<close>

text \<open>
  The three transactions that write to a run, as operations on the database. A transaction that
  fails leaves the database as it was.
\<close>

datatype ledger_op =
    LO_Batch storage_env string "agent_run_event list"
  | LO_Pause storage_env "core_error + task_resume_checkpoint" string string u64
  | LO_Fail storage_env string string

definition committed :: "database \<Rightarrow> core_error + database \<times> 'a \<Rightarrow> database" where
  "committed db res = (case res of Inr (db', _) \<Rightarrow> db' | Inl _ \<Rightarrow> db)"

fun ledger_step :: "ledger_op \<Rightarrow> database \<Rightarrow> database" where
  "ledger_step (LO_Batch env r es) db = committed db (commit_run_event_batch env r es db)"
| "ledger_step (LO_Pause env prepared r t n) db =
     committed db (commit_pause_checkpoint env prepared r t n db)"
| "ledger_step (LO_Fail env r reason) db =
     committed db (fail_run_event_outbox_if_open env r reason db)"

fun op_run :: "ledger_op \<Rightarrow> string" where
  "op_run (LO_Batch env r es) = r"
| "op_run (LO_Pause env prepared r t n) = r"
| "op_run (LO_Fail env r reason) = r"

text \<open>What the outbox guarantees of the batches it commits: its own run, one closing event.\<close>

fun outbox_op :: "ledger_op \<Rightarrow> bool" where
  "outbox_op (LO_Batch env r es) =
     (list_all (\<lambda>e. ev_run_id e = r) es \<and> length (filter closes_run es) \<le> 1)"
| "outbox_op _ = True"

definition ledger_ok :: "database \<Rightarrow> bool" where
  "ledger_ok db = (distinct (map ledger_key (db_run_events db))
     \<and> list_all storable (db_run_events db) \<and> distinct (map tr_id (db_task_runs db)))"

text \<open>Every step appends some rows to the ledger and changes task rows as \<open>row_step\<close> says.\<close>

definition ledger_extends :: "string \<Rightarrow> database \<Rightarrow> agent_run_event list \<Rightarrow> database \<Rightarrow> bool" where
  "ledger_extends r db es db' = (db_run_events db' = db_run_events db @ es
     \<and> (\<forall>e \<in> set es. storable e) \<and> distinct (map ledger_key es)
     \<and> ledger_key ` set (db_run_events db) \<inter> ledger_key ` set es = {}
     \<and> list_all2 (row_step r) (db_task_runs db) (db_task_runs db'))"

lemma ledger_extends_refl: "ledger_extends r db [] db"
  by (simp add: ledger_extends_def row_step_def list.rel_refl)

lemma pause_event_sel [simp]: "ev_run_id (pause_event r t n cp) = r" "\<not> closes_run (pause_event r t n cp)"
  by (simp_all add: pause_event_def status_update_def closes_run_def is_terminal_def kind_is_terminal_def)

lemma ledger_step_extends:
  obtains es where "ledger_extends (op_run x) db es (ledger_step x db)"
    and "ledger_step x db = db \<or> \<not> run_closed db (op_run x)"
    and "outbox_op x \<Longrightarrow> list_all (\<lambda>e. ev_run_id e = op_run x) es \<and> length (filter closes_run es) \<le> 1"
proof (cases "ledger_step x db = db")
  case True
  then show thesis using that [of "[]"] ledger_extends_refl by simp
next
  case False
  then show thesis
  proof (cases x)
    case (LO_Batch env r es)
    with False obtain db' ts where *: "commit_run_event_batch env r es db = Inr (db', ts)"
      by (auto simp: committed_def split: sum.splits)
    with False LO_Batch have "es \<noteq> []" by (auto simp: committed_def commit_run_event_batch_def)
    with commit_run_event_batch_ledger [OF *] * LO_Batch that [of es] show thesis
      by (simp add: committed_def ledger_extends_def projects_def)
  next
    case (LO_Pause env prepared r t n)
    with False obtain db' cp e s
      where *: "commit_pause_checkpoint env prepared r t n db = Inr (db', cp, e, s)"
      by (auto simp: committed_def split: sum.splits)
    with commit_pause_checkpoint_ledger [OF *] LO_Pause that [of "[e]"] show thesis
      by (auto simp: committed_def ledger_extends_def)
  next
    case (LO_Fail env r reason)
    with False obtain db' out where *: "fail_run_event_outbox_if_open env r reason db = Inr (db', out)"
      by (auto simp: committed_def split: sum.splits)
    with fail_run_event_outbox_ledger [OF *] LO_Fail False that [of "[]"] show thesis
      by (auto simp: committed_def ledger_extends_def projects_def split: if_splits)
  qed
qed

lemma row_step_ids: "list_all2 (row_step r) ts ts' \<Longrightarrow> map tr_id ts' = map tr_id ts"
  by (induction rule: list_all2_induct) (auto simp: row_step_def)

lemma row_step_other: "list_all2 (row_step r) ts ts' \<Longrightarrow> q \<noteq> r \<Longrightarrow>
   find (\<lambda>t. tr_id t = q) ts' = find (\<lambda>t. tr_id t = q) ts"
  by (induction rule: list_all2_induct) (auto simp: row_step_def)

lemma ledger_extends_closed:
  assumes "ledger_extends r db es db'" and "run_closed db q"
  shows "run_closed db' q"
proof (cases "\<exists>e \<in> set (run_rows db q). closes_run e")
  case True
  with assms(1) show ?thesis by (auto simp: run_closed_iff ledger_extends_def run_rows_def)
next
  case False
  with assms(2) obtain t where t: "t \<in> set (db_task_runs db)" "tr_id t = q"
    "terminal_task_status (tr_status t)"
    by (auto simp: run_closed_iff)
  with assms(1) have "t \<in> set (db_task_runs db')"
    by (auto simp: ledger_extends_def list_all2_conv_all_nth row_step_def in_set_conv_nth)
  with t show ?thesis by (auto simp: run_closed_iff)
qed

lemma ledger_extends_head:
  "ledger_extends r db es db' \<Longrightarrow> run_head db q \<le> run_head db' q"
  by (subst run_head_le_iff) (auto simp: ledger_extends_def run_rows_def intro!: run_head_ge)

lemma ledger_extends_ok: "ledger_extends r db es db' \<Longrightarrow> ledger_ok db \<Longrightarrow> ledger_ok db'"
  by (auto simp: ledger_extends_def ledger_ok_def list_all_iff row_step_ids)

interpretation ledger: monotone_machine ledger_step ledger_ok "\<lambda>db. unat (run_head db r)"
proof
  fix x s
  obtain es where "ledger_extends (op_run x) s es (ledger_step x s)"
    by (rule ledger_step_extends)
  then show "ledger_ok s \<Longrightarrow> ledger_ok (ledger_step x s)"
    and "unat (run_head s r) \<le> unat (run_head (ledger_step x s) r)"
    by (auto intro: ledger_extends_ok dest: ledger_extends_head [of _ _ _ _ r] simp: word_le_nat_alt)
qed

interpretation closed_ledger: invariant_machine ledger_step "\<lambda>db. run_closed db r"
  using ledger_step_extends ledger_extends_closed by unfold_locales metis

lemma ledger_step_closed_frame:
  assumes "run_closed db r"
  shows "get_agent_task_run (ledger_step x db) r = get_agent_task_run db r"
    and "outbox_op x \<Longrightarrow> run_rows (ledger_step x db) r = run_rows db r"
proof -
  obtain es where *: "ledger_extends (op_run x) db es (ledger_step x db)"
    "ledger_step x db = db \<or> \<not> run_closed db (op_run x)" "outbox_op x \<Longrightarrow> list_all (\<lambda>e. ev_run_id e = op_run x) es"
    by (metis ledger_step_extends)
  have "get_agent_task_run (ledger_step x db) r = get_agent_task_run db r
      \<and> (outbox_op x \<longrightarrow> run_rows (ledger_step x db) r = run_rows db r)"
  proof (cases "op_run x = r")
    case True
    with * assms show ?thesis by simp
  next
    case False
    with *(3) have "outbox_op x \<Longrightarrow> filter (\<lambda>e. ev_run_id e = r) es = []" by (auto simp: list_all_iff filter_empty_conv)
    moreover have "find (\<lambda>t. tr_id t = r) (db_task_runs (ledger_step x db))
        = find (\<lambda>t. tr_id t = r) (db_task_runs db)"
      using *(1) False by (intro row_step_other [of "op_run x"]) (auto simp: ledger_extends_def)
    ultimately show ?thesis
      using *(1) by (simp add: ledger_extends_def run_rows_def get_agent_task_run_def)
  qed
  then show "get_agent_task_run (ledger_step x db) r = get_agent_task_run db r"
    and "outbox_op x \<Longrightarrow> run_rows (ledger_step x db) r = run_rows db r" by auto
qed

section \<open>Properties of the ledger\<close>

text \<open>
  C37: Whatever sequence of batch, pause and failure transactions runs against the database,
  failed ones included, the ledger only grows: the old rows stay as a prefix, the keys (run and
  sequence number) stay unique and every row meets its contract, and the head of no run moves
  back.
\<close>

theorem ledger_append_only:
  assumes "ledger_ok db"
  shows "ledger_ok (run_ops ledger_step ops db)
    \<and> prefix (db_run_events db) (db_run_events (run_ops ledger_step ops db))
    \<and> run_head db r \<le> run_head (run_ops ledger_step ops db) r"
proof -
  have "prefix (db_run_events s) (db_run_events (ledger_step x s))" for x s
    using ledger_step_extends [of x s] by (metis ledger_extends_def prefixI)
  then have "prefix (db_run_events db) (db_run_events (run_ops ledger_step ops db))"
    using ledger.run_preserves [where P = "\<lambda>s. prefix (db_run_events db) (db_run_events s)",
        OF assms] prefix_order.trans by blast
  with ledger.run_inv [OF assms] ledger.run_mono [OF assms, of r ops] show ?thesis
    by (simp add: word_le_nat_alt)
qed

text \<open>
  C36: A closed run stays as it is. After a closing event is in the ledger or the task row is
  terminal, no later sequence of batch, pause and failure transactions opens the run again or changes
  its task row, and none that the outbox issues changes the run's rows in the ledger. (The outbox
  gives a batch only events of its own run and at most one that closes it;
  \<open>commit_run_event_batch\<close> itself compares only its argument \<open>run_id\<close>, so a batch with events of
  another run could add rows to it.)
\<close>

theorem closed_run_immutable:
  assumes "run_closed db r"
  shows "run_closed (run_ops ledger_step ops db) r
    \<and> get_agent_task_run (run_ops ledger_step ops db) r = get_agent_task_run db r
    \<and> (list_all outbox_op ops \<longrightarrow> run_rows (run_ops ledger_step ops db) r = run_rows db r)"
  using assms
proof (induction ops arbitrary: db)
  case Nil
  then show ?case by simp
next
  case (Cons x ops)
  from Cons.prems have "run_closed (ledger_step x db) r" by (intro closed_ledger.step_inv)
  with Cons.IH [of "ledger_step x db"] Cons.prems ledger_step_closed_frame [of db r x] show ?case
    by simp
qed

definition closer_count :: "database \<Rightarrow> string \<Rightarrow> nat" where
  "closer_count db r = length (filter closes_run (run_rows db r))"

lemma ledger_step_closers:
  assumes "closer_count db r \<le> 1" and "outbox_op x"
  shows "closer_count (ledger_step x db) r \<le> 1"
proof (cases "run_closed db r")
  case True
  with assms ledger_step_closed_frame(2) [OF True assms(2)] show ?thesis by (simp add: closer_count_def)
next
  case False
  then have 0: "filter closes_run (run_rows db r) = []"
    by (auto simp: run_closed_iff filter_empty_conv)
  obtain es where "ledger_extends (op_run x) db es (ledger_step x db)"
    "length (filter closes_run es) \<le> 1"
    using assms(2) by (metis ledger_step_extends)
  moreover have "length (filter closes_run (filter (\<lambda>e. ev_run_id e = r) es)) \<le> length (filter closes_run es)"
    by (induction es) auto
  ultimately show ?thesis using 0 by (simp add: closer_count_def run_rows_def ledger_extends_def)
qed

text \<open>
  A run is closed at most once: the ledger never holds two closing events of the same run.
\<close>

theorem at_most_one_closing_event:
  assumes "closer_count db r \<le> 1" and "list_all outbox_op ops"
  shows "closer_count (run_ops ledger_step ops db) r \<le> 1"
  using assms
proof (induction ops arbitrary: db)
  case Nil
  then show ?case by simp
next
  case (Cons x ops)
  with ledger_step_closers [of db r x] show ?case by simp
qed

section \<open>Terminal projections\<close>

definition task_open :: "database \<Rightarrow> string \<Rightarrow> bool" where
  "task_open db r = (\<forall>t \<in> set (db_task_runs db). tr_id t = r \<longrightarrow> \<not> terminal_task_status (tr_status t))"

lemma guarded_task_update_open:
  assumes "guarded_task_update f r db = Inr db'" and "task_open db r"
    and "\<And>t. tr_id (f t) = tr_id t"
    and "\<And>t. \<not> terminal_task_status (tr_status t) \<Longrightarrow> \<not> terminal_task_status (tr_status (f t))"
  shows "task_open db' r"
  using guarded_task_update_frame(6) [OF assms(1)] assms(2-4)
  by (auto simp: task_open_def)

lemma open_status_names [simp]:
  "\<not> terminal_task_status ''queued''" "\<not> terminal_task_status ''running''"
  "\<not> terminal_task_status ''cancelling''" "\<not> terminal_task_status ''waiting_approval''"
  "\<not> terminal_task_status ''awaiting_user_input''" "\<not> terminal_task_status ''paused''"
  by (simp_all add: terminal_task_status_def)

lemma status_event_open [simp]:
  "\<not> terminal_task_status (task_run_status_as_str (status_event_task_status e))"
  by (simp add: status_event_task_status_def)

lemma progress_open:
  assumes "project_agent_task_run_progress env r st p k s pl a db = Inr db'" and "task_open db r"
    and "\<And>x. st = Some x \<Longrightarrow> \<not> terminal_task_status x"
  shows "task_open db' r"
  using assms(1,2) unfolding project_agent_task_run_progress_def
  by (rule guarded_task_update_open) (use assms(3) in \<open>cases st; simp\<close>)+

lemma finished_open:
  assumes "project_agent_task_run_finished env r st s m a db = Inr db'" and "task_open db r"
    and "\<not> terminal_task_status st"
  shows "task_open db' r"
  using assms(1,2) unfolding project_agent_task_run_finished_def
  by (rule guarded_task_update_open) (use assms(3) in simp)+

lemma project_event_open:
  assumes "project_event env r e db = Inr db'" and "task_open db r" and "\<not> closes_run e"
  shows "task_open db' r"
  using assms
  by (cases "ev_kind e")
    (auto simp: project_event_def closes_run_def is_terminal_def kind_is_terminal_def
      done_event_task_status_def intro: progress_open finished_open)

lemma project_batch_open:
  "project_batch env r es db = Inr (db', ts) \<Longrightarrow> task_open db r \<Longrightarrow>
   filter closes_run es = [] \<Longrightarrow> task_open db' r"
proof (induction es arbitrary: db ts)
  case Nil
  then show ?case by simp
next
  case (Cons e es)
  then obtain db1 s ts' where u: "update_progress_from_event env r e db = Inr (db1, s)"
    and p: "project_batch env r es db1 = Inr (db', ts')" and e: "\<not> closes_run e"
    by (auto split: if_splits)
  have "task_open db1 r"
    using update_progress_cases [OF u] e project_event_open Cons.prems(2) by auto
  then show ?case using Cons.IH [OF p] Cons.prems(3) by (auto split: if_splits)
qed

lemma project_batch_append:
  assumes "project_batch env r (xs @ ys) db = Inr (db', ts)"
  obtains db1 ts1 ts2 where "project_batch env r xs db = Inr (db1, ts1)"
    and "project_batch env r ys db1 = Inr (db', ts2)"
  using assms
proof (induction xs arbitrary: db ts thesis)
  case Nil
  then show ?case by auto
next
  case (Cons x xs)
  from Cons.prems(2) obtain db1 s hd rest where
    1: "update_progress_from_event env r x db = Inr (db1, s)"
    "(if s then res_bind (get_agent_task_run db1 r) (\<lambda>task. Inr [task]) else Inr []) = Inr hd"
    "project_batch env r (xs @ ys) db1 = Inr (db', rest)"
    by auto
  from Cons.IH [OF _ 1(3)] obtain db2 ts1 ts2 where "project_batch env r xs db1 = Inr (db2, ts1)"
    "project_batch env r ys db2 = Inr (db', ts2)" by blast
  with 1 Cons.prems(1) show ?case by (auto split: if_splits)
qed

lemma terminal_status_agrees:
  "closes_run e \<Longrightarrow> ev_kind e = Kind_Done \<Longrightarrow>
     task_run_status_as_str (fst (done_event_task_status e)) = expected_final_status e"
  "ev_kind e = Kind_Error \<Longrightarrow>
     task_run_status_as_str (fst (error_event_task_status e)) = expected_final_status e"
  by (auto simp: done_event_task_status_def error_event_task_status_def expected_final_status_def
      closes_run_def)

lemma expected_final_terminal: "terminal_task_status (expected_final_status e)"
  by (simp add: expected_final_status_def terminal_task_status_def)

definition finished_row :: "string \<Rightarrow> string \<Rightarrow> agent_task_run \<Rightarrow> bool" where
  "finished_row r st t = (tr_id t = r \<and> tr_status t = st \<and> tr_phase t = ''done'' \<and> tr_finished_at t \<noteq> None)"

lemma finished_find:
  assumes "project_agent_task_run_finished env r st s m a db = Inr db'" and "task_open db r"
  obtains t where "find (\<lambda>t. tr_id t = r) (db_task_runs db') = Some t" and "finished_row r st t"
proof -
  define f where "f = (\<lambda>t :: agent_task_run. t\<lparr>tr_status := st, tr_phase := ''done'',
     tr_summary := coalesce s (tr_summary t), tr_error_message := coalesce m (tr_error_message t),
     tr_artifacts := coalesce a (tr_artifacts t),
     tr_finished_at := coalesce (tr_finished_at t) (Some (se_now env)), tr_updated_at := se_now env\<rparr>)"
  have g: "guarded_task_update f r db = Inr db'"
    using assms(1) by (simp add: project_agent_task_run_finished_def f_def)
  note fr = guarded_task_update_frame [OF g]
  then obtain u where u: "find (\<lambda>t. tr_id t = r) (db_task_runs db) = Some u"
    by (metis (mono_tags, lifting) find_None_iff not_Some_eq)
  let ?g = "\<lambda>t. if tr_id t = r \<and> \<not> terminal_task_status (tr_status t) then f t else t"
  have "find (\<lambda>t. tr_id t = r) (db_task_runs db') = Some (?g u)"
    using find_map_key [of tr_id ?g r "db_task_runs db"] u fr(6) by (simp add: f_def)
  moreover have "finished_row r st (?g u)"
    using find_SomeD [OF u] assms(2)
    by (simp add: task_open_def finished_row_def f_def coalesce_def split: option.splits)
  ultimately show thesis by (rule that)
qed

lemma closing_event_finishes:
  assumes "project_event env r e db = Inr db'" and "task_open db r" and "closes_run e"
  obtains t where "find (\<lambda>t. tr_id t = r) (db_task_runs db') = Some t"
    and "finished_row r (expected_final_status e) t"
proof -
  from assms(3) consider "ev_kind e = Kind_Done" | "ev_kind e = Kind_Error"
    by (auto simp: closes_run_def is_terminal_def kind_is_terminal_def)
  then obtain s m where "project_agent_task_run_finished env r (expected_final_status e) s m None db = Inr db'"
    using assms(1,3) terminal_status_agrees
    by cases (auto simp: project_event_def split: prod.splits, (metis fst_conv)+)
  from finished_find [OF this assms(2)] that show thesis by blast
qed

definition turn_closed_for :: "agent_task_run \<Rightarrow> database \<Rightarrow> bool" where
  "turn_closed_for t db = list_all (\<lambda>n. \<not> (tn_id n = tr_turn_id t
      \<and> tn_conversation_id n = tr_conversation_id t \<and> tn_finished_at n = None)) (db_turns db)"

text \<open>
  C38: A batch that ends in the run's closing event settles everything that is derived from
  the run in the same transaction. Its task row is finished with the status the closing event
  stands for, the run is closed from then on, and no turn of the
  run is left open.
\<close>

theorem closing_batch_settles_projections:
  assumes "commit_run_event_batch env r (es @ [e]) db = Inr (db', ts)"
    and "filter closes_run es = []" and "closes_run e" and "ev_run_id e = r"
  shows "\<exists>t. get_agent_task_run db' r = Inr t \<and> tr_status t = expected_final_status e
    \<and> terminal_task_status (tr_status t) \<and> tr_phase t = ''done'' \<and> tr_finished_at t \<noteq> None
    \<and> run_closed db' r \<and> turn_closed_for t db'"
proof -
  from assms(1) obtain db0 where ins: "insert_agent_run_events (es @ [e]) db = Inr db0"
    and "project_batch env r (es @ [e]) db0 = Inr (db', ts)" and closed: "\<not> run_closed db r"
    by (auto simp: commit_run_event_batch_def split: if_splits)
  then obtain db1 ts1 ts2 where 1: "project_batch env r es db0 = Inr (db1, ts1)"
    "project_batch env r [e] db1 = Inr (db', ts2)"
    by (blast elim: project_batch_append)
  have "task_open db0 r"
    using ins closed by (auto simp: insert_agent_run_events_iff run_closed_iff task_open_def)
  with project_batch_open [OF 1(1)] assms(2) have open1: "task_open db1 r" by blast
  from 1(2) obtain s where "update_progress_from_event env r e db1 = Inr (db', s)" by auto
  from update_progress_cases [OF this] assms(3) obtain db2
    where p: "project_event env r e db1 = Inr db2"
    and f: "finalize_open_conversation_turn env r e db2 = Inr db'" by auto
  from closing_event_finishes [OF p open1 assms(3)] obtain t
    where t: "find (\<lambda>t. tr_id t = r) (db_task_runs db2) = Some t"
    and row: "finished_row r (expected_final_status e) t" .
  have "turn_closed_for t db'"
    using f t row
    by (auto simp: finalize_open_conversation_turn_def turn_closed_for_def finished_row_def
        list_all_iff Let_def split: if_splits)
  moreover have "e \<in> set (run_rows db' r)"
    using commit_run_event_batch_ledger(1) [OF assms(1)] assms(4) by (simp add: run_rows_def)
  ultimately show ?thesis
    using t row assms(3) finalize_frame(2) [OF f]
    by (auto simp: get_agent_task_run_def finished_row_def run_closed_iff expected_final_terminal)
qed

text \<open>
  The failure claim of an outbox. On an open run with a task row it closes the run as failed,
  writes no ledger row and reports the head it saw; on a closed run it changes nothing; and a
  second claim always finds the run closed at the same head, so that a stale actor can
  never overwrite a terminal projection.
\<close>

theorem failure_claim_idempotent:
  assumes "fail_run_event_outbox_if_open env r reason db = Inr (db', out)" and "se_ok env'"
  shows "run_closed db' r \<and> run_head db' r = run_head db r \<and> db_run_events db' = db_run_events db
    \<and> (run_closed db r \<longrightarrow> db' = db)
    \<and> (\<not> run_closed db r \<longrightarrow> (\<exists>t. get_agent_task_run db' r = Inr t \<and> tr_status t = ''failed''
         \<and> tr_error_message t = Some reason \<and> out = FC_Claimed (run_head db r) t))
    \<and> fail_run_event_outbox_if_open env' r reason' db' = Inr (db', FC_AlreadyClosed (run_head db r))"
proof -
  note l = fail_run_event_outbox_ledger [OF assms(1)]
  have ev: "db_run_events db' = db_run_events db" using l by (simp add: projects_def)
  then have head: "run_head db' r = run_head db r"
    by (simp add: agent_run_event_head_def run_rows_def)
  have closed: "run_closed db' r"
  proof (cases "run_closed db r")
    case True
    with l show ?thesis by simp
  next
    case False
    with l obtain snap where "snap \<in> set (db_task_runs db')" "tr_id snap = r" "tr_status snap = ''failed''"
      by auto
    moreover have "terminal_task_status ''failed''" by (simp add: terminal_task_status_def)
    ultimately show ?thesis unfolding run_closed_iff by metis
  qed
  have again: "fail_run_event_outbox_if_open env' r reason' db' = Inr (db', FC_AlreadyClosed (run_head db r))"
    using closed head assms(2)
    by (simp add: fail_run_event_outbox_if_open_def case_prod_beta)
  have "\<exists>t. get_agent_task_run db' r = Inr t \<and> tr_status t = ''failed''
      \<and> tr_error_message t = Some reason \<and> out = FC_Claimed (run_head db r) t"
    if "\<not> run_closed db r"
  proof -
    from that assms(1) obtain t where t: "get_agent_task_run db' r = Inr t" "tr_status t = ''failed''"
      "out = FC_Claimed (run_head db r) t"
      and p: "project_agent_task_run_finished env r ''failed''
        (Some ''Run Event outbox failed closed'') (Some reason)
        (Some (JObject [(''reason'', JString reason)])) db = Inr db'"
      by (auto simp: fail_run_event_outbox_if_open_def split: if_splits prod.splits)
    from t(1) have "t \<in> set (db_task_runs db')" "tr_id t = r"
      by (auto simp: get_agent_task_run_def split: option.splits dest: find_SomeD)
    moreover from that have "task_open db r" by (auto simp: task_open_def run_closed_iff)
    moreover obtain u where "u \<in> set (db_task_runs db)" "t = (if tr_id u = r
        \<and> \<not> terminal_task_status (tr_status u) then u\<lparr>tr_status := ''failed'', tr_phase := ''done'',
          tr_summary := coalesce (Some ''Run Event outbox failed closed'') (tr_summary u),
          tr_error_message := coalesce (Some reason) (tr_error_message u),
          tr_artifacts := coalesce (Some (JObject [(''reason'', JString reason)])) (tr_artifacts u),
          tr_finished_at := coalesce (tr_finished_at u) (Some (se_now env)),
          tr_updated_at := se_now env\<rparr> else u)"
      using calculation(1) unfolding set_map image_iff
        guarded_task_update_frame(6) [OF p [unfolded project_agent_task_run_finished_def]] by blast
    ultimately have "tr_error_message t = Some reason"
      by (cases "tr_id u = r") (simp_all add: task_open_def coalesce_def)
    with t show ?thesis by blast
  qed
  with l ev head closed again show ?thesis by auto
qed

section \<open>Witnesses\<close>

definition sample_env :: storage_env where
  "sample_env = \<lparr>se_ok = True, se_now = ''2025-01-01 00:00:00''\<rparr>"

definition sample_task :: "string \<Rightarrow> agent_task_run" where
  "sample_task st = \<lparr>tr_id = ''r'', tr_conversation_id = ''c'', tr_turn_id = ''t'',
     tr_user_message_id = ''u'', tr_status = st, tr_phase = ''answering'', tr_title = ''title'',
     tr_route_kind = None, tr_summary = None, tr_error_message = None, tr_provider = None,
     tr_model = None, tr_plan = None, tr_artifacts = None, tr_created_at = ''now'',
     tr_updated_at = ''now'', tr_started_at = Some ''now'', tr_finished_at = None\<rparr>"

definition sample_db :: "string \<Rightarrow> database" where
  "sample_db st = \<lparr>db_run_events = [], db_task_runs = [sample_task st],
     db_turns = [\<lparr>tn_id = ''t'', tn_conversation_id = ''c'', tn_status = ''running'',
       tn_assistant_message_id = None, tn_updated_at = ''now'', tn_finished_at = None\<rparr>],
     db_assistant_messages = [], db_checkpoints = [], db_unresolved_interactions = []\<rparr>"

definition sample_done :: "u64 \<Rightarrow> agent_run_event" where
  "sample_done n = terminal_status ''r'' (Some ''t'') n ''Agent execution cancelled'' ''cancelled'' None"

lemmas sample_defs = sample_env_def sample_task_def sample_db_def


lemma sample_done_commits:
  "case commit_run_event_batch sample_env ''r'' [sample_done 1] (sample_db ''running'') of
     Inl _ \<Rightarrow> False
   | Inr (db', ts) \<Rightarrow> map tr_status ts = [''cancelled''] \<and> map tn_status (db_turns db') = [''cancelled'']"
  by code_simp

definition sample_ops :: "ledger_op list" where
  "sample_ops = [LO_Batch sample_env ''r'' [sample_done 1], LO_Fail sample_env ''r'' ''late'',
     LO_Batch sample_env ''r'' [sample_done 2]]"

lemma sample_db_ok: "ledger_ok (sample_db ''running'')" "closer_count (sample_db ''running'') ''r'' \<le> 1"
  "run_closed (sample_db ''failed'') ''r''" "\<not> run_closed (sample_db ''running'') ''r''"
  "list_all outbox_op sample_ops" "closes_run (sample_done 1)" "ev_run_id (sample_done 1) = ''r''"
  by code_simp+

theorem ledger_append_only_witness:
  "ledger_ok (run_ops ledger_step sample_ops (sample_db ''running''))"
  using ledger_append_only [OF sample_db_ok(1), of sample_ops "''r''"] by simp

theorem closed_run_immutable_witness:
  "run_rows (run_ops ledger_step sample_ops (sample_db ''failed'')) ''r'' = []"
  using closed_run_immutable [OF sample_db_ok(3), of sample_ops] sample_db_ok(5) by (simp add: run_rows_def sample_db_def)

theorem at_most_one_closing_event_witness:
  "closer_count (run_ops ledger_step sample_ops (sample_db ''running'')) ''r'' \<le> 1"
  using at_most_one_closing_event [OF sample_db_ok(2,5)] .

theorem closing_batch_witness:
  "\<exists>db' ts t. commit_run_event_batch sample_env ''r'' ([] @ [sample_done 1]) (sample_db ''running'')
       = Inr (db', ts) \<and> get_agent_task_run db' ''r'' = Inr t
     \<and> tr_status t = expected_final_status (sample_done 1) \<and> turn_closed_for t db'"
proof -
  obtain db' ts where "commit_run_event_batch sample_env ''r'' ([] @ [sample_done 1])
      (sample_db ''running'') = Inr (db', ts)"
    using sample_done_commits by (auto split: sum.splits)
  with closing_batch_settles_projections [OF this _ sample_db_ok(6,7)] show ?thesis by auto
qed

theorem failure_claim_witness:
  "\<exists>db'. fail_run_event_outbox_if_open sample_env ''r'' ''disk'' (sample_db ''running'')
        = Inr (db', FC_Claimed 0 (the (find (\<lambda>t. tr_id t = ''r'') (db_task_runs db'))))
     \<and> fail_run_event_outbox_if_open sample_env ''r'' ''again'' db' = Inr (db', FC_AlreadyClosed 0)"
proof -
  have "\<not> isl (fail_run_event_outbox_if_open sample_env ''r'' ''disk'' (sample_db ''running''))"
    by code_simp
  then obtain db' out where 1: "fail_run_event_outbox_if_open sample_env ''r'' ''disk''
      (sample_db ''running'') = Inr (db', out)"
    by (metis isl_def old.sum.exhaust surj_pair)
  have 2: "se_ok sample_env" by (simp add: sample_env_def)
  have 3: "run_head (sample_db ''running'') ''r'' = 0" by code_simp
  from failure_claim_idempotent [OF 1 2, of "''again''"] sample_db_ok(4) 1 3 show ?thesis
    by (auto simp: get_agent_task_run_def split: option.splits)
qed

end
