(* ===== verification/Run_Event_Outbox.thy ===== *)
theory Run_Event_Outbox
  imports Task_Run
begin

text \<open>
  The ordered publication of one run's events, \<open>crates/core/src/run_event_outbox.rs\<close>: the
  producer handle, the bounded command queue and the actor that numbers, commits and delivers.

  The state record joins what the handle and the actor task share (the queue, the terminal
  flag, the watch channels) with the actor's locals, the database it writes to and the log of
  what has been delivered to the host. An operation is one atomic action of either side:
  a producer call holds the terminal lock, and the actor performs one receive or the handling
  of one command. Operations of other writers on the same database are included, so the
  theorems hold for every interleaving of producers, actor, timer and competing
  transactions. The priority the \<open>biased\<close> selection gives to the failure branch is not relied on.

  The oneshot responses of pauses are a log. \<open>Persistence\<close> failures keep the error value that
  the code renders to text, and an \<open>InvalidEvent\<close> that reports a contract violation is the
  constructor \<open>SE_InvalidContract\<close> with the violation. Mutex poisoning is not modelled. The redaction function of
  \<open>sensitive_data.rs\<close> is the argument \<open>redact\<close>, the clock and the fate of each transaction are
  given by one \<open>storage_env\<close> per transaction of the step.
\<close>

section \<open>Types\<close>

definition RUN_EVENT_OUTBOX_CAPACITY :: nat where "RUN_EVENT_OUTBOX_CAPACITY = 512"

definition LIVE_JOURNAL_MAX_BATCH :: nat where "LIVE_JOURNAL_MAX_BATCH = 32"

datatype outbox_failure = OF_Persistence core_error | OF_QueueFull | OF_ActorUnavailable

fun reason_code :: "outbox_failure \<Rightarrow> string" where
  "reason_code (OF_Persistence _) = ''run_event_persistence_failed''"
| "reason_code OF_QueueFull = ''run_event_queue_saturated''"
| "reason_code OF_ActorUnavailable = ''run_event_outbox_unavailable''"

datatype outbox_command = Cmd_Event agent_run_event | Cmd_PauseCheckpoint string string

datatype submit_error =
    SE_AlreadyClosed
  | SE_Suspended
  | SE_SequencedEvent u64
  | SE_RunMismatch string string
  | SE_EphemeralEvent
  | SE_InvalidEvent string
  | SE_InvalidContract agent_run_event_contract_error
  | SE_QueueFull
  | SE_ActorUnavailable

datatype outbox_outcome = OO_Open | OO_TerminalCommitted u64 | OO_Failed outbox_failure

datatype outbox_durability = OD_Committed u64 | OD_Failed outbox_failure

datatype delivery = Del_RunEvent agent_run_event | Del_Snapshot agent_task_run

record outbox =
  ob_run_id :: string
  ob_conversation_id :: string
  ob_queue :: "outbox_command list"
  ob_terminal_submitted :: bool
  ob_submissions_paused :: bool
  ob_cancelled :: bool
  ob_completion :: outbox_outcome
  ob_accepted_high_water :: u64
  ob_durability :: outbox_durability
  ob_failure_request :: bool
  ob_running :: bool
  ob_current :: "outbox_command option"
  ob_sequence :: u64
  ob_last_turn_id :: string
  ob_pending :: "agent_run_event list"
  ob_db :: database
  ob_delivered :: "delivery list"
  ob_pause_responses :: "(outbox_failure + task_resume_checkpoint) list"

section \<open>Opening\<close>

definition open_outbox :: "string \<Rightarrow> string \<Rightarrow> database \<Rightarrow> outbox" where
  "open_outbox conversation_id run_id db =
     (case agent_run_event_head db run_id of (initial_sequence, already_closed) \<Rightarrow>
       \<lparr>ob_run_id = run_id, ob_conversation_id = conversation_id, ob_queue = [],
        ob_terminal_submitted = already_closed, ob_submissions_paused = False,
        ob_cancelled = False,
        ob_completion = (if already_closed then OO_TerminalCommitted initial_sequence else OO_Open),
        ob_accepted_high_water = initial_sequence,
        ob_durability = OD_Committed initial_sequence, ob_failure_request = False,
        ob_running = (\<not> already_closed), ob_current = None, ob_sequence = initial_sequence,
        ob_last_turn_id = [], ob_pending = [], ob_db = db, ob_delivered = [],
        ob_pause_responses = []\<rparr>)"

section \<open>Producer side\<close>

definition validate_producer_lifecycle :: "agent_run_event \<Rightarrow> string + unit" where
  "validate_producer_lifecycle e =
     (if ev_kind e = Kind_Done
         \<and> ev_status e \<notin> {Some ''completed'', Some ''cancelled'', Some ''timed_out''}
      then Inl ''done events require completed, cancelled, or timed_out status''
      else if ev_kind e = Kind_Error
         \<and> ev_status e \<notin> {Some ''failed'', Some ''cancelled'', Some ''timed_out''}
      then Inl ''error events require failed, cancelled, or timed_out status''
      else Inr ())"

text \<open>The bounded channel: closed once the actor has stopped, full at its capacity.\<close>

datatype try_send_error = TS_Full | TS_Closed

definition try_send :: "outbox_command \<Rightarrow> outbox \<Rightarrow> try_send_error + outbox" where
  "try_send c s =
     (if \<not> ob_running s then Inl TS_Closed
      else if RUN_EVENT_OUTBOX_CAPACITY \<le> length (ob_queue s) then Inl TS_Full
      else Inr (s\<lparr>ob_queue := ob_queue s @ [c]\<rparr>))"

definition enqueue_validated :: "agent_run_event \<Rightarrow> outbox \<Rightarrow> (submit_error + unit) \<times> outbox" where
  "enqueue_validated e s =
     (if ev_event_seq e \<noteq> 0 then (Inl (SE_SequencedEvent (ev_event_seq e)), s)
      else if ev_run_id e \<noteq> ob_run_id s
      then (Inl (SE_RunMismatch (ob_run_id s) (ev_run_id e)), s)
      else case validate_producer_lifecycle e of
        Inl message \<Rightarrow> (Inl (SE_InvalidEvent message), s)
      | Inr _ \<Rightarrow>
       (case validate_durable_contract (e\<lparr>ev_event_seq := 1\<rparr>) of
          Inl err \<Rightarrow> (Inl (SE_InvalidContract err), s)
        | Inr _ \<Rightarrow>
          if ob_terminal_submitted s then (Inl SE_AlreadyClosed, s)
          else if ob_submissions_paused s then (Inl SE_Suspended, s)
          else case try_send (Cmd_Event e) s of
            Inl err \<Rightarrow>
              (if \<not> is_durable e
               then (case err of TS_Full \<Rightarrow> (Inr (), s) | TS_Closed \<Rightarrow> (Inl SE_ActorUnavailable, s))
               else
                 (let s1 = s\<lparr>ob_terminal_submitted := True, ob_cancelled := True\<rparr>
                  in case err of
                       TS_Full \<Rightarrow> (Inl SE_QueueFull, s1\<lparr>ob_failure_request := True\<rparr>)
                     | TS_Closed \<Rightarrow> (Inl SE_ActorUnavailable, s1)))
          | Inr s1 \<Rightarrow>
              (Inr (), s1\<lparr>
                 ob_accepted_high_water := saturating_add (ob_accepted_high_water s1) 1,
                 ob_terminal_submitted := closes_run e\<rparr>)))"

definition submit :: "agent_run_event \<Rightarrow> outbox \<Rightarrow> (submit_error + unit) \<times> outbox" where
  "submit e s = (if \<not> is_durable e then (Inl SE_EphemeralEvent, s) else enqueue_validated e s)"

definition publish_ephemeral ::
  "agent_run_event \<Rightarrow> outbox \<Rightarrow> (submit_error + unit) \<times> outbox" where
  "publish_ephemeral e s =
     (if is_durable e
      then (Inl (SE_InvalidEvent ''ephemeral publication requires persistence=ephemeral''), s)
      else if closes_run e
      then (Inl (SE_InvalidEvent ''terminal Run Events must be durable''), s)
      else enqueue_validated e s)"

definition enqueue_pause_checkpoint ::
  "string \<Rightarrow> string \<Rightarrow> outbox \<Rightarrow> (outbox_failure + unit) \<times> outbox" where
  "enqueue_pause_checkpoint turn_id reason s =
     (if ob_terminal_submitted s then (Inl OF_ActorUnavailable, s)
      else if ob_submissions_paused s then (Inl OF_ActorUnavailable, s)
      else
        (let s1 = s\<lparr>ob_submissions_paused := True\<rparr> in
         case try_send (Cmd_PauseCheckpoint turn_id reason) s1 of
           Inl err \<Rightarrow>
             (let s2 = s1\<lparr>ob_terminal_submitted := True, ob_cancelled := True\<rparr>
              in case err of
                   TS_Full \<Rightarrow> (Inl OF_QueueFull, s2\<lparr>ob_failure_request := True\<rparr>)
                 | TS_Closed \<Rightarrow> (Inl OF_ActorUnavailable, s2))
         | Inr s2 \<Rightarrow>
             (Inr (), s2\<lparr>
                ob_accepted_high_water := saturating_add (ob_accepted_high_water s2) 1\<rparr>)))"

definition resume_submissions :: "outbox \<Rightarrow> (submit_error + unit) \<times> outbox" where
  "resume_submissions s =
     (if ob_terminal_submitted s then (Inl SE_AlreadyClosed, s)
      else (Inr (), s\<lparr>ob_submissions_paused := False\<rparr>))"

definition is_closed_for_submission :: "outbox \<Rightarrow> bool" where
  "is_closed_for_submission s = ob_terminal_submitted s"

definition durable_high_water :: "outbox \<Rightarrow> u64 option" where
  "durable_high_water s = (case ob_durability s of OD_Committed n \<Rightarrow> Some n | OD_Failed _ \<Rightarrow> None)"

text \<open>
  One look of the waiting loops at their watch channel: \<open>None\<close> goes on waiting. A waiter whose
  actor has gone without an outcome reports \<open>ActorUnavailable\<close>.
\<close>

definition flush_poll :: "u64 \<Rightarrow> outbox \<Rightarrow> (outbox_failure + u64) option" where
  "flush_poll target s =
     (case ob_durability s of
        OD_Committed n \<Rightarrow>
          (if target \<le> n then Some (Inr n)
           else if ob_running s then None else Some (Inl OF_ActorUnavailable))
      | OD_Failed failure \<Rightarrow> Some (Inl failure))"

definition terminal_poll :: "outbox \<Rightarrow> (outbox_failure + u64) option" where
  "terminal_poll s =
     (case ob_completion s of
        OO_Open \<Rightarrow> (if ob_running s then None else Some (Inl OF_ActorUnavailable))
      | OO_TerminalCommitted n \<Rightarrow> Some (Inr n)
      | OO_Failed failure \<Rightarrow> Some (Inl failure))"

section \<open>Commit and delivery\<close>

definition approval_event_for_persistence :: "agent_run_event \<Rightarrow> agent_run_event" where
  "approval_event_for_persistence e =
     (if ev_kind e \<noteq> Kind_ApprovalRequested then e
      else case ev_payload e of
        JObject m \<Rightarrow>
          (case jmap_get m ''_durableRequest'' of
             Some request \<Rightarrow>
               e\<lparr>ev_payload := JObject (jmap_insert ''request'' request
                                        (jmap_remove ''_durableRequest'' m))\<rparr>
           | None \<Rightarrow> e)
      | _ \<Rightarrow> e)"

definition approval_event_for_delivery :: "agent_run_event \<Rightarrow> agent_run_event" where
  "approval_event_for_delivery e =
     (if ev_kind e = Kind_ApprovalRequested
      then (case ev_payload e of
              JObject m \<Rightarrow> e\<lparr>ev_payload := JObject (jmap_remove ''_durableRequest'' m)\<rparr>
            | _ \<Rightarrow> e)
      else e)"

definition commit_and_deliver :: "storage_env \<Rightarrow> outbox \<Rightarrow> (core_error + unit) \<times> outbox" where
  "commit_and_deliver env s =
     (if ob_pending s = [] then (Inr (), s)
      else
        (let events = ob_pending s; s1 = s\<lparr>ob_pending := []\<rparr> in
         case commit_run_event_batch env (ob_run_id s) (map approval_event_for_persistence events)
                (ob_db s) of
           Inl err \<Rightarrow> (Inl err, s1)
         | Inr (db', snapshots) \<Rightarrow>
             (Inr (), s1\<lparr>ob_db := db',
                ob_delivered := ob_delivered s
                  @ map (\<lambda>e. Del_RunEvent (approval_event_for_delivery e)) events
                  @ map Del_Snapshot snapshots\<rparr>)))"

definition commit_pause_checkpoint_and_deliver ::
  "storage_env \<Rightarrow> core_error + task_resume_checkpoint \<Rightarrow> string \<Rightarrow> u64 \<Rightarrow> outbox \<Rightarrow>
     (core_error + task_resume_checkpoint) \<times> outbox" where
  "commit_pause_checkpoint_and_deliver env prepared turn_id event_seq s =
     (case commit_pause_checkpoint env prepared (ob_run_id s) turn_id event_seq (ob_db s) of
        Inl err \<Rightarrow> (Inl err, s)
      | Inr (db', checkpoint, event, snapshot) \<Rightarrow>
          (Inr checkpoint, s\<lparr>ob_db := db',
             ob_delivered := ob_delivered s @ [Del_RunEvent event, Del_Snapshot snapshot]\<rparr>))"

definition is_deferred_event :: "agent_run_event \<Rightarrow> bool" where
  "is_deferred_event e =
     (if ev_kind e = Kind_OutputDelta
         \<and> Option.bind (json_get (ev_payload e) ''offset'') json_as_u64 = Some 0
         \<and> (case Option.bind (json_get (ev_payload e) ''delta'') json_as_str of
              Some delta \<Rightarrow> delta \<noteq> [] | None \<Rightarrow> False)
      then False
      else ev_kind e \<in> {Kind_OutputDelta, Kind_Thinking, Kind_UsageUpdated})"

section \<open>Failing closed\<close>

definition fail_closed_terminal ::
  "(string \<Rightarrow> string) \<Rightarrow> string \<Rightarrow> string \<Rightarrow> u64 \<Rightarrow> string \<Rightarrow> agent_run_event" where
  "fail_closed_terminal redact run_id turn_id terminal_sequence failure_reason =
     (terminal_error redact run_id (Some turn_id) terminal_sequence
        ''The response stream could not be stored safely. Retry this message.'' ''failed''
        (Some (JObject [(''reason'', JString failure_reason)])))
       \<lparr>ev_persistence := Persistence_Ephemeral\<rparr>"

definition fail_closed ::
  "(string \<Rightarrow> string) \<Rightarrow> storage_env \<Rightarrow> string \<Rightarrow> u64 \<Rightarrow> outbox_failure \<Rightarrow> outbox \<Rightarrow> outbox" where
  "fail_closed redact env turn_id live_high_water failure s =
     (let s1 = s\<lparr>ob_terminal_submitted := True, ob_cancelled := True\<rparr>;
          failure_reason = reason_code failure
      in case fail_run_event_outbox_if_open env (ob_run_id s) failure_reason (ob_db s) of
           Inr (db', FC_AlreadyClosed event_seq) \<Rightarrow>
             s1\<lparr>ob_db := db', ob_durability := OD_Committed event_seq,
                ob_completion := OO_TerminalCommitted event_seq\<rparr>
         | Inl _ \<Rightarrow>
             s1\<lparr>ob_durability := OD_Failed failure, ob_completion := OO_Failed failure\<rparr>
         | Inr (db', FC_Claimed durable_head snapshot) \<Rightarrow>
             (let terminal_sequence = saturating_add (max durable_head live_high_water) 1;
                  terminal = fail_closed_terminal redact (ob_run_id s) turn_id
                    terminal_sequence failure_reason
              in s1\<lparr>ob_db := db',
                    ob_delivered := ob_delivered s @ [Del_RunEvent terminal, Del_Snapshot snapshot],
                    ob_durability := OD_Failed failure, ob_completion := OO_Failed failure\<rparr>))"

text \<open>Leaving the loop drops the receiver and every command still queued.\<close>

definition stop_actor :: "outbox \<Rightarrow> outbox" where
  "stop_actor s = s\<lparr>ob_running := False, ob_queue := [], ob_current := None, ob_pending := []\<rparr>"

definition fail_and_stop ::
  "(string \<Rightarrow> string) \<Rightarrow> storage_env \<Rightarrow> outbox_failure \<Rightarrow> outbox \<Rightarrow> outbox" where
  "fail_and_stop redact env failure s =
     stop_actor (fail_closed redact env (ob_last_turn_id s) (ob_sequence s) failure s)"

section \<open>The actor loop\<close>

text \<open>
  An event of the queue that has its number. A preview first commits the batch before it and is
  then delivered; a durable event joins the batch, which is committed at once unless the event
  may be deferred.
\<close>

definition process_preview ::
  "(string \<Rightarrow> string) \<Rightarrow> (nat \<Rightarrow> storage_env) \<Rightarrow> agent_run_event \<Rightarrow> outbox \<Rightarrow> outbox" where
  "process_preview redact envs e s =
     (case commit_and_deliver (envs 0) s of
        (Inl err, s1) \<Rightarrow> fail_and_stop redact (envs 1) (OF_Persistence err) s1
      | (Inr _, s1) \<Rightarrow>
          s1\<lparr>ob_delivered := ob_delivered s1 @ [Del_RunEvent (approval_event_for_delivery e)],
             ob_durability := OD_Committed (ob_sequence s1)\<rparr>)"

definition finish_if_terminal :: "agent_run_event \<Rightarrow> outbox \<Rightarrow> outbox" where
  "finish_if_terminal e s =
     (if closes_run e then stop_actor (s\<lparr>ob_completion := OO_TerminalCommitted (ob_sequence s)\<rparr>)
      else s)"

definition process_durable ::
  "(string \<Rightarrow> string) \<Rightarrow> (nat \<Rightarrow> storage_env) \<Rightarrow> agent_run_event \<Rightarrow> outbox \<Rightarrow> outbox" where
  "process_durable redact envs e s =
     (let s1 = s\<lparr>ob_pending := ob_pending s @ [e]\<rparr>
      in if \<not> is_deferred_event e \<or> LIVE_JOURNAL_MAX_BATCH \<le> length (ob_pending s1)
         then
           (case commit_and_deliver (envs 0) s1 of
              (Inl err, s2) \<Rightarrow> fail_and_stop redact (envs 1) (OF_Persistence err) s2
            | (Inr _, s2) \<Rightarrow>
                finish_if_terminal e (s2\<lparr>ob_durability := OD_Committed (ob_sequence s2)\<rparr>))
         else finish_if_terminal e s1)"

definition process_event ::
  "(string \<Rightarrow> string) \<Rightarrow> (nat \<Rightarrow> storage_env) \<Rightarrow> agent_run_event \<Rightarrow> outbox \<Rightarrow> outbox" where
  "process_event redact envs e0 s =
     (let seq = saturating_add (ob_sequence s) 1;
          e = e0\<lparr>ev_event_seq := seq\<rparr>;
          s1 = s\<lparr>ob_sequence := seq, ob_last_turn_id := ev_turn_id e\<rparr>
      in if validate_durable_contract e \<noteq> Inr () then stop_actor s1
         else if \<not> is_durable e then process_preview redact envs e s1
         else process_durable redact envs e s1)"

text \<open>A pause first commits the batch before it, then takes its own number.\<close>

definition pause_at_boundary ::
  "(string \<Rightarrow> string) \<Rightarrow> (nat \<Rightarrow> storage_env) \<Rightarrow> core_error + task_resume_checkpoint \<Rightarrow> string \<Rightarrow>
     outbox \<Rightarrow> outbox" where
  "pause_at_boundary redact envs prepared turn_id s =
     (case commit_pause_checkpoint_and_deliver (envs 1) prepared turn_id (ob_sequence s) s of
        (Inr checkpoint, s1) \<Rightarrow>
          s1\<lparr>ob_durability := OD_Committed (ob_sequence s1),
             ob_pause_responses := ob_pause_responses s1 @ [Inr checkpoint]\<rparr>
      | (Inl err, s1) \<Rightarrow>
          (let s2 = fail_and_stop redact (envs 2) (OF_Persistence err) s1
           in s2\<lparr>ob_pause_responses := ob_pause_responses s2 @ [Inl (OF_Persistence err)]\<rparr>))"

definition process_pause ::
  "(string \<Rightarrow> string) \<Rightarrow> (nat \<Rightarrow> storage_env) \<Rightarrow> core_error + task_resume_checkpoint \<Rightarrow> string \<Rightarrow>
     outbox \<Rightarrow> outbox" where
  "process_pause redact envs prepared turn_id s =
     (let s1 = s\<lparr>ob_last_turn_id := turn_id\<rparr> in
      case commit_and_deliver (envs 0) s1 of
        (Inl err, s2) \<Rightarrow>
          (let s3 = fail_and_stop redact (envs 1) (OF_Persistence err) s2
           in s3\<lparr>ob_pause_responses := ob_pause_responses s3 @ [Inl (OF_Persistence err)]\<rparr>)
      | (Inr _, s2) \<Rightarrow>
          (let s3 = (if ob_pending s1 = [] then s2
                     else s2\<lparr>ob_durability := OD_Committed (ob_sequence s2)\<rparr>)
           in pause_at_boundary redact envs prepared turn_id
                (s3\<lparr>ob_sequence := saturating_add (ob_sequence s3) 1\<rparr>)))"

text \<open>
  The drain after saturation: number and commit what is queued, in batches, refuse pauses.
  The result holds the drain failure, how many pauses were refused and how many transactions
  were used.
\<close>

fun drain_queue ::
  "(nat \<Rightarrow> storage_env) \<Rightarrow> nat \<Rightarrow> outbox_command list \<Rightarrow> outbox \<Rightarrow>
     core_error option \<times> nat \<times> nat \<times> outbox" where
  "drain_queue envs k [] s = (None, 0, k, s)"
| "drain_queue envs k (Cmd_Event e0 # cs) s =
     (let seq = saturating_add (ob_sequence s) 1;
          e = e0\<lparr>ev_event_seq := seq\<rparr>;
          s1 = s\<lparr>ob_sequence := seq, ob_last_turn_id := ev_turn_id e\<rparr>
      in if validate_durable_contract e \<noteq> Inr ()
         then (Some (CE_InvalidInput ''invalid agent run event''), 0, k, s1)
         else if \<not> is_durable e then drain_queue envs k cs s1
         else
           (let s2 = s1\<lparr>ob_pending := ob_pending s1 @ [e]\<rparr>
            in if LIVE_JOURNAL_MAX_BATCH \<le> length (ob_pending s2)
               then (case commit_and_deliver (envs k) s2 of
                       (Inl err, s3) \<Rightarrow> (Some err, 0, Suc k, s3)
                     | (Inr _, s3) \<Rightarrow>
                         drain_queue envs (Suc k) cs (s3\<lparr>ob_durability := OD_Committed seq\<rparr>))
               else drain_queue envs k cs s2))"
| "drain_queue envs k (Cmd_PauseCheckpoint turn_id reason # cs) s =
     (case drain_queue envs k cs (s\<lparr>ob_last_turn_id := turn_id\<rparr>) of
        (err, n, k', s') \<Rightarrow> (err, Suc n, k', s'))"

definition handle_failure_request ::
  "(string \<Rightarrow> string) \<Rightarrow> (nat \<Rightarrow> storage_env) \<Rightarrow> outbox \<Rightarrow> outbox" where
  "handle_failure_request redact envs s =
     (case drain_queue envs 0 (ob_queue s) (s\<lparr>ob_failure_request := False, ob_queue := []\<rparr>) of
        (drain_failure, rejected, k, s1) \<Rightarrow>
         (case (if drain_failure = None \<and> ob_pending s1 \<noteq> []
                then (case commit_and_deliver (envs k) s1 of
                        (Inl err, s2) \<Rightarrow> (Some err, s2)
                      | (Inr _, s2) \<Rightarrow>
                          (None, s2\<lparr>ob_durability := OD_Committed (ob_sequence s2)\<rparr>))
                else (drain_failure, s1)) of
            (failed, s2) \<Rightarrow>
              (let failure = (case failed of Some err \<Rightarrow> OF_Persistence err | None \<Rightarrow> OF_QueueFull);
                   s3 = fail_and_stop redact (envs (Suc k)) failure s2
               in s3\<lparr>ob_pause_responses :=
                       ob_pause_responses s3 @ replicate rejected (Inl failure)\<rparr>)))"

definition handle_tick :: "(string \<Rightarrow> string) \<Rightarrow> (nat \<Rightarrow> storage_env) \<Rightarrow> outbox \<Rightarrow> outbox" where
  "handle_tick redact envs s =
     (case commit_and_deliver (envs 0) s of
        (Inl err, s1) \<Rightarrow> fail_and_stop redact (envs 1) (OF_Persistence err) s1
      | (Inr _, s1) \<Rightarrow> s1\<lparr>ob_durability := OD_Committed (ob_sequence s1)\<rparr>)"

definition handle_senders_dropped :: "(nat \<Rightarrow> storage_env) \<Rightarrow> outbox \<Rightarrow> outbox" where
  "handle_senders_dropped envs s = stop_actor (snd (commit_and_deliver (envs 0) s))"

section \<open>Operations\<close>

datatype outbox_op =
    Op_Submit agent_run_event
  | Op_PublishEphemeral agent_run_event
  | Op_Pause string string
  | Op_Resume
  | Op_Recv
  | Op_Process "nat \<Rightarrow> storage_env" "core_error + task_resume_checkpoint"
  | Op_FailureRequest "nat \<Rightarrow> storage_env"
  | Op_Tick "nat \<Rightarrow> storage_env"
  | Op_SendersDropped "nat \<Rightarrow> storage_env"
  | Op_OtherWriter ledger_op

text \<open>
  The branches of the loop are taken only between commands; the timer branch is guarded by a
  non-empty batch.
\<close>

fun outbox_step :: "(string \<Rightarrow> string) \<Rightarrow> outbox_op \<Rightarrow> outbox \<Rightarrow> outbox" where
  "outbox_step redact (Op_Submit e) s = snd (submit e s)"
| "outbox_step redact (Op_PublishEphemeral e) s = snd (publish_ephemeral e s)"
| "outbox_step redact (Op_Pause t r) s = snd (enqueue_pause_checkpoint t r s)"
| "outbox_step redact Op_Resume s = snd (resume_submissions s)"
| "outbox_step redact Op_Recv s =
     (if ob_running s \<and> ob_current s = None
      then (case ob_queue s of
              [] \<Rightarrow> s
            | c # cs \<Rightarrow> s\<lparr>ob_queue := cs, ob_current := Some c\<rparr>)
      else s)"
| "outbox_step redact (Op_Process envs prepared) s =
     (if ob_running s
      then (case ob_current s of
              None \<Rightarrow> s
            | Some (Cmd_Event e) \<Rightarrow> process_event redact envs e (s\<lparr>ob_current := None\<rparr>)
            | Some (Cmd_PauseCheckpoint t r) \<Rightarrow>
                process_pause redact envs prepared t (s\<lparr>ob_current := None\<rparr>))
      else s)"
| "outbox_step redact (Op_FailureRequest envs) s =
     (if ob_running s \<and> ob_current s = None \<and> ob_failure_request s
      then handle_failure_request redact envs s else s)"
| "outbox_step redact (Op_Tick envs) s =
     (if ob_running s \<and> ob_current s = None \<and> ob_pending s \<noteq> []
      then handle_tick redact envs s else s)"
| "outbox_step redact (Op_SendersDropped envs) s =
     (if ob_running s \<and> ob_current s = None \<and> ob_queue s = []
      then handle_senders_dropped envs s else s)"
| "outbox_step redact (Op_OtherWriter x) s = s\<lparr>ob_db := ledger_step x (ob_db s)\<rparr>"

end
