(* ===== verification/Outbox_Invariant.thy ===== *)
theory Outbox_Invariant
  imports Run_Event_Outbox
begin

text \<open>
  The invariant of the outbox and the proof that every operation of \<open>Run_Event_Outbox\<close> keeps
  it: what is queued has been validated, numbers are assigned in order and agree with the
  count of accepted commands, what the host has seen of durable events is in the ledger, and
  nothing closes the run before the actor stops. The theory ends with three further facts that
  are kept along the way: a stopped actor has reported an outcome, an accepted event is always
  in the inbox, the batch or the ledger, and a reported terminal is in the database.
\<close>

section \<open>Effects of the actor's building blocks\<close>

fun delivered_events :: "delivery list \<Rightarrow> agent_run_event list" where
  "delivered_events [] = []"
| "delivered_events (Del_RunEvent e # ds) = e # delivered_events ds"
| "delivered_events (Del_Snapshot t # ds) = delivered_events ds"

lemma delivered_events_append [simp]:
  "delivered_events (xs @ ys) = delivered_events xs @ delivered_events ys"
  by (induction xs rule: delivered_events.induct) auto

lemma delivered_events_map [simp]:
  "delivered_events (map (\<lambda>e. Del_RunEvent (f e)) es) = map f es"
  "delivered_events (map Del_Snapshot ts) = []"
  by (induction es) (simp_all, induction ts, simp_all)

abbreviation published :: "outbox \<Rightarrow> agent_run_event list" where
  "published s \<equiv> delivered_events (ob_delivered s)"

lemma for_delivery_sel [simp]:
  "ev_event_seq (approval_event_for_delivery e) = ev_event_seq e"
  "ev_run_id (approval_event_for_delivery e) = ev_run_id e"
  "ev_kind (approval_event_for_delivery e) = ev_kind e"
  "ev_status (approval_event_for_delivery e) = ev_status e"
  "is_durable (approval_event_for_delivery e) = is_durable e"
  "closes_run (approval_event_for_delivery e) = closes_run e"
  by (auto simp: approval_event_for_delivery_def is_durable_def closes_run_def is_terminal_def
      split: json.splits)

lemma for_persistence_sel [simp]:
  "ev_event_seq (approval_event_for_persistence e) = ev_event_seq e"
  "ev_run_id (approval_event_for_persistence e) = ev_run_id e"
  "ev_kind (approval_event_for_persistence e) = ev_kind e"
  "ev_status (approval_event_for_persistence e) = ev_status e"
  "is_durable (approval_event_for_persistence e) = is_durable e"
  "closes_run (approval_event_for_persistence e) = closes_run e"
  by (auto simp: approval_event_for_persistence_def is_durable_def closes_run_def is_terminal_def
      split: json.splits option.splits)

lemma resequence_sel [simp]:
  "is_durable (e\<lparr>ev_event_seq := n\<rparr>) = is_durable e"
  "closes_run (e\<lparr>ev_event_seq := n\<rparr>) = closes_run e"
  by (simp_all add: is_durable_def closes_run_def is_terminal_def)

lemma commit_and_deliver_cases:
  obtains (failed) err where "ob_pending s \<noteq> []" and "commit_and_deliver env s = (Inl err, s\<lparr>ob_pending := []\<rparr>)"
  | (ok) db' ds where "commit_and_deliver env s = (Inr (), s\<lparr>ob_pending := [], ob_db := db',
        ob_delivered := ob_delivered s @ ds\<rparr>)"
      and "delivered_events ds = map approval_event_for_delivery (ob_pending s)"
      and "db_run_events db' = db_run_events (ob_db s) @ map approval_event_for_persistence (ob_pending s)"
proof (cases "ob_pending s = []")
  case True
  then have "commit_and_deliver env s = (Inr (), s\<lparr>ob_pending := [], ob_db := ob_db s,
      ob_delivered := ob_delivered s @ []\<rparr>)"
    by (simp add: commit_and_deliver_def)
  with True ok [where db' = "ob_db s" and ds = "[]"] show thesis by simp
next
  case False
  show thesis
  proof (cases "commit_run_event_batch env (ob_run_id s)
      (map approval_event_for_persistence (ob_pending s)) (ob_db s)")
    case (Inl err)
    with False failed [of err] show thesis by (simp add: commit_and_deliver_def)
  next
    case (Inr out)
    obtain db' ts where "out = (db', ts)" by force
    with Inr have c: "commit_run_event_batch env (ob_run_id s)
      (map approval_event_for_persistence (ob_pending s)) (ob_db s) = Inr (db', ts)" by simp
    with False ok [where db' = db' and ds = "map (\<lambda>e. Del_RunEvent (approval_event_for_delivery e)) (ob_pending s)
        @ map Del_Snapshot ts"] commit_run_event_batch_ledger(1) [OF c]
    show thesis by (simp add: commit_and_deliver_def Let_def)
  qed
qed

lemma fail_closed_cases:
  obtains (silent) db' d c where
      "fail_closed redact env t n f s = s\<lparr>ob_terminal_submitted := True, ob_cancelled := True,
         ob_db := db', ob_durability := d, ob_completion := c\<rparr>"
      and "db_run_events db' = db_run_events (ob_db s)"
  | (claimed) db' snap m where
      "fail_closed redact env t n f s = s\<lparr>ob_terminal_submitted := True, ob_cancelled := True,
         ob_db := db',
         ob_delivered := ob_delivered s
           @ [Del_RunEvent (fail_closed_terminal redact (ob_run_id s) t m (reason_code f)), Del_Snapshot snap],
         ob_durability := OD_Failed f, ob_completion := OO_Failed f\<rparr>"
      and "db_run_events db' = db_run_events (ob_db s)"
      and "m = saturating_add (max (run_head (ob_db s) (ob_run_id s)) n) 1"
proof (cases "fail_run_event_outbox_if_open env (ob_run_id s) (reason_code f) (ob_db s)")
  case (Inl err)
  with silent [where db' = "ob_db s"] show thesis by (simp add: fail_closed_def Let_def)
next
  case (Inr out)
  obtain db' x where "out = (db', x)" by force
  with Inr have c: "fail_run_event_outbox_if_open env (ob_run_id s) (reason_code f) (ob_db s) = Inr (db', x)"
    by simp
  note l = fail_run_event_outbox_ledger [OF c]
  then have ev: "db_run_events db' = db_run_events (ob_db s)" by (simp add: projects_def)
  show thesis
  proof (cases x)
    case (FC_Claimed h snap)
    with l have "h = run_head (ob_db s) (ob_run_id s)" by (auto split: if_splits)
    with FC_Claimed c ev claimed [where db' = db' and snap = snap] show thesis by (simp add: fail_closed_def Let_def)
  next
    case (FC_AlreadyClosed h)
    with c ev silent [where db' = db'] show thesis by (simp add: fail_closed_def Let_def)
  qed
qed

lemma fail_closed_terminal_sel [simp]:
  "ev_event_seq (fail_closed_terminal redact r t m x) = m"
  "\<not> is_durable (fail_closed_terminal redact r t m x)"
  "closes_run (fail_closed_terminal redact r t m x)"
  by (simp_all add: fail_closed_terminal_def terminal_error_def Let_def is_durable_def closes_run_def
      is_terminal_def kind_is_terminal_def)

lemma sat_succ:
  fixes a :: "'a::len word"
  assumes "a \<noteq> - 1"
  shows "unat (saturating_add a 1) = unat a + 1" and "a < saturating_add a 1"
proof -
  have "unat a \<noteq> 2 ^ LENGTH('a) - 1" using assms unat_max [where 'a = 'a] by (metis word_unat_eq_iff)
  with unat_le_max [of a] have "unat a + 1 \<le> 2 ^ LENGTH('a) - 1" by linarith
  then show *: "unat (saturating_add a 1) = unat a + 1" by (simp add: unat_saturating_add min_def)
  then show "a < saturating_add a 1" by (simp add: word_less_nat_alt)
qed

section \<open>Invariant\<close>

definition accepted_event :: "string \<Rightarrow> agent_run_event \<Rightarrow> bool" where
  "accepted_event r e = (ev_event_seq e = 0 \<and> ev_run_id e = r
     \<and> validate_durable_contract (e\<lparr>ev_event_seq := 1\<rparr>) = Inr ()
     \<and> (is_durable e \<or> \<not> closes_run e))"

fun accepted_command :: "string \<Rightarrow> outbox_command \<Rightarrow> bool" where
  "accepted_command r (Cmd_Event e) = accepted_event r e"
| "accepted_command r (Cmd_PauseCheckpoint _ _) = True"

fun closing_command :: "outbox_command \<Rightarrow> bool" where
  "closing_command (Cmd_Event e) = closes_run e"
| "closing_command (Cmd_PauseCheckpoint _ _) = False"

definition inbox :: "outbox \<Rightarrow> outbox_command list" where
  "inbox s = (case ob_current s of None \<Rightarrow> ob_queue s | Some c \<Rightarrow> c # ob_queue s)"

definition committed_first :: "outbox \<Rightarrow> bool" where
  "committed_first s = (\<forall>e \<in> set (published s). is_durable e \<longrightarrow>
     (\<exists>e0. e = approval_event_for_delivery e0
        \<and> approval_event_for_persistence e0 \<in> set (db_run_events (ob_db s))))"

text \<open>The order facts hold as long as fewer than \<open>2^64 - 1\<close> commands have been accepted.\<close>

abbreviation unwrapped :: "outbox \<Rightarrow> bool" where
  "unwrapped s \<equiv> ob_accepted_high_water s \<noteq> - 1"

definition log_ok :: "outbox \<Rightarrow> bool" where
  "log_ok s = (committed_first s
     \<and> (\<forall>e \<in> set (ob_pending s). is_durable e \<and> ev_run_id e = ob_run_id s)
     \<and> (unwrapped s \<longrightarrow>
          sorted_wrt (<) (map ev_event_seq (published s @ ob_pending s))
          \<and> (\<forall>e \<in> set (published s @ ob_pending s). ev_event_seq e \<le> ob_sequence s)))"

definition quiet :: "outbox \<Rightarrow> bool" where
  "quiet s = (filter closes_run (published s) = [])"

definition inbox_ok :: "outbox \<Rightarrow> bool" where
  "inbox_ok s = (list_all (accepted_command (ob_run_id s)) (inbox s)
     \<and> list_all (\<lambda>c. \<not> closing_command c) (butlast (inbox s))
     \<and> (list_ex closing_command (inbox s) \<longrightarrow> ob_terminal_submitted s)
     \<and> (ob_failure_request s \<longrightarrow> ob_terminal_submitted s \<and> \<not> list_ex closing_command (inbox s)))"

definition counters_ok :: "outbox \<Rightarrow> bool" where
  "counters_ok s = (unwrapped s \<longrightarrow>
     unat (ob_accepted_high_water s) = unat (ob_sequence s) + length (inbox s)
     \<and> (\<exists>n. ob_durability s = OD_Committed n \<and> n \<le> ob_sequence s
          \<and> (\<forall>e \<in> set (ob_pending s). n < ev_event_seq e)))"

definition pending_open :: "outbox \<Rightarrow> bool" where
  "pending_open s = (filter closes_run (ob_pending s) = [] \<and> length (ob_pending s) < LIVE_JOURNAL_MAX_BATCH)"

definition stopped_ok :: "outbox \<Rightarrow> bool" where
  "stopped_ok s = (committed_first s \<and> inbox s = [] \<and> ob_pending s = []
     \<and> filter closes_run (butlast (published s)) = []
     \<and> (unwrapped s \<longrightarrow> sorted_wrt (<) (map ev_event_seq (published s))))"

definition live_ok :: "outbox \<Rightarrow> bool" where
  "live_ok s = (log_ok s \<and> quiet s \<and> inbox_ok s \<and> counters_ok s \<and> pending_open s)"

definition outbox_inv :: "outbox \<Rightarrow> bool" where
  "outbox_inv s = (if ob_running s then live_ok s else stopped_ok s)"

lemma committed_first_mono:
  assumes "committed_first s" and "published s' = published s"
    and "set (db_run_events (ob_db s)) \<subseteq> set (db_run_events (ob_db s'))"
  shows "committed_first s'"
  using assms unfolding committed_first_def by (metis subsetD)

lemma commit_ok_log:
  assumes "log_ok s"
    and "commit_and_deliver env s = (Inr (), s')"
  shows "log_ok s' \<and> ob_pending s' = []"
proof (cases rule: commit_and_deliver_cases [of s env])
  case (failed err)
  with assms show ?thesis by simp
next
  case (ok db' ds)
  have "committed_first s'"
    using assms(1) ok assms(2) unfolding log_ok_def committed_first_def by fastforce
  with assms ok show ?thesis
    by (auto simp: log_ok_def comp_def)
qed

lemma stop_after_commit:
  assumes "log_ok s" and "ob_pending s = []" and "filter closes_run (butlast (published s)) = []"
  shows "outbox_inv (stop_actor s)"
  using assms by (auto simp: outbox_inv_def stop_actor_def stopped_ok_def log_ok_def inbox_def
      committed_first_def)

lemma quiet_butlast: "quiet s \<Longrightarrow> filter closes_run (butlast (published s)) = []"
  by (auto simp: quiet_def filter_empty_conv dest: in_set_butlastD)

lemma fail_and_stop_inv:
  assumes "log_ok s" and "quiet s" and "unwrapped s \<Longrightarrow> ob_sequence s \<noteq> - 1"
  shows "outbox_inv (fail_and_stop redact env f s)"
proof (cases rule: fail_closed_cases [of redact env "ob_last_turn_id s" "ob_sequence s" f s])
  case (silent db' d c)
  with assms quiet_butlast [OF assms(2)] show ?thesis
    by (auto simp: fail_and_stop_def outbox_inv_def stop_actor_def stopped_ok_def log_ok_def inbox_def
        committed_first_def quiet_def sorted_wrt_append)
next
  case (claimed db' snap m)
  have "ob_sequence s < m" if "unwrapped s"
  proof -
    have "ob_sequence s < saturating_add (ob_sequence s) 1" using assms(3) that sat_succ(2) by blast
    also have "\<dots> \<le> m" unfolding claimed(3) by (intro saturating_add_mono) simp
    finally show ?thesis .
  qed
  then have "ev_event_seq x < m" if "unwrapped s" "x \<in> set (published s)" for x
    using assms(1) that by (auto simp: log_ok_def intro: order_le_less_trans)
  with assms(1,2) claimed(1,2) show ?thesis
    by (auto simp: fail_and_stop_def outbox_inv_def stop_actor_def stopped_ok_def log_ok_def inbox_def
        committed_first_def quiet_def sorted_wrt_append)
qed

lemma pause_response_inv [simp]: "outbox_inv (s\<lparr>ob_pause_responses := x\<rparr>) = outbox_inv s"
  by (simp add: outbox_inv_def live_ok_def stopped_ok_def log_ok_def quiet_def inbox_ok_def
      counters_ok_def pending_open_def committed_first_def inbox_def cong: option.case_cong)

section \<open>The actor keeps the invariant\<close>

lemma log_ok_bump:
  assumes "log_ok s"
  shows "log_ok (s\<lparr>ob_sequence := saturating_add (ob_sequence s) 1, ob_last_turn_id := t\<rparr>)"
  using assms saturating_add_ge [of "ob_sequence s" 1]
  by (auto simp: log_ok_def committed_first_def intro: order_trans)

lemma log_ok_push:
  assumes "log_ok s" and "unwrapped s \<Longrightarrow> ob_sequence s \<noteq> - 1"
    and "is_durable e" and "ev_run_id e = ob_run_id s"
    and "ev_event_seq e = saturating_add (ob_sequence s) 1"
  shows "log_ok (s\<lparr>ob_sequence := saturating_add (ob_sequence s) 1, ob_last_turn_id := t,
           ob_pending := ob_pending s @ [e]\<rparr>)"
proof -
  have "ob_sequence s < saturating_add (ob_sequence s) 1" if "unwrapped s"
    using assms(2) that sat_succ(2) by blast
  then have "unwrapped s \<Longrightarrow> x \<in> set (published s @ ob_pending s) \<Longrightarrow>
      ev_event_seq x < saturating_add (ob_sequence s) 1" for x
    using assms(1) unfolding log_ok_def by (meson order_le_less_trans)
  with assms show ?thesis
    by (auto simp: log_ok_def committed_first_def sorted_wrt_append less_imp_le)
qed

text \<open>A command has been taken from the queue and is about to be handled.\<close>

definition taken :: "outbox_command \<Rightarrow> outbox \<Rightarrow> bool" where
  "taken c s = (ob_running s \<and> ob_current s = None \<and> live_ok (s\<lparr>ob_current := Some c\<rparr>))"

lemma takenD:
  assumes "taken c s"
  shows "log_ok s" "quiet s" "pending_open s" "ob_running s" "ob_current s = None"
    and "accepted_command (ob_run_id s) c" "list_all (accepted_command (ob_run_id s)) (ob_queue s)"
    and "closing_command c \<Longrightarrow> ob_queue s = []"
    and "inbox_ok s"
    and "unwrapped s \<Longrightarrow> unat (ob_accepted_high_water s) = unat (ob_sequence s) + Suc (length (ob_queue s))"
    and "unwrapped s \<Longrightarrow> \<exists>n. ob_durability s = OD_Committed n \<and> n \<le> ob_sequence s
          \<and> (\<forall>e \<in> set (ob_pending s). n < ev_event_seq e)"
    and "unwrapped s \<Longrightarrow> ob_sequence s \<noteq> - 1"
proof -
  note d = assms [unfolded taken_def live_ok_def]
  from d show "log_ok s" "quiet s" "pending_open s" "ob_running s" "ob_current s = None"
    by (auto simp: log_ok_def quiet_def pending_open_def committed_first_def)
  from d show "accepted_command (ob_run_id s) c" "list_all (accepted_command (ob_run_id s)) (ob_queue s)"
    "inbox_ok s"
    by (auto simp: inbox_ok_def inbox_def list_all_iff split: if_splits dest: in_set_butlastD)
  from d show "ob_queue s = []" if "closing_command c"
    using that by (auto simp: inbox_ok_def inbox_def split: if_splits)
  from d show c: "unwrapped s \<Longrightarrow> unat (ob_accepted_high_water s) = unat (ob_sequence s) + Suc (length (ob_queue s))"
    and "unwrapped s \<Longrightarrow> \<exists>n. ob_durability s = OD_Committed n \<and> n \<le> ob_sequence s
          \<and> (\<forall>e \<in> set (ob_pending s). n < ev_event_seq e)"
    by (auto simp: counters_ok_def inbox_def)
  show "ob_sequence s \<noteq> - 1" if "unwrapped s"
    using c [OF that] unat_le_max [of "ob_accepted_high_water s"] unat_max [where 'a = 64] by auto
qed

lemma accepted_event_valid:
  assumes "accepted_event r e"
  shows "validate_durable_contract (e\<lparr>ev_event_seq := saturating_add n 1\<rparr>) = Inr ()"
  using assms validate_resequence [of "saturating_add n 1" 1 e] saturating_add_one_pos [of n]
  by (simp add: accepted_event_def)

text \<open>
  After the command's number has been assigned: the invariant in the handled state, apart
  from the batch.
\<close>

lemma assigned_live:
  assumes "taken c s" and "log_ok s'" and "quiet s'" and "pending_open s'" and "ob_current s' = None"
    and same: "ob_run_id s' = ob_run_id s" "ob_queue s' = ob_queue s"
      "ob_terminal_submitted s' = ob_terminal_submitted s"
      "ob_failure_request s' = ob_failure_request s"
      "ob_accepted_high_water s' = ob_accepted_high_water s"
    and seq: "ob_sequence s' = saturating_add (ob_sequence s) 1"
    and dur: "unwrapped s \<Longrightarrow> \<exists>n. ob_durability s' = OD_Committed n \<and> n \<le> ob_sequence s'
          \<and> (\<forall>e \<in> set (ob_pending s'). n < ev_event_seq e)"
  shows "live_ok s'"
proof -
  note t = takenD [OF assms(1)]
  have "inbox_ok s'" using t(5,9) assms(5) same by (simp add: inbox_ok_def inbox_def)
  moreover have "counters_ok s'"
    using t(10,12) dur sat_succ(1) [of "ob_sequence s"] assms(5) same seq
    by (simp add: counters_ok_def inbox_def)
  ultimately show ?thesis using assms(2-4) by (simp add: live_ok_def)
qed

text \<open>The state after the number has been assigned to the command \<open>Cmd_Event e0\<close>.\<close>

definition numbered :: "agent_run_event \<Rightarrow> outbox \<Rightarrow> outbox" where
  "numbered e0 s = s\<lparr>ob_sequence := saturating_add (ob_sequence s) 1, ob_last_turn_id := ev_turn_id e0\<rparr>"

lemma numbered_not_max:
  assumes "taken c s" and "unwrapped s"
  shows "saturating_add (ob_sequence s) 1 \<noteq> - 1"
proof -
  have "unat (saturating_add (ob_sequence s) 1) \<le> unat (ob_accepted_high_water s)"
    using takenD(10,12) [OF assms(1)] sat_succ(1) assms(2) by fastforce
  with assms(2) unat_le_max [of "ob_accepted_high_water s"] unat_max [where 'a = 64] show ?thesis
    by (metis order_antisym word_unat_eq_iff)
qed

lemma failed_commit_inv:
  assumes "log_ok s" and "quiet s" and "unwrapped s \<Longrightarrow> ob_sequence s \<noteq> - 1"
  shows "outbox_inv (fail_and_stop redact env f (s\<lparr>ob_pending := []\<rparr>))"
  using assms
  by (intro fail_and_stop_inv) (auto simp: log_ok_def quiet_def committed_first_def sorted_wrt_append)

lemma numbered_bounds:
  assumes "taken c s" and "unwrapped s" and "x \<in> set (published s @ ob_pending s)"
  shows "ev_event_seq x < saturating_add (ob_sequence s) 1"
proof -
  have "ev_event_seq x \<le> ob_sequence s"
    using takenD(1) [OF assms(1)] assms(2,3) by (auto simp: log_ok_def)
  also have "\<dots> < saturating_add (ob_sequence s) 1"
    using takenD(12) [OF assms(1,2)] by (rule sat_succ(2))
  finally show ?thesis .
qed

lemma process_preview_inv:
  assumes t: "taken (Cmd_Event e0) s" and "\<not> is_durable e0"
    and e: "e = e0\<lparr>ev_event_seq := saturating_add (ob_sequence s) 1\<rparr>"
  shows "outbox_inv (process_preview redact envs e (numbered e0 s))"
proof -
  note td = takenD [OF t]
  have l1: "log_ok (numbered e0 s)" using log_ok_bump [OF td(1)] by (simp add: numbered_def)
  have q1: "quiet (numbered e0 s)" using td(2) by (simp add: quiet_def numbered_def)
  have nc: "\<not> closes_run e" using td(6) assms(2) e by (simp add: accepted_event_def)
  show ?thesis
  proof (cases rule: commit_and_deliver_cases [of "numbered e0 s" "envs 0"])
    case (failed err)
    then show ?thesis
      using failed_commit_inv [OF l1 q1] numbered_not_max [OF t]
      by (simp add: process_preview_def numbered_def)
  next
    case (ok db' ds)
    let ?s' = "process_preview redact envs e (numbered e0 s)"
    define s2 where "s2 = (numbered e0 s)\<lparr>ob_pending := [], ob_db := db',
        ob_delivered := ob_delivered (numbered e0 s) @ ds\<rparr>"
    have s': "?s' = s2\<lparr>ob_delivered := ob_delivered s2 @ [Del_RunEvent (approval_event_for_delivery e)],
             ob_durability := OD_Committed (ob_sequence s2)\<rparr>"
      using ok(1) by (simp add: process_preview_def s2_def)
    have l2: "log_ok s2" using commit_ok_log [OF l1 ok(1)] by (simp add: s2_def)
    have "log_ok ?s'"
      unfolding s' using l2 numbered_bounds [OF t] ok(2) assms(2) e
      by (auto simp: s2_def numbered_def log_ok_def committed_first_def sorted_wrt_append)
    moreover have "quiet ?s'"
      using td(2,3) ok(2) nc unfolding s' by (simp add: s2_def quiet_def numbered_def pending_open_def filter_map comp_def)
    moreover have "pending_open ?s'" unfolding s' by (simp add: s2_def pending_open_def LIVE_JOURNAL_MAX_BATCH_def)
    ultimately have "live_ok ?s'"
      unfolding s' by (intro assigned_live [OF t]) (auto simp: s2_def numbered_def td)
    then show ?thesis unfolding s' using td(4) by (simp add: outbox_inv_def s2_def numbered_def)
  qed
qed

lemma process_durable_inv:
  assumes t: "taken (Cmd_Event e0) s" and "is_durable e0"
    and e: "e = e0\<lparr>ev_event_seq := saturating_add (ob_sequence s) 1\<rparr>"
  shows "outbox_inv (process_durable redact envs e (numbered e0 s))"
proof -
  note td = takenD [OF t]
  define s1 where "s1 = (numbered e0 s)\<lparr>ob_pending := ob_pending s @ [e]\<rparr>"
  have l1: "log_ok s1"
    using log_ok_push [OF td(1,12)] assms(2) td(6) e
    by (simp add: s1_def numbered_def accepted_event_def)
  have q1: "quiet s1" using td(2) by (simp add: quiet_def numbered_def s1_def)
  have pd: "process_durable redact envs e (numbered e0 s) =
      (if \<not> is_deferred_event e \<or> LIVE_JOURNAL_MAX_BATCH \<le> length (ob_pending s1)
       then (case commit_and_deliver (envs 0) s1 of
              (Inl err, s2) \<Rightarrow> fail_and_stop redact (envs 1) (OF_Persistence err) s2
            | (Inr _, s2) \<Rightarrow>
                finish_if_terminal e (s2\<lparr>ob_durability := OD_Committed (ob_sequence s2)\<rparr>))
       else finish_if_terminal e s1)"
    by (simp add: process_durable_def s1_def numbered_def Let_def)
  show ?thesis
  proof (cases "\<not> is_deferred_event e \<or> LIVE_JOURNAL_MAX_BATCH \<le> length (ob_pending s1)")
    case False
    then have nc: "\<not> closes_run e"
      by (auto simp: is_deferred_event_def closes_run_def is_terminal_def kind_is_terminal_def split: if_splits)
    have "pending_open s1" using False nc td(3) by (simp add: pending_open_def s1_def)
    moreover have "\<exists>n. ob_durability s1 = OD_Committed n \<and> n \<le> ob_sequence s1
          \<and> (\<forall>x \<in> set (ob_pending s1). n < ev_event_seq x)" if u: "unwrapped s"
    proof -
      from td(11) [OF u] obtain n where n: "ob_durability s = OD_Committed n" "n \<le> ob_sequence s"
        "\<forall>x \<in> set (ob_pending s). n < ev_event_seq x" by blast
      have "n < saturating_add (ob_sequence s) 1" using n(2) sat_succ(2) [OF td(12) [OF u]] by simp
      with n show ?thesis by (auto simp: s1_def numbered_def e less_imp_le)
    qed
    ultimately have "live_ok s1"
      by (intro assigned_live [OF t l1 q1]) (auto simp: s1_def numbered_def td)
    with False nc td(4) show ?thesis
      unfolding pd by (simp add: finish_if_terminal_def outbox_inv_def s1_def numbered_def)
  next
    case True
    show ?thesis
    proof (cases rule: commit_and_deliver_cases [of s1 "envs 0"])
      case (failed err)
      with True failed_commit_inv [OF l1 q1] numbered_not_max [OF t] show ?thesis
        unfolding pd by (simp add: s1_def numbered_def)
    next
      case (ok db' ds)
      define s2 where "s2 = s1\<lparr>ob_pending := [], ob_db := db', ob_delivered := ob_delivered s1 @ ds,
          ob_durability := OD_Committed (ob_sequence s1)\<rparr>"
      have s': "process_durable redact envs e (numbered e0 s) = finish_if_terminal e s2"
        using True ok(1) by (simp add: pd s2_def)
      have l2: "log_ok s2"
        using commit_ok_log [OF l1 ok(1)] by (simp add: s2_def log_ok_def committed_first_def)
      have pub: "published s2 = published s @ map approval_event_for_delivery (ob_pending s @ [e])"
        using ok(2) by (simp add: s2_def s1_def numbered_def)
      have cl: "filter closes_run (published s2) = (if closes_run e then [approval_event_for_delivery e] else [])"
        using pub td(2,3) by (simp add: quiet_def pending_open_def filter_map comp_def)
      have clb: "filter closes_run (butlast (published s2)) = []"
        using pub td(2,3) by (simp add: quiet_def pending_open_def filter_map comp_def butlast_append)
      show ?thesis
      proof (cases "closes_run e")
        case True
        have "outbox_inv (stop_actor (s2\<lparr>ob_completion := OO_TerminalCommitted (ob_sequence s2)\<rparr>))"
          using l2 clb by (intro stop_after_commit)
            (simp_all add: log_ok_def committed_first_def s2_def)
        with True s' show ?thesis by (simp add: finish_if_terminal_def)
      next
        case False
        have "live_ok s2"
          using cl False by (intro assigned_live [OF t l2])
            (auto simp: s2_def s1_def numbered_def td quiet_def pending_open_def LIVE_JOURNAL_MAX_BATCH_def)
        with False s' td(4) show ?thesis
          by (simp add: finish_if_terminal_def outbox_inv_def s2_def s1_def numbered_def)
      qed
    qed
  qed
qed

lemma process_event_inv:
  assumes t: "taken (Cmd_Event e0) s"
  shows "outbox_inv (process_event redact envs e0 s)"
proof -
  have "validate_durable_contract (e0\<lparr>ev_event_seq := saturating_add (ob_sequence s) 1\<rparr>) = Inr ()"
    using takenD(6) [OF t] accepted_event_valid by simp
  with process_preview_inv [OF t _ refl] process_durable_inv [OF t _ refl] show ?thesis
    by (simp add: process_event_def Let_def numbered_def)
qed

lemma pause_event_forms [simp]:
  "approval_event_for_delivery (pause_event r t n cp) = pause_event r t n cp"
  "approval_event_for_persistence (pause_event r t n cp) = pause_event r t n cp"
  "ev_event_seq (pause_event r t n cp) = n"
  by (simp_all add: approval_event_for_delivery_def approval_event_for_persistence_def
      pause_event_def status_update_def)

lemma commit_pause_cases:
  obtains (failed) err where "commit_pause_checkpoint_and_deliver env prepared t n s = (Inl err, s)"
  | (ok) db' cp snap where "commit_pause_checkpoint_and_deliver env prepared t n s = (Inr cp,
        s\<lparr>ob_db := db', ob_delivered := ob_delivered s
            @ [Del_RunEvent (pause_event (ob_run_id s) t n cp), Del_Snapshot snap]\<rparr>)"
      and "db_run_events db' = db_run_events (ob_db s) @ [pause_event (ob_run_id s) t n cp]"
      and "commit_pause_checkpoint env prepared (ob_run_id s) t n (ob_db s)
             = Inr (db', cp, pause_event (ob_run_id s) t n cp, snap)"
proof (cases "commit_pause_checkpoint env prepared (ob_run_id s) t n (ob_db s)")
  case (Inl err)
  with failed show thesis by (simp add: commit_pause_checkpoint_and_deliver_def)
next
  case (Inr out)
  obtain db' cp e snap where "out = (db', cp, e, snap)" by (metis surj_pair)
  with Inr have c: "commit_pause_checkpoint env prepared (ob_run_id s) t n (ob_db s)
      = Inr (db', cp, e, snap)" by simp
  note l = commit_pause_checkpoint_ledger [OF c]
  with c ok [where db' = db' and cp = cp and snap = snap] show thesis
    by (simp add: commit_pause_checkpoint_and_deliver_def)
qed

lemma process_pause_inv:
  assumes t: "taken (Cmd_PauseCheckpoint tid reason) s"
  shows "outbox_inv (process_pause redact envs prepared tid s)"
proof -
  note td = takenD [OF t]
  define s1 where "s1 = s\<lparr>ob_last_turn_id := tid\<rparr>"
  have l1: "log_ok s1" using td(1) by (simp add: s1_def log_ok_def committed_first_def)
  have q1: "quiet s1" using td(2) by (simp add: s1_def quiet_def)
  have m1: "unwrapped s1 \<Longrightarrow> ob_sequence s1 \<noteq> - 1" using td(12) by (simp add: s1_def)
  show ?thesis
  proof (cases rule: commit_and_deliver_cases [of s1 "envs 0"])
    case (failed err)
    with failed_commit_inv [OF l1 q1 m1] show ?thesis
      by (simp add: process_pause_def s1_def [symmetric] Let_def)
  next
    case (ok db' ds)
    define s2 where "s2 = s1\<lparr>ob_pending := [], ob_db := db', ob_delivered := ob_delivered s1 @ ds\<rparr>"
    define s3 where "s3 = (if ob_pending s1 = [] then s2
                     else s2\<lparr>ob_durability := OD_Committed (ob_sequence s2)\<rparr>)"
    define seq where "seq = saturating_add (ob_sequence s) 1"
    define s4 where "s4 = s3\<lparr>ob_sequence := seq\<rparr>"
    have s2: "commit_and_deliver (envs 0) s1 = (Inr (), s2)" using ok(1) by (simp add: s2_def)
    have seq3: "ob_sequence s3 = ob_sequence s" by (simp add: s3_def s2_def s1_def)
    have pp: "process_pause redact envs prepared tid s = pause_at_boundary redact envs prepared tid s4"
      unfolding process_pause_def Let_def s1_def [symmetric] s2
      by (simp add: s3_def [symmetric] seq3 s4_def seq_def)
    have seq4: "ob_sequence s4 = seq" by (simp add: s4_def)
    have l2: "log_ok s2" using commit_ok_log [OF l1 s2] by simp
    then have l4: "log_ok s4" and p4: "ob_pending s4 = []"
      using saturating_add_ge [of "ob_sequence s" 1]
      by (auto simp: s4_def s3_def s2_def s1_def log_ok_def committed_first_def seq_def intro: order_trans)
    have pub: "published s4 = published s @ map approval_event_for_delivery (ob_pending s)"
      using ok(2) by (simp add: s4_def s3_def s2_def s1_def)
    have q4: "quiet s4"
      using td(2,3) by (simp add: pub quiet_def pending_open_def filter_map comp_def)
    have m4: "unwrapped s4 \<Longrightarrow> ob_sequence s4 \<noteq> - 1"
      using numbered_not_max [OF t] by (auto simp: s4_def s3_def s2_def s1_def seq_def split: if_splits)
    show ?thesis
    proof (cases rule: commit_pause_cases [of "envs 1" prepared tid seq s4])
      case (failed err)
      with fail_and_stop_inv [OF l4 q4 m4] show ?thesis
        by (simp add: pp pause_at_boundary_def seq4 Let_def)
    next
      case (ok db5 cp snap)
      define s5 where "s5 = s4\<lparr>ob_db := db5, ob_delivered := ob_delivered s4
            @ [Del_RunEvent (pause_event (ob_run_id s4) tid seq cp), Del_Snapshot snap],
            ob_durability := OD_Committed seq\<rparr>"
      have "outbox_inv s5"
      proof -
        have b: "ev_event_seq x < seq" if "unwrapped s" "x \<in> set (published s4)" for x
          using numbered_bounds [OF t that(1)] that(2) unfolding pub seq_def by auto
        have u5: "unwrapped s5 = unwrapped s" "ob_sequence s5 = seq" "ob_pending s5 = []"
          by (simp_all add: s5_def s4_def s3_def s2_def s1_def)
        have pub5: "published s5 = published s4 @ [pause_event (ob_run_id s4) tid seq cp]"
          by (simp add: s5_def)
        have "committed_first s5"
          using l4 ok(2) unfolding log_ok_def committed_first_def pub5
          by (auto simp: s5_def intro: exI [of _ "pause_event (ob_run_id s4) tid seq cp"])
        moreover have "unwrapped s4 = unwrapped s" by (simp add: s4_def s3_def s2_def s1_def)
        ultimately have "log_ok s5"
          using l4 b p4 unfolding log_ok_def u5 pub5
          by (auto simp: sorted_wrt_append s4_def)
        moreover have "quiet s5" using q4 by (simp add: quiet_def s5_def)
        ultimately have "live_ok s5"
          by (intro assigned_live [OF t])
            (auto simp: s5_def s4_def s3_def s2_def s1_def td seq_def pending_open_def LIVE_JOURNAL_MAX_BATCH_def)
        with td(4) show ?thesis by (simp add: outbox_inv_def s5_def s4_def s3_def s2_def s1_def)
      qed
      moreover have "process_pause redact envs prepared tid s
          = s5\<lparr>ob_pause_responses := ob_pause_responses s4 @ [Inr cp]\<rparr>"
        using ok(1) by (simp add: pp pause_at_boundary_def seq4 s5_def)
      ultimately show ?thesis by simp
    qed
  qed
qed

lemma below_max:
  fixes v w :: "'a::len word"
  assumes "w \<noteq> - 1" and "unat v \<le> unat w"
  shows "v \<noteq> - 1"
proof
  assume "v = - 1"
  with assms(2) unat_le_max [of w] have "unat w = unat (- 1 :: 'a word)" by (simp add: unat_max)
  with assms(1) show False using word_unat_eq_iff by blast
qed

definition calm :: "outbox \<Rightarrow> bool" where
  "calm s = (log_ok s \<and> quiet s \<and> filter closes_run (ob_pending s) = [])"

lemma calm_updates [simp]: "calm (s\<lparr>ob_durability := d\<rparr>) = calm s" "calm (s\<lparr>ob_last_turn_id := t\<rparr>) = calm s"
  by (simp_all add: calm_def log_ok_def committed_first_def quiet_def)

lemma commit_calm:
  assumes "calm s" and "commit_and_deliver env s = (res, s')"
  shows "calm s' \<and> ob_pending s' = [] \<and> ob_sequence s' = ob_sequence s \<and> ob_run_id s' = ob_run_id s
    \<and> ob_accepted_high_water s' = ob_accepted_high_water s"
proof (cases rule: commit_and_deliver_cases [of s env])
  case (failed err)
  with assms show ?thesis
    by (auto simp: calm_def log_ok_def quiet_def committed_first_def sorted_wrt_append)
next
  case (ok db' ds)
  with assms commit_ok_log [of s env s'] show ?thesis
    by (auto simp: calm_def quiet_def filter_map comp_def filter_empty_conv)
qed

lemma drain_queue_calm:
  assumes "drain_queue envs k cs s = (err, n, k', s')" and "calm s"
    and "list_all (accepted_command (ob_run_id s)) cs" and "\<not> list_ex closing_command cs"
    and "unwrapped s \<Longrightarrow> unat (ob_sequence s) + length cs \<le> unat (ob_accepted_high_water s)"
  shows "calm s' \<and> ob_accepted_high_water s' = ob_accepted_high_water s
    \<and> (unwrapped s' \<longrightarrow> unat (ob_sequence s') \<le> unat (ob_accepted_high_water s'))"
  using assms
proof (induction envs k cs s arbitrary: n rule: drain_queue.induct)
  case (1 envs k s)
  then show ?case by auto
next
  case (2 envs k e0 cs s)
  define seq where "seq = saturating_add (ob_sequence s) 1"
  define e where "e = e0\<lparr>ev_event_seq := seq\<rparr>"
  define s1 where "s1 = s\<lparr>ob_sequence := seq, ob_last_turn_id := ev_turn_id e\<rparr>"
  define s2 where "s2 = s1\<lparr>ob_pending := ob_pending s1 @ [e]\<rparr>"
  have acc: "accepted_event (ob_run_id s) e0" using "2.prems"(3) by simp
  have valid: "validate_durable_contract e = Inr ()"
    using accepted_event_valid [OF acc] by (simp add: e_def seq_def)
  have nmax: "unwrapped s \<Longrightarrow> ob_sequence s \<noteq> - 1"
    using "2.prems"(5) unat_le_max [of "ob_accepted_high_water s"] unat_max [where 'a = 64] by auto
  have cnt: "unwrapped s \<Longrightarrow> unat seq + length cs \<le> unat (ob_accepted_high_water s)"
    using "2.prems"(5) sat_succ(1) [OF nmax] by (simp add: seq_def)
  have c1: "calm s1"
    using "2.prems"(2) log_ok_bump by (auto simp: calm_def quiet_def s1_def seq_def)
  show ?case
  proof (cases "is_durable e0")
    case False
    then show ?thesis
      using "2.IH"(1) [OF seq_def e_def s1_def] valid "2.prems" c1 cnt
      by (auto simp: e_def s1_def Let_def seq_def)
  next
    case True
    have c2: "calm s2"
      using "2.prems"(2,4) log_ok_push [OF _ nmax, of e "ev_turn_id e"] True acc
      by (auto simp: calm_def quiet_def s2_def s1_def e_def seq_def accepted_event_def)
    have f2: "ob_run_id s2 = ob_run_id s" "ob_sequence s2 = seq"
      "ob_accepted_high_water s2 = ob_accepted_high_water s" by (simp_all add: s2_def s1_def)
    show ?thesis
    proof (cases "LIVE_JOURNAL_MAX_BATCH \<le> length (ob_pending s2)")
      case big: False
      have "drain_queue envs k cs s2 = (err, n, k', s')"
        using "2.prems"(1) True valid big by (simp add: Let_def e_def s1_def s2_def seq_def)
      with big True valid c2 f2 cnt "2.prems"(3,4) show ?thesis
        using "2.IH"(3) [OF seq_def e_def s1_def _ _ s2_def big] by (auto simp: e_def)
    next
      case big: True
      obtain res s3 where cd: "commit_and_deliver (envs k) s2 = (res, s3)" by force
      note c3 = commit_calm [OF c2 cd]
      show ?thesis
      proof (cases res)
        case (Inl x)
        with cd have "s' = s3"
          using "2.prems"(1) True valid big by (simp add: Let_def e_def s1_def s2_def seq_def)
        with c3 f2 cnt show ?thesis by auto
      next
        case (Inr x)
        define s4 where "s4 = s3\<lparr>ob_durability := OD_Committed seq\<rparr>"
        have "drain_queue envs (Suc k) cs s4 = (err, n, k', s')"
          using "2.prems"(1) True valid big cd Inr by (simp add: Let_def e_def s1_def s2_def s4_def seq_def)
        moreover have "calm s4" using c3 by (simp add: s4_def)
        ultimately show ?thesis
          using "2.IH"(2) [OF seq_def e_def s1_def _ _ s2_def big cd [symmetric] Inr] True valid c3 f2 cnt
            "2.prems"(3,4)
          by (auto simp: e_def s4_def)
      qed
    qed
  qed
next
  case (3 envs k turn_id reason cs s)
  let ?s1 = "s\<lparr>ob_last_turn_id := turn_id\<rparr>"
  obtain n1 where "drain_queue envs k cs ?s1 = (err, n1, k', s')"
    using "3.prems"(1) by (auto split: prod.splits)
  moreover have "calm ?s1"
    using "3.prems"(2) by simp
  moreover have "unwrapped s \<Longrightarrow> unat (ob_sequence s) + length cs \<le> unat (ob_accepted_high_water s)"
    using "3.prems"(5) by simp
  ultimately show ?case using "3.IH" [of n1] "3.prems"(3,4) by auto
qed

lemma handle_failure_request_inv:
  assumes "live_ok s" and "ob_current s = None" and "ob_failure_request s"
  shows "outbox_inv (handle_failure_request redact envs s)"
proof -
  let ?s0 = "s\<lparr>ob_failure_request := False, ob_queue := []\<rparr>"
  obtain err n k s1 where dr: "drain_queue envs 0 (ob_queue s) ?s0 = (err, n, k, s1)"
    by (metis surj_pair)
  from assms have "calm ?s0" "list_all (accepted_command (ob_run_id ?s0)) (ob_queue s)"
    "\<not> list_ex closing_command (ob_queue s)"
    "unwrapped ?s0 \<Longrightarrow> unat (ob_sequence ?s0) + length (ob_queue s) \<le> unat (ob_accepted_high_water ?s0)"
    by (auto simp: live_ok_def calm_def log_ok_def committed_first_def quiet_def pending_open_def
        inbox_ok_def inbox_def counters_ok_def)
  note c1 = drain_queue_calm [OF dr this]
  obtain res s2 where cd: "commit_and_deliver (envs k) s1 = (res, s2)" by force
  note c2 = commit_calm [OF conjunct1 [OF c1] cd]
  have nm: "unwrapped s1 \<Longrightarrow> ob_sequence s1 \<noteq> - 1" using c1 below_max by blast
  have f1: "outbox_inv (fail_and_stop redact env f s1)" for env f
    using c1 nm by (intro fail_and_stop_inv) (auto simp: calm_def)
  have c2': "calm (s2\<lparr>ob_durability := d\<rparr>)" for d
    using c2 by simp
  have f2: "outbox_inv (fail_and_stop redact env f s2)"
    "outbox_inv (fail_and_stop redact env f (s2\<lparr>ob_durability := d\<rparr>))" for env f d
    using c2 c2' [of d] nm by (auto intro!: fail_and_stop_inv simp: calm_def)
  show ?thesis
  proof (cases "err = None \<and> ob_pending s1 \<noteq> []")
    case True
    with f2 show ?thesis
      by (cases res) (simp_all add: handle_failure_request_def dr cd Let_def)
  next
    case False
    with f1 show ?thesis by (auto simp: handle_failure_request_def dr Let_def)
  qed
qed

lemma handle_tick_inv:
  assumes "live_ok s" and "ob_running s" and "ob_current s = None"
  shows "outbox_inv (handle_tick redact envs s)"
proof -
  obtain res s1 where cd: "commit_and_deliver (envs 0) s = (res, s1)" by force
  have calm: "calm s" using assms(1) by (simp add: live_ok_def calm_def pending_open_def)
  note c1 = commit_calm [OF calm cd]
  have nm: "ob_sequence s \<noteq> - 1" if "unwrapped s"
    using that assms(1) by (intro below_max [OF that]) (auto simp: live_ok_def counters_ok_def)
  show ?thesis
  proof (cases rule: commit_and_deliver_cases [of s "envs 0"])
    case (failed err)
    with cd c1 nm show ?thesis
      by (auto simp: handle_tick_def calm_def intro!: fail_and_stop_inv)
  next
    case (ok db' ds)
    let ?s' = "s1\<lparr>ob_durability := OD_Committed (ob_sequence s1)\<rparr>"
    have s': "handle_tick redact envs s = ?s'" using ok cd by (simp add: handle_tick_def)
    have "live_ok ?s'"
      using assms c1 ok cd
      by (auto simp: live_ok_def calm_def log_ok_def committed_first_def quiet_def pending_open_def
          inbox_ok_def inbox_def counters_ok_def LIVE_JOURNAL_MAX_BATCH_def)
    with assms(2) ok cd show ?thesis unfolding s' by (auto simp: outbox_inv_def)
  qed
qed

lemma handle_senders_dropped_inv:
  assumes "live_ok s"
  shows "outbox_inv (handle_senders_dropped envs s)"
proof -
  obtain res s1 where cd: "commit_and_deliver (envs 0) s = (res, s1)" by force
  have calm: "calm s" using assms by (simp add: live_ok_def calm_def pending_open_def)
  from commit_calm [OF calm cd] show ?thesis
    unfolding handle_senders_dropped_def cd snd_conv
    by (intro stop_after_commit) (auto simp: calm_def quiet_butlast)
qed

section \<open>Producers and other writers keep the invariant\<close>

lemma sat_succ_max [simp]: "saturating_add (- 1 :: 'a::len word) 1 = - 1"
  using saturating_add_ge [of "- 1 :: 'a word" 1] by (simp add: word_order.extremum_unique)

text \<open>Accepting a command: it is appended, the counter of accepted commands goes up.\<close>

lemma live_ok_accept:
  assumes "live_ok s" and "\<not> ob_terminal_submitted s" and "accepted_command (ob_run_id s) c"
  shows "live_ok (s\<lparr>ob_queue := ob_queue s @ [c], ob_submissions_paused := p,
           ob_accepted_high_water := saturating_add (ob_accepted_high_water s) 1,
           ob_terminal_submitted := closing_command c\<rparr>)" (is "live_ok ?s'")
proof -
  have "\<not> list_ex closing_command (inbox s)" "\<not> ob_failure_request s"
    using assms(1,2) by (auto simp: live_ok_def inbox_ok_def)
  moreover have ib: "inbox ?s' = inbox s @ [c]" by (simp add: inbox_def split: option.splits)
  ultimately have "inbox_ok ?s'"
    using assms(1,3) by (auto simp: live_ok_def inbox_ok_def list_all_iff list_ex_iff)
  moreover have u: "unwrapped ?s' \<Longrightarrow> unwrapped s" by auto
  moreover have "counters_ok ?s'"
    using assms(1) u sat_succ(1) [of "ob_accepted_high_water s"]
    by (auto simp: live_ok_def counters_ok_def ib)
  moreover have "log_ok ?s'"
    using assms(1) u by (auto simp: live_ok_def log_ok_def committed_first_def)
  ultimately show ?thesis
    using assms(1) by (simp add: live_ok_def quiet_def pending_open_def)
qed

lemma outbox_inv_close:
  assumes "outbox_inv s"
  shows "outbox_inv (s\<lparr>ob_terminal_submitted := True, ob_cancelled := True\<rparr>)"
    and "\<not> list_ex closing_command (inbox s) \<Longrightarrow>
      outbox_inv (s\<lparr>ob_terminal_submitted := True, ob_cancelled := True, ob_failure_request := True\<rparr>)"
  using assms
  by (cases "ob_running s"; auto simp: outbox_inv_def live_ok_def stopped_ok_def log_ok_def quiet_def
      inbox_ok_def counters_ok_def pending_open_def committed_first_def inbox_def cong: option.case_cong)+

lemma outbox_inv_paused [simp]: "outbox_inv (s\<lparr>ob_submissions_paused := p\<rparr>) = outbox_inv s"
  by (simp add: outbox_inv_def live_ok_def stopped_ok_def log_ok_def quiet_def inbox_ok_def
      counters_ok_def pending_open_def committed_first_def inbox_def cong: option.case_cong)

lemma open_inbox: "outbox_inv s \<Longrightarrow> \<not> ob_terminal_submitted s \<Longrightarrow> \<not> list_ex closing_command (inbox s)"
  by (auto simp: outbox_inv_def live_ok_def inbox_ok_def stopped_ok_def split: if_splits)

lemma enqueue_validated_inv:
  assumes inv: "outbox_inv s" and "is_durable e \<or> \<not> closes_run e"
  shows "outbox_inv (snd (enqueue_validated e s))"
proof (cases "snd (enqueue_validated e s) = s")
  case True
  with inv show ?thesis by simp
next
  case changed: False
  then have g: "ev_event_seq e = 0" "ev_run_id e = ob_run_id s"
    "validate_durable_contract (e\<lparr>ev_event_seq := 1\<rparr>) = Inr ()" "\<not> ob_terminal_submitted s"
    by (auto simp: enqueue_validated_def split: sum.splits if_splits)
  with assms(2) have acc: "accepted_command (ob_run_id s) (Cmd_Event e)" by (simp add: accepted_event_def)
  show ?thesis
  proof (cases "try_send (Cmd_Event e) s")
    case (Inl err)
    with changed outbox_inv_close [OF inv] open_inbox [OF inv g(4)] show ?thesis
      by (cases err) (auto simp: enqueue_validated_def Let_def split: sum.splits if_splits)
  next
    case (Inr s1)
    then have s1: "s1 = s\<lparr>ob_queue := ob_queue s @ [Cmd_Event e]\<rparr>" and run: "ob_running s"
      by (auto simp: try_send_def split: if_splits)
    with inv have "live_ok s" by (simp add: outbox_inv_def)
    from live_ok_accept [OF this g(4) acc, of "ob_submissions_paused s"] Inr changed s1 run g show ?thesis
      by (auto simp: enqueue_validated_def outbox_inv_def split: sum.splits if_splits)
  qed
qed

lemma enqueue_pause_inv:
  assumes inv: "outbox_inv s"
  shows "outbox_inv (snd (enqueue_pause_checkpoint t r s))"
proof (cases "ob_terminal_submitted s \<or> ob_submissions_paused s")
  case True
  with inv show ?thesis by (auto simp: enqueue_pause_checkpoint_def)
next
  case False
  let ?s1 = "s\<lparr>ob_submissions_paused := True\<rparr>"
  have inv1: "outbox_inv ?s1" and open1: "\<not> list_ex closing_command (inbox ?s1)"
    using inv False open_inbox [OF inv] by (auto simp: inbox_def cong: option.case_cong)
  show ?thesis
  proof (cases "try_send (Cmd_PauseCheckpoint t r) ?s1")
    case (Inl err)
    with False outbox_inv_close [OF inv1] open1 show ?thesis
      by (cases err) (auto simp: enqueue_pause_checkpoint_def Let_def)
  next
    case (Inr s2)
    then have s2: "s2 = ?s1\<lparr>ob_queue := ob_queue s @ [Cmd_PauseCheckpoint t r]\<rparr>" and run: "ob_running s"
      by (auto simp: try_send_def split: if_splits)
    with inv have "live_ok s" by (simp add: outbox_inv_def)
    from live_ok_accept [OF this, of "Cmd_PauseCheckpoint t r" True] False
    have "live_ok (s\<lparr>ob_queue := ob_queue s @ [Cmd_PauseCheckpoint t r], ob_submissions_paused := True,
        ob_accepted_high_water := saturating_add (ob_accepted_high_water s) 1,
        ob_terminal_submitted := False\<rparr>)" (is "live_ok ?t") by simp
    moreover have "?t = s2\<lparr>ob_accepted_high_water := saturating_add (ob_accepted_high_water s2) 1\<rparr>"
      using False s2 by (cases s) simp
    ultimately show ?thesis
      using Inr False s2 run by (simp add: enqueue_pause_checkpoint_def outbox_inv_def Let_def)
  qed
qed

lemma other_writer_inv:
  assumes "outbox_inv s"
  shows "outbox_inv (s\<lparr>ob_db := ledger_step x (ob_db s)\<rparr>)"
proof -
  obtain es where "ledger_extends (op_run x) (ob_db s) es (ledger_step x (ob_db s))"
    by (rule ledger_step_extends)
  then have sub: "set (db_run_events (ob_db s)) \<subseteq> set (db_run_events (ledger_step x (ob_db s)))"
    by (auto simp: ledger_extends_def)
  have "committed_first (s\<lparr>ob_db := ledger_step x (ob_db s)\<rparr>)" if "committed_first s"
    using committed_first_mono [OF that] sub by simp
  with assms show ?thesis
    by (auto simp: outbox_inv_def live_ok_def stopped_ok_def log_ok_def quiet_def inbox_ok_def
      counters_ok_def pending_open_def inbox_def cong: option.case_cong)
qed

lemma outbox_step_inv [inv_intros]:
  assumes "outbox_inv s"
  shows "outbox_inv (outbox_step redact x s)"
proof -
  have live: "ob_running s \<Longrightarrow> live_ok s" using assms by (simp add: outbox_inv_def)
  show ?thesis
  proof (cases x)
    case (Op_Submit e)
    with assms show ?thesis by (auto simp: submit_def intro: enqueue_validated_inv)
  next
    case (Op_PublishEphemeral e)
    with assms show ?thesis by (auto simp: publish_ephemeral_def intro: enqueue_validated_inv)
  next
    case (Op_Pause t r)
    with assms show ?thesis by (auto intro: enqueue_pause_inv)
  next
    case Op_Resume
    with assms show ?thesis by (auto simp: resume_submissions_def)
  next
    case Op_Recv
    with assms show ?thesis
      by (auto simp: outbox_inv_def live_ok_def log_ok_def quiet_def inbox_ok_def
        counters_ok_def pending_open_def inbox_def committed_first_def split: list.splits)
  next
    case (Op_Process envs prepared)
    show ?thesis
    proof (cases "ob_running s \<and> ob_current s \<noteq> None")
      case True
      then obtain c where c: "ob_current s = Some c" by auto
      have same: "s\<lparr>ob_current := None, ob_current := Some c\<rparr> = s" using c by simp
      have t: "taken c (s\<lparr>ob_current := None\<rparr>)"
        using True assms same by (simp add: taken_def outbox_inv_def)
      show ?thesis
      proof (cases c)
        case (Cmd_Event e)
        with t process_event_inv [of e "s\<lparr>ob_current := None\<rparr>"] Op_Process True c show ?thesis by simp
      next
        case (Cmd_PauseCheckpoint tid r)
        with t process_pause_inv [of tid r "s\<lparr>ob_current := None\<rparr>"] Op_Process True c show ?thesis by simp
      qed
    next
      case False
      with Op_Process assms show ?thesis by (auto split: option.splits)
    qed
  next
    case (Op_FailureRequest envs)
    then show ?thesis using assms live handle_failure_request_inv [of s] by simp
  next
    case (Op_Tick envs)
    then show ?thesis using assms live handle_tick_inv [of s] by simp
  next
    case (Op_SendersDropped envs)
    then show ?thesis using assms live handle_senders_dropped_inv [of s] by simp
  next
    case (Op_OtherWriter y)
    with assms other_writer_inv show ?thesis by simp
  qed
qed

interpretation outbox_machine: invariant_machine "outbox_step redact" outbox_inv
  by unfold_locales (rule outbox_step_inv)

lemma open_outbox_inv: "outbox_inv (open_outbox c r db)"
  by (auto simp: open_outbox_def outbox_inv_def live_ok_def stopped_ok_def log_ok_def quiet_def
      inbox_ok_def counters_ok_def pending_open_def committed_first_def inbox_def
      LIVE_JOURNAL_MAX_BATCH_def split: prod.splits)

section \<open>Closed submission, outcomes\<close>

lemma commit_and_deliver_frame [frame_simps]:
  "ob_terminal_submitted (snd (commit_and_deliver env s)) = ob_terminal_submitted s"
  "ob_running (snd (commit_and_deliver env s)) = ob_running s"
  "ob_completion (snd (commit_and_deliver env s)) = ob_completion s"
  by (cases rule: commit_and_deliver_cases [of s env]; simp)+

lemma commit_pause_frame [frame_simps]:
  "ob_terminal_submitted (snd (commit_pause_checkpoint_and_deliver env p t n s)) = ob_terminal_submitted s"
  "ob_running (snd (commit_pause_checkpoint_and_deliver env p t n s)) = ob_running s"
  by (cases rule: commit_pause_cases [of env p t n s]; simp)+

lemma fail_and_stop_frame [frame_simps]:
  "ob_terminal_submitted (fail_and_stop redact env f s)"
  "ob_completion (fail_and_stop redact env f s) \<noteq> OO_Open"
  "\<not> ob_running (fail_and_stop redact env f s)"
  by (auto simp: fail_and_stop_def stop_actor_def fail_closed_def Let_def
      split: sum.splits prod.splits agent_run_fail_closed_outcome.splits)

text \<open>What a step of the actor leaves behind: it goes on, or it has stopped with an outcome.\<close>

definition answered :: "outbox \<Rightarrow> bool" where
  "answered s = (ob_running s \<or> ob_completion s \<noteq> OO_Open)"

lemma answered_fail [simp]: "answered (fail_and_stop redact env f s)"
  by (simp add: answered_def frame_simps)

lemma answered_responses [simp]: "answered (s\<lparr>ob_pause_responses := x\<rparr>) = answered s"
  by (simp add: answered_def)

lemma process_answered:
  assumes "ob_running s"
  shows "answered (process_preview redact envs e s)" and "answered (process_durable redact envs e s)"
    and "answered (process_pause redact envs prepared t s)" and "answered (handle_tick redact envs s)"
proof -
  show "answered (process_preview redact envs e s)"
    using assms by (cases rule: commit_and_deliver_cases [of s "envs 0"])
      (auto simp: process_preview_def answered_def frame_simps)
  have fin: "answered (finish_if_terminal e s')" if "ob_running s'" for s'
    using that by (simp add: finish_if_terminal_def answered_def stop_actor_def)
  show "answered (process_durable redact envs e s)"
    using assms
    by (cases rule: commit_and_deliver_cases [of "s\<lparr>ob_pending := ob_pending s @ [e]\<rparr>" "envs 0"])
      (auto simp: process_durable_def Let_def intro!: fin)
  have bd: "answered (pause_at_boundary redact envs prepared t s')" if "ob_running s'" for s'
    using that by (cases rule: commit_pause_cases [of "envs 1" prepared t "ob_sequence s'" s'])
      (auto simp: pause_at_boundary_def Let_def answered_def frame_simps)
  show "answered (process_pause redact envs prepared t s)"
    using assms by (cases rule: commit_and_deliver_cases [of "s\<lparr>ob_last_turn_id := t\<rparr>" "envs 0"])
      (auto simp: process_pause_def Let_def intro!: bd)
  show "answered (handle_tick redact envs s)"
    using assms by (cases rule: commit_and_deliver_cases [of s "envs 0"])
      (auto simp: handle_tick_def answered_def frame_simps)
qed

lemma producer_running:
  "ob_running (snd (enqueue_validated e s)) = ob_running s"
  "ob_completion (snd (enqueue_validated e s)) = ob_completion s"
  "ob_running (snd (enqueue_pause_checkpoint t r s)) = ob_running s"
  "ob_completion (snd (enqueue_pause_checkpoint t r s)) = ob_completion s"
  by (auto simp: enqueue_validated_def enqueue_pause_checkpoint_def try_send_def Let_def
      split: sum.splits try_send_error.splits)

lemma answered_step:
  assumes "outbox_inv s" and "answered s" and "\<forall>envs. x \<noteq> Op_SendersDropped envs"
  shows "answered (outbox_step redact x s)"
proof (cases x)
  case (Op_Process envs prepared)
  show ?thesis
  proof (cases "ob_running s \<and> ob_current s \<noteq> None")
    case True
    then obtain c where c: "ob_current s = Some c" by auto
    show ?thesis
    proof (cases c)
      case (Cmd_Event e)
      with True c assms(1) have "accepted_event (ob_run_id s) e"
        by (simp add: outbox_inv_def live_ok_def inbox_ok_def inbox_def)
      with Op_Process True c Cmd_Event process_answered(1,2) show ?thesis
        by (simp add: process_event_def Let_def accepted_event_valid)
    next
      case (Cmd_PauseCheckpoint t r)
      with Op_Process True c process_answered(3) show ?thesis by simp
    qed
  next
    case False
    with Op_Process assms(2) show ?thesis by (auto split: option.splits)
  qed
next
  case (Op_FailureRequest envs)
  with assms(2) show ?thesis
    by (auto simp: handle_failure_request_def Let_def split: prod.splits)
next
  case (Op_Tick envs)
  with assms(2) process_answered(4) show ?thesis by simp
next
  case (Op_SendersDropped envs)
  with assms(3) show ?thesis by simp
next
  case Op_Recv
  with assms(2) show ?thesis by (auto simp: answered_def split: list.splits)
qed (use assms(2) in \<open>auto simp: answered_def submit_def publish_ephemeral_def resume_submissions_def producer_running\<close>)

section \<open>Tracking one accepted event\<close>

abbreviation stored :: "agent_run_event \<Rightarrow> outbox \<Rightarrow> bool" where
  "stored e s \<equiv> approval_event_for_persistence e \<in> set (db_run_events (ob_db s))"

text \<open>
  Where the event that got the number \<open>k\<close> is while the actor runs: still in the inbox at the
  place that will receive that number, in the batch, or in the ledger.
\<close>

definition tracked :: "agent_run_event \<Rightarrow> u64 \<Rightarrow> outbox \<Rightarrow> bool" where
  "tracked e k s = (ob_running s \<and> unwrapped s \<longrightarrow>
     (\<exists>i < length (inbox s). inbox s ! i = Cmd_Event e \<and> unat k = unat (ob_sequence s) + i + 1)
     \<or> e\<lparr>ev_event_seq := k\<rparr> \<in> set (ob_pending s) \<or> stored (e\<lparr>ev_event_seq := k\<rparr>) s)"

text \<open>How a handling step moves events: the batch may be committed, the ledger grows.\<close>

definition carries :: "outbox \<Rightarrow> outbox \<Rightarrow> bool" where
  "carries s s' = (ob_running s' \<longrightarrow>
     (\<forall>x \<in> set (ob_pending s). x \<in> set (ob_pending s') \<or> stored x s')
     \<and> (\<forall>x. stored x s \<longrightarrow> stored x s')
     \<and> ob_queue s' = ob_queue s \<and> ob_current s' = ob_current s
     \<and> ob_accepted_high_water s' = ob_accepted_high_water s)"

lemma carries_stopped: "\<not> ob_running s' \<Longrightarrow> carries s s'"
  by (simp add: carries_def)

lemmas carries_fail [simp] = carries_stopped [OF fail_and_stop_frame(3)]

lemma carries_responses [simp]: "carries s (s'\<lparr>ob_pause_responses := x\<rparr>) = carries s s'"
  by (simp add: carries_def)

lemma carries_commit:
  assumes "commit_and_deliver env s = (Inr (), s')"
  shows "carries s s' \<and> ob_pending s' = [] \<and> ob_sequence s' = ob_sequence s"
  using assms by (cases rule: commit_and_deliver_cases [of s env]) (auto simp: carries_def)

lemma preview_carries:
  "carries s (process_preview redact envs e s)"
  "ob_running (process_preview redact envs e s) \<Longrightarrow> ob_sequence (process_preview redact envs e s) = ob_sequence s"
  by (cases rule: commit_and_deliver_cases [of s "envs 0"];
      auto simp: process_preview_def carries_def frame_simps)+

lemma tick_carries:
  "carries s (handle_tick redact envs s)"
  "ob_running (handle_tick redact envs s) \<Longrightarrow> ob_sequence (handle_tick redact envs s) = ob_sequence s"
  by (cases rule: commit_and_deliver_cases [of s "envs 0"];
      auto simp: handle_tick_def carries_def frame_simps)+

lemma durable_carries:
  "carries (s\<lparr>ob_pending := ob_pending s @ [e]\<rparr>) (process_durable redact envs e s)"
  "ob_running (process_durable redact envs e s) \<Longrightarrow> ob_sequence (process_durable redact envs e s) = ob_sequence s"
  by (cases rule: commit_and_deliver_cases [of "s\<lparr>ob_pending := ob_pending s @ [e]\<rparr>" "envs 0"];
      auto simp: process_durable_def Let_def carries_def finish_if_terminal_def stop_actor_def frame_simps)+

lemma boundary_carries:
  "carries s (pause_at_boundary redact envs prepared t s)"
  "ob_running (pause_at_boundary redact envs prepared t s) \<Longrightarrow>
     ob_sequence (pause_at_boundary redact envs prepared t s) = ob_sequence s"
  by (cases rule: commit_pause_cases [of "envs 1" prepared t "ob_sequence s" s];
      auto simp: pause_at_boundary_def Let_def carries_def frame_simps)+

lemma carries_trans:
  "carries s s' \<Longrightarrow> ob_running s' \<Longrightarrow> carries s' s'' \<Longrightarrow> carries s s''"
  unfolding carries_def by metis

lemma pause_carries:
  assumes "ob_running s"
  shows "carries s (process_pause redact envs prepared t s)"
    and "ob_running (process_pause redact envs prepared t s) \<Longrightarrow>
      ob_sequence (process_pause redact envs prepared t s) = saturating_add (ob_sequence s) 1"
proof -
  let ?p = "process_pause redact envs prepared t s"
  have "carries s ?p \<and> (ob_running ?p \<longrightarrow> ob_sequence ?p = saturating_add (ob_sequence s) 1)"
  proof (cases rule: commit_and_deliver_cases [of "s\<lparr>ob_last_turn_id := t\<rparr>" "envs 0"])
    case (failed err)
    then show ?thesis by (simp add: process_pause_def Let_def frame_simps)
  next
    case (ok db' ds)
    define s2 where "s2 = s\<lparr>ob_last_turn_id := t, ob_pending := [], ob_db := db',
        ob_delivered := ob_delivered s @ ds\<rparr>"
    define s4 where "s4 = (if ob_pending s = [] then s2
        else s2\<lparr>ob_durability := OD_Committed (ob_sequence s2)\<rparr>)
        \<lparr>ob_sequence := saturating_add (ob_sequence s) 1\<rparr>"
    have p: "?p = pause_at_boundary redact envs prepared t s4"
      using ok(1) by (simp add: process_pause_def Let_def s4_def s2_def)
    have "carries s s4" using ok(3) by (auto simp: carries_def s4_def s2_def)
    moreover have "ob_running s4" using assms by (simp add: s4_def s2_def)
    moreover have "ob_sequence s4 = saturating_add (ob_sequence s) 1" by (simp add: s4_def)
    ultimately show ?thesis
      unfolding p using carries_trans boundary_carries [where s = s4] by simp
  qed
  then show "carries s ?p" and "ob_running ?p \<Longrightarrow> ob_sequence ?p = saturating_add (ob_sequence s) 1"
    by auto
qed

text \<open>A handling step that takes the head of the inbox and gives it the next number.\<close>

lemma tracked_handle:
  assumes "tracked e k s" and "ob_running s" and cur: "ob_current s = Some c"
    and seq: "ob_running s' \<Longrightarrow> ob_sequence s' = saturating_add (ob_sequence s) 1"
    and max: "unwrapped s \<Longrightarrow> ob_sequence s \<noteq> - 1"
    and car: "carries (s\<lparr>ob_current := None, ob_pending := ob_pending s @ extra\<rparr>) s'"
    and hd: "c = Cmd_Event e \<Longrightarrow> extra = [e\<lparr>ev_event_seq := saturating_add (ob_sequence s) 1\<rparr>]"
  shows "tracked e k s'"
proof (cases "ob_running s' \<and> unwrapped s'")
  case False
  then show ?thesis by (auto simp: tracked_def)
next
  case True
  then have u: "unwrapped s" using car by (simp add: carries_def)
  have ib: "inbox s = c # ob_queue s" and ib': "inbox s' = ob_queue s"
    using cur car True by (auto simp: inbox_def carries_def)
  have sq: "unat (ob_sequence s') = unat (ob_sequence s) + 1"
    using seq True sat_succ(1) [OF max [OF u]] by simp
  from assms(1,2) u consider
      (queued) i where "i < length (inbox s)" "inbox s ! i = Cmd_Event e" "unat k = unat (ob_sequence s) + i + 1"
    | (batch) "e\<lparr>ev_event_seq := k\<rparr> \<in> set (ob_pending s)"
    | (ledger) "stored (e\<lparr>ev_event_seq := k\<rparr>) s"
    by (auto simp: tracked_def)
  then show ?thesis
  proof cases
    case queued
    show ?thesis
    proof (cases i)
      case 0
      with queued ib have c: "c = Cmd_Event e" by simp
      have "k = saturating_add (ob_sequence s) 1"
        using queued(3) 0 sat_succ(1) [OF max [OF u]] by (simp add: word_unat_eq_iff)
      with hd [OF c] car True show ?thesis by (auto simp: carries_def tracked_def)
    next
      case (Suc j)
      with queued ib ib' sq show ?thesis by (auto simp: tracked_def intro!: exI [of _ j])
    qed
  next
    case batch
    with car True show ?thesis by (auto simp: carries_def tracked_def)
  next
    case ledger
    with car True show ?thesis by (auto simp: carries_def tracked_def)
  qed
qed

lemma tracked_process:
  assumes inv: "outbox_inv s" and tr: "tracked e k s" and dur: "is_durable e"
  shows "tracked e k (outbox_step redact (Op_Process envs prepared) s)"
proof (cases "ob_running s \<and> ob_current s \<noteq> None")
  case False
  with tr show ?thesis by (auto split: option.splits)
next
  case True
  then obtain c where c: "ob_current s = Some c" by auto
  let ?s0 = "s\<lparr>ob_current := None\<rparr>"
  have "s\<lparr>ob_current := Some c\<rparr> = s" using c by simp
  then have t: "taken c ?s0"
    using True inv by (simp add: taken_def outbox_inv_def)
  have max: "unwrapped s \<Longrightarrow> ob_sequence s \<noteq> - 1" using takenD(12) [OF t] by simp
  show ?thesis
  proof (cases c)
    case (Cmd_PauseCheckpoint tid r)
    have "carries (s\<lparr>ob_current := None, ob_pending := ob_pending s @ []\<rparr>)
        (process_pause redact envs prepared tid ?s0)"
      using pause_carries(1) [of ?s0] True by simp
    from tracked_handle [OF tr _ c _ max this] pause_carries(2) [of ?s0] True Cmd_PauseCheckpoint c
    show ?thesis by simp
  next
    case (Cmd_Event x)
    define y where "y = x\<lparr>ev_event_seq := saturating_add (ob_sequence s) 1\<rparr>"
    have valid: "validate_durable_contract y = Inr ()"
      using takenD(6) [OF t] Cmd_Event accepted_event_valid by (simp add: y_def)
    have pe: "outbox_step redact (Op_Process envs prepared) s
        = (if is_durable x then process_durable redact envs y (numbered x ?s0)
           else process_preview redact envs y (numbered x ?s0))"
      using True c Cmd_Event valid by (simp add: process_event_def Let_def numbered_def y_def)
    show ?thesis
    proof (cases "is_durable x")
      case True
      have "carries (s\<lparr>ob_current := None, ob_pending := ob_pending s @ [y]\<rparr>)
          (process_durable redact envs y (numbered x ?s0))"
        using durable_carries(1) [of "numbered x ?s0" y] by (simp add: carries_def numbered_def)
      from tracked_handle [OF tr _ c _ max this] durable_carries(2) [of redact envs y "numbered x ?s0"]
        \<open>ob_running s \<and> ob_current s \<noteq> None\<close> Cmd_Event True
      show ?thesis unfolding pe by (simp add: numbered_def y_def)
    next
      case False
      have "carries (s\<lparr>ob_current := None, ob_pending := ob_pending s @ []\<rparr>)
          (process_preview redact envs y (numbered x ?s0))"
        using preview_carries(1) [of "numbered x ?s0"] by (simp add: carries_def numbered_def)
      from tracked_handle [OF tr _ c _ max this] preview_carries(2) [of redact envs y "numbered x ?s0"]
        \<open>ob_running s \<and> ob_current s \<noteq> None\<close> Cmd_Event False dur
      show ?thesis unfolding pe by (auto simp: numbered_def y_def)
    qed
  qed
qed

lemma tracked_keep:
  assumes "tracked e k s" and "ob_running s' \<Longrightarrow> ob_running s" and "unwrapped s' \<Longrightarrow> unwrapped s"
    and "ob_sequence s' = ob_sequence s" and "prefix (inbox s) (inbox s')"
    and "\<And>x. x \<in> set (ob_pending s) \<Longrightarrow> x \<in> set (ob_pending s') \<or> stored x s'"
    and "\<And>x. stored x s \<Longrightarrow> stored x s'"
  shows "tracked e k s'"
proof -
  obtain ys where "inbox s' = inbox s @ ys" using assms(5) by (auto simp: prefix_def)
  with assms show ?thesis by (force simp: tracked_def nth_append)
qed

lemma producer_keeps:
  fixes e s t r
  defines "a \<equiv> snd (enqueue_validated e s)" and "b \<equiv> snd (enqueue_pause_checkpoint t r s)"
  shows "ob_sequence a = ob_sequence s \<and> ob_pending a = ob_pending s \<and> ob_db a = ob_db s
      \<and> prefix (inbox s) (inbox a) \<and> (unwrapped a \<longrightarrow> unwrapped s)"
    and "ob_sequence b = ob_sequence s \<and> ob_pending b = ob_pending s \<and> ob_db b = ob_db s
      \<and> prefix (inbox s) (inbox b) \<and> (unwrapped b \<longrightarrow> unwrapped s)"
  unfolding a_def b_def
  by (auto simp: enqueue_validated_def enqueue_pause_checkpoint_def try_send_def Let_def inbox_def
      split: sum.splits try_send_error.splits option.splits)

lemma tracked_step:
  assumes inv: "outbox_inv s" and tr: "tracked e k s" and dur: "is_durable e"
  shows "tracked e k (outbox_step redact x s)"
proof (cases x)
  case (Op_Submit y)
  with tr producer_keeps(1) [where e = y and s = s] producer_running(1) [of y s] show ?thesis
    by (auto simp: submit_def intro!: tracked_keep [OF tr])
next
  case (Op_PublishEphemeral y)
  with tr producer_keeps(1) [where e = y and s = s] producer_running(1) [of y s] show ?thesis
    by (auto simp: publish_ephemeral_def intro!: tracked_keep [OF tr])
next
  case (Op_Pause t r)
  with tr producer_keeps(2) [where t = t and r = r and s = s] producer_running(3) [of t r s] show ?thesis
    by (auto intro!: tracked_keep [OF tr])
next
  case Op_Resume
  with tr show ?thesis
    by (auto simp: resume_submissions_def tracked_def inbox_def cong: option.case_cong)
next
  case Op_Recv
  with tr show ?thesis by (auto simp: inbox_def tracked_def split: list.splits)
next
  case (Op_Process envs prepared)
  with tracked_process [OF inv tr dur] show ?thesis by blast
next
  case (Op_FailureRequest envs)
  with tr show ?thesis
    by (auto simp: handle_failure_request_def Let_def tracked_def frame_simps split: prod.splits)
next
  case (Op_Tick envs)
  show ?thesis
  proof (cases "ob_running (handle_tick redact envs s)")
    case True
    with Op_Tick tr tick_carries [where s = s and redact = redact and envs = envs] show ?thesis
      by (auto simp: carries_def inbox_def intro!: tracked_keep [OF tr])
  next
    case False
    with Op_Tick tr show ?thesis by (auto simp: tracked_def)
  qed
next
  case (Op_SendersDropped envs)
  with tr show ?thesis by (auto simp: handle_senders_dropped_def stop_actor_def tracked_def)
next
  case (Op_OtherWriter y)
  obtain es where "ledger_extends (op_run y) (ob_db s) es (ledger_step y (ob_db s))"
    by (rule ledger_step_extends)
  with Op_OtherWriter show ?thesis
    by (auto simp: ledger_extends_def inbox_def split: option.splits intro!: tracked_keep [OF tr])
qed

section \<open>A reported terminal is in the database\<close>

definition settled :: "outbox \<Rightarrow> bool" where
  "settled s = ((ob_running s \<longrightarrow> ob_completion s = OO_Open)
     \<and> (\<forall>n. ob_completion s = OO_TerminalCommitted n \<longrightarrow> run_closed (ob_db s) (ob_run_id s)))"

lemma settled_responses [simp]: "settled (s\<lparr>ob_pause_responses := x\<rparr>) = settled s"
  by (simp add: settled_def)

lemma settled_fail: "settled (fail_and_stop redact env f s)"
proof -
  have *: "db' = db \<and> run_closed db r"
    if "fail_run_event_outbox_if_open env r reason db = Inr (db', FC_AlreadyClosed n)" for db db' r reason n
    using fail_run_event_outbox_ledger [OF that] by (auto split: if_splits)
  show ?thesis
    by (auto simp: settled_def fail_and_stop_def stop_actor_def fail_closed_def Let_def
        split: sum.splits prod.splits agent_run_fail_closed_outcome.splits dest: *)
qed

lemma settled_processing:
  assumes "ob_running s" and "ob_completion s = OO_Open"
  shows "settled (process_preview redact envs e s)" and "settled (process_pause redact envs prepared t s)"
    and "settled (handle_tick redact envs s)"
    and "ev_run_id e = ob_run_id s \<Longrightarrow> settled (process_durable redact envs e s)"
proof -
  have r: "settled s'" if "ob_completion s' = OO_Open" for s' using that by (simp add: settled_def)
  show "settled (process_preview redact envs e s)"
    using assms by (cases rule: commit_and_deliver_cases [of s "envs 0"])
      (auto simp: process_preview_def settled_fail intro: r)
  have bd: "settled (pause_at_boundary redact envs prepared t s')" if "ob_completion s' = OO_Open" for s'
    using that by (cases rule: commit_pause_cases [of "envs 1" prepared t "ob_sequence s'" s'])
      (auto simp: pause_at_boundary_def Let_def settled_fail intro: r)
  show "settled (process_pause redact envs prepared t s)"
    using assms by (cases rule: commit_and_deliver_cases [of "s\<lparr>ob_last_turn_id := t\<rparr>" "envs 0"])
      (auto simp: process_pause_def Let_def settled_fail intro!: bd)
  show "settled (handle_tick redact envs s)"
    using assms by (cases rule: commit_and_deliver_cases [of s "envs 0"])
      (auto simp: handle_tick_def settled_fail intro: r)
  assume run: "ev_run_id e = ob_run_id s"
  have nd: "closes_run e \<Longrightarrow> \<not> is_deferred_event e"
    by (auto simp: is_deferred_event_def closes_run_def is_terminal_def kind_is_terminal_def)
  show "settled (process_durable redact envs e s)"
  proof (cases rule: commit_and_deliver_cases [of "s\<lparr>ob_pending := ob_pending s @ [e]\<rparr>" "envs 0"])
    case (failed err)
    with assms nd show ?thesis
      by (auto simp: process_durable_def Let_def settled_fail finish_if_terminal_def intro!: r)
  next
    case (ok db' ds)
    have "run_closed db' (ob_run_id s)" if "closes_run e"
      using ok(3) that run by (auto simp: run_closed_iff run_rows_def intro!: bexI [of _ "approval_event_for_persistence e"])
    with ok(1) assms nd show ?thesis
      by (auto simp: process_durable_def Let_def finish_if_terminal_def settled_def stop_actor_def)
  qed
qed

lemma enqueue_run_id:
  "ob_run_id (snd (enqueue_validated e s)) = ob_run_id s"
  "ob_run_id (snd (enqueue_pause_checkpoint t r s)) = ob_run_id s"
  by (auto simp: enqueue_validated_def enqueue_pause_checkpoint_def try_send_def Let_def
      split: sum.splits try_send_error.splits)

lemma settled_step:
  assumes inv: "outbox_inv s" and st: "settled s"
  shows "settled (outbox_step redact x s)"
proof (cases x)
  case (Op_Process envs prepared)
  show ?thesis
  proof (cases "ob_running s \<and> ob_current s \<noteq> None")
    case True
    then obtain c where c: "ob_current s = Some c" by auto
    have o: "ob_completion s = OO_Open" using st True by (simp add: settled_def)
    show ?thesis
    proof (cases c)
      case (Cmd_Event e)
      with True c inv have "accepted_event (ob_run_id s) e"
        by (simp add: outbox_inv_def live_ok_def inbox_ok_def inbox_def)
      with Op_Process True c o Cmd_Event settled_processing(1,4) show ?thesis
        by (simp add: process_event_def Let_def accepted_event_valid accepted_event_def)
    next
      case (Cmd_PauseCheckpoint t r)
      with Op_Process True c o settled_processing(2) show ?thesis by simp
    qed
  next
    case False
    with Op_Process st show ?thesis by (auto split: option.splits)
  qed
next
  case (Op_FailureRequest envs)
  with st settled_fail show ?thesis by (auto simp: handle_failure_request_def Let_def split: prod.splits)
next
  case (Op_Tick envs)
  with st settled_processing(3) show ?thesis by (simp add: settled_def)
next
  case (Op_SendersDropped envs)
  with st show ?thesis
    by (auto simp: handle_senders_dropped_def stop_actor_def settled_def frame_simps)
next
  case Op_Recv
  with st show ?thesis by (auto simp: settled_def split: list.splits)
next
  case (Op_OtherWriter y)
  with st closed_ledger.step_inv show ?thesis by (auto simp: settled_def)
next
  case (Op_Submit e)
  with st producer_keeps(1) [where e = e and s = s] producer_running(1,2) [of e s] show ?thesis
    by (auto simp: settled_def submit_def enqueue_run_id)
next
  case (Op_PublishEphemeral e)
  with st producer_keeps(1) [where e = e and s = s] producer_running(1,2) [of e s] show ?thesis
    by (auto simp: settled_def publish_ephemeral_def enqueue_run_id)
next
  case (Op_Pause t r)
  with st producer_keeps(2) [where t = t and r = r and s = s] producer_running(3,4) [of t r s] show ?thesis
    by (auto simp: settled_def enqueue_run_id)
next
  case Op_Resume
  with st show ?thesis by (auto simp: settled_def resume_submissions_def)
qed

end
