(* ===== verification/Outbox_Properties.thy ===== *)
theory Outbox_Properties
  imports Outbox_Invariant
begin

text \<open>
  What the outbox promises, for every state it can reach from \<open>open_outbox\<close>: commit before
  delivery, ordered publication, a single closing event, permanent closure, the flush barrier,
  reported terminals, saturation, and the conflict between previews and pauses.
\<close>

section \<open>Closure of submission\<close>

lemma terminal_submitted_kept:
  assumes "ob_terminal_submitted s"
  shows "ob_terminal_submitted (outbox_step redact x s)"
proof (cases x)
  case (Op_Process envs prepared)
  have pv: "ob_terminal_submitted (process_preview redact envs e s')" if "ob_terminal_submitted s'" for e s'
    using that by (cases rule: commit_and_deliver_cases [of s' "envs 0"])
      (auto simp: process_preview_def frame_simps)
  have du: "ob_terminal_submitted (process_durable redact envs e s')" if "ob_terminal_submitted s'" for e s'
    using that by (cases rule: commit_and_deliver_cases [of "s'\<lparr>ob_pending := ob_pending s' @ [e]\<rparr>" "envs 0"])
      (auto simp: process_durable_def Let_def frame_simps finish_if_terminal_def stop_actor_def)
  have bd: "ob_terminal_submitted (pause_at_boundary redact envs prepared t s')"
    if "ob_terminal_submitted s'" for t s'
    using that by (cases rule: commit_pause_cases [of "envs 1" prepared t "ob_sequence s'" s'])
      (auto simp: pause_at_boundary_def Let_def frame_simps)
  have pp: "ob_terminal_submitted (process_pause redact envs prepared t s')"
    if "ob_terminal_submitted s'" for t s'
    using that by (cases rule: commit_and_deliver_cases [of "s'\<lparr>ob_last_turn_id := t\<rparr>" "envs 0"])
      (auto simp: process_pause_def Let_def frame_simps intro!: bd)
  show ?thesis
    using assms Op_Process
    by (auto simp: process_event_def Let_def stop_actor_def intro!: pv du pp
        split: option.splits outbox_command.splits)
next
  case (Op_Tick envs)
  with assms show ?thesis
    by (cases rule: commit_and_deliver_cases [of s "envs 0"]) (auto simp: handle_tick_def frame_simps)
next
  case (Op_Submit e)
  with assms show ?thesis by (auto simp: submit_def enqueue_validated_def split: sum.splits)
next
  case (Op_PublishEphemeral e)
  with assms show ?thesis by (auto simp: publish_ephemeral_def enqueue_validated_def split: sum.splits)
qed (use assms in \<open>auto simp: enqueue_pause_checkpoint_def resume_submissions_def
        handle_failure_request_def handle_senders_dropped_def stop_actor_def Let_def frame_simps
      split: list.splits prod.splits\<close>)

interpretation submission_closed: invariant_machine "outbox_step redact" ob_terminal_submitted
  by unfold_locales (rule terminal_submitted_kept)

section \<open>Properties of the outbox\<close>

definition reachable_outbox :: "(string \<Rightarrow> string) \<Rightarrow> outbox_op list \<Rightarrow> string \<Rightarrow> string \<Rightarrow> database \<Rightarrow> outbox" where
  "reachable_outbox redact ops c r db = run_ops (outbox_step redact) ops (open_outbox c r db)"

lemma reachable_inv: "outbox_inv (reachable_outbox redact ops c r db)"
  unfolding reachable_outbox_def by (intro outbox_machine.run_inv open_outbox_inv)

text \<open>
  C1: Commit before delivery. In every state the outbox can reach, whatever producers, actor,
  timer and other writers did and whichever transactions failed, a durable event the host
  has seen is in the ledger: a row with its run, sequence number, kind and status.
\<close>

theorem commit_before_delivery:
  assumes "e \<in> set (published (reachable_outbox redact ops c r db))" and "is_durable e"
  shows "\<exists>row \<in> set (db_run_events (ob_db (reachable_outbox redact ops c r db))).
    ledger_key row = ledger_key e \<and> ev_kind row = ev_kind e \<and> ev_status row = ev_status e"
proof -
  have "committed_first (reachable_outbox redact ops c r db)"
    using reachable_inv [of redact ops c r db]
    by (auto simp: outbox_inv_def live_ok_def log_ok_def stopped_ok_def split: if_splits)
  with assms obtain e0 where "e = approval_event_for_delivery e0"
    "approval_event_for_persistence e0 \<in> set (db_run_events (ob_db (reachable_outbox redact ops c r db)))"
    unfolding committed_first_def by blast
  then show ?thesis by (intro bexI [of _ "approval_event_for_persistence e0"]) (auto simp: ledger_key_def)
qed

text \<open>
  C2: The host sees strictly increasing sequence numbers, the fail-closed terminal event
  included, as long as the outbox has accepted fewer than \<open>2^64 - 1\<close> commands.
\<close>

theorem published_in_order:
  assumes "unwrapped (reachable_outbox redact ops c r db)"
  shows "sorted_wrt (<) (map ev_event_seq (published (reachable_outbox redact ops c r db)))"
  using reachable_inv [of redact ops c r db] assms
  by (auto simp: outbox_inv_def live_ok_def log_ok_def stopped_ok_def sorted_wrt_append split: if_splits)

text \<open>
  C3: The host sees at most one event that closes the run, it is the last event it sees, and
  by then the actor has stopped.
\<close>

theorem closing_event_is_last:
  fixes redact ops c r db
  defines "s \<equiv> reachable_outbox redact ops c r db"
  shows "filter closes_run (butlast (published s)) = []
    \<and> (ob_running s \<longrightarrow> filter closes_run (published s) = [])"
proof -
  have "outbox_inv s" unfolding s_def by (rule reachable_inv)
  then show ?thesis
    using quiet_butlast [of s]
    by (auto simp: outbox_inv_def live_ok_def stopped_ok_def quiet_def split: if_splits)
qed

text \<open>
  After a closing event has been accepted every later submission is refused, for good:
  no durable event and no preview is accepted, no pause, and submissions cannot be resumed.
\<close>

theorem closed_for_submission_forever:
  assumes "submit e s = (Inr (), s')" and "closes_run e"
  shows "fst (submit e' (run_ops (outbox_step redact) ops s')) \<noteq> Inr ()
    \<and> fst (publish_ephemeral e' (run_ops (outbox_step redact) ops s')) \<noteq> Inr ()
    \<and> fst (enqueue_pause_checkpoint t p (run_ops (outbox_step redact) ops s')) \<noteq> Inr ()
    \<and> fst (resume_submissions (run_ops (outbox_step redact) ops s')) = Inl SE_AlreadyClosed"
proof -
  have "ob_terminal_submitted s'"
    using assms by (auto simp: submit_def enqueue_validated_def try_send_def Let_def
        split: if_splits sum.splits try_send_error.splits)
  then have "ob_terminal_submitted (run_ops (outbox_step redact) ops s')"
    by (rule submission_closed.run_inv)
  then show ?thesis
    by (auto simp: submit_def publish_ephemeral_def enqueue_validated_def enqueue_pause_checkpoint_def
        resume_submissions_def split: sum.splits)
qed

text \<open>
  C4: The flush barrier. When a flush that started after an event was accepted returns
  normally while the actor is live, that event is in the ledger, under the sequence number the
  flush waited for.
\<close>

theorem flush_barrier:
  assumes "s = reachable_outbox redact ops c r db" and acc: "submit e s = (Inr (), s')"
    and s'': "s'' = run_ops (outbox_step redact) ops' s'"
    and "ob_running s''" and "unwrapped s''"
    and fl: "flush_poll (ob_accepted_high_water s') s'' = Some (Inr n)"
  shows "approval_event_for_persistence (e\<lparr>ev_event_seq := ob_accepted_high_water s'\<rparr>)
    \<in> set (db_run_events (ob_db s''))"
proof -
  let ?k = "ob_accepted_high_water s'"
  have inv: "outbox_inv s" using assms(1) reachable_inv by simp
  from acc have dur: "is_durable e" by (auto simp: submit_def split: if_splits)
  from acc have "snd (submit e s) = s'" by simp
  then have inv': "outbox_inv s'" using outbox_step_inv [OF inv, of redact "Op_Submit e"] by simp
  from acc have run': "ob_running s'" and ib: "inbox s' = inbox s @ [Cmd_Event e]"
    by (auto simp: submit_def enqueue_validated_def try_send_def Let_def inbox_def
        split: if_splits sum.splits try_send_error.splits option.splits)
  have "tracked e ?k s'"
    using inv' run' ib
    by (auto simp: tracked_def outbox_inv_def live_ok_def counters_ok_def nth_append
        intro!: exI [of _ "length (inbox s)"])
  then have tr: "tracked e ?k s''" and inv'': "outbox_inv s''"
    unfolding s'' using outbox_machine.run_preserves [OF inv', of "tracked e ?k" redact ops'] tracked_step [OF _ _ dur]
      outbox_machine.run_inv [OF inv'] by blast+
  from fl have d: "ob_durability s'' = OD_Committed n" and "?k \<le> n"
    by (auto simp: flush_poll_def split: outbox_durability.splits if_splits)
  with inv'' assms(4,5) have "?k \<le> ob_sequence s''" "\<forall>x \<in> set (ob_pending s''). ?k < ev_event_seq x"
    by (auto simp: outbox_inv_def live_ok_def counters_ok_def)
  with tr assms(4,5) show ?thesis by (auto simp: tracked_def word_le_nat_alt)
qed

text \<open>
  C5: A waiter that is told the terminal was committed can rely on the database: whenever the
  outbox reports a committed terminal, the run is closed there.
\<close>

theorem reported_terminal_is_durable:
  assumes "terminal_poll (reachable_outbox redact ops c r db) = Some (Inr n)"
  shows "run_closed (ob_db (reachable_outbox redact ops c r db)) (ob_run_id (reachable_outbox redact ops c r db))"
proof -
  have "settled (open_outbox c r db)"
    by (auto simp: settled_def open_outbox_def split: prod.splits)
  then have "settled (reachable_outbox redact ops c r db)"
    unfolding reachable_outbox_def
    by (rule outbox_machine.run_preserves [OF open_outbox_inv]) (rule settled_step)
  with assms show ?thesis
    by (auto simp: settled_def terminal_poll_def split: outbox_outcome.splits if_splits)
qed

text \<open>
  C6: The actor never stops without an outcome: unless its channel is torn down from outside,
  a stopped actor has reported a committed terminal or a failure, so no waiter is left with a
  lost actor. In particular the silent exit on an invalid event is never taken.
\<close>

theorem actor_stops_with_outcome:
  assumes "\<forall>envs. Op_SendersDropped envs \<notin> set ops"
  shows "ob_running (reachable_outbox redact ops c r db)
    \<or> ob_completion (reachable_outbox redact ops c r db) \<noteq> OO_Open"
proof -
  have "outbox_inv s \<Longrightarrow> answered s \<Longrightarrow> answered (run_ops (outbox_step redact) ops s)" for s
    using assms
  proof (induction ops arbitrary: s)
    case Nil
    then show ?case by simp
  next
    case (Cons x xs)
    have "answered (outbox_step redact x s)" using Cons.prems by (intro answered_step) auto
    with Cons.IH [of "outbox_step redact x s"] Cons.prems outbox_step_inv show ?case by simp
  qed
  moreover have "answered (open_outbox c r db)"
    by (auto simp: answered_def open_outbox_def split: prod.splits)
  ultimately show ?thesis
    using open_outbox_inv unfolding reachable_outbox_def answered_def by blast
qed

text \<open>
  Saturation. When the queue is full, a preview that would otherwise be accepted is dropped
  and reported as accepted, and nothing changes; a durable event that would otherwise be
  accepted is refused, the run is cancelled and closed for submission, and the actor is asked to
  fail it closed.
\<close>

theorem saturation_drops_previews_only:
  assumes "ob_running s" and "RUN_EVENT_OUTBOX_CAPACITY \<le> length (ob_queue s)"
    and "fst (publish_ephemeral p (s\<lparr>ob_queue := []\<rparr>)) = Inr ()"
    and "fst (submit d (s\<lparr>ob_queue := []\<rparr>)) = Inr ()"
  shows "publish_ephemeral p s = (Inr (), s)
    \<and> submit d s = (Inl SE_QueueFull, s\<lparr>ob_terminal_submitted := True, ob_cancelled := True,
         ob_failure_request := True\<rparr>)"
  using assms
  by (auto simp: publish_ephemeral_def submit_def enqueue_validated_def try_send_def Let_def
      split: if_splits sum.splits try_send_error.splits)

lemma pause_needs_next_number:
  assumes "n \<noteq> saturating_add (run_head db r) 1"
  shows "\<exists>err. commit_pause_checkpoint env prepared r t n db = Inl err"
  using assms by (cases "commit_pause_checkpoint env prepared r t n db") (auto elim: commit_pause_checkpointE)

lemma fail_and_stop_checkpoints:
  "db_checkpoints (ob_db (fail_and_stop redact env f s)) = db_checkpoints (ob_db s)"
  "ob_pause_responses (fail_and_stop redact env f s) = ob_pause_responses s"
proof -
  have "db_checkpoints db' = db_checkpoints db"
    if "fail_run_event_outbox_if_open env r reason db = Inr (db', out)" for db db' r reason out
    using fail_run_event_outbox_ledger [OF that] by (simp add: projects_def)
  then show "db_checkpoints (ob_db (fail_and_stop redact env f s)) = db_checkpoints (ob_db s)"
    by (auto simp: fail_and_stop_def stop_actor_def fail_closed_def Let_def
        split: sum.splits prod.splits agent_run_fail_closed_outcome.splits)
  show "ob_pause_responses (fail_and_stop redact env f s) = ob_pause_responses s"
    by (auto simp: fail_and_stop_def stop_actor_def fail_closed_def Let_def
        split: sum.splits prod.splits agent_run_fail_closed_outcome.splits)
qed

text \<open>How failing closed ends: with the failure, or with the terminal that another writer left.\<close>

definition failed_closed :: "outbox_failure \<Rightarrow> outbox \<Rightarrow> bool" where
  "failed_closed failure s \<longleftrightarrow> \<not> ob_running s \<and> (ob_completion s = OO_Failed failure
     \<or> (\<exists>n. ob_completion s = OO_TerminalCommitted n \<and> run_closed (ob_db s) (ob_run_id s)))"

lemma fail_and_stop_failed_closed: "failed_closed failure (fail_and_stop redact env failure s)"
proof (cases "fail_run_event_outbox_if_open env (ob_run_id s) (reason_code failure) (ob_db s)")
  case (Inr out)
  obtain db' x where out: "out = (db', x)" by force
  with Inr fail_run_event_outbox_ledger [of env "ob_run_id s" "reason_code failure" "ob_db s" db' x]
  show ?thesis
    by (cases x) (auto simp: failed_closed_def fail_and_stop_def stop_actor_def fail_closed_def Let_def split: if_splits)
qed (simp add: failed_closed_def fail_and_stop_def stop_actor_def fail_closed_def Let_def)

lemma failed_closed_response [simp]:
  "failed_closed failure (s \<lparr> ob_pause_responses := x \<rparr>) = failed_closed failure s"
  by (simp add: failed_closed_def)

lemma commit_keeps_checkpoints:
  assumes "commit_and_deliver env s = (Inr (), s')"
  shows "db_checkpoints (ob_db s') = db_checkpoints (ob_db s)"
  using assms commit_run_event_batch_ledger(5)
  by (auto simp: commit_and_deliver_def Let_def projects_def split: if_splits sum.splits prod.splits)

lemma run_head_committed:
  assumes "db_run_events db' = db_run_events db @ es" "run_head db r \<le> n" "\<forall>e \<in> set es. ev_event_seq e \<le> n"
  shows "run_head db' r \<le> n"
  using assms by (auto simp: run_head_le_iff run_rows_def)

lemma pause_ahead_of_ledger:
  assumes "ob_pending s = []" "run_head (ob_db s) (ob_run_id s) < ob_sequence s" "ob_sequence s \<noteq> - 1"
  shows "\<exists>err. failed_closed (OF_Persistence err) (process_pause redact envs prepared t s)
    \<and> ob_pause_responses (process_pause redact envs prepared t s) = ob_pause_responses s @ [Inl (OF_Persistence err)]
    \<and> db_checkpoints (ob_db (process_pause redact envs prepared t s)) = db_checkpoints (ob_db s)"
proof -
  define n where "n = saturating_add (ob_sequence s) 1"
  have "saturating_add (run_head (ob_db s) (ob_run_id s)) 1 \<noteq> n"
  proof -
    have "run_head (ob_db s) (ob_run_id s) \<noteq> - 1" using assms(2) by auto
    from sat_succ(1) [OF this] sat_succ(1) [OF assms(3)] assms(2) show ?thesis
      by (auto simp: n_def word_less_nat_alt)
  qed
  then obtain err where err: "commit_pause_checkpoint (envs 1) prepared (ob_run_id s) t n (ob_db s) = Inl err"
    using pause_needs_next_number by metis
  let ?s = "s \<lparr> ob_last_turn_id := t, ob_sequence := n \<rparr>"
  have "process_pause redact envs prepared t s = (let s2 = fail_and_stop redact (envs 2) (OF_Persistence err) ?s
      in s2\<lparr>ob_pause_responses := ob_pause_responses s2 @ [Inl (OF_Persistence err)]\<rparr>)"
    using assms(1) err by (simp add: process_pause_def commit_and_deliver_def Let_def pause_at_boundary_def
        commit_pause_checkpoint_and_deliver_def n_def)
  then show ?thesis
    using fail_and_stop_failed_closed [of "OF_Persistence err" redact "envs 2" ?s]
    by (simp add: Let_def fail_and_stop_checkpoints)
qed

text \<open>
  C7: A preview directly before a pause makes the pause fail. The preview takes a sequence
  number without a ledger row, while the pause transaction insists on the number right after
  the ledger's head. In every reachable state whose actor handles a preview with a pause behind
  it, unless another writer has moved the ledger past the outbox's counter, the two commands end
  in a run that is failed closed (or already closed), no checkpoint row is written, and
  the pause is refused with a persistence error, or not answered because the actor had stopped
  over the batch before the preview, however the transactions fare.
\<close>

theorem pause_after_preview_fails_closed:
  assumes "s = reachable_outbox redact ops c r db" "ob_running s" "unwrapped s"
    and "ob_current s = Some (Cmd_Event e)" "\<not> is_durable e" "ob_queue s = Cmd_PauseCheckpoint t reason # rest"
    and "run_head (ob_db s) (ob_run_id s) \<le> ob_sequence s"
    and s1: "s1 = outbox_step redact (Op_Process envs prepared) s"
    and s2: "s2 = run_ops (outbox_step redact) [Op_Recv, Op_Process envs' prepared'] s1"
  shows "\<exists>err. failed_closed (OF_Persistence err) s2 \<and> db_checkpoints (ob_db s2) = db_checkpoints (ob_db s)
    \<and> ob_pause_responses s2 = ob_pause_responses s @ (if ob_running s1 then [Inl (OF_Persistence err)] else [])"
proof -
  have live: "live_ok s" using reachable_inv [of redact ops c r db] assms(1,2) by (simp add: outbox_inv_def)
  define n where "n = saturating_add (ob_sequence s) 1"
  have "accepted_event (ob_run_id s) e" using live assms(4) by (simp add: live_ok_def inbox_ok_def inbox_def)
  note valid = accepted_event_valid [OF this, of "ob_sequence s"]
  have "unat (ob_accepted_high_water s) = unat (ob_sequence s) + Suc (Suc (length rest))"
    using live assms(3,4,6) by (simp add: live_ok_def counters_ok_def inbox_def)
  moreover have "unat (ob_accepted_high_water s) \<le> 2 ^ 64 - 1"
    using unat_le_max [of "ob_accepted_high_water s"] by simp
  ultimately have seq: "ob_sequence s \<noteq> - 1" "n \<noteq> - 1"
  proof -
    have small: "unat (ob_sequence s) + 2 \<le> 2 ^ 64 - 1"
      using \<open>unat (ob_accepted_high_water s) = _\<close> \<open>unat (ob_accepted_high_water s) \<le> _\<close> by linarith
    then show "ob_sequence s \<noteq> - 1" using unat_max [where 'a = 64] by auto
    from sat_succ(1) [OF this] small show "n \<noteq> - 1" using unat_max [where 'a = 64] by (auto simp: n_def)
  qed
  have bound: "\<forall>x \<in> set (ob_pending s). ev_event_seq x \<le> ob_sequence s"
    using live assms(3) by (simp add: live_ok_def log_ok_def)
  let ?e = "e\<lparr>ev_event_seq := n\<rparr>"
  let ?t = "s\<lparr>ob_current := None, ob_sequence := n, ob_last_turn_id := ev_turn_id e\<rparr>"
  have step: "s1 = process_preview redact envs ?e ?t"
    using assms(2,4,5) valid s1 by (simp add: process_event_def Let_def n_def)
  show ?thesis
  proof (cases rule: commit_and_deliver_cases [of ?t "envs 0"])
    case (failed err)
    then have s1': "s1 = fail_and_stop redact (envs 1) (OF_Persistence err) (?t\<lparr>ob_pending := []\<rparr>)"
      unfolding step process_preview_def by simp
    then have "failed_closed (OF_Persistence err) s1" by (simp add: fail_and_stop_failed_closed)
    moreover from this have "s2 = s1" by (simp add: s2 failed_closed_def)
    ultimately show ?thesis using s1'
      by (intro exI [of _ err]) (simp add: fail_and_stop_checkpoints failed_closed_def)
  next
    case (ok db' ds)
    let ?u = "?t\<lparr>ob_pending := [], ob_db := db', ob_delivered := ob_delivered ?t @ ds
        @ [Del_RunEvent (approval_event_for_delivery ?e)], ob_durability := OD_Committed n\<rparr>"
    have s1': "s1 = ?u" unfolding step process_preview_def ok(1) by simp
    have "run_head db' (ob_run_id s) \<le> ob_sequence s"
      using run_head_committed [OF ok(3)] assms(7) bound by simp
    then have ahead: "run_head db' (ob_run_id s) < n" using sat_succ(2) [OF seq(1)] by (simp add: n_def)
    have kept: "db_checkpoints db' = db_checkpoints (ob_db s)" using commit_keeps_checkpoints [OF ok(1)] by simp
    let ?v = "?u\<lparr>ob_queue := rest, ob_current := None\<rparr>"
    have "s2 = process_pause redact envs' prepared' t ?v"
      using assms(2,6) by (simp add: s2 s1')
    with pause_ahead_of_ledger [of ?v redact envs' prepared' t] ahead seq(2) kept assms(2) show ?thesis
      by (simp add: s1') blast
  qed
qed

section \<open>Witnesses\<close>

definition sample_preview :: agent_run_event where
  "sample_preview = (stream_reset ''r'' (Some ''t'') 0 ''retry'' True)\<lparr>ev_persistence := Persistence_Ephemeral\<rparr>"

definition sample_envs :: "nat \<Rightarrow> storage_env" where
  "sample_envs k = sample_env"

definition sample_open :: outbox where
  "sample_open = open_outbox ''c'' ''r'' (sample_db ''running'')"

definition sample_trace :: "outbox_op list" where
  "sample_trace = [Op_PublishEphemeral sample_preview, Op_Submit (sample_done 0), Op_Recv,
     Op_Process sample_envs (Inl CE_Database), Op_Recv, Op_Process sample_envs (Inl CE_Database)]"

lemma sample_trace_result:
  "map ev_event_seq (published (reachable_outbox id sample_trace ''c'' ''r'' (sample_db ''running''))) = [1, 2]"
  "map is_durable (published (reachable_outbox id sample_trace ''c'' ''r'' (sample_db ''running''))) = [False, True]"
  "terminal_poll (reachable_outbox id sample_trace ''c'' ''r'' (sample_db ''running'')) = Some (Inr 2)"
  "unwrapped (reachable_outbox id sample_trace ''c'' ''r'' (sample_db ''running''))"
  by code_simp+

abbreviation sample_end :: outbox where
  "sample_end \<equiv> reachable_outbox id sample_trace ''c'' ''r'' (sample_db ''running'')"

theorem commit_before_delivery_witness:
  "\<exists>e \<in> set (published sample_end). is_durable e
     \<and> (\<exists>row \<in> set (db_run_events (ob_db sample_end)). ledger_key row = ledger_key e)"
proof -
  have "list_ex is_durable (published sample_end)" by code_simp
  then obtain e where "e \<in> set (published sample_end)" "is_durable e" by (auto simp: list_ex_iff)
  with commit_before_delivery [OF this] show ?thesis by blast
qed

theorem published_in_order_witness:
  "sorted_wrt (<) (map ev_event_seq (published sample_end)) \<and> length (published sample_end) = 2"
  using published_in_order [OF sample_trace_result(4)] sample_trace_result(1)
  by (metis length_Cons length_map list.size(3) numeral_2_eq_2)

theorem closing_event_is_last_witness:
  "filter closes_run (butlast (published sample_end)) = [] \<and> filter closes_run (published sample_end) \<noteq> []"
  using closing_event_is_last [of id sample_trace "''c''" "''r''" "sample_db ''running''"]
  by (intro conjI; (blast | code_simp))

theorem closed_for_submission_forever_witness:
  "\<exists>s'. submit (sample_done 0) sample_open = (Inr (), s')
     \<and> fst (resume_submissions (run_ops (outbox_step id) sample_trace s')) = Inl SE_AlreadyClosed"
proof -
  have "fst (submit (sample_done 0) sample_open) = Inr ()" by code_simp
  then obtain s' where s': "submit (sample_done 0) sample_open = (Inr (), s')" by (metis prod.collapse)
  have "closes_run (sample_done 0)" by code_simp
  with s' closed_for_submission_forever [OF s'] show ?thesis by blast
qed

definition sample_status :: agent_run_event where
  "sample_status = status_update ''r'' (Some ''t'') 0 Phase_Tooling ''Working'' (Some ''running'') None"

theorem flush_barrier_witness:
  "\<exists>s' s''. submit sample_status (reachable_outbox id [] ''c'' ''r'' (sample_db ''running'')) = (Inr (), s')
     \<and> s'' = run_ops (outbox_step id) [Op_Recv, Op_Process sample_envs (Inl CE_Database)] s'
     \<and> approval_event_for_persistence (sample_status\<lparr>ev_event_seq := ob_accepted_high_water s'\<rparr>)
         \<in> set (db_run_events (ob_db s''))"
proof -
  let ?s = "reachable_outbox id [] ''c'' ''r'' (sample_db ''running'')"
  let ?s' = "snd (submit sample_status ?s)"
  let ?s'' = "run_ops (outbox_step id) [Op_Recv, Op_Process sample_envs (Inl CE_Database)] ?s'"
  have "fst (submit sample_status ?s) = Inr ()" by code_simp
  then have 1: "submit sample_status ?s = (Inr (), ?s')" by (metis prod.collapse)
  have 2: "ob_running ?s''" by code_simp
  have 3: "unwrapped ?s''" by code_simp
  have 4: "flush_poll (ob_accepted_high_water ?s') ?s'' = Some (Inr 1)" by code_simp
  from flush_barrier [OF refl 1 refl 2 3 4] 1 show ?thesis by blast
qed

theorem reported_terminal_is_durable_witness:
  "run_closed (ob_db sample_end) (ob_run_id sample_end)"
  using reported_terminal_is_durable [OF sample_trace_result(3)] .

theorem actor_stops_with_outcome_witness: "ob_completion sample_end \<noteq> OO_Open"
proof -
  have "\<not> ob_running sample_end" by code_simp
  moreover have "\<forall>envs. Op_SendersDropped envs \<notin> set sample_trace" by (simp add: sample_trace_def)
  ultimately show ?thesis using actor_stops_with_outcome [of sample_trace] by blast
qed

theorem saturation_witness:
  "\<exists>s. length (ob_queue s) = 512 \<and> publish_ephemeral sample_preview s = (Inr (), s)
     \<and> fst (submit (sample_done 0) s) = Inl SE_QueueFull"
proof -
  let ?s = "sample_open\<lparr>ob_queue := replicate 512 (Cmd_Event sample_preview)\<rparr>"
  have "ob_running sample_open" by code_simp
  then have 1: "ob_running ?s" by simp
  have 2: "RUN_EVENT_OUTBOX_CAPACITY \<le> length (ob_queue ?s)" by (simp add: RUN_EVENT_OUTBOX_CAPACITY_def)
  have "fst (publish_ephemeral sample_preview (sample_open\<lparr>ob_queue := []\<rparr>)) = Inr ()"
    "fst (submit (sample_done 0) (sample_open\<lparr>ob_queue := []\<rparr>)) = Inr ()" by code_simp+
  then have "fst (publish_ephemeral sample_preview (?s\<lparr>ob_queue := []\<rparr>)) = Inr ()"
    "fst (submit (sample_done 0) (?s\<lparr>ob_queue := []\<rparr>)) = Inr ()" by simp_all
  from saturation_drops_previews_only [OF 1 2 this] show ?thesis by (intro exI [of _ ?s]) simp
qed

definition preview_then_pause :: "outbox_op list" where
  "preview_then_pause = [Op_PublishEphemeral sample_preview, Op_Pause ''t'' ''user'', Op_Recv]"

theorem pause_after_preview_witness:
  "let s = reachable_outbox id preview_then_pause ''c'' ''r'' (sample_db ''running'');
       s1 = outbox_step id (Op_Process sample_envs (Inl CE_Database)) s;
       s2 = run_ops (outbox_step id) [Op_Recv, Op_Process sample_envs (Inl CE_Database)] s1
   in \<exists>err. failed_closed (OF_Persistence err) s2 \<and> ob_pause_responses s2 = [Inl (OF_Persistence err)]"
proof -
  let ?s = "reachable_outbox id preview_then_pause ''c'' ''r'' (sample_db ''running'')"
  let ?s1 = "outbox_step id (Op_Process sample_envs (Inl CE_Database)) ?s"
  have "ob_running ?s" "unwrapped ?s" "ob_current ?s = Some (Cmd_Event sample_preview)" "\<not> is_durable sample_preview"
    "ob_queue ?s = [Cmd_PauseCheckpoint ''t'' ''user'']" "run_head (ob_db ?s) (ob_run_id ?s) \<le> ob_sequence ?s"
    by code_simp+
  note refused = pause_after_preview_fails_closed [OF refl this refl refl, of sample_envs "Inl CE_Database"
      sample_envs "Inl CE_Database"]
  have "ob_running ?s1" "ob_pause_responses ?s = []" by code_simp+
  with refused show ?thesis unfolding Let_def by (elim exE) (simp only: if_True append.simps, blast)
qed

end
