(* ===== verification/Workflow_Ir.thy ===== *)
theory Workflow_Ir
  imports Nexa_Json
begin

text \<open>
  The versioned workflow representation, \<open>crates/core/src/workflow_ir.rs\<close>: a graph of nodes with
  dependencies, verification gates, an evidence ledger and a checkpoint, with the operations that
  start, complete and fail nodes, record gate outcomes and decide whether a run may complete.

  The theory holds the definitions; \<open>Workflow_Graph\<close> proves what validation accepts and
  \<open>Workflow_Properties\<close> the rest. Of the task plan (\<open>intelligence/\<close>) only the steps' identifier,
  title and status are read here. The compiler that builds a workflow from a plan, the detection
  of project tooling on disk and the interpretation of browser and desktop tool results are not
  part of the model.
\<close>

section \<open>Types\<close>

definition WORKFLOW_IR_VERSION :: u8 where "WORKFLOW_IR_VERSION = 1"

datatype workflow_node_status = WN_Pending | WN_Running | WN_Succeeded | WN_Failed | WN_Blocked

datatype workflow_isolation = ISO_SharedReadOnly | ISO_ParentOwnedWrite | ISO_IsolatedPatchWorkspace

datatype model_routing_class = MR_Fast | MR_Strong | MR_IndependentReviewer

datatype verification_gate_kind =
    VG_EvidenceSufficiency | VG_CitationIntegrity | VG_Tests | VG_Lint | VG_Typecheck | VG_Build
  | VG_WriteIsolation | VG_IndependentReview | VG_BrowserVisualObservation
  | VG_BrowserSessionObservation | VG_BrowserTerminalClosure | VG_DesktopObservation

definition is_interaction_observation :: "verification_gate_kind \<Rightarrow> bool" where
  "is_interaction_observation k =
     (k \<in> {VG_BrowserVisualObservation, VG_BrowserSessionObservation, VG_BrowserTerminalClosure,
            VG_DesktopObservation})"

record verification_gate =
  vg_id :: string
  vg_kind :: verification_gate_kind
  vg_required :: bool
  vg_passed :: "bool option"
  vg_detail :: "string option"

record workflow_retry_policy =
  rp_max_attempts :: u8
  rp_retry_affected_nodes_only :: bool

record workflow_artifact_contract =
  ac_required_sections :: "string list"
  ac_structured :: bool

record workflow_deliverable =
  dl_claims :: "string list"
  dl_evidence :: "string list"
  dl_files_touched :: "string list"
  dl_tests :: "string list"
  dl_uncertainties :: "string list"

record workflow_node =
  nd_id :: string
  nd_phase :: string
  nd_title :: string
  nd_dependencies :: "string list"
  nd_parallel_group :: "string option"
  nd_model_policy :: model_routing_class
  nd_allowed_tools :: "string list"
  nd_isolation :: workflow_isolation
  nd_write_scope :: "string list"
  nd_retry_policy :: workflow_retry_policy
  nd_artifact_contract :: workflow_artifact_contract
  nd_status :: workflow_node_status
  nd_attempts :: u8
  nd_deliverable :: "workflow_deliverable option"

record workflow_evidence_entry =
  ee_claim :: string
  ee_status :: string
  ee_source_ids :: "string list"
  ee_node_id :: string

record workflow_checkpoint =
  ck_revision :: u32
  ck_completed_node_ids :: "string list"
  ck_active_node_ids :: "string list"
  ck_failed_node_ids :: "string list"
  ck_remaining_delegated_tokens :: u32

datatype browser_terminal_closure_requirement =
    BTC_NotRequired | BTC_Tab | BTC_AllTabs | BTC_Session

definition btc_is_required :: "browser_terminal_closure_requirement \<Rightarrow> bool" where
  "btc_is_required r = (r \<noteq> BTC_NotRequired)"

record workflow_completion_contract =
  cc_require_all_nodes_succeeded :: bool
  cc_require_verification_gates :: bool
  cc_require_evidence_ledger :: bool
  cc_require_interaction_gates :: bool
  cc_browser_terminal_closure_evidence :: browser_terminal_closure_requirement

record project_verification_support =
  ps_tests :: bool
  ps_lint :: bool
  ps_typecheck :: bool
  ps_build :: bool

record workflow_ir =
  wf_version :: u8
  wf_id :: string
  wf_route_kind :: string
  wf_orchestration_profile :: string
  wf_nexus_enabled :: bool
  wf_max_parallel :: u32
  wf_min_evidence_sources :: u8
  wf_nodes :: "workflow_node list"
  wf_verification_gates :: "verification_gate list"
  wf_evidence_ledger :: "workflow_evidence_entry list"
  wf_checkpoint :: workflow_checkpoint
  wf_completion_contract :: workflow_completion_contract

section \<open>Checkpoint\<close>

definition ids_with_status :: "workflow_node_status \<Rightarrow> workflow_node list \<Rightarrow> string list" where
  "ids_with_status st nodes = map nd_id (filter (\<lambda>n. nd_status n = st) nodes)"

definition refresh_checkpoint :: "workflow_ir \<Rightarrow> workflow_ir" where
  "refresh_checkpoint w = w\<lparr>wf_checkpoint := (wf_checkpoint w)\<lparr>
     ck_revision := saturating_add (ck_revision (wf_checkpoint w)) 1,
     ck_completed_node_ids := ids_with_status WN_Succeeded (wf_nodes w),
     ck_active_node_ids := ids_with_status WN_Running (wf_nodes w),
     ck_failed_node_ids := ids_with_status WN_Failed (wf_nodes w)\<rparr>\<rparr>"

definition ensure_required_gate ::
  "string \<Rightarrow> verification_gate_kind \<Rightarrow> string \<Rightarrow> verification_gate list \<Rightarrow> verification_gate list" where
  "ensure_required_gate i kind detail gates =
     (if list_ex (\<lambda>g. vg_kind g = kind) gates
      then update_first (\<lambda>g. vg_kind g = kind)
             (\<lambda>g. g\<lparr>vg_id := i, vg_required := True, vg_passed := None,
                     vg_detail := Some detail\<rparr>) gates
      else gates @ [\<lparr>vg_id = i, vg_kind = kind, vg_required = True, vg_passed = None,
                     vg_detail = Some detail\<rparr>])"

definition require_fresh_desktop_observation :: "string \<Rightarrow> workflow_ir \<Rightarrow> workflow_ir" where
  "require_fresh_desktop_observation detail w =
     refresh_checkpoint (w\<lparr>
       wf_completion_contract := (wf_completion_contract w)\<lparr>cc_require_interaction_gates := True\<rparr>,
       wf_verification_gates := ensure_required_gate ''desktop-observation'' VG_DesktopObservation
         detail (wf_verification_gates w)\<rparr>)"

section \<open>Validation\<close>

text \<open>
  The breadth-first pass over the graph. The number of unmet dependencies is a \<open>usize\<close> that the
  code decrements; \<open>None\<close> stands for an underflow of that subtraction. The table is built from a
  hash map, whose iteration order is arbitrary: the initial queue is an argument.
\<close>

fun relax_dependents ::
  "string \<Rightarrow> workflow_node list \<Rightarrow> (string \<Rightarrow> nat) \<Rightarrow> string list \<Rightarrow>
     ((string \<Rightarrow> nat) \<times> string list) option" where
  "relax_dependents i [] deg q = Some (deg, q)"
| "relax_dependents i (n # ns) deg q =
     (if i \<in> set (nd_dependencies n)
      then (if deg (nd_id n) = 0 then None
            else (let d = deg (nd_id n) - 1
                  in relax_dependents i ns (deg(nd_id n := d)) (if d = 0 then q @ [nd_id n] else q)))
      else relax_dependents i ns deg q)"

lemma relax_dependents_measure:
  "relax_dependents i ns deg q = Some (deg', q') \<Longrightarrow> set ns \<subseteq> set nodes \<Longrightarrow>
   sum_list (map (\<lambda>n. deg' (nd_id n)) nodes) + length q'
     \<le> sum_list (map (\<lambda>n. deg (nd_id n)) nodes) + length q"
proof (induction ns arbitrary: deg q)
  case Nil
  then show ?case by simp
next
  case (Cons n ns)
  show ?case
  proof (cases "i \<in> set (nd_dependencies n)")
    case False
    with Cons show ?thesis by simp
  next
    case True
    let ?d = "deg (nd_id n) - 1"
    let ?deg = "deg(nd_id n := ?d)"
    let ?q = "if ?d = 0 then q @ [nd_id n] else q"
    from True Cons.prems(1) have pos: "0 < deg (nd_id n)"
      and rest: "relax_dependents i ns ?deg ?q = Some (deg', q')"
      by (auto simp: Let_def split: if_splits)
    have le: "sum_list (map (\<lambda>m. ?deg (nd_id m)) xs) \<le> sum_list (map (\<lambda>m. deg (nd_id m)) xs)" for xs
      by (induction xs) auto
    obtain as bs where ns: "nodes = as @ n # bs"
      using Cons.prems(2) by (auto dest: split_list)
    have "sum_list (map (\<lambda>m. ?deg (nd_id m)) nodes) + 1 \<le> sum_list (map (\<lambda>m. deg (nd_id m)) nodes)"
      unfolding ns using le [of as] le [of bs] pos by simp
    moreover have "length ?q \<le> length q + 1" by simp
    ultimately show ?thesis
      using Cons.IH [OF rest] Cons.prems(2) by simp
  qed
qed

function kahn_visited ::
  "workflow_node list \<Rightarrow> (string \<Rightarrow> nat) \<Rightarrow> string list \<Rightarrow> nat \<Rightarrow> nat option" where
  "kahn_visited nodes deg [] visited = Some visited"
| "kahn_visited nodes deg (i # q) visited =
     (case relax_dependents i nodes deg q of
        None \<Rightarrow> None
      | Some (deg', q') \<Rightarrow> kahn_visited nodes deg' q' (Suc visited))"
  by pat_completeness auto

termination
proof (relation "measure (\<lambda>(nodes, deg, q, v). sum_list (map (\<lambda>n. deg (nd_id n)) nodes) + length q)")
  fix nodes deg i q and visited :: nat and x deg' q'
  assume "relax_dependents i nodes deg q = Some x" and "(deg', q') = x"
  then have "sum_list (map (\<lambda>n. deg' (nd_id n)) nodes) + length q'
      \<le> sum_list (map (\<lambda>n. deg (nd_id n)) nodes) + length q"
    by (metis order_refl relax_dependents_measure)
  then show "((nodes, deg', q', Suc visited), nodes, deg, i # q, visited)
      \<in> measure (\<lambda>(nodes, deg, q, v). sum_list (map (\<lambda>n. deg (nd_id n)) nodes) + length q)"
    by simp
qed simp

definition indegree_of :: "workflow_node list \<Rightarrow> string \<Rightarrow> nat" where
  "indegree_of nodes i =
     (case find (\<lambda>n. nd_id n = i) nodes of Some n \<Rightarrow> length (nd_dependencies n) | None \<Rightarrow> 0)"

definition initial_queue :: "workflow_node list \<Rightarrow> string list" where
  "initial_queue nodes = filter (\<lambda>i. indegree_of nodes i = 0) (map nd_id nodes)"

datatype workflow_error =
    WE_UnsupportedVersion u8
  | WE_NoNodes
  | WE_DuplicateIds
  | WE_DependsOnItself string
  | WE_MissingDependency string string
  | WE_Cycle
  | WE_Underflow

fun check_dependencies :: "string set \<Rightarrow> workflow_node list \<Rightarrow> workflow_error + unit" where
  "check_dependencies ids [] = Inr ()"
| "check_dependencies ids (n # ns) =
     (if nd_id n \<in> set (nd_dependencies n) then Inl (WE_DependsOnItself (nd_id n))
      else case find (\<lambda>d. d \<notin> ids) (nd_dependencies n) of
        Some d \<Rightarrow> Inl (WE_MissingDependency (nd_id n) d)
      | None \<Rightarrow> check_dependencies ids ns)"

definition validate_from :: "string list \<Rightarrow> workflow_ir \<Rightarrow> workflow_error + unit" where
  "validate_from queue w =
     (let nodes = wf_nodes w; ids = set (map nd_id nodes) in
      if wf_version w \<noteq> WORKFLOW_IR_VERSION then Inl (WE_UnsupportedVersion (wf_version w))
      else if nodes = [] then Inl WE_NoNodes
      else if \<not> distinct (map nd_id nodes) then Inl WE_DuplicateIds
      else case check_dependencies ids nodes of
        Inl e \<Rightarrow> Inl e
      | Inr _ \<Rightarrow>
         (case kahn_visited nodes (indegree_of nodes) queue 0 of
            None \<Rightarrow> Inl WE_Underflow
          | Some visited \<Rightarrow> if visited \<noteq> length nodes then Inl WE_Cycle else Inr ()))"

definition validate :: "workflow_ir \<Rightarrow> workflow_error + unit" where
  "validate w = validate_from (initial_queue (wf_nodes w)) w"

section \<open>Node lifecycle\<close>

definition node_ready :: "workflow_node list \<Rightarrow> workflow_node \<Rightarrow> bool" where
  "node_ready nodes n =
     (nd_status n = WN_Pending
      \<and> list_all (\<lambda>d. d \<in> set (ids_with_status WN_Succeeded nodes)) (nd_dependencies n))"

definition ready_node_ids :: "workflow_ir \<Rightarrow> string list" where
  "ready_node_ids w =
     map nd_id (take (unat (wf_max_parallel w)) (filter (node_ready (wf_nodes w)) (wf_nodes w)))"

datatype node_error = NE_NotReady string | NE_Unknown string | NE_NotRunning string

definition update_node :: "string \<Rightarrow> (workflow_node \<Rightarrow> workflow_node) \<Rightarrow> workflow_ir \<Rightarrow> workflow_ir" where
  "update_node i f w = w\<lparr>wf_nodes := update_first (\<lambda>n. nd_id n = i) f (wf_nodes w)\<rparr>"

definition start_node :: "string \<Rightarrow> workflow_ir \<Rightarrow> (node_error + unit) \<times> workflow_ir" where
  "start_node i w =
     (if i \<notin> set (ready_node_ids w) then (Inl (NE_NotReady i), w)
      else (Inr (), refresh_checkpoint (update_node i
        (\<lambda>n. n\<lparr>nd_status := WN_Running, nd_attempts := saturating_add (nd_attempts n) 1\<rparr>) w)))"

definition evidence_entries :: "string \<Rightarrow> workflow_deliverable \<Rightarrow> workflow_evidence_entry list" where
  "evidence_entries i d = map (\<lambda>claim. \<lparr>ee_claim = claim,
     ee_status = (if dl_evidence d = [] then ''unknown'' else ''verified''),
     ee_source_ids = dl_evidence d, ee_node_id = i\<rparr>) (dl_claims d)"

definition complete_node ::
  "string \<Rightarrow> workflow_deliverable \<Rightarrow> workflow_ir \<Rightarrow> (node_error + unit) \<times> workflow_ir" where
  "complete_node i d w =
     (case find (\<lambda>n. nd_id n = i) (wf_nodes w) of
        None \<Rightarrow> (Inl (NE_Unknown i), w)
      | Some n \<Rightarrow>
        (if nd_status n \<noteq> WN_Running then (Inl (NE_NotRunning i), w)
         else (Inr (), refresh_checkpoint (update_node i
           (\<lambda>n. n\<lparr>nd_deliverable := Some d, nd_status := WN_Succeeded\<rparr>)
           (w\<lparr>wf_evidence_ledger := wf_evidence_ledger w @ evidence_entries i d\<rparr>)))))"

definition failure_deliverable :: "string \<Rightarrow> workflow_deliverable" where
  "failure_deliverable detail = \<lparr>dl_claims = [], dl_evidence = [], dl_files_touched = [],
     dl_tests = [], dl_uncertainties = [detail]\<rparr>"

definition fail_node :: "string \<Rightarrow> string \<Rightarrow> workflow_ir \<Rightarrow> (node_error + bool) \<times> workflow_ir" where
  "fail_node i detail w =
     (case find (\<lambda>n. nd_id n = i) (wf_nodes w) of
        None \<Rightarrow> (Inl (NE_Unknown i), w)
      | Some n \<Rightarrow>
        (if nd_status n \<noteq> WN_Running then (Inl (NE_NotRunning i), w)
         else
           (let retry = nd_attempts n < rp_max_attempts (nd_retry_policy n)
            in (Inr retry, refresh_checkpoint (update_node i
              (\<lambda>n. n\<lparr>nd_status := (if retry then WN_Pending else WN_Failed),
                      nd_deliverable := Some (failure_deliverable detail)\<rparr>) w)))))"

section \<open>Gates and completion\<close>

definition record_gate :: "string \<Rightarrow> bool \<Rightarrow> string \<Rightarrow> workflow_ir \<Rightarrow> workflow_ir" where
  "record_gate i passed detail w =
     refresh_checkpoint (w\<lparr>wf_verification_gates := update_first (\<lambda>g. vg_id g = i)
       (\<lambda>g. g\<lparr>vg_passed := Some passed, vg_detail := Some detail\<rparr>) (wf_verification_gates w)\<rparr>)"

definition completion_gate_is_enforced :: "workflow_ir \<Rightarrow> verification_gate \<Rightarrow> bool" where
  "completion_gate_is_enforced w g =
     (vg_required g
      \<and> (cc_require_verification_gates (wf_completion_contract w)
         \<or> (cc_require_interaction_gates (wf_completion_contract w)
            \<and> is_interaction_observation (vg_kind g))))"

definition verified_source_count :: "workflow_ir \<Rightarrow> nat" where
  "verified_source_count w = card (set (concat (map ee_source_ids
     (filter (\<lambda>e. ee_status e = ''verified'') (wf_evidence_ledger w)))))"

definition required_source_count :: "workflow_ir \<Rightarrow> nat" where
  "required_source_count w = unat (max (wf_min_evidence_sources w) 1)"

definition nodes_pass :: "workflow_ir \<Rightarrow> bool" where
  "nodes_pass w =
     (\<not> cc_require_all_nodes_succeeded (wf_completion_contract w)
      \<or> list_all (\<lambda>n. nd_status n = WN_Succeeded) (wf_nodes w))"

definition evidence_pass :: "workflow_ir \<Rightarrow> bool" where
  "evidence_pass w =
     (\<not> cc_require_evidence_ledger (wf_completion_contract w)
      \<or> required_source_count w \<le> verified_source_count w)"

definition completion_allowed :: "workflow_ir \<Rightarrow> bool" where
  "completion_allowed w =
     (nodes_pass w
      \<and> list_all (\<lambda>g. vg_passed g = Some True)
          (filter (completion_gate_is_enforced w) (wf_verification_gates w))
      \<and> evidence_pass w)"

fun status_debug :: "workflow_node_status \<Rightarrow> string" where
  "status_debug WN_Pending = ''Pending''"
| "status_debug WN_Running = ''Running''"
| "status_debug WN_Succeeded = ''Succeeded''"
| "status_debug WN_Failed = ''Failed''"
| "status_debug WN_Blocked = ''Blocked''"

fun passed_debug :: "bool option \<Rightarrow> string" where
  "passed_debug None = ''None''"
| "passed_debug (Some True) = ''Some(true)''"
| "passed_debug (Some False) = ''Some(false)''"

definition completion_blockers :: "workflow_ir \<Rightarrow> string list" where
  "completion_blockers w =
     (if cc_require_all_nodes_succeeded (wf_completion_contract w)
      then map (\<lambda>n. ''node:'' @ nd_id n @ '':'' @ status_debug (nd_status n))
             (filter (\<lambda>n. nd_status n \<noteq> WN_Succeeded) (wf_nodes w))
      else [])
     @ map (\<lambda>g. ''gate:'' @ vg_id g @ '':'' @ passed_debug (vg_passed g))
         (filter (\<lambda>g. completion_gate_is_enforced w g \<and> vg_passed g \<noteq> Some True)
           (wf_verification_gates w))
     @ (if cc_require_evidence_ledger (wf_completion_contract w)
           \<and> verified_source_count w < required_source_count w
        then [''evidenceLedger:requires'' @ nat_to_string (required_source_count w) @ ''Sources'']
        else [])"

definition requires_completion_audit :: "workflow_ir \<Rightarrow> bool" where
  "requires_completion_audit w =
     (cc_require_verification_gates (wf_completion_contract w)
      \<or> cc_require_interaction_gates (wf_completion_contract w)
      \<or> cc_require_evidence_ledger (wf_completion_contract w))"

definition requires_runtime_write_isolation :: "workflow_ir \<Rightarrow> bool" where
  "requires_runtime_write_isolation w =
     list_ex (\<lambda>g. vg_required g \<and> vg_kind g = VG_WriteIsolation) (wf_verification_gates w)"

definition ready_for_runtime_independent_review :: "workflow_ir \<Rightarrow> bool" where
  "ready_for_runtime_independent_review w =
     (nodes_pass w
      \<and> list_all (\<lambda>g. vg_passed g = Some True)
          (filter (\<lambda>g. vg_required g \<and> vg_kind g \<notin> {VG_IndependentReview, VG_WriteIsolation})
            (wf_verification_gates w))
      \<and> evidence_pass w)"

definition ready_to_promote_isolated_writes :: "workflow_ir \<Rightarrow> bool" where
  "ready_to_promote_isolated_writes w =
     (nodes_pass w
      \<and> list_all (\<lambda>g. vg_passed g = Some True)
          (filter (\<lambda>g. vg_required g \<and> vg_kind g \<noteq> VG_WriteIsolation) (wf_verification_gates w))
      \<and> evidence_pass w)"

definition record_runtime_write_isolation :: "bool \<Rightarrow> string \<Rightarrow> workflow_ir \<Rightarrow> workflow_ir" where
  "record_runtime_write_isolation passed detail w = record_gate ''write-isolation'' passed detail w"

definition record_runtime_independent_review :: "bool \<Rightarrow> string \<Rightarrow> workflow_ir \<Rightarrow> workflow_ir" where
  "record_runtime_independent_review passed detail w =
     record_gate ''independent-review'' passed detail w"

section \<open>Reconfiguration\<close>

definition tool_may_mutate_workspace :: "string \<Rightarrow> bool" where
  "tool_may_mutate_workspace tool =
     (tool \<in> {''create_file'', ''edit_file'', ''multi_edit'', ''project_tool'', ''run_shell''})"

definition configure_for_scheduled_isolated_patch :: "workflow_ir \<Rightarrow> workflow_ir" where
  "configure_for_scheduled_isolated_patch w =
     (let removed = set (map nd_id (filter (\<lambda>n. nd_phase n = ''reconnaissance'') (wf_nodes w)));
          nodes = map (\<lambda>n. n\<lparr>
              nd_dependencies := filter (\<lambda>d. d \<notin> removed) (nd_dependencies n),
              nd_allowed_tools := filter (\<lambda>t. t \<notin> {''spawn_subagent'', ''spawn_subagent_batch'',
                                          ''judge_subagent_results''}) (nd_allowed_tools n)\<rparr>)
            (filter (\<lambda>n. nd_phase n \<noteq> ''reconnaissance'') (wf_nodes w));
          gates = ensure_required_gate ''independent-review'' VG_IndependentReview
            ''Scheduled isolated patches require the controller's non-delegating Git patch review.''
            (ensure_required_gate ''write-isolation'' VG_WriteIsolation
              ''Scheduled isolated patches require controller-owned worktree promotion.''
              (wf_verification_gates w))
      in refresh_checkpoint (w\<lparr>wf_nodes := nodes, wf_verification_gates := gates,
           wf_completion_contract := (wf_completion_contract w)\<lparr>
             cc_require_all_nodes_succeeded := True, cc_require_verification_gates := True\<rparr>\<rparr>))"

definition configure_for_plan_mode :: "workflow_ir \<Rightarrow> workflow_ir" where
  "configure_for_plan_mode w =
     refresh_checkpoint (w\<lparr>
       wf_nodes := map (\<lambda>n. n\<lparr>nd_phase := ''planning'', nd_isolation := ISO_SharedReadOnly,
           nd_write_scope := [],
           nd_allowed_tools := filter (\<lambda>t. \<not> tool_may_mutate_workspace t
             \<and> t \<notin> {''spawn_subagent'', ''spawn_subagent_batch'', ''judge_subagent_results'',
                      ''record_verification''}) (nd_allowed_tools n)\<rparr>) (wf_nodes w),
       wf_verification_gates := [],
       wf_completion_contract := \<lparr>cc_require_all_nodes_succeeded = False,
         cc_require_verification_gates = False, cc_require_evidence_ledger = False,
         cc_require_interaction_gates = False,
         cc_browser_terminal_closure_evidence = BTC_NotRequired\<rparr>\<rparr>)"

fun supported_for :: "project_verification_support \<Rightarrow> verification_gate_kind \<Rightarrow> bool option" where
  "supported_for s VG_Tests = Some (ps_tests s)"
| "supported_for s VG_Lint = Some (ps_lint s)"
| "supported_for s VG_Typecheck = Some (ps_typecheck s)"
| "supported_for s VG_Build = Some (ps_build s)"
| "supported_for s _ = None"

definition configure_project_verification_support ::
  "project_verification_support \<Rightarrow> workflow_ir \<Rightarrow> workflow_ir" where
  "configure_project_verification_support s w =
     refresh_checkpoint (w\<lparr>wf_verification_gates := map (\<lambda>g.
       case supported_for s (vg_kind g) of
         None \<Rightarrow> g
       | Some supported \<Rightarrow> g\<lparr>vg_required := supported,
           vg_passed := (if \<not> supported then Some True else None),
           vg_detail := Some (if supported
             then ''Controller detected applicable project tooling; a successful runtime command is required.''
             else ''Controller marked this gate not applicable because no matching project tooling was detected before execution.'')\<rparr>)
       (wf_verification_gates w)\<rparr>)"

section \<open>Observed outcomes\<close>

definition audit_status_for :: "json \<Rightarrow> string \<Rightarrow> string option" where
  "audit_status_for audit name =
     Option.bind (Option.bind (json_get audit ''checks'') json_as_array) (\<lambda>checks.
     Option.bind (find (\<lambda>c. Option.bind (json_get c ''name'') json_as_str = Some name) checks) (\<lambda>c.
     Option.bind (json_get c ''status'') json_as_str))"

definition observe_final_answer_audit :: "json \<Rightarrow> workflow_ir \<Rightarrow> workflow_ir" where
  "observe_final_answer_audit audit w =
     (let w1 =
        (case audit_status_for audit ''Evidence requirement'' of
           None \<Rightarrow> w
         | Some status \<Rightarrow>
           (let citations = unwrap_or 0 (Option.bind (json_get audit ''citationCount'') json_as_u64);
                insufficient = unwrap_or False
                  (Option.bind (json_get audit ''explicitInsufficiency'') json_as_bool)
            in record_gate ''evidence-sufficiency''
                 (status = ''passed''
                  \<and> (insufficient \<or> ucast (max (wf_min_evidence_sources w) 1) \<le> citations))
                 (''Final answer evidence audit: '' @ status @ ''; citations=''
                  @ nat_to_string (unat citations) @ ''; required=''
                  @ nat_to_string (unat (wf_min_evidence_sources w))) w))
      in case audit_status_for audit ''Citation coverage'' of
           None \<Rightarrow> w1
         | Some status \<Rightarrow>
             record_gate ''citation-integrity'' (status = ''passed'')
               (''Final answer citation audit: '' @ status) w1)"

text \<open>
  Which release gates an executed command stands for. A program given by a path is refused
  before its name is used, so the file name the code takes is the program itself.
\<close>

definition script_is :: "string option \<Rightarrow> string \<Rightarrow> bool" where
  "script_is script name =
     (case script of None \<Rightarrow> False | Some s \<Rightarrow> s = name \<or> starts_with s (name @ '':''))"

definition nth_arg :: "string list \<Rightarrow> nat \<Rightarrow> string option" where
  "nth_arg args k = (if k < length args then Some (args ! k) else None)"

definition command_gate_ids :: "string \<Rightarrow> string list \<Rightarrow> string list" where
  "command_gate_ids program_name args =
     (let arg1 = nth_arg args 0; arg2 = nth_arg args 1; arg3 = nth_arg args 2;
          package_script =
            (if program_name \<in> {''npm'', ''pnpm'', ''yarn'', ''bun''}
             then (if arg1 = Some ''run'' then arg2 else arg1) else None);
          npx_tool = (if program_name = ''npx'' then arg1 else None);
          python_module =
            (if program_name \<in> {''python'', ''python3'', ''py''} \<and> arg1 = Some ''-m''
             then arg2 else None)
      in (if program_name \<in> {''pytest'', ''vitest'', ''jest''}
             \<or> (program_name = ''playwright'' \<and> arg1 = Some ''test'')
             \<or> (program_name = ''cargo'' \<and> arg1 = Some ''test'')
             \<or> (program_name \<in> {''go'', ''dotnet''} \<and> arg1 = Some ''test'')
             \<or> (program_name = ''node'' \<and> arg1 = Some ''--test'')
             \<or> python_module \<in> {Some ''pytest'', Some ''unittest''}
             \<or> script_is package_script ''test''
             \<or> npx_tool \<in> {Some ''pytest'', Some ''vitest'', Some ''jest''}
             \<or> (npx_tool = Some ''playwright'' \<and> arg2 = Some ''test'')
          then [''tests''] else [])
       @ (if program_name = ''eslint''
             \<or> (program_name = ''ruff'' \<and> arg1 = Some ''check'')
             \<or> (program_name = ''cargo'' \<and> arg1 = Some ''clippy'')
             \<or> script_is package_script ''lint''
             \<or> npx_tool = Some ''eslint''
             \<or> (npx_tool = Some ''ruff'' \<and> arg2 = Some ''check'')
             \<or> (python_module = Some ''ruff'' \<and> arg3 = Some ''check'')
          then [''lint''] else [])
       @ (if program_name \<in> {''tsc'', ''mypy'', ''pyright''}
             \<or> (program_name = ''cargo'' \<and> arg1 = Some ''check'')
             \<or> script_is package_script ''typecheck''
             \<or> script_is package_script ''type-check''
             \<or> npx_tool \<in> {Some ''tsc'', Some ''mypy'', Some ''pyright''}
             \<or> python_module \<in> {Some ''mypy'', Some ''pyright''}
          then [''typecheck''] else [])
       @ (if (program_name = ''cargo'' \<and> arg1 = Some ''build'')
             \<or> (program_name \<in> {''go'', ''dotnet''} \<and> arg1 = Some ''build'')
             \<or> script_is package_script ''build''
             \<or> script_is package_script ''compile''
             \<or> script_is package_script ''package''
             \<or> python_module = Some ''build''
             \<or> (program_name = ''cmake'' \<and> arg1 = Some ''--build'')
             \<or> (program_name = ''make'' \<and> (arg1 = None \<or> arg1 = Some ''all''))
          then [''build''] else []))"

definition informational_only :: "string list \<Rightarrow> bool" where
  "informational_only args =
     list_ex (\<lambda>a. a \<in> {''-h'', ''--help'', ''--version'', ''--no-run'', ''--list'', ''--listtests'',
                        ''--collect-only''}) args"

fun exit_code_debug :: "int option \<Rightarrow> string" where
  "exit_code_debug None = ''None''"
| "exit_code_debug (Some i) = ''Some('' @ int_to_string i @ '')''"

definition execution_args :: "json \<Rightarrow> string list" where
  "execution_args execution =
     (case Option.bind (json_get execution ''args'') json_as_array of
        None \<Rightarrow> []
      | Some items \<Rightarrow> map to_ascii_lowercase (List.map_filter json_as_str items))"

definition execution_passed :: "bool \<Rightarrow> json \<Rightarrow> bool" where
  "execution_passed is_error execution =
     (\<not> is_error
      \<and> Option.bind (json_get execution ''exitCode'') json_as_i64 = Some 0
      \<and> \<not> unwrap_or False (Option.bind (json_get execution ''timedOut'') json_as_bool))"

definition record_executed_verification :: "bool \<Rightarrow> json option \<Rightarrow> workflow_ir \<Rightarrow> workflow_ir" where
  "record_executed_verification is_error artifacts w =
     (case Option.bind artifacts (\<lambda>v. json_get v ''execution'') of
        None \<Rightarrow> w
      | Some execution \<Rightarrow>
        (case Option.bind (json_get execution ''program'') json_as_str of
           None \<Rightarrow> w
         | Some program \<Rightarrow>
           (let args = execution_args execution;
                program_name = to_ascii_lowercase
                  (trim_end_matches ''.cmd'' (trim_end_matches ''.exe'' program));
                exit_code = Option.bind (json_get execution ''exitCode'') json_as_i64;
                command = program_name @ '' '' @ join_with '' '' args
            in if CHR ''/'' \<in> set program \<or> CHR 0x5C \<in> set program then w
               else if informational_only args then w
               else fold (\<lambda>i. record_gate i (execution_passed is_error execution)
                      (''Runtime command `'' @ trim command @ ''` exited ''
                       @ exit_code_debug exit_code @ ''.''))
                    (command_gate_ids program_name args) w)))"

section \<open>Reconnaissance results and the task plan\<close>

definition u64_to_u32_saturating :: "u64 \<Rightarrow> u32" where
  "u64_to_u32_saturating n = (if n \<le> 0xFFFFFFFF then ucast n else 0xFFFFFFFF)"

definition run_for_node :: "json option \<Rightarrow> string \<Rightarrow> json option" where
  "run_for_node artifacts i =
     Option.bind (Option.bind (Option.bind artifacts (\<lambda>v. json_get v ''runs'')) json_as_array)
       (find (\<lambda>run. Option.bind (json_get run ''id'') json_as_str = Some i))"

definition run_failed :: "bool \<Rightarrow> json option \<Rightarrow> bool" where
  "run_failed batch_failed run =
     (batch_failed
      \<or> unwrap_or (run = None) (Option.bind (Option.bind run (\<lambda>r. json_get r ''isError'')) json_as_bool))"

definition handoff_sources :: "json option \<Rightarrow> string list" where
  "handoff_sources run =
     (case Option.bind (Option.bind run (\<lambda>r. json_get r ''evidenceHandoff'')) json_as_array of
        None \<Rightarrow> []
      | Some items \<Rightarrow> List.map_filter (\<lambda>item. Option.bind
          (case json_get item ''chunkId'' of Some v \<Rightarrow> Some v | None \<Rightarrow> json_get item ''path'')
          json_as_str) items)"

definition apply_node_result ::
  "json option \<Rightarrow> bool \<Rightarrow> string \<Rightarrow> string \<Rightarrow> workflow_ir \<Rightarrow> workflow_ir" where
  "apply_node_result artifacts batch_failed fallback i w =
     (let run = run_for_node artifacts i;
          result = Option.bind run (\<lambda>r. json_get r ''result'')
      in if run_failed batch_failed run
         then snd (fail_node i
           (unwrap_or fallback (Option.bind
              (case Option.bind run (\<lambda>r. json_get r ''errorMessage'') of
                 Some v \<Rightarrow> Some v | None \<Rightarrow> result) json_as_str)) w)
         else snd (complete_node i
           \<lparr>dl_claims = [take 500 (unwrap_or ''Reconnaissance completed''
                (find (\<lambda>l. trim l \<noteq> []) (str_lines (unwrap_or fallback (Option.bind result json_as_str)))))],
            dl_evidence = handoff_sources run, dl_files_touched = [], dl_tests = [],
            dl_uncertainties = []\<rparr> w))"

definition apply_reconnaissance_batch_result ::
  "string list \<Rightarrow> json option \<Rightarrow> bool \<Rightarrow> string \<Rightarrow> workflow_ir \<Rightarrow> workflow_ir" where
  "apply_reconnaissance_batch_result node_ids artifacts batch_failed fallback w =
     (let w1 =
        (case Option.bind (Option.bind (Option.bind artifacts (\<lambda>v. json_get v ''budgetAfter''))
                (\<lambda>v. json_get v ''remainingTokens'')) json_as_u64 of
           None \<Rightarrow> w
         | Some remaining \<Rightarrow> w\<lparr>wf_checkpoint := (wf_checkpoint w)\<lparr>
             ck_remaining_delegated_tokens := u64_to_u32_saturating remaining\<rparr>\<rparr>)
      in fold (apply_node_result artifacts batch_failed fallback) node_ids w1)"

datatype plan_step_status = PS_Pending | PS_InProgress | PS_Completed

record plan_step =
  st_id :: string
  st_title :: string
  st_status :: plan_step_status

definition apply_checkpoint_to_task_plan :: "workflow_ir \<Rightarrow> plan_step list \<Rightarrow> plan_step list" where
  "apply_checkpoint_to_task_plan w steps =
     (let steps1 = map (\<lambda>s. if st_id s \<in> set (ck_completed_node_ids (wf_checkpoint w))
                            then s\<lparr>st_status := PS_Completed\<rparr> else s) steps
      in if list_ex (\<lambda>s. st_status s = PS_InProgress) steps1 then steps1
         else update_first (\<lambda>s. st_status s = PS_Pending) (\<lambda>s. s\<lparr>st_status := PS_InProgress\<rparr>) steps1)"

definition sync_step :: "plan_step \<Rightarrow> workflow_ir \<times> bool \<Rightarrow> workflow_ir \<times> bool" where
  "sync_step s wc =
     (case wc of (w, changed) \<Rightarrow>
        if st_status s \<noteq> PS_Completed then (w, changed)
        else case find (\<lambda>n. nd_id n = st_id s) (wf_nodes w) of
          None \<Rightarrow> (w, changed)
        | Some n \<Rightarrow>
            if nd_status n = WN_Succeeded then (w, changed)
            else (update_node (st_id s) (\<lambda>n. n\<lparr>nd_status := WN_Succeeded,
                    nd_attempts := max (nd_attempts n) 1,
                    nd_deliverable := (case nd_deliverable n of
                        Some d \<Rightarrow> Some d
                      | None \<Rightarrow> Some \<lparr>dl_claims = [''Completed task-plan step: '' @ st_title s],
                          dl_evidence = [], dl_files_touched = [], dl_tests = [],
                          dl_uncertainties = []\<rparr>)\<rparr>) w, True))"

definition sync_from_task_plan :: "plan_step list \<Rightarrow> workflow_ir \<Rightarrow> workflow_ir" where
  "sync_from_task_plan steps w =
     (case fold sync_step steps (w, False) of
        (w', changed) \<Rightarrow> if changed then refresh_checkpoint w' else w')"

end
