(* ===== verification/Workflow_Graph.thy ===== *)
theory Workflow_Graph
  imports Workflow_Ir
begin

text \<open>
  What \<open>validate\<close> accepts: unique identifiers, no missing, repeated or self dependency, and no
  cycle. The queue-driven pass is related to the order in which it visits the nodes: the visited
  nodes form a topological order, the counters hold the number of unvisited dependencies,
  and the nodes left over at the end are exactly those that a cycle or a repeated dependency
  keeps out. The result does not depend on the order in which the hash map lists the roots.
\<close>

section \<open>Dependency relation\<close>

definition dep_rel :: "workflow_node list \<Rightarrow> (string \<times> string) set" where
  "dep_rel nodes = {(d, nd_id n) | d n. n \<in> set nodes \<and> d \<in> set (nd_dependencies n)}"

definition well_indexed :: "workflow_node list \<Rightarrow> bool" where
  "well_indexed nodes = (distinct (map nd_id nodes)
     \<and> (\<forall>n \<in> set nodes. set (nd_dependencies n) \<subseteq> set (map nd_id nodes)))"

text \<open>Unvisited dependencies of a node, as the code counts them: the list's length less one for
  every distinct visited dependency.\<close>

definition open_count :: "string list \<Rightarrow> workflow_node \<Rightarrow> nat" where
  "open_count visited n = length (nd_dependencies n) - card (set (nd_dependencies n) \<inter> set visited)"

lemma open_count_zero:
  "open_count visited n = 0 \<longleftrightarrow> distinct (nd_dependencies n) \<and> set (nd_dependencies n) \<subseteq> set visited"
proof -
  let ?d = "nd_dependencies n"
  have le: "card (set ?d \<inter> set visited) \<le> card (set ?d)" by (intro card_mono) auto
  have "card (set ?d) \<le> length ?d" by (rule card_length)
  with le have "open_count visited n = 0 \<longleftrightarrow>
      card (set ?d) = length ?d \<and> card (set ?d \<inter> set visited) = card (set ?d)"
    by (auto simp: open_count_def)
  also have "card (set ?d) = length ?d \<longleftrightarrow> distinct ?d" by (metis card_distinct distinct_card)
  also have "card (set ?d \<inter> set visited) = card (set ?d) \<longleftrightarrow> set ?d \<subseteq> set visited"
    by (metis Int_lower1 List.finite_set card_subset_eq inf.absorb_iff1)
  finally show ?thesis .
qed

lemma open_count_Suc:
  assumes "i \<notin> set visited"
  shows "open_count (visited @ [i]) n
    = (if i \<in> set (nd_dependencies n) then open_count visited n - 1 else open_count visited n)"
    and "i \<in> set (nd_dependencies n) \<Longrightarrow> 0 < open_count visited n"
proof -
  let ?d = "set (nd_dependencies n)"
  have *: "card (?d \<inter> set (visited @ [i])) = Suc (card (?d \<inter> set visited))" if "i \<in> ?d"
  proof -
    have "?d \<inter> set (visited @ [i]) = insert i (?d \<inter> set visited)" using that by auto
    with assms show ?thesis by simp
  qed
  moreover have "?d \<inter> set (visited @ [i]) = ?d \<inter> set visited" if "i \<notin> ?d" using that by auto
  ultimately show "open_count (visited @ [i]) n
      = (if i \<in> ?d then open_count visited n - 1 else open_count visited n)"
    by (simp add: open_count_def)
  show "0 < open_count visited n" if "i \<in> ?d"
  proof -
    have "Suc (card (?d \<inter> set visited)) \<le> card ?d"
      using * [OF that] by (metis Int_lower1 List.finite_set card_mono)
    also have "\<dots> \<le> length (nd_dependencies n)" by (rule card_length)
    finally show ?thesis by (simp add: open_count_def)
  qed
qed

section \<open>One visit\<close>

lemma relax_dependents_effect:
  assumes "distinct (map nd_id ns)" and "i \<notin> set visited"
    and "\<And>n. n \<in> set ns \<Longrightarrow> deg (nd_id n) = open_count visited n"
  shows "\<exists>deg'. relax_dependents i ns deg q = Some (deg', q @ map nd_id
       (filter (\<lambda>n. i \<in> set (nd_dependencies n) \<and> open_count (visited @ [i]) n = 0) ns))
     \<and> (\<forall>n \<in> set ns. deg' (nd_id n) = open_count (visited @ [i]) n)
     \<and> (\<forall>j. j \<notin> set (map nd_id ns) \<longrightarrow> deg' j = deg j)"
  using assms
proof (induction ns arbitrary: deg q)
  case Nil
  then show ?case by simp
next
  case (Cons n ns)
  have fresh: "nd_id n \<notin> set (map nd_id ns)" using Cons.prems(1) by simp
  have dn: "deg (nd_id n) = open_count visited n" using Cons.prems(3) by simp
  note oc = open_count_Suc [OF Cons.prems(2), of n]
  show ?case
  proof (cases "i \<in> set (nd_dependencies n)")
    case False
    from Cons.IH [of deg q] Cons.prems obtain deg' where
      "relax_dependents i ns deg q = Some (deg', q @ map nd_id
         (filter (\<lambda>n. i \<in> set (nd_dependencies n) \<and> open_count (visited @ [i]) n = 0) ns))"
      "\<forall>m \<in> set ns. deg' (nd_id m) = open_count (visited @ [i]) m"
      "\<forall>j. j \<notin> set (map nd_id ns) \<longrightarrow> deg' j = deg j" by auto
    with False fresh dn oc(1) show ?thesis by (intro exI [of _ deg']) simp
  next
    case True
    define g where "g = deg(nd_id n := deg (nd_id n) - 1)"
    define p where "p = (if deg (nd_id n) - 1 = 0 then q @ [nd_id n] else q)"
    have "\<And>m. m \<in> set ns \<Longrightarrow> g (nd_id m) = open_count visited m"
      using Cons.prems(3) fresh unfolding g_def
      by (metis fun_upd_other image_eqI list.set_intros(2) set_map)
    with Cons.IH [OF _ Cons.prems(2), of g p] Cons.prems(1) obtain deg' where
      d': "relax_dependents i ns g p = Some (deg', p @ map nd_id
         (filter (\<lambda>n. i \<in> set (nd_dependencies n) \<and> open_count (visited @ [i]) n = 0) ns))"
      "\<forall>m \<in> set ns. deg' (nd_id m) = open_count (visited @ [i]) m"
      "\<forall>j. j \<notin> set (map nd_id ns) \<longrightarrow> deg' j = g j" by auto
    have "relax_dependents i (n # ns) deg q = relax_dependents i ns g p"
      using True dn oc(2) by (simp add: Let_def g_def p_def)
    moreover have "deg' (nd_id n) = open_count (visited @ [i]) n"
      using d'(3) fresh True dn oc(1) by (simp add: g_def)
    moreover have "p = q @ (if open_count (visited @ [i]) n = 0 then [nd_id n] else [])"
      using True dn oc(1) by (simp add: p_def)
    ultimately show ?thesis
      using d' True by (intro exI [of _ deg']) (simp add: g_def)
  qed
qed

section \<open>The whole pass\<close>

text \<open>
  Between two visits: the visited nodes in order, each after its dependencies; the counters; and
  the queue holding exactly the unvisited nodes that are ready.
\<close>

definition kahn_inv :: "workflow_node list \<Rightarrow> (string \<Rightarrow> nat) \<Rightarrow> string list \<Rightarrow> string list \<Rightarrow> bool" where
  "kahn_inv nodes deg q visited =
     ((\<forall>n \<in> set nodes. deg (nd_id n) = open_count visited n)
      \<and> distinct (visited @ q)
      \<and> set (visited @ q) = nd_id ` {n \<in> set nodes. open_count visited n = 0}
      \<and> (\<forall>k < length visited. \<forall>n \<in> set nodes. nd_id n = visited ! k \<longrightarrow>
           set (nd_dependencies n) \<subseteq> set (take k visited)))"

lemma kahn_inv_step:
  assumes "well_indexed nodes" and inv: "kahn_inv nodes deg (i # q) visited"
  obtains deg' q' where "relax_dependents i nodes deg q = Some (deg', q')"
    and "kahn_inv nodes deg' q' (visited @ [i])"
proof -
  have dist: "distinct (map nd_id nodes)" using assms(1) by (simp add: well_indexed_def)
  have i: "i \<notin> set visited" "i \<notin> set q" "distinct (visited @ q)" using inv by (auto simp: kahn_inv_def)
  have deg: "\<And>n. n \<in> set nodes \<Longrightarrow> deg (nd_id n) = open_count visited n"
    using inv by (simp add: kahn_inv_def)
  define new where "new = filter (\<lambda>n. i \<in> set (nd_dependencies n) \<and> open_count (visited @ [i]) n = 0) nodes"
  obtain deg' where r: "relax_dependents i nodes deg q = Some (deg', q @ map nd_id new)"
    and d': "\<forall>n \<in> set nodes. deg' (nd_id n) = open_count (visited @ [i]) n"
    using relax_dependents_effect [OF dist i(1) deg, of q] unfolding new_def by blast
  have inj: "\<And>m n. m \<in> set nodes \<Longrightarrow> n \<in> set nodes \<Longrightarrow> nd_id m = nd_id n \<Longrightarrow> m = n"
    using dist by (simp add: distinct_map inj_on_def)
  have old: "set (visited @ i # q) = nd_id ` {n \<in> set nodes. open_count visited n = 0}"
    using inv by (simp add: kahn_inv_def)
  have newnz: "0 < open_count visited n" if "n \<in> set new" for n
    using that open_count_Suc(2) [OF i(1)] by (auto simp: new_def)
  have fresh: "nd_id n \<notin> set (visited @ i # q)" if "n \<in> set new" for n
  proof
    assume "nd_id n \<in> set (visited @ i # q)"
    then obtain x where "nd_id n = nd_id x" "x \<in> set nodes" "open_count visited x = 0"
      unfolding old by auto
    moreover have "n \<in> set nodes" using that by (simp add: new_def)
    ultimately show False using inj [of n x] newnz [OF that] by simp
  qed
  have grow: "{n \<in> set nodes. open_count (visited @ [i]) n = 0}
      = {n \<in> set nodes. open_count visited n = 0} \<union> set new"
    using open_count_Suc [OF i(1)] by (auto simp: new_def split: if_splits)
  have "distinct ((visited @ [i]) @ q @ map nd_id new)"
    using i fresh dist by (auto simp: new_def distinct_map_filter)
  moreover have "set ((visited @ [i]) @ q @ map nd_id new)
      = nd_id ` {n \<in> set nodes. open_count (visited @ [i]) n = 0}"
    unfolding grow image_Un using old by auto
  moreover have "set (nd_dependencies n) \<subseteq> set (take k (visited @ [i]))"
    if "k < length (visited @ [i])" "n \<in> set nodes" "nd_id n = (visited @ [i]) ! k" for k n
  proof (cases "k < length visited")
    case True
    with that inv show ?thesis by (simp add: kahn_inv_def nth_append)
  next
    case False
    with that have n: "nd_id n = i" "take k (visited @ [i]) = visited" by (auto simp: nth_append)
    then have "nd_id n \<in> nd_id ` {n \<in> set nodes. open_count visited n = 0}" using old by auto
    with that(2) inj have "open_count visited n = 0" by auto
    with n show ?thesis by (simp add: open_count_zero)
  qed
  ultimately have "kahn_inv nodes deg' (q @ map nd_id new) (visited @ [i])"
    using d' by (simp add: kahn_inv_def)
  with r that show thesis by blast
qed

lemma kahn_visited_result:
  assumes "well_indexed nodes" and "kahn_inv nodes deg q visited"
  shows "\<exists>deg' final. kahn_visited nodes deg q (length visited) = Some (length final)
    \<and> kahn_inv nodes deg' [] final"
  using assms(2)
proof (induction "sum_list (map (\<lambda>n. deg (nd_id n)) nodes) + length q" arbitrary: deg q visited
    rule: less_induct)
  case less
  show ?case
  proof (cases q)
    case Nil
    with less.prems show ?thesis by auto
  next
    case (Cons i q1)
    then obtain deg' q' where r: "relax_dependents i nodes deg q1 = Some (deg', q')"
      and inv': "kahn_inv nodes deg' q' (visited @ [i])"
      using kahn_inv_step [OF assms(1)] less.prems by blast
    have "sum_list (map (\<lambda>n. deg' (nd_id n)) nodes) + length q' < sum_list (map (\<lambda>n. deg (nd_id n)) nodes) + length q"
      using relax_dependents_measure [OF r order_refl] Cons by simp
    from less.hyps [OF this inv'] Cons r show ?thesis by simp
  qed
qed

lemma kahn_final_acyclic:
  assumes "well_indexed nodes" and "kahn_inv nodes deg [] visited" and "length visited = length nodes"
  shows "acyclic (dep_rel nodes) \<and> (\<forall>n \<in> set nodes. distinct (nd_dependencies n))"
proof -
  have sub: "set visited \<subseteq> nd_id ` set nodes" and dv: "distinct visited"
    using assms(2) by (auto simp: kahn_inv_def)
  have "card (set visited) = card (nd_id ` set nodes)"
    using assms(1,3) dv by (metis distinct_card length_map set_map well_indexed_def)
  with sub have all: "set visited = nd_id ` set nodes" by (intro card_subset_eq) auto
  have zero: "open_count visited n = 0" if "n \<in> set nodes" for n
  proof -
    have "nd_id n \<in> nd_id ` {n \<in> set nodes. open_count visited n = 0}"
      using assms(2) all that by (auto simp: kahn_inv_def)
    with assms(1) that show ?thesis by (auto simp: well_indexed_def distinct_map inj_on_def)
  qed
  define pos where "pos j = (THE k. k < length visited \<and> visited ! k = j)" for j
  have pos: "pos (visited ! k) = k" if "k < length visited" for k
    using that dv unfolding pos_def by (intro the_equality) (auto simp: nth_eq_iff_index_eq)
  have "pos d < pos j" if "(d, j) \<in> dep_rel nodes" for d j
  proof -
    from that obtain n where n: "n \<in> set nodes" "j = nd_id n" "d \<in> set (nd_dependencies n)"
      by (auto simp: dep_rel_def)
    then obtain k where k: "k < length visited" "visited ! k = j"
      using all by (metis image_eqI in_set_conv_nth)
    have "set (nd_dependencies n) \<subseteq> set (take k visited)"
      using n k assms(2) by (simp add: kahn_inv_def)
    with n(3) have "d \<in> set (take k visited)" by blast
    then obtain l where "l < k" "visited ! l = d" by (auto simp: in_set_conv_nth)
    with k pos show ?thesis by auto
  qed
  then have "dep_rel nodes \<subseteq> measure pos" by auto
  then have "acyclic (dep_rel nodes)"
    by (meson acyclic_subset wf_acyclic wf_measure)
  with zero show ?thesis by (auto simp: open_count_zero)
qed

lemma finite_dep_rel: "finite (dep_rel nodes)"
proof -
  have "dep_rel nodes \<subseteq> (\<Union>n \<in> set nodes. set (nd_dependencies n)) \<times> nd_id ` set nodes"
    by (auto simp: dep_rel_def)
  then show ?thesis by (rule finite_subset) auto
qed

lemma acyclic_kahn_complete:
  assumes wi: "well_indexed nodes" and inv: "kahn_inv nodes deg [] visited"
    and ac: "acyclic (dep_rel nodes)" and di: "\<forall>n \<in> set nodes. distinct (nd_dependencies n)"
  shows "length visited = length nodes"
proof -
  have vis: "set visited = nd_id ` {n \<in> set nodes. open_count visited n = 0}" and dv: "distinct visited"
    using inv by (auto simp: kahn_inv_def)
  have "nd_id ` set nodes \<subseteq> set visited"
  proof (rule ccontr)
    assume "\<not> ?thesis"
    then have ne: "nd_id ` set nodes - set visited \<noteq> {}" by blast
    have "wf (dep_rel nodes)" using ac finite_dep_rel by (intro finite_acyclic_wf)
    then obtain j where j: "j \<in> nd_id ` set nodes - set visited"
      and mn: "\<And>d. (d, j) \<in> dep_rel nodes \<Longrightarrow> d \<notin> nd_id ` set nodes - set visited"
      using ne by (metis wfE_min ex_in_conv)
    from j obtain n where n: "n \<in> set nodes" "j = nd_id n" by auto
    have "set (nd_dependencies n) \<subseteq> set visited"
    proof
      fix d assume d: "d \<in> set (nd_dependencies n)"
      with n have "(d, j) \<in> dep_rel nodes" by (auto simp: dep_rel_def)
      moreover have "d \<in> nd_id ` set nodes" using wi n d by (force simp: well_indexed_def)
      ultimately show "d \<in> set visited" using mn by auto
    qed
    with di n have "open_count visited n = 0" by (simp add: open_count_zero)
    with n j vis show False by auto
  qed
  with vis have "set visited = nd_id ` set nodes" by auto
  then show ?thesis
    using dv wi by (metis distinct_card length_map set_map well_indexed_def)
qed

lemma kahn_inv_initial:
  assumes "well_indexed nodes" and "distinct q" and "set q = set (initial_queue nodes)"
  shows "kahn_inv nodes (indegree_of nodes) q []"
proof -
  have f: "find (\<lambda>m. nd_id m = nd_id n) nodes = Some n" if "n \<in> set nodes" for n
    using assms(1) that by (intro find_key_unique) (auto simp: well_indexed_def)
  have "indegree_of nodes (nd_id n) = open_count [] n" if "n \<in> set nodes" for n
    using f [OF that] by (simp add: indegree_of_def open_count_def)
  with assms show ?thesis by (auto simp: kahn_inv_def initial_queue_def)
qed

lemma check_dependencies_iff:
  "check_dependencies ids ns = Inr () \<longleftrightarrow>
     (\<forall>n \<in> set ns. nd_id n \<notin> set (nd_dependencies n) \<and> set (nd_dependencies n) \<subseteq> ids)"
  by (induction ns) (auto split: option.splits simp: find_None_iff dest!: find_SomeD)

lemma validate_from_iff:
  assumes "distinct q" and "set q = set (initial_queue (wf_nodes w))"
  shows "validate_from q w = Inr () \<longleftrightarrow>
     wf_version w = 1 \<and> wf_nodes w \<noteq> [] \<and> well_indexed (wf_nodes w)
     \<and> acyclic (dep_rel (wf_nodes w)) \<and> (\<forall>n \<in> set (wf_nodes w). distinct (nd_dependencies n))"
    and "validate_from q w \<noteq> Inl WE_Underflow"
proof -
  let ?ns = "wf_nodes w"
  have ok: "check_dependencies (set (map nd_id ?ns)) ?ns = Inr () \<Longrightarrow> distinct (map nd_id ?ns) \<Longrightarrow> well_indexed ?ns"
    by (auto simp: check_dependencies_iff well_indexed_def)
  have run: "\<exists>deg' final. kahn_visited ?ns (indegree_of ?ns) q 0 = Some (length final)
      \<and> kahn_inv ?ns deg' [] final" if "well_indexed ?ns"
    using kahn_visited_result [OF that kahn_inv_initial [OF that assms]] by simp
  have self: "nd_id n \<notin> set (nd_dependencies n)" if "acyclic (dep_rel ?ns)" "n \<in> set ?ns" for n
    using that by (auto simp: acyclic_def dep_rel_def)
  show "validate_from q w \<noteq> Inl WE_Underflow"
  proof
    assume a: "validate_from q w = Inl WE_Underflow"
    have nu: "check_dependencies ids ns \<noteq> Inl WE_Underflow" for ids ns
      by (induction ns) (auto split: option.splits)
    from a nu have "check_dependencies (set (map nd_id ?ns)) ?ns = Inr ()" "distinct (map nd_id ?ns)"
      "kahn_visited ?ns (indegree_of ?ns) q 0 = None"
      by (auto simp: validate_from_def Let_def split: if_splits sum.splits option.splits)
    with run [OF ok] show False by auto
  qed
  show "validate_from q w = Inr () \<longleftrightarrow>
     wf_version w = 1 \<and> ?ns \<noteq> [] \<and> well_indexed ?ns \<and> acyclic (dep_rel ?ns)
     \<and> (\<forall>n \<in> set ?ns. distinct (nd_dependencies n))" (is "?L \<longleftrightarrow> ?R")
  proof
    assume ?L
    then have 1: "wf_version w = 1" "?ns \<noteq> []" "distinct (map nd_id ?ns)"
      "check_dependencies (set (map nd_id ?ns)) ?ns = Inr ()"
      "kahn_visited ?ns (indegree_of ?ns) q 0 = Some (length ?ns)"
      by (auto simp: validate_from_def Let_def WORKFLOW_IR_VERSION_def split: if_splits sum.splits option.splits)
    from run [OF ok [OF 1(4,3)]] 1(5) obtain deg' final where
      "kahn_inv ?ns deg' [] final" "length final = length ?ns" by auto
    with kahn_final_acyclic [OF ok [OF 1(4,3)]] 1 ok show ?R by blast
  next
    assume r: ?R
    then obtain deg' final where 2: "kahn_visited ?ns (indegree_of ?ns) q 0 = Some (length final)"
      "kahn_inv ?ns deg' [] final" using run by blast
    with acyclic_kahn_complete r have "length final = length ?ns" by blast
    moreover have "check_dependencies (set (map nd_id ?ns)) ?ns = Inr ()"
      using r self by (simp add: check_dependencies_iff well_indexed_def)
    ultimately show ?L
      using 2 r by (simp add: validate_from_def Let_def WORKFLOW_IR_VERSION_def well_indexed_def)
  qed
qed

end
