(* ===== verification/Workflow_Properties.thy ===== *)
theory Workflow_Properties
  imports Workflow_Graph
begin

text \<open>
  Properties of the workflow representation: what validation accepts, that a valid workflow
  never gets stuck, the invariant of its node lifecycle (retry bounds, dependencies before
  running, a checkpoint that agrees with the nodes), the completion decision, and the gates that
  executed commands may pass.
\<close>

section \<open>Node invariant\<close>

definition attempt_bound :: "workflow_node \<Rightarrow> u8" where
  "attempt_bound n = max (rp_max_attempts (nd_retry_policy n)) 1"

definition node_ok :: "workflow_node \<Rightarrow> bool" where
  "node_ok n = (nd_attempts n \<le> attempt_bound n
     \<and> (nd_status n = WN_Pending \<longrightarrow> nd_attempts n < attempt_bound n))"

abbreviation succeeded :: "workflow_node list \<Rightarrow> string set" where
  "succeeded ns \<equiv> set (ids_with_status WN_Succeeded ns)"

definition nodes_ok :: "workflow_node list \<Rightarrow> bool" where
  "nodes_ok ns = (distinct (map nd_id ns)
     \<and> (\<forall>n \<in> set ns. node_ok n
          \<and> (nd_status n = WN_Running \<longrightarrow> set (nd_dependencies n) \<subseteq> succeeded ns)))"

definition checkpoint_ok :: "workflow_ir \<Rightarrow> bool" where
  "checkpoint_ok w =
     (ck_completed_node_ids (wf_checkpoint w) = ids_with_status WN_Succeeded (wf_nodes w)
      \<and> ck_active_node_ids (wf_checkpoint w) = ids_with_status WN_Running (wf_nodes w)
      \<and> ck_failed_node_ids (wf_checkpoint w) = ids_with_status WN_Failed (wf_nodes w))"

definition workflow_ok :: "workflow_ir \<Rightarrow> bool" where
  "workflow_ok w = (nodes_ok (wf_nodes w) \<and> checkpoint_ok w)"

lemma refresh_checkpoint_ok [simp]: "checkpoint_ok (refresh_checkpoint w)"
  by (simp add: checkpoint_ok_def refresh_checkpoint_def)

lemma refresh_checkpoint_sel [simp]:
  "wf_nodes (refresh_checkpoint w) = wf_nodes w"
  "wf_verification_gates (refresh_checkpoint w) = wf_verification_gates w"
  "wf_evidence_ledger (refresh_checkpoint w) = wf_evidence_ledger w"
  "wf_completion_contract (refresh_checkpoint w) = wf_completion_contract w"
  "wf_max_parallel (refresh_checkpoint w) = wf_max_parallel w"
  "wf_version (refresh_checkpoint w) = wf_version w"
  by (simp_all add: refresh_checkpoint_def)

lemma refresh_workflow_ok: "nodes_ok (wf_nodes w) \<Longrightarrow> workflow_ok (refresh_checkpoint w)"
  by (simp add: workflow_ok_def)

lemma succeeded_iff: "i \<in> succeeded ns \<longleftrightarrow> (\<exists>n \<in> set ns. nd_id n = i \<and> nd_status n = WN_Succeeded)"
  by (auto simp: ids_with_status_def)

text \<open>
  An update of one node keeps the invariant when the node stays well formed, is not taken back
  from success and, if it starts running, has its dependencies met.
\<close>

lemma update_node_succeeded:
  assumes "distinct (map nd_id ns)" and "\<And>n. nd_id (f n) = nd_id n"
    and "\<And>n. n \<in> set ns \<Longrightarrow> nd_id n = i \<Longrightarrow> nd_status n = WN_Succeeded \<Longrightarrow> nd_status (f n) = WN_Succeeded"
  shows "succeeded ns \<subseteq> succeeded (update_first (\<lambda>n. nd_id n = i) f ns)"
proof
  fix j assume "j \<in> succeeded ns"
  then obtain n where n: "n \<in> set ns" "nd_id n = j" "nd_status n = WN_Succeeded"
    by (auto simp: succeeded_iff)
  let ?n = "if nd_id n = i then f n else n"
  have "?n \<in> set (update_first (\<lambda>n. nd_id n = i) f ns)"
    unfolding update_first_eq_map [OF assms(1)] using n(1) by auto
  moreover have "nd_id ?n = j \<and> nd_status ?n = WN_Succeeded"
    using n assms(2,3) by simp
  ultimately show "j \<in> succeeded (update_first (\<lambda>n. nd_id n = i) f ns)"
    unfolding succeeded_iff by blast
qed

lemma nodes_ok_update:
  assumes ok: "nodes_ok ns" and keep: "\<And>n. nd_id (f n) = nd_id n" "\<And>n. nd_dependencies (f n) = nd_dependencies n"
    and good: "\<And>n. n \<in> set ns \<Longrightarrow> nd_id n = i \<Longrightarrow> node_ok (f n)
      \<and> (nd_status n = WN_Succeeded \<longrightarrow> nd_status (f n) = WN_Succeeded)
      \<and> (nd_status (f n) = WN_Running \<longrightarrow> set (nd_dependencies n) \<subseteq> succeeded ns)"
  shows "nodes_ok (update_first (\<lambda>n. nd_id n = i) f ns)"
proof -
  have d: "distinct (map nd_id ns)" using ok by (simp add: nodes_ok_def)
  let ?ns = "update_first (\<lambda>n. nd_id n = i) f ns"
  have mono: "succeeded ns \<subseteq> succeeded ?ns" using update_node_succeeded [OF d keep(1)] good by blast
  have "node_ok m \<and> (nd_status m = WN_Running \<longrightarrow> set (nd_dependencies m) \<subseteq> succeeded ?ns)"
    if "m \<in> set ?ns" for m
  proof -
    from that obtain n where n: "n \<in> set ns" "m = (if nd_id n = i then f n else n)"
      unfolding update_first_eq_map [OF d] by auto
    show ?thesis
    proof (cases "nd_id n = i")
      case True
      with n good [OF n(1) True] keep(2) mono show ?thesis by auto
    next
      case False
      with n ok mono show ?thesis by (auto simp: nodes_ok_def)
    qed
  qed
  moreover have "distinct (map nd_id ?ns)" using d map_update_first [of nd_id f] keep(1) by metis
  ultimately show ?thesis by (simp add: nodes_ok_def)
qed

lemma start_node_ok:
  assumes "workflow_ok w"
  shows "workflow_ok (snd (start_node i w))"
proof (cases "i \<in> set (ready_node_ids w)")
  case False
  with assms show ?thesis by (simp add: start_node_def)
next
  case True
  have d: "distinct (map nd_id (wf_nodes w))" using assms by (simp add: workflow_ok_def nodes_ok_def)
  from True obtain m where m: "m \<in> set (wf_nodes w)" "nd_id m = i" "node_ready (wf_nodes w) m"
    by (auto simp: ready_node_ids_def dest!: in_set_takeD)
  have uniq: "n = m" if "n \<in> set (wf_nodes w)" "nd_id n = i" for n
    using that m d by (metis distinct_map inj_on_def)
  have b: "saturating_add (nd_attempts m) 1 \<le> attempt_bound m"
  proof -
    have "nd_attempts m < attempt_bound m"
      using assms m by (auto simp: workflow_ok_def nodes_ok_def node_ok_def node_ready_def)
    then show ?thesis by (simp add: word_le_nat_alt word_less_nat_alt unat_saturating_add)
  qed
  let ?f = "\<lambda>n. n\<lparr>nd_status := WN_Running, nd_attempts := saturating_add (nd_attempts n) 1\<rparr>"
  have "node_ok (?f m)" "set (nd_dependencies m) \<subseteq> succeeded (wf_nodes w)"
    "nd_status m \<noteq> WN_Succeeded"
    using b m(3) by (auto simp: node_ok_def attempt_bound_def node_ready_def list_all_iff)
  then have "node_ok (?f n) \<and> (nd_status n = WN_Succeeded \<longrightarrow> nd_status (?f n) = WN_Succeeded)
      \<and> (nd_status (?f n) = WN_Running \<longrightarrow> set (nd_dependencies n) \<subseteq> succeeded (wf_nodes w))"
    if "n \<in> set (wf_nodes w)" "nd_id n = i" for n
    using uniq [OF that] by simp
  with assms have "nodes_ok (update_first (\<lambda>n. nd_id n = i) ?f (wf_nodes w))"
    by (intro nodes_ok_update) (simp_all add: workflow_ok_def)
  with True show ?thesis
    by (simp add: start_node_def update_node_def refresh_workflow_ok)
qed

lemma complete_node_ok:
  assumes "workflow_ok w"
  shows "workflow_ok (snd (complete_node i d w))"
proof -
  have "nodes_ok (update_first (\<lambda>n. nd_id n = i)
      (\<lambda>n. n\<lparr>nd_deliverable := Some d, nd_status := WN_Succeeded\<rparr>) (wf_nodes w))"
    using assms by (intro nodes_ok_update) (auto simp: workflow_ok_def nodes_ok_def node_ok_def attempt_bound_def)
  with assms show ?thesis
    by (auto simp: complete_node_def update_node_def refresh_workflow_ok split: option.splits)
qed

lemma fail_node_ok:
  assumes "workflow_ok w"
  shows "workflow_ok (snd (fail_node i detail w))"
proof (cases "find (\<lambda>n. nd_id n = i) (wf_nodes w)")
  case None
  with assms show ?thesis by (simp add: fail_node_def)
next
  case (Some m)
  have d: "distinct (map nd_id (wf_nodes w))" using assms by (simp add: workflow_ok_def nodes_ok_def)
  have m: "m \<in> set (wf_nodes w)" "nd_id m = i" using find_SomeD [OF Some] by auto
  have uniq: "n = m" if "n \<in> set (wf_nodes w)" "nd_id n = i" for n
    using that m d by (metis distinct_map inj_on_def)
  show ?thesis
  proof (cases "nd_status m = WN_Running")
    case False
    with Some assms show ?thesis by (simp add: fail_node_def)
  next
    case True
    let ?retry = "nd_attempts m < rp_max_attempts (nd_retry_policy m)"
    let ?f = "\<lambda>n. n\<lparr>nd_status := (if ?retry then WN_Pending else WN_Failed),
             nd_deliverable := Some (failure_deliverable detail)\<rparr>"
    have "nd_attempts m \<le> attempt_bound m"
      using assms m by (auto simp: workflow_ok_def nodes_ok_def node_ok_def)
    then have "node_ok (?f m)" by (simp add: node_ok_def attempt_bound_def less_max_iff_disj)
    then have "node_ok (?f n) \<and> (nd_status n = WN_Succeeded \<longrightarrow> nd_status (?f n) = WN_Succeeded)
        \<and> (nd_status (?f n) = WN_Running \<longrightarrow> set (nd_dependencies n) \<subseteq> succeeded (wf_nodes w))"
      if "n \<in> set (wf_nodes w)" "nd_id n = i" for n
      using uniq [OF that] True by simp
    with assms have "nodes_ok (update_first (\<lambda>n. nd_id n = i) ?f (wf_nodes w))"
      by (intro nodes_ok_update) (simp_all add: workflow_ok_def)
    with Some True show ?thesis
      by (simp add: fail_node_def update_node_def Let_def refresh_workflow_ok)
  qed
qed

lemma record_gate_ok [simp]: "workflow_ok w \<Longrightarrow> workflow_ok (record_gate i p d w)"
  by (simp add: record_gate_def refresh_workflow_ok workflow_ok_def)

lemma fold_keeps: "(\<And>x w. P w \<Longrightarrow> P (f x w)) \<Longrightarrow> P w \<Longrightarrow> P (fold f xs w)"
  by (induction xs arbitrary: w) auto

lemma record_executed_verification_ok:
  "workflow_ok w \<Longrightarrow> workflow_ok (record_executed_verification e a w)"
  by (auto simp: record_executed_verification_def Let_def intro!: fold_keeps [where P = workflow_ok]
      split: option.splits)

lemma observe_final_answer_audit_ok:
  "workflow_ok w \<Longrightarrow> workflow_ok (observe_final_answer_audit a w)"
  by (auto simp: observe_final_answer_audit_def Let_def split: option.splits)

lemma apply_node_result_ok: "workflow_ok w \<Longrightarrow> workflow_ok (apply_node_result a b f i w)"
  by (simp add: apply_node_result_def Let_def complete_node_ok fail_node_ok)

lemma apply_reconnaissance_ok:
  assumes "workflow_ok w"
  shows "workflow_ok (apply_reconnaissance_batch_result ids a b f w)"
  unfolding apply_reconnaissance_batch_result_def Let_def
  using assms
  by (intro fold_keeps [where P = workflow_ok] apply_node_result_ok)
    (auto simp: workflow_ok_def checkpoint_ok_def split: option.splits)

lemma sync_from_task_plan_ok:
  assumes "workflow_ok w"
  shows "workflow_ok (sync_from_task_plan steps w)"
proof -
  let ?P = "\<lambda>(w', changed). nodes_ok (wf_nodes w') \<and> (\<not> changed \<longrightarrow> w' = w)"
  have step: "?P (sync_step s x)" if "?P x" for s x
  proof -
    obtain v c where x: "x = (v, c)" by force
    let ?f = "\<lambda>n. n\<lparr>nd_status := WN_Succeeded, nd_attempts := max (nd_attempts n) 1,
                    nd_deliverable := (case nd_deliverable n of
                        Some d \<Rightarrow> Some d
                      | None \<Rightarrow> Some \<lparr>dl_claims = [''Completed task-plan step: '' @ st_title s],
                          dl_evidence = [], dl_files_touched = [], dl_tests = [],
                          dl_uncertainties = []\<rparr>)\<rparr>"
    have "nodes_ok (update_first (\<lambda>n. nd_id n = st_id s) ?f (wf_nodes v))"
      using that x
      by (intro nodes_ok_update) (auto simp: nodes_ok_def node_ok_def attempt_bound_def le_max_iff_disj)
    with that x show ?thesis by (auto simp: sync_step_def update_node_def split: option.splits)
  qed
  have "?P (fold sync_step steps (w, False))"
    using assms by (intro fold_keeps [where P = ?P] step) (auto simp: workflow_ok_def)
  with assms show ?thesis
    by (auto simp: sync_from_task_plan_def refresh_workflow_ok split: prod.splits)
qed

lemma nodes_ok_map_same:
  assumes "nodes_ok ns" and "\<And>n. nd_id (f n) = nd_id n" "\<And>n. nd_dependencies (f n) = nd_dependencies n"
    "\<And>n. nd_status (f n) = nd_status n" "\<And>n. nd_attempts (f n) = nd_attempts n"
    "\<And>n. nd_retry_policy (f n) = nd_retry_policy n"
  shows "nodes_ok (map f ns)"
proof -
  have "ids_with_status st (map f ns) = ids_with_status st ns" for st
    by (simp add: ids_with_status_def filter_map comp_def assms(2,4))
  with assms show ?thesis by (auto simp: nodes_ok_def node_ok_def attempt_bound_def comp_def)
qed

lemma isolated_patch_ok:
  assumes "workflow_ok w"
  shows "workflow_ok (configure_for_scheduled_isolated_patch w)"
proof -
  define rm where "rm = set (map nd_id (filter (\<lambda>n. nd_phase n = ''reconnaissance'') (wf_nodes w)))"
  define ns where "ns = filter (\<lambda>n. nd_phase n \<noteq> ''reconnaissance'') (wf_nodes w)"
  define f where "f = (\<lambda>n :: workflow_node. n\<lparr>nd_dependencies := filter (\<lambda>d. d \<notin> rm) (nd_dependencies n),
      nd_allowed_tools := filter (\<lambda>t. t \<notin> {''spawn_subagent'', ''spawn_subagent_batch'',
                                          ''judge_subagent_results''}) (nd_allowed_tools n)\<rparr>)"
  have ok: "nodes_ok (wf_nodes w)" using assms by (simp add: workflow_ok_def)
  have sub: "succeeded (wf_nodes w) - rm \<subseteq> succeeded (map f ns)"
    by (force simp: succeeded_iff rm_def ns_def f_def)
  have "nodes_ok (map f ns)"
  proof -
    have "distinct (map nd_id (map f ns))"
      using ok by (simp add: nodes_ok_def ns_def f_def comp_def distinct_map_filter)
    moreover have "node_ok (f n)" "nd_status (f n) = WN_Running \<Longrightarrow> set (nd_dependencies (f n)) \<subseteq> succeeded (map f ns)"
      if "n \<in> set ns" for n
    proof -
      from that ok show "node_ok (f n)"
        by (auto simp: nodes_ok_def ns_def f_def node_ok_def attempt_bound_def)
      assume "nd_status (f n) = WN_Running"
      with that ok have "set (nd_dependencies n) \<subseteq> succeeded (wf_nodes w)"
        by (auto simp: nodes_ok_def ns_def f_def)
      then show "set (nd_dependencies (f n)) \<subseteq> succeeded (map f ns)"
        using sub by (auto simp: f_def)
    qed
    ultimately show ?thesis by (auto simp: nodes_ok_def)
  qed
  then show ?thesis
    unfolding configure_for_scheduled_isolated_patch_def Let_def
    by (intro refresh_workflow_ok) (simp add: f_def ns_def rm_def)
qed

section \<open>The workflow as a machine\<close>

datatype workflow_op =
    WO_Start string
  | WO_Complete string workflow_deliverable
  | WO_Fail string string
  | WO_RecordGate string bool string
  | WO_Reconnaissance "string list" "json option" bool string
  | WO_SyncPlan "plan_step list"
  | WO_FinalAudit json
  | WO_Executed bool "json option"
  | WO_DesktopObservation string
  | WO_IsolatedPatch
  | WO_PlanMode
  | WO_Support project_verification_support

fun workflow_step :: "workflow_op \<Rightarrow> workflow_ir \<Rightarrow> workflow_ir" where
  "workflow_step (WO_Start i) w = snd (start_node i w)"
| "workflow_step (WO_Complete i d) w = snd (complete_node i d w)"
| "workflow_step (WO_Fail i detail) w = snd (fail_node i detail w)"
| "workflow_step (WO_RecordGate i p d) w = record_gate i p d w"
| "workflow_step (WO_Reconnaissance ids a b f) w = apply_reconnaissance_batch_result ids a b f w"
| "workflow_step (WO_SyncPlan steps) w = sync_from_task_plan steps w"
| "workflow_step (WO_FinalAudit a) w = observe_final_answer_audit a w"
| "workflow_step (WO_Executed e a) w = record_executed_verification e a w"
| "workflow_step (WO_DesktopObservation d) w = require_fresh_desktop_observation d w"
| "workflow_step WO_IsolatedPatch w = configure_for_scheduled_isolated_patch w"
| "workflow_step WO_PlanMode w = configure_for_plan_mode w"
| "workflow_step (WO_Support s) w = configure_project_verification_support s w"

lemma reconfigure_ok:
  assumes "workflow_ok w"
  shows "workflow_ok (require_fresh_desktop_observation d w)" and "workflow_ok (configure_for_plan_mode w)"
    and "workflow_ok (configure_project_verification_support s w)"
  unfolding require_fresh_desktop_observation_def configure_for_plan_mode_def
    configure_project_verification_support_def
  using assms by (auto simp: workflow_ok_def intro: nodes_ok_map_same)

lemmas workflow_ops_ok =
  start_node_ok complete_node_ok fail_node_ok record_gate_ok apply_reconnaissance_ok
  sync_from_task_plan_ok observe_final_answer_audit_ok record_executed_verification_ok
  isolated_patch_ok reconfigure_ok

lemma workflow_step_ok [inv_intros]: "workflow_ok w \<Longrightarrow> workflow_ok (workflow_step x w)"
  by (cases x) (simp_all add: workflow_ops_ok)

interpretation workflow_machine: invariant_machine workflow_step workflow_ok
  by unfold_locales (rule workflow_step_ok)

section \<open>Properties\<close>

text \<open>
  C39: Validation accepts exactly the workflows of version 1 with at least one node, unique
  identifiers, dependencies that exist, that are not repeated within a node and that form no
  cycle. The verdict is the same in whatever order the hash map lists the nodes without
  dependencies, and the counter subtraction never underflows.
\<close>

theorem validate_accepts_iff:
  assumes "distinct q" and "set q = set (initial_queue (wf_nodes w))"
  shows "(validate_from q w = Inr () \<longleftrightarrow>
      wf_version w = 1 \<and> wf_nodes w \<noteq> [] \<and> distinct (map nd_id (wf_nodes w))
      \<and> (\<forall>n \<in> set (wf_nodes w). distinct (nd_dependencies n)
           \<and> set (nd_dependencies n) \<subseteq> nd_id ` set (wf_nodes w))
      \<and> acyclic {(d, nd_id n) | d n. n \<in> set (wf_nodes w) \<and> d \<in> set (nd_dependencies n)})
    \<and> validate_from q w \<noteq> Inl WE_Underflow"
  using validate_from_iff [OF assms] by (auto simp: well_indexed_def dep_rel_def)

text \<open>
  A repeated dependency is reported as a cycle. A workflow that meets every requirement and
  has no cycle, except that some node names the same dependency twice, is rejected with the
  cycle error.
\<close>

theorem repeated_dependency_reported_as_cycle:
  assumes "wf_version w = 1" and "well_indexed (wf_nodes w)" and "acyclic (dep_rel (wf_nodes w))"
    and "n \<in> set (wf_nodes w)" and "\<not> distinct (nd_dependencies n)"
  shows "validate w = Inl WE_Cycle"
proof -
  have q: "distinct (initial_queue (wf_nodes w))"
    using assms(2) by (simp add: initial_queue_def well_indexed_def)
  note v = validate_from_iff [OF q refl]
  have "validate w \<noteq> Inr ()" "validate w \<noteq> Inl WE_Underflow"
    using v assms(4,5) by (auto simp: validate_def)
  moreover have "nd_id m \<notin> set (nd_dependencies m)" if "m \<in> set (wf_nodes w)" for m
    using assms(3) that by (auto simp: acyclic_def dep_rel_def)
  then have "check_dependencies (set (map nd_id (wf_nodes w))) (wf_nodes w) = Inr ()"
    using assms(2) by (simp add: check_dependencies_iff well_indexed_def)
  ultimately show ?thesis
    using assms(1,2,4)
    by (auto simp: validate_def validate_from_def Let_def WORKFLOW_IR_VERSION_def well_indexed_def
        split: option.splits if_splits)
qed

text \<open>
  No deadlock. In a workflow that validation accepts, as long as some node has not succeeded
  and none is running, failed or blocked, there is a node to start; and everything offered is
  pending with all its dependencies succeeded, at most \<open>max_parallel\<close> nodes at a time.
\<close>

theorem valid_workflow_has_ready_node:
  assumes "validate w = Inr ()" and "wf_max_parallel w \<noteq> 0"
    and "\<forall>n \<in> set (wf_nodes w). nd_status n \<in> {WN_Pending, WN_Succeeded}"
    and "\<exists>n \<in> set (wf_nodes w). nd_status n \<noteq> WN_Succeeded"
  shows "ready_node_ids w \<noteq> [] \<and> length (ready_node_ids w) \<le> unat (wf_max_parallel w)
    \<and> (\<forall>i \<in> set (ready_node_ids w). \<exists>n \<in> set (wf_nodes w). nd_id n = i \<and> nd_status n = WN_Pending
         \<and> set (nd_dependencies n) \<subseteq> succeeded (wf_nodes w))"
proof -
  let ?ns = "wf_nodes w"
  have "distinct (initial_queue ?ns)"
    using assms(1) by (auto simp: validate_def validate_from_def Let_def initial_queue_def split: if_splits)
  from validate_from_iff(1) [OF this refl] assms(1)
  have wi: "well_indexed ?ns" and ac: "acyclic (dep_rel ?ns)" by (auto simp: validate_def)
  let ?P = "nd_id ` {n \<in> set ?ns. nd_status n \<noteq> WN_Succeeded}"
  have "wf (dep_rel ?ns)" using ac finite_dep_rel by (intro finite_acyclic_wf)
  moreover have "?P \<noteq> {}" using assms(4) by auto
  ultimately obtain j where j: "j \<in> ?P" and mn: "\<And>d. (d, j) \<in> dep_rel ?ns \<Longrightarrow> d \<notin> ?P"
    by (rule wfE_min') blast
  then obtain n where n: "n \<in> set ?ns" "nd_id n = j" "nd_status n \<noteq> WN_Succeeded" by auto
  have "d \<in> succeeded ?ns" if d: "d \<in> set (nd_dependencies n)" for d
  proof -
    have "(d, j) \<in> dep_rel ?ns" using n d by (auto simp: dep_rel_def)
    with mn have "d \<notin> ?P" by blast
    moreover have "d \<in> nd_id ` set ?ns" using wi n d by (force simp: well_indexed_def)
    ultimately show ?thesis by (auto simp: succeeded_iff)
  qed
  then have "node_ready ?ns n" using n assms(3) by (auto simp: node_ready_def list_all_iff)
  then have "filter (node_ready ?ns) ?ns \<noteq> []" using n by (auto simp: filter_empty_conv)
  moreover have "0 < unat (wf_max_parallel w)" using assms(2) by (simp add: unat_gt_0)
  ultimately have "ready_node_ids w \<noteq> []" by (simp add: ready_node_ids_def)
  moreover have "\<forall>i \<in> set (ready_node_ids w). \<exists>n \<in> set ?ns. nd_id n = i \<and> nd_status n = WN_Pending
      \<and> set (nd_dependencies n) \<subseteq> succeeded ?ns"
    by (auto simp: ready_node_ids_def node_ready_def list_all_iff dest!: in_set_takeD)
  ultimately show ?thesis by (simp add: ready_node_ids_def)
qed

text \<open>
  C40: The node lifecycle. Whatever operations are applied, in whatever order, to a workflow
  whose invariant holds: identifiers stay unique, no node is started more often than its
  retry policy allows (at least once), a running node has all its dependencies succeeded, and the
  checkpoint lists exactly the completed, active and failed nodes.
\<close>

theorem workflow_lifecycle_invariant:
  assumes "workflow_ok w"
  shows "workflow_ok (run_ops workflow_step ops w)"
  using assms by (rule workflow_machine.run_inv)

text \<open>
  The completion decision and its explanation agree: completion is allowed exactly when the
  list of blockers is empty.
\<close>

theorem completion_allowed_iff_no_blockers:
  "completion_allowed w \<longleftrightarrow> completion_blockers w = []"
  by (auto simp: completion_allowed_def completion_blockers_def nodes_pass_def evidence_pass_def
      list_all_iff filter_empty_conv)

lemma record_gate_false_no_pass:
  assumes "g \<in> set (wf_verification_gates (record_gate i False d w))" and "vg_passed g = Some True"
  shows "g \<in> set (wf_verification_gates w)"
  using assms
    set_update_first_subset [of "\<lambda>g. vg_id g = i" "\<lambda>g. g\<lparr>vg_passed := Some False, vg_detail := Some d\<rparr>"
      "wf_verification_gates w"]
  by (fastforce simp: record_gate_def)

lemma fold_record_gate_false:
  assumes "g \<in> set (wf_verification_gates (fold (\<lambda>i. record_gate i False d) ids w))"
    and "vg_passed g = Some True"
  shows "g \<in> set (wf_verification_gates w)"
  using assms by (induction ids arbitrary: w) (auto dest: record_gate_false_no_pass)

text \<open>
  An executed command passes a gate only if it ran successfully: when the tool reported an
  error, the exit code is not zero or the command timed out, every gate that is passed
  afterwards was passed, unchanged, before.
\<close>

theorem failed_command_passes_no_gate:
  assumes "Option.bind artifacts (\<lambda>v. json_get v ''execution'') = Some execution"
    and "is_error \<or> Option.bind (json_get execution ''exitCode'') json_as_i64 \<noteq> Some 0
      \<or> Option.bind (json_get execution ''timedOut'') json_as_bool = Some True"
    and "g \<in> set (wf_verification_gates (record_executed_verification is_error artifacts w))"
    and "vg_passed g = Some True"
  shows "g \<in> set (wf_verification_gates w)"
proof -
  have "\<not> execution_passed is_error execution" using assms(2) by (auto simp: execution_passed_def)
  with assms(1,3,4) show ?thesis
    by (auto simp: record_executed_verification_def Let_def split: option.splits if_splits
        dest: fold_record_gate_false)
qed

text \<open>Results of one reconnaissance worker.\<close>

lemma complete_node_effect:
  assumes "find (\<lambda>n. nd_id n = i) (wf_nodes w) = Some n" and "nd_status n = WN_Running"
  shows "wf_nodes (snd (complete_node i d w)) = update_first (\<lambda>n. nd_id n = i)
    (\<lambda>n. n\<lparr>nd_deliverable := Some d, nd_status := WN_Succeeded\<rparr>) (wf_nodes w)"
  using assms by (simp add: complete_node_def update_node_def)

lemma apply_node_result_other:
  assumes "distinct (map nd_id (wf_nodes w))" and "j \<noteq> i"
  shows "find (\<lambda>n. nd_id n = j) (wf_nodes (apply_node_result a b f i w)) = find (\<lambda>n. nd_id n = j) (wf_nodes w)"
proof -
  have "find (\<lambda>n. nd_id n = j) (update_first (\<lambda>n. nd_id n = i) g ns) = find (\<lambda>n. nd_id n = j) ns"
    if "\<And>n. nd_id (g n) = nd_id n" for g and ns :: "workflow_node list"
    using that assms(2) by (induction ns) auto
  then show ?thesis
    by (auto simp: apply_node_result_def Let_def complete_node_def fail_node_def update_node_def
        split: option.splits)
qed

lemma apply_node_result_self:
  assumes "find (\<lambda>n. nd_id n = i) (wf_nodes w) = Some n" and "nd_status n = WN_Running"
  shows "\<exists>m. find (\<lambda>n. nd_id n = i) (wf_nodes (apply_node_result a b f i w)) = Some m
    \<and> nd_status m \<noteq> WN_Running
    \<and> (nd_status m = WN_Succeeded \<longleftrightarrow> \<not> run_failed b (run_for_node a i))"
proof -
  have "find (\<lambda>n. nd_id n = i) (update_first (\<lambda>n. nd_id n = i) g ns)
      = map_option g (find (\<lambda>n. nd_id n = i) ns)"
    if "\<And>n. nd_id (g n) = nd_id n" for g and ns :: "workflow_node list"
    using that by (induction ns) auto
  with assms show ?thesis
    by (simp add: apply_node_result_def Let_def complete_node_def fail_node_def update_node_def)
qed

lemma fold_node_results_other:
  "distinct (map nd_id (wf_nodes w)) \<Longrightarrow> j \<notin> set ids \<Longrightarrow> workflow_ok w \<Longrightarrow>
   find (\<lambda>n. nd_id n = j) (wf_nodes (fold (apply_node_result a b f) ids w)) = find (\<lambda>n. nd_id n = j) (wf_nodes w)"
proof (induction ids arbitrary: w)
  case Nil
  then show ?case by simp
next
  case (Cons i ids)
  have "workflow_ok (apply_node_result a b f i w)" using Cons.prems(3) by (rule apply_node_result_ok)
  moreover from this have "distinct (map nd_id (wf_nodes (apply_node_result a b f i w)))"
    by (simp add: workflow_ok_def nodes_ok_def)
  ultimately show ?case using Cons apply_node_result_other [of w j i] by simp
qed

text \<open>
  Merging a reconnaissance batch treats every branch on its own: a node that is not part of
  the batch is unchanged, and each running node of the batch leaves the running state, with
  success exactly when its own worker's run is present and did not fail.
\<close>

theorem reconnaissance_branches_independent:
  fixes a b f ids w i j n
  defines "w' \<equiv> apply_reconnaissance_batch_result ids a b f w"
  assumes "workflow_ok w" and "distinct ids"
  shows "(j \<notin> set ids \<longrightarrow>
      find (\<lambda>n. nd_id n = j) (wf_nodes w') = find (\<lambda>n. nd_id n = j) (wf_nodes w))
    \<and> (i \<in> set ids \<and> find (\<lambda>n. nd_id n = i) (wf_nodes w) = Some n \<and> nd_status n = WN_Running \<longrightarrow>
      (\<exists>m. find (\<lambda>n. nd_id n = i) (wf_nodes w') = Some m \<and> nd_status m \<noteq> WN_Running
        \<and> (nd_status m = WN_Succeeded \<longleftrightarrow> \<not> run_failed b (run_for_node a i))))"
proof (intro conjI impI)
  define w1 where "w1 = (case Option.bind (Option.bind (Option.bind a (\<lambda>v. json_get v ''budgetAfter''))
                (\<lambda>v. json_get v ''remainingTokens'')) json_as_u64 of
           None \<Rightarrow> w
         | Some remaining \<Rightarrow> w\<lparr>wf_checkpoint := (wf_checkpoint w)\<lparr>
             ck_remaining_delegated_tokens := u64_to_u32_saturating remaining\<rparr>\<rparr>)"
  have w': "w' = fold (apply_node_result a b f) ids w1"
    by (simp add: w'_def apply_reconnaissance_batch_result_def w1_def)
  have n1: "wf_nodes w1 = wf_nodes w" by (simp add: w1_def split: option.splits)
  have ok1: "workflow_ok w1"
    using assms(2) by (auto simp: w1_def workflow_ok_def checkpoint_ok_def split: option.splits)
  have dist: "distinct (map nd_id (wf_nodes v))" if "workflow_ok v" for v
    using that by (simp add: workflow_ok_def nodes_ok_def)
  show "find (\<lambda>n. nd_id n = j) (wf_nodes w') = find (\<lambda>n. nd_id n = j) (wf_nodes w)" if "j \<notin> set ids"
    using that fold_node_results_other [OF dist [OF ok1] _ ok1] by (simp add: w' n1)
  assume "i \<in> set ids \<and> find (\<lambda>n. nd_id n = i) (wf_nodes w) = Some n \<and> nd_status n = WN_Running"
  then have "i \<in> set ids" and n: "find (\<lambda>n. nd_id n = i) (wf_nodes w) = Some n" "nd_status n = WN_Running"
    by auto
  then obtain as bs where ids: "ids = as @ i # bs" "i \<notin> set as" "i \<notin> set bs"
    using assms(3) by (auto dest: split_list)
  define w2 where "w2 = fold (apply_node_result a b f) as w1"
  have ok2: "workflow_ok w2" unfolding w2_def
    using ok1 by (intro fold_keeps [where P = workflow_ok] apply_node_result_ok)
  have "find (\<lambda>n. nd_id n = i) (wf_nodes w2) = Some n"
    unfolding w2_def using fold_node_results_other [OF dist [OF ok1] ids(2) ok1] n n1 by simp
  from apply_node_result_self [OF this n(2)] obtain m where
    m: "find (\<lambda>n. nd_id n = i) (wf_nodes (apply_node_result a b f i w2)) = Some m"
    "nd_status m \<noteq> WN_Running" "nd_status m = WN_Succeeded \<longleftrightarrow> \<not> run_failed b (run_for_node a i)"
    by blast
  have ok3: "workflow_ok (apply_node_result a b f i w2)" using ok2 by (rule apply_node_result_ok)
  have "w' = fold (apply_node_result a b f) bs (apply_node_result a b f i w2)"
    by (simp add: w' ids(1) w2_def)
  with fold_node_results_other [OF dist [OF ok3] ids(3) ok3] m
  show "\<exists>m. find (\<lambda>n. nd_id n = i) (wf_nodes w') = Some m \<and> nd_status m \<noteq> WN_Running
        \<and> (nd_status m = WN_Succeeded \<longleftrightarrow> \<not> run_failed b (run_for_node a i))"
    by auto
qed

section \<open>Witnesses\<close>

definition sample_node :: "string \<Rightarrow> string list \<Rightarrow> workflow_node_status \<Rightarrow> workflow_node" where
  "sample_node i deps st = \<lparr>nd_id = i, nd_phase = ''execution'', nd_title = i, nd_dependencies = deps,
     nd_parallel_group = None, nd_model_policy = MR_Strong, nd_allowed_tools = [],
     nd_isolation = ISO_ParentOwnedWrite, nd_write_scope = [],
     nd_retry_policy = \<lparr>rp_max_attempts = 2, rp_retry_affected_nodes_only = True\<rparr>,
     nd_artifact_contract = \<lparr>ac_required_sections = [], ac_structured = False\<rparr>,
     nd_status = st, nd_attempts = (if st = WN_Pending then 0 else 1), nd_deliverable = None\<rparr>"

definition sample_gate :: verification_gate where
  "sample_gate = \<lparr>vg_id = ''tests'', vg_kind = VG_Tests, vg_required = True, vg_passed = Some True,
     vg_detail = None\<rparr>"

definition sample_workflow :: "workflow_node list \<Rightarrow> workflow_ir" where
  "sample_workflow ns = \<lparr>wf_version = 1, wf_id = ''w'', wf_route_kind = ''code'',
     wf_orchestration_profile = ''balanced'', wf_nexus_enabled = False, wf_max_parallel = 2,
     wf_min_evidence_sources = 0, wf_nodes = ns, wf_verification_gates = [sample_gate],
     wf_evidence_ledger = [],
     wf_checkpoint = \<lparr>ck_revision = 0, ck_completed_node_ids = ids_with_status WN_Succeeded ns,
       ck_active_node_ids = ids_with_status WN_Running ns,
       ck_failed_node_ids = ids_with_status WN_Failed ns, ck_remaining_delegated_tokens = 0\<rparr>,
     wf_completion_contract = \<lparr>cc_require_all_nodes_succeeded = True,
       cc_require_verification_gates = True, cc_require_evidence_ledger = False,
       cc_require_interaction_gates = False, cc_browser_terminal_closure_evidence = BTC_NotRequired\<rparr>\<rparr>"

definition diamond :: "workflow_node list" where
  "diamond = [sample_node ''a'' [] WN_Succeeded, sample_node ''b'' [''a''] WN_Pending,
     sample_node ''c'' [''a''] WN_Pending, sample_node ''d'' [''b'', ''c''] WN_Pending]"

lemma diamond_valid: "validate (sample_workflow diamond) = Inr ()"
  by code_simp

theorem validate_accepts_witness:
  "validate_from [''a''] (sample_workflow diamond) = Inr ()
   \<and> acyclic {(d, nd_id n) | d n. n \<in> set diamond \<and> d \<in> set (nd_dependencies n)}"
proof -
  have 1: "distinct [''a'']" by simp
  have 2: "set [''a''] = set (initial_queue (wf_nodes (sample_workflow diamond)))" by code_simp
  have 3: "validate_from [''a''] (sample_workflow diamond) = Inr ()" by code_simp
  from validate_accepts_iff [OF 1 2] 3 show ?thesis by (simp add: sample_workflow_def)
qed

theorem repeated_dependency_witness:
  "validate (sample_workflow [sample_node ''a'' [] WN_Pending, sample_node ''b'' [''a'', ''a''] WN_Pending])
     = Inl WE_Cycle"
proof -
  let ?ns = "[sample_node ''a'' [] WN_Pending, sample_node ''b'' [''a'', ''a''] WN_Pending]"
  have "dep_rel ?ns \<subseteq> measure (\<lambda>s. if s = ''b'' then 1 else 0)"
    by (auto simp: dep_rel_def sample_node_def)
  then have "acyclic (dep_rel ?ns)" by (meson acyclic_subset wf_acyclic wf_measure)
  moreover have "well_indexed ?ns" by (auto simp: well_indexed_def sample_node_def)
  ultimately show ?thesis
    using repeated_dependency_reported_as_cycle [of "sample_workflow ?ns" "sample_node ''b'' [''a'', ''a''] WN_Pending"]
    by (simp add: sample_workflow_def sample_node_def)
qed

theorem valid_workflow_ready_witness: "ready_node_ids (sample_workflow diamond) \<noteq> []"
proof -
  have 1: "wf_max_parallel (sample_workflow diamond) \<noteq> 0" by (simp add: sample_workflow_def)
  have 2: "\<forall>n \<in> set (wf_nodes (sample_workflow diamond)). nd_status n \<in> {WN_Pending, WN_Succeeded}"
    by (simp add: sample_workflow_def diamond_def sample_node_def)
  have 3: "\<exists>n \<in> set (wf_nodes (sample_workflow diamond)). nd_status n \<noteq> WN_Succeeded"
    by (simp add: sample_workflow_def diamond_def sample_node_def)
  from valid_workflow_has_ready_node [OF diamond_valid 1 2 3] show ?thesis by blast
qed

lemma sample_workflow_ok: "workflow_ok (sample_workflow diamond)"
  by (simp add: workflow_ok_def nodes_ok_def node_ok_def attempt_bound_def checkpoint_ok_def
      sample_workflow_def diamond_def sample_node_def ids_with_status_def)

theorem workflow_lifecycle_witness:
  "workflow_ok (run_ops workflow_step [WO_Start ''b'', WO_Fail ''b'' ''x'', WO_Start ''b'', WO_Fail ''b'' ''y'']
     (sample_workflow diamond))"
  using workflow_lifecycle_invariant [OF sample_workflow_ok] .

definition failed_test_run :: json where
  "failed_test_run = JObject [(''execution'', JObject [(''args'', JArray [JString ''test'']),
     (''exitCode'', JNumber (PosInt 101)), (''program'', JString ''cargo'')])]"

theorem failed_command_witness:
  "list_all (\<lambda>g. vg_passed g \<noteq> Some True)
     (wf_verification_gates (record_executed_verification False (Some failed_test_run)
       (sample_workflow diamond)))"
proof -
  let ?w = "sample_workflow diamond"
  let ?w' = "record_executed_verification False (Some failed_test_run) ?w"
  have e: "Option.bind (Some failed_test_run) (\<lambda>v. json_get v ''execution'')
      = Some (JObject [(''args'', JArray [JString ''test'']), (''exitCode'', JNumber (PosInt 101)),
          (''program'', JString ''cargo'')])"
    by code_simp
  have f: "False \<or> Option.bind (json_get (JObject [(''args'', JArray [JString ''test'']), (''exitCode'', JNumber (PosInt 101)),
          (''program'', JString ''cargo'')]) ''exitCode'') json_as_i64 \<noteq> Some 0
      \<or> Option.bind (json_get (JObject [(''args'', JArray [JString ''test'']), (''exitCode'', JNumber (PosInt 101)),
          (''program'', JString ''cargo'')]) ''timedOut'') json_as_bool = Some True"
    by code_simp
  have "list_all (\<lambda>g. g \<noteq> sample_gate) (wf_verification_gates ?w')" by code_simp
  moreover have "wf_verification_gates ?w = [sample_gate]" by (simp add: sample_workflow_def)
  ultimately show ?thesis
    using failed_command_passes_no_gate [OF e f, where w = ?w] by (auto simp: list_all_iff)
qed

theorem reconnaissance_witness:
  "\<exists>m. find (\<lambda>n. nd_id n = ''b'') (wf_nodes (apply_reconnaissance_batch_result [''b''] None False ''none''
       (workflow_step (WO_Start ''b'') (sample_workflow diamond)))) = Some m \<and> nd_status m \<noteq> WN_Running"
proof -
  let ?w = "workflow_step (WO_Start ''b'') (sample_workflow diamond)"
  have ok: "workflow_ok ?w" using sample_workflow_ok by (rule workflow_step_ok)
  have "map_option nd_status (find (\<lambda>n. nd_id n = ''b'') (wf_nodes ?w)) = Some WN_Running" by code_simp
  then obtain n where n: "find (\<lambda>n. nd_id n = ''b'') (wf_nodes ?w) = Some n" "nd_status n = WN_Running" by auto
  from reconnaissance_branches_independent [OF ok, of "[''b'']" "''b''" None False "''none''" "''b''" n] n show ?thesis
    by auto
qed

end
