(* ===== verification/Stream_Recovery.thy ===== *)
theory Stream_Recovery
  imports Core_Error
begin

text \<open>
  The retry policy of provider streams, \<open>crates/core/src/agent/stream_recovery.rs\<close>: which errors
  are context overflows, when a failed connection or a broken stream is tried again and after how
  long. A \<open>Duration\<close> is its number of milliseconds.
\<close>

type_synonym duration_ms = nat

definition MAX_CONTEXT_RECOVERY_ATTEMPTS :: u32 where "MAX_CONTEXT_RECOVERY_ATTEMPTS = 2"

definition MAX_STREAM_DISCONNECT_RETRIES :: u32 where "MAX_STREAM_DISCONNECT_RETRIES = 2"

datatype stream_recovery_decision =
    SR_StopAfterReplayBarrier string string
  | SR_Reconnect u32 duration_ms
  | SR_GiveUp string string

datatype stream_connect_retry_decision =
    SC_Retry u32 duration_ms
  | SC_GiveUp string string

datatype context_overflow_recovery_decision =
    CO_Compact u32 string
  | CO_GiveUp string

record stream_recovery_policy =
  rp_max_context_recovery_attempts :: u32
  rp_max_connect_retries :: u32
  rp_max_disconnect_retries :: u32

definition stream_recovery_policy_default :: stream_recovery_policy where
  "stream_recovery_policy_default =
     \<lparr>rp_max_context_recovery_attempts = MAX_CONTEXT_RECOVERY_ATTEMPTS,
      rp_max_connect_retries = 4, rp_max_disconnect_retries = MAX_STREAM_DISCONNECT_RETRIES\<rparr>"

definition with_stream_max_retries :: "u32 option \<Rightarrow> stream_recovery_policy \<Rightarrow> stream_recovery_policy" where
  "with_stream_max_retries configured policy =
     (case configured of
        None \<Rightarrow> policy
      | Some m \<Rightarrow> (let max_retries = min m 10 in
          policy\<lparr>rp_max_connect_retries := max_retries, rp_max_disconnect_retries := max_retries\<rparr>))"

definition overflow_message :: "string \<Rightarrow> bool" where
  "overflow_message message =
     (let lower = to_lowercase message in
      str_contains lower ''context length'' \<or> str_contains lower ''context window''
      \<or> str_contains lower ''prompt_too_long'' \<or> str_contains lower ''prompt is too long''
      \<or> str_contains lower ''maximum context'' \<or> str_contains lower ''too many tokens''
      \<or> (str_contains lower ''token limit'' \<and> str_contains lower ''input''))"

fun is_context_overflow_error :: "core_error \<Rightarrow> bool" where
  "is_context_overflow_error (CE_ContextOverflow _ _) = True"
| "is_context_overflow_error (CE_Llm message) = overflow_message message"
| "is_context_overflow_error (CE_TransientLlm message) = overflow_message message"
| "is_context_overflow_error _ = False"

definition decide_after_context_overflow ::
  "string \<Rightarrow> u32 \<Rightarrow> core_error \<Rightarrow> stream_recovery_policy \<Rightarrow> context_overflow_recovery_decision" where
  "decide_after_context_overflow foreign completed_attempts error policy =
     (if rp_max_context_recovery_attempts policy \<le> completed_attempts
      then CO_GiveUp (''Context compression circuit breaker opened after ''
             @ nat_to_string (unat (rp_max_context_recovery_attempts policy))
             @ '' recovery attempt(s): '' @ core_error_display foreign error)
      else
        (let attempt = completed_attempts + 1 in
         CO_Compact attempt
           (''Context window overflow detected. Compacting history and retrying (''
             @ nat_to_string (unat attempt) @ ''/''
             @ nat_to_string (unat (rp_max_context_recovery_attempts policy)) @ '')'')))"

definition saturating_pow :: "u64 \<Rightarrow> u32 \<Rightarrow> u64" where
  "saturating_pow a n = (if unat a ^ unat n < 2 ^ 64 then a ^ unat n else - 1)"

definition retry_backoff_with_jitter :: "u32 \<Rightarrow> duration_ms" where
  "retry_backoff_with_jitter attempt =
     (let exponent = min (saturating_sub attempt 1) 3;
          base_seconds = saturating_mul 5 (saturating_pow 2 exponent);
          jitter_ms = saturating_mul 137 (ucast attempt :: u64)
      in 1000 * unat (min base_seconds 40) + unat jitter_ms)"

definition decide_after_rate_limit :: "u32 \<Rightarrow> u64 \<Rightarrow> stream_recovery_policy \<Rightarrow> stream_connect_retry_decision" where
  "decide_after_rate_limit completed_retries retry_after_secs policy =
     (let attempt = completed_retries + 1 in
      if rp_max_connect_retries policy < attempt
      then SC_GiveUp (''Rate limited after '' @ nat_to_string (unat (rp_max_connect_retries policy))
             @ '' retries'') ''rate limited''
      else SC_Retry attempt
        (if 0 < retry_after_secs then 1000 * unat retry_after_secs
         else retry_backoff_with_jitter attempt))"

definition decide_after_transient_error :: "u32 \<Rightarrow> string \<Rightarrow> stream_recovery_policy \<Rightarrow> stream_connect_retry_decision" where
  "decide_after_transient_error completed_retries detail policy =
     (let attempt = completed_retries + 1 in
      if rp_max_connect_retries policy < attempt
      then (let message = ''Transient error after ''
                  @ nat_to_string (unat (rp_max_connect_retries policy)) @ '' retries: '' @ detail
            in SC_GiveUp message message)
      else SC_Retry attempt (retry_backoff_with_jitter attempt))"

definition decide_after_incomplete ::
  "bool \<Rightarrow> u32 \<Rightarrow> bool \<Rightarrow> string \<Rightarrow> stream_recovery_policy \<Rightarrow> stream_recovery_decision" where
  "decide_after_incomplete force_non_streaming completed_retries replay_barrier_crossed detail policy =
     (if replay_barrier_crossed
      then SR_StopAfterReplayBarrier
        ''The provider connection ended after a provider-hosted action had already started. Nexa kept the partial trace and did not replay the request because the remote action may have side effects.''
        (''provider stream interrupted after irreversible hosted action; retry suppressed: '' @ detail)
      else if \<not> force_non_streaming \<and> completed_retries < rp_max_disconnect_retries policy
      then (let attempt = completed_retries + 1 in
            SR_Reconnect attempt
              (unat (saturating_mul 250 (saturating_pow 2 (saturating_sub attempt 1)))))
      else SR_GiveUp
        ''The model stream disconnected repeatedly. Partial output was preserved; retry when the provider connection is stable.''
        (''model stream disconnected after ''
          @ nat_to_string (unat (rp_max_disconnect_retries policy))
          @ '' replay attempt(s): '' @ detail))"

section \<open>Bounds of the policy\<close>

text \<open>A policy as the sources build it: both retry limits are at most ten.\<close>

definition policy_ok :: "stream_recovery_policy \<Rightarrow> bool" where
  "policy_ok p = (rp_max_connect_retries p \<le> 10 \<and> rp_max_disconnect_retries p \<le> 10)"

lemma built_policy_ok: "policy_ok (with_stream_max_retries configured stream_recovery_policy_default)"
  by (auto simp: policy_ok_def with_stream_max_retries_def stream_recovery_policy_default_def Let_def
      MAX_STREAM_DISCONNECT_RETRIES_def split: option.splits)

lemma unat_one_more: "x \<le> (10 :: u32) \<Longrightarrow> unat (x + 1) = Suc (unat x)"
  by (simp add: unat_word_ariths word_le_nat_alt)

lemma policy_attempts:
  "policy_ok p \<Longrightarrow> decide_after_rate_limit n secs p = SC_Retry a d \<Longrightarrow> n \<le> 10 \<Longrightarrow>
     unat a = Suc (unat n) \<and> a \<le> rp_max_connect_retries p"
  "policy_ok p \<Longrightarrow> decide_after_transient_error n detail p = SC_Retry a d \<Longrightarrow> n \<le> 10 \<Longrightarrow>
     unat a = Suc (unat n) \<and> a \<le> rp_max_connect_retries p"
  "policy_ok p \<Longrightarrow> decide_after_incomplete f n b detail p = SR_Reconnect a d \<Longrightarrow>
     unat a = Suc (unat n) \<and> a \<le> rp_max_disconnect_retries p \<and> \<not> b"
proof -
  show "policy_ok p \<Longrightarrow> decide_after_rate_limit n secs p = SC_Retry a d \<Longrightarrow> n \<le> 10 \<Longrightarrow>
     unat a = Suc (unat n) \<and> a \<le> rp_max_connect_retries p"
    by (auto simp: decide_after_rate_limit_def Let_def unat_one_more split: if_splits)
  show "policy_ok p \<Longrightarrow> decide_after_transient_error n detail p = SC_Retry a d \<Longrightarrow> n \<le> 10 \<Longrightarrow>
     unat a = Suc (unat n) \<and> a \<le> rp_max_connect_retries p"
    by (auto simp: decide_after_transient_error_def Let_def unat_one_more split: if_splits)
  assume p: "policy_ok p" and r: "decide_after_incomplete f n b detail p = SR_Reconnect a d"
  then have less: "n < rp_max_disconnect_retries p" and a: "a = n + 1" and nb: "\<not> b"
    by (auto simp: decide_after_incomplete_def Let_def split: if_splits)
  then have "n \<le> 10" using p by (auto simp: policy_ok_def)
  then have "unat a = Suc (unat n)" using a unat_one_more by simp
  with less nb show "unat a = Suc (unat n) \<and> a \<le> rp_max_disconnect_retries p \<and> \<not> b"
    by (simp add: word_le_nat_alt word_less_nat_alt)
qed

lemma unat_saturating_pow: "unat (saturating_pow a n) = min (unat a ^ unat n) (2 ^ 64 - 1)"
proof (cases "unat a ^ unat n < 2 ^ 64")
  case True
  have "a ^ unat n = word_of_nat (unat a ^ unat n)" by simp
  then have "unat (a ^ unat n) = unat a ^ unat n mod 2 ^ 64" by (simp only: unat_of_nat) simp
  with True show ?thesis by (simp add: saturating_pow_def)
qed (simp add: saturating_pow_def unat_max)

text \<open>
  The waits between attempts: five to forty seconds with a jitter of 137 milliseconds per attempt
  before a connection is tried again, a quarter of a second doubling with every attempt before
  a broken stream is.
\<close>

lemma backoff_bounds:
  assumes "1 \<le> a" "a \<le> 10"
  shows "5000 \<le> retry_backoff_with_jitter a \<and> retry_backoff_with_jitter a \<le> 41370"
proof -
  have u: "unat a \<le> 10" using assms(2) by (simp add: word_le_nat_alt)
  let ?e = "min (saturating_sub a 1) 3"
  have e: "unat ?e \<le> 3" by (simp add: min_def word_le_nat_alt split: if_splits)
  have "(1::nat) \<le> 2 ^ unat ?e" by simp
  moreover have "(2::nat) ^ unat ?e \<le> 8" using power_increasing [OF e, of "2::nat"] by simp
  ultimately have base: "5 \<le> unat (min (saturating_mul 5 (saturating_pow 2 ?e)) (40 :: u64))"
    by (simp add: min_def word_le_nat_alt unat_saturating_mul unat_saturating_pow)
  have cap: "unat (min (saturating_mul 5 (saturating_pow 2 ?e)) (40 :: u64)) \<le> 40"
    by (simp add: min_def word_le_nat_alt)
  have jitter: "unat (saturating_mul 137 (ucast a :: u64)) \<le> 1370"
    using u by (simp add: unat_saturating_mul unsigned_ucast_eq take_bit_nat_eq_self)
  show ?thesis using base cap jitter unfolding retry_backoff_with_jitter_def Let_def by linarith
qed

lemma reconnect_delay_bounds:
  assumes "1 \<le> a" "a \<le> 10"
  shows "250 \<le> unat (saturating_mul 250 (saturating_pow 2 (saturating_sub a 1)))
    \<and> unat (saturating_mul 250 (saturating_pow 2 (saturating_sub a 1))) \<le> 128000"
proof -
  have e: "unat (saturating_sub a 1) \<le> 9"
    using assms by (simp add: unat_saturating_sub word_le_nat_alt)
  have "(1::nat) \<le> 2 ^ unat (saturating_sub a 1)" by simp
  moreover have "(2::nat) ^ unat (saturating_sub a 1) \<le> 512"
    using power_increasing [OF e, of "2::nat"] by simp
  ultimately show ?thesis by (simp add: unat_saturating_mul unat_saturating_pow)
qed

end
