(* ===== verification/Turn_Budget.thy ===== *)
theory Turn_Budget
  imports Nexa_Prelude
begin

text \<open>
  The budgets of one user turn, \<open>crates/core/src/agent/turn_budget.rs\<close>: a ceiling on provider
  requests that all recovery controllers share, and the tool-round budget with its one reserved
  answer-only sample.

  The shared atomic counter is a field of the turn budget, since every clone of the request budget
  refers to the same counter and its update is atomic. A step also logs the permits it granted and
  counts the requests it allowed, so that the theorems can speak of whole turns. A tool round is
  recorded only under the authority that the code asserts in debug builds and that the turn loop
  asks for first.
\<close>

section \<open>Definitions\<close>

record model_request_budget =
  rb_used :: u32
  rb_limit :: u32

definition model_request_budget_new :: "u32 \<Rightarrow> model_request_budget" where
  "model_request_budget_new limit = \<lparr>rb_used = 0, rb_limit = limit\<rparr>"

definition acquire_request_budget :: "model_request_budget \<Rightarrow> bool \<times> model_request_budget" where
  "acquire_request_budget b =
     (if rb_used b < rb_limit b then (True, b\<lparr>rb_used := rb_used b + 1\<rparr>) else (False, b))"

datatype turn_step_purpose = Purpose_Normal | Purpose_Recovery

datatype turn_step_mode = Mode_ToolsAllowed | Mode_FinalAnswerOnly

record turn_step_permit =
  tp_sample_index :: u32
  tp_mode :: turn_step_mode
  tp_tool_rounds_used :: u32
  tp_remaining_tool_rounds :: "u32 option"

definition allows_tools :: "turn_step_permit \<Rightarrow> bool" where
  "allows_tools p = (tp_mode p = Mode_ToolsAllowed)"

record turn_budget =
  tb_requests :: model_request_budget
  tb_tool_round_limit :: "u32 option"
  tb_tool_rounds_used :: u32
  tb_next_sample_index :: u32
  tb_final_answer_sample_started :: bool

definition turn_budget_new :: "u32 \<Rightarrow> turn_budget" where
  "turn_budget_new legacy_max_iterations =
     \<lparr>tb_requests = model_request_budget_new
        (if legacy_max_iterations = - 1 then 256 else saturating_add legacy_max_iterations 16),
      tb_tool_round_limit =
        (if legacy_max_iterations \<noteq> - 1 then Some legacy_max_iterations else None),
      tb_tool_rounds_used = 0, tb_next_sample_index = 0, tb_final_answer_sample_started = False\<rparr>"

definition remaining_tool_rounds :: "turn_budget \<Rightarrow> u32 option" where
  "remaining_tool_rounds t =
     map_option (\<lambda>limit. saturating_sub limit (tb_tool_rounds_used t)) (tb_tool_round_limit t)"

definition final_answer_only :: "turn_budget \<Rightarrow> bool" where
  "final_answer_only t =
     (case tb_tool_round_limit t of Some limit \<Rightarrow> limit \<le> tb_tool_rounds_used t | None \<Rightarrow> False)"

definition turn_permit :: "turn_step_purpose \<Rightarrow> turn_budget \<Rightarrow> turn_step_permit option \<times> turn_budget" where
  "turn_permit purpose t =
     (if final_answer_only t \<and> purpose = Purpose_Normal \<and> tb_final_answer_sample_started t
      then (None, t)
      else
        (let t1 = (if final_answer_only t then t\<lparr>tb_final_answer_sample_started := True\<rparr> else t);
             p = \<lparr>tp_sample_index = tb_next_sample_index t1,
                  tp_mode = (if final_answer_only t then Mode_FinalAnswerOnly else Mode_ToolsAllowed),
                  tp_tool_rounds_used = tb_tool_rounds_used t1,
                  tp_remaining_tool_rounds = remaining_tool_rounds t1\<rparr>
         in (Some p, t1\<lparr>tb_next_sample_index := saturating_add (tb_next_sample_index t1) 1\<rparr>)))"

definition can_dispatch_tool_round :: "turn_budget \<Rightarrow> bool" where
  "can_dispatch_tool_round t =
     (case tb_tool_round_limit t of Some limit \<Rightarrow> tb_tool_rounds_used t < limit | None \<Rightarrow> True)"

definition record_verified_tool_round :: "turn_budget \<Rightarrow> turn_budget" where
  "record_verified_tool_round t =
     t\<lparr>tb_tool_rounds_used := saturating_add (tb_tool_rounds_used t) 1\<rparr>"

definition can_start_normal_step :: "turn_budget \<Rightarrow> bool" where
  "can_start_normal_step t =
     (case tb_tool_round_limit t of
        None \<Rightarrow> True
      | Some limit \<Rightarrow> tb_tool_rounds_used t < limit \<or> \<not> tb_final_answer_sample_started t)"

section \<open>Steps of a turn\<close>

datatype turn_op = TO_Permit turn_step_purpose | TO_ToolRound | TO_Request

record turn_state =
  ts_budget :: turn_budget
  ts_permits :: "(turn_step_purpose \<times> turn_step_permit) list"
  ts_rounds :: nat
  ts_requests :: nat

fun turn_step :: "turn_op \<Rightarrow> turn_state \<Rightarrow> turn_state" where
  "turn_step (TO_Permit purpose) s =
     (case turn_permit purpose (ts_budget s) of
        (None, t) \<Rightarrow> s\<lparr>ts_budget := t\<rparr>
      | (Some p, t) \<Rightarrow> s\<lparr>ts_budget := t, ts_permits := ts_permits s @ [(purpose, p)]\<rparr>)"
| "turn_step TO_ToolRound s =
     (if can_dispatch_tool_round (ts_budget s)
      then s\<lparr>ts_budget := record_verified_tool_round (ts_budget s), ts_rounds := Suc (ts_rounds s)\<rparr>
      else s)"
| "turn_step TO_Request s =
     (case acquire_request_budget (tb_requests (ts_budget s)) of
        (ok, b) \<Rightarrow> s\<lparr>ts_budget := (ts_budget s)\<lparr>tb_requests := b\<rparr>,
                     ts_requests := (if ok then Suc (ts_requests s) else ts_requests s)\<rparr>)"

definition turn_start :: "u32 \<Rightarrow> turn_state" where
  "turn_start n = \<lparr>ts_budget = turn_budget_new n, ts_permits = [], ts_rounds = 0, ts_requests = 0\<rparr>"

section \<open>Invariant\<close>

definition is_final_sample :: "turn_step_purpose \<times> turn_step_permit \<Rightarrow> bool" where
  "is_final_sample pp = (fst pp = Purpose_Normal \<and> tp_mode (snd pp) = Mode_FinalAnswerOnly)"

definition turn_inv :: "u32 \<Rightarrow> turn_state \<Rightarrow> bool" where
  "turn_inv n s =
     (let t = ts_budget s in
      tb_tool_round_limit t = tb_tool_round_limit (turn_budget_new n)
      \<and> rb_limit (tb_requests t) = rb_limit (tb_requests (turn_budget_new n))
      \<and> unat (rb_used (tb_requests t)) = ts_requests s
      \<and> ts_requests s \<le> unat (rb_limit (tb_requests t))
      \<and> (n \<noteq> - 1 \<longrightarrow> unat (tb_tool_rounds_used t) = ts_rounds s \<and> ts_rounds s \<le> unat n)
      \<and> count_where is_final_sample (ts_permits s) \<le> of_bool (tb_final_answer_sample_started t)
      \<and> (tb_final_answer_sample_started t \<longrightarrow> n \<noteq> - 1 \<and> ts_rounds s = unat n)
      \<and> list_all (\<lambda>pp. allows_tools (snd pp) \<longleftrightarrow>
            (n = - 1 \<or> tp_tool_rounds_used (snd pp) < n)) (ts_permits s))"

lemma turn_start_inv: "turn_inv n (turn_start n)"
  by (simp add: turn_inv_def turn_start_def Let_def turn_budget_new_def model_request_budget_new_def)

lemma unat_less_Suc:
  assumes "x < (y :: u32)"
  shows "unat (x + 1) = Suc (unat x)" "unat (saturating_add x 1) = Suc (unat x)"
proof -
  have "Suc (unat x) \<le> 2 ^ 32 - 1"
    using assms unat_le_max [of y] by (simp add: word_less_nat_alt)
  then show "unat (x + 1) = Suc (unat x)" "unat (saturating_add x 1) = Suc (unat x)"
    by (simp_all add: unat_word_ariths unat_saturating_add)
qed

lemma permit_inv: "turn_inv n s \<Longrightarrow> turn_inv n (turn_step (TO_Permit purpose) s)"
  by (auto simp: turn_inv_def Let_def turn_permit_def final_answer_only_def turn_budget_new_def
      is_final_sample_def allows_tools_def word_le_nat_alt word_less_nat_alt of_bool_def
      split: option.splits if_splits)

lemma round_inv: "turn_inv n s \<Longrightarrow> turn_inv n (turn_step TO_ToolRound s)"
  by (auto simp: turn_inv_def Let_def can_dispatch_tool_round_def record_verified_tool_round_def
      turn_budget_new_def unat_less_Suc(2) word_less_nat_alt split: option.splits if_splits)

lemma request_inv: "turn_inv n s \<Longrightarrow> turn_inv n (turn_step TO_Request s)"
  by (auto simp: turn_inv_def Let_def acquire_request_budget_def unat_less_Suc(1) word_less_nat_alt)

lemma turn_step_inv: "turn_inv n s \<Longrightarrow> turn_inv n (turn_step x s)"
  by (cases x) (simp_all add: permit_inv round_inv request_inv del: turn_step.simps)

interpretation turn: invariant_machine turn_step "turn_inv n"
  by unfold_locales (rule turn_step_inv)

section \<open>Properties\<close>

lemma permit_normal_iff: "fst (turn_permit Purpose_Normal t) \<noteq> None \<longleftrightarrow> can_start_normal_step t"
  by (auto simp: turn_permit_def can_start_normal_step_def final_answer_only_def Let_def
      not_less split: option.splits)

text \<open>
  In every turn, whatever the order of model steps, recoveries, tool rounds and provider
  requests: the requests sent never exceed the shared ceiling (the configured rounds plus 16, or
  256 when rounds are unlimited), the tool rounds never exceed the configured limit, a permit
  allows tools exactly when rounds were left, at most one normal step is an answer-only step and
  it comes only after the last round, and a normal step is granted exactly when
  \<open>can_start_normal_step\<close> says so.
\<close>

theorem turn_budget_bounds:
  assumes "s = run_ops turn_step ops (turn_start n)"
  shows "ts_requests s \<le> (if n = - 1 then 256 else min (unat n + 16) (2 ^ 32 - 1))
    \<and> (n \<noteq> - 1 \<longrightarrow> ts_rounds s \<le> unat n)
    \<and> list_all (\<lambda>pp. allows_tools (snd pp) \<longleftrightarrow> (n = - 1 \<or> tp_tool_rounds_used (snd pp) < n))
         (ts_permits s)
    \<and> count_where is_final_sample (ts_permits s) \<le> of_bool (n \<noteq> - 1 \<and> ts_rounds s = unat n)
    \<and> (fst (turn_permit Purpose_Normal (ts_budget s)) \<noteq> None
        \<longleftrightarrow> can_start_normal_step (ts_budget s))"
proof -
  have inv: "turn_inv n s"
    unfolding assms by (rule turn.run_inv [OF turn_start_inv])
  have limit: "unat (rb_limit (tb_requests (turn_budget_new n)))
      = (if n = - 1 then 256 else min (unat n + 16) (2 ^ 32 - 1))"
    by (simp add: turn_budget_new_def model_request_budget_new_def unat_saturating_add)
  have final: "count_where is_final_sample (ts_permits s) \<le> of_bool (n \<noteq> - 1 \<and> ts_rounds s = unat n)"
    using inv by (cases "tb_final_answer_sample_started (ts_budget s)") (auto simp: turn_inv_def Let_def)
  have "ts_requests s \<le> unat (rb_limit (tb_requests (turn_budget_new n)))"
    using inv by (auto simp: turn_inv_def Let_def)
  then have "ts_requests s \<le> (if n = - 1 then 256 else min (unat n + 16) (2 ^ 32 - 1))"
    unfolding limit .
  moreover have "n \<noteq> - 1 \<longrightarrow> ts_rounds s \<le> unat n"
    using inv by (simp add: turn_inv_def Let_def)
  moreover have "list_all (\<lambda>pp. allows_tools (snd pp) \<longleftrightarrow> (n = - 1 \<or> tp_tool_rounds_used (snd pp) < n))
      (ts_permits s)"
    using inv by (simp only: turn_inv_def Let_def)
  ultimately show ?thesis using final permit_normal_iff by blast
qed

text \<open>One tool round, then the answer-only sample, and no second one; a recovery is still granted.\<close>

definition sample_turn :: turn_state where
  "sample_turn = run_ops turn_step
     [TO_Permit Purpose_Normal, TO_Request, TO_ToolRound, TO_ToolRound, TO_Permit Purpose_Normal,
      TO_Request, TO_Permit Purpose_Normal, TO_Permit Purpose_Recovery] (turn_start 1)"

lemma sample_turn_eval:
  "ts_rounds sample_turn = 1" "ts_requests sample_turn = 2"
  "map (\<lambda>(q, p). (q, tp_mode p)) (ts_permits sample_turn) =
     [(Purpose_Normal, Mode_ToolsAllowed), (Purpose_Normal, Mode_FinalAnswerOnly),
      (Purpose_Recovery, Mode_FinalAnswerOnly)]"
  "can_start_normal_step (ts_budget sample_turn) = False"
  by code_simp+

theorem turn_budget_witness:
  "ts_requests sample_turn \<le> 17 \<and> ts_rounds sample_turn \<le> 1
   \<and> count_where is_final_sample (ts_permits sample_turn) \<le> 1
   \<and> fst (turn_permit Purpose_Normal (ts_budget sample_turn)) = None"
  using turn_budget_bounds [OF sample_turn_def] sample_turn_eval by simp

end
