(* ===== verification/Provider_Turn.thy ===== *)
theory Provider_Turn
  imports Nexa_Json Core_Error
begin

text \<open>
  The messages of a model request, \<open>crates/core/src/llm/mod.rs\<close>, and the provider turns that are
  kept with them, \<open>crates/core/src/llm/provider_turn.rs\<close>: the route a sample went through, the
  native state a provider wants back, and the question whether a sample may dispatch its tool calls.

  Parsing is third-party code: \<open>serde_env\<close> has one function for JSON text and one for each derived
  type that is read from a text, and the digest of an envelope.
\<close>

section \<open>Messages\<close>

datatype role = RoleSystem | RoleUser | RoleAssistant | RoleTool

datatype prompt_stability = Stable | Replayable | Volatile

datatype prompt_lifetime = LifetimeTurn | LifetimeStep

datatype cache_boundary_hint = PolicyEnd | StableEvidenceEnd | ReplayableTurnTail | LatestToolRound

record prompt_cache_hint =
  pch_stability :: prompt_stability
  pch_boundary :: cache_boundary_hint
  pch_lifetime :: prompt_lifetime

record tool_call_request =
  tc_id :: string
  tc_name :: string
  tc_arguments :: string
  tc_thought_signature :: "string option"

section \<open>Routes\<close>

datatype reasoning_api_style =
  OpenAiChatCompletions | OpenAiResponses | AnthropicMessages | GeminiGenerateContent | LocalStyle

datatype replay_policy =
  ReplayNotRequired | RequiredOnToolCall | RequiredAlways | OpaqueSignature | ReplayForbidden | ReplayUnknown

definition requires_tool_call_payload :: "replay_policy \<Rightarrow> bool" where
  "requires_tool_call_payload p \<longleftrightarrow> p \<in> set [RequiredOnToolCall, RequiredAlways, OpaqueSignature]"

definition authorizes_tool_call :: "replay_policy \<Rightarrow> bool \<Rightarrow> bool" where
  "authorizes_tool_call p payload_present = (case p of
     ReplayNotRequired \<Rightarrow> True
   | RequiredOnToolCall \<Rightarrow> payload_present
   | RequiredAlways \<Rightarrow> payload_present
   | OpaqueSignature \<Rightarrow> payload_present
   | ReplayForbidden \<Rightarrow> False
   | ReplayUnknown \<Rightarrow> False)"

datatype capture_status =
    CaptureCaptured | CaptureNotRequested | CaptureNotRequired | CaptureOmittedByProvider
  | CaptureMissingFromLegacyHistory | CaptureInterrupted | CaptureTruncated | CaptureRedacted

record route_snapshot =
  rs_provider_endpoint_id :: string
  rs_provider_family :: string
  rs_api_style :: reasoning_api_style
  rs_model_id :: string
  rs_reasoning_profile_id :: string
  rs_reasoning_profile_version :: u32
  rs_replay_policy :: replay_policy

definition route_unknown :: "string \<Rightarrow> string \<Rightarrow> replay_policy \<Rightarrow> route_snapshot" where
  "route_unknown provider_family model_id policy = \<lparr>
     rs_provider_endpoint_id = provider_family @ ''-unknown'', rs_provider_family = provider_family,
     rs_api_style = LocalStyle, rs_model_id = model_id, rs_reasoning_profile_id = ''unknown-v1'',
     rs_reasoning_profile_version = 1, rs_replay_policy = policy \<rparr>"

definition api_style_id :: "route_snapshot \<Rightarrow> string" where
  "api_style_id route = (case rs_api_style route of
     OpenAiChatCompletions \<Rightarrow> ''openAiChatCompletions''
   | OpenAiResponses \<Rightarrow> ''openAiResponses''
   | AnthropicMessages \<Rightarrow> ''anthropicMessages''
   | GeminiGenerateContent \<Rightarrow> ''geminiGenerateContent''
   | LocalStyle \<Rightarrow> ''local'')"

definition same_route_identity :: "route_snapshot \<Rightarrow> route_snapshot \<Rightarrow> bool" where
  "same_route_identity a b \<longleftrightarrow>
     rs_provider_endpoint_id a = rs_provider_endpoint_id b
     \<and> rs_provider_family a = rs_provider_family b
     \<and> rs_api_style a = rs_api_style b
     \<and> rs_model_id a = rs_model_id b
     \<and> rs_reasoning_profile_id a = rs_reasoning_profile_id b
     \<and> rs_reasoning_profile_version a = rs_reasoning_profile_version b"

section \<open>Native replay state\<close>

datatype anthropic_thinking_block = ThinkingBlock string string | RedactedThinkingBlock string

record gemini_thought_signature =
  gs_tool_call_id :: string
  gs_model_part_index :: "nat option"
  gs_signature :: string

record gemini_signature_set =
  gg_signatures :: "gemini_thought_signature list"
  gg_content_parts :: "json list"

record responses_payload =
  rp_response_status :: string
  rp_items :: "json list"

record serde_env =
  sd_json :: "string \<Rightarrow> json option"
  sd_anthropic :: "string \<Rightarrow> anthropic_thinking_block list option"
  sd_responses :: "string \<Rightarrow> responses_payload option"
  sd_gemini :: "string \<Rightarrow> gemini_signature_set option"

fun json_is_object :: "json \<Rightarrow> bool" where
  "json_is_object (JObject m) = True"
| "json_is_object _ = False"

definition array_arg :: "json \<Rightarrow> string \<Rightarrow> json list option" where
  "array_arg item k = Option.bind (json_get item k) json_as_array"

text \<open>A string field that is there and satisfies a test.\<close>

definition str_arg_is :: "(string \<Rightarrow> bool) \<Rightarrow> json \<Rightarrow> string \<Rightarrow> bool" where
  "str_arg_is p item k = (case str_arg item k of None \<Rightarrow> False | Some s \<Rightarrow> p s)"

abbreviation nonblank :: "string \<Rightarrow> bool" where "nonblank s \<equiv> trim s \<noteq> []"

definition nonempty_array_arg :: "json \<Rightarrow> string \<Rightarrow> bool" where
  "nonempty_array_arg item k = (case array_arg item k of None \<Rightarrow> False | Some xs \<Rightarrow> xs \<noteq> [])"

subsection \<open>Items of the responses dialect\<close>

definition reasoning_text_part :: "json \<Rightarrow> bool" where
  "reasoning_text_part part \<longleftrightarrow> str_arg part ''type'' = Some ''reasoning_text'' \<and> str_arg part ''text'' \<noteq> None"

fun continuation_items :: "bool \<Rightarrow> bool \<Rightarrow> json list \<Rightarrow> bool" where
  "continuation_items encrypted has_reasoning [] = has_reasoning"
| "continuation_items encrypted has_reasoning (item # items) = (
     if \<not> str_arg_is (\<lambda>s. s \<noteq> []) item ''id''
       \<or> \<not> str_arg_is (\<lambda>s. s \<in> set [''completed'', ''incomplete'']) item ''status'' then False
     else if str_arg item ''type'' = Some ''reasoning'' then
       (let valid = (if encrypted then str_arg_is (\<lambda>s. s \<noteq> []) item ''encrypted_content''
          else (case array_arg item ''content'' of
              None \<Rightarrow> False
            | Some parts \<Rightarrow> parts \<noteq> [] \<and> list_all reasoning_text_part parts))
        in if valid then continuation_items encrypted True items else False)
     else if str_arg item ''type'' = Some ''message'' then
       (if str_arg item ''role'' \<noteq> Some ''assistant'' \<or> \<not> nonempty_array_arg item ''content'' then False
        else continuation_items encrypted has_reasoning items)
     else False)"

definition is_output_continuation :: "bool \<Rightarrow> responses_payload \<Rightarrow> bool" where
  "is_output_continuation encrypted payload = (
     if rp_response_status payload \<noteq> ''incomplete'' \<or> rp_items payload = [] then False
     else continuation_items encrypted False (rp_items payload))"

definition completed_item :: "json \<Rightarrow> bool" where
  "completed_item item \<longleftrightarrow> str_arg_is nonblank item ''id'' \<and> str_arg item ''status'' = Some ''completed''"

definition function_call_complete :: "serde_env \<Rightarrow> json \<Rightarrow> bool" where
  "function_call_complete serde item \<longleftrightarrow>
     str_arg_is nonblank item ''call_id'' \<and> str_arg_is nonblank item ''name''
     \<and> (case Option.bind (str_arg item ''arguments'') (sd_json serde) of
          None \<Rightarrow> False | Some arguments \<Rightarrow> json_is_object arguments)"

fun complete_items :: "serde_env \<Rightarrow> bool \<Rightarrow> bool \<Rightarrow> json list \<Rightarrow> bool" where
  "complete_items serde encrypted saw_reasoning [] = saw_reasoning"
| "complete_items serde encrypted saw_reasoning (item # items) = (
     if str_arg item ''type'' = Some ''reasoning'' then
       (let has_state = (if encrypted then str_arg_is nonblank item ''encrypted_content''
          else nonempty_array_arg item ''content'')
        in if \<not> completed_item item \<or> \<not> has_state then False else complete_items serde encrypted True items)
     else if str_arg item ''type'' = Some ''web_search_call'' then
       (if \<not> completed_item item then False else complete_items serde encrypted saw_reasoning items)
     else if str_arg item ''type'' = Some ''message'' then
       (if \<not> completed_item item \<or> \<not> nonempty_array_arg item ''content'' then False
        else complete_items serde encrypted saw_reasoning items)
     else if str_arg item ''type'' = Some ''function_call'' then
       (if \<not> saw_reasoning \<or> \<not> completed_item item \<or> \<not> function_call_complete serde item then False
        else complete_items serde encrypted saw_reasoning items)
     else False)"

definition is_structurally_complete :: "serde_env \<Rightarrow> bool \<Rightarrow> responses_payload \<Rightarrow> bool" where
  "is_structurally_complete serde encrypted payload = (
     if rp_response_status payload \<noteq> ''completed'' \<or> rp_items payload = [] then False
     else complete_items serde encrypted False (rp_items payload))"

definition responses_call_matches :: "serde_env \<Rightarrow> json \<Rightarrow> tool_call_request \<Rightarrow> bool" where
  "responses_call_matches serde item call \<longleftrightarrow>
     str_arg item ''call_id'' = Some (tc_id call)
     \<and> str_arg item ''name'' = Some (tc_name call)
     \<and> Option.bind (str_arg item ''arguments'') (sd_json serde) = sd_json serde (tc_arguments call)"

definition responses_authorizes :: "serde_env \<Rightarrow> bool \<Rightarrow> responses_payload \<Rightarrow> tool_call_request list \<Rightarrow> bool" where
  "responses_authorizes serde encrypted payload calls = (
     if \<not> is_structurally_complete serde encrypted payload then False
     else let provider_calls = filter (\<lambda>item. str_arg item ''type'' = Some ''function_call'') (rp_items payload)
       in length provider_calls = length calls
          \<and> list_all (\<lambda>(item, call). responses_call_matches serde item call) (zip provider_calls calls))"

subsection \<open>Parts of the Gemini dialect\<close>

definition signed_parts :: "json list \<Rightarrow> (nat \<times> string) list" where
  "signed_parts parts = concat (map (\<lambda>(index, part). case str_arg part ''thoughtSignature'' of
       None \<Rightarrow> [] | Some signature \<Rightarrow> if nonblank signature then [(index, signature)] else [])
     (enumerate 0 parts))"

definition has_valid_signature_positions :: "gemini_signature_set \<Rightarrow> bool" where
  "has_valid_signature_positions g \<longleftrightarrow>
     gg_content_parts g \<noteq> []
     \<and> length (signed_parts (gg_content_parts g)) = length (gg_signatures g)
     \<and> list_all (\<lambda>(index, signature). list_ex (\<lambda>captured. gs_model_part_index captured = Some index
          \<and> gs_signature captured = signature) (gg_signatures g)) (signed_parts (gg_content_parts g))"

definition gemini_call_matches :: "serde_env \<Rightarrow> json \<Rightarrow> tool_call_request \<Rightarrow> bool" where
  "gemini_call_matches serde provider_call call \<longleftrightarrow>
     str_arg provider_call ''name'' = Some (tc_name call)
     \<and> json_get provider_call ''args'' = sd_json serde (tc_arguments call)
     \<and> (case str_arg provider_call ''id'' of None \<Rightarrow> True | Some i \<Rightarrow> i = tc_id call)"

definition first_function_signed :: "json list \<Rightarrow> bool" where
  "first_function_signed parts = (
     case map (\<lambda>part. str_arg_is nonblank part ''thoughtSignature'')
            (filter (\<lambda>part. json_get part ''functionCall'' \<noteq> None) parts) of
       [] \<Rightarrow> False
     | first # rest \<Rightarrow> first \<and> \<not> list_ex (\<lambda>signed. signed) rest)"

definition gemini_authorizes :: "serde_env \<Rightarrow> bool \<Rightarrow> gemini_signature_set \<Rightarrow> tool_call_request list \<Rightarrow> bool" where
  "gemini_authorizes serde require_first g calls = (
     if \<not> has_valid_signature_positions g then False
     else if require_first \<and> \<not> first_function_signed (gg_content_parts g) then False
     else let provider_calls = List.map_filter (\<lambda>part. json_get part ''functionCall'') (gg_content_parts g)
       in length provider_calls = length calls
          \<and> list_all (\<lambda>(item, call). gemini_call_matches serde item call) (zip provider_calls calls))"

subsection \<open>Blocks of a paused Anthropic turn\<close>

definition paused_block_ok :: "json \<Rightarrow> bool" where
  "paused_block_ok block = (case str_arg block ''type'' of
     None \<Rightarrow> False
   | Some t \<Rightarrow>
       if t = ''text'' then str_arg block ''text'' \<noteq> None
       else if t = ''thinking'' then str_arg block ''thinking'' \<noteq> None \<and> str_arg_is nonblank block ''signature''
       else if t = ''redacted_thinking'' then str_arg_is nonblank block ''data''
       else if t = ''server_tool_use'' then str_arg_is nonblank block ''id'' \<and> str_arg_is nonblank block ''name''
         \<and> json_get block ''input'' \<noteq> None
       else if ends_with t ''_tool_result'' then str_arg_is nonblank block ''tool_use_id''
         \<and> json_get block ''content'' \<noteq> None
       else False)"

definition anthropic_paused_turn_blocks_are_replayable :: "json list \<Rightarrow> bool" where
  "anthropic_paused_turn_blocks_are_replayable blocks \<longleftrightarrow>
     blocks \<noteq> []
     \<and> list_ex (\<lambda>block. str_arg_is (\<lambda>t. t = ''server_tool_use'' \<or> ends_with t ''_tool_result'') block ''type'') blocks
     \<and> list_all paused_block_ok blocks"

section \<open>Payloads\<close>

datatype replay_payload =
    DeepSeekReasoningContent string
  | DeepSeekResponseItems responses_payload
  | AnthropicThinkingBlocks "anthropic_thinking_block list"
  | AnthropicPausedTurnBlocks "json list"
  | OpenAiResponseItems responses_payload
  | GeminiThoughtSignatures gemini_signature_set
  | OpenAiCompatibleReasoningContent string string
  | OpenRouterReasoningDetails "json list"
  | NoPayload

definition payload_is_present :: "serde_env \<Rightarrow> replay_payload \<Rightarrow> bool" where
  "payload_is_present serde payload = (case payload of
     DeepSeekReasoningContent content \<Rightarrow> nonblank content
   | OpenAiCompatibleReasoningContent field content \<Rightarrow> nonblank content
   | AnthropicThinkingBlocks blocks \<Rightarrow> blocks \<noteq> []
   | AnthropicPausedTurnBlocks blocks \<Rightarrow> anthropic_paused_turn_blocks_are_replayable blocks
   | OpenRouterReasoningDetails details \<Rightarrow> details \<noteq> []
   | DeepSeekResponseItems p \<Rightarrow> is_structurally_complete serde False p \<or> is_output_continuation False p
   | OpenAiResponseItems p \<Rightarrow> is_structurally_complete serde True p \<or> is_output_continuation True p
   | GeminiThoughtSignatures g \<Rightarrow> gg_signatures g \<noteq> [] \<and> has_valid_signature_positions g
   | NoPayload \<Rightarrow> False)"

definition payload_reasoning_content :: "replay_payload \<Rightarrow> string option" where
  "payload_reasoning_content payload = (case payload of
     DeepSeekReasoningContent content \<Rightarrow> if nonblank content then Some content else None
   | OpenAiCompatibleReasoningContent field content \<Rightarrow> if nonblank content then Some content else None
   | _ \<Rightarrow> None)"

definition resumes_provider_pause :: "serde_env \<Rightarrow> replay_payload \<Rightarrow> bool" where
  "resumes_provider_pause serde payload = (case payload of
     AnthropicPausedTurnBlocks blocks \<Rightarrow> payload_is_present serde payload
   | _ \<Rightarrow> False)"

definition payload_authorizes_tool_calls ::
  "serde_env \<Rightarrow> route_snapshot \<Rightarrow> tool_call_request list \<Rightarrow> replay_payload \<Rightarrow> bool" where
  "payload_authorizes_tool_calls serde route calls payload = (case payload of
     DeepSeekResponseItems p \<Rightarrow> responses_authorizes serde False p calls
   | OpenAiResponseItems p \<Rightarrow> responses_authorizes serde True p calls
   | AnthropicPausedTurnBlocks blocks \<Rightarrow> calls = [] \<and> payload_is_present serde payload
   | GeminiThoughtSignatures g \<Rightarrow> gemini_authorizes serde
       (starts_with (to_ascii_lowercase
          (unwrap_or (rs_model_id route) (strip_prefix (rs_model_id route) ''models/''))) ''gemini-3'') g calls
   | _ \<Rightarrow> payload_is_present serde payload)"

text \<open>Reading native state back from the signature that carries it.\<close>

definition ANTHROPIC_THINKING_SIGNATURE_PREFIX :: string where
  "ANTHROPIC_THINKING_SIGNATURE_PREFIX = ''nexa.anthropic.thinking.v1:''"
definition RESPONSES_REASONING_SIGNATURE_PREFIX :: string where
  "RESPONSES_REASONING_SIGNATURE_PREFIX = ''nexa.responses.reasoning.v1:''"
definition GEMINI_THOUGHT_SIGNATURE_PREFIX :: string where
  "GEMINI_THOUGHT_SIGNATURE_PREFIX = ''nexa.gemini.thought.v1:''"

definition decode_anthropic_thinking_blocks :: "serde_env \<Rightarrow> string \<Rightarrow> anthropic_thinking_block list option" where
  "decode_anthropic_thinking_blocks serde signature =
     Option.bind (strip_prefix signature ANTHROPIC_THINKING_SIGNATURE_PREFIX) (sd_anthropic serde)"

definition decode_responses_reasoning_items :: "serde_env \<Rightarrow> string \<Rightarrow> responses_payload option" where
  "decode_responses_reasoning_items serde signature =
     Option.bind (strip_prefix signature RESPONSES_REASONING_SIGNATURE_PREFIX) (\<lambda>payload.
       opt_or (sd_responses serde payload)
         (map_option (\<lambda>items. \<lparr> rp_response_status = ''legacy_unknown'', rp_items = items \<rparr>)
           (Option.bind (sd_json serde payload) json_as_array)))"

definition decode_gemini_thought_signatures :: "serde_env \<Rightarrow> string \<Rightarrow> gemini_signature_set option" where
  "decode_gemini_thought_signatures serde signature =
     Option.bind (strip_prefix signature GEMINI_THOUGHT_SIGNATURE_PREFIX) (sd_gemini serde)"

definition raw_gemini_thought_signature :: "serde_env \<Rightarrow> string \<Rightarrow> string" where
  "raw_gemini_thought_signature serde signature =
     (case decode_gemini_thought_signatures serde signature of
        None \<Rightarrow> signature
      | Some captured \<Rightarrow> (case gg_signatures captured of [] \<Rightarrow> signature | s # _ \<Rightarrow> gs_signature s))"

definition thought_signatures :: "tool_call_request list \<Rightarrow> string list" where
  "thought_signatures calls = List.map_filter tc_thought_signature calls"

definition capture_gemini :: "serde_env \<Rightarrow> tool_call_request list \<Rightarrow> replay_payload" where
  "capture_gemini serde calls =
     (case find_map (decode_gemini_thought_signatures serde) (thought_signatures calls) of
        Some payload \<Rightarrow> GeminiThoughtSignatures payload
      | None \<Rightarrow>
          let signatures = List.map_filter (\<lambda>call. map_option (\<lambda>signature.
              \<lparr> gs_tool_call_id = tc_id call, gs_model_part_index = None, gs_signature = signature \<rparr>)
                (trimmed_nonempty (tc_thought_signature call))) calls
          in if signatures = [] then NoPayload
             else GeminiThoughtSignatures \<lparr> gg_signatures = signatures, gg_content_parts = [] \<rparr>)"

definition capture_payload ::
  "serde_env \<Rightarrow> route_snapshot \<Rightarrow> string option \<Rightarrow> tool_call_request list \<Rightarrow> replay_payload" where
  "capture_payload serde route reasoning calls = (case rs_api_style route of
     AnthropicMessages \<Rightarrow>
       (case find_map (decode_anthropic_thinking_blocks serde) (thought_signatures calls) of
          None \<Rightarrow> NoPayload
        | Some blocks \<Rightarrow> if blocks = [] then NoPayload else AnthropicThinkingBlocks blocks)
   | OpenAiResponses \<Rightarrow>
       (case find_map (decode_responses_reasoning_items serde) (thought_signatures calls) of
          None \<Rightarrow> NoPayload
        | Some payload \<Rightarrow> if rp_items payload = [] then NoPayload
            else if rs_provider_family route = ''deepseek'' then DeepSeekResponseItems payload
            else OpenAiResponseItems payload)
   | GeminiGenerateContent \<Rightarrow> capture_gemini serde calls
   | OpenAiChatCompletions \<Rightarrow>
       (case trimmed_nonempty reasoning of
          None \<Rightarrow> NoPayload
        | Some content \<Rightarrow>
            if rs_provider_family route = ''deepseek'' then DeepSeekReasoningContent content
            else OpenAiCompatibleReasoningContent ''reasoning_content'' content)
   | LocalStyle \<Rightarrow> NoPayload)"

datatype replay_item =
    ItemDeepSeekReasoningContent string
  | ItemDeepSeekResponse json
  | ItemAnthropicThinkingBlock anthropic_thinking_block
  | ItemAnthropicPausedTurnBlock json
  | ItemOpenAiResponse json
  | ItemGeminiContentPart json
  | ItemOpenAiCompatibleReasoningContent string string
  | ItemOpenRouterReasoningDetail json

definition replay_items_from_payload :: "replay_payload \<Rightarrow> replay_item list" where
  "replay_items_from_payload payload = (case payload of
     DeepSeekReasoningContent content \<Rightarrow> [ItemDeepSeekReasoningContent content]
   | AnthropicThinkingBlocks blocks \<Rightarrow> map ItemAnthropicThinkingBlock blocks
   | AnthropicPausedTurnBlocks blocks \<Rightarrow> map ItemAnthropicPausedTurnBlock blocks
   | DeepSeekResponseItems p \<Rightarrow> map ItemDeepSeekResponse (rp_items p)
   | OpenAiResponseItems p \<Rightarrow> map ItemOpenAiResponse (rp_items p)
   | GeminiThoughtSignatures g \<Rightarrow> map ItemGeminiContentPart (gg_content_parts g)
   | OpenAiCompatibleReasoningContent field content \<Rightarrow> [ItemOpenAiCompatibleReasoningContent field content]
   | OpenRouterReasoningDetails details \<Rightarrow> map ItemOpenRouterReasoningDetail details
   | NoPayload \<Rightarrow> [])"

section \<open>Envelopes\<close>

record provider_turn_envelope =
  pt_turn_item_id :: string
  pt_sample_id :: string
  pt_route :: route_snapshot
  pt_visible_content :: string
  pt_provider_items :: "replay_item list"
  pt_replay_payload :: replay_payload
  pt_tool_calls :: "tool_call_request list"
  pt_capture_status :: capture_status
  pt_request_id :: "string option"
  pt_response_id :: "string option"
  pt_raw_response_digest :: string

text \<open>The digest hashes the JSON of route, visible content, items and calls; the hash is an argument.\<close>

type_synonym digest_fun = "route_snapshot \<Rightarrow> string \<Rightarrow> replay_item list \<Rightarrow> tool_call_request list \<Rightarrow> string"

definition capture_with_replay_payload ::
  "serde_env \<Rightarrow> digest_fun \<Rightarrow> string \<Rightarrow> string \<Rightarrow> route_snapshot \<Rightarrow> string \<Rightarrow> string option \<Rightarrow> string option
     \<Rightarrow> tool_call_request list \<Rightarrow> bool \<Rightarrow> replay_payload option \<Rightarrow> provider_turn_envelope" where
  "capture_with_replay_payload serde digest turn_item_id sample_id route visible_content display_reasoning
     replay_reasoning calls reasoning_was_requested provider_replay = (
     let captured_replay = capture_payload serde route replay_reasoning calls;
         payload = (case provider_replay of
             None \<Rightarrow> captured_replay
           | Some p \<Rightarrow> if payload_is_present serde p then p else captured_replay);
         required = (calls \<noteq> [] \<and> requires_tool_call_payload (rs_replay_policy route));
         status = (if payload_is_present serde payload then CaptureCaptured
           else if required then CaptureOmittedByProvider
           else if \<not> reasoning_was_requested then CaptureNotRequested
           else if display_reasoning \<noteq> None then CaptureRedacted
           else CaptureNotRequired);
         items = replay_items_from_payload payload
     in \<lparr> pt_turn_item_id = turn_item_id, pt_sample_id = sample_id, pt_route = route,
          pt_visible_content = visible_content, pt_provider_items = items, pt_replay_payload = payload,
          pt_tool_calls = calls, pt_capture_status = status, pt_request_id = None, pt_response_id = None,
          pt_raw_response_digest = digest route visible_content items calls \<rparr>)"

definition capture_envelope ::
  "serde_env \<Rightarrow> digest_fun \<Rightarrow> string \<Rightarrow> string \<Rightarrow> route_snapshot \<Rightarrow> string \<Rightarrow> string option \<Rightarrow> string option
     \<Rightarrow> tool_call_request list \<Rightarrow> bool \<Rightarrow> provider_turn_envelope" where
  "capture_envelope serde digest turn_item_id sample_id route visible_content display_reasoning
     replay_reasoning calls reasoning_was_requested =
     capture_with_replay_payload serde digest turn_item_id sample_id route visible_content display_reasoning
       replay_reasoning calls reasoning_was_requested None"

definition authorizes_tool_dispatch :: "serde_env \<Rightarrow> provider_turn_envelope \<Rightarrow> bool" where
  "authorizes_tool_dispatch serde e = (
     if pt_tool_calls e = [] then True
     else let payload_supplied = (pt_replay_payload e \<noteq> NoPayload);
              payload_valid = payload_authorizes_tool_calls serde (pt_route e) (pt_tool_calls e) (pt_replay_payload e)
       in if rs_replay_policy (pt_route e) = ReplayNotRequired \<and> payload_supplied then payload_valid
          else authorizes_tool_call (rs_replay_policy (pt_route e)) payload_valid)"

definition is_compatible_with :: "provider_turn_envelope \<Rightarrow> route_snapshot \<Rightarrow> bool" where
  "is_compatible_with e route \<longleftrightarrow> pt_route e = route
     \<or> (rs_replay_policy route = ReplayNotRequired \<and> same_route_identity (pt_route e) route)"

section \<open>Messages with their parts\<close>

datatype content_part =
    PartText string
  | PartImage string string
  | PartProviderTurn provider_turn_envelope

record message =
  cm_role :: role
  cm_parts :: "content_part list"
  cm_name :: "string option"
  cm_tool_calls :: "tool_call_request list option"
  cm_reasoning_content :: "string option"
  cm_prompt_cache_hint :: "prompt_cache_hint option"

definition text_message :: "role \<Rightarrow> string \<Rightarrow> message" where
  "text_message r content = \<lparr> cm_role = r, cm_parts = [PartText content], cm_name = None,
     cm_tool_calls = None, cm_reasoning_content = None, cm_prompt_cache_hint = None \<rparr>"

definition text_with_name :: "role \<Rightarrow> string \<Rightarrow> string \<Rightarrow> message" where
  "text_with_name r content name = (text_message r content) \<lparr> cm_name := Some name \<rparr>"

definition with_prompt_cache_hint :: "prompt_stability \<Rightarrow> cache_boundary_hint \<Rightarrow> message \<Rightarrow> message" where
  "with_prompt_cache_hint stability boundary m = m \<lparr> cm_prompt_cache_hint :=
     Some \<lparr> pch_stability = stability, pch_boundary = boundary, pch_lifetime = LifetimeTurn \<rparr> \<rparr>"

definition with_prompt_lifetime :: "prompt_lifetime \<Rightarrow> message \<Rightarrow> message" where
  "with_prompt_lifetime lifetime m = m \<lparr> cm_prompt_cache_hint :=
     map_option (\<lambda>hint. hint \<lparr> pch_lifetime := lifetime \<rparr>) (cm_prompt_cache_hint m) \<rparr>"

definition prompt_lifetime_of :: "message \<Rightarrow> prompt_lifetime" where
  "prompt_lifetime_of m = (case cm_prompt_cache_hint m of None \<Rightarrow> LifetimeTurn | Some hint \<Rightarrow> pch_lifetime hint)"

fun part_text :: "content_part \<Rightarrow> string option" where
  "part_text (PartText t) = Some t"
| "part_text _ = None"

fun is_image_part :: "content_part \<Rightarrow> bool" where
  "is_image_part (PartImage t d) = True"
| "is_image_part _ = False"

fun part_envelope :: "content_part \<Rightarrow> provider_turn_envelope option" where
  "part_envelope (PartProviderTurn e) = Some e"
| "part_envelope _ = None"

definition text_content :: "message \<Rightarrow> string" where
  "text_content m = join_with [CHR 0x0A] (List.map_filter part_text (cm_parts m))"

definition has_images :: "message \<Rightarrow> bool" where
  "has_images m \<longleftrightarrow> list_ex is_image_part (cm_parts m)"

definition image_parts :: "message \<Rightarrow> content_part list" where
  "image_parts m = filter is_image_part (cm_parts m)"

definition provider_turn :: "message \<Rightarrow> provider_turn_envelope option" where
  "provider_turn m = find_map part_envelope (cm_parts m)"

definition clear_provider_turn :: "message \<Rightarrow> message" where
  "clear_provider_turn m = m \<lparr> cm_parts := filter (\<lambda>p. part_envelope p = None) (cm_parts m),
     cm_tool_calls := map_option (map (\<lambda>c. c \<lparr> tc_thought_signature := None \<rparr>)) (cm_tool_calls m) \<rparr>"

definition set_provider_turn :: "provider_turn_envelope \<Rightarrow> message \<Rightarrow> message" where
  "set_provider_turn e m = (let m' = clear_provider_turn m in m' \<lparr> cm_parts := cm_parts m' @ [PartProviderTurn e] \<rparr>)"

section \<open>What a dispatched call rests on\<close>

text \<open>The calls a native state names, with the arguments it has for them.\<close>

type_synonym native_call = "string option \<times> string \<times> json option"

definition native_responses_calls :: "serde_env \<Rightarrow> responses_payload \<Rightarrow> native_call list" where
  "native_responses_calls serde p = map (\<lambda>item. (str_arg item ''call_id'',
       unwrap_or [] (str_arg item ''name''), Option.bind (str_arg item ''arguments'') (sd_json serde)))
     (filter (\<lambda>item. str_arg item ''type'' = Some ''function_call'') (rp_items p))"

fun native_calls :: "serde_env \<Rightarrow> replay_payload \<Rightarrow> native_call list option" where
  "native_calls serde (DeepSeekResponseItems p) = Some (native_responses_calls serde p)"
| "native_calls serde (OpenAiResponseItems p) = Some (native_responses_calls serde p)"
| "native_calls serde (GeminiThoughtSignatures g) = Some (map (\<lambda>call. (str_arg call ''id'',
       unwrap_or [] (str_arg call ''name''), json_get call ''args''))
     (List.map_filter (\<lambda>part. json_get part ''functionCall'') (gg_content_parts g)))"
| "native_calls serde (AnthropicPausedTurnBlocks blocks) = Some []"
| "native_calls serde _ = None"

text \<open>A requested call agrees with a native one: same name and arguments, and the same id where one is given.\<close>

definition call_agrees :: "serde_env \<Rightarrow> native_call \<Rightarrow> tool_call_request \<Rightarrow> bool" where
  "call_agrees serde native call = (case native of (i, name, arguments) \<Rightarrow>
     (\<forall>j \<in> set_option i. j = tc_id call) \<and> name = tc_name call \<and> arguments = sd_json serde (tc_arguments call))"

lemma list_all_zip_all2:
  "length xs = length ys \<Longrightarrow> list_all (\<lambda>(x, y). P x y) (zip xs ys) = list_all2 P xs ys"
  by (auto simp: list_all2_iff list_all_iff)

lemma responses_call_matches_agrees:
  "responses_call_matches serde item call \<Longrightarrow> call_agrees serde (str_arg item ''call_id'',
     unwrap_or [] (str_arg item ''name''), Option.bind (str_arg item ''arguments'') (sd_json serde)) call"
  by (simp add: responses_call_matches_def call_agrees_def)

lemma gemini_call_matches_agrees:
  "gemini_call_matches serde item call \<Longrightarrow>
     call_agrees serde (str_arg item ''id'', unwrap_or [] (str_arg item ''name''), json_get item ''args'') call"
  by (auto simp: gemini_call_matches_def call_agrees_def split: option.splits)

lemma payload_authorizes_native:
  assumes "payload_authorizes_tool_calls serde route calls payload" "native_calls serde payload = Some native"
  shows "list_all2 (call_agrees serde) native calls"
  using assms
  by (cases payload)
    (auto simp: payload_authorizes_tool_calls_def responses_authorizes_def gemini_authorizes_def Let_def
      native_responses_calls_def list_all_zip_all2 list_all2_map1 intro: responses_call_matches_agrees gemini_call_matches_agrees
      elim!: list.rel_mono_strong split: if_splits)

lemma payload_authorizes_present:
  "payload_authorizes_tool_calls serde route calls payload \<Longrightarrow> calls \<noteq> [] \<Longrightarrow> payload \<noteq> NoPayload"
  by (auto simp: payload_authorizes_tool_calls_def payload_is_present_def)

end
