(* ===== verification/Model_Attempt.thy ===== *)
theory Model_Attempt
  imports Stream_Recovery Turn_Budget Provider_Turn
begin

text \<open>
  One logical model sample, \<open>crates/core/src/agent/model_attempt.rs\<close>: the phases of the attempt,
  the retries of its connection and of its stream, the replay barrier behind which nothing is sent
  again, the events it queues for the host and the progress it returns.

  An iteration of the loop in \<open>next_uncancelled\<close> is the function \<open>attempt_iteration\<close>. The answers of
  the world during an iteration (the provider's result, the next stream event, the clock, fresh
  identifiers, the provider's route, how many events the host channel takes without waiting)
  are the record \<open>attempt_env\<close>; the in-flight futures of the phases carry no state of their own. An
  iteration awaits before it changes anything, so dropping \<open>next\<close> at an await leaves the state of
  the last iteration, and cancellation is a step of its own. The projection of the message history
  for the provider is reduced to the number of units it omits. What the provider hands through
  (tool deltas, hosted tools, replay state, responses) is of an arbitrary type. The log records
  requests, events sent to the host and progress returned to the caller, in order; \<open>ma_panicked\<close>
  marks a failed \<open>expect\<close>.
\<close>

section \<open>Types\<close>

record 'x stream_chunk =
  ck_delta :: string
  ck_tool_call_delta :: "'x option"
  ck_thinking_delta :: "string option"

datatype provider_stream_failure =
    PF_Provider string
  | PF_ProviderUnavailable u16 string
  | PF_RateLimited u64
  | PF_ContextOverflow u32 u32
  | PF_Internal string

fun into_core_error :: "provider_stream_failure \<Rightarrow> core_error" where
  "into_core_error (PF_Provider message) = CE_Llm message"
| "into_core_error (PF_ProviderUnavailable status message) = CE_ProviderUnavailable status message"
| "into_core_error (PF_RateLimited secs) = CE_RateLimited secs"
| "into_core_error (PF_ContextOverflow a b) = CE_ContextOverflow a b"
| "into_core_error (PF_Internal message) = CE_Internal message"

datatype provider_recovery_category = PRC_Network | PRC_Provider

datatype 'x provider_stream_event =
    PS_Chunk "'x stream_chunk"
  | PS_HostedTool 'x
  | PS_ReplayState 'x
  | PS_RecoverableError string provider_recovery_category
  | PS_Cancelled string
  | PS_TerminalError provider_stream_failure

datatype connection_error_category =
    EC_Network | EC_Timeout | EC_RateLimit | EC_ProviderUnavailable | EC_Authentication | EC_Unknown

datatype connection_state_kind =
    CS_Degraded | CS_Reconnecting | CS_Recovered | CS_Offline | CS_Failed

record accepted_attempt =
  aa_sample_id :: string
  aa_route :: route_snapshot
  aa_omitted_units :: nat

record attempt_timing =
  at_request_latency_ms :: u64
  at_time_to_first_token_ms :: "u64 option"

datatype 'x accepted_event = AV_Chunk "'x stream_chunk" | AV_HostedTool 'x | AV_ReplayState 'x

datatype failure_stage = FS_Connect | FS_Stream | FS_Completion

record attempt_failure =
  af_stage :: failure_stage
  af_error :: core_error
  af_user_message :: string
  af_trace_message :: string
  af_accepted :: "accepted_attempt option"
  af_timing :: attempt_timing

datatype 'x attempt_progress =
    MP_StreamOpened
  | MP_Provider "'x accepted_event" accepted_attempt bool
  | MP_StreamComplete accepted_attempt attempt_timing
  | MP_Completion 'x accepted_attempt attempt_timing bool
  | MP_InterruptedAfterReplayBarrier accepted_attempt string string attempt_timing
  | MP_NeedsContextCompaction core_error attempt_timing
  | MP_Failed attempt_failure
  | MP_Cancelled string "accepted_attempt option" attempt_timing

datatype attempt_phase =
    PH_ReadyToStream
  | PH_OpeningStream
  | PH_WaitingToRetryStream duration_ms
  | PH_Streaming
  | PH_ReadyToComplete bool
  | PH_OpeningCompletion bool
  | PH_WaitingToRetryCompletion duration_ms bool
  | PH_Done

record recovery_signal =
  sg_attempt :: u32
  sg_max_attempts :: u32

record connection_state_event =
  ce_state :: connection_state_kind
  ce_provider_id :: string
  ce_model_id :: string
  ce_error_category :: "connection_error_category option"
  ce_attempt :: u32
  ce_max_attempts :: u32
  ce_next_retry_at :: "string option"
  ce_recoverable :: bool
  ce_queued_user_inputs :: u32
  ce_turn_preserved :: bool

datatype attempt_event =
    AE_ControllerStatus string string
  | AE_ConnectionState connection_state_event
  | AE_StreamReset string bool

datatype 'x attempt_log =
    Log_Request
  | Log_Event attempt_event
  | Log_Progress "'x attempt_progress"

record 'x model_attempt =
  ma_request_budget :: "model_request_budget option"
  ma_policy :: stream_recovery_policy
  ma_phase :: attempt_phase
  ma_candidate_sample_id :: "string option"
  ma_accepted :: "accepted_attempt option"
  ma_sample_progress_seen :: bool
  ma_replay_barrier_crossed :: bool
  ma_disconnect_retries :: u32
  ma_pending_recovery :: "recovery_signal option"
  ma_time_to_first_token_ms :: "u64 option"
  ma_initial_provider_id :: string
  ma_initial_model_id :: string
  ma_connect_retries :: u32
  ma_candidate_projection_omitted_units :: "nat option"
  ma_pending_agent_events :: "attempt_event list"
  ma_pending_progress :: "'x attempt_progress option"
  ma_log :: "'x attempt_log list"
  ma_panicked :: bool

record 'x attempt_env =
  en_open :: "core_error + unit"
  en_event :: "'x provider_stream_event option"
  en_complete :: "core_error + 'x"
  en_elapsed_ms :: u64
  en_sample_id :: string
  en_route :: route_snapshot
  en_projection :: "nat option"
  en_route_omitted :: nat
  en_try_send :: nat
  en_retry_at :: "duration_ms \<Rightarrow> string option"
  en_foreign :: string

section \<open>Construction\<close>

definition model_attempt_new :: "string \<Rightarrow> string \<Rightarrow> u32 option \<Rightarrow> bool \<Rightarrow> 'x model_attempt" where
  "model_attempt_new provider_name model stream_max_retries force_non_streaming =
     \<lparr>ma_request_budget = None,
      ma_policy = with_stream_max_retries stream_max_retries stream_recovery_policy_default,
      ma_phase = (if force_non_streaming then PH_ReadyToComplete False else PH_ReadyToStream),
      ma_candidate_sample_id = None, ma_accepted = None, ma_sample_progress_seen = False,
      ma_replay_barrier_crossed = False, ma_disconnect_retries = 0, ma_pending_recovery = None,
      ma_time_to_first_token_ms = None, ma_initial_provider_id = provider_name,
      ma_initial_model_id = model, ma_connect_retries = 0,
      ma_candidate_projection_omitted_units = None, ma_pending_agent_events = [],
      ma_pending_progress = None, ma_log = [], ma_panicked = False\<rparr>"

definition with_request_budget :: "model_request_budget \<Rightarrow> 'x model_attempt \<Rightarrow> 'x model_attempt" where
  "with_request_budget b s = s\<lparr>ma_request_budget := Some b\<rparr>"

section \<open>Notices and failures\<close>

definition timing :: "'x attempt_env \<Rightarrow> 'x model_attempt \<Rightarrow> attempt_timing" where
  "timing env s = \<lparr>at_request_latency_ms = en_elapsed_ms env,
     at_time_to_first_token_ms = ma_time_to_first_token_ms s\<rparr>"

definition failure ::
  "'x attempt_env \<Rightarrow> failure_stage \<Rightarrow> core_error \<Rightarrow> string option \<Rightarrow> string option \<Rightarrow>
     'x model_attempt \<Rightarrow> attempt_failure" where
  "failure env stage error user_message trace_message s =
     (let fallback = core_error_display (en_foreign env) error in
      \<lparr>af_stage = stage, af_error = error, af_user_message = unwrap_or fallback user_message,
       af_trace_message = unwrap_or fallback trace_message, af_accepted = ma_accepted s,
       af_timing = timing env s\<rparr>)"

definition queue_event :: "attempt_event \<Rightarrow> 'x model_attempt \<Rightarrow> 'x model_attempt" where
  "queue_event e s = s\<lparr>ma_pending_agent_events := ma_pending_agent_events s @ [e]\<rparr>"

definition queue_connection_state ::
  "'x attempt_env \<Rightarrow> connection_state_kind \<Rightarrow> connection_error_category option \<Rightarrow> u32 \<Rightarrow> u32 \<Rightarrow>
     duration_ms option \<Rightarrow> bool \<Rightarrow> accepted_attempt option \<Rightarrow> 'x model_attempt \<Rightarrow> 'x model_attempt" where
  "queue_connection_state env state category attempt max_attempts delay recoverable accepted s =
     (let ids = (case accepted of
                   None \<Rightarrow> (ma_initial_provider_id s, ma_initial_model_id s)
                 | Some a \<Rightarrow> (rs_provider_family (aa_route a), rs_model_id (aa_route a)))
      in queue_event (AE_ConnectionState
           \<lparr>ce_state = state, ce_provider_id = fst ids, ce_model_id = snd ids,
            ce_error_category = category, ce_attempt = attempt, ce_max_attempts = max_attempts,
            ce_next_retry_at = Option.bind delay (en_retry_at env), ce_recoverable = recoverable,
            ce_queued_user_inputs = 0, ce_turn_preserved = True\<rparr>) s)"

definition queue_connected :: "'x attempt_env \<Rightarrow> accepted_attempt \<Rightarrow> u32 \<Rightarrow> 'x model_attempt \<Rightarrow> 'x model_attempt" where
  "queue_connected env accepted connect_retries s =
     (let s1 = queue_event (AE_ControllerStatus ''provider_connected''
                 ''Provider connection established'') s;
          recovered = (case ma_pending_recovery s1 of
                         Some r \<Rightarrow> Some r
                       | None \<Rightarrow> (if 0 < connect_retries
                                  then Some \<lparr>sg_attempt = connect_retries,
                                             sg_max_attempts = rp_max_connect_retries (ma_policy s1)\<rparr>
                                  else None));
          s2 = s1\<lparr>ma_pending_recovery := None\<rparr>
      in case recovered of
           None \<Rightarrow> s2
         | Some r \<Rightarrow> queue_connection_state env CS_Recovered None (sg_attempt r) (sg_max_attempts r)
                      None False (Some accepted) s2)"

definition queue_reconnecting ::
  "'x attempt_env \<Rightarrow> connection_error_category \<Rightarrow> u32 \<Rightarrow> u32 \<Rightarrow> duration_ms \<Rightarrow> 'x model_attempt \<Rightarrow>
     'x model_attempt" where
  "queue_reconnecting env category attempt max_attempts delay s =
     queue_connection_state env CS_Reconnecting (Some category) attempt max_attempts (Some delay)
       True (ma_accepted s) s"

definition queue_failed ::
  "'x attempt_env \<Rightarrow> connection_error_category \<Rightarrow> u32 \<Rightarrow> u32 \<Rightarrow> 'x model_attempt \<Rightarrow> 'x model_attempt" where
  "queue_failed env category attempt max_attempts s =
     queue_connection_state env CS_Failed (Some category) attempt max_attempts None False
       (ma_accepted s) s"

definition discard_resettable_sample :: "'x model_attempt \<Rightarrow> 'x model_attempt" where
  "discard_resettable_sample s = s\<lparr>ma_candidate_sample_id := None,
     ma_candidate_projection_omitted_units := None, ma_accepted := None,
     ma_sample_progress_seen := False, ma_replay_barrier_crossed := False\<rparr>"

definition capture_accepted_route :: "'x attempt_env \<Rightarrow> 'x model_attempt \<Rightarrow> accepted_attempt \<times> 'x model_attempt" where
  "capture_accepted_route env s =
     (\<lparr>aa_sample_id = unwrap_or (en_sample_id env) (ma_candidate_sample_id s),
       aa_route = en_route env,
       aa_omitted_units = unwrap_or (en_route_omitted env) (ma_candidate_projection_omitted_units s)\<rparr>,
      s\<lparr>ma_candidate_sample_id := None, ma_candidate_projection_omitted_units := None\<rparr>)"

definition progress_from_connect_failure :: "attempt_failure \<Rightarrow> 'x attempt_progress" where
  "progress_from_connect_failure f =
     (case af_error f of
        CE_Cancelled message \<Rightarrow> MP_Cancelled message (af_accepted f) (af_timing f)
      | error \<Rightarrow> (if is_context_overflow_error error
                  then MP_NeedsContextCompaction error (af_timing f)
                  else MP_Failed f))"

definition finish :: "'x attempt_progress \<Rightarrow> 'x model_attempt \<Rightarrow> 'x model_attempt" where
  "finish p s = s\<lparr>ma_phase := PH_Done, ma_pending_progress := Some p\<rparr>"

definition panic :: "'x model_attempt \<Rightarrow> 'x model_attempt" where
  "panic s = s\<lparr>ma_panicked := True\<rparr>"

section \<open>Requests\<close>

definition acquire_request :: "'x attempt_env \<Rightarrow> 'x model_attempt \<Rightarrow> bool \<times> 'x model_attempt" where
  "acquire_request env s =
     (case ma_request_budget s of
        None \<Rightarrow> (True, s)
      | Some budget \<Rightarrow>
         (case acquire_request_budget budget of
            (True, budget') \<Rightarrow> (True, s\<lparr>ma_request_budget := Some budget'\<rparr>)
          | (False, _) \<Rightarrow>
              (False, finish (MP_Failed (failure env FS_Connect
                 (CE_Agent (''model_request_budget_exhausted: this turn reached its ''
                    @ nat_to_string (unat (rb_limit budget))
                    @ '' provider request limit across tools and recovery. Completed work was retained; no additional request was sent.''))
                 None None s)) s)))"

definition request_for_invocation :: "'x attempt_env \<Rightarrow> 'x model_attempt \<Rightarrow> 'x model_attempt" where
  "request_for_invocation env s = s\<lparr>ma_candidate_projection_omitted_units := en_projection env\<rparr>"

definition send_request :: "'x attempt_env \<Rightarrow> attempt_phase \<Rightarrow> 'x model_attempt \<Rightarrow> 'x model_attempt" where
  "send_request env phase s =
     (request_for_invocation env s)\<lparr>ma_candidate_sample_id := Some (en_sample_id env),
        ma_phase := phase, ma_log := ma_log s @ [Log_Request]\<rparr>"

definition begin_stream_open :: "'x attempt_env \<Rightarrow> 'x model_attempt \<Rightarrow> 'x model_attempt" where
  "begin_stream_open env s =
     (case acquire_request env s of
        (False, s1) \<Rightarrow> s1
      | (True, s1) \<Rightarrow> send_request env PH_OpeningStream s1)"

definition begin_completion :: "'x attempt_env \<Rightarrow> bool \<Rightarrow> 'x model_attempt \<Rightarrow> 'x model_attempt" where
  "begin_completion env switched s =
     (case acquire_request env s of
        (False, s1) \<Rightarrow> s1
      | (True, s1) \<Rightarrow> send_request env (PH_OpeningCompletion switched) s1)"

section \<open>Errors\<close>

datatype connect_error_action = CA_Retry duration_ms | CA_Finish attempt_failure

definition apply_connect_decision ::
  "'x attempt_env \<Rightarrow> stream_connect_retry_decision \<Rightarrow> connection_error_category \<Rightarrow> failure_stage \<Rightarrow>
     (string \<Rightarrow> core_error) \<Rightarrow> 'x model_attempt \<Rightarrow> connect_error_action \<times> 'x model_attempt" where
  "apply_connect_decision env decision category stage final_error s =
     (let max_retries = rp_max_connect_retries (ma_policy s) in
      case decision of
        SC_Retry attempt delay \<Rightarrow>
          (CA_Retry delay,
           queue_reconnecting env category attempt max_retries delay
             (s\<lparr>ma_connect_retries := attempt\<rparr>))
      | SC_GiveUp user_message trace_message \<Rightarrow>
          (let s1 = queue_failed env category (ma_connect_retries s) max_retries s
           in (CA_Finish (failure env stage (final_error trace_message) (Some user_message)
                 (Some trace_message) s1), s1)))"

definition classify_connect_error ::
  "'x attempt_env \<Rightarrow> core_error \<Rightarrow> failure_stage \<Rightarrow> 'x model_attempt \<Rightarrow>
     connect_error_action \<times> 'x model_attempt" where
  "classify_connect_error env error stage s =
     (case error of
        CE_RateLimited secs \<Rightarrow>
          apply_connect_decision env (decide_after_rate_limit (ma_connect_retries s) secs (ma_policy s))
            EC_RateLimit stage (\<lambda>_. CE_RateLimited secs) s
      | CE_TransientLlm message \<Rightarrow>
          apply_connect_decision env
            (decide_after_transient_error (ma_connect_retries s) message (ma_policy s))
            EC_Network stage
            (\<lambda>trace. if stage = FS_Connect then CE_Llm trace else CE_TransientLlm message) s
      | CE_ProviderUnavailable status message \<Rightarrow>
          apply_connect_decision env
            (decide_after_transient_error (ma_connect_retries s) message (ma_policy s))
            EC_ProviderUnavailable stage (\<lambda>_. CE_ProviderUnavailable status message) s
      | _ \<Rightarrow> (CA_Finish (failure env stage error None None s), s))"

definition interrupted ::
  "'x attempt_env \<Rightarrow> string \<Rightarrow> string \<Rightarrow> 'x model_attempt \<Rightarrow> 'x model_attempt" where
  "interrupted env user_message trace_message s =
     (case ma_accepted s of
        None \<Rightarrow> panic s
      | Some a \<Rightarrow>
          finish (MP_InterruptedAfterReplayBarrier a user_message trace_message (timing env s)) s)"

definition recover_from_disconnect ::
  "'x attempt_env \<Rightarrow> string \<Rightarrow> connection_error_category \<Rightarrow> 'x model_attempt \<Rightarrow> 'x model_attempt" where
  "recover_from_disconnect env detail category s =
     (let max_retries = rp_max_disconnect_retries (ma_policy s) in
      case decide_after_incomplete False (ma_disconnect_retries s) (ma_replay_barrier_crossed s)
             detail (ma_policy s) of
        SR_StopAfterReplayBarrier user_message trace_message \<Rightarrow>
          interrupted env user_message trace_message
            (queue_failed env category (ma_disconnect_retries s) max_retries s)
      | SR_Reconnect attempt delay \<Rightarrow>
          (let s1 = s\<lparr>ma_disconnect_retries := attempt,
                      ma_pending_recovery := Some \<lparr>sg_attempt = attempt, sg_max_attempts = max_retries\<rparr>\<rparr>;
               s2 = queue_reconnecting env category attempt max_retries delay s1;
               s3 = queue_event (AE_StreamReset ''provider_stream_retry'' True) s2;
               s4 = discard_resettable_sample s3
           in s4\<lparr>ma_connect_retries := 0, ma_phase := PH_WaitingToRetryStream delay\<rparr>)
      | SR_GiveUp user_message trace_message \<Rightarrow>
          (let s1 = queue_failed env category (ma_disconnect_retries s) max_retries s
           in finish (MP_Failed (failure env FS_Stream (CE_StreamIncomplete trace_message)
                (Some user_message) (Some trace_message) s1)) s1))"

definition error_category :: "core_error \<Rightarrow> connection_error_category" where
  "error_category error =
     (case error of
        CE_RateLimited _ \<Rightarrow> EC_RateLimit
      | CE_TransientLlm _ \<Rightarrow> EC_Network
      | CE_Llm _ \<Rightarrow> EC_ProviderUnavailable
      | CE_ProviderUnavailable _ _ \<Rightarrow> EC_ProviderUnavailable
      | _ \<Rightarrow> EC_Unknown)"

definition interrupt_after_replay_barrier :: "'x attempt_env \<Rightarrow> core_error \<Rightarrow> 'x model_attempt \<Rightarrow> 'x model_attempt" where
  "interrupt_after_replay_barrier env error s =
     (case decide_after_incomplete False (ma_disconnect_retries s) True
             (core_error_display (en_foreign env) error) (ma_policy s) of
        SR_StopAfterReplayBarrier user_message trace_message \<Rightarrow>
          interrupted env user_message trace_message
            (queue_failed env (error_category error) (ma_disconnect_retries s)
               (rp_max_disconnect_retries (ma_policy s)) s)
      | _ \<Rightarrow> panic s)"

definition handle_terminal_error :: "'x attempt_env \<Rightarrow> core_error \<Rightarrow> 'x model_attempt \<Rightarrow> 'x model_attempt" where
  "handle_terminal_error env error s =
     (if ma_replay_barrier_crossed s then interrupt_after_replay_barrier env error s
      else
        (let resettable_progress_seen = ma_sample_progress_seen s;
             context_overflow = is_context_overflow_error error
         in case classify_connect_error env error FS_Stream s of
              (CA_Retry delay, s1) \<Rightarrow>
                (let s2 = (if resettable_progress_seen
                           then queue_event (AE_StreamReset ''provider_draft_retry'' True) s1 else s1)
                 in (discard_resettable_sample s2)\<lparr>ma_phase := PH_WaitingToRetryStream delay\<rparr>)
            | (CA_Finish f, s1) \<Rightarrow>
                (let s2 = (if resettable_progress_seen \<and> context_overflow
                           then discard_resettable_sample
                             (queue_event (AE_StreamReset ''provider_context_compaction'' True) s1)
                           else s1)
                 in finish (progress_from_connect_failure f) s2)))"

section \<open>Provider output\<close>

definition chunk_is_visible :: "'x stream_chunk \<Rightarrow> bool" where
  "chunk_is_visible c =
     (ck_delta c \<noteq> []
      \<or> (case ck_thinking_delta c of Some thinking \<Rightarrow> thinking \<noteq> [] | None \<Rightarrow> False)
      \<or> ck_tool_call_delta c \<noteq> None)"

definition first_token :: "'x attempt_env \<Rightarrow> 'x model_attempt \<Rightarrow> 'x model_attempt" where
  "first_token env s = s\<lparr>ma_time_to_first_token_ms :=
     Some (unwrap_or (en_elapsed_ms env) (ma_time_to_first_token_ms s))\<rparr>"

definition accept_provider_event ::
  "'x attempt_env \<Rightarrow> 'x accepted_event \<Rightarrow> bool \<Rightarrow> bool \<Rightarrow> 'x model_attempt \<Rightarrow> 'x model_attempt" where
  "accept_provider_event env event semantic_progress crosses_replay_barrier s =
     (let first_for_sample = (ma_accepted s = None);
          s1 = (if first_for_sample
                then (case capture_accepted_route env s of (a, t) \<Rightarrow> t\<lparr>ma_accepted := Some a\<rparr>)
                else s)
      in case ma_accepted s1 of
           None \<Rightarrow> panic s1
         | Some a \<Rightarrow>
            (let s2 = (if semantic_progress \<and> \<not> ma_sample_progress_seen s1
                       then queue_connected env a (ma_connect_retries s1) (s1\<lparr>ma_connect_retries := 0\<rparr>)
                       else s1);
                 s3 = (if semantic_progress
                       then first_token env (s2\<lparr>ma_sample_progress_seen := True\<rparr>) else s2)
             in s3\<lparr>ma_replay_barrier_crossed := ma_replay_barrier_crossed s3 \<or> crosses_replay_barrier,
                   ma_pending_progress := Some (MP_Provider event a first_for_sample)\<rparr>))"

definition handle_stream_end :: "'x attempt_env \<Rightarrow> 'x model_attempt \<Rightarrow> 'x model_attempt" where
  "handle_stream_end env s =
     (let s1 = (if ma_accepted s = None
                then (case capture_accepted_route env s of (a, t) \<Rightarrow> t\<lparr>ma_accepted := Some a\<rparr>)
                else s)
      in case ma_accepted s1 of
           None \<Rightarrow> panic s1
         | Some a \<Rightarrow>
            (let s2 = (if \<not> ma_sample_progress_seen s1
                       then queue_connected env a (ma_connect_retries s1) (s1\<lparr>ma_connect_retries := 0\<rparr>)
                       else s1)
             in finish (MP_StreamComplete a (timing env s2)) s2))"

section \<open>The loop\<close>

definition flush_pending_agent_events :: "'x model_attempt \<Rightarrow> 'x model_attempt" where
  "flush_pending_agent_events s =
     s\<lparr>ma_log := ma_log s @ map Log_Event (ma_pending_agent_events s), ma_pending_agent_events := []\<rparr>"

definition try_flush_pending_agent_events :: "nat \<Rightarrow> 'x model_attempt \<Rightarrow> 'x model_attempt" where
  "try_flush_pending_agent_events n s =
     s\<lparr>ma_log := ma_log s @ map Log_Event (take n (ma_pending_agent_events s)),
       ma_pending_agent_events := drop n (ma_pending_agent_events s)\<rparr>"

text \<open>Returning progress to the caller.\<close>

definition return_progress :: "'x attempt_progress \<Rightarrow> 'x model_attempt \<Rightarrow> 'x attempt_progress option \<times> 'x model_attempt" where
  "return_progress p s = (Some p, s\<lparr>ma_log := ma_log s @ [Log_Progress p]\<rparr>)"

definition opening_stream :: "'x attempt_env \<Rightarrow> 'x model_attempt \<Rightarrow> 'x attempt_progress option \<times> 'x model_attempt" where
  "opening_stream env s =
     (case en_open env of
        Inr _ \<Rightarrow>
          return_progress MP_StreamOpened
            ((if 0 < ma_connect_retries s
              then s\<lparr>ma_pending_recovery := Some \<lparr>sg_attempt = ma_connect_retries s,
                       sg_max_attempts = rp_max_connect_retries (ma_policy s)\<rparr>\<rparr>
              else s)\<lparr>ma_phase := PH_Streaming\<rparr>)
      | Inl error \<Rightarrow>
         (None, case classify_connect_error env error FS_Connect s of
            (CA_Retry delay, s1) \<Rightarrow> s1\<lparr>ma_phase := PH_WaitingToRetryStream delay\<rparr>
          | (CA_Finish f, s1) \<Rightarrow> finish (progress_from_connect_failure f) s1))"

definition streaming :: "'x attempt_env \<Rightarrow> 'x model_attempt \<Rightarrow> 'x attempt_progress option \<times> 'x model_attempt" where
  "streaming env s =
     (case en_event env of
        Some (PS_Chunk c) \<Rightarrow> (None, accept_provider_event env (AV_Chunk c) (chunk_is_visible c) False s)
      | Some (PS_HostedTool t) \<Rightarrow> (None, accept_provider_event env (AV_HostedTool t) True True s)
      | Some (PS_ReplayState r) \<Rightarrow> (None, accept_provider_event env (AV_ReplayState r) True False s)
      | Some (PS_RecoverableError message category) \<Rightarrow>
          (None, recover_from_disconnect env message
             (case category of PRC_Network \<Rightarrow> EC_Network | PRC_Provider \<Rightarrow> EC_ProviderUnavailable) s)
      | Some (PS_Cancelled message) \<Rightarrow>
          return_progress (MP_Cancelled message (ma_accepted s) (timing env s)) (s\<lparr>ma_phase := PH_Done\<rparr>)
      | Some (PS_TerminalError f) \<Rightarrow> (None, handle_terminal_error env (into_core_error f) s)
      | None \<Rightarrow> (None, handle_stream_end env s))"

definition opening_completion :: "'x attempt_env \<Rightarrow> bool \<Rightarrow> 'x model_attempt \<Rightarrow> 'x model_attempt" where
  "opening_completion env switched s =
     (case en_complete env of
        Inr response \<Rightarrow>
          (case capture_accepted_route env (first_token env s) of
             (a, s1) \<Rightarrow>
               (let s2 = queue_connected env a (ma_connect_retries s1)
                           (s1\<lparr>ma_accepted := Some a, ma_connect_retries := 0, ma_phase := PH_Done\<rparr>)
                in finish (MP_Completion response a (timing env s2) switched) s2))
      | Inl error \<Rightarrow>
         (case classify_connect_error env error FS_Completion s of
            (CA_Retry delay, s1) \<Rightarrow> s1\<lparr>ma_phase := PH_WaitingToRetryCompletion delay switched\<rparr>
          | (CA_Finish f, s1) \<Rightarrow> finish (progress_from_connect_failure f) s1))"

definition run_phase ::
  "'x attempt_env \<Rightarrow> 'x model_attempt \<Rightarrow> 'x attempt_progress option \<times> 'x model_attempt" where
  "run_phase env s =
     (case ma_phase s of
        PH_ReadyToStream \<Rightarrow> (None, begin_stream_open env s)
      | PH_OpeningStream \<Rightarrow> opening_stream env s
      | PH_WaitingToRetryStream _ \<Rightarrow> (None, s\<lparr>ma_phase := PH_ReadyToStream\<rparr>)
      | PH_Streaming \<Rightarrow> streaming env s
      | PH_ReadyToComplete switched \<Rightarrow> (None, begin_completion env switched s)
      | PH_OpeningCompletion switched \<Rightarrow> (None, opening_completion env switched s)
      | PH_WaitingToRetryCompletion _ switched \<Rightarrow>
          (None, s\<lparr>ma_phase := PH_ReadyToComplete switched\<rparr>)
      | PH_Done \<Rightarrow>
          return_progress (MP_Failed (failure env FS_Stream
             (CE_Internal ''Model attempt was advanced after completion'') None None s)) s)"

text \<open>Output that is already accepted is returned before anything is awaited; otherwise the queued
  events are delivered first.\<close>

definition attempt_iteration ::
  "'x attempt_env \<Rightarrow> 'x model_attempt \<Rightarrow> 'x attempt_progress option \<times> 'x model_attempt" where
  "attempt_iteration env s =
     (case ma_pending_progress s of
        Some p \<Rightarrow>
          return_progress p
            ((try_flush_pending_agent_events (en_try_send env) s)\<lparr>ma_pending_progress := None\<rparr>)
      | None \<Rightarrow> run_phase env (flush_pending_agent_events s))"

text \<open>A call of \<open>next\<close> that is not cancelled, with a bound on its iterations.\<close>

fun next_uncancelled ::
  "nat \<Rightarrow> (nat \<Rightarrow> 'x attempt_env) \<Rightarrow> 'x model_attempt \<Rightarrow> ('x attempt_progress \<times> 'x model_attempt) option" where
  "next_uncancelled 0 envs s = None"
| "next_uncancelled (Suc fuel) envs s =
     (case attempt_iteration (envs 0) s of
        (Some p, s') \<Rightarrow> Some (p, s')
      | (None, s') \<Rightarrow> next_uncancelled fuel (\<lambda>i. envs (Suc i)) s')"

definition finish_token_cancellation :: "'x attempt_env \<Rightarrow> 'x model_attempt \<Rightarrow> 'x model_attempt" where
  "finish_token_cancellation env s =
     snd (return_progress (MP_Cancelled ''cancelled by user'' (ma_accepted s) (timing env s))
       (s\<lparr>ma_phase := PH_Done, ma_pending_progress := None\<rparr>))"

text \<open>Cancellation is noticed only when no accepted output waits to be returned; other attempts of
  the turn draw on the same request budget.\<close>

datatype 'x attempt_op = AO_Iterate "'x attempt_env" | AO_Cancel "'x attempt_env" | AO_OtherRequest

fun attempt_step :: "'x attempt_op \<Rightarrow> 'x model_attempt \<Rightarrow> 'x model_attempt" where
  "attempt_step (AO_Iterate env) s = snd (attempt_iteration env s)"
| "attempt_step (AO_Cancel env) s =
     (if ma_pending_progress s = None then finish_token_cancellation env s else s)"
| "attempt_step AO_OtherRequest s =
     s\<lparr>ma_request_budget := map_option (\<lambda>b. snd (acquire_request_budget b)) (ma_request_budget s)\<rparr>"

end
