(* ===== verification/Attempt_Properties.thy ===== *)
theory Attempt_Properties
  imports Model_Attempt
begin

text \<open>
  Correctness of a model attempt: the replay barrier, the reset of discarded drafts, the bounds on
  retries and requests, and the termination of \<open>next\<close>.
\<close>

section \<open>What the helpers change\<close>

lemmas queue_defs = queue_event_def queue_connection_state_def queue_reconnecting_def
  queue_failed_def Let_def

definition connected_events ::
  "'x attempt_env \<Rightarrow> accepted_attempt \<Rightarrow> u32 \<Rightarrow> 'x model_attempt \<Rightarrow> attempt_event list" where
  "connected_events env a n s =
     ma_pending_agent_events (queue_connected env a n (s\<lparr>ma_pending_agent_events := []\<rparr>))"

lemma queue_connected_eq:
  "queue_connected env a n s = s\<lparr>ma_pending_agent_events := ma_pending_agent_events s
     @ connected_events env a n s, ma_pending_recovery := None\<rparr>"
  by (simp add: connected_events_def queue_connected_def queue_defs split: option.splits)

fun is_reset :: "attempt_event \<Rightarrow> bool" where
  "is_reset (AE_StreamReset _ _) = True"
| "is_reset _ = False"

lemma connected_events_no_reset [simp]: "list_ex is_reset (connected_events env a n s) = False"
  by (simp add: connected_events_def queue_connected_def queue_defs split: option.splits)

section \<open>Invariant\<close>

definition attempt_inv :: "'x model_attempt \<Rightarrow> bool" where
  "attempt_inv s =
     (policy_ok (ma_policy s) \<and> \<not> ma_panicked s
      \<and> ma_connect_retries s \<le> rp_max_connect_retries (ma_policy s)
      \<and> ma_disconnect_retries s \<le> rp_max_disconnect_retries (ma_policy s)
      \<and> (ma_replay_barrier_crossed s \<longrightarrow>
           ma_accepted s \<noteq> None \<and> ma_phase s \<in> {PH_Streaming, PH_Done}))"

lemma classify_retry:
  assumes "classify_connect_error env error stage s = (CA_Retry d, s1)" and inv: "attempt_inv s"
  obtains a x where "s1 = s\<lparr>ma_connect_retries := a,
       ma_pending_agent_events := ma_pending_agent_events s @ [AE_ConnectionState x]\<rparr>"
    and "unat a = Suc (unat (ma_connect_retries s))" and "a \<le> rp_max_connect_retries (ma_policy s)"
proof -
  have p: "policy_ok (ma_policy s)" and n: "ma_connect_retries s \<le> 10"
    using inv by (auto simp: attempt_inv_def policy_ok_def)
  note attempts = policy_attempts(1) [OF p _ n] policy_attempts(2) [OF p _ n]
  show thesis
    using assms(1) that attempts
    by (auto simp: classify_connect_error_def apply_connect_decision_def queue_defs
        split: core_error.splits stream_connect_retry_decision.splits)
qed

lemma apply_decision_finish:
  assumes "apply_connect_decision env decision category stage e s = (CA_Finish f, s1)"
  shows "\<exists>x. s1 = s\<lparr>ma_pending_agent_events := ma_pending_agent_events s @ [AE_ConnectionState x]\<rparr>"
  using assms
  by (auto simp: apply_connect_decision_def queue_defs split: stream_connect_retry_decision.splits)

lemma classify_finish:
  assumes "classify_connect_error env error stage s = (CA_Finish f, s1)"
  shows "\<exists>xs. s1 = s\<lparr>ma_pending_agent_events := ma_pending_agent_events s @ map AE_ConnectionState xs\<rparr>"
proof (cases "\<exists>decision category e. classify_connect_error env error stage s
    = apply_connect_decision env decision category stage e s")
  case True
  then obtain x where
    "s1 = s\<lparr>ma_pending_agent_events := ma_pending_agent_events s @ [AE_ConnectionState x]\<rparr>"
    using apply_decision_finish assms by metis
  then show ?thesis by (intro exI [of _ "[x]"]) simp
next
  case False
  then have "s1 = s" using assms
    by (cases error) (auto simp: classify_connect_error_def, metis+)
  then show ?thesis by (intro exI [of _ "[]"]) simp
qed

lemma attempt_inv_new: "attempt_inv (model_attempt_new p m r f)"
  by (simp add: attempt_inv_def model_attempt_new_def built_policy_ok)

lemma accept_inv:
  "attempt_inv s \<Longrightarrow> ma_phase s = PH_Streaming \<Longrightarrow> attempt_inv (accept_provider_event env ev v b s)"
  by (auto simp: attempt_inv_def accept_provider_event_def capture_accepted_route_def Let_def
      queue_connected_eq first_token_def split: option.splits)

lemma stream_end_inv: "attempt_inv s \<Longrightarrow> attempt_inv (handle_stream_end env s)"
  by (auto simp: attempt_inv_def handle_stream_end_def capture_accepted_route_def Let_def
      queue_connected_eq finish_def split: option.splits)

lemma recover_inv: "attempt_inv s \<Longrightarrow> attempt_inv (recover_from_disconnect env detail c s)"
proof -
  assume inv: "attempt_inv s"
  then have p: "policy_ok (ma_policy s)" by (simp add: attempt_inv_def)
  show ?thesis
  proof (cases "decide_after_incomplete False (ma_disconnect_retries s) (ma_replay_barrier_crossed s)
      detail (ma_policy s)")
    case (SR_StopAfterReplayBarrier u t)
    then have "ma_replay_barrier_crossed s"
      by (auto simp: decide_after_incomplete_def Let_def split: if_splits)
    with inv SR_StopAfterReplayBarrier show ?thesis
      by (auto simp: attempt_inv_def recover_from_disconnect_def interrupted_def queue_defs finish_def)
  next
    case (SR_Reconnect a d)
    with inv policy_attempts(3) [OF p SR_Reconnect] show ?thesis
      by (auto simp: attempt_inv_def recover_from_disconnect_def queue_defs discard_resettable_sample_def)
  next
    case (SR_GiveUp u t)
    with inv show ?thesis
      by (auto simp: attempt_inv_def recover_from_disconnect_def queue_defs finish_def)
  qed
qed

lemma interrupt_inv:
  "attempt_inv s \<Longrightarrow> ma_replay_barrier_crossed s \<Longrightarrow>
   attempt_inv (interrupt_after_replay_barrier env error s)"
  by (auto simp: attempt_inv_def interrupt_after_replay_barrier_def decide_after_incomplete_def
      interrupted_def queue_defs finish_def)

lemma terminal_inv: "attempt_inv s \<Longrightarrow> attempt_inv (handle_terminal_error env error s)"
proof (cases "ma_replay_barrier_crossed s")
  case True
  assume "attempt_inv s"
  with True show ?thesis by (simp add: handle_terminal_error_def interrupt_inv)
next
  case False
  assume inv: "attempt_inv s"
  obtain act s1 where c: "classify_connect_error env error FS_Stream s = (act, s1)" by force
  show ?thesis
  proof (cases act)
    case (CA_Retry d)
    from classify_retry [OF c [unfolded CA_Retry] inv]
    obtain a x where "s1 = s\<lparr>ma_connect_retries := a,
       ma_pending_agent_events := ma_pending_agent_events s @ [AE_ConnectionState x]\<rparr>"
      and "a \<le> rp_max_connect_retries (ma_policy s)" by metis
    with inv False c CA_Retry show ?thesis
      by (simp add: attempt_inv_def handle_terminal_error_def Let_def queue_defs
          discard_resettable_sample_def)
  next
    case (CA_Finish f)
    from classify_finish [OF c [unfolded CA_Finish]] obtain xs where
      "s1 = s\<lparr>ma_pending_agent_events := ma_pending_agent_events s @ map AE_ConnectionState xs\<rparr>"
      by blast
    with inv False c CA_Finish show ?thesis
      by (simp add: attempt_inv_def handle_terminal_error_def Let_def queue_defs
          discard_resettable_sample_def finish_def)
  qed
qed

lemma streaming_inv:
  "attempt_inv s \<Longrightarrow> ma_phase s = PH_Streaming \<Longrightarrow> attempt_inv (snd (streaming env s))"
  by (auto simp: streaming_def accept_inv stream_end_inv recover_inv terminal_inv return_progress_def
      split: option.splits provider_stream_event.splits) (simp add: attempt_inv_def)

lemma flush_inv: "attempt_inv s \<Longrightarrow> attempt_inv (flush_pending_agent_events s)"
  by (simp add: attempt_inv_def flush_pending_agent_events_def)

lemma connect_error_inv:
  assumes inv: "attempt_inv s" and b: "\<not> ma_replay_barrier_crossed s"
  shows "classify_connect_error env error stage s = (CA_Retry d, s1) \<Longrightarrow>
           attempt_inv (s1\<lparr>ma_phase := ph\<rparr>)"
    and "classify_connect_error env error stage s = (CA_Finish f, s1) \<Longrightarrow>
           attempt_inv (finish p s1)"
proof -
  assume "classify_connect_error env error stage s = (CA_Retry d, s1)"
  from classify_retry [OF this inv]
  obtain a x where "s1 = s\<lparr>ma_connect_retries := a,
     ma_pending_agent_events := ma_pending_agent_events s @ [AE_ConnectionState x]\<rparr>"
    and "a \<le> rp_max_connect_retries (ma_policy s)" by metis
  with inv b show "attempt_inv (s1\<lparr>ma_phase := ph\<rparr>)" by (simp add: attempt_inv_def)
next
  assume "classify_connect_error env error stage s = (CA_Finish f, s1)"
  from classify_finish [OF this] obtain xs where
    "s1 = s\<lparr>ma_pending_agent_events := ma_pending_agent_events s @ map AE_ConnectionState xs\<rparr>"
    by blast
  with inv show "attempt_inv (finish p s1)" by (simp add: attempt_inv_def finish_def)
qed

lemma opening_inv:
  assumes "attempt_inv s" and "\<not> ma_replay_barrier_crossed s"
  shows "attempt_inv (snd (opening_stream env s))" "attempt_inv (opening_completion env sw s)"
proof -
  have "attempt_inv (opening_completion env sw s)" if "en_complete env = Inr r" for r
    using assms that
    by (simp add: opening_completion_def attempt_inv_def capture_accepted_route_def Let_def
        queue_connected_eq first_token_def finish_def)
  moreover have "attempt_inv (opening_completion env sw s)" if "en_complete env = Inl e" for e
    using connect_error_inv [OF assms] that
    by (auto simp: opening_completion_def split: prod.splits connect_error_action.splits)
  ultimately show "attempt_inv (opening_completion env sw s)" by (cases "en_complete env") auto
  have "attempt_inv (snd (opening_stream env s))" if "en_open env = Inr r" for r
    using assms that by (auto simp: opening_stream_def attempt_inv_def return_progress_def)
  moreover have "attempt_inv (snd (opening_stream env s))" if "en_open env = Inl e" for e
    using connect_error_inv [OF assms] that
    by (auto simp: opening_stream_def split: prod.splits connect_error_action.splits)
  ultimately show "attempt_inv (snd (opening_stream env s))" by (cases "en_open env") auto
qed

lemma begin_inv:
  "attempt_inv s \<Longrightarrow> \<not> ma_replay_barrier_crossed s \<Longrightarrow> attempt_inv (begin_stream_open env s)"
  "attempt_inv s \<Longrightarrow> \<not> ma_replay_barrier_crossed s \<Longrightarrow> attempt_inv (begin_completion env sw s)"
  by (auto simp: attempt_inv_def begin_stream_open_def begin_completion_def acquire_request_def
      send_request_def request_for_invocation_def finish_def split: option.splits prod.splits bool.splits)

lemma no_barrier: "attempt_inv s \<Longrightarrow> ma_phase s \<notin> {PH_Streaming, PH_Done} \<Longrightarrow> \<not> ma_replay_barrier_crossed s"
  by (auto simp: attempt_inv_def)

lemma run_phase_inv: "attempt_inv s \<Longrightarrow> attempt_inv (snd (run_phase env s))"
  using no_barrier [of s]
  by (cases "ma_phase s")
     (simp_all add: run_phase_def begin_inv opening_inv streaming_inv return_progress_def,
      simp_all add: attempt_inv_def)

lemma iteration_inv: "attempt_inv s \<Longrightarrow> attempt_inv (snd (attempt_iteration env s))"
  by (cases "ma_pending_progress s")
     (simp_all add: attempt_iteration_def run_phase_inv flush_inv,
      simp add: return_progress_def try_flush_pending_agent_events_def attempt_inv_def)

lemma attempt_step_inv: "attempt_inv s \<Longrightarrow> attempt_inv (attempt_step x s)"
  by (cases x) (simp_all add: iteration_inv, simp_all add: attempt_inv_def
      finish_token_cancellation_def return_progress_def)

interpretation attempt: invariant_machine attempt_step attempt_inv
  by unfold_locales (rule attempt_step_inv)

section \<open>Termination of next\<close>

text \<open>
  Every iteration that returns nothing lowers this measure: a retry uses up one of the remaining
  connection retries and passes through three phases, and the stream phase is left for good within
  a call.
\<close>

definition retries_left :: "'x model_attempt \<Rightarrow> nat" where
  "retries_left s = unat (rp_max_connect_retries (ma_policy s)) - unat (ma_connect_retries s)"

definition attempt_measure :: "'x model_attempt \<Rightarrow> nat" where
  "attempt_measure s =
     (if ma_pending_progress s \<noteq> None then 1
      else case ma_phase s of
        PH_Done \<Rightarrow> 1
      | PH_OpeningStream \<Rightarrow> 2 + 3 * retries_left s
      | PH_ReadyToStream \<Rightarrow> 3 + 3 * retries_left s
      | PH_WaitingToRetryStream _ \<Rightarrow> 4 + 3 * retries_left s
      | PH_Streaming \<Rightarrow> 5 + 3 * unat (rp_max_connect_retries (ma_policy s))
      | PH_OpeningCompletion _ \<Rightarrow> 2 + 3 * retries_left s
      | PH_ReadyToComplete _ \<Rightarrow> 3 + 3 * retries_left s
      | PH_WaitingToRetryCompletion _ _ \<Rightarrow> 4 + 3 * retries_left s)"

lemma measure_pending [simp]: "ma_pending_progress s \<noteq> None \<Longrightarrow> attempt_measure s = 1"
  by (simp add: attempt_measure_def)

lemma finish_measure [simp]: "attempt_measure (finish p s) = 1"
  by (simp add: finish_def)

lemma begin_measure:
  "ma_pending_progress s = None \<Longrightarrow> attempt_measure (begin_stream_open env s) \<le> 2 + 3 * retries_left s"
  "ma_pending_progress s = None \<Longrightarrow> attempt_measure (begin_completion env sw s) \<le> 2 + 3 * retries_left s"
  by (auto simp: begin_stream_open_def begin_completion_def acquire_request_def send_request_def
      request_for_invocation_def attempt_measure_def retries_left_def finish_def
      split: option.splits prod.splits bool.splits)

lemma retry_measure:
  assumes "classify_connect_error env error stage s = (CA_Retry d, s1)" and "attempt_inv s"
    and "ma_pending_progress s = None"
  shows "4 + 3 * retries_left s1 \<le> 1 + 3 * retries_left s" and "ma_pending_progress s1 = None"
    and "ma_policy s1 = ma_policy s"
proof -
  from classify_retry [OF assms(1,2)] obtain a x where s1: "s1 = s\<lparr>ma_connect_retries := a,
     ma_pending_agent_events := ma_pending_agent_events s @ [AE_ConnectionState x]\<rparr>"
    and a: "unat a = Suc (unat (ma_connect_retries s))" "a \<le> rp_max_connect_retries (ma_policy s)"
    by metis
  show "4 + 3 * retries_left s1 \<le> 1 + 3 * retries_left s"
    using s1 a by (simp add: retries_left_def word_le_nat_alt)
  show "ma_pending_progress s1 = None" "ma_policy s1 = ma_policy s" using s1 assms(3) by simp_all
qed

lemma opening_measure:
  assumes "attempt_inv s" and "ma_pending_progress s = None"
  shows "opening_stream env s = (None, s') \<Longrightarrow> attempt_measure s' < 2 + 3 * retries_left s"
    and "attempt_measure (opening_completion env sw s) < 2 + 3 * retries_left s"
proof -
  show "opening_stream env s = (None, s') \<Longrightarrow> attempt_measure s' < 2 + 3 * retries_left s"
    using retry_measure [OF _ assms]
    by (auto simp: opening_stream_def return_progress_def attempt_measure_def retries_left_def finish_def
        split: sum.splits prod.splits connect_error_action.splits) fastforce
  show "attempt_measure (opening_completion env sw s) < 2 + 3 * retries_left s"
    using retry_measure [OF _ assms]
    by (auto simp: opening_completion_def attempt_measure_def retries_left_def finish_def Let_def
        split: sum.splits prod.splits connect_error_action.splits) fastforce
qed

lemma streaming_measure:
  assumes inv: "attempt_inv s" and ph: "ma_phase s = PH_Streaming"
    and none: "ma_pending_progress s = None" and st: "streaming env s = (None, s')"
  shows "attempt_measure s' < 5 + 3 * unat (rp_max_connect_retries (ma_policy s))"
proof -
  have accept: "ma_pending_progress (accept_provider_event env ev v b s) \<noteq> None" for ev v b
    by (auto simp: accept_provider_event_def capture_accepted_route_def Let_def split: option.splits)
  have stream_end: "attempt_measure (handle_stream_end env s) = 1"
    by (auto simp: handle_stream_end_def capture_accepted_route_def Let_def split: option.splits)
  have interrupted: "ma_accepted t \<noteq> None \<Longrightarrow> attempt_measure (interrupted env u tr t) = 1" for u tr t
    by (auto simp: interrupted_def)
  have accepted: "ma_replay_barrier_crossed s \<Longrightarrow> ma_accepted s \<noteq> None"
    using inv by (simp add: attempt_inv_def)
  have recover: "attempt_measure (recover_from_disconnect env detail c s)
      \<le> 4 + 3 * unat (rp_max_connect_retries (ma_policy s))" for detail c
    using accepted none
    by (auto simp: recover_from_disconnect_def decide_after_incomplete_def queue_defs interrupted
        discard_resettable_sample_def attempt_measure_def retries_left_def finish_def interrupted_def)
  have terminal: "attempt_measure (handle_terminal_error env e s)
      \<le> 4 + 3 * unat (rp_max_connect_retries (ma_policy s))" for e
    using accepted none retry_measure [OF _ inv none]
    by (auto simp: handle_terminal_error_def interrupt_after_replay_barrier_def decide_after_incomplete_def
        queue_defs interrupted_def discard_resettable_sample_def attempt_measure_def retries_left_def
        finish_def split: prod.splits connect_error_action.splits)
  have lt: "m \<le> 4 + k \<Longrightarrow> m < 5 + k" for m k :: nat by simp
  show ?thesis
    using st accept stream_end
    by (auto simp: streaming_def return_progress_def intro!: lt [OF recover] lt [OF terminal]
        split: option.splits provider_stream_event.splits)
qed

lemma iteration_measure:
  assumes inv: "attempt_inv s" and it: "attempt_iteration env s = (None, s')"
  shows "attempt_measure s' < attempt_measure s"
proof -
  have none: "ma_pending_progress s = None"
    using it by (auto simp: attempt_iteration_def return_progress_def split: option.splits)
  define t where "t = flush_pending_agent_events s"
  have t: "attempt_inv t" "ma_pending_progress t = None" "run_phase env t = (None, s')"
    "attempt_measure t = attempt_measure s" "retries_left t = retries_left s"
    using flush_inv [OF inv] none it
    by (simp_all add: t_def attempt_iteration_def flush_pending_agent_events_def attempt_measure_def
        retries_left_def cong: attempt_phase.case_cong)
  have m: "attempt_measure s' < attempt_measure t"
  proof (cases "ma_phase t")
    case PH_ReadyToStream
    with t(2,3) begin_measure(1) [OF t(2), of env] show ?thesis
      by (simp add: run_phase_def attempt_measure_def)
  next
    case PH_OpeningStream
    with t(2,3) opening_measure(1) [OF t(1,2)] show ?thesis
      by (simp add: run_phase_def attempt_measure_def [of t])
  next
    case PH_Streaming
    with t(2,3) streaming_measure [OF t(1) PH_Streaming t(2)] show ?thesis
      by (simp add: run_phase_def attempt_measure_def [of t])
  next
    case (PH_ReadyToComplete sw)
    with t(2,3) begin_measure(2) [OF t(2), of env sw] show ?thesis
      by (simp add: run_phase_def attempt_measure_def)
  next
    case (PH_OpeningCompletion sw)
    with t(2,3) opening_measure(2) [OF t(1,2), of env sw] show ?thesis
      by (simp add: run_phase_def attempt_measure_def [of t])
  qed (use t(2,3) in \<open>auto simp: run_phase_def return_progress_def attempt_measure_def retries_left_def\<close>)
  then show ?thesis using t(4) by simp
qed

lemma measure_pos: "0 < attempt_measure s"
  by (simp add: attempt_measure_def split: attempt_phase.splits)

lemma next_returns:
  "attempt_inv s \<Longrightarrow> attempt_measure s \<le> fuel \<Longrightarrow> \<exists>p s'. next_uncancelled fuel envs s = Some (p, s')"
proof (induction fuel arbitrary: s envs)
  case 0
  then show ?case using measure_pos [of s] by simp
next
  case (Suc fuel)
  obtain r s' where it: "attempt_iteration (envs 0) s = (r, s')" by force
  show ?case
  proof (cases r)
    case None
    have "attempt_inv s'" using iteration_inv [OF Suc.prems(1), of "envs 0"] it by simp
    moreover have "attempt_measure s' \<le> fuel"
      using iteration_measure [OF Suc.prems(1) it [unfolded None]] Suc.prems(2) by simp
    ultimately show ?thesis using Suc.IH it None by simp
  qed (simp add: it)
qed

lemma measure_bound: "attempt_inv s \<Longrightarrow> attempt_measure s \<le> 35"
proof -
  assume "attempt_inv s"
  then have "unat (rp_max_connect_retries (ma_policy s)) \<le> 10"
    by (simp add: attempt_inv_def policy_ok_def word_le_nat_alt)
  then show ?thesis
    by (auto simp: attempt_measure_def retries_left_def split: attempt_phase.splits)
qed

section \<open>The log\<close>

fun visible_event :: "'x accepted_event \<Rightarrow> bool" where
  "visible_event (AV_Chunk c) = chunk_is_visible c"
| "visible_event _ = True"

fun is_hosted :: "'x attempt_progress \<Rightarrow> bool" where
  "is_hosted (MP_Provider (AV_HostedTool _) _ _) = True"
| "is_hosted _ = False"

fun is_visible :: "'x attempt_progress \<Rightarrow> bool" where
  "is_visible (MP_Provider e _ _) = visible_event e"
| "is_visible _ = False"

definition hosted_returned :: "'x attempt_log list \<Rightarrow> bool" where
  "hosted_returned log = list_ex (\<lambda>x. case x of Log_Progress p \<Rightarrow> is_hosted p | _ \<Rightarrow> False) log"

text \<open>Whether the caller holds visible output that no reset has discarded.\<close>

fun draft_after :: "bool \<Rightarrow> 'x attempt_log list \<Rightarrow> bool" where
  "draft_after d [] = d"
| "draft_after d (Log_Event e # log) = draft_after (d \<and> \<not> is_reset e) log"
| "draft_after d (Log_Progress p # log) = draft_after (d \<or> is_visible p) log"
| "draft_after d (Log_Request # log) = draft_after d log"

lemma draft_after_append [simp]: "draft_after d (xs @ ys) = draft_after (draft_after d xs) ys"
  by (induction d xs rule: draft_after.induct) simp_all

lemma draft_after_events [simp]:
  "draft_after d (map Log_Event es) \<longleftrightarrow> d \<and> \<not> list_ex is_reset es"
  by (induction es arbitrary: d) auto

lemma hosted_returned_append [simp]:
  "hosted_returned (xs @ ys) \<longleftrightarrow> hosted_returned xs \<or> hosted_returned ys"
  by (simp add: hosted_returned_def)

lemma hosted_returned_simps [simp]:
  "\<not> hosted_returned []" "\<not> hosted_returned (map Log_Event es)" "\<not> hosted_returned [Log_Request]"
  "hosted_returned [Log_Progress p] \<longleftrightarrow> is_hosted p"
  by (induction es) (simp_all add: hosted_returned_def)

definition requests_after :: "('x attempt_log list \<Rightarrow> bool) \<Rightarrow> 'x attempt_log list \<Rightarrow> bool" where
  "requests_after P log = (\<forall>xs ys. log = xs @ Log_Request # ys \<longrightarrow> P xs)"

lemma requests_after_append:
  assumes "Log_Request \<notin> set ys"
  shows "requests_after P (xs @ ys) \<longleftrightarrow> requests_after P xs"
proof -
  have "(\<exists>vs. us @ Log_Request # vs = xs @ ys) \<longleftrightarrow> (\<exists>vs. us @ Log_Request # vs = xs)" for us
    using assms by (auto simp: append_eq_append_conv2 Cons_eq_append_conv)
  then show ?thesis unfolding requests_after_def by metis
qed

lemma requests_after_events [simp]:
  "requests_after P (xs @ map Log_Event es) \<longleftrightarrow> requests_after P xs"
  by (rule requests_after_append) auto

lemma requests_after_request:
  "requests_after P (xs @ [Log_Request]) \<longleftrightarrow> requests_after P xs \<and> P xs"
proof -
  have "us @ Log_Request # vs = xs @ [Log_Request]
      \<longleftrightarrow> (us = xs \<and> vs = []) \<or> (\<exists>ws. vs = ws @ [Log_Request] \<and> us @ Log_Request # ws = xs)" for us vs
    by (cases vs rule: rev_cases) auto
  then show ?thesis unfolding requests_after_def by metis
qed

definition quiet :: "'x attempt_log list \<Rightarrow> bool" where
  "quiet log = (\<not> hosted_returned log \<and> \<not> draft_after False log)"

definition log_inv :: "'x model_attempt \<Rightarrow> bool" where
  "log_inv s =
     (requests_after quiet (ma_log s)
      \<and> (hosted_returned (ma_log s) \<longrightarrow> ma_replay_barrier_crossed s \<or> ma_phase s = PH_Done)
      \<and> (draft_after False (ma_log s) \<longrightarrow>
           ma_phase s = PH_Done \<or> (ma_sample_progress_seen s \<and> ma_phase s = PH_Streaming)
           \<or> list_ex is_reset (ma_pending_agent_events s))
      \<and> (case ma_pending_progress s of
           Some p \<Rightarrow> (is_hosted p \<longrightarrow> ma_replay_barrier_crossed s)
             \<and> (is_visible p \<longrightarrow> ma_sample_progress_seen s \<and> ma_phase s = PH_Streaming)
         | None \<Rightarrow> True))"

lemma log_inv_new: "log_inv (model_attempt_new p m r f)"
  by (simp add: log_inv_def model_attempt_new_def requests_after_def)

text \<open>Handlers run on a state whose events have all been delivered.\<close>

lemma progress_from_failure_kind [simp]:
  "\<not> is_hosted (progress_from_connect_failure f)" "\<not> is_visible (progress_from_connect_failure f)"
  by (simp_all add: progress_from_connect_failure_def split: core_error.splits)

lemma log_finish:
  assumes "requests_after quiet (ma_log s)" and "\<not> is_hosted p" and "\<not> is_visible p"
  shows "log_inv (finish p s)"
  using assms by (simp add: log_inv_def finish_def)

definition same_log :: "'x model_attempt \<Rightarrow> 'x model_attempt \<Rightarrow> bool" where
  "same_log s t = (ma_log t = ma_log s \<and> ma_pending_progress t = ma_pending_progress s
     \<and> ma_phase t = ma_phase s \<and> ma_replay_barrier_crossed t = ma_replay_barrier_crossed s
     \<and> ma_sample_progress_seen t = ma_sample_progress_seen s \<and> ma_request_budget t = ma_request_budget s)"

lemma apply_decision_log: "same_log s (snd (apply_connect_decision env decision category stage e s))"
  by (simp add: apply_connect_decision_def same_log_def queue_defs split: stream_connect_retry_decision.splits)

lemma classify_same_log: "same_log s (snd (classify_connect_error env error stage s))"
  by (cases error) (simp_all add: classify_connect_error_def apply_decision_log, simp_all add: same_log_def)

lemma classify_log:
  assumes "classify_connect_error env error stage s = (act, s1)"
  shows "ma_log s1 = ma_log s" "ma_pending_progress s1 = ma_pending_progress s"
    "ma_phase s1 = ma_phase s" "ma_replay_barrier_crossed s1 = ma_replay_barrier_crossed s"
    "ma_sample_progress_seen s1 = ma_sample_progress_seen s" "ma_request_budget s1 = ma_request_budget s"
  using classify_same_log [of s env error stage] assms by (simp_all add: same_log_def)

definition settled :: "'x model_attempt \<Rightarrow> bool" where
  "settled s = (log_inv s \<and> attempt_inv s \<and> ma_pending_progress s = None \<and> ma_pending_agent_events s = [])"

lemma settled_quiet:
  "settled s \<Longrightarrow> ma_phase s \<noteq> PH_Done \<Longrightarrow> ma_phase s \<noteq> PH_Streaming \<Longrightarrow> quiet (ma_log s)"
  by (auto simp: settled_def log_inv_def attempt_inv_def quiet_def)

lemma accept_log:
  assumes "settled s" and "ma_phase s = PH_Streaming" and "\<And>a f. is_hosted (MP_Provider ev a f) \<Longrightarrow> b"
    and "visible_event ev \<Longrightarrow> v"
  shows "log_inv (accept_provider_event env ev v b s)"
  using assms
  by (auto simp: settled_def log_inv_def accept_provider_event_def capture_accepted_route_def Let_def
      queue_connected_eq first_token_def split: option.splits)

lemma accept_logs:
  assumes "settled s" and "ma_phase s = PH_Streaming"
  shows "log_inv (accept_provider_event env (AV_Chunk c) (chunk_is_visible c) b s)"
    and "log_inv (accept_provider_event env (AV_HostedTool x) True True s)"
    and "log_inv (accept_provider_event env (AV_ReplayState x) True b s)"
  by (rule accept_log [OF assms]; simp)+

lemma stream_end_log: "settled s \<Longrightarrow> log_inv (handle_stream_end env s)"
  by (auto simp: handle_stream_end_def capture_accepted_route_def Let_def queue_connected_eq settled_def
      log_inv_def finish_def split: option.splits)

lemma interrupted_log:
  "requests_after quiet (ma_log s) \<Longrightarrow> ma_accepted s \<noteq> None \<Longrightarrow> log_inv (interrupted env u t s)"
  by (auto simp: interrupted_def log_finish)

lemma incomplete_barrier:
  "decide_after_incomplete f n b detail p = SR_StopAfterReplayBarrier u t \<Longrightarrow> b"
  "decide_after_incomplete f n b detail p = SR_Reconnect a d \<Longrightarrow> \<not> b"
  "\<exists>u t. decide_after_incomplete f n True detail p = SR_StopAfterReplayBarrier u t"
  by (simp_all add: decide_after_incomplete_def Let_def split: if_splits)

lemma recover_log:
  assumes "settled s" and "ma_phase s = PH_Streaming"
  shows "log_inv (recover_from_disconnect env detail c s)"
proof -
  have barrier: "ma_replay_barrier_crossed s \<Longrightarrow> ma_accepted s \<noteq> None"
    and r: "requests_after quiet (ma_log s)"
    using assms by (simp_all add: settled_def attempt_inv_def log_inv_def)
  show ?thesis
  proof (cases "decide_after_incomplete False (ma_disconnect_retries s) (ma_replay_barrier_crossed s)
      detail (ma_policy s)")
    case (SR_StopAfterReplayBarrier u t)
    with barrier incomplete_barrier(1) [OF SR_StopAfterReplayBarrier] r show ?thesis
      by (simp add: recover_from_disconnect_def queue_defs interrupted_log)
  next
    case (SR_Reconnect a d)
    with assms incomplete_barrier(2) [OF SR_Reconnect] show ?thesis
      by (simp add: recover_from_disconnect_def queue_defs discard_resettable_sample_def settled_def
          log_inv_def)
  next
    case (SR_GiveUp u t)
    with r show ?thesis by (simp add: recover_from_disconnect_def queue_defs log_finish)
  qed
qed

lemma terminal_log:
  assumes st: "settled s" and ph: "ma_phase s = PH_Streaming"
  shows "log_inv (handle_terminal_error env e s)"
proof (cases "ma_replay_barrier_crossed s")
  case True
  obtain u t where "decide_after_incomplete False (ma_disconnect_retries s) True
      (core_error_display (en_foreign env) e) (ma_policy s) = SR_StopAfterReplayBarrier u t"
    using incomplete_barrier(3) by metis
  moreover have "ma_accepted s \<noteq> None" "requests_after quiet (ma_log s)"
    using st True by (simp_all add: settled_def attempt_inv_def log_inv_def)
  ultimately show ?thesis
    using True
    by (simp add: handle_terminal_error_def interrupt_after_replay_barrier_def queue_defs interrupted_log)
next
  case False
  obtain act s1 where c: "classify_connect_error env e FS_Stream s = (act, s1)" by force
  note s1 = classify_log [OF c]
  show ?thesis
  proof (cases act)
    case (CA_Retry d)
    with False c s1 st ph show ?thesis
      by (auto simp: handle_terminal_error_def queue_defs discard_resettable_sample_def settled_def log_inv_def)
  next
    case (CA_Finish f)
    have "requests_after quiet (ma_log s)" using st by (simp add: settled_def log_inv_def)
    with False c s1 CA_Finish show ?thesis
      by (simp add: handle_terminal_error_def queue_defs discard_resettable_sample_def log_finish)
  qed
qed

lemma streaming_log:
  assumes "settled s" and "ma_phase s = PH_Streaming"
  shows "log_inv (snd (streaming env s))"
  using assms
  by (auto simp: streaming_def accept_logs stream_end_log recover_log terminal_log return_progress_def
      split: option.splits provider_stream_event.splits)
     (simp add: settled_def log_inv_def requests_after_append)

lemma opening_log:
  assumes st: "settled s" and q: "quiet (ma_log s)"
  shows "log_inv (snd (opening_stream env s))" "log_inv (opening_completion env sw s)"
proof -
  have r: "requests_after quiet (ma_log s)" using st by (simp add: settled_def log_inv_def)
  have retry: "log_inv (s1\<lparr>ma_phase := ph\<rparr>)"
    if "classify_connect_error env e stage s = (CA_Retry d, s1)" for e stage d s1 ph
    using classify_log [OF that] st q by (simp add: settled_def log_inv_def quiet_def)
  have fin: "log_inv (finish (progress_from_connect_failure f) s1)"
    if "classify_connect_error env e stage s = (CA_Finish f, s1)" for e stage f s1
    using classify_log [OF that] r by (intro log_finish) simp_all
  have "log_inv (snd (opening_stream env s))" if "en_open env = Inr u" for u
    using st q that
    by (simp add: opening_stream_def return_progress_def settled_def log_inv_def requests_after_append
        quiet_def)
  moreover have "log_inv (snd (opening_stream env s))" if "en_open env = Inl e" for e
    using retry fin that
    by (auto simp: opening_stream_def split: prod.splits connect_error_action.splits)
  ultimately show "log_inv (snd (opening_stream env s))" by (cases "en_open env") blast+
  show "log_inv (opening_completion env sw s)"
    using retry fin r
    by (auto simp: opening_completion_def Let_def capture_accepted_route_def queue_connected_eq first_token_def
        log_finish split: sum.splits prod.splits connect_error_action.splits)
qed

lemma begin_log:
  assumes "settled s" and "quiet (ma_log s)"
  shows "log_inv (begin_stream_open env s)" "log_inv (begin_completion env sw s)"
  using assms
  by (auto simp: begin_stream_open_def begin_completion_def acquire_request_def send_request_def
      request_for_invocation_def log_finish settled_def log_inv_def requests_after_request quiet_def
      finish_def split: option.splits prod.splits bool.splits)

lemma run_phase_log:
  assumes "settled s"
  shows "log_inv (snd (run_phase env s))"
proof -
  note q = settled_quiet [OF assms]
  have keep: "log_inv (s\<lparr>ma_phase := ph\<rparr>)" if "quiet (ma_log s)" for ph
    using assms that by (simp add: settled_def log_inv_def quiet_def)
  show ?thesis
    using assms q keep
    by (cases "ma_phase s")
       (simp_all add: run_phase_def begin_log opening_log streaming_log return_progress_def,
        simp add: settled_def log_inv_def requests_after_append)
qed

lemma flush_settled:
  "log_inv s \<Longrightarrow> attempt_inv s \<Longrightarrow> ma_pending_progress s = None \<Longrightarrow>
   settled (flush_pending_agent_events s)"
  using flush_inv [of s]
  by (auto simp: settled_def log_inv_def flush_pending_agent_events_def requests_after_append)

lemma iteration_log:
  assumes "log_inv s" and "attempt_inv s"
  shows "log_inv (snd (attempt_iteration env s))"
proof (cases "ma_pending_progress s")
  case None
  with flush_settled [OF assms] show ?thesis by (simp add: attempt_iteration_def run_phase_log)
next
  case (Some p)
  have events: "list_ex is_reset (drop n es)" if "list_ex is_reset es" "\<not> list_ex is_reset (take n es)" for n es
    using that by (metis append_take_drop_id list_ex_append)
  have "requests_after quiet (ma_log s @ map Log_Event xs @ [Log_Progress p])
      \<longleftrightarrow> requests_after quiet (ma_log s)" for xs
    by (rule requests_after_append) auto
  with Some assms show ?thesis
    by (auto simp: attempt_iteration_def return_progress_def try_flush_pending_agent_events_def log_inv_def
        intro: events)
qed

lemma attempt_step_log: "log_inv s \<Longrightarrow> attempt_inv s \<Longrightarrow> log_inv (attempt_step x s)"
proof (cases x)
  case (AO_Cancel env)
  assume "log_inv s"
  with AO_Cancel show ?thesis
    by (simp add: finish_token_cancellation_def return_progress_def log_inv_def requests_after_append)
next
  case AO_OtherRequest
  assume "log_inv s"
  with AO_OtherRequest show ?thesis by (cases "ma_pending_progress s") (simp_all add: log_inv_def)
qed (simp add: iteration_log)

section \<open>Requests and their budget\<close>

definition requests_sent :: "'x attempt_log list \<Rightarrow> nat" where
  "requests_sent log = count_where (\<lambda>x. case x of Log_Request \<Rightarrow> True | _ \<Rightarrow> False) log"

lemma requests_sent_simps [simp]:
  "requests_sent [] = 0" "requests_sent (xs @ ys) = requests_sent xs + requests_sent ys"
  "requests_sent [Log_Request] = 1" "requests_sent [Log_Progress p] = 0"
  "requests_sent (map Log_Event es) = 0"
  by (induction es) (simp_all add: requests_sent_def)

definition covers :: "model_request_budget \<Rightarrow> model_request_budget option \<Rightarrow> nat \<Rightarrow> bool" where
  "covers b0 budget n =
     (case budget of
        None \<Rightarrow> False
      | Some b \<Rightarrow> rb_limit b = rb_limit b0 \<and> rb_used b \<le> rb_limit b0
          \<and> unat (rb_used b0) + n \<le> unat (rb_used b))"

definition budget_covers :: "model_request_budget \<Rightarrow> 'x model_attempt \<Rightarrow> bool" where
  "budget_covers b0 s = covers b0 (ma_request_budget s) (requests_sent (ma_log s))"

lemma acquire_used:
  "acquire_request_budget b = (True, b') \<Longrightarrow>
     unat (rb_used b') = Suc (unat (rb_used b)) \<and> rb_used b' \<le> rb_limit b' \<and> rb_limit b' = rb_limit b"
  "acquire_request_budget b = (False, b') \<Longrightarrow> b' = b"
  by (auto simp: acquire_request_budget_def unat_less_Suc(1) word_le_nat_alt word_less_nat_alt
      split: if_splits)

lemma same_effects:
  "ma_log (accept_provider_event env ev v b s) = ma_log s"
  "ma_request_budget (accept_provider_event env ev v b s) = ma_request_budget s"
  "ma_log (handle_stream_end env s) = ma_log s"
  "ma_request_budget (handle_stream_end env s) = ma_request_budget s"
  "ma_log (recover_from_disconnect env d c s) = ma_log s"
  "ma_request_budget (recover_from_disconnect env d c s) = ma_request_budget s"
  "ma_log (interrupt_after_replay_barrier env e s) = ma_log s"
  "ma_request_budget (interrupt_after_replay_barrier env e s) = ma_request_budget s"
  by (simp_all add: accept_provider_event_def handle_stream_end_def capture_accepted_route_def queue_connected_eq
      first_token_def finish_def panic_def recover_from_disconnect_def interrupt_after_replay_barrier_def
      interrupted_def discard_resettable_sample_def queue_defs
      split: option.splits stream_recovery_decision.splits)

lemma terminal_effects:
  "ma_log (handle_terminal_error env e s) = ma_log s"
  "ma_request_budget (handle_terminal_error env e s) = ma_request_budget s"
proof -
  obtain act s1 where c: "classify_connect_error env e FS_Stream s = (act, s1)" by force
  show "ma_log (handle_terminal_error env e s) = ma_log s"
    "ma_request_budget (handle_terminal_error env e s) = ma_request_budget s"
    using c classify_log [OF c]
    by (cases act; simp add: handle_terminal_error_def same_effects queue_defs
        discard_resettable_sample_def finish_def)+
qed

lemma opening_effects:
  "ma_request_budget (snd (opening_stream env s)) = ma_request_budget s"
  "requests_sent (ma_log (snd (opening_stream env s))) = requests_sent (ma_log s)"
  "ma_request_budget (opening_completion env sw s) = ma_request_budget s"
  "requests_sent (ma_log (opening_completion env sw s)) = requests_sent (ma_log s)"
proof -
  have stream: "ma_request_budget (snd (opening_stream env s)) = ma_request_budget s
      \<and> requests_sent (ma_log (snd (opening_stream env s))) = requests_sent (ma_log s)"
  proof (cases "en_open env")
    case (Inl e)
    obtain act s1 where c: "classify_connect_error env e FS_Connect s = (act, s1)" by force
    from Inl c classify_log [OF c] show ?thesis
      by (cases act) (simp_all add: opening_stream_def finish_def)
  qed (simp add: opening_stream_def return_progress_def)
  have completion: "ma_request_budget (opening_completion env sw s) = ma_request_budget s
      \<and> requests_sent (ma_log (opening_completion env sw s)) = requests_sent (ma_log s)"
  proof (cases "en_complete env")
    case (Inl e)
    obtain act s1 where c: "classify_connect_error env e FS_Completion s = (act, s1)" by force
    from Inl c classify_log [OF c] show ?thesis
      by (cases act) (simp_all add: opening_completion_def finish_def)
  qed (simp add: opening_completion_def finish_def capture_accepted_route_def queue_connected_eq
      first_token_def Let_def)
  show "ma_request_budget (snd (opening_stream env s)) = ma_request_budget s"
    "requests_sent (ma_log (snd (opening_stream env s))) = requests_sent (ma_log s)"
    "ma_request_budget (opening_completion env sw s) = ma_request_budget s"
    "requests_sent (ma_log (opening_completion env sw s)) = requests_sent (ma_log s)"
    using stream completion by simp_all
qed

lemma acquire_covers:
  "covers b0 (Some b) n \<Longrightarrow> acquire_request_budget b = (True, b') \<Longrightarrow> covers b0 (Some b') (Suc n)"
  "covers b0 (Some b) n \<Longrightarrow> covers b0 (Some (snd (acquire_request_budget b))) n"
  by (auto simp: covers_def acquire_request_budget_def unat_less_Suc(1) word_le_nat_alt word_less_nat_alt
      split: if_splits)

lemma begin_covers:
  "budget_covers b0 s \<Longrightarrow> budget_covers b0 (begin_stream_open env s)"
  "budget_covers b0 s \<Longrightarrow> budget_covers b0 (begin_completion env sw s)"
proof -
  assume c: "budget_covers b0 s"
  then obtain b where b: "ma_request_budget s = Some b" "covers b0 (Some b) (requests_sent (ma_log s))"
    by (cases "ma_request_budget s") (simp_all add: budget_covers_def covers_def)
  obtain ok b' where a: "acquire_request_budget b = (ok, b')" by force
  show "budget_covers b0 (begin_stream_open env s)" "budget_covers b0 (begin_completion env sw s)"
    using b a acquire_covers(1) [OF b(2), of b']
    by (cases ok; simp add: begin_stream_open_def begin_completion_def acquire_request_def
        send_request_def request_for_invocation_def finish_def budget_covers_def)+
qed

lemma streaming_covers: "budget_covers b0 s \<Longrightarrow> budget_covers b0 (snd (streaming env s))"
  by (simp add: streaming_def return_progress_def budget_covers_def same_effects terminal_effects
      split: option.splits provider_stream_event.splits)

lemma run_phase_covers: "budget_covers b0 s \<Longrightarrow> budget_covers b0 (snd (run_phase env s))"
  by (cases "ma_phase s")
     (simp_all add: run_phase_def begin_covers streaming_covers,
      simp_all add: budget_covers_def opening_effects return_progress_def)

lemma attempt_step_covers: "budget_covers b0 s \<Longrightarrow> budget_covers b0 (attempt_step x s)"
proof (cases x)
  case (AO_Iterate env)
  assume c: "budget_covers b0 s"
  then have f: "budget_covers b0 (flush_pending_agent_events s)"
    by (simp add: budget_covers_def flush_pending_agent_events_def)
  from c run_phase_covers [OF f] AO_Iterate show ?thesis
    by (cases "ma_pending_progress s")
       (simp_all add: attempt_iteration_def return_progress_def try_flush_pending_agent_events_def
         budget_covers_def)
next
  case (AO_Cancel env)
  assume "budget_covers b0 s"
  with AO_Cancel show ?thesis
    by (simp add: budget_covers_def finish_token_cancellation_def return_progress_def)
next
  case AO_OtherRequest
  assume "budget_covers b0 s"
  with AO_OtherRequest acquire_covers(2) show ?thesis
    by (cases "ma_request_budget s") (simp_all add: budget_covers_def covers_def [of _ None])
qed

interpretation budgeted_attempt: invariant_machine attempt_step "budget_covers b0"
  by unfold_locales (rule attempt_step_covers)

interpretation logged_attempt: invariant_machine attempt_step "\<lambda>s. log_inv s \<and> attempt_inv s"
  by unfold_locales (simp add: attempt_step_log attempt_step_inv)

section \<open>Properties\<close>

definition attempt_start ::
  "model_request_budget option \<Rightarrow> string \<Rightarrow> string \<Rightarrow> u32 option \<Rightarrow> bool \<Rightarrow> 'x model_attempt" where
  "attempt_start budget provider_name model retries force =
     (let s = model_attempt_new provider_name model retries force
      in case budget of None \<Rightarrow> s | Some b \<Rightarrow> with_request_budget b s)"

lemma attempt_start_inv:
  assumes "s = attempt_start b p m r f"
  shows "log_inv s \<and> attempt_inv s"
proof -
  have "log_inv (s\<lparr>ma_request_budget := x\<rparr>) = log_inv s"
    "attempt_inv (s\<lparr>ma_request_budget := x\<rparr>) = attempt_inv s" for s :: "'a model_attempt" and x
    by (auto simp: log_inv_def attempt_inv_def split: option.splits)
  then show ?thesis
    by (simp add: assms attempt_start_def Let_def with_request_budget_def log_inv_new attempt_inv_new
        split: option.splits)
qed

lemma attempt_run_inv:
  assumes "s = run_ops attempt_step ops (attempt_start b p m r f)"
  shows "log_inv s \<and> attempt_inv s"
  unfolding assms by (rule logged_attempt.run_inv [OF attempt_start_inv [OF refl]])

lemma attempt_requests_quiet:
  assumes "ma_log (run_ops attempt_step ops (attempt_start b p m r f)) = xs @ Log_Request # ys"
  shows "quiet xs"
  using attempt_run_inv [OF refl, of ops b p m r f] assms
  by (auto simp: log_inv_def requests_after_def)

text \<open>
  C21: Once the caller has received a provider-hosted action, the attempt never sends another
  request to the provider, whatever errors, disconnects, cancellations and retries follow: an
  action with side effects is not replayed.
\<close>

theorem replay_barrier_final:
  assumes "ma_log (run_ops attempt_step ops (attempt_start b p m r f))
             = xs @ Log_Progress (MP_Provider (AV_HostedTool t) a first) # ys"
  shows "Log_Request \<notin> set ys"
proof
  assume "Log_Request \<in> set ys"
  then obtain us vs where "ys = us @ Log_Request # vs" by (metis split_list)
  then have "quiet (xs @ Log_Progress (MP_Provider (AV_HostedTool t) a first) # us)"
    using attempt_requests_quiet [of ops b p m r f _ vs] assms by simp
  then show False by (simp add: quiet_def hosted_returned_def)
qed

lemma draft_stays_open:
  "list_all (\<lambda>x. case x of Log_Event e \<Rightarrow> \<not> is_reset e | _ \<Rightarrow> True) ys \<Longrightarrow> draft_after True ys"
proof (induction ys)
  case (Cons x ys)
  then show ?case by (cases x) simp_all
qed simp

text \<open>
  A draft is never replaced silently: between visible output the caller has received and the
  next request of the same attempt, the host is always told to discard the sample.
\<close>

theorem draft_reset_before_replay:
  assumes "ma_log (run_ops attempt_step ops (attempt_start b p m r f))
             = xs @ Log_Progress out # ys @ Log_Request # zs"
    and "is_visible out"
  shows "list_ex (\<lambda>x. case x of Log_Event e \<Rightarrow> is_reset e | _ \<Rightarrow> False) ys"
proof (rule ccontr)
  assume "\<not> ?thesis"
  then have "draft_after True ys"
    by (intro draft_stays_open) (auto simp: list_all_iff list_ex_iff split: attempt_log.splits)
  moreover have "quiet (xs @ Log_Progress out # ys)"
    using attempt_requests_quiet [of ops b p m r f _ zs] assms(1) by simp
  ultimately show False using assms(2) by (simp add: quiet_def)
qed

text \<open>
  C24: A call of \<open>next\<close> that is not cancelled returns: within 35 iterations of its loop, whatever
  the provider answers, in every state an attempt can reach.
\<close>

theorem next_terminates:
  assumes "s = run_ops attempt_step ops (attempt_start b p m r f)"
  shows "\<exists>progress s'. next_uncancelled 35 envs s = Some (progress, s')"
  using attempt_run_inv [OF assms] by (intro next_returns measure_bound) simp_all

text \<open>
  An attempt under a request budget sends no more requests than the budget had left, also when
  other attempts draw on it; its two retry counters stay within the policy, whose limits are at
  most ten, and none of its \<open>expect\<close> calls fails.
\<close>

theorem attempt_requests_bounded:
  assumes "s = run_ops attempt_step ops (attempt_start (Some budget) p m r f)"
    and "rb_used budget \<le> rb_limit budget"
  shows "requests_sent (ma_log s) \<le> unat (rb_limit budget) - unat (rb_used budget)
    \<and> ma_connect_retries s \<le> rp_max_connect_retries (ma_policy s)
    \<and> ma_disconnect_retries s \<le> rp_max_disconnect_retries (ma_policy s)
    \<and> policy_ok (ma_policy s) \<and> \<not> ma_panicked s"
proof -
  have "budget_covers budget (attempt_start (Some budget) p m r f)"
    using assms(2)
    by (simp add: attempt_start_def with_request_budget_def budget_covers_def covers_def model_attempt_new_def)
  then have "budget_covers budget s"
    unfolding assms(1) by (rule budgeted_attempt.run_inv)
  then have "requests_sent (ma_log s) \<le> unat (rb_limit budget) - unat (rb_used budget)"
    by (auto simp: budget_covers_def covers_def word_le_nat_alt split: option.splits)
  with attempt_run_inv [OF assms(1)] show ?thesis
    by (simp add: attempt_inv_def)
qed

section \<open>Retries after visible output\<close>

definition env_of :: "core_error + unit \<Rightarrow> nat provider_stream_event option \<Rightarrow> nat attempt_env" where
  "env_of opened event = \<lparr>en_open = opened, en_event = event, en_complete = Inr 0, en_elapsed_ms = 5,
     en_sample_id = ''sample'', en_route = route_unknown ''openai'' ''m'' ReplayNotRequired,
     en_projection = Some 0, en_route_omitted = 0, en_try_send = 1, en_retry_at = (\<lambda>_. None),
     en_foreign = []\<rparr>"

definition visible_chunk :: "nat stream_chunk" where
  "visible_chunk = \<lparr>ck_delta = ''Hi'', ck_tool_call_delta = None, ck_thinking_delta = None\<rparr>"

text \<open>A provider that opens, answers with a visible token and then reports an unavailable service.\<close>

definition late_failure :: "nat attempt_op list" where
  "late_failure = map AO_Iterate
     [env_of (Inr ()) None, env_of (Inr ()) None, env_of (Inr ()) (Some (PS_Chunk visible_chunk)),
      env_of (Inr ()) None,
      env_of (Inr ()) (Some (PS_TerminalError (PF_ProviderUnavailable 503 ''overloaded''))),
      env_of (Inr ()) None]"

text \<open>Where the attempt stands between the iterations of such a cycle.\<close>

definition stands :: "nat \<Rightarrow> bool \<Rightarrow> bool \<Rightarrow> attempt_phase \<Rightarrow> nat model_attempt \<Rightarrow> bool" where
  "stands n seen pending phase s =
     (requests_sent (ma_log s) = n \<and> ma_phase s = phase
      \<and> (if pending then \<exists>a. ma_pending_progress s = Some (MP_Provider (AV_Chunk visible_chunk) a True)
         else ma_pending_progress s = None)
      \<and> ma_request_budget s = None \<and> (ma_accepted s = None \<longleftrightarrow> \<not> seen)
      \<and> ma_sample_progress_seen s = seen \<and> \<not> ma_replay_barrier_crossed s
      \<and> (seen \<longrightarrow> ma_connect_retries s = 0) \<and> ma_policy s = stream_recovery_policy_default)"

abbreviation ready_again :: "nat \<Rightarrow> nat model_attempt \<Rightarrow> bool" where
  "ready_again n \<equiv> stands n False False PH_ReadyToStream"

lemma first_retry:
  "decide_after_transient_error 0 detail stream_recovery_policy_default
     = SC_Retry 1 (retry_backoff_with_jitter 1)"
  by (simp add: decide_after_transient_error_def stream_recovery_policy_default_def)

lemmas loop_defs = attempt_iteration_def run_phase_def return_progress_def flush_pending_agent_events_def
  env_of_def stands_def

lemma cycle_request:
  "ready_again n s \<Longrightarrow> stands (Suc n) False False PH_OpeningStream
     (snd (attempt_iteration (env_of x y) s))"
  by (simp add: loop_defs begin_stream_open_def acquire_request_def send_request_def
      request_for_invocation_def)

lemma cycle_open:
  "stands n False False PH_OpeningStream s \<Longrightarrow>
   stands n False False PH_Streaming (snd (attempt_iteration (env_of (Inr ()) y) s))"
  by (simp add: loop_defs opening_stream_def)

lemma cycle_chunk:
  "stands n False False PH_Streaming s \<Longrightarrow>
   stands n True True PH_Streaming (snd (attempt_iteration (env_of x (Some (PS_Chunk visible_chunk))) s))"
  by (simp add: loop_defs streaming_def accept_provider_event_def capture_accepted_route_def
      chunk_is_visible_def visible_chunk_def queue_connected_eq first_token_def)

lemma cycle_return:
  "stands n True True PH_Streaming s \<Longrightarrow>
   stands n True False PH_Streaming (snd (attempt_iteration (env_of x y) s))"
  by (auto simp: loop_defs try_flush_pending_agent_events_def)

lemma cycle_fail:
  "stands n True False PH_Streaming s \<Longrightarrow>
   stands n False False (PH_WaitingToRetryStream (retry_backoff_with_jitter 1)) (snd (attempt_iteration
     (env_of x (Some (PS_TerminalError (PF_ProviderUnavailable status message)))) s))"
  by (simp add: loop_defs streaming_def handle_terminal_error_def classify_connect_error_def
      apply_connect_decision_def first_retry queue_defs discard_resettable_sample_def)

lemma cycle_wait:
  "stands n False False (PH_WaitingToRetryStream d) s \<Longrightarrow> ready_again n (snd (attempt_iteration (env_of x y) s))"
  by (simp add: loop_defs)

lemma late_failure_cycle: "ready_again n s \<Longrightarrow> ready_again (Suc n) (run_ops attempt_step late_failure s)"
  by (auto simp: late_failure_def
      intro!: cycle_wait cycle_fail cycle_return cycle_chunk cycle_open cycle_request)

lemma late_failure_cycles:
  "ready_again n s \<Longrightarrow> ready_again (n + k) (run_ops attempt_step (concat (replicate k late_failure)) s)"
proof (induction k arbitrary: n s)
  case (Suc k)
  have "ready_again (Suc n + k) (run_ops attempt_step (concat (replicate k late_failure))
      (run_ops attempt_step late_failure s))"
    by (rule Suc.IH [OF late_failure_cycle [OF Suc.prems]])
  then show ?case by simp
qed simp

text \<open>
  The retry limit of the policy does not bound retries after visible output: the counter is
  reset when the first visible token arrives, so a provider that fails after it is tried again
  without end; only the request budget stops the attempt.
\<close>

theorem late_failures_never_exhaust_retries:
  "requests_sent (ma_log (run_ops attempt_step (concat (replicate n late_failure))
     (attempt_start None provider_name model None False))) = n"
proof -
  have "ready_again 0 (attempt_start None provider_name model None False)"
    by (simp add: stands_def attempt_start_def model_attempt_new_def with_stream_max_retries_def)
  from late_failure_cycles [OF this, of n] show ?thesis by (simp add: stands_def)
qed

section \<open>Witnesses\<close>

definition hosted_ops :: "nat attempt_op list" where
  "hosted_ops = map AO_Iterate
     [env_of (Inl (CE_RateLimited 1)) None, env_of (Inl (CE_RateLimited 1)) None,
      env_of (Inr ()) None, env_of (Inr ()) None, env_of (Inr ()) None,
      env_of (Inr ()) (Some (PS_HostedTool 7)), env_of (Inr ()) None,
      env_of (Inr ()) (Some (PS_RecoverableError ''reset'' PRC_Network)), env_of (Inr ()) None,
      env_of (Inr ()) None]"

definition hosted_run :: "nat model_attempt" where
  "hosted_run = run_ops attempt_step hosted_ops (attempt_start None ''p'' ''m'' None False)"

definition is_hosted_log :: "nat attempt_log \<Rightarrow> bool" where
  "is_hosted_log x = (case x of Log_Progress p \<Rightarrow> is_hosted p | _ \<Rightarrow> False)"

lemma hosted_run_eval:
  "map is_hosted_log (ma_log hosted_run)
     = [False, False, False, False, False, True, False, False, False, False]"
  "ma_log hosted_run ! 5 = Log_Progress (MP_Provider (AV_HostedTool 7)
     \<lparr>aa_sample_id = ''sample'', aa_route = route_unknown ''openai'' ''m'' ReplayNotRequired,
      aa_omitted_units = 0\<rparr> True)"
  "requests_sent (ma_log hosted_run) = 2"
  by code_simp+

theorem replay_barrier_witness:
  "Log_Request \<notin> set (drop 6 (ma_log hosted_run)) \<and> requests_sent (ma_log hosted_run) = 2
   \<and> length (ma_log hosted_run) = 10"
proof -
  have len: "length (ma_log hosted_run) = 10" using arg_cong [OF hosted_run_eval(1), of length] by simp
  then have "ma_log hosted_run = take 5 (ma_log hosted_run) @ ma_log hosted_run ! 5 # drop 6 (ma_log hosted_run)"
    using id_take_nth_drop [of 5 "ma_log hosted_run"] by simp
  then show ?thesis
    using replay_barrier_final [of hosted_ops None "''p''" "''m''" None False "take 5 (ma_log hosted_run)"]
      len hosted_run_eval(2,3)
    by (simp add: hosted_run_def [symmetric])
qed

text \<open>A stream that is rate limited after visible output.\<close>

definition limited_ops :: "nat attempt_op list" where
  "limited_ops = map AO_Iterate
     [env_of (Inr ()) None, env_of (Inr ()) None, env_of (Inr ()) (Some (PS_Chunk visible_chunk)),
      env_of (Inr ()) None, env_of (Inr ()) (Some (PS_TerminalError (PF_RateLimited 1))),
      env_of (Inr ()) None, env_of (Inr ()) None]"

definition late_run :: "nat model_attempt" where
  "late_run = run_ops attempt_step limited_ops (attempt_start None ''p'' ''m'' None False)"

lemma late_run_eval:
  "length (ma_log late_run) = 7"
  "ma_log late_run ! 3 = Log_Progress (MP_Provider (AV_Chunk visible_chunk)
     \<lparr>aa_sample_id = ''sample'', aa_route = route_unknown ''openai'' ''m'' ReplayNotRequired,
      aa_omitted_units = 0\<rparr> True)"
  "ma_log late_run ! 6 = Log_Request"
  by code_simp+

theorem draft_reset_witness:
  "list_ex (\<lambda>x. case x of Log_Event e \<Rightarrow> is_reset e | _ \<Rightarrow> False) (take 2 (drop 4 (ma_log late_run)))"
proof -
  have split: "ma_log late_run = take 3 (ma_log late_run) @ ma_log late_run ! 3
      # take 2 (drop 4 (ma_log late_run)) @ ma_log late_run ! 6 # drop 7 (ma_log late_run)"
  proof -
    have a: "ma_log late_run = take 3 (ma_log late_run) @ ma_log late_run ! 3 # drop 4 (ma_log late_run)"
      using id_take_nth_drop [of 3 "ma_log late_run"] late_run_eval(1) by simp
    have b: "drop 4 (ma_log late_run) = take 2 (drop 4 (ma_log late_run)) @ ma_log late_run ! 6
        # drop 7 (ma_log late_run)"
      using id_take_nth_drop [of 2 "drop 4 (ma_log late_run)"] late_run_eval(1) by simp
    from a b show ?thesis by metis
  qed
  define out where "out = MP_Provider (AV_Chunk visible_chunk) \<lparr>aa_sample_id = ''sample'',
    aa_route = route_unknown ''openai'' ''m'' ReplayNotRequired, aa_omitted_units = 0\<rparr> True"
  have vis: "is_visible out" by (simp add: out_def chunk_is_visible_def visible_chunk_def)
  have "ma_log late_run = take 3 (ma_log late_run) @ Log_Progress out
      # take 2 (drop 4 (ma_log late_run)) @ Log_Request # drop 7 (ma_log late_run)"
    using split late_run_eval(2,3) by (simp only: out_def)
  then show ?thesis
    unfolding late_run_def by (rule draft_reset_before_replay [OF _ vis])
qed

theorem next_terminates_witness:
  "\<exists>progress s'. next_uncancelled 35 (\<lambda>_. env_of (Inl (CE_TransientLlm ''reset'')) None) late_run
     = Some (progress, s')"
  by (rule next_terminates [OF late_run_def])

text \<open>A budget with one request left: the retry is refused.\<close>

definition tight_run :: "nat model_attempt" where
  "tight_run = run_ops attempt_step limited_ops
     (attempt_start (Some \<lparr>rb_used = 2, rb_limit = 3\<rparr>) ''p'' ''m'' None False)"

theorem attempt_requests_witness:
  "requests_sent (ma_log tight_run) \<le> 1 \<and> \<not> ma_panicked tight_run \<and> ma_phase tight_run = PH_Done"
proof -
  have "ma_phase tight_run = PH_Done" by code_simp
  with attempt_requests_bounded [OF tight_run_def] show ?thesis by simp
qed

end
