(* ===== verification/Delegation_Scheduler.thy ===== *)
theory Delegation_Scheduler
  imports Core_Error
begin

text \<open>
  The admission of delegated workers, \<open>apps/desktop/src-tauri/src/delegation_scheduler.rs\<close>:
  the resolution of the limits from the agent's configuration, the worker lanes with their
  semaphores, the two-phase admission and the call and token accounting.

  The catalogue entries that \<open>resolve\<close> looks up for the configured model are its arguments.
  A semaphore is the number of its free permits. A delegated call is an entry of \<open>ds_calls\<close>
  with the point its future has reached; a step is one await-free section of one call, so that
  every interleaving of concurrent calls is a sequence of steps. Which queued call a free permit goes to
  is left open, which covers the fair order of the semaphore. The plain increments of the counters wrap here; the
  theorems show that they do not under a call limit.
\<close>

section \<open>Limits\<close>

definition DEFAULT_CONNECT_DEADLINE_MS :: u64 where "DEFAULT_CONNECT_DEADLINE_MS = 15000"

definition DEFAULT_FIRST_TOKEN_DEADLINE_MS :: u64 where "DEFAULT_FIRST_TOKEN_DEADLINE_MS = 45000"

definition LONG_REASONER_CONNECT_DEADLINE_MS :: u64 where
  "LONG_REASONER_CONNECT_DEADLINE_MS = 90000"

definition LONG_REASONER_FIRST_TOKEN_DEADLINE_MS :: u64 where
  "LONG_REASONER_FIRST_TOKEN_DEADLINE_MS = 150000"

datatype delegation_limit_policy = DLP_Auto | DLP_Explicit u64

record delegation_limits_config =
  dc_input_context_limit :: "u64 option"
  dc_handoff_context_tokens_per_worker :: "u64 option"
  dc_max_output_tokens_per_step :: "u64 option"
  dc_max_output_tokens_per_worker :: "u64 option"
  dc_max_actual_tokens_per_worker :: "u64 option"
  dc_total_actual_tokens_soft_limit :: "u64 option"
  dc_total_cost_soft_limit_micros :: "u64 option"
  dc_max_parallel :: "u32 option"
  dc_max_calls_per_turn :: "u32 option"
  dc_queue_deadline_ms :: "u64 option"
  dc_connect_deadline_ms :: "u64 option"
  dc_first_token_deadline_ms :: "u64 option"
  dc_run_deadline_ms :: "u64 option"

datatype provider_type =
    PT_OpenAi | PT_OpenRouter | PT_Anthropic | PT_Google | PT_DeepSeek | PT_Ollama | PT_LmStudio
  | PT_AzureOpenAi | PT_Zhipu | PT_Moonshot | PT_Qwen | PT_AlibabaModelStudio | PT_SiliconFlow
  | PT_Doubao | PT_Yi | PT_Baichuan | PT_Custom

text \<open>The fields of \<open>AgentConfig\<close> that the resolution reads; the resolved context window is its
  capacity.\<close>

record agent_config =
  ac_provider_type :: "provider_type option"
  ac_max_tokens :: "u32 option"
  ac_context_window :: "u32 option"
  ac_context_window_resolution :: "u32 option option"
  ac_subagent_max_parallel :: "u32 option"
  ac_subagent_max_calls_per_turn :: "u32 option"
  ac_subagent_token_budget :: "u32 option"
  ac_subagent_verification_reserve_percent :: "u32 option"
  ac_delegation_limits_v2 :: "delegation_limits_config option"

record catalog_limits =
  cl_context_tokens :: "u64 option"
  cl_max_output_tokens :: "u64 option"

record catalog_reasoning =
  cr_default_effort :: "string option"
  cr_thinking_budget_max_tokens :: "u32 option"

record delegation_limits =
  dl_input_context_policy :: delegation_limit_policy
  dl_handoff_context_tokens_per_worker :: "u64 option"
  dl_max_output_tokens_per_worker :: delegation_limit_policy
  dl_max_actual_tokens_per_worker :: "u64 option"
  dl_total_actual_tokens_soft_limit :: "u64 option"
  dl_total_cost_soft_limit_micros :: "u64 option"
  dl_cost_accounting_available :: bool
  dl_max_parallel :: u32
  dl_max_calls_per_turn :: "u32 option"
  dl_exploration_lane_slots :: u32
  dl_verification_lane_slots :: u32
  dl_judge_lane_slots :: u32
  dl_queue_deadline_ms :: "u64 option"
  dl_connect_deadline_ms :: u64
  dl_first_token_deadline_ms :: u64
  dl_run_deadline_ms :: "u64 option"

definition usage_cost_metadata :: "provider_type option \<Rightarrow> u64 option \<times> string option \<times> string option" where
  "usage_cost_metadata p =
     (if p = Some PT_Ollama \<or> p = Some PT_LmStudio
      then (Some 0, Some ''USD'', Some ''local-api-v1'') else (None, None, None))"

text \<open>\<open>is_some_and\<close> and \<open>Ord::clamp\<close>.\<close>

definition is_some_and :: "('a \<Rightarrow> bool) \<Rightarrow> 'a option \<Rightarrow> bool" where
  "is_some_and p x = (case x of Some v \<Rightarrow> p v | None \<Rightarrow> False)"

definition clamp :: "'a::linorder \<Rightarrow> 'a \<Rightarrow> 'a \<Rightarrow> 'a" where
  "clamp lo hi x = (if x < lo then lo else if hi < x then hi else x)"

definition u64_from :: "u32 \<Rightarrow> u64" where
  "u64_from x = ucast x"

text \<open>Whether the model needs the long deadlines for its first answer.\<close>

definition long_prefill_profile ::
  "catalog_limits option \<Rightarrow> catalog_reasoning option \<Rightarrow> agent_config \<Rightarrow> bool" where
  "long_prefill_profile limits reasoning config =
     (is_some_and (\<lambda>l. is_some_and (\<lambda>t. 500000 \<le> t) (cl_context_tokens l)
                      \<or> is_some_and (\<lambda>t. 65536 \<le> t) (cl_max_output_tokens l)) limits
      \<or> is_some_and (\<lambda>t. 500000 \<le> t)
          (map_option u64_from (opt_or (Option.bind (ac_context_window_resolution config) id)
                                       (ac_context_window config)))
      \<or> is_some_and (\<lambda>t. 65536 \<le> t) (ac_max_tokens config)
      \<or> is_some_and (\<lambda>r. cr_default_effort r = Some ''xhigh'' \<or> cr_default_effort r = Some ''max''
                        \<or> is_some_and (\<lambda>t. 65536 \<le> t) (cr_thinking_budget_max_tokens r)) reasoning
      \<or> ac_provider_type config = Some PT_Ollama \<or> ac_provider_type config = Some PT_LmStudio)"

definition resolve_max_parallel :: "agent_config \<Rightarrow> u32" where
  "resolve_max_parallel config =
     clamp 1 12 (unwrap_or 3
       (opt_or (Option.bind (ac_delegation_limits_v2 config) dc_max_parallel)
               (ac_subagent_max_parallel config)))"

definition resolve_max_calls :: "agent_config \<Rightarrow> u32 option" where
  "resolve_max_calls config =
     opt_or (Option.bind (ac_delegation_limits_v2 config) dc_max_calls_per_turn)
            (ac_subagent_max_calls_per_turn config)"

definition dedicated_lanes :: "agent_config \<Rightarrow> bool" where
  "dedicated_lanes config =
     (0 < unwrap_or 0 (ac_subagent_verification_reserve_percent config)
      \<and> 3 \<le> resolve_max_parallel config
      \<and> \<not> is_some_and (\<lambda>limit. limit < 3) (resolve_max_calls config))"

definition explicit_or_auto :: "u64 option \<Rightarrow> delegation_limit_policy" where
  "explicit_or_auto x = (case x of Some v \<Rightarrow> DLP_Explicit v | None \<Rightarrow> DLP_Auto)"

definition resolve ::
  "catalog_limits option \<Rightarrow> catalog_reasoning option \<Rightarrow> agent_config \<Rightarrow> delegation_limits" where
  "resolve limits reasoning config =
     (let configured = ac_delegation_limits_v2 config;
          long = long_prefill_profile limits reasoning config;
          default_connect = (if long then LONG_REASONER_CONNECT_DEADLINE_MS
                             else DEFAULT_CONNECT_DEADLINE_MS);
          default_first_token = (if long then LONG_REASONER_FIRST_TOKEN_DEADLINE_MS
                                 else DEFAULT_FIRST_TOKEN_DEADLINE_MS);
          max_parallel = resolve_max_parallel config;
          run_deadline = Option.bind configured dc_run_deadline_ms;
          deadline_cap = max (unwrap_or (- 1) run_deadline) 100
      in \<lparr>dl_input_context_policy = explicit_or_auto
            (opt_or (Option.bind configured dc_input_context_limit)
               (if configured = None then map_option u64_from (ac_context_window config) else None)),
          dl_handoff_context_tokens_per_worker =
            Option.bind configured dc_handoff_context_tokens_per_worker,
          dl_max_output_tokens_per_worker = explicit_or_auto
            (opt_or (Option.bind configured (\<lambda>l.
                       opt_or (dc_max_output_tokens_per_step l) (dc_max_output_tokens_per_worker l)))
               (if configured = None then map_option u64_from (ac_max_tokens config) else None)),
          dl_max_actual_tokens_per_worker =
            Option.bind configured dc_max_actual_tokens_per_worker,
          dl_total_actual_tokens_soft_limit =
            (case configured of
               Some l \<Rightarrow> dc_total_actual_tokens_soft_limit l
             | None \<Rightarrow> map_option u64_from (ac_subagent_token_budget config)),
          dl_total_cost_soft_limit_micros =
            Option.bind configured dc_total_cost_soft_limit_micros,
          dl_cost_accounting_available =
            (fst (usage_cost_metadata (ac_provider_type config)) \<noteq> None),
          dl_max_parallel = max_parallel,
          dl_max_calls_per_turn = resolve_max_calls config,
          dl_exploration_lane_slots =
            (if dedicated_lanes config then max_parallel - 2 else max_parallel),
          dl_verification_lane_slots = (if dedicated_lanes config then 1 else 0),
          dl_judge_lane_slots = (if dedicated_lanes config then 1 else 0),
          dl_queue_deadline_ms =
            map_option (\<lambda>limit. min limit (unwrap_or (- 1) run_deadline))
              (Option.bind configured dc_queue_deadline_ms),
          dl_connect_deadline_ms = clamp 100 deadline_cap
            (unwrap_or default_connect (Option.bind configured dc_connect_deadline_ms)),
          dl_first_token_deadline_ms = clamp 100 deadline_cap
            (unwrap_or default_first_token (Option.bind configured dc_first_token_deadline_ms)),
          dl_run_deadline_ms = run_deadline\<rparr>)"

section \<open>Scheduler state\<close>

datatype delegation_lane = Lane_Exploration | Lane_Verification | Lane_Judge

record delegation_budget_state =
  bs_limits :: delegation_limits
  bs_calls_started :: u32
  bs_verification_calls_started :: u32
  bs_judge_calls_started :: u32
  bs_tokens_spent :: u32
  bs_tokens_reserved :: u32
  bs_cost_spent_micros :: u64

datatype semaphore_id = Sem_Shared | Sem_Exploration | Sem_Verification | Sem_Judge

datatype call_stage =
    Call_Queued
  | Call_Granted semaphore_id
  | Call_Admitted semaphore_id
  | Call_Ended semaphore_id
  | Call_Gone

record delegated_call =
  dg_label :: string
  dg_reserved_tokens :: u32
  dg_lane :: delegation_lane
  dg_stage :: call_stage

record delegation_scheduler =
  ds_shared_lane :: "nat option"
  ds_exploration_lane :: nat
  ds_verification_lane :: "nat option"
  ds_judge_lane :: "nat option"
  ds_state :: delegation_budget_state
  ds_calls :: "delegated_call list"

definition with_limits :: "delegation_limits \<Rightarrow> delegation_scheduler" where
  "with_limits limits =
     (let dedicated = 0 < dl_verification_lane_slots limits \<or> 0 < dl_judge_lane_slots limits
      in \<lparr>ds_shared_lane = (if dedicated then None else Some (unat (dl_max_parallel limits))),
          ds_exploration_lane = unat (dl_exploration_lane_slots limits),
          ds_verification_lane =
            (if 0 < dl_verification_lane_slots limits
             then Some (unat (dl_verification_lane_slots limits)) else None),
          ds_judge_lane =
            (if 0 < dl_judge_lane_slots limits
             then Some (unat (dl_judge_lane_slots limits)) else None),
          ds_state = \<lparr>bs_limits = limits, bs_calls_started = 0,
            bs_verification_calls_started = 0, bs_judge_calls_started = 0, bs_tokens_spent = 0,
            bs_tokens_reserved = 0, bs_cost_spent_micros = 0\<rparr>,
          ds_calls = []\<rparr>)"

definition delegation_scheduler_new ::
  "catalog_limits option \<Rightarrow> catalog_reasoning option \<Rightarrow> agent_config \<Rightarrow> delegation_scheduler" where
  "delegation_scheduler_new limits reasoning config = with_limits (resolve limits reasoning config)"

definition semaphore_for :: "delegation_scheduler \<Rightarrow> delegation_lane \<Rightarrow> semaphore_id" where
  "semaphore_for s lane =
     (if ds_shared_lane s \<noteq> None then Sem_Shared
      else case lane of
        Lane_Exploration \<Rightarrow> Sem_Exploration
      | Lane_Verification \<Rightarrow>
          (if ds_verification_lane s \<noteq> None then Sem_Verification else Sem_Exploration)
      | Lane_Judge \<Rightarrow>
          (if ds_judge_lane s \<noteq> None then Sem_Judge
           else if ds_verification_lane s \<noteq> None then Sem_Verification else Sem_Exploration))"

fun free_permits :: "semaphore_id \<Rightarrow> delegation_scheduler \<Rightarrow> nat" where
  "free_permits Sem_Shared s = unwrap_or 0 (ds_shared_lane s)"
| "free_permits Sem_Exploration s = ds_exploration_lane s"
| "free_permits Sem_Verification s = unwrap_or 0 (ds_verification_lane s)"
| "free_permits Sem_Judge s = unwrap_or 0 (ds_judge_lane s)"

fun update_permits :: "semaphore_id \<Rightarrow> (nat \<Rightarrow> nat) \<Rightarrow> delegation_scheduler \<Rightarrow> delegation_scheduler" where
  "update_permits Sem_Shared f s = s\<lparr>ds_shared_lane := map_option f (ds_shared_lane s)\<rparr>"
| "update_permits Sem_Exploration f s = s\<lparr>ds_exploration_lane := f (ds_exploration_lane s)\<rparr>"
| "update_permits Sem_Verification f s =
     s\<lparr>ds_verification_lane := map_option f (ds_verification_lane s)\<rparr>"
| "update_permits Sem_Judge f s = s\<lparr>ds_judge_lane := map_option f (ds_judge_lane s)\<rparr>"

section \<open>Admission\<close>

definition verification_unused :: "delegation_budget_state \<Rightarrow> u32" where
  "verification_unused b =
     of_bool (0 < dl_verification_lane_slots (bs_limits b) \<and> bs_verification_calls_started b = 0)"

definition judge_unused :: "delegation_budget_state \<Rightarrow> u32" where
  "judge_unused b =
     of_bool (0 < dl_judge_lane_slots (bs_limits b) \<and> bs_judge_calls_started b = 0)"

definition reserved_for_other_control_lanes ::
  "delegation_lane \<Rightarrow> delegation_budget_state \<Rightarrow> u32" where
  "reserved_for_other_control_lanes lane b =
     (case lane of
        Lane_Exploration \<Rightarrow> verification_unused b + judge_unused b
      | Lane_Verification \<Rightarrow> judge_unused b
      | Lane_Judge \<Rightarrow> verification_unused b)"

definition u_to_string :: "'a::len word \<Rightarrow> string" where
  "u_to_string x = nat_to_string (unat x)"

definition validate_admission ::
  "delegation_budget_state \<Rightarrow> string \<Rightarrow> delegation_lane \<Rightarrow> core_error + unit" where
  "validate_admission b label lane =
     (let reserved = reserved_for_other_control_lanes lane b;
          lane_call_limit = map_option (\<lambda>l. saturating_sub l reserved)
            (dl_max_calls_per_turn (bs_limits b));
          token_budget = unwrap_or (- 1) (dl_total_actual_tokens_soft_limit (bs_limits b))
      in if is_some_and (\<lambda>limit. limit \<le> bs_calls_started b) lane_call_limit
         then Inl (CE_InvalidInput (''Delegated execution budget exhausted before starting ''
           @ label @ '': '' @ u_to_string (bs_calls_started b) @ '' call(s) started and ''
           @ u_to_string reserved
           @ '' call credit(s) remain reserved for unused control lanes (maximum ''
           @ u_to_string (unwrap_or 0 (dl_max_calls_per_turn (bs_limits b))) @ '' per turn).''))
         else if lane = Lane_Exploration \<and> token_budget \<le> u64_from (bs_tokens_spent b)
         then Inl (CE_InvalidInput
           (''Delegated execution token soft limit exhausted before starting ''
           @ label @ ''. Spent: '' @ u_to_string (bs_tokens_spent b) @ '' of ''
           @ u_to_string token_budget @ '' tokens.''))
         else if is_some_and (\<lambda>cost_limit. dl_cost_accounting_available (bs_limits b)
                   \<and> cost_limit \<le> bs_cost_spent_micros b)
                 (dl_total_cost_soft_limit_micros (bs_limits b))
         then Inl (CE_InvalidInput
           (''Delegated execution cost soft limit exhausted before starting ''
           @ label @ ''. Spent: '' @ u_to_string (bs_cost_spent_micros b) @ '' of ''
           @ u_to_string (unwrap_or 0 (dl_total_cost_soft_limit_micros (bs_limits b)))
           @ '' micros.''))
         else Inr ())"

text \<open>The accounting of the second phase of \<open>admit\<close>, after its validation.\<close>

definition count_admission :: "delegation_lane \<Rightarrow> u32 \<Rightarrow> delegation_budget_state \<Rightarrow> delegation_budget_state" where
  "count_admission lane reserved_tokens b =
     (let b1 = b\<lparr>bs_calls_started := bs_calls_started b + 1\<rparr>;
          b2 = (case lane of
                  Lane_Exploration \<Rightarrow> b1
                | Lane_Verification \<Rightarrow>
                    b1\<lparr>bs_verification_calls_started := bs_verification_calls_started b1 + 1\<rparr>
                | Lane_Judge \<Rightarrow> b1\<lparr>bs_judge_calls_started := bs_judge_calls_started b1 + 1\<rparr>)
      in b2\<lparr>bs_tokens_reserved := saturating_add (bs_tokens_reserved b2) reserved_tokens\<rparr>)"

definition finish_call :: "u32 \<Rightarrow> u32 \<Rightarrow> u64 option \<Rightarrow> delegation_budget_state \<Rightarrow> delegation_budget_state" where
  "finish_call reserved_tokens total_tokens estimated_cost_micros b =
     b\<lparr>bs_tokens_reserved := saturating_sub (bs_tokens_reserved b) reserved_tokens,
       bs_tokens_spent := saturating_add (bs_tokens_spent b) total_tokens,
       bs_cost_spent_micros :=
         saturating_add (bs_cost_spent_micros b) (unwrap_or 0 estimated_cost_micros)\<rparr>"

definition rollback_unstarted_worker :: "u32 \<Rightarrow> bool \<Rightarrow> delegation_budget_state \<Rightarrow> delegation_budget_state" where
  "rollback_unstarted_worker reserved_tokens is_verification b =
     (let b1 = b\<lparr>bs_calls_started := saturating_sub (bs_calls_started b) 1\<rparr>;
          b2 = (if is_verification
                then b1\<lparr>bs_verification_calls_started :=
                          saturating_sub (bs_verification_calls_started b1) 1\<rparr>
                else b1)
      in b2\<lparr>bs_tokens_reserved := saturating_sub (bs_tokens_reserved b2) reserved_tokens\<rparr>)"

definition rollback_unstarted_judge :: "u32 \<Rightarrow> delegation_budget_state \<Rightarrow> delegation_budget_state" where
  "rollback_unstarted_judge reserved_tokens b =
     b\<lparr>bs_calls_started := saturating_sub (bs_calls_started b) 1,
       bs_judge_calls_started := saturating_sub (bs_judge_calls_started b) 1,
       bs_tokens_reserved := saturating_sub (bs_tokens_reserved b) reserved_tokens\<rparr>"

section \<open>Steps of the calls\<close>

definition set_stage :: "nat \<Rightarrow> call_stage \<Rightarrow> delegation_scheduler \<Rightarrow> delegation_scheduler" where
  "set_stage i st s = s\<lparr>ds_calls := (ds_calls s)[i := (ds_calls s ! i)\<lparr>dg_stage := st\<rparr>]\<rparr>"

text \<open>Phase one up to the wait for a permit.\<close>

definition admit_enqueue ::
  "string \<Rightarrow> u32 \<Rightarrow> delegation_lane \<Rightarrow> delegation_scheduler \<Rightarrow> (core_error + nat) \<times> delegation_scheduler" where
  "admit_enqueue label reserved_tokens lane s =
     (case validate_admission (ds_state s) label lane of
        Inl e \<Rightarrow> (Inl e, s)
      | Inr _ \<Rightarrow> (Inr (length (ds_calls s)),
          s\<lparr>ds_calls := ds_calls s @ [\<lparr>dg_label = label, dg_reserved_tokens = reserved_tokens,
               dg_lane = lane, dg_stage = Call_Queued\<rparr>]\<rparr>))"

definition admit_grant :: "nat \<Rightarrow> delegation_scheduler \<Rightarrow> delegation_scheduler" where
  "admit_grant i s =
     (let sem = semaphore_for s (dg_lane (ds_calls s ! i)) in
      if free_permits sem s = 0 then s
      else set_stage i (Call_Granted sem) (update_permits sem (\<lambda>n. n - 1) s))"

text \<open>Phase two: validate again, then count; a refusal drops the permit.\<close>

definition admit_commit :: "nat \<Rightarrow> semaphore_id \<Rightarrow> delegation_scheduler \<Rightarrow> (core_error + unit) \<times> delegation_scheduler" where
  "admit_commit i sem s =
     (let c = ds_calls s ! i in
      case validate_admission (ds_state s) (dg_label c) (dg_lane c) of
        Inl e \<Rightarrow> (Inl e, set_stage i Call_Gone (update_permits sem Suc s))
      | Inr _ \<Rightarrow> (Inr (), set_stage i (Call_Admitted sem)
          (s\<lparr>ds_state := count_admission (dg_lane c) (dg_reserved_tokens c) (ds_state s)\<rparr>)))"

definition rollback_call :: "delegated_call \<Rightarrow> delegation_budget_state \<Rightarrow> delegation_budget_state" where
  "rollback_call c b =
     (case dg_lane c of
        Lane_Exploration \<Rightarrow> rollback_unstarted_worker (dg_reserved_tokens c) False b
      | Lane_Verification \<Rightarrow> rollback_unstarted_worker (dg_reserved_tokens c) True b
      | Lane_Judge \<Rightarrow> rollback_unstarted_judge (dg_reserved_tokens c) b)"

datatype delegation_op =
    DO_Begin string u32 delegation_lane
  | DO_Grant nat
  | DO_Abandon nat
  | DO_Commit nat
  | DO_Rollback nat
  | DO_Finish nat u32 "u64 option"
  | DO_DropPermit nat

text \<open>
  A step applies to a call that is at the right point and leaves the state alone otherwise. An
  abandoned wait is a cancellation or a missed queue deadline. A call ends by its rollback or
  by its accounting and then drops its permit; a future that is dropped half-way drops its
  permit without either.
\<close>

fun delegation_step :: "delegation_op \<Rightarrow> delegation_scheduler \<Rightarrow> delegation_scheduler" where
  "delegation_step (DO_Begin label tokens lane) s = snd (admit_enqueue label tokens lane s)"
| "delegation_step (DO_Grant i) s =
     (if i < length (ds_calls s) \<and> dg_stage (ds_calls s ! i) = Call_Queued
      then admit_grant i s else s)"
| "delegation_step (DO_Abandon i) s =
     (if i < length (ds_calls s) \<and> dg_stage (ds_calls s ! i) = Call_Queued
      then set_stage i Call_Gone s else s)"
| "delegation_step (DO_Commit i) s =
     (if i < length (ds_calls s)
      then (case dg_stage (ds_calls s ! i) of
              Call_Granted sem \<Rightarrow> snd (admit_commit i sem s) | _ \<Rightarrow> s)
      else s)"
| "delegation_step (DO_Rollback i) s =
     (if i < length (ds_calls s)
      then (case dg_stage (ds_calls s ! i) of
              Call_Admitted sem \<Rightarrow>
                set_stage i (Call_Ended sem)
                  (s\<lparr>ds_state := rollback_call (ds_calls s ! i) (ds_state s)\<rparr>)
            | _ \<Rightarrow> s)
      else s)"
| "delegation_step (DO_Finish i total_tokens cost) s =
     (if i < length (ds_calls s)
      then (case dg_stage (ds_calls s ! i) of
              Call_Admitted sem \<Rightarrow>
                set_stage i (Call_Ended sem)
                  (s\<lparr>ds_state := finish_call (dg_reserved_tokens (ds_calls s ! i)) total_tokens cost
                                  (ds_state s)\<rparr>)
            | _ \<Rightarrow> s)
      else s)"
| "delegation_step (DO_DropPermit i) s =
     (if i < length (ds_calls s)
      then (case dg_stage (ds_calls s ! i) of
              Call_Granted sem \<Rightarrow> set_stage i Call_Gone (update_permits sem Suc s)
            | Call_Admitted sem \<Rightarrow> set_stage i Call_Gone (update_permits sem Suc s)
            | Call_Ended sem \<Rightarrow> set_stage i Call_Gone (update_permits sem Suc s)
            | _ \<Rightarrow> s)
      else s)"

section \<open>Counting calls\<close>

fun stage_sem :: "call_stage \<Rightarrow> semaphore_id option" where
  "stage_sem (Call_Granted sem) = Some sem"
| "stage_sem (Call_Admitted sem) = Some sem"
| "stage_sem (Call_Ended sem) = Some sem"
| "stage_sem _ = None"

fun is_admitted :: "call_stage \<Rightarrow> bool" where
  "is_admitted (Call_Admitted _) = True"
| "is_admitted _ = False"

definition held :: "semaphore_id \<Rightarrow> delegated_call list \<Rightarrow> nat" where
  "held sem cs = count_where (\<lambda>c. stage_sem (dg_stage c) = Some sem) cs"

definition admitted :: "delegation_lane \<Rightarrow> delegated_call list \<Rightarrow> nat" where
  "admitted lane cs = count_where (\<lambda>c. dg_lane c = lane \<and> is_admitted (dg_stage c)) cs"

lemma held_set_stage:
  assumes "i < length (ds_calls s)"
  shows "held sem (ds_calls (set_stage i st s)) + of_bool (stage_sem (dg_stage (ds_calls s ! i)) = Some sem)
           = held sem (ds_calls s) + of_bool (stage_sem st = Some sem)"
  using count_where_update [OF assms, of "\<lambda>c. stage_sem (dg_stage c) = Some sem" "(ds_calls s ! i)\<lparr>dg_stage := st\<rparr>"]
  by (simp add: held_def set_stage_def)

lemma admitted_set_stage:
  assumes "i < length (ds_calls s)"
  shows "admitted lane (ds_calls (set_stage i st s))
           + of_bool (dg_lane (ds_calls s ! i) = lane \<and> is_admitted (dg_stage (ds_calls s ! i)))
         = admitted lane (ds_calls s)
           + of_bool (dg_lane (ds_calls s ! i) = lane \<and> is_admitted st)"
  using count_where_update [OF assms, of "\<lambda>c. dg_lane c = lane \<and> is_admitted (dg_stage c)"
      "(ds_calls s ! i)\<lparr>dg_stage := st\<rparr>"]
  by (simp add: admitted_def set_stage_def)

section \<open>Lanes\<close>

definition dedicated :: "delegation_limits \<Rightarrow> bool" where
  "dedicated l = (0 < dl_verification_lane_slots l \<or> 0 < dl_judge_lane_slots l)"

definition lane_capacity :: "delegation_limits \<Rightarrow> semaphore_id \<Rightarrow> nat" where
  "lane_capacity l sem = free_permits sem (with_limits l)"

definition lanes_inv :: "delegation_limits \<Rightarrow> delegation_scheduler \<Rightarrow> bool" where
  "lanes_inv l s =
     ((ds_shared_lane s = None \<longleftrightarrow> dedicated l)
      \<and> (ds_verification_lane s = None \<longleftrightarrow> dl_verification_lane_slots l = 0)
      \<and> (ds_judge_lane s = None \<longleftrightarrow> dl_judge_lane_slots l = 0)
      \<and> (\<forall>sem. held sem (ds_calls s) + free_permits sem s = lane_capacity l sem)
      \<and> (\<forall>sem. 0 < held sem (ds_calls s) \<longrightarrow> (sem = Sem_Shared \<longleftrightarrow> \<not> dedicated l)))"

lemma update_permits_fields [simp]:
  "ds_calls (update_permits sem f s) = ds_calls s"
  "ds_state (update_permits sem f s) = ds_state s"
  "(ds_shared_lane (update_permits sem f s) = None) = (ds_shared_lane s = None)"
  "(ds_verification_lane (update_permits sem f s) = None) = (ds_verification_lane s = None)"
  "(ds_judge_lane (update_permits sem f s) = None) = (ds_judge_lane s = None)"
  by (cases sem; simp)+

lemma set_stage_fields [simp]:
  "ds_shared_lane (set_stage i st s) = ds_shared_lane s"
  "ds_exploration_lane (set_stage i st s) = ds_exploration_lane s"
  "ds_verification_lane (set_stage i st s) = ds_verification_lane s"
  "ds_judge_lane (set_stage i st s) = ds_judge_lane s"
  "ds_state (set_stage i st s) = ds_state s"
  by (simp_all add: set_stage_def)

lemma free_permits_cong:
  assumes "ds_shared_lane s = ds_shared_lane t" and "ds_exploration_lane s = ds_exploration_lane t"
    and "ds_verification_lane s = ds_verification_lane t" and "ds_judge_lane s = ds_judge_lane t"
  shows "free_permits sem s = free_permits sem t"
  using assms by (cases sem) simp_all

lemma free_permits_set_stage [simp]: "free_permits sem (set_stage i st s) = free_permits sem s"
  by (rule free_permits_cong) simp_all

lemma free_permits_state [simp]: "free_permits sem (s\<lparr>ds_state := b\<rparr>) = free_permits sem s"
  by (rule free_permits_cong) simp_all

lemma free_permits_calls [simp]: "free_permits sem (s\<lparr>ds_calls := cs\<rparr>) = free_permits sem s"
  by (rule free_permits_cong) simp_all

text \<open>Adding a permit works on a lane that exists, which every lane with permits does.\<close>

lemma free_permits_dec:
  "0 < free_permits sem s \<Longrightarrow>
   free_permits sem' (update_permits sem (\<lambda>n. n - 1) s) = free_permits sem' s - of_bool (sem = sem')"
  by (cases sem; cases sem') (auto simp: unwrap_or_def split: option.splits)

lemma free_permits_inc:
  assumes "lanes_inv l s" and "0 < lane_capacity l sem"
  shows "free_permits sem' (update_permits sem Suc s) = free_permits sem' s + of_bool (sem = sem')"
  using assms
  by (cases sem; cases sem')
     (auto simp: lanes_inv_def lane_capacity_def with_limits_def dedicated_def Let_def unwrap_or_def
           split: option.splits if_splits)

lemma held_pos:
  fixes s :: delegation_scheduler
  assumes "i < length (ds_calls s)" and "stage_sem (dg_stage (ds_calls s ! i)) = Some sem"
  shows "0 < held sem (ds_calls s)"
  using held_set_stage [of i s sem Call_Gone, OF assms(1)] assms(2) by simp

lemma lanes_total:
  "lanes_inv l s \<Longrightarrow> held sem (ds_calls s) + free_permits sem s = lane_capacity l sem"
  by (simp add: lanes_inv_def)

lemma held_capacity: "lanes_inv l s \<Longrightarrow> 0 < held sem (ds_calls s) \<Longrightarrow> 0 < lane_capacity l sem"
  unfolding lanes_inv_def by (metis add_gr_0)

lemma lanes_keep:
  assumes "lanes_inv l s" and "i < length (ds_calls s)"
    and "stage_sem st = stage_sem (dg_stage (ds_calls s ! i))"
  shows "lanes_inv l (set_stage i st (s\<lparr>ds_state := b\<rparr>))"
proof -
  have "held sem (ds_calls (set_stage i st (s\<lparr>ds_state := b\<rparr>))) = held sem (ds_calls s)" for sem
    using held_set_stage [of i "s\<lparr>ds_state := b\<rparr>" sem st] assms(2,3) by simp
  then show ?thesis using assms(1) by (simp add: lanes_inv_def)
qed

lemma lanes_release:
  assumes "lanes_inv l s" and "i < length (ds_calls s)"
    and "stage_sem (dg_stage (ds_calls s ! i)) = Some sem"
  shows "lanes_inv l (set_stage i Call_Gone (update_permits sem Suc s))"
proof -
  have h: "held sem' (ds_calls (set_stage i Call_Gone (update_permits sem Suc s)))
             + of_bool (sem = sem') = held sem' (ds_calls s)" for sem'
    using held_set_stage [of i "update_permits sem Suc s" sem' Call_Gone] assms(2,3) by simp
  have cap: "0 < lane_capacity l sem"
    using held_capacity [OF assms(1) held_pos [OF assms(2,3)]] .
  have f: "free_permits sem' (update_permits sem Suc s) = free_permits sem' s + of_bool (sem = sem')"
    for sem' using free_permits_inc [OF assms(1) cap] .
  have "held sem' (ds_calls (set_stage i Call_Gone (update_permits sem Suc s)))
          + free_permits sem' (update_permits sem Suc s) = lane_capacity l sem'" for sem'
    using h [of sem'] f [of sem'] lanes_total [OF assms(1), of sem'] by linarith
  moreover have "0 < held sem' (ds_calls s)"
    if "0 < held sem' (ds_calls (set_stage i Call_Gone (update_permits sem Suc s)))" for sem'
    using h [of sem'] that by simp
  ultimately show ?thesis using assms(1) by (simp add: lanes_inv_def)
qed

lemma semaphore_for_shared:
  "lanes_inv l s \<Longrightarrow> semaphore_for s lane = Sem_Shared \<longleftrightarrow> \<not> dedicated l"
  by (auto simp: lanes_inv_def semaphore_for_def split: delegation_lane.splits)

lemma lanes_grant:
  assumes "lanes_inv l s" and "i < length (ds_calls s)" and "dg_stage (ds_calls s ! i) = Call_Queued"
  shows "lanes_inv l (admit_grant i s)"
proof (cases "free_permits (semaphore_for s (dg_lane (ds_calls s ! i))) s = 0")
  case True
  with assms(1) show ?thesis by (simp add: admit_grant_def Let_def)
next
  case False
  define sem where "sem = semaphore_for s (dg_lane (ds_calls s ! i))"
  let ?t = "update_permits sem (\<lambda>n. n - 1) s"
  have h: "held sem' (ds_calls (set_stage i (Call_Granted sem) ?t))
             = held sem' (ds_calls s) + of_bool (sem = sem')" for sem'
    using held_set_stage [of i ?t sem' "Call_Granted sem"] assms(2,3) by simp
  have f: "free_permits sem' ?t = free_permits sem' s - of_bool (sem = sem')" for sem'
    using False by (intro free_permits_dec) (simp add: sem_def)
  have "held sem' (ds_calls (set_stage i (Call_Granted sem) ?t)) + free_permits sem' ?t
          = lane_capacity l sem'" for sem'
    using h [of sem'] f [of sem'] lanes_total [OF assms(1), of sem'] False
    by (cases "sem = sem'") (auto simp: sem_def)
  moreover have "(sem' = Sem_Shared) = (\<not> dedicated l)"
    if "0 < held sem' (ds_calls (set_stage i (Call_Granted sem) ?t))" for sem'
    using h [of sem'] that assms(1) semaphore_for_shared [OF assms(1)]
    by (cases "sem = sem'") (auto simp: lanes_inv_def sem_def)
  ultimately have "lanes_inv l (set_stage i (Call_Granted sem) ?t)"
    using assms(1) by (simp add: lanes_inv_def)
  with False show ?thesis by (simp add: admit_grant_def Let_def sem_def)
qed

lemma lanes_enqueue: "lanes_inv l s \<Longrightarrow> lanes_inv l (snd (admit_enqueue label tokens lane s))"
  by (auto simp: admit_enqueue_def lanes_inv_def held_def split: sum.splits)

lemma lanes_commit:
  assumes "lanes_inv l s" and "i < length (ds_calls s)"
    and "dg_stage (ds_calls s ! i) = Call_Granted sem"
  shows "lanes_inv l (snd (admit_commit i sem s))"
  using assms lanes_release [of l s i sem] lanes_keep [of l s i "Call_Admitted sem"]
  by (auto simp: admit_commit_def Let_def split: sum.splits)

lemma lanes_step: "lanes_inv l s \<Longrightarrow> lanes_inv l (delegation_step x s)"
proof (cases x)
  case (DO_Abandon i)
  assume "lanes_inv l s"
  then show ?thesis using DO_Abandon lanes_keep [of l s i Call_Gone "ds_state s"] by simp
qed (auto simp: lanes_enqueue lanes_grant lanes_commit lanes_keep lanes_release
       split: call_stage.splits)

lemma lanes_init: "lanes_inv l (with_limits l)"
  by (auto simp: lanes_inv_def held_def lane_capacity_def with_limits_def dedicated_def Let_def
        word_gt_0)

interpretation worker_lanes: invariant_machine delegation_step "lanes_inv l"
  by unfold_locales (rule lanes_step)

text \<open>With the lanes that \<open>resolve\<close> gives, no more calls hold a permit than may run in parallel.\<close>

definition lanes_fit :: "delegation_limits \<Rightarrow> bool" where
  "lanes_fit l =
     (unat (dl_exploration_lane_slots l) + unat (dl_verification_lane_slots l)
        + unat (dl_judge_lane_slots l) \<le> unat (dl_max_parallel l))"

definition holding :: "delegated_call list \<Rightarrow> nat" where
  "holding cs = count_where (\<lambda>c. stage_sem (dg_stage c) \<noteq> None) cs"

lemma holding_sum:
  "holding cs = held Sem_Shared cs + held Sem_Exploration cs + held Sem_Verification cs + held Sem_Judge cs"
proof (induction cs)
  case Nil
  show ?case by (simp add: holding_def held_def)
next
  case (Cons c cs)
  have "of_bool (stage_sem (dg_stage c) \<noteq> None) = (of_bool (stage_sem (dg_stage c) = Some Sem_Shared)
      + of_bool (stage_sem (dg_stage c) = Some Sem_Exploration)
      + of_bool (stage_sem (dg_stage c) = Some Sem_Verification)
      + of_bool (stage_sem (dg_stage c) = Some Sem_Judge) :: nat)"
  proof (cases "stage_sem (dg_stage c)")
    case (Some sem)
    then show ?thesis by (cases sem) simp_all
  qed simp
  with Cons show ?case by (simp add: holding_def held_def)
qed

lemma holding_bound:
  assumes "lanes_inv l s" and "lanes_fit l"
  shows "holding (ds_calls s) \<le> unat (dl_max_parallel l)"
proof -
  have cap: "held sem (ds_calls s) \<le> lane_capacity l sem" for sem
    using lanes_total [OF assms(1), of sem] by linarith
  have excl: "held sem (ds_calls s) = 0" if "(sem = Sem_Shared) \<noteq> (\<not> dedicated l)" for sem
    using assms(1) that unfolding lanes_inv_def by (metis gr_zeroI)
  show ?thesis
  proof (cases "dedicated l")
    case True
    then show ?thesis
      using cap [of Sem_Exploration] cap [of Sem_Verification] cap [of Sem_Judge] excl [of Sem_Shared]
        assms(2)
      by (simp add: holding_sum lane_capacity_def with_limits_def lanes_fit_def Let_def word_gt_0
          split: if_splits)
  next
    case False
    then show ?thesis
      using cap [of Sem_Shared] excl [of Sem_Exploration] excl [of Sem_Verification]
        excl [of Sem_Judge]
      by (simp add: holding_sum lane_capacity_def with_limits_def Let_def dedicated_def
          split: if_splits)
  qed
qed

section \<open>Call budget\<close>

definition reserve_nat :: "u32 \<Rightarrow> u32 \<Rightarrow> nat" where
  "reserve_nat slots started = of_bool (0 < slots \<and> started = 0)"

definition budget_inv :: "delegation_limits \<Rightarrow> u32 \<Rightarrow> delegation_scheduler \<Rightarrow> bool" where
  "budget_inv l limit s =
     (let b = ds_state s; cs = ds_calls s in
      bs_limits b = l
      \<and> unat (bs_calls_started b)
          + reserve_nat (dl_verification_lane_slots l) (bs_verification_calls_started b)
          + reserve_nat (dl_judge_lane_slots l) (bs_judge_calls_started b) \<le> unat limit
      \<and> admitted Lane_Verification cs \<le> unat (bs_verification_calls_started b)
      \<and> admitted Lane_Judge cs \<le> unat (bs_judge_calls_started b)
      \<and> unat (bs_verification_calls_started b) + unat (bs_judge_calls_started b)
          + admitted Lane_Exploration cs \<le> unat (bs_calls_started b))"

text \<open>The reservations fit into the call limit from the start.\<close>

definition calls_fit :: "delegation_limits \<Rightarrow> bool" where
  "calls_fit l =
     (case dl_max_calls_per_turn l of
        None \<Rightarrow> True
      | Some limit \<Rightarrow>
          of_bool (0 < dl_verification_lane_slots l) + of_bool (0 < dl_judge_lane_slots l)
            \<le> unat limit)"

lemma budget_init:
  "calls_fit l \<Longrightarrow> dl_max_calls_per_turn l = Some limit \<Longrightarrow> budget_inv l limit (with_limits l)"
  by (simp add: budget_inv_def with_limits_def Let_def reserve_nat_def calls_fit_def admitted_def)

lemma reserved_nat:
  "unat (reserved_for_other_control_lanes lane b) =
     (case lane of
        Lane_Exploration \<Rightarrow>
          reserve_nat (dl_verification_lane_slots (bs_limits b)) (bs_verification_calls_started b)
          + reserve_nat (dl_judge_lane_slots (bs_limits b)) (bs_judge_calls_started b)
      | Lane_Verification \<Rightarrow> reserve_nat (dl_judge_lane_slots (bs_limits b)) (bs_judge_calls_started b)
      | Lane_Judge \<Rightarrow>
          reserve_nat (dl_verification_lane_slots (bs_limits b)) (bs_verification_calls_started b))"
  by (cases lane)
     (auto simp: reserved_for_other_control_lanes_def verification_unused_def judge_unused_def
       reserve_nat_def unat_word_ariths)

text \<open>What a positive validation says of the call count.\<close>

lemma validate_calls:
  assumes "validate_admission b label lane = Inr ()"
    and "dl_max_calls_per_turn (bs_limits b) = Some limit"
  shows "unat (bs_calls_started b) + unat (reserved_for_other_control_lanes lane b) < unat limit"
proof -
  have "\<not> saturating_sub limit (reserved_for_other_control_lanes lane b) \<le> bs_calls_started b"
    using assms by (auto simp: validate_admission_def Let_def is_some_and_def split: if_splits)
  then show ?thesis by (simp add: word_le_nat_alt unat_saturating_sub)
qed

lemma unat_Suc_bound: "unat (x :: u32) < unat (y :: u32) \<Longrightarrow> unat (x + 1) = Suc (unat x)"
  using unat_le_max [of y] by (simp add: unat_word_ariths)

lemma reserve_nat_started [simp]: "0 < unat n \<Longrightarrow> reserve_nat slots n = 0"
  by (auto simp: reserve_nat_def)

lemma reserve_nat_le: "reserve_nat slots n \<le> 1"
  by (simp add: reserve_nat_def)

lemma budget_keep:
  assumes "budget_inv l limit s" and "i < length (ds_calls s)" and "\<not> is_admitted st"
    and "bs_limits b = bs_limits (ds_state s)"
    and "bs_calls_started b = bs_calls_started (ds_state s)"
    and "bs_verification_calls_started b = bs_verification_calls_started (ds_state s)"
    and "bs_judge_calls_started b = bs_judge_calls_started (ds_state s)"
    and "ds_calls t = ds_calls s" and "ds_state t = b"
  shows "budget_inv l limit (set_stage i st t)"
proof -
  have "admitted lane (ds_calls (set_stage i st t)) \<le> admitted lane (ds_calls s)" for lane
    using admitted_set_stage [of i t lane st] assms(2,3,8) by simp
  from this [of Lane_Exploration] this [of Lane_Verification] this [of Lane_Judge]
  show ?thesis using assms(1,4-9) by (auto simp: budget_inv_def Let_def)
qed

lemma budget_count:
  assumes inv: "budget_inv l limit s" and lim: "dl_max_calls_per_turn l = Some limit"
    and i: "i < length (ds_calls s)" and st: "dg_stage (ds_calls s ! i) = Call_Granted sem"
    and ok: "validate_admission (ds_state s) label (dg_lane (ds_calls s ! i)) = Inr ()"
  shows "budget_inv l limit (set_stage i (Call_Admitted sem)
           (s\<lparr>ds_state := count_admission (dg_lane (ds_calls s ! i)) tokens (ds_state s)\<rparr>))"
proof -
  let ?b = "ds_state s" and ?lane = "dg_lane (ds_calls s ! i)"
  have bl: "bs_limits ?b = l" using inv by (simp add: budget_inv_def Let_def)
  have less: "unat (bs_calls_started ?b) + unat (reserved_for_other_control_lanes ?lane ?b) < unat limit"
    using validate_calls [OF ok] lim bl by simp
  have calls: "unat (bs_calls_started ?b + 1) = Suc (unat (bs_calls_started ?b))"
    using less by (intro unat_Suc_bound [of _ limit]) linarith
  have sub: "unat (bs_verification_calls_started ?b) + unat (bs_judge_calls_started ?b)
      \<le> unat (bs_calls_started ?b)"
    using inv by (simp add: budget_inv_def Let_def)
  have ver: "unat (bs_verification_calls_started ?b + 1) = Suc (unat (bs_verification_calls_started ?b))"
    using less sub by (intro unat_Suc_bound [of _ limit]) linarith
  have judge: "unat (bs_judge_calls_started ?b + 1) = Suc (unat (bs_judge_calls_started ?b))"
    using less sub by (intro unat_Suc_bound [of _ limit]) linarith
  have adm: "admitted lane (ds_calls (set_stage i (Call_Admitted sem) (s\<lparr>ds_state := b\<rparr>)))
      = admitted lane (ds_calls s) + of_bool (?lane = lane)" for lane b
    using admitted_set_stage [of i "s\<lparr>ds_state := b\<rparr>" lane "Call_Admitted sem"] i st by simp
  show ?thesis
    using inv less
    by (cases ?lane)
       (simp_all add: budget_inv_def Let_def adm count_admission_def reserved_nat bl calls ver judge)
qed

lemma budget_rollback:
  assumes inv: "budget_inv l limit s"
    and i: "i < length (ds_calls s)" and st: "dg_stage (ds_calls s ! i) = Call_Admitted sem"
  shows "budget_inv l limit (set_stage i (Call_Ended sem)
           (s\<lparr>ds_state := rollback_call (ds_calls s ! i) (ds_state s)\<rparr>))"
proof -
  let ?b = "ds_state s" and ?lane = "dg_lane (ds_calls s ! i)"
  have adm: "admitted lane (ds_calls (set_stage i (Call_Ended sem) (s\<lparr>ds_state := b\<rparr>)))
      = admitted lane (ds_calls s) - of_bool (?lane = lane)" for lane b
    using admitted_set_stage [of i "s\<lparr>ds_state := b\<rparr>" lane "Call_Ended sem"] i st by simp
  have pos: "0 < admitted ?lane (ds_calls s)"
    using admitted_set_stage [of i s ?lane Call_Gone] i st by simp
  have r: "reserve_nat slots (saturating_sub n 1) \<le> Suc (reserve_nat slots n)" for slots n
    by (simp add: reserve_nat_def)
  show ?thesis
    using inv pos
      r [of "dl_verification_lane_slots l" "bs_verification_calls_started ?b"]
      r [of "dl_judge_lane_slots l" "bs_judge_calls_started ?b"]
    by (cases ?lane)
       (auto simp: budget_inv_def Let_def adm rollback_call_def rollback_unstarted_worker_def
         rollback_unstarted_judge_def unat_saturating_sub)
qed

lemma budget_enqueue:
  "budget_inv l limit s \<Longrightarrow> budget_inv l limit (snd (admit_enqueue label tokens lane s))"
  by (auto simp: admit_enqueue_def budget_inv_def Let_def admitted_def split: sum.splits)

lemma budget_step:
  assumes lim: "dl_max_calls_per_turn l = Some limit" and inv: "budget_inv l limit s"
  shows "budget_inv l limit (delegation_step x s)"
proof (cases x)
  case (DO_Begin label tokens lane)
  with inv show ?thesis by (simp add: budget_enqueue)
next
  case (DO_Commit i)
  then show ?thesis
    using inv budget_count [OF inv lim, of i] budget_keep [OF inv, of i Call_Gone "ds_state s"]
    by (auto simp: admit_commit_def Let_def split: call_stage.splits sum.splits)
next
  case (DO_Rollback i)
  then show ?thesis using inv budget_rollback [OF inv, of i] by (auto split: call_stage.splits)
next
  case (DO_Finish i total_tokens cost)
  then show ?thesis
    using inv budget_keep [OF inv, of i _ "finish_call _ _ _ (ds_state s)"]
    by (auto simp: finish_call_def split: call_stage.splits)
qed (auto simp: inv admit_grant_def Let_def intro!: budget_keep [OF inv] split: call_stage.splits)

definition budget_ok :: "delegation_limits \<Rightarrow> delegation_scheduler \<Rightarrow> bool" where
  "budget_ok l s = (\<forall>limit. dl_max_calls_per_turn l = Some limit \<longrightarrow> budget_inv l limit s)"

interpretation call_budget: invariant_machine delegation_step "budget_ok l"
  by unfold_locales (simp add: budget_ok_def budget_step)

section \<open>Resolved limits\<close>

lemma clamp_bounds: "lo \<le> hi \<Longrightarrow> lo \<le> clamp lo hi x \<and> clamp lo hi x \<le> hi"
  by (auto simp: clamp_def)

lemma resolve_max_parallel_bounds:
  "1 \<le> unat (resolve_max_parallel config)" "unat (resolve_max_parallel config) \<le> 12"
  using clamp_bounds [of 1 "12 :: u32"] by (auto simp: resolve_max_parallel_def word_le_nat_alt)

lemma dedicated_parallel: "dedicated_lanes config \<Longrightarrow> 3 \<le> unat (resolve_max_parallel config)"
  by (auto simp: dedicated_lanes_def word_le_nat_alt)

lemma resolved_lane_sum:
  "unat (dl_exploration_lane_slots (resolve cl cr config))
     + unat (dl_verification_lane_slots (resolve cl cr config))
     + unat (dl_judge_lane_slots (resolve cl cr config)) = unat (resolve_max_parallel config)"
proof (cases "dedicated_lanes config")
  case True
  have "(2 :: u32) \<le> resolve_max_parallel config"
    using dedicated_parallel [OF True] by (simp add: word_le_nat_alt)
  then have "unat (resolve_max_parallel config - 2) = unat (resolve_max_parallel config) - 2"
    by (simp add: unat_sub)
  with True dedicated_parallel [OF True] show ?thesis by (simp add: resolve_def Let_def)
qed (simp add: resolve_def Let_def)

lemma resolved_calls_fit: "calls_fit (resolve cl cr config)"
  by (auto simp: calls_fit_def resolve_def Let_def dedicated_lanes_def is_some_and_def
      word_less_nat_alt word_le_nat_alt split: option.splits)

lemma resolve_sel:
  "dl_max_parallel (resolve cl cr config) = resolve_max_parallel config"
  "dl_max_calls_per_turn (resolve cl cr config) = resolve_max_calls config"
  by (simp_all add: resolve_def Let_def)

lemma run_lanes: "lanes_inv (resolve cl cr config)
    (run_ops delegation_step ops (delegation_scheduler_new cl cr config))"
  unfolding delegation_scheduler_new_def by (intro worker_lanes.run_inv lanes_init)

lemma run_budget:
  assumes "resolve_max_calls config = Some limit"
  shows "budget_inv (resolve cl cr config) limit
           (run_ops delegation_step ops (delegation_scheduler_new cl cr config))"
proof -
  have "budget_ok (resolve cl cr config)
      (run_ops delegation_step ops (delegation_scheduler_new cl cr config))"
    unfolding delegation_scheduler_new_def
    by (intro call_budget.run_inv) (simp add: budget_ok_def budget_init resolved_calls_fit)
  then show ?thesis using assms by (simp add: budget_ok_def resolve_sel)
qed

section \<open>Properties\<close>

text \<open>
  However delegated calls interleave, are cancelled, refused, rolled back or dropped, at
  most \<open>max_parallel\<close> of them hold a worker permit at any time, and \<open>resolve\<close> keeps that number
  between 1 and 12.
\<close>

theorem parallel_workers_bounded:
  "holding (ds_calls (run_ops delegation_step ops (delegation_scheduler_new cl cr config)))
     \<le> unat (dl_max_parallel (resolve cl cr config))
   \<and> unat (dl_max_parallel (resolve cl cr config)) \<in> {1..12}"
  using holding_bound [OF run_lanes] resolved_lane_sum [of cl cr config]
    resolve_max_parallel_bounds [of config]
  by (simp add: lanes_fit_def resolve_sel)

abbreviation cost_limit_reached :: "delegation_budget_state \<Rightarrow> bool" where
  "cost_limit_reached b \<equiv> is_some_and (\<lambda>c. dl_cost_accounting_available (bs_limits b) \<and> c \<le> bs_cost_spent_micros b)
     (dl_total_cost_soft_limit_micros (bs_limits b))"

text \<open>
  C28: Under a call limit, the calls started never exceed it, whatever has been spent, and the last
  calls stay reserved: while the cost limit is not reached and a dedicated verification or judge lane
  has not been used, a call of that lane is still admitted, whatever exploration calls came before.
\<close>


theorem control_lanes_not_starved:
  assumes "resolve_max_calls config = Some limit"
    and "b = ds_state (run_ops delegation_step ops (delegation_scheduler_new cl cr config))"
  shows "bs_calls_started b \<le> limit
    \<and> (dedicated_lanes config \<and> \<not> cost_limit_reached b \<longrightarrow>
        (bs_verification_calls_started b = 0 \<longrightarrow>
           validate_admission b label Lane_Verification = Inr ())
      \<and> (bs_judge_calls_started b = 0 \<longrightarrow> validate_admission b label Lane_Judge = Inr ()))"
proof -
  let ?l = "resolve cl cr config"
  have inv: "bs_limits b = ?l"
      "unat (bs_calls_started b)
        + reserve_nat (dl_verification_lane_slots ?l) (bs_verification_calls_started b)
        + reserve_nat (dl_judge_lane_slots ?l) (bs_judge_calls_started b) \<le> unat limit"
    using run_budget [OF assms(1), of cl cr ops] assms(2) by (simp_all add: budget_inv_def Let_def)
  have calls: "bs_calls_started b \<le> limit" using inv(2) by (simp add: word_le_nat_alt)
  have admit: "validate_admission b label lane = Inr ()"
    if "\<not> cost_limit_reached b" "lane \<noteq> Lane_Exploration"
      and "unat (bs_calls_started b) + unat (reserved_for_other_control_lanes lane b) < unat limit"
    for lane
  proof -
    have "\<not> saturating_sub limit (reserved_for_other_control_lanes lane b) \<le> bs_calls_started b"
      using that(3) by (simp add: word_le_nat_alt unat_saturating_sub)
    with that(1,2) assms(1) inv(1) show ?thesis
      by (simp add: validate_admission_def Let_def is_some_and_def resolve_sel)
  qed
  have slots: "dl_verification_lane_slots ?l = 1" "dl_judge_lane_slots ?l = 1" if "dedicated_lanes config"
    using that by (simp_all add: resolve_def Let_def)
  have ver: "validate_admission b label Lane_Verification = Inr ()"
    if "dedicated_lanes config" and "bs_verification_calls_started b = 0" and "\<not> cost_limit_reached b"
    using inv slots [OF that(1)] that(2) by (intro admit [OF that(3)]) (auto simp: reserved_nat reserve_nat_def)
  have judge: "validate_admission b label Lane_Judge = Inr ()"
    if "dedicated_lanes config" and "bs_judge_calls_started b = 0" and "\<not> cost_limit_reached b"
    using inv slots [OF that(1)] that(2) by (intro admit [OF that(3)]) (auto simp: reserved_nat reserve_nat_def)
  show ?thesis using calls ver judge by blast
qed

definition sample_config :: agent_config where
  "sample_config = \<lparr>ac_provider_type = Some PT_OpenAi, ac_max_tokens = None,
     ac_context_window = None, ac_context_window_resolution = None,
     ac_subagent_max_parallel = Some 4, ac_subagent_max_calls_per_turn = Some 3,
     ac_subagent_token_budget = None, ac_subagent_verification_reserve_percent = Some 20,
     ac_delegation_limits_v2 = None\<rparr>"

definition sample_calls :: "delegation_op list" where
  "sample_calls = [DO_Begin ''a'' 10 Lane_Exploration, DO_Begin ''b'' 10 Lane_Exploration,
     DO_Grant 0, DO_Grant 1, DO_Commit 0, DO_Commit 1]"

text \<open>Three calls with two lanes reserved: the second explorer is refused in phase two.\<close>

definition sample_budget :: delegation_budget_state where
  "sample_budget = ds_state (run_ops delegation_step sample_calls
     (delegation_scheduler_new None None sample_config))"

lemma sample_budget_eval:
  "bs_calls_started sample_budget = 1" "bs_verification_calls_started sample_budget = 0"
  "bs_judge_calls_started sample_budget = 0"
  "dl_total_cost_soft_limit_micros (bs_limits sample_budget) = None"
  "resolve_max_calls sample_config = Some 3" "dedicated_lanes sample_config"
  by code_simp+

theorem control_lanes_witness:
  "bs_calls_started sample_budget \<le> 3
   \<and> validate_admission sample_budget ''verifier'' Lane_Verification = Inr ()
   \<and> validate_admission sample_budget ''judge'' Lane_Judge = Inr ()"
  using control_lanes_not_starved [of sample_config 3 sample_budget sample_calls None None "''verifier''"]
    control_lanes_not_starved [of sample_config 3 sample_budget sample_calls None None "''judge''"]
  by (simp add: sample_budget_eval sample_budget_def [symmetric] is_some_and_def)

text \<open>
  The limits that \<open>resolve\<close> produces are consistent: the lanes share out exactly the parallel
  workers, dedicated control lanes come only with room for three calls, and the connect, first
  token and queue deadlines respect the run deadline.
\<close>

theorem resolved_limits_bounds:
  assumes l_def: "l = resolve cl cr config"
  shows "unat (dl_exploration_lane_slots l) + unat (dl_verification_lane_slots l)
           + unat (dl_judge_lane_slots l) = unat (dl_max_parallel l)
    \<and> 0 < dl_exploration_lane_slots l
    \<and> dl_connect_deadline_ms l \<in> {100..max (unwrap_or (- 1) (dl_run_deadline_ms l)) 100}
    \<and> dl_first_token_deadline_ms l \<in> {100..max (unwrap_or (- 1) (dl_run_deadline_ms l)) 100}
    \<and> unwrap_or 0 (dl_queue_deadline_ms l) \<le> unwrap_or (- 1) (dl_run_deadline_ms l)"
proof -
  have bounds: "clamp 100 (max x 100) y \<in> {100..max x 100}" for x y :: u64
    using clamp_bounds [of 100 "max x 100" y] by simp
  have pos: "0 < dl_exploration_lane_slots l"
  proof (cases "dedicated_lanes config")
    case True
    have "dl_exploration_lane_slots l \<noteq> 0"
      using resolved_lane_sum [of cl cr config] dedicated_parallel [OF True] True
      by (auto simp: l_def resolve_def Let_def)
    then show ?thesis by (simp add: word_gt_0)
  next
    case False
    then show ?thesis using resolve_max_parallel_bounds(1) [of config]
      by (auto simp: l_def resolve_def Let_def word_gt_0)
  qed
  have queue: "unwrap_or 0 (dl_queue_deadline_ms l) \<le> unwrap_or (- 1) (dl_run_deadline_ms l)"
    by (simp add: l_def resolve_def Let_def unwrap_or_def split: option.splits)
  show ?thesis
    using resolved_lane_sum [of cl cr config] pos queue bounds
    by (simp add: l_def resolve_sel) (simp add: resolve_def Let_def)
qed

text \<open>A run deadline below the defaults caps both deadlines, but not below 100 milliseconds.\<close>

definition sample_limits_config :: delegation_limits_config where
  "sample_limits_config = \<lparr>dc_input_context_limit = None,
     dc_handoff_context_tokens_per_worker = None, dc_max_output_tokens_per_step = None,
     dc_max_output_tokens_per_worker = None, dc_max_actual_tokens_per_worker = None,
     dc_total_actual_tokens_soft_limit = None, dc_total_cost_soft_limit_micros = None,
     dc_max_parallel = Some 40, dc_max_calls_per_turn = None, dc_queue_deadline_ms = Some 9000,
     dc_connect_deadline_ms = None, dc_first_token_deadline_ms = Some 10,
     dc_run_deadline_ms = Some 5000\<rparr>"

definition sample_limits :: delegation_limits where
  "sample_limits = resolve None None
     (sample_config\<lparr>ac_delegation_limits_v2 := Some sample_limits_config\<rparr>)"

lemma sample_limits_eval:
  "dl_max_parallel sample_limits = 12" "dl_run_deadline_ms sample_limits = Some 5000"
  "dl_connect_deadline_ms sample_limits = 5000" "dl_first_token_deadline_ms sample_limits = 100"
  "dl_queue_deadline_ms sample_limits = Some 5000"
  by code_simp+

theorem resolved_limits_witness:
  "unat (dl_exploration_lane_slots sample_limits) + unat (dl_verification_lane_slots sample_limits)
     + unat (dl_judge_lane_slots sample_limits) = 12
   \<and> 0 < dl_exploration_lane_slots sample_limits
   \<and> dl_connect_deadline_ms sample_limits = 5000 \<and> dl_first_token_deadline_ms sample_limits = 100"
  using resolved_limits_bounds [OF sample_limits_def] sample_limits_eval by simp

end
