(* ===== verification/Background_Governor.thy ===== *)
theory Background_Governor
  imports Core_Error "HOL-Library.List_Lexorder" "HOL-Library.Char_ord"
begin

text \<open>
  The cooperative scheduling of background indexing,
  \<open>apps/desktop/src-tauri/src/background_work_governor.rs\<close>: watcher generations are merged per
  source, one job runs at a time and only while no foreground lease is held, and a newer
  generation of the running source cancels it.

  A path is an element of a linear order, as \<open>PathBuf\<close> is. The \<open>BTreeMap\<close> of pending sources is
  a list sorted by key, the two hash sets are sets. The shared cancellation flag of a job is an
  entry of \<open>gv_flags\<close>; its index stands for the pointer that \<open>drop\<close> compares. The live permits
  and the jobs handed out so far are part of the state. A step is one critical section of the
  mutex; the two waiting loops are polled, \<open>None\<close> meaning that the caller goes on waiting. Dropping
  more leases than were taken is allowed, as the saturating counter allows it.

  The abstract specification keeps one last change per source and path and knows neither the two
  sets nor the order of the map; the code is shown to refine it.
\<close>

section \<open>State\<close>

record 'p source_change_job =
  sj_source_id :: string
  sj_changed_paths :: "'p list"
  sj_removed_paths :: "'p list"

record 'p pending_source_changes =
  pc_changed_paths :: "'p set"
  pc_removed_paths :: "'p set"

record running_job =
  rj_source_id :: string
  rj_cancelled :: nat

record 'p governor =
  gv_foreground_leases :: u64
  gv_pending :: "(string \<times> 'p pending_source_changes) list"
  gv_running :: "running_job option"
  gv_stopped :: bool
  gv_flags :: "bool list"
  gv_permits :: "nat list"
  gv_jobs :: "'p source_change_job list"

definition governor_new :: "'p governor" where
  "governor_new = \<lparr>gv_foreground_leases = 0, gv_pending = [], gv_running = None,
     gv_stopped = False, gv_flags = [], gv_permits = [], gv_jobs = []\<rparr>"

definition pending_default :: "'p pending_source_changes" where
  "pending_default = \<lparr>pc_changed_paths = {}, pc_removed_paths = {}\<rparr>"

text \<open>\<open>entry(k).or_default()\<close> on an ordered map, followed by an update of the entry.\<close>

fun entry_update :: "'k::linorder \<Rightarrow> 'v \<Rightarrow> ('v \<Rightarrow> 'v) \<Rightarrow> ('k \<times> 'v) list \<Rightarrow> ('k \<times> 'v) list" where
  "entry_update k d f [] = [(k, f d)]"
| "entry_update k d f ((k', v) # m) =
     (if k < k' then (k, f d) # (k', v) # m
      else if k = k' then (k, f v) # m
      else (k', v) # entry_update k d f m)"

section \<open>Operations\<close>

definition mark_changed :: "'p \<Rightarrow> 'p pending_source_changes \<Rightarrow> 'p pending_source_changes" where
  "mark_changed p c = c\<lparr>pc_removed_paths := pc_removed_paths c - {p},
     pc_changed_paths := insert p (pc_changed_paths c)\<rparr>"

definition mark_removed :: "'p \<Rightarrow> 'p pending_source_changes \<Rightarrow> 'p pending_source_changes" where
  "mark_removed p c = c\<lparr>pc_changed_paths := pc_changed_paths c - {p},
     pc_removed_paths := insert p (pc_removed_paths c)\<rparr>"

definition merge_changes ::
  "'p list \<Rightarrow> 'p list \<Rightarrow> 'p pending_source_changes \<Rightarrow> 'p pending_source_changes" where
  "merge_changes changed removed c = fold mark_removed removed (fold mark_changed changed c)"

definition submit_source_changes :: "string \<Rightarrow> 'p list \<Rightarrow> 'p list \<Rightarrow> 'p governor \<Rightarrow> 'p governor" where
  "submit_source_changes source_id changed removed g =
     (if gv_stopped g then g
      else
        (let g1 = (case gv_running g of
                     Some r \<Rightarrow>
                       (if rj_source_id r = source_id
                        then g\<lparr>gv_flags := (gv_flags g)[rj_cancelled r := True]\<rparr> else g)
                   | None \<Rightarrow> g)
         in g1\<lparr>gv_pending := entry_update source_id pending_default (merge_changes changed removed)
                 (gv_pending g1)\<rparr>))"

definition foreground_lease :: "'p governor \<Rightarrow> 'p governor" where
  "foreground_lease g = g\<lparr>gv_foreground_leases := saturating_add (gv_foreground_leases g) 1\<rparr>"

definition drop_lease :: "'p governor \<Rightarrow> 'p governor" where
  "drop_lease g = g\<lparr>gv_foreground_leases := saturating_sub (gv_foreground_leases g) 1\<rparr>"

text \<open>One turn of the receiving loop: \<open>None\<close> waits, \<open>Some None\<close> ends the worker.\<close>

definition recv_poll ::
  "'p::linorder governor \<Rightarrow> 'p source_change_job option option \<times> 'p governor" where
  "recv_poll g =
     (if gv_stopped g then (Some None, g)
      else if gv_foreground_leases g = 0 \<and> gv_running g = None
      then (case gv_pending g of
              [] \<Rightarrow> (None, g)
            | (source_id, c) # rest \<Rightarrow>
                (let flag = length (gv_flags g);
                     job = \<lparr>sj_source_id = source_id,
                            sj_changed_paths = sorted_list_of_set (pc_changed_paths c),
                            sj_removed_paths = sorted_list_of_set (pc_removed_paths c)\<rparr>
                 in (Some (Some job),
                     g\<lparr>gv_pending := rest, gv_flags := gv_flags g @ [False],
                       gv_running := Some \<lparr>rj_source_id = source_id, rj_cancelled = flag\<rparr>,
                       gv_permits := gv_permits g @ [flag], gv_jobs := gv_jobs g @ [job]\<rparr>)))
      else (None, g))"

definition wait_for_foreground :: "'p governor \<Rightarrow> (core_error + unit) option" where
  "wait_for_foreground g =
     (if 0 < gv_foreground_leases g \<and> \<not> gv_stopped g then None
      else if gv_stopped g then Some (Inl (CE_Cancelled ''background work governor stopped''))
      else Some (Inr ()))"

text \<open>A checkpoint of the job with the given flag, polled.\<close>

definition checkpoint :: "nat \<Rightarrow> 'p governor \<Rightarrow> (core_error + unit) option" where
  "checkpoint flag g =
     (if gv_flags g ! flag
      then Some (Inl (CE_Cancelled ''obsolete background embedding generation''))
      else case wait_for_foreground g of
        None \<Rightarrow> None
      | Some (Inl e) \<Rightarrow> Some (Inl e)
      | Some (Inr _) \<Rightarrow>
          (if gv_flags g ! flag
           then Some (Inl (CE_Cancelled ''obsolete background embedding generation''))
           else Some (Inr ())))"

definition drop_permit :: "nat \<Rightarrow> 'p governor \<Rightarrow> 'p governor" where
  "drop_permit flag g =
     (let g1 = (case gv_running g of
                  Some r \<Rightarrow> (if rj_cancelled r = flag then g\<lparr>gv_running := None\<rparr> else g)
                | None \<Rightarrow> g)
      in g1\<lparr>gv_permits := removeAll flag (gv_permits g1)\<rparr>)"

datatype 'p governor_op =
    GO_Submit string "'p list" "'p list"
  | GO_Lease
  | GO_DropLease
  | GO_Recv
  | GO_DropPermit nat

fun governor_step :: "'p::linorder governor_op \<Rightarrow> 'p governor \<Rightarrow> 'p governor" where
  "governor_step (GO_Submit source_id changed removed) g =
     submit_source_changes source_id changed removed g"
| "governor_step GO_Lease g = foreground_lease g"
| "governor_step GO_DropLease g = drop_lease g"
| "governor_step GO_Recv g = snd (recv_poll g)"
| "governor_step (GO_DropPermit flag) g =
     (if flag \<in> set (gv_permits g) then drop_permit flag g else g)"

section \<open>The ordered map\<close>

lemma entry_update_keys: "set (map fst (entry_update k d f m)) = insert k (set (map fst m))"
  by (induction m rule: entry_update.induct [where ?a0.0 = k and ?a1.0 = d and ?a2.0 = f]) auto

lemma entry_update_sorted:
  "sorted_wrt (<) (map fst m) \<Longrightarrow> sorted_wrt (<) (map fst (entry_update k d f m))"
proof (induction m)
  case (Cons kv m)
  obtain k' v where kv: "kv = (k', v)" by (cases kv)
  have keys: "set (map fst (entry_update k d f m)) = insert k (set (map fst m))"
    by (rule entry_update_keys)
  show ?case using Cons keys unfolding kv by (auto intro: order.strict_trans)
qed simp

lemma entry_update_lookup:
  assumes "sorted_wrt (<) (map fst m)"
  shows "map_of (entry_update k d f m)
    = (map_of m)(k \<mapsto> f (case map_of m k of Some v \<Rightarrow> v | None \<Rightarrow> d))"
  using assms
proof (induction m)
  case (Cons kv m)
  obtain k' v where kv: "kv = (k', v)" by (cases kv)
  show ?case
  proof (cases "k < k'")
    case True
    then have "k \<notin> fst ` set m" using Cons.prems unfolding kv by auto
    then have "map_of m k = None" by (simp add: map_of_eq_None_iff)
    with True show ?thesis unfolding kv by (auto simp: fun_eq_iff)
  next
    case False
    with Cons show ?thesis unfolding kv by (auto simp: fun_eq_iff)
  qed
qed (simp add: fun_eq_iff)

lemma map_of_sorted_tail:
  fixes k :: "'k::linorder"
  shows "sorted_wrt (<) (map fst ((k, v) # m)) \<Longrightarrow> map_of m = (map_of ((k, v) # m))(k := None)"
  by (auto simp: fun_eq_iff map_of_eq_None_iff image_iff)

section \<open>Abstract specification\<close>

datatype change_kind = CK_Changed | CK_Removed

record 'p work_spec =
  ws_foreground_leases :: u64
  ws_latest :: "string \<rightharpoonup> ('p \<rightharpoonup> change_kind)"
  ws_running :: "running_job option"
  ws_cancelled :: "nat set"
  ws_started :: nat
  ws_permits :: "nat list"
  ws_handed_out :: "(string \<times> ('p \<rightharpoonup> change_kind)) list"

definition spec_new :: "'p work_spec" where
  "spec_new = \<lparr>ws_foreground_leases = 0, ws_latest = Map.empty, ws_running = None,
     ws_cancelled = {}, ws_started = 0, ws_permits = [], ws_handed_out = []\<rparr>"

definition spec_merge :: "'p list \<Rightarrow> 'p list \<Rightarrow> ('p \<rightharpoonup> change_kind) \<Rightarrow> ('p \<rightharpoonup> change_kind)" where
  "spec_merge changed removed m = (\<lambda>p.
     if p \<in> set removed then Some CK_Removed else if p \<in> set changed then Some CK_Changed else m p)"

fun spec_step :: "'p governor_op \<Rightarrow> 'p work_spec \<Rightarrow> 'p work_spec" where
  "spec_step (GO_Submit source_id changed removed) w =
     w\<lparr>ws_latest := (ws_latest w)(source_id \<mapsto>
          spec_merge changed removed
            (case ws_latest w source_id of Some m \<Rightarrow> m | None \<Rightarrow> Map.empty)),
       ws_cancelled :=
          (case ws_running w of
             Some r \<Rightarrow> (if rj_source_id r = source_id then insert (rj_cancelled r) (ws_cancelled w)
                        else ws_cancelled w)
           | None \<Rightarrow> ws_cancelled w)\<rparr>"
| "spec_step GO_Lease w = w\<lparr>ws_foreground_leases := saturating_add (ws_foreground_leases w) 1\<rparr>"
| "spec_step GO_DropLease w = w\<lparr>ws_foreground_leases := saturating_sub (ws_foreground_leases w) 1\<rparr>"
| "spec_step GO_Recv w =
     (if ws_foreground_leases w = 0 \<and> ws_running w = None \<and> dom (ws_latest w) \<noteq> {}
      then
        (let source_id = Min (dom (ws_latest w)) in
         w\<lparr>ws_latest := (ws_latest w)(source_id := None),
           ws_running := Some \<lparr>rj_source_id = source_id, rj_cancelled = ws_started w\<rparr>,
           ws_started := Suc (ws_started w), ws_permits := ws_permits w @ [ws_started w],
           ws_handed_out := ws_handed_out w @ [(source_id, the (ws_latest w source_id))]\<rparr>)
      else w)"
| "spec_step (GO_DropPermit flag) w =
     (if flag \<in> set (ws_permits w)
      then w\<lparr>ws_running := (case ws_running w of
                Some r \<Rightarrow> (if rj_cancelled r = flag then None else Some r) | None \<Rightarrow> None),
             ws_permits := removeAll flag (ws_permits w)\<rparr>
      else w)"

section \<open>Refinement\<close>

definition kind_of :: "'p set \<Rightarrow> 'p set \<Rightarrow> ('p \<rightharpoonup> change_kind)" where
  "kind_of changed removed = (\<lambda>p.
     if p \<in> removed then Some CK_Removed else if p \<in> changed then Some CK_Changed else None)"

definition abs_changes :: "'p pending_source_changes \<Rightarrow> ('p \<rightharpoonup> change_kind)" where
  "abs_changes c = kind_of (pc_changed_paths c) (pc_removed_paths c)"

definition abs_job :: "'p source_change_job \<Rightarrow> string \<times> ('p \<rightharpoonup> change_kind)" where
  "abs_job j = (sj_source_id j, kind_of (set (sj_changed_paths j)) (set (sj_removed_paths j)))"

definition abs_governor :: "'p governor \<Rightarrow> 'p work_spec" where
  "abs_governor g = \<lparr>ws_foreground_leases = gv_foreground_leases g,
     ws_latest = (\<lambda>k. map_option abs_changes (map_of (gv_pending g) k)),
     ws_running = gv_running g, ws_cancelled = {i. i < length (gv_flags g) \<and> gv_flags g ! i},
     ws_started = length (gv_flags g), ws_permits = gv_permits g,
     ws_handed_out = map abs_job (gv_jobs g)\<rparr>"

definition changes_ok :: "'p pending_source_changes \<Rightarrow> bool" where
  "changes_ok c = (finite (pc_changed_paths c) \<and> finite (pc_removed_paths c)
     \<and> pc_changed_paths c \<inter> pc_removed_paths c = {})"

definition job_ok :: "'p::linorder source_change_job \<Rightarrow> bool" where
  "job_ok j = (sorted_wrt (<) (sj_changed_paths j) \<and> sorted_wrt (<) (sj_removed_paths j)
     \<and> set (sj_changed_paths j) \<inter> set (sj_removed_paths j) = {})"

definition governor_inv :: "'p::linorder governor \<Rightarrow> bool" where
  "governor_inv g =
     (\<not> gv_stopped g
      \<and> sorted_wrt (<) (map fst (gv_pending g))
      \<and> list_all (changes_ok \<circ> snd) (gv_pending g)
      \<and> list_all job_ok (gv_jobs g)
      \<and> gv_permits g = (case gv_running g of Some r \<Rightarrow> [rj_cancelled r] | None \<Rightarrow> [])
      \<and> (case gv_running g of
           Some r \<Rightarrow> rj_cancelled r < length (gv_flags g)
             \<and> (gv_flags g ! rj_cancelled r \<longleftrightarrow> rj_source_id r \<in> fst ` set (gv_pending g))
         | None \<Rightarrow> True))"

lemma fold_mark_changed:
  "fold mark_changed ps c = c\<lparr>pc_changed_paths := pc_changed_paths c \<union> set ps,
     pc_removed_paths := pc_removed_paths c - set ps\<rparr>"
  by (induction ps arbitrary: c) (simp_all add: mark_changed_def flip: Diff_insert2)

lemma fold_mark_removed:
  "fold mark_removed ps c = c\<lparr>pc_changed_paths := pc_changed_paths c - set ps,
     pc_removed_paths := pc_removed_paths c \<union> set ps\<rparr>"
  by (induction ps arbitrary: c) (simp_all add: mark_removed_def flip: Diff_insert2)

lemma merge_changes_eq:
  "merge_changes changed removed c =
     c\<lparr>pc_changed_paths := (pc_changed_paths c \<union> set changed) - set removed,
       pc_removed_paths := (pc_removed_paths c - set changed) \<union> set removed\<rparr>"
  by (simp add: merge_changes_def fold_mark_changed fold_mark_removed)

lemma changes_ok_merge: "changes_ok c \<Longrightarrow> changes_ok (merge_changes changed removed c)"
  by (auto simp: changes_ok_def merge_changes_eq)

lemma changes_ok_default [simp]: "changes_ok pending_default"
  by (simp add: changes_ok_def pending_default_def)

lemma abs_changes_merge:
  "abs_changes (merge_changes changed removed c) = spec_merge changed removed (abs_changes c)"
  by (auto simp: abs_changes_def kind_of_def merge_changes_eq spec_merge_def fun_eq_iff)

lemma abs_changes_default [simp]: "abs_changes pending_default = Map.empty"
  by (simp add: abs_changes_def kind_of_def pending_default_def fun_eq_iff)

lemma entry_update_all:
  assumes "list_all (P \<circ> snd) m" and "P d" and "\<And>v. P v \<Longrightarrow> P (f v)"
  shows "list_all (P \<circ> snd) (entry_update k d f m)"
  using assms by (induction m) (auto simp: comp_def)

lemma list_all_sorted_lists:
  "changes_ok c \<Longrightarrow> job_ok \<lparr>sj_source_id = k, sj_changed_paths = sorted_list_of_set (pc_changed_paths c),
     sj_removed_paths = sorted_list_of_set (pc_removed_paths c)\<rparr>"
  by (simp add: changes_ok_def job_ok_def strict_sorted_list_of_set)

lemma submit_inv:
  assumes "governor_inv g"
  shows "governor_inv (submit_source_changes source_id changed removed g)"
proof -
  let ?m = "entry_update source_id pending_default (merge_changes changed removed) (gv_pending g)"
  have keys: "fst ` set ?m = insert source_id (fst ` set (gv_pending g))"
    using entry_update_keys [of source_id pending_default "merge_changes changed removed" "gv_pending g"]
    by simp
  have "sorted_wrt (<) (map fst ?m)"
    using assms by (intro entry_update_sorted) (simp add: governor_inv_def)
  moreover have "list_all (changes_ok \<circ> snd) ?m"
    using assms by (intro entry_update_all) (simp_all add: governor_inv_def changes_ok_merge)
  ultimately show ?thesis
    using assms keys
    by (auto simp: governor_inv_def submit_source_changes_def Let_def nth_list_update split: option.splits)
qed

lemma recv_inv: "governor_inv g \<Longrightarrow> governor_inv (snd (recv_poll g))"
  by (fastforce simp: governor_inv_def recv_poll_def Let_def list_all_sorted_lists nth_append
      split: list.splits option.splits)

lemma lease_inv: "governor_inv g \<Longrightarrow> governor_inv (foreground_lease g)" "governor_inv g \<Longrightarrow> governor_inv (drop_lease g)"
  by (auto simp: governor_inv_def foreground_lease_def drop_lease_def split: option.splits)

lemma drop_permit_inv:
  "governor_inv g \<Longrightarrow> flag \<in> set (gv_permits g) \<Longrightarrow> governor_inv (drop_permit flag g)"
  by (auto simp: governor_inv_def drop_permit_def Let_def split: option.splits)

lemma governor_step_inv: "governor_inv g \<Longrightarrow> governor_inv (governor_step x g)"
  by (cases x) (simp_all add: submit_inv recv_inv lease_inv drop_permit_inv)

interpretation background_work: invariant_machine governor_step governor_inv
  by unfold_locales (rule governor_step_inv)

lemma governor_new_inv: "governor_inv governor_new"
  by (simp add: governor_inv_def governor_new_def)

text \<open>Each critical section implements one step of the specification.\<close>

lemma submit_refines:
  assumes "governor_inv g"
  shows "abs_governor (submit_source_changes k changed removed g)
    = spec_step (GO_Submit k changed removed) (abs_governor g)"
proof -
  have sorted: "sorted_wrt (<) (map fst (gv_pending g))" using assms by (simp add: governor_inv_def)
  have latest: "(\<lambda>j. map_option abs_changes (map_of
        (entry_update k pending_default (merge_changes changed removed) (gv_pending g)) j))
    = (\<lambda>j. map_option abs_changes (map_of (gv_pending g) j))(k \<mapsto> spec_merge changed removed
        (case map_option abs_changes (map_of (gv_pending g) k) of Some m \<Rightarrow> m | None \<Rightarrow> Map.empty))"
    by (auto simp: fun_eq_iff entry_update_lookup [OF sorted] abs_changes_merge split: option.splits)
  have flags: "{i. i < length fs \<and> fs[j := True] ! i} = insert j {i. i < length fs \<and> fs ! i}"
    if "j < length fs" for j fs
    using that by (auto simp: nth_list_update)
  show ?thesis
    using assms
    by (auto simp: submit_source_changes_def abs_governor_def Let_def latest flags governor_inv_def
        split: option.splits)
qed

lemma recv_refines:
  assumes "governor_inv g"
  shows "abs_governor (snd (recv_poll g)) = spec_step GO_Recv (abs_governor g)"
proof (cases "gv_pending g")
  case Nil
  with assms show ?thesis
    by (simp add: governor_inv_def recv_poll_def abs_governor_def)
next
  case (Cons kc rest)
  obtain k c where kc: "kc = (k, c)" by (cases kc)
  have sorted: "sorted_wrt (<) (map fst ((k, c) # rest))" and ok: "changes_ok c" and ns: "\<not> gv_stopped g"
    using assms Cons kc by (simp_all add: governor_inv_def)
  have dom: "dom (\<lambda>j. map_option abs_changes (map_of ((k, c) # rest) j)) = insert k (fst ` set rest)"
    by (auto simp: dom_map_option_comp [unfolded comp_def] dom_map_of_conv_image_fst simp flip: dom_map_of_conv_image_fst)
  have min: "Min (insert k (fst ` set rest)) = k"
    using sorted by (intro Min_eqI) (auto simp: less_imp_le)
  have tail: "(\<lambda>j. map_option abs_changes (map_of rest j))
      = (\<lambda>j. map_option abs_changes (map_of ((k, c) # rest) j))(k := None)"
    by (subst map_of_sorted_tail [OF sorted]) (simp add: fun_eq_iff)
  have here: "map_of ((k, c) # rest) k = Some c" by simp
  have flags: "{i. i < Suc (length fs) \<and> (fs @ [False]) ! i} = {i. i < length fs \<and> fs ! i}" for fs
    by (auto simp: nth_append less_Suc_eq)
  have job: "kind_of (set (sorted_list_of_set (pc_changed_paths c)))
      (set (sorted_list_of_set (pc_removed_paths c))) = abs_changes c"
    using ok by (simp add: changes_ok_def abs_changes_def)
  show ?thesis
    using ns
    by (auto simp: recv_poll_def Cons kc Let_def abs_governor_def dom min tail flags here job abs_job_def
        simp del: map_of.simps)
qed

lemma governor_step_refines:
  "governor_inv g \<Longrightarrow> abs_governor (governor_step x g) = spec_step x (abs_governor g)"
  by (cases x)
     (simp_all add: submit_refines recv_refines del: spec_step.simps(1,4),
      auto simp: abs_governor_def foreground_lease_def drop_lease_def drop_permit_def Let_def
        split: option.splits)

interpretation governed: refinement_machine governor_step governor_inv spec_step abs_governor
  by unfold_locales (rule governor_step_refines)

lemma abs_governor_new: "abs_governor governor_new = spec_new"
  by (simp add: abs_governor_def governor_new_def spec_new_def)

section \<open>Properties\<close>

text \<open>
  C29: The governor refines its specification: after any sequence of submissions, leases,
  receives and drops, what is pending for a source is the last change of each of its paths since
  the source was last handed out, and the jobs handed out so far are the jobs of the
  specification, which takes the least pending source when nothing runs and no lease is held.
\<close>

theorem governor_refines_latest_change:
  "abs_governor (run_ops governor_step ops governor_new) = run_ops spec_step ops spec_new"
  using governed.run_refines [OF governor_new_inv] by (simp add: abs_governor_new)

text \<open>
  In every reachable state at most one job is live, it is the running one, its checkpoint
  reports it obsolete exactly when a newer generation of its source is waiting and otherwise
  passes exactly when no foreground lease is held; every job handed out lists
  its paths in order, without repetition, and no path as both changed and removed.
\<close>

theorem running_job_obsolete_iff_newer_generation:
  assumes "g = run_ops governor_step ops governor_new"
  shows "list_all job_ok (gv_jobs g)
    \<and> (case gv_running g of
         None \<Rightarrow> gv_permits g = []
       | Some r \<Rightarrow> gv_permits g = [rj_cancelled r]
           \<and> checkpoint (rj_cancelled r) g =
               (if rj_source_id r \<in> fst ` set (gv_pending g)
                then Some (Inl (CE_Cancelled ''obsolete background embedding generation''))
                else if gv_foreground_leases g = 0 then Some (Inr ()) else None))"
proof -
  have "governor_inv g"
    unfolding assms by (rule background_work.run_inv [OF governor_new_inv])
  then show ?thesis
    by (auto simp: governor_inv_def checkpoint_def wait_for_foreground_def word_gt_0 split: option.splits)
qed

definition sample_work :: "nat governor_op list" where
  "sample_work = [GO_Submit ''b'' [4] [], GO_Submit ''a'' [3, 1] [2], GO_Submit ''a'' [2] [1],
     GO_Recv, GO_Lease, GO_Submit ''a'' [7] []]"

definition sample_governor :: "nat governor" where
  "sample_governor = run_ops governor_step sample_work governor_new"

lemma sample_governor_eval:
  "gv_running sample_governor = Some \<lparr>rj_source_id = ''a'', rj_cancelled = 0\<rparr>"
  "gv_jobs sample_governor =
     [\<lparr>sj_source_id = ''a'', sj_changed_paths = [2, 3], sj_removed_paths = [1]\<rparr>]"
  "map fst (gv_pending sample_governor) = [''a'', ''b'']"
  by code_simp+

theorem running_job_obsolete_witness:
  "gv_permits sample_governor = [0]
   \<and> checkpoint 0 sample_governor
       = Some (Inl (CE_Cancelled ''obsolete background embedding generation''))"
proof -
  have "fst ` set (gv_pending sample_governor) = {''a'', ''b''}"
    using sample_governor_eval(3) by (metis list.set_map list.simps(15) set_empty)
  then show ?thesis
    using running_job_obsolete_iff_newer_generation [OF sample_governor_def] sample_governor_eval(1)
    by simp
qed

end
