(* ===== verification/Workflow_Schedule_Config.thy ===== *)
theory Workflow_Schedule_Config
  imports Core_Error
begin

text \<open>
  The schedule settings of an automation, \<open>crates/core/src/workflow_scheduler.rs\<close> down to
  the parsing of the five cron fields, with the four mode enumerations the settings are
  checked against (\<open>agent/power_mode.rs\<close>, \<open>mixture_of_agents.rs\<close>, \<open>quality_profile.rs\<close>,
  \<open>agent/mod.rs\<close>). Recognising a cron expression is third-party code: \<open>parse_crontab\<close> is an
  argument of the definitions that call it and returns the error text or a crontab.
\<close>

section \<open>Modes\<close>

datatype agent_power_mode = Standard | Nexus

datatype agent_collaboration_mode = Direct | MixtureOfAgents

datatype orchestration_profile = Balanced | Deep | CodeUltra | ResearchUltra | Custom

datatype agent_execution_mode = ModeNormal | ModePlan

definition power_mode_from_wire :: "string option \<Rightarrow> string + agent_power_mode" where
  "power_mode_from_wire v = (case trimmed_nonempty v of
     None \<Rightarrow> Inr Standard
   | Some value \<Rightarrow>
       if eq_ignore_ascii_case value ''standard'' then Inr Standard
       else if eq_ignore_ascii_case value ''default'' then Inr Standard
       else if eq_ignore_ascii_case value ''nexus'' then Inr Nexus
       else Inl (''Unsupported agent power mode '' @ quoted value @ ''.''))"

definition collaboration_mode_from_wire :: "string option \<Rightarrow> string + agent_collaboration_mode" where
  "collaboration_mode_from_wire v = (case trimmed_nonempty v of
     None \<Rightarrow> Inr Direct
   | Some value \<Rightarrow>
       if eq_ignore_ascii_case value ''direct'' then Inr Direct
       else if eq_ignore_ascii_case value ''standard'' then Inr Direct
       else if eq_ignore_ascii_case value ''mixtureOfAgents'' then Inr MixtureOfAgents
       else if eq_ignore_ascii_case value ''moa'' then Inr MixtureOfAgents
       else Inl (''Unsupported collaboration mode '' @ quoted value @ ''.''))"

definition orchestration_profile_from_wire :: "string option \<Rightarrow> string + orchestration_profile" where
  "orchestration_profile_from_wire v = (case trimmed_nonempty v of
     None \<Rightarrow> Inr Balanced
   | Some value \<Rightarrow>
       if eq_ignore_ascii_case value ''balanced'' then Inr Balanced
       else if eq_ignore_ascii_case value ''deep'' then Inr Deep
       else if eq_ignore_ascii_case value ''codeUltra'' then Inr CodeUltra
       else if eq_ignore_ascii_case value ''researchUltra'' then Inr ResearchUltra
       else if eq_ignore_ascii_case value ''custom'' then Inr Custom
       else Inl (''Unsupported orchestration profile '' @ quoted value @ ''.''))"

definition execution_mode_from_wire :: "string option \<Rightarrow> string + agent_execution_mode" where
  "execution_mode_from_wire v = (case trimmed_nonempty v of
     None \<Rightarrow> Inr ModeNormal
   | Some value \<Rightarrow>
       if eq_ignore_ascii_case value ''normal'' then Inr ModeNormal
       else if eq_ignore_ascii_case value ''default'' then Inr ModeNormal
       else if eq_ignore_ascii_case value ''plan'' then Inr ModePlan
       else Inl (''Unsupported agent execution mode '' @ quoted value @ ''.''))"

definition profile_is_ultra :: "orchestration_profile \<Rightarrow> bool" where
  "profile_is_ultra p = (p = CodeUltra \<or> p = ResearchUltra)"

section \<open>Settings\<close>

datatype misfire_policy = MisfireRunLatest | MisfireSkip

datatype overlap_policy = OverlapSkip | OverlapAllow

datatype workspace_policy = DenyWrites | IsolatedPatch

record execution_policy =
  ep_project_id :: "string option"
  ep_workspace_policy :: workspace_policy
  ep_source_root_fingerprint :: "string option"
  ep_agent_config_id :: "string option"
  ep_provider :: "string option"
  ep_provider_endpoint_id :: "string option"
  ep_model :: "string option"
  ep_context_window :: "u32 option"
  ep_power_mode :: string
  ep_orchestration_profile :: string
  ep_collaboration_mode :: string
  ep_execution_mode :: "string option"

record schedule_config =
  sc_version :: u16
  sc_timezone :: string
  sc_misfire_policy :: misfire_policy
  sc_misfire_grace_seconds :: u32
  sc_overlap_policy :: overlap_policy
  sc_execution_policy :: execution_policy
  sc_legacy_needs_review :: bool

definition WORKFLOW_CRON_SCHEDULE_VERSION :: u16 where
  "WORKFLOW_CRON_SCHEDULE_VERSION = 2"

definition DEFAULT_WORKFLOW_TIMEZONE :: string where
  "DEFAULT_WORKFLOW_TIMEZONE = ''UTC''"

definition DEFAULT_MISFIRE_GRACE_SECONDS :: u32 where
  "DEFAULT_MISFIRE_GRACE_SECONDS = 300"

definition default_execution_policy :: execution_policy where
  "default_execution_policy = \<lparr>
     ep_project_id = None, ep_workspace_policy = DenyWrites, ep_source_root_fingerprint = None,
     ep_agent_config_id = None, ep_provider = None, ep_provider_endpoint_id = None,
     ep_model = None, ep_context_window = None, ep_power_mode = ''standard'',
     ep_orchestration_profile = ''balanced'', ep_collaboration_mode = ''direct'',
     ep_execution_mode = None \<rparr>"

definition default_schedule_config :: schedule_config where
  "default_schedule_config = \<lparr>
     sc_version = WORKFLOW_CRON_SCHEDULE_VERSION, sc_timezone = DEFAULT_WORKFLOW_TIMEZONE,
     sc_misfire_policy = MisfireRunLatest,
     sc_misfire_grace_seconds = DEFAULT_MISFIRE_GRACE_SECONDS,
     sc_overlap_policy = OverlapSkip, sc_execution_policy = default_execution_policy,
     sc_legacy_needs_review = False \<rparr>"

definition legacy_utc_needs_review :: schedule_config where
  "legacy_utc_needs_review = default_schedule_config
     \<lparr> sc_version := 1, sc_timezone := DEFAULT_WORKFLOW_TIMEZONE, sc_legacy_needs_review := True \<rparr>"

section \<open>Cron fields and timezone\<close>

definition validate_five_fields :: "string \<Rightarrow> core_error + string" where
  "validate_five_fields cron = (
     let normalized = join_with '' '' (split_whitespace cron);
         count = length (split_whitespace normalized)
     in if count \<noteq> 5 then Inl (CE_InvalidInput
            (''Workflow schedules require exactly five cron fields (minute hour day-of-month month day-of-week); got ''
              @ nat_to_string count))
        else Inr normalized)"

definition validate_timezone_token :: "string \<Rightarrow> core_error + string" where
  "validate_timezone_token timezone = (let tz = trim timezone in
     if tz = [] then Inl (CE_InvalidInput ''Workflow schedule timezone cannot be empty'')
     else if length (split_whitespace tz) \<noteq> 1 then
       Inl (CE_InvalidInput ''Workflow schedule timezone must be one IANA timezone identifier'')
     else Inr tz)"

definition parse_cron5 ::
  "(string \<Rightarrow> string + 'c) \<Rightarrow> string \<Rightarrow> string \<Rightarrow> core_error + (string \<times> string \<times> 'c)" where
  "parse_cron5 parse_crontab cron0 timezone0 =
     res_bind (validate_five_fields cron0) (\<lambda>cron.
     res_bind (validate_timezone_token timezone0) (\<lambda>timezone.
       case parse_crontab (cron @ '' '' @ timezone) of
         Inl error \<Rightarrow> Inl (CE_InvalidInput
           (''Invalid workflow Cron5 schedule '' @ quoted cron @ '' in timezone '' @ quoted timezone
             @ '': '' @ error))
       | Inr parsed \<Rightarrow> Inr (cron, timezone, parsed)))"

definition validate_workflow_cron_schedule ::
  "(string \<Rightarrow> string + 'c) \<Rightarrow> string \<Rightarrow> string \<Rightarrow> core_error + unit" where
  "validate_workflow_cron_schedule parse_crontab cron timezone =
     res_bind (parse_cron5 parse_crontab cron timezone) (\<lambda>_. Inr ())"

section \<open>Saving a schedule\<close>

definition check_wire :: "string + 'a \<Rightarrow> core_error + unit" where
  "check_wire r = (case r of Inl e \<Rightarrow> Inl (CE_InvalidInput e) | Inr _ \<Rightarrow> Inr ())"

definition check_isolated_patch :: "schedule_config \<Rightarrow> core_error + unit" where
  "check_isolated_patch c = (
     let ep = sc_execution_policy c in
     if ep_workspace_policy ep = IsolatedPatch then
       if sc_overlap_policy c \<noteq> OverlapSkip then
         Inl (CE_InvalidInput (''Isolated scheduled patches require overlap policy '' @ quoted ''skip''))
       else if orchestration_profile_from_wire (Some (ep_orchestration_profile ep)) \<noteq> Inr CodeUltra then
         Inl (CE_InvalidInput ''Isolated scheduled patches require the Code Ultra orchestration profile'')
       else if (case ep_execution_mode ep of None \<Rightarrow> False
                | Some mode \<Rightarrow> eq_ignore_ascii_case mode ''plan'') then
         Inl (CE_InvalidInput ''Isolated scheduled patches cannot run in Plan mode'')
       else Inr ()
     else Inr ())"

definition validate_for_save ::
  "(string \<Rightarrow> string + 'c) \<Rightarrow> schedule_config \<Rightarrow> string \<Rightarrow> core_error + unit" where
  "validate_for_save parse_crontab c cron = (
     let ep = sc_execution_policy c in
     if sc_version c \<noteq> WORKFLOW_CRON_SCHEDULE_VERSION then
       Inl (CE_InvalidInput (''Workflow schedule version '' @ nat_to_string (unat (sc_version c))
         @ '' must be reviewed and saved as version ''
         @ nat_to_string (unat WORKFLOW_CRON_SCHEDULE_VERSION)))
     else if sc_legacy_needs_review c then
       Inl (CE_InvalidInput ''Legacy workflow schedule must be reviewed before it can be enabled'')
     else if sc_misfire_grace_seconds c > 604800 then
       Inl (CE_InvalidInput ''Workflow schedule misfire grace cannot exceed 7 days'')
     else res_bind (check_wire (power_mode_from_wire (Some (ep_power_mode ep)))) (\<lambda>_.
       res_bind (check_wire (collaboration_mode_from_wire (Some (ep_collaboration_mode ep)))) (\<lambda>_.
       res_bind (check_wire (orchestration_profile_from_wire (Some (ep_orchestration_profile ep)))) (\<lambda>_.
       res_bind (case ep_execution_mode ep of None \<Rightarrow> Inr ()
                 | Some mode \<Rightarrow> check_wire (execution_mode_from_wire (Some mode))) (\<lambda>_.
       res_bind (check_isolated_patch c) (\<lambda>_.
         if ep_context_window ep = Some 0 then
           Inl (CE_InvalidInput ''Scheduled workflow context window must be greater than zero or Auto'')
         else validate_workflow_cron_schedule parse_crontab cron (sc_timezone c)))))))"

definition legacy_workflow_schedule_config ::
  "(string \<Rightarrow> string + 'c) \<Rightarrow> string \<Rightarrow> schedule_config" where
  "legacy_workflow_schedule_config parse_crontab cron = (
     let fields = split_whitespace cron;
         is_daily_utc =
           length fields = 5 \<and> drop 2 fields = [''*'', ''*'', ''*'']
           \<and> (case parse_u32 (fields ! 0) of None \<Rightarrow> False | Some minute \<Rightarrow> minute \<le> 59)
           \<and> (case parse_u32 (fields ! 1) of None \<Rightarrow> False | Some hour \<Rightarrow> hour \<le> 23)
           \<and> validate_workflow_cron_schedule parse_crontab cron DEFAULT_WORKFLOW_TIMEZONE = Inr ()
     in if is_daily_utc then default_schedule_config else legacy_utc_needs_review)"

section \<open>Normalised fields\<close>

lemma validate_five_fields_ok_iff:
  "validate_five_fields cron = Inr r \<longleftrightarrow>
     length (split_whitespace cron) = 5 \<and> r = join_with '' '' (split_whitespace cron)"
  by (auto simp: validate_five_fields_def Let_def)

lemma parse_cron5_normalizes:
  "parse_cron5 pc cron tz = Inr (cron', tz', sched) \<Longrightarrow>
     length (split_whitespace cron') = 5 \<and> split_whitespace cron' = split_whitespace cron
     \<and> tz' = trim tz \<and> pc (cron' @ '' '' @ tz') = Inr sched"
  by (auto simp: parse_cron5_def validate_five_fields_ok_iff validate_timezone_token_def Let_def
      split: sum.splits if_splits)

section \<open>What a saved schedule guarantees\<close>

lemma check_wire_ok_iff [simp]: "check_wire r = Inr u \<longleftrightarrow> (\<exists>m. r = Inr m)"
  by (auto simp: check_wire_def split: sum.splits)

lemma validate_for_save_ok_iff:
  "validate_for_save pc c cron = Inr () \<longleftrightarrow>
     sc_version c = WORKFLOW_CRON_SCHEDULE_VERSION \<and> \<not> sc_legacy_needs_review c
     \<and> sc_misfire_grace_seconds c \<le> 604800
     \<and> (\<exists>m. power_mode_from_wire (Some (ep_power_mode (sc_execution_policy c))) = Inr m)
     \<and> (\<exists>m. collaboration_mode_from_wire
             (Some (ep_collaboration_mode (sc_execution_policy c))) = Inr m)
     \<and> (\<exists>m. orchestration_profile_from_wire
             (Some (ep_orchestration_profile (sc_execution_policy c))) = Inr m)
     \<and> (\<exists>m. execution_mode_from_wire (ep_execution_mode (sc_execution_policy c)) = Inr m)
     \<and> check_isolated_patch c = Inr ()
     \<and> ep_context_window (sc_execution_policy c) \<noteq> Some 0
     \<and> validate_workflow_cron_schedule pc cron (sc_timezone c) = Inr ()"
  by (cases "ep_execution_mode (sc_execution_policy c)")
     (auto simp: validate_for_save_def Let_def res_bind_ok_iff execution_mode_from_wire_def
        trimmed_nonempty_def not_less)

lemma default_policy_accepted:
  "power_mode_from_wire (Some ''standard'') = Inr Standard"
  "collaboration_mode_from_wire (Some ''direct'') = Inr Direct"
  "orchestration_profile_from_wire (Some ''balanced'') = Inr Balanced"
  "execution_mode_from_wire None = Inr ModeNormal"
  by code_simp+

text \<open>
  A legacy expression is promoted to a version-2 schedule exactly when the promoted schedule
  can be saved with that expression.
\<close>

lemma legacy_config_saves_iff:
  "validate_for_save pc (legacy_workflow_schedule_config pc cron) cron = Inr ()
     \<longleftrightarrow> \<not> sc_legacy_needs_review (legacy_workflow_schedule_config pc cron)"
  using default_policy_accepted
  by (auto simp: validate_for_save_ok_iff legacy_workflow_schedule_config_def Let_def
      legacy_utc_needs_review_def default_schedule_config_def default_execution_policy_def
      check_isolated_patch_def DEFAULT_MISFIRE_GRACE_SECONDS_def)

lemma isolated_patch_saved:
  assumes "validate_for_save pc c cron = Inr ()"
    and "ep_workspace_policy (sc_execution_policy c) = IsolatedPatch"
  shows "sc_overlap_policy c = OverlapSkip
     \<and> orchestration_profile_from_wire
         (Some (ep_orchestration_profile (sc_execution_policy c))) = Inr CodeUltra"
  using assms by (auto simp: validate_for_save_ok_iff check_isolated_patch_def Let_def split: if_splits)

text \<open>
  The Plan mode check compares the untrimmed text, but the mode is read from the trimmed text:
  an isolated patch whose mode is written with surrounding blanks is saved and runs in Plan mode.
\<close>

definition padded_plan_config :: schedule_config where
  "padded_plan_config = default_schedule_config \<lparr> sc_execution_policy :=
     default_execution_policy \<lparr> ep_workspace_policy := IsolatedPatch,
       ep_orchestration_profile := ''codeUltra'', ep_execution_mode := Some '' plan '' \<rparr> \<rparr>"

lemma padded_plan_mode_saved:
  "validate_for_save (\<lambda>e. Inr e) padded_plan_config ''0 9 * * *'' = Inr ()
     \<and> ep_workspace_policy (sc_execution_policy padded_plan_config) = IsolatedPatch
     \<and> execution_mode_from_wire (ep_execution_mode (sc_execution_policy padded_plan_config))
         = Inr ModePlan"
  by code_simp

end
