(* ===== verification/Workflow_Scheduler.thy ===== *)
theory Workflow_Scheduler
  imports Workflow_Schedule_Config
begin

text \<open>
  The recurrence search of \<open>crates/core/src/workflow_scheduler.rs\<close>: the forward search with
  its sparse fallback, the binary search for the latest missed occurrence, and the preview.

  A \<open>DateTime<Utc>\<close> is an integer number of nanoseconds since the epoch; \<open>timestamp\<close> is its
  second, rounded down. The crates \<open>cronexpr\<close>, \<open>jiff\<close> and \<open>chrono\<close> are the fields of the
  record \<open>cron_env\<close>; \<open>cron_laws\<close> states what their documentation promises. The date range of
  \<open>chrono\<close> lies well inside 64-bit seconds, so the additions on seconds cannot overflow.
\<close>

section \<open>Foreign functions\<close>

record ('c, 'm, 't, 'z) cron_env =
  parse_crontab :: "string \<Rightarrow> string + 'c"
  make_timestamp :: "int \<Rightarrow> string + 'm"
  find_next :: "'c \<Rightarrow> 'm \<Rightarrow> string + 'z"
  time_zone_get :: "string \<Rightarrow> string + 't"
  earlier_offset :: "'t \<Rightarrow> 'z \<Rightarrow> string + 'z"
  instant_of :: "'z \<Rightarrow> int"
  timestamp_text :: "int \<Rightarrow> string"
  parse_from_rfc3339 :: "string \<Rightarrow> string + int"
  from_timestamp :: "int \<Rightarrow> int option"
  to_rfc3339_opts :: "int \<Rightarrow> string"
  zoned_text :: "'z \<Rightarrow> string"

abbreviation nanos :: "int \<Rightarrow> int" where
  "nanos t \<equiv> t * 1000000000"

definition timestamp :: "int \<Rightarrow> int" where
  "timestamp d = d div 1000000000"

definition MAX_PREVIEW_OCCURRENCES :: nat where
  "MAX_PREVIEW_OCCURRENCES = 20"

definition MAX_SPARSE_SEARCH_WINDOWS :: nat where
  "MAX_SPARSE_SEARCH_WINDOWS = 25"

definition SPARSE_SEARCH_ADVANCE_DAYS :: int where
  "SPARSE_SEARCH_ADVANCE_DAYS = 1400"

abbreviation days :: "int \<Rightarrow> int" where
  "days d \<equiv> d * 86400"

section \<open>Operations\<close>

definition zoned_to_utc :: "('c, 'm, 't, 'z) cron_env \<Rightarrow> 'z \<Rightarrow> core_error + int" where
  "zoned_to_utc env value = (
     let text = timestamp_text env (instant_of env value) in
     case parse_from_rfc3339 env text of
       Inl error \<Rightarrow> Inl (CE_Internal
         (''cronexpr returned an invalid occurrence timestamp '' @ quoted text @ '': '' @ error))
     | Inr d \<Rightarrow> Inr d)"

text \<open>The loop over the search windows; the first number counts the windows left.\<close>

fun sparse_windows ::
  "nat \<Rightarrow> ('c, 'm, 't, 'z) cron_env \<Rightarrow> 'c \<Rightarrow> string \<Rightarrow> int \<Rightarrow> core_error + 'z" where
  "sparse_windows 0 env schedule timezone cursor = Inl (CE_InvalidInput
     ''Workflow schedule has no occurrence within the supported 95-year planning horizon'')"
| "sparse_windows (Suc n) env schedule timezone cursor =
     (case make_timestamp env (timestamp cursor) of
        Inl error \<Rightarrow> Inl (CE_InvalidInput (''Invalid workflow schedule cursor: '' @ error))
      | Inr input \<Rightarrow>
          (case find_next env schedule input of
             Inr next \<Rightarrow>
               (case time_zone_get env timezone of
                  Inl error \<Rightarrow> Inl (CE_InvalidInput
                    (''Invalid workflow schedule timezone '' @ quoted timezone @ '': '' @ error))
                | Inr zone \<Rightarrow>
                    (case earlier_offset env zone next of
                       Inl error \<Rightarrow> Inl (CE_Internal
                         (''Unable to resolve workflow schedule timezone fold: '' @ error))
                     | Inr earlier \<Rightarrow>
                         if instant_of env earlier \<noteq> instant_of env next
                         then res_bind (zoned_to_utc env next) (sparse_windows n env schedule timezone)
                         else Inr next))
           | Inl error \<Rightarrow>
               if str_contains error ''four years''
               then sparse_windows n env schedule timezone
                      (cursor + nanos (days SPARSE_SEARCH_ADVANCE_DAYS))
               else Inl (CE_InvalidInput
                 (''Unable to calculate the next workflow schedule occurrence: '' @ error))))"

definition find_next_with_sparse_fallback ::
  "('c, 'm, 't, 'z) cron_env \<Rightarrow> 'c \<Rightarrow> string \<Rightarrow> int \<Rightarrow> core_error + 'z" where
  "find_next_with_sparse_fallback env schedule timezone after =
     sparse_windows MAX_SPARSE_SEARCH_WINDOWS env schedule timezone after"

text \<open>The search followed by the conversion to UTC, as all three callers use it.\<close>

definition occurrence_after ::
  "('c, 'm, 't, 'z) cron_env \<Rightarrow> 'c \<Rightarrow> string \<Rightarrow> int \<Rightarrow> core_error + int" where
  "occurrence_after env schedule timezone after =
     res_bind (find_next_with_sparse_fallback env schedule timezone after) (zoned_to_utc env)"

definition next_workflow_cron_occurrence ::
  "('c, 'm, 't, 'z) cron_env \<Rightarrow> string \<Rightarrow> string \<Rightarrow> int \<Rightarrow> core_error + int" where
  "next_workflow_cron_occurrence env cron timezone after =
     res_bind (parse_cron5 (parse_crontab env) cron timezone) (\<lambda>(_, _, schedule).
       occurrence_after env schedule timezone after)"

definition cursor_error :: core_error where
  "cursor_error = CE_InvalidInput ''Workflow schedule cursor is outside the supported range''"

text \<open>The binary search: the seconds \<open>low\<close> and \<open>high\<close> of the source's loop.\<close>

function latest_search ::
  "('c, 'm, 't, 'z) cron_env \<Rightarrow> 'c \<Rightarrow> string \<Rightarrow> int \<Rightarrow> int \<Rightarrow> int \<Rightarrow> core_error + int" where
  "latest_search env schedule timezone at low high =
     (if high - low > 1 then
        let mid = low + (high - low) div 2 in
        case from_timestamp env mid of
          None \<Rightarrow> Inl cursor_error
        | Some cursor \<Rightarrow>
            (case occurrence_after env schedule timezone cursor of
               Inl e \<Rightarrow> Inl e
             | Inr candidate \<Rightarrow>
                 if candidate \<le> at then latest_search env schedule timezone at mid high
                 else latest_search env schedule timezone at low mid)
      else Inr low)"
  by pat_completeness auto
termination
  by (relation "measure (\<lambda>(env, schedule, timezone, at, low, high). nat (high - low))") auto

declare latest_search.simps [simp del]

definition latest_workflow_cron_occurrence_at_or_before ::
  "('c, 'm, 't, 'z) cron_env \<Rightarrow> string \<Rightarrow> string \<Rightarrow> int \<Rightarrow> int \<Rightarrow> core_error + int" where
  "latest_workflow_cron_occurrence_at_or_before env cron timezone0 first_scheduled at =
     (if first_scheduled > at then Inl (CE_InvalidInput
        ''The first missed workflow occurrence must not be after the claim time'')
      else res_bind (parse_cron5 (parse_crontab env) cron timezone0) (\<lambda>(_, timezone, schedule).
        let low0 = timestamp first_scheduled - 1 in
        if low0 < - (2 ^ 63) then Inl (CE_InvalidInput
          ''Workflow occurrence is outside the supported time range'')
        else res_bind (latest_search env schedule timezone at low0 (timestamp at)) (\<lambda>low.
          case from_timestamp env low of
            None \<Rightarrow> Inl cursor_error
          | Some cursor \<Rightarrow>
              res_bind (occurrence_after env schedule timezone cursor) (\<lambda>latest.
                if latest < first_scheduled \<or> latest > at then Inl (CE_Internal
                  ''Workflow schedule could not reconcile the latest missed occurrence'')
                else Inr latest))))"

record occurrence_preview =
  op_scheduled_for :: string
  op_local_time :: string

record schedule_preview =
  sp_cron :: string
  sp_timezone :: string
  sp_occurrences :: "occurrence_preview list"

fun preview_occurrences ::
  "nat \<Rightarrow> ('c, 'm, 't, 'z) cron_env \<Rightarrow> 'c \<Rightarrow> string \<Rightarrow> int \<Rightarrow> core_error + occurrence_preview list" where
  "preview_occurrences 0 env schedule timezone cursor = Inr []"
| "preview_occurrences (Suc n) env schedule timezone cursor =
     res_bind (find_next_with_sparse_fallback env schedule timezone cursor) (\<lambda>next.
     res_bind (zoned_to_utc env next) (\<lambda>scheduled_for.
     res_bind (preview_occurrences n env schedule timezone scheduled_for) (\<lambda>rest.
       Inr (\<lparr> op_scheduled_for = to_rfc3339_opts env scheduled_for,
              op_local_time = zoned_text env next \<rparr> # rest))))"

definition preview_workflow_cron_schedule ::
  "('c, 'm, 't, 'z) cron_env \<Rightarrow> string \<Rightarrow> string \<Rightarrow> int \<Rightarrow> nat \<Rightarrow> core_error + schedule_preview" where
  "preview_workflow_cron_schedule env cron0 timezone0 after limit =
     (if limit = 0 \<or> limit > MAX_PREVIEW_OCCURRENCES then Inl (CE_InvalidInput
        (''Workflow schedule preview limit must be between 1 and ''
          @ nat_to_string MAX_PREVIEW_OCCURRENCES))
      else res_bind (parse_cron5 (parse_crontab env) cron0 timezone0) (\<lambda>(cron, timezone, schedule).
        res_bind (preview_occurrences limit env schedule timezone after) (\<lambda>occurrences.
          Inr \<lparr> sp_cron = cron, sp_timezone = timezone, sp_occurrences = occurrences \<rparr>)))"

section \<open>What the libraries promise\<close>

text \<open>
  \<open>raw t\<close>: the expression matches the wall clock at second \<open>t\<close>; \<open>later t\<close>: that wall clock
  has an earlier instant in the zone, so \<open>t\<close> is the second pass through a repeated hour. Seconds
  outside \<open>{lo..hi}\<close> are no timestamps. A search returns the next matching second, or says
  that the next four years (at least 1460 days) have none, or fails otherwise.
\<close>

definition cron_laws ::
  "('c, 'm, 't, 'z) cron_env \<Rightarrow> 'c \<Rightarrow> 't \<Rightarrow> int \<Rightarrow> int \<Rightarrow> (int \<Rightarrow> bool) \<Rightarrow> (int \<Rightarrow> bool) \<Rightarrow> bool" where
  "cron_laws env schedule zone lo hi raw later \<longleftrightarrow>
     (\<forall>s. (\<exists>m. make_timestamp env s = Inr m) \<longleftrightarrow> lo \<le> s \<and> s \<le> hi)
   \<and> (\<forall>s m z. make_timestamp env s = Inr m \<and> find_next env schedule m = Inr z \<longrightarrow>
        (\<exists>t z'. instant_of env z = nanos t \<and> s < t \<and> raw t \<and> (\<forall>u. s < u \<and> u < t \<longrightarrow> \<not> raw u)
           \<and> earlier_offset env zone z = Inr z'
           \<and> (instant_of env z' \<noteq> instant_of env z \<longleftrightarrow> later t)))
   \<and> (\<forall>s m e. make_timestamp env s = Inr m \<and> find_next env schedule m = Inl e
        \<and> str_contains e ''four years'' \<longrightarrow> (\<forall>u. s < u \<and> u \<le> s + days 1460 \<longrightarrow> \<not> raw u))
   \<and> (\<forall>d. parse_from_rfc3339 env (timestamp_text env d) = Inr d)"

text \<open>No search between \<open>s\<close> and \<open>t\<close> fails for another reason than an empty window.\<close>

definition only_sparse_errors ::
  "('c, 'm, 't, 'z) cron_env \<Rightarrow> 'c \<Rightarrow> int \<Rightarrow> int \<Rightarrow> bool" where
  "only_sparse_errors env schedule s t \<longleftrightarrow>
     (\<forall>c m e. s \<le> c \<and> c < t \<and> make_timestamp env c = Inr m \<and> find_next env schedule m = Inl e
        \<longrightarrow> str_contains e ''four years'')"

text \<open>The first kept occurrence after \<open>s\<close>, and the windows the search needs to reach it.\<close>

definition kept_next :: "(int \<Rightarrow> bool) \<Rightarrow> (int \<Rightarrow> bool) \<Rightarrow> int \<Rightarrow> int \<Rightarrow> bool" where
  "kept_next raw later s t \<longleftrightarrow>
     s < t \<and> raw t \<and> \<not> later t \<and> (\<forall>u. s < u \<and> u < t \<longrightarrow> raw u \<longrightarrow> later u)"

definition later_folds :: "(int \<Rightarrow> bool) \<Rightarrow> (int \<Rightarrow> bool) \<Rightarrow> int \<Rightarrow> int \<Rightarrow> int set" where
  "later_folds raw later s t = {u \<in> {s<..<t}. raw u \<and> later u}"

definition windows_needed :: "(int \<Rightarrow> bool) \<Rightarrow> (int \<Rightarrow> bool) \<Rightarrow> int \<Rightarrow> int \<Rightarrow> nat" where
  "windows_needed raw later s t =
     card (later_folds raw later s t) + nat ((t - s) div days SPARSE_SEARCH_ADVANCE_DAYS)"

lemma zoned_to_utc_ok:
  "cron_laws env schedule zone lo hi raw later \<Longrightarrow> zoned_to_utc env z = Inr (instant_of env z)"
  by (simp add: cron_laws_def zoned_to_utc_def Let_def)

lemma timestamp_nanos [simp]:
  "timestamp (nanos t) = t" "timestamp (d + nanos t) = timestamp d + t"
  by (simp_all add: timestamp_def)

lemma kept_next_unique: "\<lbrakk> kept_next raw later s t; kept_next raw later s u \<rbrakk> \<Longrightarrow> t = u"
  by (metis kept_next_def linorder_neqE)

lemma kept_next_advance:
  "\<lbrakk> kept_next raw later s t; s \<le> s'; s' < t \<rbrakk> \<Longrightarrow> kept_next raw later s' t"
  by (auto simp: kept_next_def)

lemma kept_next_extend:
  "\<lbrakk> kept_next raw later s' t; s \<le> s'; \<forall>u. s < u \<and> u \<le> s' \<longrightarrow> raw u \<longrightarrow> later u \<rbrakk>
     \<Longrightarrow> kept_next raw later s t"
  unfolding kept_next_def by (meson leI le_less_trans)

lemma finite_later_folds [simp]: "finite (later_folds raw later s t)"
  by (rule finite_subset [of _ "{s<..<t}"]) (auto simp: later_folds_def)

lemma later_folds_drop:
  "\<lbrakk> s < u; u < t; raw u; later u; \<forall>v. s < v \<and> v < u \<longrightarrow> \<not> raw v \<rbrakk>
     \<Longrightarrow> card (later_folds raw later s t) = Suc (card (later_folds raw later u t))"
proof -
  assume u: "s < u" "u < t" "raw u" "later u" "\<forall>v. s < v \<and> v < u \<longrightarrow> \<not> raw v"
  have "later_folds raw later s t = insert u (later_folds raw later u t)"
    using u by (auto simp: later_folds_def)
  moreover have "u \<notin> later_folds raw later u t"
    by (simp add: later_folds_def)
  ultimately show ?thesis by simp
qed

lemma later_folds_empty_window:
  "\<lbrakk> \<forall>v. s < v \<and> v \<le> s' \<longrightarrow> \<not> raw v; s \<le> s' \<rbrakk> \<Longrightarrow> later_folds raw later s t = later_folds raw later s' t"
  by (auto simp: later_folds_def)

section \<open>The forward search\<close>

lemma cron_laws_empty_window:
  "\<lbrakk> cron_laws env schedule zone lo hi raw later; make_timestamp env s = Inr m;
     find_next env schedule m = Inl e; str_contains e ''four years'' \<rbrakk>
     \<Longrightarrow> \<forall>u. s < u \<and> u \<le> s + days 1460 \<longrightarrow> \<not> raw u"
  unfolding cron_laws_def by metis

text \<open>One window: an occurrence is found, the window is empty, or the search fails.\<close>

lemma search_step:
  assumes laws: "cron_laws env schedule zone lo hi raw later"
    and tz: "time_zone_get env timezone = Inr zone"
  obtains
    (found) z t where "instant_of env z = nanos t" "timestamp cursor < t" "raw t"
      "\<forall>u. timestamp cursor < u \<and> u < t \<longrightarrow> \<not> raw u"
      "sparse_windows (Suc n) env schedule timezone cursor =
         (if later t then sparse_windows n env schedule timezone (nanos t) else Inr z)"
  | (empty) "\<forall>u. timestamp cursor < u \<and> u \<le> timestamp cursor + days 1460 \<longrightarrow> \<not> raw u"
      "sparse_windows (Suc n) env schedule timezone cursor =
         sparse_windows n env schedule timezone (cursor + nanos (days SPARSE_SEARCH_ADVANCE_DAYS))"
  | (failed) e where "sparse_windows (Suc n) env schedule timezone cursor = Inl e"
      "timestamp cursor < lo \<or> hi < timestamp cursor
       \<or> \<not> only_sparse_errors env schedule (timestamp cursor) (timestamp cursor + 1)"
proof (cases "make_timestamp env (timestamp cursor)")
  case (Inl e)
  moreover from this have "timestamp cursor < lo \<or> hi < timestamp cursor"
    using laws unfolding cron_laws_def by (metis Inl_Inr_False not_less)
  ultimately show ?thesis by (intro failed) auto
next
  case m: (Inr m)
  show ?thesis
  proof (cases "find_next env schedule m")
    case (Inl e)
    show ?thesis
    proof (cases "str_contains e ''four years''")
      case True
      with m Inl show ?thesis by (intro empty cron_laws_empty_window [OF laws]) auto
    next
      case False
      with m Inl show ?thesis by (intro failed) (auto simp: only_sparse_errors_def)
    qed
  next
    case (Inr z)
    with m laws obtain t z' where t: "instant_of env z = nanos t" "timestamp cursor < t" "raw t"
      "\<forall>u. timestamp cursor < u \<and> u < t \<longrightarrow> \<not> raw u" "earlier_offset env zone z = Inr z'"
      "instant_of env z' \<noteq> instant_of env z \<longleftrightarrow> later t"
      unfolding cron_laws_def by metis
    with m Inr tz show ?thesis
      by (intro found [of z t]) (auto simp: zoned_to_utc_ok [OF laws])
  qed
qed

lemma sparse_windows_sound:
  assumes "cron_laws env schedule zone lo hi raw later" "time_zone_get env timezone = Inr zone"
    and "sparse_windows n env schedule timezone cursor = Inr z"
  shows "\<exists>t. instant_of env z = nanos t \<and> kept_next raw later (timestamp cursor) t"
  using assms(3)
proof (induction n arbitrary: cursor)
  case 0
  then show ?case by simp
next
  case (Suc n)
  from assms(1,2) show ?case
  proof (cases rule: search_step [where cursor = cursor and n = n])
    case (found z' u)
    show ?thesis
    proof (cases "later u")
      case True
      with found Suc obtain t where "instant_of env z = nanos t" "kept_next raw later u t"
        by force
      moreover have "\<forall>v. timestamp cursor < v \<and> v \<le> u \<longrightarrow> raw v \<longrightarrow> later v"
        using True found(4) by (metis order_le_less)
      ultimately show ?thesis
        using found(2) by (metis kept_next_extend less_imp_le)
    next
      case False
      with found Suc.prems show ?thesis by (auto simp: kept_next_def)
    qed
  next
    case empty
    obtain t where t: "instant_of env z = nanos t"
      "kept_next raw later (timestamp cursor + days SPARSE_SEARCH_ADVANCE_DAYS) t"
      using Suc.IH [of "cursor + nanos (days SPARSE_SEARCH_ADVANCE_DAYS)"] Suc.prems empty(2)
      by (auto simp only: timestamp_nanos)
    moreover have "kept_next raw later (timestamp cursor) t"
      using t(2) by (rule kept_next_extend) (use empty(1) in \<open>auto simp: SPARSE_SEARCH_ADVANCE_DAYS_def\<close>)
    ultimately show ?thesis by blast
  next
    case failed
    with Suc.prems show ?thesis by simp
  qed
qed

text \<open>Enough windows reach the next kept occurrence.\<close>

lemma windows_needed_empty_window:
  assumes "\<forall>u. s < u \<and> u \<le> s + days 1460 \<longrightarrow> \<not> raw u" "kept_next raw later s t"
  shows "s + days SPARSE_SEARCH_ADVANCE_DAYS < t"
    and "Suc (windows_needed raw later (s + days SPARSE_SEARCH_ADVANCE_DAYS) t)
       = windows_needed raw later s t"
proof -
  show lt: "s + days SPARSE_SEARCH_ADVANCE_DAYS < t"
    using assms by (force simp: kept_next_def SPARSE_SEARCH_ADVANCE_DAYS_def)
  have "later_folds raw later s t = later_folds raw later (s + days SPARSE_SEARCH_ADVANCE_DAYS) t"
    by (rule later_folds_empty_window) (use assms(1) in \<open>auto simp: SPARSE_SEARCH_ADVANCE_DAYS_def\<close>)
  with lt show "Suc (windows_needed raw later (s + days SPARSE_SEARCH_ADVANCE_DAYS) t)
       = windows_needed raw later s t"
    by (simp add: windows_needed_def SPARSE_SEARCH_ADVANCE_DAYS_def)
qed

lemma windows_needed_fold:
  assumes "s < u" "u < t" "raw u" "later u" "\<forall>v. s < v \<and> v < u \<longrightarrow> \<not> raw v"
  shows "Suc (windows_needed raw later u t) \<le> windows_needed raw later s t"
  using later_folds_drop [of s u t raw later] assms
    zdiv_mono1 [of "t - u" "t - s" "days SPARSE_SEARCH_ADVANCE_DAYS"]
  by (simp add: windows_needed_def SPARSE_SEARCH_ADVANCE_DAYS_def)

lemma only_sparse_errors_mono:
  "\<lbrakk> only_sparse_errors env schedule s t; s \<le> s'; t' \<le> t \<rbrakk> \<Longrightarrow> only_sparse_errors env schedule s' t'"
  unfolding only_sparse_errors_def by (meson le_less_trans less_le_trans order_trans)

lemma sparse_windows_complete:
  assumes "cron_laws env schedule zone lo hi raw later" "time_zone_get env timezone = Inr zone"
    and "kept_next raw later (timestamp cursor) t" "lo \<le> timestamp cursor" "t \<le> hi"
    and "only_sparse_errors env schedule (timestamp cursor) t"
    and "windows_needed raw later (timestamp cursor) t < n"
  shows "\<exists>z. sparse_windows n env schedule timezone cursor = Inr z \<and> instant_of env z = nanos t"
  using assms(3-)
proof (induction n arbitrary: cursor)
  case 0
  then show ?case by simp
next
  case (Suc n)
  let ?s = "timestamp cursor"
  from Suc.prems(1) have st: "?s < t" "raw t" "\<not> later t" by (auto simp: kept_next_def)
  from assms(1,2) show ?case
  proof (cases rule: search_step [where cursor = cursor and n = n])
    case (found z u)
    have ut: "u \<le> t" using found(4) st by (meson not_less)
    show ?thesis
    proof (cases "later u")
      case True
      then have "u < t" using ut st by (cases "u = t") auto
      moreover from this True found have "Suc (windows_needed raw later u t) \<le> windows_needed raw later ?s t"
        by (intro windows_needed_fold) auto
      ultimately show ?thesis
        using True found Suc.IH [of "nanos u"] Suc.prems
          kept_next_advance [of raw later ?s t u] only_sparse_errors_mono [of env schedule ?s t u t]
        by simp
    next
      case False
      with found Suc.prems(1) ut have "u = t" by (auto simp: kept_next_def)
      with False found show ?thesis by simp
    qed
  next
    case empty
    note w = windows_needed_empty_window [OF empty(1) Suc.prems(1)]
    have ge: "?s \<le> ?s + days SPARSE_SEARCH_ADVANCE_DAYS" by (simp add: SPARSE_SEARCH_ADVANCE_DAYS_def)
    show ?thesis
      unfolding empty(2)
    proof (rule Suc.IH, unfold timestamp_nanos)
      show "kept_next raw later (?s + days SPARSE_SEARCH_ADVANCE_DAYS) t"
        using Suc.prems(1) ge w(1) by (rule kept_next_advance)
      show "only_sparse_errors env schedule (?s + days SPARSE_SEARCH_ADVANCE_DAYS) t"
        using Suc.prems(4) ge by (rule only_sparse_errors_mono) simp
    qed (use w Suc.prems ge in simp_all)
  next
    case (failed e)
    moreover have "only_sparse_errors env schedule ?s (?s + 1)"
      using Suc.prems(4) by (rule only_sparse_errors_mono) (use st in auto)
    ultimately show ?thesis using Suc.prems st by auto
  qed
qed

text \<open>A fold with as many later candidates as there are windows uses them all up.\<close>

lemma sparse_windows_exhausted:
  assumes "cron_laws env schedule zone lo hi raw later" "time_zone_get env timezone = Inr zone"
    and "kept_next raw later (timestamp cursor) t" "lo \<le> timestamp cursor" "t \<le> hi"
    and "only_sparse_errors env schedule (timestamp cursor) t"
    and "n \<le> card (later_folds raw later (timestamp cursor) t)"
  shows "sparse_windows n env schedule timezone cursor = sparse_windows 0 env schedule timezone cursor"
  using assms(3-)
proof (induction n arbitrary: cursor)
  case 0
  then show ?case by simp
next
  case (Suc n)
  let ?s = "timestamp cursor"
  from Suc.prems(1) have st: "?s < t" "raw t" "\<not> later t" by (auto simp: kept_next_def)
  from Suc.prems(5) have "later_folds raw later ?s t \<noteq> {}" by auto
  then obtain v where v: "?s < v" "v < t" "raw v" by (auto simp: later_folds_def)
  from assms(1,2) show ?case
  proof (cases rule: search_step [where cursor = cursor and n = n])
    case (found z u)
    have ut: "u < t" using found(4) v by (meson le_less_trans not_less)
    with found Suc.prems(1) have "later u" by (auto simp: kept_next_def)
    moreover from this ut found
    have "card (later_folds raw later ?s t) = Suc (card (later_folds raw later u t))"
      by (intro later_folds_drop) auto
    ultimately show ?thesis
      using ut found Suc.IH [of "nanos u"] Suc.prems
        kept_next_advance [of raw later ?s t u] only_sparse_errors_mono [of env schedule ?s t u t]
      by simp
  next
    case empty
    note w = windows_needed_empty_window [OF empty(1) Suc.prems(1)]
    have ge: "?s \<le> ?s + days SPARSE_SEARCH_ADVANCE_DAYS" by (simp add: SPARSE_SEARCH_ADVANCE_DAYS_def)
    have same: "later_folds raw later ?s t = later_folds raw later (?s + days SPARSE_SEARCH_ADVANCE_DAYS) t"
      by (rule later_folds_empty_window) (use empty(1) in \<open>auto simp: SPARSE_SEARCH_ADVANCE_DAYS_def\<close>)
    have "sparse_windows n env schedule timezone (cursor + nanos (days SPARSE_SEARCH_ADVANCE_DAYS))
        = sparse_windows 0 env schedule timezone (cursor + nanos (days SPARSE_SEARCH_ADVANCE_DAYS))"
    proof (rule Suc.IH, unfold timestamp_nanos)
      show "kept_next raw later (?s + days SPARSE_SEARCH_ADVANCE_DAYS) t"
        using Suc.prems(1) ge w(1) by (rule kept_next_advance)
      show "only_sparse_errors env schedule (?s + days SPARSE_SEARCH_ADVANCE_DAYS) t"
        using Suc.prems(4) ge by (rule only_sparse_errors_mono) simp
    qed (use w Suc.prems ge same in simp_all)
    with empty(2) show ?thesis by simp
  next
    case (failed e)
    moreover have "only_sparse_errors env schedule ?s (?s + 1)"
      using Suc.prems(4) by (rule only_sparse_errors_mono) (use st in auto)
    ultimately show ?thesis using Suc.prems st by auto
  qed
qed

section \<open>Next occurrence\<close>

lemma occurrence_after_sound:
  assumes "cron_laws env schedule zone lo hi raw later" "time_zone_get env timezone = Inr zone"
    and "occurrence_after env schedule timezone after = Inr d"
  shows "\<exists>t. d = nanos t \<and> kept_next raw later (timestamp after) t"
  using assms sparse_windows_sound [OF assms(1,2)]
  by (force simp: occurrence_after_def find_next_with_sparse_fallback_def res_bind_ok_iff
      zoned_to_utc_ok [OF assms(1)])

text \<open>The cursor lies in the range and the next kept occurrence is within the search's windows.\<close>

definition reachable_next ::
  "('c, 'm, 't, 'z) cron_env \<Rightarrow> 'c \<Rightarrow> int \<Rightarrow> int \<Rightarrow> (int \<Rightarrow> bool) \<Rightarrow> (int \<Rightarrow> bool) \<Rightarrow> int \<Rightarrow> int \<Rightarrow> bool" where
  "reachable_next env schedule lo hi raw later s t \<longleftrightarrow>
     kept_next raw later s t \<and> lo \<le> s \<and> t \<le> hi \<and> only_sparse_errors env schedule s t
     \<and> windows_needed raw later s t < MAX_SPARSE_SEARCH_WINDOWS"

lemma occurrence_after_complete:
  assumes "cron_laws env schedule zone lo hi raw later" "time_zone_get env timezone = Inr zone"
    and "reachable_next env schedule lo hi raw later (timestamp after) t"
  shows "occurrence_after env schedule timezone after = Inr (nanos t)"
  using assms(3) sparse_windows_complete [OF assms(1,2), of after t MAX_SPARSE_SEARCH_WINDOWS]
  by (auto simp: reachable_next_def occurrence_after_def find_next_with_sparse_fallback_def
      zoned_to_utc_ok [OF assms(1)])

text \<open>
  C25: The next occurrence is right and is found: a returned instant is the first matching
  second after the cursor that is not the second pass through a repeated hour, and whenever
  that second exists within the date range and at most 24 windows are spent on repeated-hour
  candidates and on 1400-day advances, it is returned.\<close>

theorem next_occurrence_least:
  assumes "cron_laws env schedule zone lo hi raw later"
    and "parse_cron5 (parse_crontab env) cron timezone = Inr (cron', timezone', schedule)"
    and "time_zone_get env timezone = Inr zone"
  shows "(\<forall>d. next_workflow_cron_occurrence env cron timezone after = Inr d \<longrightarrow>
            (\<exists>t. d = nanos t \<and> kept_next raw later (timestamp after) t))
       \<and> (\<forall>t. reachable_next env schedule lo hi raw later (timestamp after) t \<longrightarrow>
            next_workflow_cron_occurrence env cron timezone after = Inr (nanos t))"
  using assms occurrence_after_sound [OF assms(1,3)] occurrence_after_complete [OF assms(1,3)]
  by (simp add: next_workflow_cron_occurrence_def)

text \<open>
  Every candidate of a repeated hour spends one of the 25 search windows. When 25 or more of them
  precede the next kept occurrence, the search fails with the horizon error although the
  occurrence exists.\<close>

theorem fold_exhausts_search:
  assumes "cron_laws env schedule zone lo hi raw later"
    and "parse_cron5 (parse_crontab env) cron timezone = Inr (cron', timezone', schedule)"
    and "time_zone_get env timezone = Inr zone"
    and "kept_next raw later (timestamp after) t" "lo \<le> timestamp after" "t \<le> hi"
    and "only_sparse_errors env schedule (timestamp after) t"
    and "25 \<le> card (later_folds raw later (timestamp after) t)"
  shows "next_workflow_cron_occurrence env cron timezone after = Inl (CE_InvalidInput
     ''Workflow schedule has no occurrence within the supported 95-year planning horizon'')"
  using assms(2) sparse_windows_exhausted [OF assms(1,3-8)]
  by (simp add: next_workflow_cron_occurrence_def occurrence_after_def
      find_next_with_sparse_fallback_def MAX_SPARSE_SEARCH_WINDOWS_def)

section \<open>Latest missed occurrence\<close>

text \<open>The reference: walk back from the claim time over the kept seconds of the window.\<close>

definition latest_in_window ::
  "(int \<Rightarrow> bool) \<Rightarrow> (int \<Rightarrow> bool) \<Rightarrow> int \<Rightarrow> int \<Rightarrow> int option" where
  "latest_in_window raw later first_scheduled at =
     find (\<lambda>t. first_scheduled \<le> nanos t \<and> raw t \<and> \<not> later t)
       (rev [timestamp first_scheduled..timestamp at])"

text \<open>Every cursor of the binary search is a date with a reachable next occurrence.\<close>

definition searchable ::
  "('c, 'm, 't, 'z) cron_env \<Rightarrow> 'c \<Rightarrow> int \<Rightarrow> int \<Rightarrow> (int \<Rightarrow> bool) \<Rightarrow> (int \<Rightarrow> bool) \<Rightarrow> int \<Rightarrow> int \<Rightarrow> bool" where
  "searchable env schedule lo hi raw later a b \<longleftrightarrow>
     (\<forall>c. a \<le> c \<and> c \<le> b \<longrightarrow> from_timestamp env c = Some (nanos c)
        \<and> (\<exists>t. reachable_next env schedule lo hi raw later c t))"

lemma searchable_cursor:
  assumes "cron_laws env schedule zone lo hi raw later" "time_zone_get env timezone = Inr zone"
    and "searchable env schedule lo hi raw later a b" "a \<le> c" "c \<le> b"
  obtains t where "from_timestamp env c = Some (nanos c)" "kept_next raw later c t"
    "occurrence_after env schedule timezone (nanos c) = Inr (nanos t)"
  using assms occurrence_after_complete [OF assms(1,2), of "nanos c"]
  unfolding searchable_def reachable_next_def by (metis timestamp_nanos(1))

lemma nanos_le_iff: "nanos t \<le> d \<longleftrightarrow> t \<le> timestamp d"
proof -
  have "d = nanos (timestamp d) + d mod 1000000000" "0 \<le> d mod 1000000000" "d mod 1000000000 < 1000000000"
    by (simp_all add: timestamp_def)
  then show ?thesis by linarith
qed

text \<open>
  The loop keeps its invariant: a kept occurrence lies between \<open>low\<close> and the claim time unless
  \<open>low\<close> never moved, and none between \<open>high\<close> and the claim time.
\<close>

lemma latest_search_spec:
  assumes laws: "cron_laws env schedule zone lo hi raw later" "time_zone_get env timezone = Inr zone"
    and search: "searchable env schedule lo hi raw later a (timestamp at)"
    and "a \<le> low" "low < high" "high \<le> timestamp at"
    and "\<forall>u. high < u \<and> u \<le> timestamp at \<longrightarrow> raw u \<longrightarrow> later u"
    and "low = a \<or> (\<exists>u. low < u \<and> u \<le> timestamp at \<and> raw u \<and> \<not> later u)"
  shows "\<exists>l. latest_search env schedule timezone at low high = Inr l \<and> a \<le> l \<and> l < timestamp at
     \<and> (\<forall>u. l + 1 < u \<and> u \<le> timestamp at \<longrightarrow> raw u \<longrightarrow> later u)
     \<and> (l = a \<or> (\<exists>u. l < u \<and> u \<le> timestamp at \<and> raw u \<and> \<not> later u))"
  using assms(4-)
proof (induction "nat (high - low)" arbitrary: low high rule: less_induct)
  case less
  show ?case
  proof (cases "high - low > 1")
    case False
    with less.prems show ?thesis
      by (intro exI [of _ low]) (auto simp: latest_search.simps)
  next
    case True
    define mid where "mid = low + (high - low) div 2"
    have mid: "low < mid" "mid < high" "a \<le> mid" "mid \<le> timestamp at"
      using True less.prems unfolding mid_def by linarith+
    from searchable_cursor [OF laws search mid(3,4)] obtain t
      where t: "from_timestamp env mid = Some (nanos mid)" "kept_next raw later mid t"
        "occurrence_after env schedule timezone (nanos mid) = Inr (nanos t)" .
    show ?thesis
    proof (cases "t \<le> timestamp at")
      case le: True
      then have "latest_search env schedule timezone at low high
          = latest_search env schedule timezone at mid high"
        using t True by (simp add: latest_search.simps [of _ _ _ _ low] mid_def [symmetric] nanos_le_iff)
      moreover have "\<exists>u. mid < u \<and> u \<le> timestamp at \<and> raw u \<and> \<not> later u"
        using t(2) le by (auto simp: kept_next_def)
      ultimately show ?thesis using less.hyps [of high mid] less.prems mid by auto
    next
      case gt: False
      then have "latest_search env schedule timezone at low high
          = latest_search env schedule timezone at low mid"
        using t True by (simp add: latest_search.simps [of _ _ _ _ low] mid_def [symmetric] nanos_le_iff)
      moreover have "\<forall>u. mid < u \<and> u \<le> timestamp at \<longrightarrow> raw u \<longrightarrow> later u"
        using t(2) gt by (auto simp: kept_next_def)
      ultimately show ?thesis using less.hyps [of mid low] less.prems mid by auto
    qed
  qed
qed

lemma find_rev_upto_Some:
  "\<lbrakk> a \<le> t; t \<le> b; P t; \<forall>u. t < u \<and> u \<le> b \<longrightarrow> \<not> P u \<rbrakk> \<Longrightarrow> find P (rev [a..b]) = Some t"
proof (induction "nat (b - t)" arbitrary: b)
  case 0
  then show ?case by (simp add: upto_rec2)
next
  case (Suc n)
  have "n = nat (b - 1 - t)" "t \<le> b - 1" using Suc.hyps(2) by linarith+
  then have "find P (rev [a..b - 1]) = Some t"
    using Suc.prems by (intro Suc.hyps(1)) auto
  with Suc.prems \<open>t \<le> b - 1\<close> show ?case by (simp add: upto_rec2 [of a b])
qed

text \<open>A returned occurrence comes out of a forward search.\<close>

lemma latest_occurrence_sound:
  assumes laws: "cron_laws env schedule zone lo hi raw later" "time_zone_get env timezone' = Inr zone"
    and parsed: "parse_cron5 (parse_crontab env) cron timezone = Inr (cron', timezone', schedule)"
    and ok: "latest_workflow_cron_occurrence_at_or_before env cron timezone first_scheduled at = Inr d"
  shows "\<exists>t. d = nanos t \<and> first_scheduled \<le> d \<and> d \<le> at \<and> raw t \<and> \<not> later t"
proof -
  from ok parsed obtain cursor where "occurrence_after env schedule timezone' cursor = Inr d"
    and window: "first_scheduled \<le> d" "d \<le> at"
    by (auto simp: latest_workflow_cron_occurrence_at_or_before_def res_bind_ok_iff Let_def not_less
        split: if_splits option.splits)
  from occurrence_after_sound [OF laws this(1)] window show ?thesis by (auto simp: kept_next_def)
qed

lemma latest_occurrence_complete:
  assumes laws: "cron_laws env schedule zone lo hi raw later"
    and parsed: "parse_cron5 (parse_crontab env) cron timezone = Inr (cron', timezone', schedule)"
    and tz: "time_zone_get env timezone' = Inr zone"
    and le: "first_scheduled \<le> at" and range: "- (2 ^ 63) < timestamp first_scheduled"
    and search: "searchable env schedule lo hi raw later (timestamp first_scheduled - 1) (timestamp at)"
  shows "latest_workflow_cron_occurrence_at_or_before env cron timezone first_scheduled at =
     (case latest_in_window raw later first_scheduled at of
        Some t \<Rightarrow> Inr (nanos t)
      | None \<Rightarrow> Inl (CE_Internal
          ''Workflow schedule could not reconcile the latest missed occurrence''))"
proof -
  let ?a = "timestamp first_scheduled" and ?b = "timestamp at"
  have ab: "?a \<le> ?b" using le by (simp add: timestamp_def zdiv_mono1)
  obtain l where l: "latest_search env schedule timezone' at (?a - 1) ?b = Inr l"
    "?a - 1 \<le> l" "l < ?b" "\<forall>u. l + 1 < u \<and> u \<le> ?b \<longrightarrow> raw u \<longrightarrow> later u"
    "l = ?a - 1 \<or> (\<exists>u. l < u \<and> u \<le> ?b \<and> raw u \<and> \<not> later u)"
    using latest_search_spec [OF laws tz search, of "?a - 1" ?b] ab by fastforce
  have "l \<le> ?b" using l(3) by simp
  from searchable_cursor [OF laws tz search l(2) this] obtain t
    where t: "from_timestamp env l = Some (nanos l)" "kept_next raw later l t"
      "occurrence_after env schedule timezone' (nanos l) = Inr (nanos t)" .
  have result: "latest_workflow_cron_occurrence_at_or_before env cron timezone first_scheduled at =
     (if nanos t < first_scheduled \<or> nanos t > at then Inl (CE_Internal
        ''Workflow schedule could not reconcile the latest missed occurrence'') else Inr (nanos t))"
    using le range parsed l(1) t by (simp add: latest_workflow_cron_occurrence_at_or_before_def)
  show ?thesis
  proof (cases "t \<le> ?b")
    case True
    then have "t = l + 1" using t(2) l(4) by (auto simp: kept_next_def)
    have none: "\<forall>u. t < u \<and> u \<le> ?b \<longrightarrow> raw u \<longrightarrow> later u" using l(4) \<open>t = l + 1\<close> by simp
    show ?thesis
    proof (cases "nanos t < first_scheduled")
      case early: True
      have "latest_in_window raw later first_scheduled at = None"
        using none early unfolding latest_in_window_def find_None_iff
        by (auto simp: not_le) (smt (verit) mult_le_cancel_right)
      with result early show ?thesis by simp
    next
      case False
      have "latest_in_window raw later first_scheduled at = Some t"
        unfolding latest_in_window_def
        by (rule find_rev_upto_Some) (use False True none t(2) l(2) \<open>t = l + 1\<close> in \<open>auto simp: kept_next_def\<close>)
      with result False True show ?thesis by (simp add: nanos_le_iff not_less)
    qed
  next
    case False
    then have "l = ?a - 1" using l(5) t(2) by (auto simp: kept_next_def)
    then have "latest_in_window raw later first_scheduled at = None"
      using t(2) False unfolding latest_in_window_def find_None_iff by (auto simp: kept_next_def)
    moreover have "nanos t > at" using False by (simp add: nanos_le_iff not_le [symmetric])
    ultimately show ?thesis using result by simp
  qed
qed

text \<open>
  C26: Whatever the latest-occurrence search returns for a window that does not start after the claim
  time and has its seconds above \<open>i64::MIN\<close> is a kept occurrence of the inclusive window. When the forward search reaches a next occurrence from every second of the window, the search returns
  the last kept one, which walking backwards from the claim time finds, and is refused only when the
  window holds none. (A repeated hour of an every-minute schedule is not searchable: see
  \<open>fold_exhausts_search\<close>.)\<close>

theorem latest_occurrence_is_last_of_window:
  assumes laws: "cron_laws env schedule zone lo hi raw later"
    and parsed: "parse_cron5 (parse_crontab env) cron timezone = Inr (cron', timezone', schedule)"
    and tz: "time_zone_get env timezone' = Inr zone"
    and le: "first_scheduled \<le> at" and range: "- (2 ^ 63) < timestamp first_scheduled"
  shows "(\<forall>d. latest_workflow_cron_occurrence_at_or_before env cron timezone first_scheduled at = Inr d \<longrightarrow>
       (\<exists>t. d = nanos t \<and> first_scheduled \<le> d \<and> d \<le> at \<and> raw t \<and> \<not> later t))
     \<and> (searchable env schedule lo hi raw later (timestamp first_scheduled - 1) (timestamp at) \<longrightarrow>
       latest_workflow_cron_occurrence_at_or_before env cron timezone first_scheduled at =
         (case latest_in_window raw later first_scheduled at of
            Some t \<Rightarrow> Inr (nanos t)
          | None \<Rightarrow> Inl (CE_Internal
              ''Workflow schedule could not reconcile the latest missed occurrence'')))"
  using latest_occurrence_sound [OF laws tz parsed] latest_occurrence_complete [OF laws parsed tz le range] by blast

section \<open>Preview\<close>

text \<open>A preview has the requested number of occurrences, with normalised fields.\<close>

lemma length_preview_occurrences:
  "preview_occurrences n env schedule timezone cursor = Inr ps \<Longrightarrow> length ps = n"
  by (induction n arbitrary: cursor ps) (auto simp: res_bind_ok_iff)

lemma preview_complete:
  "preview_workflow_cron_schedule env cron timezone after limit = Inr p \<Longrightarrow>
     length (sp_occurrences p) = limit \<and> 1 \<le> limit \<and> limit \<le> MAX_PREVIEW_OCCURRENCES
     \<and> length (split_whitespace (sp_cron p)) = 5 \<and> sp_timezone p = trim timezone"
  by (auto simp: preview_workflow_cron_schedule_def res_bind_ok_iff length_preview_occurrences
      dest!: parse_cron5_normalizes split: if_splits)

section \<open>Instances\<close>

text \<open>
  A schedule that matches every minute, in a zone whose wall clock repeats the hour from second
  3600 to second 7200.
\<close>

definition minute_env :: "(string, int, string, int) cron_env" where
  "minute_env = \<lparr> parse_crontab = Inr,
     make_timestamp = (\<lambda>s. if 0 \<le> s \<and> s \<le> 1000000 then Inr s else Inl ''out of range''),
     find_next = (\<lambda>_ s. Inr (60 * (s div 60 + 1))),
     time_zone_get = Inr,
     earlier_offset = (\<lambda>_ z. Inr (if 3600 \<le> z \<and> z < 7200 then z - 3600 else z)),
     instant_of = nanos,
     timestamp_text = (\<lambda>d. if d < 0 then CHR ''-'' # replicate (nat (- d)) CHR ''1''
                           else replicate (nat d) CHR ''1''),
     parse_from_rfc3339 = (\<lambda>s. if s \<noteq> [] \<and> hd s = CHR ''-'' then Inr (1 - int (length s))
                               else Inr (int (length s))),
     from_timestamp = (\<lambda>s. Some (nanos s)),
     to_rfc3339_opts = int_to_string, zoned_text = int_to_string \<rparr>"

abbreviation every_minute :: "int \<Rightarrow> bool" where
  "every_minute t \<equiv> t mod 60 = 0"

abbreviation repeated_hour :: "int \<Rightarrow> bool" where
  "repeated_hour t \<equiv> 3600 \<le> t \<and> t < 7200"

lemma next_minute:
  fixes s u :: int
  shows "s < 60 * (s div 60 + 1)" and "s < u \<Longrightarrow> u < 60 * (s div 60 + 1) \<Longrightarrow> u mod 60 \<noteq> 0"
proof -
  define q r where qr: "q = s div 60" "r = s mod 60"
  have "s = 60 * q + r" "0 \<le> r" "r < 60" unfolding qr by auto
  then have s: "60 * q \<le> s" "s < 60 * (q + 1)" by simp_all
  then show "s < 60 * (s div 60 + 1)" by (simp add: qr)
  assume "s < u" "u < 60 * (s div 60 + 1)"
  then have u: "60 * q < u" "u < 60 * (q + 1)" using s by (auto simp: qr)
  show "u mod 60 \<noteq> 0"
  proof
    assume "u mod 60 = 0"
    then obtain k where "u = 60 * k" by auto
    with u show False by simp
  qed
qed

lemma minute_env_laws:
  "cron_laws minute_env schedule zone 0 1000000 every_minute repeated_hour"
  unfolding cron_laws_def minute_env_def
  by (auto split: if_splits intro: next_minute dest: next_minute(2))

lemma minute_env_errors: "only_sparse_errors minute_env schedule s t"
  by (simp add: only_sparse_errors_def minute_env_def)

lemma minute_env_reachable:
  assumes "0 \<le> s" "s < 3540"
  shows "reachable_next minute_env schedule 0 1000000 every_minute repeated_hour s (60 * (s div 60 + 1))"
proof -
  have "s div 60 < 59" using assms by (simp add: div_less_iff_less_mult)
  then have "60 * (s div 60 + 1) < 3600" by simp
  moreover from this have "later_folds every_minute repeated_hour s (60 * (s div 60 + 1)) = {}"
    by (auto simp: later_folds_def)
  moreover have "(60 * (s div 60 + 1) - s) div days SPARSE_SEARCH_ADVANCE_DAYS = 0"
    using assms next_minute(1) [of s] \<open>60 * (s div 60 + 1) < 3600\<close>
    unfolding SPARSE_SEARCH_ADVANCE_DAYS_def by (intro div_pos_pos_trivial) linarith+
  ultimately show ?thesis
    using assms next_minute [of s]
    by (auto simp: reachable_next_def minute_env_errors kept_next_def windows_needed_def
        MAX_SPARSE_SEARCH_WINDOWS_def)
qed

lemma minute_env_parse:
  "parse_cron5 (parse_crontab minute_env) ''* * * * *'' ''UTC''
     = Inr (''* * * * *'', ''UTC'', ''* * * * * UTC'')"
  by (simp add: parse_cron5_def validate_five_fields_def validate_timezone_token_def Let_def
      split_whitespace_def is_whitespace_def char_code_def trim_def trim_start_def minute_env_def)

lemma minute_env_folds: "25 \<le> card (later_folds every_minute repeated_hour 3540 7200)"
proof -
  have "(\<lambda>i. 3600 + 60 * int i) ` {..<60} \<subseteq> later_folds every_minute repeated_hour 3540 7200"
    by (auto simp: later_folds_def)
  from card_mono [OF finite_later_folds this] show ?thesis
    by (simp add: card_image inj_on_def)
qed

lemma minute_env_zone: "time_zone_get minute_env ''UTC'' = Inr ''UTC''"
  by (simp add: minute_env_def)

lemma minute_env_after_fold:
  "reachable_next minute_env schedule 0 1000000 every_minute repeated_hour 7080 7200"
proof -
  have "later_folds every_minute repeated_hour 7080 7200 = {7140}"
    by (auto simp: later_folds_def)
  then show ?thesis
    by (auto simp: reachable_next_def minute_env_errors kept_next_def windows_needed_def
        MAX_SPARSE_SEARCH_WINDOWS_def SPARSE_SEARCH_ADVANCE_DAYS_def)
qed

theorem next_occurrence_witness:
  "next_workflow_cron_occurrence minute_env ''* * * * *'' ''UTC'' (nanos 7080) = Inr (nanos 7200)"
proof -
  have "reachable_next minute_env ''* * * * * UTC'' 0 1000000 every_minute repeated_hour
      (timestamp (nanos 7080)) 7200"
    unfolding timestamp_nanos by (rule minute_env_after_fold)
  with next_occurrence_least [OF minute_env_laws minute_env_parse minute_env_zone, of "nanos 7080"]
  show ?thesis by blast
qed

theorem fold_exhausts_search_witness:
  "next_workflow_cron_occurrence minute_env ''* * * * *'' ''UTC'' (nanos 3540) = Inl (CE_InvalidInput
     ''Workflow schedule has no occurrence within the supported 95-year planning horizon'')"
  by (rule fold_exhausts_search [OF minute_env_laws minute_env_parse minute_env_zone, where t = 7200])
     (use minute_env_folds minute_env_errors in \<open>auto simp: kept_next_def timestamp_def\<close>)

theorem latest_occurrence_witness:
  "latest_workflow_cron_occurrence_at_or_before minute_env ''* * * * *'' ''UTC'' (nanos 60) (nanos 185)
     = Inr (nanos 180)"
proof -
  have "searchable minute_env ''* * * * * UTC'' 0 1000000 every_minute repeated_hour 59 185"
    unfolding searchable_def
  proof (intro allI impI conjI)
    fix c :: int
    assume "59 \<le> c \<and> c \<le> 185"
    then show "\<exists>t. reachable_next minute_env ''* * * * * UTC'' 0 1000000 every_minute repeated_hour c t"
      using minute_env_reachable [of c "''* * * * * UTC''"] by auto
  qed (simp add: minute_env_def)
  moreover have "latest_in_window every_minute repeated_hour (nanos 60) (nanos 185) = Some 180"
    unfolding latest_in_window_def timestamp_nanos
    by (rule find_rev_upto_Some) (use next_minute(2) [of 180] in auto)
  ultimately show ?thesis
    using latest_occurrence_is_last_of_window
      [OF minute_env_laws minute_env_parse minute_env_zone, of "nanos 60" "nanos 185"]
    by (simp add: timestamp_def)
qed

end
