(* ===== verification/Policy_Engine.thy ===== *)
theory Policy_Engine
  imports Nexa_Json
begin

text \<open>
  The declarative tool policy, \<open>crates/core/src/policy_engine.rs\<close>, with the description of a
  tool invocation it looks at (\<open>crates/core/src/tools/mod.rs\<close>) and the risk classes of
  \<open>crates/core/src/approval.rs\<close>.
\<close>

section \<open>Tool invocations\<close>

datatype approval_risk = RiskLow | RiskMedium | RiskHigh

datatype tool_input_streaming_mode = StreamNone | UiPreview | ToolConsumesPartial

datatype tool_render_kind =
    RenderGeneric | RenderCommandExecution | RenderFileChange | RenderSearch | RenderSubagent
  | RenderImage | RenderPlan | RenderVerification | RenderMcp

datatype tool_interrupt_behavior = InterruptBlock | InterruptCancel

record tool_run_capabilities =
  cap_input_streaming :: tool_input_streaming_mode
  cap_render_kind :: tool_render_kind
  cap_read_only :: bool
  cap_destructive :: bool
  cap_concurrency_safe :: bool
  cap_interrupt_behavior :: tool_interrupt_behavior
  cap_resource_keys :: "string list"

record tool_access_profile =
  ap_category :: string
  ap_can_read :: bool
  ap_can_write :: bool
  ap_can_execute :: bool
  ap_can_access_network :: bool
  ap_needs_approval :: bool
  ap_risk_level :: approval_risk
  ap_risk_reason :: string

record capability_owner =
  co_id :: string
  co_name :: string
  co_capability :: string
  co_description :: string

record tool_invocation =
  ti_call_id :: string
  ti_tool_name :: string
  ti_owner :: capability_owner
  ti_arguments :: json
  ti_capabilities :: tool_run_capabilities
  ti_access_profile :: tool_access_profile
  ti_wait_for_previous :: bool

section \<open>Effects and rules\<close>

datatype policy_effect = Allow | RequireApproval | DenyEffect

definition effect_as_str :: "policy_effect \<Rightarrow> string" where
  "effect_as_str e = (case e of Allow \<Rightarrow> ''allow'' | RequireApproval \<Rightarrow> ''require_approval''
     | DenyEffect \<Rightarrow> ''deny'')"

record policy_rule =
  pr_id :: string
  pr_tool_name :: "string option"
  pr_category :: "string option"
  pr_resource_prefix :: "string option"
  pr_effect :: policy_effect
  pr_reason :: string

record policy_subject =
  ps_tool_name :: string
  ps_access_profile :: tool_access_profile
  ps_resource_keys :: "string list"

definition subject_from_invocation :: "tool_invocation \<Rightarrow> policy_subject" where
  "subject_from_invocation i = \<lparr> ps_tool_name = ti_tool_name i,
     ps_access_profile = ti_access_profile i,
     ps_resource_keys = cap_resource_keys (ti_capabilities i) \<rparr>"

definition rule_matches :: "policy_rule \<Rightarrow> policy_subject \<Rightarrow> bool" where
  "rule_matches r s = (
     if (case pr_tool_name r of None \<Rightarrow> False | Some n \<Rightarrow> n \<noteq> ps_tool_name s) then False
     else if (case pr_category r of None \<Rightarrow> False
              | Some c \<Rightarrow> c \<noteq> ap_category (ps_access_profile s)) then False
     else if (case pr_resource_prefix r of None \<Rightarrow> False
              | Some p \<Rightarrow> \<not> list_ex (\<lambda>k. starts_with k p) (ps_resource_keys s)) then False
     else True)"

record policy_decision =
  pd_effect :: policy_effect
  pd_needs_approval :: bool
  pd_denied :: bool
  pd_risk_level :: approval_risk
  pd_reasons :: "string list"
  pd_matched_rule_ids :: "string list"

text \<open>The loop over the matching rules; a denying rule ends it.\<close>

fun apply_rules ::
  "policy_rule list \<Rightarrow> policy_effect \<times> string list \<times> string list
     \<Rightarrow> policy_effect \<times> string list \<times> string list" where
  "apply_rules [] acc = acc"
| "apply_rules (r # rs) (effect, reasons, ids) = (
     let ids' = ids @ [pr_id r]; reasons' = reasons @ [pr_reason r] in
     case pr_effect r of
       DenyEffect \<Rightarrow> (DenyEffect, reasons', ids')
     | RequireApproval \<Rightarrow>
         apply_rules rs (if effect \<noteq> DenyEffect then RequireApproval else effect, reasons', ids')
     | Allow \<Rightarrow> apply_rules rs (if effect = Allow then Allow else effect, reasons', ids'))"

definition evaluate_policy_with_baseline ::
  "policy_rule list \<Rightarrow> policy_subject \<Rightarrow> policy_effect \<Rightarrow> policy_decision" where
  "evaluate_policy_with_baseline rules subject baseline = (
     let (effect, reasons, ids) = apply_rules (filter (\<lambda>r. rule_matches r subject) rules)
           (baseline, [ap_risk_reason (ps_access_profile subject)], [])
     in \<lparr> pd_effect = effect, pd_needs_approval = (effect = RequireApproval),
          pd_denied = (effect = DenyEffect),
          pd_risk_level = ap_risk_level (ps_access_profile subject),
          pd_reasons = reasons, pd_matched_rule_ids = ids \<rparr>)"

definition evaluate_policy :: "policy_rule list \<Rightarrow> policy_subject \<Rightarrow> policy_decision" where
  "evaluate_policy rules subject = evaluate_policy_with_baseline rules subject
     (if ap_needs_approval (ps_access_profile subject) then RequireApproval else Allow)"

section \<open>Effects in order of strictness\<close>

instantiation policy_effect :: linorder
begin

definition less_eq_policy_effect :: "policy_effect \<Rightarrow> policy_effect \<Rightarrow> bool" where
  "less_eq_policy_effect a b \<longleftrightarrow> a = Allow \<or> b = DenyEffect \<or> a = b"

definition less_policy_effect :: "policy_effect \<Rightarrow> policy_effect \<Rightarrow> bool" where
  "less_policy_effect a b \<longleftrightarrow> a \<le> b \<and> a \<noteq> (b :: policy_effect)"

instance
  by standard
     (auto simp: less_eq_policy_effect_def less_policy_effect_def, (metis policy_effect.exhaust)+)

end

lemma policy_effect_order [simp]:
  "Allow \<le> e" "e \<le> DenyEffect" "e \<le> Allow \<longleftrightarrow> e = Allow" "DenyEffect \<le> e \<longleftrightarrow> e = DenyEffect"
  by (auto simp: less_eq_policy_effect_def)

text \<open>The reference: the strictest of the baseline and the effects of all matching rules.\<close>

fun strictest :: "policy_effect \<Rightarrow> policy_effect list \<Rightarrow> policy_effect" where
  "strictest e [] = e"
| "strictest e (x # xs) = strictest (max e x) xs"

lemma strictest_deny [simp]: "strictest DenyEffect xs = DenyEffect"
  by (induction xs) (simp_all add: max_def)

lemma strictest_ge: "e \<le> strictest e xs"
  by (induction e xs rule: strictest.induct) (auto intro: order_trans [OF max.cobounded1])

lemma strictest_member: "x \<in> set xs \<Longrightarrow> x \<le> strictest e xs"
proof (induction xs arbitrary: e)
  case (Cons y ys)
  then show ?case
    using strictest_ge [of "max e x" ys] by (auto intro: order_trans [OF max.cobounded2])
qed simp

lemma strictest_in: "strictest e xs \<in> insert e (set xs)"
  by (induction e xs rule: strictest.induct) (auto simp: max_def split: if_splits)

lemma apply_rules_effect:
  "fst (apply_rules rs (e, reasons, ids)) = strictest e (map pr_effect rs)"
proof (induction rs arbitrary: e reasons ids)
  case (Cons r rs)
  have "strictest (max e (pr_effect r)) (map pr_effect rs) = DenyEffect" if "pr_effect r = DenyEffect"
    using that by (simp add: max_def)
  with Cons show ?case
    by (cases e; cases "pr_effect r") (simp_all add: max_def less_eq_policy_effect_def)
qed simp

text \<open>The loop may stop at the first denying rule: the effect is the strictest one all the same.\<close>

lemma evaluate_policy_strictest:
  "pd_effect (evaluate_policy_with_baseline rules subject baseline) =
     strictest baseline (map pr_effect (filter (\<lambda>r. rule_matches r subject) rules))"
  using apply_rules_effect [of "filter (\<lambda>r. rule_matches r subject) rules" baseline
      "[ap_risk_reason (ps_access_profile subject)]" "[]"]
  by (auto simp: evaluate_policy_with_baseline_def split: prod.splits)

lemma evaluate_policy_flags:
  "pd_needs_approval (evaluate_policy_with_baseline rules subject baseline) \<longleftrightarrow>
     pd_effect (evaluate_policy_with_baseline rules subject baseline) = RequireApproval"
  "pd_denied (evaluate_policy_with_baseline rules subject baseline) \<longleftrightarrow>
     pd_effect (evaluate_policy_with_baseline rules subject baseline) = DenyEffect"
  by (simp_all add: evaluate_policy_with_baseline_def split: prod.splits)

lemma evaluate_policy_order_irrelevant:
  assumes "set rules = set rules'"
  shows "pd_effect (evaluate_policy_with_baseline rules subject baseline)
    = pd_effect (evaluate_policy_with_baseline rules' subject baseline)"
proof -
  have le: "strictest e xs \<le> strictest e ys" if "set xs \<subseteq> set ys" for e xs ys
    using strictest_in [of e xs] strictest_ge [of e ys] strictest_member [of _ ys e] that by auto
  show ?thesis
    unfolding evaluate_policy_strictest using assms by (intro order.antisym le) auto
qed

end
