(* ===== verification/Tool_Capability.thy ===== *)
theory Tool_Capability
  imports Policy_Engine
begin

text \<open>
  The capability table of the tools, \<open>crates/core/src/tools/capability.rs\<close>: from the name of a
  tool, its categories, its run capabilities and the arguments of a call to the permission
  profile the gate and the plan mode decide on; with the defaults of the \<open>Tool\<close> trait and the
  registry functions of \<open>crates/core/src/tools/mod.rs\<close> that build an invocation. The long
  match over the tool names is split into three definitions, in the order of its arms.
  The package that owns a tool (\<open>plugins.rs\<close>) is an argument.
\<close>

section \<open>Categories\<close>

datatype tool_category =
    CatCore | CatFileSystem | CatSourceManagement | CatKnowledge | CatWeb | CatProcess
  | CatTerminal | CatBrowserRead | CatVisualObservation | CatBrowserInteract
  | CatDesktopInteract | CatDocumentAnalysis | CatSubAgent | CatMcp | CatAutomation

datatype scheduled_tool_class = Independent | IsolatableWrite | UnsupportedTool

definition scheduled_workspace_tool_class :: "string \<Rightarrow> scheduled_tool_class" where
  "scheduled_workspace_tool_class name = (let n = trim name in
     if n \<in> set [''create_file'', ''edit_file'', ''multi_edit'', ''run_shell''] then IsolatableWrite
     else if n \<in> set
      [''activity_observe'', ''browser_evidence_capture'', ''code_intelligence'',
      ''compare_documents'', ''extract_image_text'', ''fetch_url'', ''get_chunk_context'',
      ''get_document_info'', ''get_related_concepts'', ''glob_files'', ''grep_files'',
      ''list_dir'', ''list_documents'', ''list_sources'', ''cancel_subagent'',
      ''close_subagent'', ''judge_subagent_results'', ''observe_subagent'',
      ''observe_subagent_batch'', ''query_knowledge_graph'', ''read_file'', ''read_files'',
      ''retrieve_evidence'', ''search_by_date'', ''search_files'', ''search_knowledge_base'',
      ''search_playbooks'', ''search_sessions'', ''session_search'', ''send_subagent_input'',
      ''list_subagent_models'', ''spawn_subagent'', ''spawn_subagent_batch'',
      ''summarize_document'', ''tool_search'', ''wait_subagent'', ''web_research_context'',
      ''web_search'']
     then Independent
     else UnsupportedTool)"

definition tool_delegates_to_subagent :: "string \<Rightarrow> bool" where
  "tool_delegates_to_subagent name = (trim name \<in> set
      [''spawn_subagent'', ''spawn_subagent_batch'', ''observe_subagent'',
      ''observe_subagent_batch'', ''wait_subagent'', ''send_subagent_input'',
      ''cancel_subagent'', ''close_subagent'', ''judge_subagent_results''])"

definition category_label :: "tool_category \<Rightarrow> string" where
  "category_label c = (case c of
     CatCore \<Rightarrow> ''core'' | CatFileSystem \<Rightarrow> ''filesystem'' | CatSourceManagement \<Rightarrow> ''source_management''
   | CatKnowledge \<Rightarrow> ''knowledge'' | CatWeb \<Rightarrow> ''web'' | CatProcess \<Rightarrow> ''process''
   | CatTerminal \<Rightarrow> ''terminal'' | CatBrowserRead \<Rightarrow> ''browser_read''
   | CatVisualObservation \<Rightarrow> ''visual_observation'' | CatBrowserInteract \<Rightarrow> ''browser_interact''
   | CatDesktopInteract \<Rightarrow> ''desktop_interact'' | CatDocumentAnalysis \<Rightarrow> ''document_analysis''
   | CatSubAgent \<Rightarrow> ''delegation'' | CatMcp \<Rightarrow> ''mcp'' | CatAutomation \<Rightarrow> ''automation'')"

definition first_non_core_category :: "tool_category list \<Rightarrow> tool_category" where
  "first_non_core_category cs = unwrap_or CatCore
     (opt_or (find (\<lambda>c. c \<noteq> CatCore) cs) (case cs of [] \<Rightarrow> None | c # _ \<Rightarrow> Some c))"

section \<open>Rendering, streaming and resources\<close>

definition capability_render_kind :: "string \<Rightarrow> tool_render_kind" where
  "capability_render_kind name = (
     if name = ''run_shell'' then RenderCommandExecution
     else if name \<in> set
      [''edit_file'', ''multi_edit'', ''create_file'', ''write_note'', ''download_asset'',
      ''office_artifact'']
     then RenderFileChange
     else if name \<in> set
      [''fetch_url'', ''browser_evidence_capture'', ''web_search'', ''web_research_context'',
      ''read_file'', ''read_files'', ''extract_image_text'', ''get_document_info'',
      ''compare_documents'', ''summarize_document'', ''compile_document'',
      ''search_knowledge_base'', ''retrieve_evidence'', ''search_files'', ''search_playbooks'',
      ''search_sessions'', ''search_by_date'', ''get_chunk_context'',
      ''query_knowledge_graph'', ''get_related_concepts'', ''grep_files'', ''glob_files'',
      ''list_dir'', ''list_documents'', ''list_sources'', ''session_search'', ''tool_search'',
      ''code_intelligence'', ''list_subagent_models'']
     then RenderSearch
     else if name \<in> set
      [''spawn_subagent'', ''spawn_subagent_batch'', ''observe_subagent'', ''wait_subagent'',
      ''send_subagent_input'', ''cancel_subagent'', ''close_subagent'']
     then RenderSubagent
     else if name = ''generate_image'' then RenderImage
     else if name = ''update_plan'' then RenderPlan
     else if name = ''record_verification'' then RenderVerification
     else if starts_with name ''mcp__'' then RenderMcp
     else RenderGeneric)"

definition capability_input_streaming :: "string \<Rightarrow> tool_input_streaming_mode" where
  "capability_input_streaming name = (if name \<in> set
      [''generate_image'', ''synthesize_speech'', ''download_asset'',
      ''browser_evidence_capture'', ''fetch_url'', ''web_search'', ''web_research_context'',
      ''read_file'', ''read_files'', ''list_dir'', ''glob_files'', ''grep_files'',
      ''run_shell'', ''edit_file'', ''multi_edit'', ''create_file'', ''write_note'',
      ''extract_image_text'', ''get_document_info'', ''compare_documents'',
      ''summarize_document'', ''compile_document'', ''office_artifact'',
      ''search_knowledge_base'', ''retrieve_evidence'', ''search_files'', ''search_playbooks'',
      ''search_sessions'', ''search_by_date'', ''get_chunk_context'',
      ''query_knowledge_graph'', ''get_related_concepts'', ''list_documents'',
      ''list_sources'', ''spawn_subagent'', ''spawn_subagent_batch'', ''send_subagent_input'',
      ''tool_search'', ''code_intelligence'']
     then UiPreview else StreamNone)"

definition push_string_resource_key :: "string \<Rightarrow> string \<Rightarrow> string list \<Rightarrow> string list" where
  "push_string_resource_key scheme value keys = (
     let normalized = map (\<lambda>c. if c = CHR 0x5C then CHR ''/'' else c) (trim value);
         key = scheme @ '':'' @ normalized
     in if normalized = [] then keys
        else if key \<in> set keys then keys else keys @ [key])"

definition collect_string_or_array_resource ::
  "json \<Rightarrow> string \<Rightarrow> string \<Rightarrow> string list \<Rightarrow> string list" where
  "collect_string_or_array_resource args field scheme keys = (case json_get args field of
     Some (JString text) \<Rightarrow> push_string_resource_key scheme text keys
   | Some (JArray items) \<Rightarrow> fold (\<lambda>item ks. case json_as_str item of
         Some text \<Rightarrow> push_string_resource_key scheme text ks | None \<Rightarrow> ks) items keys
   | _ \<Rightarrow> keys)"

definition capability_resource_keys :: "string \<Rightarrow> json \<Rightarrow> string list" where
  "capability_resource_keys name args = (
     let keys = (if name = ''browser_session'' then [''browser:workspace'']
           else if name \<in> {''computer_observe'', ''computer_control'', ''desktop_automation''}
           then [''desktop:input''] else []);
         keys = fold (\<lambda>field. collect_string_or_array_resource args field ''file'')
      [''path'', ''paths'', ''file_path'', ''filePath'', ''file_paths'', ''filePaths'', ''target_path'',
      ''targetPath'', ''target_paths'', ''targetPaths'', ''absolute_path'', ''absolutePath'',
      ''source_path'', ''sourcePath'', ''destination_path'', ''destinationPath'',
      ''output_dir'', ''outputDir'', ''filename'', ''dest_path'', ''destPath'', ''new_path'',
      ''newPath'', ''old_path'', ''oldPath''] keys;
         keys = fold (\<lambda>field. collect_string_or_array_resource args field ''source'')
           [''source_id'', ''sourceId'', ''source_ids'', ''sourceIds''] keys;
         keys = fold (\<lambda>field. collect_string_or_array_resource args field ''web'')
           [''url'', ''finalUrl'', ''final_url''] keys
     in if starts_with name ''mcp__'' then push_string_resource_key ''mcp'' name keys else keys)"

section \<open>Permission profiles\<close>

definition generic_access_profile ::
  "string \<Rightarrow> tool_category list \<Rightarrow> tool_run_capabilities \<Rightarrow> tool_access_profile" where
  "generic_access_profile name categories caps = (
     let category = (if starts_with name ''mcp__'' then ''mcp''
           else category_label (first_non_core_category categories));
         can_execute = (cap_render_kind caps \<in> {RenderCommandExecution, RenderSubagent}
           \<or> list_ex (\<lambda>c. c \<in> {CatProcess, CatTerminal, CatBrowserInteract, CatDesktopInteract,
                                CatAutomation, CatSubAgent}) categories);
         can_access_network = (list_ex (\<lambda>c. c \<in> {CatWeb, CatBrowserRead, CatVisualObservation,
                                CatBrowserInteract, CatMcp}) categories \<or> starts_with name ''mcp__'');
         can_write = (\<not> cap_read_only caps \<or> cap_destructive caps);
         risk = (if can_execute \<and> (can_write \<or> can_access_network) then RiskHigh
           else if can_write \<or> cap_destructive caps then RiskMedium else RiskLow)
     in \<lparr> ap_category = category,
          ap_can_read = cap_render_kind caps \<notin> {RenderPlan, RenderVerification},
          ap_can_write = can_write, ap_can_execute = can_execute,
          ap_can_access_network = can_access_network, ap_needs_approval = cap_destructive caps,
          ap_risk_level = risk,
          ap_risk_reason = (if risk = RiskLow then ''Read-only or low-risk local agent helper.''
            else ''Tool capabilities indicate this invocation can mutate state, execute work, or cross a trust boundary.'') \<rparr>)"

definition static_profile ::
  "string \<Rightarrow> bool \<Rightarrow> bool \<Rightarrow> bool \<Rightarrow> bool \<Rightarrow> bool \<Rightarrow> approval_risk \<Rightarrow> string \<Rightarrow> tool_access_profile" where
  "static_profile category r w x net approval risk reason = \<lparr> ap_category = category,
     ap_can_read = r, ap_can_write = w, ap_can_execute = x, ap_can_access_network = net,
     ap_needs_approval = approval, ap_risk_level = risk, ap_risk_reason = reason \<rparr>"

text \<open>Shell, file writers, artifacts and sources.\<close>

definition write_tool_profile :: "string \<Rightarrow> json \<Rightarrow> tool_access_profile option" where
  "write_tool_profile name args = (
     if name = ''run_shell'' then
       Some (static_profile ''system'' True True True True True RiskHigh
       ''Executes local commands and can affect files, processes, and network.'')
     else if name \<in> {''edit_file'', ''multi_edit''} then
       Some (static_profile ''filesystem'' True True False False True RiskHigh
       ''Modifies existing text files and should pass through the write approval gate.'')
     else if name = ''create_file'' then
       Some (static_profile ''filesystem'' False True False False True
       (if unwrap_or False (Option.bind (json_get args ''overwrite'') json_as_bool) then RiskHigh else RiskMedium)
       ''Creates or overwrites local files.'')
     else if name = ''write_note'' then
       Some (static_profile ''filesystem'' False True False False True
       (case str_arg args ''mode'' of Some mode \<Rightarrow> if mode \<noteq> ''create'' then RiskHigh else RiskMedium
        | None \<Rightarrow> RiskMedium)
       ''Creates or updates local notes.'')
     else if name = ''archive_output'' then
       Some (static_profile ''artifact'' False True False False True RiskMedium
       ''Persists agent output as a reusable local artifact.'')
     else if name = ''prepare_document_tools'' then
       Some (static_profile ''document_tooling'' True True True True True RiskMedium
       ''Prepares required Python document-processing helpers.'')
     else if name = ''office_artifact'' then
       Some (let action = str_arg args ''action'';
            mutates = action \<notin> {Some ''capabilities'', Some ''assess''}
        in static_profile ''filesystem'' True mutates True False mutates
             (if action \<in> {Some ''restore'', Some ''decide''} then RiskHigh else RiskMedium)
             ''Runs the local transactional Office candidate, publication, or restoration lifecycle.'')
     else if name = ''manage_source'' then
       Some (static_profile ''source_management'' True True False False True
       (if str_arg args ''action'' = Some ''remove'' then RiskHigh else RiskMedium)
       ''Adds, updates, or removes knowledge sources.'')
     else if name = ''reindex_document'' then
       Some (static_profile ''source_management'' True True False False False RiskLow
       ''Refreshes derived knowledge indexes without directly editing user files.'')
     else None)"

text \<open>Documents, the web, the desktop, file readers and project tools.\<close>

definition surface_tool_profile :: "string \<Rightarrow> json \<Rightarrow> tool_access_profile option" where
  "surface_tool_profile name args = (
     if name = ''compile_document'' then
       Some (static_profile ''document_analysis'' True False False False False RiskLow
       ''Reads document compilation status and diagnostics.'')
     else if name \<in> {''fetch_url'', ''web_search'', ''web_research_context''} then
       Some (static_profile ''web'' True False False True False RiskLow
       ''Reads remote web content or search results and crosses the local trust boundary.'')
     else if name = ''synthesize_speech'' then
       Some (static_profile ''web'' True False False True False RiskLow
       ''Sends requested text to the configured cloud speech provider and returns bounded transient audio.'')
     else if name = ''browser_evidence_capture'' then
       Some (static_profile ''web'' True False False True True RiskMedium
       ''Captures read-only browser/page evidence with provenance and crosses the local trust boundary.'')
     else if name = ''download_asset'' then
       Some (static_profile ''web'' True True False True True RiskMedium
       ''Downloads a remote image asset into the workspace after URL, content-type, size, and output-path validation.'')
     else if name = ''desktop_automation'' then
       Some (static_profile ''automation'' True True True True True RiskHigh
       ''Can open or reveal source-scoped local paths in a desktop application.'')
     else if name = ''computer_observe'' then
       Some (let discloses = (case str_arg args ''action'' of None \<Rightarrow> False
              | Some action \<Rightarrow> eq_ignore_ascii_case (trim action) ''capture_window''
                  \<or> eq_ignore_ascii_case (trim action) ''wait_for_change'')
        in static_profile ''automation'' True False False discloses discloses RiskMedium
             (if discloses then ''Captures local window pixels and accessibility text that may be disclosed to the configured model provider.''
              else ''Reads bounded local window metadata without injecting input.''))
     else if name = ''computer_control'' then
       Some (static_profile ''automation'' True True True True True RiskHigh
       ''Acts on a fresh Windows observation and returns post-action screen evidence to the configured model context.'')
     else if name \<in> {''get_document_info'', ''compare_documents'', ''summarize_document''} then
       Some (static_profile ''document_analysis'' True False False False False RiskLow
       ''Reads local Office/PDF/document content for inspection and comparison.'')
     else if name \<in> {''read_file'', ''read_files'', ''list_dir'', ''glob_files'', ''search_files'',
        ''grep_files'', ''code_intelligence''} then
       Some (static_profile ''filesystem'' True False False False False RiskLow
       ''Reads local files or directories for source-scoped inspection.'')
     else if name = ''project_tool'' then
       Some (if str_arg args ''action'' = Some ''run'' then
          static_profile ''project_tool'' True True True True True RiskHigh
            ''Runs a command declared by a source-scoped project tool manifest.''
        else static_profile ''project_tool_catalog'' True False False False False RiskLow
          ''Reads source-scoped project tool manifests.'')
     else None)"

text \<open>Knowledge, memory, delegation, connectors, goals and the catalogue.\<close>

definition knowledge_tool_profile :: "string \<Rightarrow> tool_access_profile option" where
  "knowledge_tool_profile name = (
     if name \<in> {''run_health_check'', ''get_statistics''} then
       Some (static_profile ''knowledge_health'' True False False False False RiskLow
       ''Reads knowledge-base diagnostics, coverage, and storage statistics.'')
     else if name = ''agent_harness_dry_run'' then
       Some (static_profile ''agent_harness'' True False False False False RiskLow
       ''Runs a read-only readiness preview of local agent configuration and tool availability.'')
     else if name \<in> {''search_knowledge_base'', ''retrieve_evidence'', ''list_sources'',
        ''list_documents'', ''search_by_date'', ''get_chunk_context'',
        ''query_knowledge_graph'', ''get_related_concepts''} then
       Some (static_profile ''knowledge'' True False False False False RiskLow
       ''Reads indexed local knowledge as evidence.'')
     else if name \<in> {''search_playbooks'', ''search_sessions''} then
       Some (static_profile ''memory'' True False False False False RiskLow
       ''Reads saved sessions, playbooks, or reusable local working context.'')
     else if name \<in> {''manage_playbook'', ''submit_feedback''} then
       Some (static_profile ''memory'' True True False False True RiskMedium
       ''Changes reusable playbooks, feedback, or knowledge-workflow records.'')
     else if name \<in> {''manage_agent_memory'', ''update_scratchpad'', ''manage_skill''} then
       Some (static_profile ''memory'' True True False False True RiskMedium
       ''Changes persistent agent memory, skills, or working notes.'')
     else if name \<in> {''spawn_subagent'', ''spawn_subagent_batch''} then
       Some (static_profile ''delegation'' True True True True True RiskMedium
       ''Delegates bounded work to another agent with narrowed tool and source access.'')
     else if name \<in> {''judge_subagent_results'', ''list_subagent_models''} then
       Some (static_profile ''delegation'' True False False False False RiskLow
       ''Reads and adjudicates subagent outputs without directly changing user data.'')
     else if name \<in> {''observe_subagent'', ''wait_subagent'', ''close_subagent''} then
       Some (static_profile ''delegation'' True False False False False RiskLow
       ''Observes or releases a bounded delegated-agent lifecycle handle.'')
     else if name \<in> {''send_subagent_input'', ''cancel_subagent''} then
       Some (static_profile ''delegation'' True True True False False RiskLow
       ''Steers or cooperatively cancels an already-authorized delegated agent.'')
     else if name = ''mcp_tool'' \<or> starts_with name ''mcp__'' then
       Some (static_profile ''mcp'' True True True True True RiskHigh
       ''Delegates to an external MCP server with server-defined capabilities.'')
     else if name = ''get_goal'' then
       Some (static_profile ''goal'' True False False False False RiskLow
       ''Reads the durable goal for the current conversation.'')
     else if name = ''update_goal'' then
       Some (static_profile ''goal'' True True False False False RiskLow
       ''Updates the lifecycle state of the current conversation goal.'')
     else if name \<in> {''update_plan'', ''record_verification''} then
       Some (static_profile ''artifact'' False False False False False RiskLow
       ''Records structured task progress or verification artifacts.'')
     else if name = ''tool_search'' then
       Some (static_profile ''tool_catalog'' True False False False False RiskLow
       ''Reads the enabled tool catalog and can activate hidden matches for later model steps.'')
     else None)"

definition infer_tool_access_profile ::
  "string \<Rightarrow> tool_category list \<Rightarrow> tool_run_capabilities \<Rightarrow> json \<Rightarrow> tool_access_profile" where
  "infer_tool_access_profile name categories caps args =
     (case opt_or (write_tool_profile name args)
             (opt_or (surface_tool_profile name args) (knowledge_tool_profile name)) of
        Some profile \<Rightarrow> profile
      | None \<Rightarrow> generic_access_profile name categories caps)"

definition fallback_registry_run_capabilities :: "string \<Rightarrow> json \<Rightarrow> tool_run_capabilities" where
  "fallback_registry_run_capabilities name args = \<lparr>
     cap_input_streaming = capability_input_streaming name,
     cap_render_kind = capability_render_kind name,
     cap_read_only = (name \<noteq> ''mcp_tool'' \<and> \<not> starts_with name ''mcp__''),
     cap_destructive = False, cap_concurrency_safe = True,
     cap_interrupt_behavior = InterruptBlock,
     cap_resource_keys = capability_resource_keys name args \<rparr>"

definition fallback_tool_access_profile :: "string \<Rightarrow> json \<Rightarrow> tool_access_profile" where
  "fallback_tool_access_profile name args = infer_tool_access_profile name [CatCore]
     \<lparr> cap_input_streaming = capability_input_streaming name,
       cap_render_kind = capability_render_kind name,
       cap_read_only = (name \<noteq> ''mcp_tool'' \<and> \<not> starts_with name ''mcp__''),
       cap_destructive = False, cap_concurrency_safe = True,
       cap_interrupt_behavior = InterruptBlock,
       cap_resource_keys = capability_resource_keys name args \<rparr> args"

record tool_capability_descriptor =
  td_name :: string
  td_owner :: capability_owner
  td_categories :: "string list"
  td_ui :: "tool_render_kind \<times> string"
  td_resources :: "string list"
  td_capabilities :: tool_run_capabilities
  td_access_profile :: tool_access_profile

definition capability_descriptor_for_tool ::
  "(string \<Rightarrow> capability_owner) \<Rightarrow> string \<Rightarrow> tool_category list \<Rightarrow> tool_run_capabilities \<Rightarrow> json
     \<Rightarrow> tool_capability_descriptor" where
  "capability_descriptor_for_tool owner_of name categories caps args = (
     let profile = infer_tool_access_profile name categories caps args in
     \<lparr> td_name = name, td_owner = owner_of name, td_categories = map category_label categories,
       td_ui = (cap_render_kind caps, ap_category profile),
       td_resources = cap_resource_keys caps, td_capabilities = caps,
       td_access_profile = profile \<rparr>)"

section \<open>Tools and the registry\<close>

text \<open>
  A registered tool as far as permissions go: the methods of the \<open>Tool\<close> trait that take part in
  the description of a call. The other methods the trait derives from these.
\<close>

record tool =
  tl_name :: string
  tl_categories :: "tool_category list"
  tl_requires_confirmation :: "json \<Rightarrow> bool"
  tl_render_kind :: tool_render_kind
  tl_input_streaming :: tool_input_streaming_mode
  tl_is_read_only :: "json \<Rightarrow> bool"
  tl_is_concurrency_safe :: "json \<Rightarrow> bool"
  tl_interrupt_behavior :: tool_interrupt_behavior
  tl_resource_keys :: "json \<Rightarrow> string list"

definition run_capabilities :: "tool \<Rightarrow> json \<Rightarrow> tool_run_capabilities" where
  "run_capabilities t args = (let destructive = tl_requires_confirmation t args in
     \<lparr> cap_input_streaming = tl_input_streaming t, cap_render_kind = tl_render_kind t,
       cap_read_only = tl_is_read_only t args, cap_destructive = destructive,
       cap_concurrency_safe = tl_is_concurrency_safe t args,
       cap_interrupt_behavior = (if destructive then InterruptBlock else tl_interrupt_behavior t),
       cap_resource_keys = tl_resource_keys t args \<rparr>)"

definition tool_capability_descriptor_of ::
  "(string \<Rightarrow> capability_owner) \<Rightarrow> tool \<Rightarrow> json \<Rightarrow> tool_capability_descriptor" where
  "tool_capability_descriptor_of owner_of t args =
     capability_descriptor_for_tool owner_of (tl_name t) (tl_categories t) (run_capabilities t args) args"

definition tool_access_profile_of ::
  "(string \<Rightarrow> capability_owner) \<Rightarrow> tool \<Rightarrow> json \<Rightarrow> tool_access_profile" where
  "tool_access_profile_of owner_of t args = td_access_profile (tool_capability_descriptor_of owner_of t args)"

type_synonym tool_registry = "tool list"

definition registry_get :: "tool_registry \<Rightarrow> string \<Rightarrow> tool option" where
  "registry_get reg name = find (\<lambda>t. tl_name t = name) reg"

definition registry_requires_confirmation :: "tool_registry \<Rightarrow> string \<Rightarrow> json \<Rightarrow> bool" where
  "registry_requires_confirmation reg name args =
     (case registry_get reg name of None \<Rightarrow> False | Some t \<Rightarrow> tl_requires_confirmation t args)"

definition registry_capability_descriptor ::
  "(string \<Rightarrow> capability_owner) \<Rightarrow> tool_registry \<Rightarrow> string \<Rightarrow> json \<Rightarrow> tool_capability_descriptor" where
  "registry_capability_descriptor owner_of reg name args = (case registry_get reg name of
     Some t \<Rightarrow> tool_capability_descriptor_of owner_of t args
   | None \<Rightarrow> capability_descriptor_for_tool owner_of name [CatCore]
       (fallback_registry_run_capabilities name args) args)"

definition invocation_waits_for_previous :: "json \<Rightarrow> bool" where
  "invocation_waits_for_previous args = unwrap_or False (Option.bind
     (opt_or (json_get args ''wait_for_previous'') (json_get args ''waitForPrevious'')) json_as_bool)"

definition build_invocation ::
  "(string \<Rightarrow> capability_owner) \<Rightarrow> tool_registry \<Rightarrow> string \<Rightarrow> string \<Rightarrow> json \<Rightarrow> tool_invocation" where
  "build_invocation owner_of reg call_id name args = (
     let d = registry_capability_descriptor owner_of reg name args in
     \<lparr> ti_call_id = call_id, ti_tool_name = name, ti_owner = td_owner d, ti_arguments = args,
       ti_capabilities = td_capabilities d, ti_access_profile = td_access_profile d,
       ti_wait_for_previous = invocation_waits_for_previous args \<rparr>)"

definition plan_mode_allows_tool :: "string \<Rightarrow> tool_access_profile \<Rightarrow> bool" where
  "plan_mode_allows_tool name access = (
     if name = ''mcp_tool'' \<or> starts_with name ''mcp__'' then False
     else if name \<in> set
      [''run_shell'', ''project_tool'', ''computer_control'', ''desktop_automation'',
      ''browser_evidence_capture'', ''download_asset'', ''generate_image'',
      ''synthesize_speech'', ''prepare_document_tools'', ''update_plan'', ''update_goal'',
      ''record_verification'', ''spawn_subagent'', ''spawn_subagent_batch'',
      ''judge_subagent_results'']
     then False
     else ap_can_read access \<and> \<not> ap_can_write access \<and> \<not> ap_can_execute access
       \<and> \<not> ap_needs_approval access)"

definition plan_mode_filtered :: "(string \<Rightarrow> capability_owner) \<Rightarrow> tool_registry \<Rightarrow> tool_registry" where
  "plan_mode_filtered owner_of reg =
     filter (\<lambda>t. plan_mode_allows_tool (tl_name t) (tool_access_profile_of owner_of t (JObject []))) reg"

section \<open>What the table guarantees\<close>

definition named_tool_profile :: "string \<Rightarrow> json \<Rightarrow> tool_access_profile option" where
  "named_tool_profile name args = opt_or (write_tool_profile name args)
     (opt_or (surface_tool_profile name args) (knowledge_tool_profile name))"

lemma infer_tool_access_profile_cases:
  "infer_tool_access_profile name categories caps args = (case named_tool_profile name args of
     Some p \<Rightarrow> p | None \<Rightarrow> generic_access_profile name categories caps)"
  by (simp add: infer_tool_access_profile_def named_tool_profile_def)

lemma static_profile_simps [simp]:
  "ap_can_read (static_profile c r w x n a k d) = r"
  "ap_can_write (static_profile c r w x n a k d) = w"
  "ap_can_execute (static_profile c r w x n a k d) = x"
  "ap_can_access_network (static_profile c r w x n a k d) = n"
  "ap_needs_approval (static_profile c r w x n a k d) = a"
  "ap_risk_level (static_profile c r w x n a k d) = k"
  by (simp_all add: static_profile_def)

text \<open>The three parts of the table, each with what it promises.\<close>

definition unapproved_writers :: "string set" where
  "unapproved_writers = {''reindex_document'', ''send_subagent_input'', ''cancel_subagent'', ''update_goal''}"

definition profile_ok :: "string \<Rightarrow> tool_access_profile \<Rightarrow> bool" where
  "profile_ok name p \<longleftrightarrow>
     (ap_can_write p \<longrightarrow> ap_needs_approval p \<or> name \<in> unapproved_writers)
     \<and> (ap_risk_level p = RiskHigh \<longrightarrow> ap_needs_approval p)"

text \<open>Going through a chain of arms without keeping the failed comparisons.\<close>

lemma if_SomeE:
  "\<lbrakk> (if c then Some a else r) = Some p; c \<Longrightarrow> a = p \<Longrightarrow> P; r = Some p \<Longrightarrow> P \<rbrakk> \<Longrightarrow> P"
  by (auto split: if_splits)

lemma if_Some_None_iff: "(if c then Some a else r) = None \<longleftrightarrow> \<not> c \<and> r = None"
  by simp

lemma opt_or_None_iff: "opt_or x y = None \<longleftrightarrow> x = None \<and> y = None"
  by (simp add: opt_or_def split: option.splits)

lemma write_profile_ok: "write_tool_profile name args = Some p \<Longrightarrow> profile_ok name p"
  unfolding write_tool_profile_def
  by (elim if_SomeE; (hypsubst)?; simp add: profile_ok_def unapproved_writers_def Let_def)

lemma surface_profile_ok: "surface_tool_profile name args = Some p \<Longrightarrow> profile_ok name p"
  unfolding surface_tool_profile_def
  by (elim if_SomeE; (hypsubst)?; simp add: profile_ok_def Let_def split: if_splits)

lemma knowledge_profile_ok: "knowledge_tool_profile name = Some p \<Longrightarrow> profile_ok name p"
  unfolding knowledge_tool_profile_def
  by (elim if_SomeE; (hypsubst)?; simp add: profile_ok_def unapproved_writers_def; (elim disjE; simp)?)

lemma named_profile_ok: "named_tool_profile name args = Some p \<Longrightarrow> profile_ok name p"
  unfolding named_tool_profile_def opt_or_def
  by (auto dest: write_profile_ok surface_profile_ok knowledge_profile_ok split: option.splits)

text \<open>A tool is named for every argument or for none.\<close>

lemma named_profile_args:
  "(named_tool_profile name args = None) = (named_tool_profile name args' = None)"
  by (simp only: named_tool_profile_def write_tool_profile_def surface_tool_profile_def
      opt_or_None_iff if_Some_None_iff)

text \<open>
  The arguments of a call change what a named tool may do only in two places: the actions of
  \<open>office_artifact\<close>, which may execute in any case, and those of \<open>project_tool\<close>.
\<close>

lemma if_Some2E:
  "\<lbrakk> (if c then Some a else r) = Some p \<and> (if c then Some a' else r') = Some q;
     \<lbrakk> c; a = p; a' = q \<rbrakk> \<Longrightarrow> P; r = Some p \<and> r' = Some q \<Longrightarrow> P \<rbrakk> \<Longrightarrow> P"
  by (auto split: if_splits)

definition passive_profile :: "tool_access_profile \<Rightarrow> bool" where
  "passive_profile p \<longleftrightarrow> \<not> ap_can_write p \<and> \<not> ap_can_execute p"

lemma write_profile_passive:
  "\<lbrakk> write_tool_profile name args = Some p \<and> write_tool_profile name args' = Some q; passive_profile p \<rbrakk>
     \<Longrightarrow> passive_profile q"
  unfolding write_tool_profile_def
  by (elim if_Some2E; (hypsubst)?; simp add: passive_profile_def Let_def)

lemma surface_profile_passive:
  "\<lbrakk> surface_tool_profile name args = Some p \<and> surface_tool_profile name args' = Some q;
     passive_profile p; name \<noteq> ''project_tool'' \<rbrakk> \<Longrightarrow> passive_profile q"
  unfolding surface_tool_profile_def
  by (elim if_Some2E; (hypsubst)?; simp add: passive_profile_def Let_def)

lemma table_args:
  "(write_tool_profile name args = None) = (write_tool_profile name args' = None)"
  "(surface_tool_profile name args = None) = (surface_tool_profile name args' = None)"
  by (simp_all only: write_tool_profile_def surface_tool_profile_def if_Some_None_iff)

lemma named_profile_passive:
  assumes "named_tool_profile name args = Some p" "named_tool_profile name args' = Some q"
    and "passive_profile p" "name \<noteq> ''project_tool''"
  shows "passive_profile q"
  using assms table_args [of name args args']
    write_profile_passive [of name args p args' q] surface_profile_passive [of name args p args' q]
  by (auto simp: named_tool_profile_def opt_or_def split: option.splits)

lemma tool_access_profile_of_cases:
  "tool_access_profile_of owner_of t args = (case named_tool_profile (tl_name t) args of
     Some p \<Rightarrow> p | None \<Rightarrow> generic_access_profile (tl_name t) (tl_categories t) (run_capabilities t args))"
  by (simp add: tool_access_profile_of_def tool_capability_descriptor_of_def
      capability_descriptor_for_tool_def Let_def infer_tool_access_profile_cases)

lemma generic_profile_flags:
  "ap_can_execute (generic_access_profile name cs (run_capabilities t args)) \<longleftrightarrow>
     ap_can_execute (generic_access_profile name cs (run_capabilities t args'))"
  "ap_can_write (generic_access_profile name cs (run_capabilities t args)) \<longleftrightarrow>
     \<not> tl_is_read_only t args \<or> tl_requires_confirmation t args"
  by (simp_all add: generic_access_profile_def Let_def run_capabilities_def)

lemma plan_mode_allows_passive:
  "plan_mode_allows_tool name p \<Longrightarrow> passive_profile p \<and> name \<noteq> ''project_tool'' \<and> name \<noteq> ''mcp_tool''
     \<and> \<not> starts_with name ''mcp__'' \<and> \<not> ap_needs_approval p"
  by (auto simp: plan_mode_allows_tool_def passive_profile_def split: if_splits)

text \<open>
  C23: Plan mode decides once, with empty arguments, which tools stay visible. Whatever arguments a
  visible tool is then called with, its profile never allows execution, and it allows a write
  only for a tool outside the table whose own read-only answer depends on the arguments.
  Connector tools are never visible.\<close>

theorem plan_mode_surface_safe:
  assumes "t \<in> set (plan_mode_filtered owner_of reg)"
  shows "\<not> ap_can_execute (tool_access_profile_of owner_of t args)
     \<and> (ap_can_write (tool_access_profile_of owner_of t args) \<longrightarrow>
          named_tool_profile (tl_name t) args = None
          \<and> tl_is_read_only t (JObject []) \<and> \<not> tl_requires_confirmation t (JObject [])
          \<and> (\<not> tl_is_read_only t args \<or> tl_requires_confirmation t args))
     \<and> \<not> starts_with (tl_name t) ''mcp__''"
proof -
  let ?none = "JObject []"
  have allowed: "plan_mode_allows_tool (tl_name t) (tool_access_profile_of owner_of t ?none)"
    using assms by (simp add: plan_mode_filtered_def)
  note quiet = plan_mode_allows_passive [OF allowed]
  show ?thesis
  proof (cases "named_tool_profile (tl_name t) args")
    case None
    then have "named_tool_profile (tl_name t) ?none = None"
      using named_profile_args by blast
    with None quiet show ?thesis
      using generic_profile_flags(1) [of "tl_name t" "tl_categories t" t args ?none]
      by (simp add: tool_access_profile_of_cases passive_profile_def generic_profile_flags(2))
  next
    case (Some q)
    then obtain p where p: "named_tool_profile (tl_name t) ?none = Some p"
      using named_profile_args [of "tl_name t" args ?none] by fastforce
    with quiet have "passive_profile q"
      by (intro named_profile_passive [OF p Some]) (simp_all add: tool_access_profile_of_cases)
    with Some quiet show ?thesis
      by (simp add: tool_access_profile_of_cases passive_profile_def)
  qed
qed

definition read_file_tool :: tool where
  "read_file_tool = \<lparr> tl_name = ''read_file'', tl_categories = [CatFileSystem],
     tl_requires_confirmation = (\<lambda>_. False), tl_render_kind = RenderSearch,
     tl_input_streaming = UiPreview, tl_is_read_only = (\<lambda>_. True),
     tl_is_concurrency_safe = (\<lambda>_. True), tl_interrupt_behavior = InterruptCancel,
     tl_resource_keys = capability_resource_keys ''read_file'' \<rparr>"

definition core_owner :: "string \<Rightarrow> capability_owner" where
  "core_owner _ = \<lparr> co_id = ''core'', co_name = ''Core'', co_capability = ''core'', co_description = '''' \<rparr>"

lemma read_file_named:
  "named_tool_profile ''read_file'' args = Some (static_profile ''filesystem'' True False False False False RiskLow
     ''Reads local files or directories for source-scoped inspection.'')"
  by (simp add: named_tool_profile_def write_tool_profile_def surface_tool_profile_def)

lemma read_file_plan_mode: "read_file_tool \<in> set (plan_mode_filtered core_owner [read_file_tool])"
  using read_file_named [of "JObject []"]
  by (simp add: plan_mode_filtered_def plan_mode_allows_tool_def tool_access_profile_of_cases
      read_file_tool_def starts_with_def)

theorem plan_mode_surface_witness:
  "read_file_tool \<in> set (plan_mode_filtered core_owner [read_file_tool])
   \<and> \<not> ap_can_execute (tool_access_profile_of core_owner read_file_tool (JObject [(''path'', JString ''a.md'')]))"
  using plan_mode_surface_safe [OF read_file_plan_mode] read_file_plan_mode by blast

end
