(* ===== verification/Tool_Approval.thy ===== *)
theory Tool_Approval
  imports Tool_Capability Core_Error
begin

text \<open>
  Tool approval, \<open>crates/core/src/approval.rs\<close>: permission keys and their textual form, the
  derivation of a key from an invocation, user decisions, the session store, the persisted
  policies and the approval request.

  Text is a list of Unicode scalar values below 256, as everywhere; where the source works on
  the bytes of a string, \<open>as_bytes\<close> is the UTF-8 encoding of such a text. The session-keyed
  digest of the arguments, the parsing of URLs and the pretty printing of the arguments are
  arguments of the definitions that use them.
\<close>

section \<open>Bytes of a text\<close>

definition utf8_bytes :: "char \<Rightarrow> char list" where
  "utf8_bytes c = (let n = char_code c in
     if n < 128 then [c] else [char_of (192 + n div 64), char_of (128 + n mod 64)])"

definition as_bytes :: "string \<Rightarrow> char list" where
  "as_bytes s = concat (map utf8_bytes s)"

definition is_ascii :: "string \<Rightarrow> bool" where
  "is_ascii s = list_all (\<lambda>c. char_code c < 128) s"

text \<open>\<open>value.get(..n)\<close>: the prefix of \<open>n\<close> bytes when the cut is at a character.\<close>

fun get_prefix_bytes :: "nat \<Rightarrow> string \<Rightarrow> string option" where
  "get_prefix_bytes 0 s = Some []"
| "get_prefix_bytes (Suc n) [] = None"
| "get_prefix_bytes (Suc n) (c # s) =
     (if length (utf8_bytes c) \<le> Suc n
      then map_option ((#) c) (get_prefix_bytes (Suc n - length (utf8_bytes c)) s) else None)"

section \<open>Permission keys\<close>

definition replace_char :: "char \<Rightarrow> string \<Rightarrow> string \<Rightarrow> string" where
  "replace_char c r s = concat (map (\<lambda>x. if x = c then r else [x]) s)"

definition encode_permission_segment :: "string \<Rightarrow> string" where
  "encode_permission_segment value =
     replace_char CHR '' '' ''%20'' (replace_char CHR ''|'' ''%7C'' (replace_char CHR ''%'' ''%25'' value))"

fun decode_bytes :: "char list \<Rightarrow> string option" where
  "decode_bytes [] = Some []"
| "decode_bytes (b # bs) =
     (if b = CHR ''%'' then
        (case bs of
           x # y # rest \<Rightarrow>
             if [x, y] = ''20'' then map_option ((#) CHR '' '') (decode_bytes rest)
             else if [x, y] = ''25'' then map_option ((#) CHR ''%'') (decode_bytes rest)
             else if [x, y] = ''7C'' \<or> [x, y] = ''7c'' then map_option ((#) CHR ''|'') (decode_bytes rest)
             else None
         | _ \<Rightarrow> None)
      else map_option ((#) b) (decode_bytes bs))"

definition decode_permission_segment :: "string \<Rightarrow> string option" where
  "decode_permission_segment value = decode_bytes (as_bytes value)"

record tool_permission_key =
  pk_tool_name :: string
  pk_target_kind :: string
  pk_target_value :: string

definition key_new :: "string \<Rightarrow> string \<Rightarrow> string \<Rightarrow> tool_permission_key" where
  "key_new tool_name target_kind target_value = \<lparr> pk_tool_name = tool_name,
     pk_target_kind = target_kind, pk_target_value = target_value \<rparr>"

definition permission_key :: "tool_permission_key \<Rightarrow> string" where
  "permission_key k = encode_permission_segment (pk_tool_name k) @ ''|''
     @ encode_permission_segment (pk_target_kind k) @ ''|''
     @ encode_permission_segment (pk_target_value k)"

text \<open>\<open>splitn(3, '|')\<close>: the parts before the first two bars and the rest.\<close>

fun splitn :: "nat \<Rightarrow> char \<Rightarrow> string \<Rightarrow> string list" where
  "splitn 0 d s = []"
| "splitn (Suc 0) d s = [s]"
| "splitn (Suc (Suc n)) d s =
     (case dropWhile (\<lambda>c. c \<noteq> d) s of
        [] \<Rightarrow> [s]
      | _ # rest \<Rightarrow> takeWhile (\<lambda>c. c \<noteq> d) s # splitn (Suc n) d rest)"

definition parse_permission_key :: "string \<Rightarrow> tool_permission_key option" where
  "parse_permission_key text = (case splitn 3 CHR ''|'' text of
     [a, b, c] \<Rightarrow>
       (case (decode_permission_segment a, decode_permission_segment b, decode_permission_segment c) of
          (Some tool_name, Some target_kind, Some target_value) \<Rightarrow>
            Some (key_new tool_name target_kind target_value)
        | _ \<Rightarrow> None)
   | _ \<Rightarrow> None)"

section \<open>The key of an invocation\<close>

definition str_arg2 :: "json \<Rightarrow> string \<Rightarrow> string \<Rightarrow> string option" where
  "str_arg2 args k k' = Option.bind (opt_or (json_get args k) (json_get args k')) json_as_str"

definition window_id_arg :: "json \<Rightarrow> string" where
  "window_id_arg args = unwrap_or ''<unknown>''
     (map_option (\<lambda>n. nat_to_string (unat n))
       (Option.bind (opt_or (json_get args ''window_id'') (json_get args ''windowId'')) json_as_u64))"

definition short_permission_hash :: "string \<Rightarrow> string" where
  "short_permission_hash hash = unwrap_or hash (get_prefix_bytes 12 hash)"

definition shell_enabled :: "json \<Rightarrow> bool" where
  "shell_enabled args = (case json_get args ''shell'' of
     None \<Rightarrow> False
   | Some JNull \<Rightarrow> False
   | Some (JBool enabled) \<Rightarrow> enabled
   | Some (JString raw) \<Rightarrow>
       to_ascii_lowercase (trim raw) \<notin> {'''', ''none'', ''argv'', ''direct'', ''false''}
   | Some _ \<Rightarrow> True)"

definition run_shell_key :: "string \<Rightarrow> json \<Rightarrow> tool_permission_key" where
  "run_shell_key tool_name args = (
     case trimmed_nonempty (str_arg args ''command'') of
       Some command \<Rightarrow>
         key_new tool_name (if shell_enabled args then ''shell'' else ''command'')
           (case split_whitespace command of
              program # first_arg # _ \<Rightarrow> program @ '' '' @ first_arg
            | [program] \<Rightarrow> program
            | [] \<Rightarrow> ''<unknown>'')
     | None \<Rightarrow>
         let program = unwrap_or ''<unknown>'' (str_arg args ''program'');
             first_arg = Option.bind (Option.bind (json_get args ''args'') json_as_array)
               (\<lambda>items. case items of [] \<Rightarrow> None | item # _ \<Rightarrow> json_as_str item)
         in key_new tool_name ''command''
              (case trimmed_nonempty first_arg of
                 Some first \<Rightarrow> program @ '' '' @ first
               | None \<Rightarrow> program))"

definition project_tool_key :: "string \<Rightarrow> json \<Rightarrow> tool_permission_key" where
  "project_tool_key tool_name args = (
     let action = unwrap_or ''<unknown>'' (str_arg args ''action'') in
     if action = ''run'' then
       let name = unwrap_or ''<unknown>'' (trimmed_nonempty (str_arg args ''name'')) in
       key_new tool_name ''project_tool''
         (unwrap_or name (map_option (\<lambda>hash. name @ ''@'' @ short_permission_hash hash)
           (trimmed_nonempty (str_arg2 args ''manifestHash'' ''manifest_hash''))))
     else key_new tool_name ''project_tool_catalog'' action)"

definition observe_action :: "json \<Rightarrow> string" where
  "observe_action args = unwrap_or ''<unknown>'' (map_option trim (str_arg args ''action''))"

definition is_screen_disclosure :: "json \<Rightarrow> bool" where
  "is_screen_disclosure args = (let action = observe_action args in
     eq_ignore_ascii_case action ''capture_window'' \<or> eq_ignore_ascii_case action ''wait_for_change'')"

definition resource_key ::
  "(string \<Rightarrow> string option) \<Rightarrow> tool_invocation \<Rightarrow> tool_permission_key" where
  "resource_key extract_url_host i = (
     let name = ti_tool_name i; profile = ti_access_profile i;
         keys = cap_resource_keys (ti_capabilities i);
         host = (if ap_can_access_network profile
                 then Option.bind (str_arg (ti_arguments i) ''url'') extract_url_host else None);
         file = find_map (\<lambda>k. strip_prefix k ''file:'') keys;
         source = find_map (\<lambda>k. strip_prefix k ''source:'') keys
     in case host of
          Some h \<Rightarrow> key_new name ''network'' h
        | None \<Rightarrow>
            if ap_can_write profile \<or> ap_can_read profile then
              (case file of
                 Some f \<Rightarrow> key_new name ''file'' f
               | None \<Rightarrow> (case source of
                   Some s \<Rightarrow> key_new name ''source'' s
                 | None \<Rightarrow> key_new name ''tool'' ''*''))
            else key_new name ''tool'' ''*'')"

definition key_from_invocation ::
  "(json \<Rightarrow> string) \<Rightarrow> (string \<Rightarrow> string option) \<Rightarrow> tool_invocation \<Rightarrow> tool_permission_key" where
  "key_from_invocation computer_constraint_hmac extract_url_host i = (
     let name = ti_tool_name i; args = ti_arguments i in
     if name = ''run_shell'' then run_shell_key name args
     else if name = ''project_tool'' then project_tool_key name args
     else if name = ''computer_observe'' \<and> is_screen_disclosure args then
       key_new name ''screen_disclosure'' (window_id_arg args @ '':''
         @ to_ascii_lowercase (observe_action args) @ '':'' @ computer_constraint_hmac args)
     else if name = ''computer_control'' then
       key_new name ''desktop_action'' (window_id_arg args @ '':''
         @ unwrap_or ''<unknown>'' (trimmed_nonempty (str_arg args ''action'')) @ '':''
         @ computer_constraint_hmac args)
     else if name = ''browser_session'' then
       key_new name ''browser_action''
         (unwrap_or ''<unknown>'' (trimmed_nonempty (str_arg2 args ''sessionId'' ''session_id'')) @ '':''
          @ unwrap_or ''<unknown>'' (trimmed_nonempty (str_arg args ''action'')) @ '':''
          @ unwrap_or ''<none>'' (trimmed_nonempty (str_arg2 args ''targetRef'' ''target_ref'')) @ '':''
          @ computer_constraint_hmac args)
     else if name = ''mcp_tool'' \<or> starts_with name ''mcp__'' then key_new name ''mcp_tool'' name
     else resource_key extract_url_host i)"

definition permission_key_for_tool ::
  "(json \<Rightarrow> string) \<Rightarrow> (string \<Rightarrow> string option) \<Rightarrow> (string \<Rightarrow> capability_owner) \<Rightarrow> tool_registry
     \<Rightarrow> string \<Rightarrow> json \<Rightarrow> tool_permission_key" where
  "permission_key_for_tool hmac extract_url_host owner_of default_registry tool_name args =
     key_from_invocation hmac extract_url_host
       (build_invocation owner_of default_registry ''approval'' tool_name args)"

section \<open>Decisions, session store and policies\<close>

datatype approval_decision = AllowOnce | AllowSession | DenyOnce | Never

definition is_allowed :: "approval_decision \<Rightarrow> bool" where
  "is_allowed d = (d = AllowOnce \<or> d = AllowSession)"

definition decision_as_str :: "approval_decision \<Rightarrow> string" where
  "decision_as_str d = (case d of AllowOnce \<Rightarrow> ''allow_once'' | AllowSession \<Rightarrow> ''allow_session''
     | DenyOnce \<Rightarrow> ''deny'' | Never \<Rightarrow> ''never'')"

definition decision_parse :: "string \<Rightarrow> approval_decision option" where
  "decision_parse s = (if s = ''allow_once'' then Some AllowOnce
     else if s = ''allow_session'' then Some AllowSession
     else if s = ''deny'' then Some DenyOnce
     else if s = ''never'' then Some Never else None)"

fun push_unique :: "string list \<Rightarrow> string list \<Rightarrow> string list" where
  "push_unique unique [] = unique"
| "push_unique unique (c # cs) =
     push_unique (if c \<in> set unique then unique else unique @ [c]) cs"

definition permission_policy_candidates :: "tool_permission_key \<Rightarrow> string list" where
  "permission_policy_candidates k = push_unique []
     [permission_key k,
      permission_key (key_new (pk_tool_name k) (pk_target_kind k) ''*''),
      permission_key (key_new (pk_tool_name k) ''tool'' ''*''),
      permission_key (key_new ''*'' ''tool'' ''*'')]"

type_synonym session_store = "string \<rightharpoonup> approval_decision"

definition session_resolve :: "session_store \<Rightarrow> tool_permission_key \<Rightarrow> approval_decision option" where
  "session_resolve store k = find_map store (permission_policy_candidates k)"

definition session_set :: "string \<Rightarrow> approval_decision \<Rightarrow> session_store \<Rightarrow> session_store" where
  "session_set key d store = store(key \<mapsto> d)"

definition session_remove :: "string \<Rightarrow> session_store \<Rightarrow> session_store" where
  "session_remove key store = store(key := None)"

definition session_clear :: "session_store \<Rightarrow> session_store" where
  "session_clear store = Map.empty"

datatype tool_approval_mode = AskMode | AllowAll | DenyAll

definition short_circuit :: "tool_approval_mode \<Rightarrow> approval_decision option" where
  "short_circuit m = (case m of AskMode \<Rightarrow> None | AllowAll \<Rightarrow> Some AllowOnce | DenyAll \<Rightarrow> Some DenyOnce)"

text \<open>
  The table of persisted policies, keyed by permission key. Every statement may fail in the
  database; the flag says whether it does.
\<close>

record permission_policy =
  pp_tool_name :: string
  pp_target_kind :: string
  pp_target_value :: string
  pp_decision :: string

type_synonym policy_table = "string \<rightharpoonup> permission_policy"

definition resolve_tool_permission_policy ::
  "bool \<Rightarrow> policy_table \<Rightarrow> tool_permission_key \<Rightarrow> core_error + string option" where
  "resolve_tool_permission_policy db_ok table k =
     (if db_ok then Inr (map_option pp_decision (find_map table (permission_policy_candidates k)))
      else Inl CE_Database)"

definition save_tool_permission_policy ::
  "bool \<Rightarrow> tool_permission_key \<Rightarrow> string \<Rightarrow> policy_table \<Rightarrow> (core_error + unit) \<times> policy_table" where
  "save_tool_permission_policy db_ok k decision table =
     (if db_ok then (Inr (), table(permission_key k \<mapsto> \<lparr> pp_tool_name = pk_tool_name k,
        pp_target_kind = pk_target_kind k, pp_target_value = pk_target_value k,
        pp_decision = decision \<rparr>))
      else (Inl CE_Database, table))"

definition delete_tool_permission_policy ::
  "bool \<Rightarrow> string \<Rightarrow> policy_table \<Rightarrow> (core_error + unit) \<times> policy_table" where
  "delete_tool_permission_policy db_ok key table =
     (if db_ok then (Inr (), table(key := None)) else (Inl CE_Database, table))"

definition clear_tool_permission_policies ::
  "bool \<Rightarrow> policy_table \<Rightarrow> (core_error + unit) \<times> policy_table" where
  "clear_tool_permission_policies db_ok table =
     (if db_ok then (Inr (), Map.empty) else (Inl CE_Database, table))"

section \<open>Requests\<close>

record checkpoint_preview =
  cp_planned :: bool
  cp_target_paths :: "string list"
  cp_note :: string

definition checkpoint_preview_for :: "string \<Rightarrow> json \<Rightarrow> checkpoint_preview option" where
  "checkpoint_preview_for tool_name args = map_option
     (\<lambda>path. \<lparr> cp_planned = True, cp_target_paths = [path],
        cp_note = ''A file checkpoint will be created after approval and before the write.'' \<rparr>)
     (if tool_name \<in> {''create_file'', ''edit_file'', ''multi_edit''} then str_arg args ''path''
      else if tool_name = ''write_note''
      then map_option (\<lambda>f. ''notes/'' @ f) (str_arg args ''filename'')
      else None)"

record approval_request =
  ar_id :: string
  ar_tool_name :: string
  ar_permission_key :: string
  ar_target_kind :: string
  ar_target_value :: string
  ar_arguments_preview :: string
  ar_risk_level :: approval_risk
  ar_reason :: string
  ar_checkpoint_preview :: "checkpoint_preview option"
  ar_durable_reason :: "string option"

text \<open>\<open>permission\<close> is the key of the invocation the registry builds from the name and the
  arguments; \<open>preview\<close> is the shortened pretty print of the audited arguments.\<close>

definition request_new ::
  "tool_permission_key \<Rightarrow> string \<Rightarrow> string \<Rightarrow> string \<Rightarrow> json \<Rightarrow> approval_risk \<Rightarrow> string
     \<Rightarrow> approval_request" where
  "request_new permission preview request_id tool_name args risk reason = \<lparr> ar_id = request_id,
     ar_tool_name = tool_name, ar_permission_key = permission_key permission,
     ar_target_kind = pk_target_kind permission, ar_target_value = pk_target_value permission,
     ar_arguments_preview = preview, ar_risk_level = risk, ar_reason = reason,
     ar_checkpoint_preview = checkpoint_preview_for tool_name args, ar_durable_reason = None \<rparr>"

definition with_durable_reason :: "string option \<Rightarrow> approval_request \<Rightarrow> approval_request" where
  "with_durable_reason reason r = r \<lparr> ar_durable_reason := reason \<rparr>"

definition audit_safe_for_persistence :: "approval_request \<Rightarrow> approval_request" where
  "audit_safe_for_persistence r = (
     let projected = (case ar_durable_reason r of
           Some reason \<Rightarrow> r \<lparr> ar_reason := reason \<rparr>
         | None \<Rightarrow>
             if ar_tool_name r = ''computer_control'' \<or> ar_tool_name r = ''computer_observe''
             then r \<lparr> ar_reason := ''Approval required for '' @ ar_tool_name r
                    @ ''; transient screen-derived target text was redacted.'' \<rparr>
             else r)
     in projected \<lparr> ar_durable_reason := None \<rparr>)"

definition key_from_request :: "approval_request \<Rightarrow> tool_permission_key" where
  "key_from_request r = key_new (ar_tool_name r) (ar_target_kind r) (ar_target_value r)"

section \<open>Keys as text\<close>

interpretation approval_decision_wire: wire_codec decision_as_str decision_parse
  by unfold_locales
     (auto simp: decision_as_str_def decision_parse_def split: approval_decision.splits if_splits)

definition encode_char :: "char \<Rightarrow> string" where
  "encode_char c = (if c = CHR ''%'' then ''%25'' else if c = CHR ''|'' then ''%7C''
     else if c = CHR '' '' then ''%20'' else [c])"

lemma encode_permission_segment_chars: "encode_permission_segment s = concat (map encode_char s)"
  by (induction s) (simp_all add: encode_permission_segment_def replace_char_def encode_char_def)

lemma encode_no_bar: "CHR ''|'' \<notin> set (encode_permission_segment s)"
  by (auto simp: encode_permission_segment_chars encode_char_def split: if_splits)

lemma char_code_of [simp]: "n < 256 \<Longrightarrow> char_code (char_of n) = n"
  by (simp add: char_code_def)

lemma char_code_less: "char_code c < 256"
  by (simp add: char_code_def)

lemma char_code_inject [simp]: "char_code c = char_code d \<longleftrightarrow> c = d"
  by (simp add: char_code_def)

lemma utf8_high_bytes:
  assumes "\<not> char_code c < 128"
  shows "utf8_bytes c = [char_of (192 + char_code c div 64), char_of (128 + char_code c mod 64)]"
    and "128 \<le> char_code (char_of (192 + char_code c div 64))"
    and "128 \<le> char_code (char_of (128 + char_code c mod 64))"
proof -
  have "192 + char_code c div 64 < 256" "128 + char_code c mod 64 < 256"
    using char_code_less [of c] by auto
  then show "128 \<le> char_code (char_of (192 + char_code c div 64))"
    and "128 \<le> char_code (char_of (128 + char_code c mod 64))" by simp_all
  show "utf8_bytes c = [char_of (192 + char_code c div 64), char_of (128 + char_code c mod 64)]"
    using assms by (simp add: utf8_bytes_def Let_def)
qed

lemma encode_char_high: "128 \<le> char_code c \<Longrightarrow> encode_char c = [c]"
  by (auto simp: encode_char_def char_code_def)

lemma as_bytes_encode_char: "as_bytes (encode_char c) = concat (map encode_char (utf8_bytes c))"
proof (cases "char_code c < 128")
  case True
  then show ?thesis
    by (auto simp: encode_char_def as_bytes_def utf8_bytes_def Let_def char_code_def)
next
  case False
  then show ?thesis
    using utf8_high_bytes [OF False] by (simp add: encode_char_high as_bytes_def)
qed

lemma as_bytes_encode: "as_bytes (encode_permission_segment s) = concat (map encode_char (as_bytes s))"
proof (induction s)
  case (Cons c s)
  then show ?case
    using as_bytes_encode_char [of c] by (simp add: encode_permission_segment_chars as_bytes_def)
qed (simp add: encode_permission_segment_chars as_bytes_def)

lemma decode_encode_chars: "decode_bytes (concat (map encode_char bs)) = Some bs"
  by (induction bs) (simp_all add: encode_char_def)

lemma decode_encode: "decode_permission_segment (encode_permission_segment s) = Some (as_bytes s)"
  by (simp add: decode_permission_segment_def as_bytes_encode decode_encode_chars)

lemma takeWhile_no_bar:
  "d \<notin> set a \<Longrightarrow> takeWhile (\<lambda>c. c \<noteq> d) (a @ d # r) = a \<and> dropWhile (\<lambda>c. c \<noteq> d) (a @ d # r) = d # r"
  by (induction a) auto

lemma splitn_permission_key:
  "splitn 3 CHR ''|'' (permission_key k) = [encode_permission_segment (pk_tool_name k),
     encode_permission_segment (pk_target_kind k), encode_permission_segment (pk_target_value k)]"
  using takeWhile_no_bar [OF encode_no_bar [of "pk_tool_name k"]]
    takeWhile_no_bar [OF encode_no_bar [of "pk_target_kind k"]]
  by (simp add: permission_key_def numeral_3_eq_3)

lemma parse_permission_key_encoded:
  "parse_permission_key (permission_key k) = Some (key_new (as_bytes (pk_tool_name k))
     (as_bytes (pk_target_kind k)) (as_bytes (pk_target_value k)))"
  by (simp add: parse_permission_key_def splitn_permission_key decode_encode)

lemma as_bytes_ascii: "is_ascii s \<Longrightarrow> as_bytes s = s"
  by (induction s) (auto simp: as_bytes_def is_ascii_def utf8_bytes_def Let_def)

lemma length_as_bytes: "length s \<le> length (as_bytes s) \<and> (length (as_bytes s) = length s \<longrightarrow> is_ascii s)"
proof (induction s)
  case (Cons c s)
  then show ?case
    by (auto simp: as_bytes_def is_ascii_def utf8_bytes_def Let_def)
qed (simp add: as_bytes_def is_ascii_def)

lemma as_bytes_id_iff: "as_bytes s = s \<longleftrightarrow> is_ascii s"
  using as_bytes_ascii length_as_bytes by metis

lemma utf8_bytes_inject:
  assumes "utf8_bytes c @ xs = utf8_bytes d @ ys"
  shows "c = d"
proof (cases "char_code c < 128 \<or> char_code d < 128")
  case True
  then show ?thesis
    using assms utf8_high_bytes [of c] utf8_high_bytes [of d]
    by (cases "char_code c < 128"; cases "char_code d < 128") (auto simp: utf8_bytes_def Let_def)
next
  case False
  have bound: "192 + char_code c div 64 < 256" "128 + char_code c mod 64 < 256"
    "192 + char_code d div 64 < 256" "128 + char_code d mod 64 < 256"
    using char_code_less [of c] char_code_less [of d] by auto
  from False have "char_of (192 + char_code c div 64) = (char_of (192 + char_code d div 64) :: char)"
    "char_of (128 + char_code c mod 64) = (char_of (128 + char_code d mod 64) :: char)"
    using assms utf8_high_bytes(1) [of c] utf8_high_bytes(1) [of d] by simp_all
  then have "char_code c div 64 = char_code d div 64" "char_code c mod 64 = char_code d mod 64"
    using bound by (metis add_left_cancel char_code_of)+
  then show ?thesis by (metis char_code_inject div_mult_mod_eq)
qed

lemma as_bytes_inject: "as_bytes s = as_bytes t \<Longrightarrow> s = t"
proof (induction s arbitrary: t)
  case Nil
  then show ?case by (cases t) (auto simp: as_bytes_def utf8_bytes_def Let_def split: if_splits)
next
  case (Cons c s)
  then obtain d t' where t: "t = d # t'"
    by (cases t) (auto simp: as_bytes_def utf8_bytes_def Let_def split: if_splits)
  have eq: "utf8_bytes c @ as_bytes s = utf8_bytes d @ as_bytes t'"
    using Cons.prems by (simp add: t as_bytes_def)
  then have "c = d" by (rule utf8_bytes_inject)
  with eq Cons.IH [of t'] show ?case by (simp add: t)
qed

text \<open>
  C27: Different targets never share a stored decision: the textual permission key determines tool,
  kind and value. Reading a key back gives the target itself exactly when its three parts are
  ASCII; any other text comes back with its UTF-8 bytes read as single characters.\<close>

theorem permission_key_round_trip:
  "(permission_key k = permission_key k' \<longleftrightarrow> k = k')
   \<and> (parse_permission_key (permission_key k) = Some k \<longleftrightarrow>
        is_ascii (pk_tool_name k) \<and> is_ascii (pk_target_kind k) \<and> is_ascii (pk_target_value k))
   \<and> parse_permission_key (permission_key k) = Some (key_new (as_bytes (pk_tool_name k))
        (as_bytes (pk_target_kind k)) (as_bytes (pk_target_value k)))"
proof (intro conjI)
  show "permission_key k = permission_key k' \<longleftrightarrow> k = k'"
    using parse_permission_key_encoded [of k] parse_permission_key_encoded [of k']
    by (cases k; cases k') (auto simp: key_new_def dest: as_bytes_inject)
qed (cases k, simp_all add: parse_permission_key_encoded key_new_def as_bytes_id_iff)

section \<open>Resolution\<close>

lemma set_push_unique: "set (push_unique u cs) = set u \<union> set cs"
  by (induction u cs rule: push_unique.induct) auto

lemma candidates_head:
  "permission_policy_candidates k = permission_key k # tl (permission_policy_candidates k)"
  by (simp add: permission_policy_candidates_def)

lemma resolve_exact:
  "table (permission_key k) = Some v \<Longrightarrow> find_map table (permission_policy_candidates k) = Some v"
  by (subst candidates_head) simp

text \<open>A stored decision applies to a request only through one of its four candidate keys.\<close>

lemma resolve_candidate:
  "find_map table (permission_policy_candidates k) = Some v \<Longrightarrow>
     \<exists>k'. table (permission_key k') = Some v \<and>
       k' \<in> {k, key_new (pk_tool_name k) (pk_target_kind k) ''*'',
             key_new (pk_tool_name k) ''tool'' ''*'', key_new ''*'' ''tool'' ''*''}"
  by (drule find_map_SomeD)
     (auto simp: permission_policy_candidates_def set_push_unique simp del: push_unique.simps)

lemma saved_policy_resolves:
  "resolve_tool_permission_policy True (snd (save_tool_permission_policy True k d table)) k = Inr (Some d)"
  by (simp add: resolve_tool_permission_policy_def save_tool_permission_policy_def resolve_exact)

lemma session_set_resolves: "session_resolve (session_set (permission_key k) d store) k = Some d"
  by (simp add: session_resolve_def session_set_def resolve_exact)

lemma key_from_request_new [simp]:
  "pk_tool_name k = tool_name \<Longrightarrow>
     key_from_request (with_durable_reason r (request_new k preview i tool_name args risk reason)) = k"
  by (cases k) (simp add: key_from_request_def with_durable_reason_def request_new_def key_new_def)

lemma key_from_invocation_tool_name [simp]:
  "pk_tool_name (key_from_invocation hmac url i) = ti_tool_name i"
  by (simp add: key_from_invocation_def Let_def key_new_def run_shell_key_def project_tool_key_def
      resource_key_def split: option.splits list.splits)

text \<open>The kinds of target whose approval is never remembered.\<close>

lemma hard_target_kinds:
  "ti_tool_name i = ''browser_session'' \<Longrightarrow>
     pk_target_kind (key_from_invocation hmac url i) = ''browser_action''"
  "\<lbrakk> ti_tool_name i = ''computer_observe''; is_screen_disclosure (ti_arguments i) \<rbrakk> \<Longrightarrow>
     pk_target_kind (key_from_invocation hmac url i) = ''screen_disclosure''"
  by (simp_all add: key_from_invocation_def Let_def key_new_def)

end
