(* ===== verification/Tool_Gate.thy ===== *)
theory Tool_Gate
  imports Tool_Approval
begin

text \<open>
  The permission gate in front of every tool execution: the part of the dispatch loop of
  \<open>crates/core/src/agent/tool_dispatch.rs\<close> between the scheduling checks and the call of the
  tool, and the desktop's approval callback
  (\<open>apps/desktop/src-tauri/src/desktop_agent_session/dependencies.rs\<close>) that answers it from
  the approval mode, the persisted policies, the session store and the user.
\<close>

section \<open>The gate\<close>

datatype shell_access_mode = ShellRestricted | ShellConfirmAll | ShellOpen

definition shell_requires_confirmation :: "shell_access_mode \<Rightarrow> bool" where
  "shell_requires_confirmation m = (m = ShellConfirmAll)"

text \<open>The fields of the executor's configuration the gate reads.\<close>

record gate_config =
  gc_shell_access_mode :: shell_access_mode
  gc_tool_approval_mode :: tool_approval_mode
  gc_require_tool_confirmation :: bool

text \<open>
  What surrounds one call: the executor's registry and the default registry, the call, the
  explanations the tool gives for it (\<open>confirmation_message\<close>, \<open>persisted_message\<close>), the default
  text of a request (\<open>description\<close>) and its printed arguments (\<open>preview\<close>), the digest and the URL
  parser of the permission keys, and the callbacks. \<open>cancelled_first\<close> says that the
  cancellation wins against the answer, \<open>cancelled_then\<close> that it is seen after the answer.
  A callback may change the host's state \<open>'h\<close>.
\<close>

record 'h gate_call =
  gt_owner_of :: "string \<Rightarrow> capability_owner"
  gt_registry :: tool_registry
  gt_default_registry :: tool_registry
  gt_call_id :: string
  gt_tool_name :: string
  gt_arguments :: json
  gt_confirmation_message :: "core_error + string option"
  gt_persisted_message :: "core_error + string option"
  gt_description :: string
  gt_request_id :: string
  gt_preview :: string
  gt_hmac :: "json \<Rightarrow> string"
  gt_url_host :: "string \<Rightarrow> string option"
  gt_approval_callback :: "(approval_request \<Rightarrow> 'h \<Rightarrow> approval_decision \<times> 'h) option"
  gt_confirmation_callback :: "(string \<Rightarrow> bool) option"
  gt_cancelled_first :: bool
  gt_cancelled_then :: bool

datatype gate_event =
    GE_ApprovalPending
  | GE_ApprovalRequested approval_request
  | GE_ApprovalResolved string approval_decision
  | GE_Running

datatype gate_outcome =
    GateExecute
  | GateDeclined string
  | GateContextFailed core_error
  | GateCancelled

definition call_invocation :: "'h gate_call \<Rightarrow> tool_invocation" where
  "call_invocation c = build_invocation (gt_owner_of c) (gt_registry c) (gt_call_id c)
     (gt_tool_name c) (gt_arguments c)"

definition tool_requires_confirm :: "'h gate_call \<Rightarrow> bool" where
  "tool_requires_confirm c = (registry_requires_confirmation (gt_registry c) (gt_tool_name c) (gt_arguments c)
     \<or> ap_needs_approval (ti_access_profile (call_invocation c)))"

definition hard_confirmation :: "'h gate_call \<Rightarrow> bool" where
  "hard_confirmation c = (let name = gt_tool_name c in
     name = ''computer_control''
     \<or> (name = ''browser_session'' \<and> tool_requires_confirm c)
     \<or> (name = ''computer_observe'' \<and>
        (case str_arg (gt_arguments c) ''action'' of
           None \<Rightarrow> False
         | Some action \<Rightarrow> eq_ignore_ascii_case (trim action) ''capture_window''
             \<or> eq_ignore_ascii_case (trim action) ''wait_for_change'')))"

definition shell_requires_confirm :: "gate_config \<Rightarrow> 'h gate_call \<Rightarrow> bool" where
  "shell_requires_confirm cfg c = (gt_tool_name c = ''run_shell''
     \<and> shell_requires_confirmation (gc_shell_access_mode cfg))"

definition call_permission :: "'h gate_call \<Rightarrow> tool_permission_key" where
  "call_permission c = permission_key_for_tool (gt_hmac c) (gt_url_host c) (gt_owner_of c)
     (gt_default_registry c) (gt_tool_name c) (gt_arguments c)"

definition mode_decision :: "gate_config \<Rightarrow> 'h gate_call \<Rightarrow> approval_decision option" where
  "mode_decision cfg c = (case short_circuit (gc_tool_approval_mode cfg) of
     None \<Rightarrow> None
   | Some d \<Rightarrow> if hard_confirmation c \<and> is_allowed d then None else Some d)"

definition gate_policy :: "'h gate_call \<Rightarrow> bool \<Rightarrow> policy_decision" where
  "gate_policy c required = evaluate_policy_with_baseline []
     (subject_from_invocation (call_invocation c)) (if required then RequireApproval else Allow)"

definition policy_denied_text :: "string \<Rightarrow> policy_decision \<Rightarrow> string" where
  "policy_denied_text name d = ''Policy denied permission for '' @ name @ '': '' @ join_with '' '' (pd_reasons d)"

text \<open>Asking through the approval callback.\<close>

definition ask_approval ::
  "'h gate_call \<Rightarrow> policy_decision
     \<Rightarrow> (approval_request \<Rightarrow> 'h \<Rightarrow> approval_decision \<times> 'h) \<Rightarrow> 'h \<Rightarrow> gate_outcome \<times> gate_event list \<times> 'h" where
  "ask_approval c policy callback h = (
     let name = gt_tool_name c in
     case gt_confirmation_message c of
       Inl e \<Rightarrow> (GateContextFailed e, [], h)
     | Inr message \<Rightarrow>
         (case gt_persisted_message c of
            Inl e \<Rightarrow> (GateContextFailed e, [], h)
          | Inr durable \<Rightarrow>
              let req = with_durable_reason durable (request_new (call_permission c) (gt_preview c)
                    (gt_request_id c) name (gt_arguments c) (pd_risk_level policy)
                    (unwrap_or (gt_description c) message));
                  (decision, h') = (if gt_cancelled_first c then (DenyOnce, h) else callback req h);
                  events = [GE_ApprovalPending, GE_ApprovalRequested req,
                            GE_ApprovalResolved (ar_id req) decision]
              in if gt_cancelled_first c \<or> gt_cancelled_then c then (GateCancelled, events, h')
                 else if \<not> is_allowed decision
                 then (GateDeclined (''User denied permission for '' @ name @ ''.''), events, h')
                 else (GateExecute, events @ [GE_Running], h')))"

text \<open>Asking through the older confirmation callback, when there is one.\<close>

definition ask_confirmation :: "'h gate_call \<Rightarrow> gate_outcome" where
  "ask_confirmation c = (
     let name = gt_tool_name c in
     case gt_confirmation_callback c of
       Some cb \<Rightarrow>
         (case gt_confirmation_message c of
            Inl e \<Rightarrow> GateContextFailed e
          | Inr message \<Rightarrow>
              if \<not> cb (unwrap_or (''Execute tool: '' @ name) message)
              then GateDeclined ''Operation cancelled by user.''
              else GateExecute)
     | None \<Rightarrow>
         if hard_confirmation c
         then GateDeclined (name @ '' requires an interactive approval surface.'')
         else GateExecute)"

definition tool_gate :: "gate_config \<Rightarrow> 'h gate_call \<Rightarrow> 'h \<Rightarrow> gate_outcome \<times> gate_event list \<times> 'h" where
  "tool_gate cfg c h = (
     let name = gt_tool_name c;
         mode_text = ''Tool approval mode denied permission for '' @ name @ ''.''
     in case gt_approval_callback c of
       Some callback \<Rightarrow>
         let policy = gate_policy c (tool_requires_confirm c \<or> shell_requires_confirm cfg c) in
         if pd_denied policy then (GateDeclined (policy_denied_text name policy), [], h)
         else if pd_needs_approval policy then
           (case mode_decision cfg c of
              Some d \<Rightarrow> if \<not> is_allowed d then (GateDeclined mode_text, [], h) else (GateExecute, [], h)
            | None \<Rightarrow> ask_approval c policy callback h)
         else (GateExecute, [], h)
     | None \<Rightarrow>
         let policy = gate_policy c
               (if hard_confirmation c then True
                else if name = ''run_shell'' then shell_requires_confirm cfg c
                else gc_require_tool_confirmation cfg \<and> tool_requires_confirm c) in
         if pd_denied policy then (GateDeclined (policy_denied_text name policy), [], h)
         else if pd_needs_approval policy then
           (case mode_decision cfg c of
              Some d \<Rightarrow> if \<not> is_allowed d then (GateDeclined mode_text, [], h) else (GateExecute, [], h)
            | None \<Rightarrow> (ask_confirmation c, [], h))
         else (GateExecute, [], h))"

section \<open>The desktop's callback\<close>

record desktop_host =
  dh_policies :: policy_table
  dh_session :: session_store

definition requires_explicit_desktop_approval :: "approval_request \<Rightarrow> bool" where
  "requires_explicit_desktop_approval r = (ar_tool_name r = ''computer_control''
     \<or> ar_target_kind r = ''screen_disclosure'' \<or> ar_target_kind r = ''browser_action'')"

definition desktop_approval_mode_decision ::
  "tool_approval_mode \<Rightarrow> approval_request \<Rightarrow> approval_decision option" where
  "desktop_approval_mode_decision mode r = (case short_circuit mode of
     None \<Rightarrow> None
   | Some d \<Rightarrow> if \<not> requires_explicit_desktop_approval r \<or> \<not> is_allowed d then Some d else None)"

text \<open>
  \<open>answer\<close> is the user's answer to the prompt; none when the run is cancelled, the prompt is
  dropped or a minute passes. The two flags say whether reading and writing the policy table
  succeed.
\<close>

definition desktop_approval_callback ::
  "tool_approval_mode \<Rightarrow> bool \<Rightarrow> bool \<Rightarrow> approval_decision option
     \<Rightarrow> approval_request \<Rightarrow> desktop_host \<Rightarrow> approval_decision \<times> desktop_host" where
  "desktop_approval_callback mode read_ok write_ok answer req h = (
     let k = key_from_request req; hard = requires_explicit_desktop_approval req in
     case desktop_approval_mode_decision mode req of
       Some d \<Rightarrow> (d, h)
     | None \<Rightarrow>
         if resolve_tool_permission_policy read_ok (dh_policies h) k = Inr (Some ''never'')
         then (DenyOnce, h)
         else if \<not> hard \<and> session_resolve (dh_session h) k = Some AllowSession then (AllowOnce, h)
         else let decision = unwrap_or DenyOnce answer in
           case decision of
             AllowSession \<Rightarrow>
               if hard then (AllowOnce, h)
               else (decision, h \<lparr> dh_session := session_set (ar_permission_key req) AllowSession (dh_session h) \<rparr>)
           | Never \<Rightarrow>
               if hard then (DenyOnce, h)
               else (decision, h \<lparr> dh_policies :=
                      snd (save_tool_permission_policy write_ok k ''never'' (dh_policies h)) \<rparr>)
           | _ \<Rightarrow> (decision, h))"

section \<open>Hard confirmations\<close>

lemma gate_policy_flags [simp]:
  "pd_denied (gate_policy c required) = False" "pd_needs_approval (gate_policy c required) = required"
  by (simp_all add: gate_policy_def evaluate_policy_flags evaluate_policy_strictest)

lemma build_invocation_profile:
  assumes "named_tool_profile name args = Some p"
  shows "ti_access_profile (build_invocation owner_of reg call_id name args) = p"
proof (cases "registry_get reg name")
  case None
  with assms show ?thesis
    by (simp add: build_invocation_def registry_capability_descriptor_def Let_def
        capability_descriptor_for_tool_def infer_tool_access_profile_cases)
next
  case (Some t)
  then have "tl_name t = name"
    by (auto simp: registry_get_def dest: find_SomeD)
  with assms Some show ?thesis
    by (simp add: build_invocation_def registry_capability_descriptor_def Let_def
        tool_capability_descriptor_of_def capability_descriptor_for_tool_def
        infer_tool_access_profile_cases)
qed

lemma unknown_action:
  "\<not> eq_ignore_ascii_case ''<unknown>'' ''capture_window''"
  "\<not> eq_ignore_ascii_case ''<unknown>'' ''wait_for_change''"
  by code_simp+

lemma screen_disclosure_action:
  "is_screen_disclosure args = (case str_arg args ''action'' of None \<Rightarrow> False
     | Some action \<Rightarrow> eq_ignore_ascii_case (trim action) ''capture_window''
         \<or> eq_ignore_ascii_case (trim action) ''wait_for_change'')"
  by (cases "str_arg args ''action''")
     (simp_all add: is_screen_disclosure_def observe_action_def unknown_action Let_def)

lemma hard_confirmation_cases:
  "hard_confirmation c \<longleftrightarrow> gt_tool_name c = ''computer_control''
     \<or> (gt_tool_name c = ''browser_session'' \<and> tool_requires_confirm c)
     \<or> (gt_tool_name c = ''computer_observe'' \<and> is_screen_disclosure (gt_arguments c))"
  by (simp add: hard_confirmation_def screen_disclosure_action Let_def)

lemma computer_tools_need_approval:
  "\<exists>p. named_tool_profile ''computer_control'' args = Some p \<and> ap_needs_approval p"
  "is_screen_disclosure args \<Longrightarrow>
     \<exists>p. named_tool_profile ''computer_observe'' args = Some p \<and> ap_needs_approval p"
  by (simp_all add: named_tool_profile_def write_tool_profile_def surface_tool_profile_def
      screen_disclosure_action)

lemma hard_requires_confirm: "hard_confirmation c \<Longrightarrow> tool_requires_confirm c"
  using computer_tools_need_approval [of "gt_arguments c"]
  by (auto simp: hard_confirmation_cases tool_requires_confirm_def call_invocation_def
      build_invocation_profile)

text \<open>The core's hard confirmations are explicit approvals for the desktop too.\<close>

abbreviation call_request :: "'h gate_call \<Rightarrow> string option \<Rightarrow> approval_risk \<Rightarrow> string \<Rightarrow> approval_request" where
  "call_request c durable risk reason \<equiv> with_durable_reason durable
     (request_new (call_permission c) (gt_preview c) (gt_request_id c) (gt_tool_name c) (gt_arguments c)
        risk reason)"

lemma call_permission_tool_name [simp]: "pk_tool_name (call_permission c) = gt_tool_name c"
  by (simp add: call_permission_def permission_key_for_tool_def build_invocation_def Let_def)

lemma request_fields [simp]:
  "ar_tool_name (call_request c d r t) = gt_tool_name c"
  "ar_target_kind (call_request c d r t) = pk_target_kind (call_permission c)"
  "ar_permission_key (call_request c d r t) = permission_key (call_permission c)"
  "ar_id (call_request c d r t) = gt_request_id c"
  by (simp_all add: with_durable_reason_def request_new_def)

lemma call_permission_target_kind:
  "gt_tool_name c = ''browser_session'' \<Longrightarrow> pk_target_kind (call_permission c) = ''browser_action''"
  "\<lbrakk> gt_tool_name c = ''computer_observe''; is_screen_disclosure (gt_arguments c) \<rbrakk> \<Longrightarrow>
     pk_target_kind (call_permission c) = ''screen_disclosure''"
  by (simp_all add: call_permission_def permission_key_for_tool_def build_invocation_def Let_def
      hard_target_kinds)

lemma hard_explicit:
  "hard_confirmation c \<Longrightarrow> requires_explicit_desktop_approval (call_request c d r t)"
  by (auto simp: hard_confirmation_cases requires_explicit_desktop_approval_def
      call_permission_target_kind)

text \<open>What an allowing answer of the desktop means.\<close>

definition user_allows :: "approval_decision option \<Rightarrow> bool" where
  "user_allows answer = (answer = Some AllowOnce \<or> answer = Some AllowSession)"

lemma desktop_callback_allows:
  assumes "is_allowed (fst (desktop_approval_callback mode read_ok write_ok answer req h))"
  shows "mode \<noteq> DenyAll
    \<and> (mode = AllowAll \<longrightarrow> \<not> requires_explicit_desktop_approval req \<or> user_allows answer)
    \<and> (mode = AskMode \<or> requires_explicit_desktop_approval req \<longrightarrow>
         resolve_tool_permission_policy read_ok (dh_policies h) (key_from_request req) \<noteq> Inr (Some ''never'')
         \<and> (user_allows answer \<or> \<not> requires_explicit_desktop_approval req
              \<and> session_resolve (dh_session h) (key_from_request req) = Some AllowSession))"
  using assms
  by (cases mode; cases answer)
     (auto simp: desktop_approval_callback_def desktop_approval_mode_decision_def short_circuit_def
        user_allows_def is_allowed_def Let_def split: if_splits approval_decision.splits)

section \<open>Properties\<close>

definition call_needs_approval :: "gate_config \<Rightarrow> 'h gate_call \<Rightarrow> bool" where
  "call_needs_approval cfg c = (tool_requires_confirm c \<or> shell_requires_confirm cfg c)"

lemma tool_gate_approval:
  "gt_approval_callback c = Some cb \<Longrightarrow> tool_gate cfg c h =
     (if \<not> call_needs_approval cfg c then (GateExecute, [], h)
      else case mode_decision cfg c of
        Some d \<Rightarrow> if is_allowed d then (GateExecute, [], h)
          else (GateDeclined (''Tool approval mode denied permission for '' @ gt_tool_name c @ ''.''), [], h)
      | None \<Rightarrow> ask_approval c (gate_policy c True) cb h)"
  by (simp add: tool_gate_def Let_def call_needs_approval_def split: option.splits)

lemma ask_approval_executes:
  "fst (ask_approval c policy cb h) = GateExecute \<Longrightarrow>
     \<not> gt_cancelled_first c \<and> \<not> gt_cancelled_then c
     \<and> (\<exists>d t. is_allowed (fst (cb (call_request c d (pd_risk_level policy) t) h)))"
  by (auto simp: ask_approval_def Let_def split: sum.splits if_splits prod.splits) (metis fst_conv)

lemma mode_decision_cases:
  "mode_decision cfg c = None \<longleftrightarrow> gc_tool_approval_mode cfg = AskMode
     \<or> (gc_tool_approval_mode cfg = AllowAll \<and> hard_confirmation c)"
  "mode_decision cfg c = Some d \<Longrightarrow> is_allowed d \<Longrightarrow>
     gc_tool_approval_mode cfg = AllowAll \<and> \<not> hard_confirmation c"
  by (auto simp: mode_decision_def short_circuit_def is_allowed_def
      split: tool_approval_mode.splits if_splits)

text \<open>
  C22: A tool call that needs approval reaches execution on the desktop only with consent. A hard
  confirmation (desktop control, screen disclosure, a confirmed browser action) executes only
  when the user allows this very request, in every approval mode and whatever was remembered.
  Any other call that needs approval executes only in the mode that allows everything, or when
  the user allows it, or when a session grant covers one of its four candidate keys. When the
  configuration and the desktop both ask, a readable \<open>never\<close> policy blocks the call; the
  configuration that denies everything blocks it always, the desktop mode that denies everything
  unless the configuration allows everything.\<close>

theorem desktop_gate_needs_consent:
  assumes cb: "gt_approval_callback c = Some (desktop_approval_callback mode read_ok write_ok answer)"
    and exec: "fst (tool_gate cfg c h) = GateExecute"
    and needs: "call_needs_approval cfg c"
  shows "(hard_confirmation c \<longrightarrow> user_allows answer \<and> mode \<noteq> DenyAll
            \<and> \<not> gt_cancelled_first c \<and> \<not> gt_cancelled_then c)
     \<and> gc_tool_approval_mode cfg \<noteq> DenyAll
     \<and> (mode = DenyAll \<longrightarrow> gc_tool_approval_mode cfg = AllowAll)
     \<and> (gc_tool_approval_mode cfg = AllowAll \<or> mode = AllowAll \<or> user_allows answer
          \<or> session_resolve (dh_session h) (call_permission c) = Some AllowSession)
     \<and> (gc_tool_approval_mode cfg = AskMode \<and> mode = AskMode \<longrightarrow>
          resolve_tool_permission_policy read_ok (dh_policies h) (call_permission c) \<noteq> Inr (Some ''never''))"
proof (cases "mode_decision cfg c")
  case (Some d)
  then have "gc_tool_approval_mode cfg = AllowAll" "\<not> hard_confirmation c"
    using exec needs mode_decision_cases(2) [OF Some]
    by (auto simp: tool_gate_approval [OF cb] split: if_splits)
  then show ?thesis by simp
next
  case None
  then have "fst (ask_approval c (gate_policy c True)
      (desktop_approval_callback mode read_ok write_ok answer) h) = GateExecute"
    using exec needs by (simp add: tool_gate_approval [OF cb])
  from ask_approval_executes [OF this] obtain d t where
    live: "\<not> gt_cancelled_first c" "\<not> gt_cancelled_then c"
    and ok: "is_allowed (fst (desktop_approval_callback mode read_ok write_ok answer
        (call_request c d (pd_risk_level (gate_policy c True)) t) h))" by blast
  have gate: "gc_tool_approval_mode cfg \<noteq> DenyAll" using None by (auto simp: mode_decision_cases)
  show ?thesis
    using desktop_callback_allows [OF ok] live gate hard_explicit [of c d "pd_risk_level (gate_policy c True)" t]
    by (cases mode) auto
qed

text \<open>
  Without an approval callback and without a confirmation callback the gate is open: unless
  everything is denied by the mode, every call that is no hard confirmation executes, even when
  the tool and the configuration ask for confirmation. Only hard confirmations are declined.\<close>

theorem no_surface_fails_open:
  assumes "gt_approval_callback c = None" "gt_confirmation_callback c = None"
    and "gc_tool_approval_mode cfg \<noteq> DenyAll"
  shows "fst (tool_gate cfg c h) = (if hard_confirmation c
     then GateDeclined (gt_tool_name c @ '' requires an interactive approval surface.'')
     else GateExecute)"
proof (cases "mode_decision cfg c")
  case None
  with assms show ?thesis
    by (auto simp: tool_gate_def ask_confirmation_def Let_def)
next
  case (Some d)
  with assms(3) have "is_allowed d \<and> \<not> hard_confirmation c"
    by (auto simp: mode_decision_def short_circuit_def is_allowed_def
        split: tool_approval_mode.splits if_splits)
  with assms Some show ?thesis
    by (auto simp: tool_gate_def Let_def)
qed

text \<open>A call that gets as far as the desktop's callback in the asking mode.\<close>

definition asks_desktop :: "gate_config \<Rightarrow> bool \<Rightarrow> bool \<Rightarrow> approval_decision option \<Rightarrow> desktop_host gate_call \<Rightarrow> bool" where
  "asks_desktop cfg read_ok write_ok answer c \<longleftrightarrow>
     gt_approval_callback c = Some (desktop_approval_callback AskMode read_ok write_ok answer)
     \<and> call_needs_approval cfg c \<and> gc_tool_approval_mode cfg = AskMode
     \<and> \<not> isl (gt_confirmation_message c) \<and> \<not> isl (gt_persisted_message c)
     \<and> \<not> gt_cancelled_first c \<and> \<not> gt_cancelled_then c"

definition explicit_call :: "'h gate_call \<Rightarrow> bool" where
  "explicit_call c \<longleftrightarrow> gt_tool_name c = ''computer_control''
     \<or> pk_target_kind (call_permission c) \<in> {''screen_disclosure'', ''browser_action''}"

lemma asks_desktop_gate:
  assumes "asks_desktop cfg read_ok write_ok answer c"
  shows "\<exists>req. key_from_request req = call_permission c \<and> ar_permission_key req = permission_key (call_permission c)
     \<and> (requires_explicit_desktop_approval req \<longleftrightarrow> explicit_call c)
     \<and> fst (tool_gate cfg c h) =
         (if is_allowed (fst (desktop_approval_callback AskMode read_ok write_ok answer req h)) then GateExecute
          else GateDeclined (''User denied permission for '' @ gt_tool_name c @ ''.''))
     \<and> snd (snd (tool_gate cfg c h)) = snd (desktop_approval_callback AskMode read_ok write_ok answer req h)"
proof -
  obtain m d where md: "gt_confirmation_message c = Inr m" "gt_persisted_message c = Inr d"
    using assms by (cases "gt_confirmation_message c"; cases "gt_persisted_message c") (auto simp: asks_desktop_def)
  let ?req = "call_request c d (pd_risk_level (gate_policy c True)) (unwrap_or (gt_description c) m)"
  have cb: "gt_approval_callback c = Some (desktop_approval_callback AskMode read_ok write_ok answer)"
    and mode: "mode_decision cfg c = None" and needs: "call_needs_approval cfg c"
    using assms by (simp_all add: asks_desktop_def mode_decision_cases)
  have "tool_gate cfg c h = ask_approval c (gate_policy c True)
      (desktop_approval_callback AskMode read_ok write_ok answer) h"
    using mode needs by (simp add: tool_gate_approval [OF cb])
  with assms md show ?thesis
    by (intro exI [of _ ?req])
       (auto simp: ask_approval_def asks_desktop_def Let_def requires_explicit_desktop_approval_def
          explicit_call_def split: prod.splits)
qed

lemma desktop_callback_prompts:
  assumes "\<not> requires_explicit_desktop_approval req"
    and "resolve_tool_permission_policy read_ok (dh_policies h) (key_from_request req) \<noteq> Inr (Some ''never'')"
    and "session_resolve (dh_session h) (key_from_request req) \<noteq> Some AllowSession"
  shows "desktop_approval_callback AskMode read_ok write_ok (Some answer) req h = (answer,
     case answer of
       AllowSession \<Rightarrow> h \<lparr> dh_session := session_set (ar_permission_key req) AllowSession (dh_session h) \<rparr>
     | Never \<Rightarrow> h \<lparr> dh_policies := snd (save_tool_permission_policy write_ok (key_from_request req) ''never'' (dh_policies h)) \<rparr>
     | _ \<Rightarrow> h)"
  using assms
  by (cases answer) (simp_all add: desktop_approval_callback_def desktop_approval_mode_decision_def short_circuit_def Let_def)

lemma desktop_callback_remembered:
  assumes "\<not> requires_explicit_desktop_approval req"
  shows "resolve_tool_permission_policy read_ok (dh_policies h) (key_from_request req) = Inr (Some ''never'')
      \<Longrightarrow> desktop_approval_callback AskMode read_ok write_ok answer req h = (DenyOnce, h)"
    and "\<lbrakk> resolve_tool_permission_policy read_ok (dh_policies h) (key_from_request req) \<noteq> Inr (Some ''never'');
        session_resolve (dh_session h) (key_from_request req) = Some AllowSession \<rbrakk>
      \<Longrightarrow> desktop_approval_callback AskMode read_ok write_ok answer req h = (AllowOnce, h)"
  using assms
  by (simp_all add: desktop_approval_callback_def desktop_approval_mode_decision_def short_circuit_def Let_def)

text \<open>
  What the user decides for good is applied without asking again: after a written \<open>Never\<close> every
  later call with the same permission key is declined whatever the user would answer, and after
  an allowance for the session every later such call executes even when no answer comes.
  Explicit approvals are never remembered.\<close>

theorem remembered_decisions_apply:
  assumes first: "asks_desktop cfg True write_ok (Some answer) c"
    and later: "asks_desktop cfg True write_ok' answer' c'" "call_permission c' = call_permission c"
    and open_call: "\<not> explicit_call c"
    and prompted: "resolve_tool_permission_policy True (dh_policies h) (call_permission c) \<noteq> Inr (Some ''never'')"
      "session_resolve (dh_session h) (call_permission c) \<noteq> Some AllowSession"
  shows "(answer = Never \<and> write_ok \<longrightarrow>
            fst (tool_gate cfg c' (snd (snd (tool_gate cfg c h))))
              = GateDeclined (''User denied permission for '' @ gt_tool_name c @ ''.''))
     \<and> (answer = AllowSession \<longrightarrow> fst (tool_gate cfg c' (snd (snd (tool_gate cfg c h)))) = GateExecute)"
proof -
  obtain req where req: "key_from_request req = call_permission c"
    "ar_permission_key req = permission_key (call_permission c)"
    "\<not> requires_explicit_desktop_approval req"
    "snd (snd (tool_gate cfg c h)) = snd (desktop_approval_callback AskMode True write_ok (Some answer) req h)"
    using asks_desktop_gate [OF first, of h] open_call by blast
  let ?h = "snd (snd (tool_gate cfg c h))"
  have name: "gt_tool_name c' = gt_tool_name c" using later(2) call_permission_tool_name by metis
  then have "\<not> explicit_call c'" using open_call later(2) by (simp add: explicit_call_def)
  then obtain req' where req': "key_from_request req' = call_permission c"
    "\<not> requires_explicit_desktop_approval req'"
    "fst (tool_gate cfg c' ?h) =
       (if is_allowed (fst (desktop_approval_callback AskMode True write_ok' answer' req' ?h)) then GateExecute
        else GateDeclined (''User denied permission for '' @ gt_tool_name c @ ''.''))"
    using asks_desktop_gate [OF later(1), of ?h] later(2) name by metis
  have state: "?h = (case answer of
       AllowSession \<Rightarrow> h \<lparr> dh_session := session_set (permission_key (call_permission c)) AllowSession (dh_session h) \<rparr>
     | Never \<Rightarrow> h \<lparr> dh_policies := snd (save_tool_permission_policy write_ok (call_permission c) ''never'' (dh_policies h)) \<rparr>
     | _ \<Rightarrow> h)"
    using desktop_callback_prompts [of req True h write_ok answer] req prompted
    by (simp split: approval_decision.splits)
  show ?thesis
    using state req'(3) prompted desktop_callback_remembered [OF req'(2), of True ?h write_ok' answer'] req'(1)
    by (auto simp: saved_policy_resolves session_set_resolves is_allowed_def)
qed

section \<open>Instances\<close>

text \<open>A call of \<open>edit_file\<close> and a call of \<open>computer_control\<close> on the desktop in the asking mode.\<close>

definition ask_config :: gate_config where
  "ask_config = \<lparr> gc_shell_access_mode = ShellConfirmAll, gc_tool_approval_mode = AskMode,
     gc_require_tool_confirmation = True \<rparr>"

definition desktop_call ::
  "string \<Rightarrow> (approval_request \<Rightarrow> desktop_host \<Rightarrow> approval_decision \<times> desktop_host) option
     \<Rightarrow> desktop_host gate_call" where
  "desktop_call name cb = \<lparr> gt_owner_of = core_owner, gt_registry = [], gt_default_registry = [],
     gt_call_id = ''call'', gt_tool_name = name, gt_arguments = JObject [(''path'', JString ''a.md'')],
     gt_confirmation_message = Inr None, gt_persisted_message = Inr None,
     gt_description = ''edit'', gt_request_id = ''request'', gt_preview = ''preview'',
     gt_hmac = (\<lambda>_. ''digest''), gt_url_host = (\<lambda>_. None), gt_approval_callback = cb,
     gt_confirmation_callback = None, gt_cancelled_first = False, gt_cancelled_then = False \<rparr>"

definition fresh_host :: desktop_host where
  "fresh_host = \<lparr> dh_policies = Map.empty, dh_session = Map.empty \<rparr>"

lemma find_map_empty [simp]: "find_map Map.empty xs = None"
  by (simp add: find_map_None_iff)

lemma edit_file_named:
  "named_tool_profile ''edit_file'' args = Some (static_profile ''filesystem'' True True False False True RiskHigh
     ''Modifies existing text files and should pass through the write approval gate.'')"
  by (simp add: named_tool_profile_def write_tool_profile_def)

lemma edit_file_needs_approval: "call_needs_approval ask_config (desktop_call ''edit_file'' cb)"
  by (simp add: call_needs_approval_def tool_requires_confirm_def call_invocation_def desktop_call_def
      build_invocation_profile [OF edit_file_named])

lemma edit_file_not_hard: "\<not> hard_confirmation (desktop_call ''edit_file'' cb)"
  by (simp add: hard_confirmation_cases desktop_call_def)

lemma edit_file_asks:
  "asks_desktop ask_config read_ok write_ok answer
     (desktop_call ''edit_file'' (Some (desktop_approval_callback AskMode read_ok write_ok answer)))"
  using edit_file_needs_approval by (simp add: asks_desktop_def desktop_call_def ask_config_def)

lemma edit_file_open: "\<not> explicit_call (desktop_call ''edit_file'' cb)"
  by (simp add: explicit_call_def call_permission_def permission_key_for_tool_def
      key_from_invocation_def desktop_call_def build_invocation_def Let_def resource_key_def key_new_def
      starts_with_def split: option.splits)

theorem desktop_gate_consent_witness:
  "fst (tool_gate ask_config (desktop_call ''edit_file''
       (Some (desktop_approval_callback AskMode True True (Some AllowOnce)))) fresh_host) = GateExecute
   \<and> (user_allows (Some AllowOnce)
      \<or> session_resolve (dh_session fresh_host) (call_permission (desktop_call ''edit_file''
          (Some (desktop_approval_callback AskMode True True (Some AllowOnce))))) = Some AllowSession)"
proof -
  let ?c = "desktop_call ''edit_file'' (Some (desktop_approval_callback AskMode True True (Some AllowOnce)))"
  have cb: "gt_approval_callback ?c = Some (desktop_approval_callback AskMode True True (Some AllowOnce))"
    by (simp add: desktop_call_def)
  obtain req where "fst (tool_gate ask_config ?c fresh_host) =
      (if is_allowed (fst (desktop_approval_callback AskMode True True (Some AllowOnce) req fresh_host)) then GateExecute
       else GateDeclined (''User denied permission for '' @ gt_tool_name ?c @ ''.''))"
    using asks_desktop_gate [OF edit_file_asks [of True True "Some AllowOnce"], where h = fresh_host] by blast
  then have exec: "fst (tool_gate ask_config ?c fresh_host) = GateExecute"
    by (simp add: desktop_approval_callback_def desktop_approval_mode_decision_def short_circuit_def
        fresh_host_def resolve_tool_permission_policy_def is_allowed_def Let_def)
  with desktop_gate_needs_consent [OF cb exec edit_file_needs_approval]
  show ?thesis by (simp add: ask_config_def)
qed

theorem no_surface_witness:
  "fst (tool_gate ask_config (desktop_call ''edit_file'' None) fresh_host) = GateExecute
   \<and> tool_requires_confirm (desktop_call ''edit_file'' None) \<and> gc_require_tool_confirmation ask_config"
  using no_surface_fails_open [of "desktop_call ''edit_file'' None" ask_config fresh_host] edit_file_not_hard
    edit_file_needs_approval [of None]
  by (simp add: ask_config_def desktop_call_def call_needs_approval_def shell_requires_confirm_def)

theorem remembered_decisions_witness:
  "fst (tool_gate ask_config
     (desktop_call ''edit_file'' (Some (desktop_approval_callback AskMode True True (Some AllowOnce))))
     (snd (snd (tool_gate ask_config
       (desktop_call ''edit_file'' (Some (desktop_approval_callback AskMode True True (Some Never)))) fresh_host))))
   = GateDeclined ''User denied permission for edit_file.''"
proof -
  have same: "call_permission (desktop_call ''edit_file'' x) = call_permission (desktop_call ''edit_file'' y)" for x y
    by (simp add: call_permission_def desktop_call_def)
  show ?thesis
    using remembered_decisions_apply [OF edit_file_asks [of True True "Some Never"]
        edit_file_asks [of True True "Some AllowOnce"] same edit_file_open, where h = fresh_host]
    by (simp add: fresh_host_def resolve_tool_permission_policy_def session_resolve_def desktop_call_def)
qed

end
