(* ===== verification/Automation_Types.thy ===== *)
theory Automation_Types
  imports Workflow_Scheduler Nexa_Json
begin

text \<open>
  The data of workflow automations: the orchestrator's state machine
  (\<open>crates/core/src/task_orchestrator.rs\<close>), the enumerations and records of
  \<open>crates/core/src/workflow_automation/types.rs\<close>, and the tables of the database that
  \<open>workflow_automation/mod.rs\<close> and its submodules read and write.

  Columns that hold JSON texts are modelled by the values that were written to them. Only the
  configuration column of a schedule may hold a text of another origin; \<open>None\<close> stands for a text
  that is empty or does not parse. Columns that no operation reads are left out.
\<close>

section \<open>The orchestrator's state machine\<close>

datatype task_state =
    TS_Draft | TS_Queued | TS_Running | TS_WaitingApproval | TS_Paused | TS_Resuming
  | TS_Completed | TS_Failed | TS_Cancelled | TS_TimedOut | TS_Disabled

definition is_terminal_state :: "task_state \<Rightarrow> bool" where
  "is_terminal_state s = (s \<in> {TS_Completed, TS_Failed, TS_Cancelled, TS_TimedOut, TS_Disabled})"

datatype orchestrator_error =
    IllegalTransition task_state task_state
  | TerminalTransition task_state
  | UnknownStatus string
  | ExecutionTicketState task_state
  | MismatchedExecutionTicket string string

record status_projection =
  st_raw_status :: string
  st_state :: task_state

definition project_task_status :: "string \<Rightarrow> orchestrator_error + status_projection" where
  "project_task_status status = (
     let raw = to_ascii_lowercase (trim status);
         projected = (\<lambda>s. Inr \<lparr> st_raw_status = raw, st_state = s \<rparr>)
     in if raw \<in> set [''draft'', ''ready''] then projected TS_Draft
     else if raw \<in> set [''queued'', ''pending''] then projected TS_Queued
     else if raw \<in> set [''running'', ''initializing'', ''in_progress'', ''cancelling'']
       then projected TS_Running
     else if raw = ''waiting_approval'' then projected TS_WaitingApproval
     else if raw = ''paused'' then projected TS_Paused
     else if raw = ''resuming'' then projected TS_Resuming
     else if raw \<in> set [''completed'', ''cached'', ''done''] then projected TS_Completed
     else if raw \<in> set [''failed'', ''error''] then projected TS_Failed
     else if raw \<in> set [''cancelled'', ''canceled''] then projected TS_Cancelled
     else if raw \<in> set [''timed_out'', ''timeout''] then projected TS_TimedOut
     else if raw = ''disabled'' then projected TS_Disabled
     else Inl (UnknownStatus status))"

definition can_transition_task_state :: "task_state \<Rightarrow> task_state \<Rightarrow> bool" where
  "can_transition_task_state from to = (case from of
       TS_Draft \<Rightarrow> to \<in> {TS_Queued, TS_Disabled}
     | TS_Queued \<Rightarrow> to \<in> {TS_Running, TS_Cancelled, TS_Disabled}
     | TS_Running \<Rightarrow> to \<in> {TS_WaitingApproval, TS_Paused, TS_Completed, TS_Failed, TS_Cancelled, TS_TimedOut}
     | TS_WaitingApproval \<Rightarrow> to \<in> {TS_Running, TS_Paused, TS_Cancelled, TS_Failed, TS_TimedOut}
     | TS_Paused \<Rightarrow> to \<in> {TS_Resuming, TS_Cancelled, TS_Disabled}
     | TS_Resuming \<Rightarrow> to \<in> {TS_Running, TS_Failed, TS_Cancelled, TS_TimedOut}
     | _ \<Rightarrow> False)"

definition validate_task_transition :: "task_state \<Rightarrow> task_state \<Rightarrow> orchestrator_error + unit" where
  "validate_task_transition from to =
     (if is_terminal_state from then Inl (TerminalTransition to)
      else if can_transition_task_state from to then Inr ()
      else Inl (IllegalTransition from to))"

record task_state_transition =
  tt_run_id :: string
  tt_from :: task_state
  tt_to :: task_state
  tt_reason :: string

definition apply_task_transition ::
  "task_state \<Rightarrow> task_state_transition \<Rightarrow> orchestrator_error + task_state" where
  "apply_task_transition current t =
     res_bind (validate_task_transition current (tt_to t)) (\<lambda>_. Inr (tt_to t))"

text \<open>The messages of the derived \<open>Display\<close>; states print by their \<open>Debug\<close> names.\<close>

definition state_debug :: "task_state \<Rightarrow> string" where
  "state_debug s = (case s of
     TS_Draft \<Rightarrow> ''Draft'' | TS_Queued \<Rightarrow> ''Queued'' | TS_Running \<Rightarrow> ''Running''
   | TS_WaitingApproval \<Rightarrow> ''WaitingApproval'' | TS_Paused \<Rightarrow> ''Paused'' | TS_Resuming \<Rightarrow> ''Resuming''
   | TS_Completed \<Rightarrow> ''Completed'' | TS_Failed \<Rightarrow> ''Failed'' | TS_Cancelled \<Rightarrow> ''Cancelled''
   | TS_TimedOut \<Rightarrow> ''TimedOut'' | TS_Disabled \<Rightarrow> ''Disabled'')"

definition orchestrator_error_display :: "orchestrator_error \<Rightarrow> string" where
  "orchestrator_error_display e = (case e of
     IllegalTransition from to \<Rightarrow> ''illegal task state transition from '' @ state_debug from
       @ '' to '' @ state_debug to
   | TerminalTransition to \<Rightarrow> ''terminal task state may not transition to '' @ state_debug to
   | UnknownStatus status \<Rightarrow> ''unknown task status '' @ status
   | ExecutionTicketState s \<Rightarrow> ''execution ticket requires queued run state, got '' @ state_debug s
   | MismatchedExecutionTicket q r \<Rightarrow> ''execution ticket queue task definition '' @ q
       @ '' does not match run task definition '' @ r)"

section \<open>Automations\<close>

datatype automation_trigger = TriggerManual | TriggerSchedule string | TriggerFolder string string

definition trigger_kind :: "automation_trigger \<Rightarrow> string" where
  "trigger_kind t = (case t of TriggerManual \<Rightarrow> ''manual'' | TriggerSchedule _ \<Rightarrow> ''schedule''
     | TriggerFolder _ _ \<Rightarrow> ''folder'')"

definition trigger_label :: "automation_trigger \<Rightarrow> string" where
  "trigger_label t = (case t of TriggerManual \<Rightarrow> ''manual run''
     | TriggerSchedule cron \<Rightarrow> ''schedule '' @ cron
     | TriggerFolder path pattern \<Rightarrow> ''folder watch '' @ path @ '' ('' @ pattern @ '')'')"

definition is_schedule :: "automation_trigger \<Rightarrow> bool" where
  "is_schedule t = (case t of TriggerSchedule _ \<Rightarrow> True | _ \<Rightarrow> False)"

record approval_policy =
  rp_require_before_run :: bool
  rp_allowed_tools :: "string list"
  rp_risk_level :: string

definition default_approval_policy :: approval_policy where
  "default_approval_policy = \<lparr> rp_require_before_run = True, rp_allowed_tools = [],
     rp_risk_level = ''medium'' \<rparr>"

record save_input =
  si_id :: "string option"
  si_name :: string
  si_description :: string
  si_workflow_template_id :: string
  si_prompt :: string
  si_trigger :: automation_trigger
  si_source_scope :: "string list"
  si_approval_policy :: approval_policy
  si_enabled :: bool

text \<open>A row of \<open>workflow_automations\<close>, and the automation read from it with its configuration.\<close>

record automation_row =
  wa_id :: string
  wa_name :: string
  wa_description :: string
  wa_workflow_template_id :: string
  wa_prompt :: string
  wa_trigger_kind :: string
  wa_trigger :: automation_trigger
  wa_source_scope :: "string list"
  wa_approval_policy :: approval_policy
  wa_enabled :: bool
  wa_status :: string
  wa_last_run_at :: "string option"
  wa_next_run_at :: "string option"
  wa_created_at :: string
  wa_updated_at :: string

record workflow_automation = automation_row +
  wa_schedule_config :: schedule_config

datatype occurrence_origin = OriginSchedule | OriginManualRunNow

definition origin_as_str :: "occurrence_origin \<Rightarrow> string" where
  "origin_as_str g = (case g of OriginSchedule \<Rightarrow> ''schedule'' | OriginManualRunNow \<Rightarrow> ''manual_run_now'')"

definition origin_parse :: "string \<Rightarrow> core_error + occurrence_origin" where
  "origin_parse value = (if value = ''schedule'' then Inr OriginSchedule
     else if value = ''manual_run_now'' then Inr OriginManualRunNow
     else Inl (CE_Internal (''Unknown workflow occurrence origin '' @ quoted value)))"

datatype run_approval_state = ApprovalNotRequired | ApprovalPending | ApprovalApproved | ApprovalDenied

definition approval_state_as_str :: "run_approval_state \<Rightarrow> string" where
  "approval_state_as_str s = (case s of ApprovalNotRequired \<Rightarrow> ''not_required''
     | ApprovalPending \<Rightarrow> ''pending'' | ApprovalApproved \<Rightarrow> ''approved'' | ApprovalDenied \<Rightarrow> ''denied'')"

definition approval_state_from_str :: "string \<Rightarrow> core_error + run_approval_state" where
  "approval_state_from_str value = (if value = ''not_required'' then Inr ApprovalNotRequired
     else if value = ''pending'' then Inr ApprovalPending
     else if value = ''approved'' then Inr ApprovalApproved
     else if value = ''denied'' then Inr ApprovalDenied
     else Inl (CE_Internal (''Unknown workflow occurrence approval state '' @ quoted value)))"

datatype run_status =
    RS_Draft | RS_Queued | RS_Running | RS_WaitingApproval | RS_Paused | RS_Resuming
  | RS_Completed | RS_Failed | RS_Cancelled | RS_TimedOut | RS_Disabled | RS_Cancelling

definition run_status_as_str :: "run_status \<Rightarrow> string" where
  "run_status_as_str s = (case s of
     RS_Draft \<Rightarrow> ''draft'' | RS_Queued \<Rightarrow> ''queued'' | RS_Running \<Rightarrow> ''running''
   | RS_WaitingApproval \<Rightarrow> ''waiting_approval'' | RS_Paused \<Rightarrow> ''paused'' | RS_Resuming \<Rightarrow> ''resuming''
   | RS_Completed \<Rightarrow> ''completed'' | RS_Failed \<Rightarrow> ''failed'' | RS_Cancelled \<Rightarrow> ''cancelled''
   | RS_TimedOut \<Rightarrow> ''timed_out'' | RS_Disabled \<Rightarrow> ''disabled'' | RS_Cancelling \<Rightarrow> ''cancelling'')"

definition run_status_parse :: "string \<Rightarrow> core_error + run_status" where
  "run_status_parse value = (
     let raw = to_ascii_lowercase (trim value)
     in if raw \<in> set [''draft'', ''ready''] then Inr RS_Draft
     else if raw \<in> set [''queued'', ''pending''] then Inr RS_Queued
     else if raw \<in> set [''running'', ''initializing'', ''in_progress''] then Inr RS_Running
     else if raw = ''waiting_approval'' then Inr RS_WaitingApproval
     else if raw = ''paused'' then Inr RS_Paused
     else if raw = ''resuming'' then Inr RS_Resuming
     else if raw \<in> set [''completed'', ''cached'', ''done''] then Inr RS_Completed
     else if raw \<in> set [''failed'', ''error''] then Inr RS_Failed
     else if raw \<in> set [''cancelled'', ''canceled''] then Inr RS_Cancelled
     else if raw \<in> set [''timed_out'', ''timeout''] then Inr RS_TimedOut
     else if raw = ''disabled'' then Inr RS_Disabled
     else if raw = ''cancelling'' then Inr RS_Cancelling
     else Inl (CE_InvalidInput (''Unknown workflow run status '' @ quoted raw)))"

datatype occurrence_status =
    OS_Planned | OS_Claimed | OS_RetryWait | OS_WaitingApproval | OS_Queued | OS_Running
  | OS_Paused | OS_Resuming | OS_Completed | OS_Skipped | OS_Failed | OS_Cancelled
  | OS_TimedOut | OS_Disabled | OS_Cancelling

definition occurrence_status_as_str :: "occurrence_status \<Rightarrow> string" where
  "occurrence_status_as_str s = (case s of
     OS_Planned \<Rightarrow> ''planned'' | OS_Claimed \<Rightarrow> ''claimed'' | OS_RetryWait \<Rightarrow> ''retry_wait''
   | OS_WaitingApproval \<Rightarrow> ''waiting_approval'' | OS_Queued \<Rightarrow> ''queued'' | OS_Running \<Rightarrow> ''running''
   | OS_Paused \<Rightarrow> ''paused'' | OS_Resuming \<Rightarrow> ''resuming'' | OS_Completed \<Rightarrow> ''completed''
   | OS_Skipped \<Rightarrow> ''skipped'' | OS_Failed \<Rightarrow> ''failed'' | OS_Cancelled \<Rightarrow> ''cancelled''
   | OS_TimedOut \<Rightarrow> ''timed_out'' | OS_Disabled \<Rightarrow> ''disabled'' | OS_Cancelling \<Rightarrow> ''cancelling'')"

definition occurrence_status_parse :: "string \<Rightarrow> core_error + occurrence_status" where
  "occurrence_status_parse value = (
     let raw = to_ascii_lowercase (trim value)
     in if raw = ''planned'' then Inr OS_Planned
     else if raw = ''claimed'' then Inr OS_Claimed
     else if raw = ''retry_wait'' then Inr OS_RetryWait
     else if raw = ''waiting_approval'' then Inr OS_WaitingApproval
     else if raw \<in> set [''queued'', ''pending''] then Inr OS_Queued
     else if raw \<in> set [''running'', ''initializing'', ''in_progress''] then Inr OS_Running
     else if raw = ''paused'' then Inr OS_Paused
     else if raw = ''resuming'' then Inr OS_Resuming
     else if raw \<in> set [''completed'', ''cached'', ''done''] then Inr OS_Completed
     else if raw = ''skipped'' then Inr OS_Skipped
     else if raw \<in> set [''failed'', ''error''] then Inr OS_Failed
     else if raw \<in> set [''cancelled'', ''canceled''] then Inr OS_Cancelled
     else if raw \<in> set [''timed_out'', ''timeout''] then Inr OS_TimedOut
     else if raw = ''disabled'' then Inr OS_Disabled
     else if raw = ''cancelling'' then Inr OS_Cancelling
     else Inl (CE_InvalidInput (''Unknown workflow occurrence status '' @ quoted raw)))"

record occurrence =
  oc_id :: string
  oc_automation_id :: string
  oc_definition_revision :: int
  oc_scheduled_for :: string
  oc_status :: occurrence_status
  oc_attempt_count :: u32
  oc_retry_at :: "string option"
  oc_last_error :: "string option"
  oc_lease_token :: "string option"
  oc_lease_expires_at :: "string option"
  oc_created_at :: string

record automation_run =
  rn_id :: string
  rn_automation_id :: string
  rn_task_run_id :: "string option"
  rn_status :: run_status
  rn_summary :: "string option"
  rn_occurrence_id :: "string option"
  rn_scheduled_for :: "string option"
  rn_definition_revision :: int
  rn_attempt :: u32
  rn_created_at :: string
  rn_finished_at :: "string option"

record due_run =
  dr_automation :: workflow_automation
  dr_prompt :: string
  dr_due_reason :: string
  dr_scheduled_for :: "string option"
  dr_origin :: occurrence_origin

record due_run_claim =
  dc_due_run :: due_run
  dc_occurrence :: "occurrence option"
  dc_run :: "automation_run option"
  dc_skip_reason :: "string option"

section \<open>Scheduler events\<close>

datatype scheduler_event_type =
    SE_DefinitionSuperseded | SE_ApprovalRequested | SE_ApprovalResolved | SE_SkippedRetryLimit
  | SE_SkippedBackoff | SE_SkippedPreRunApproval | SE_OccurrenceSkipped | SE_ClaimFailed
  | SE_SkippedNoAgentConfig | SE_Claimed | SE_LaunchSucceeded | SE_LaunchFailed | SE_SkippedActive

definition event_type_as_str :: "scheduler_event_type \<Rightarrow> string" where
  "event_type_as_str t = (case t of
     SE_DefinitionSuperseded \<Rightarrow> ''definition_superseded'' | SE_ApprovalRequested \<Rightarrow> ''approval_requested''
   | SE_ApprovalResolved \<Rightarrow> ''approval_resolved'' | SE_SkippedRetryLimit \<Rightarrow> ''skipped_retry_limit''
   | SE_SkippedBackoff \<Rightarrow> ''skipped_backoff'' | SE_SkippedPreRunApproval \<Rightarrow> ''skipped_pre_run_approval''
   | SE_OccurrenceSkipped \<Rightarrow> ''occurrence_skipped'' | SE_ClaimFailed \<Rightarrow> ''claim_failed''
   | SE_SkippedNoAgentConfig \<Rightarrow> ''skipped_no_agent_config'' | SE_Claimed \<Rightarrow> ''claimed''
   | SE_LaunchSucceeded \<Rightarrow> ''launch_succeeded'' | SE_LaunchFailed \<Rightarrow> ''launch_failed''
   | SE_SkippedActive \<Rightarrow> ''skipped_active'')"

definition event_type_parse :: "string \<Rightarrow> scheduler_event_type option" where
  "event_type_parse value = (let v = trim value in
     if v = ''definition_superseded'' then Some SE_DefinitionSuperseded
     else if v = ''approval_requested'' then Some SE_ApprovalRequested
     else if v = ''approval_resolved'' then Some SE_ApprovalResolved
     else if v = ''skipped_retry_limit'' then Some SE_SkippedRetryLimit
     else if v = ''skipped_backoff'' then Some SE_SkippedBackoff
     else if v = ''skipped_pre_run_approval'' then Some SE_SkippedPreRunApproval
     else if v = ''occurrence_skipped'' then Some SE_OccurrenceSkipped
     else if v = ''claim_failed'' then Some SE_ClaimFailed
     else if v = ''skipped_no_agent_config'' then Some SE_SkippedNoAgentConfig
     else if v = ''claimed'' then Some SE_Claimed
     else if v = ''launch_succeeded'' then Some SE_LaunchSucceeded
     else if v = ''launch_failed'' then Some SE_LaunchFailed
     else if v = ''skipped_active'' then Some SE_SkippedActive
     else None)"

definition is_retryable_failure :: "scheduler_event_type \<Rightarrow> bool" where
  "is_retryable_failure t = (t = SE_ClaimFailed \<or> t = SE_LaunchFailed)"

definition is_retry_audit_only :: "scheduler_event_type \<Rightarrow> bool" where
  "is_retry_audit_only t = (t = SE_SkippedBackoff \<or> t = SE_SkippedRetryLimit)"

record scheduler_event =
  se_id :: string
  se_automation_id :: "string option"
  se_run_id :: "string option"
  se_event_type :: string
  se_status :: "string option"
  se_summary :: string
  se_payload :: json
  se_created_at :: string

section \<open>The database\<close>

record config_row =
  cr_automation_id :: string
  cr_config :: "schedule_config option"
  cr_revision :: int

record definition_row =
  df_automation_id :: string
  df_revision :: int
  df_name :: string
  df_description :: string
  df_workflow_template_id :: string
  df_prompt :: string
  df_trigger :: automation_trigger
  df_source_scope :: "string list"
  df_approval_policy :: approval_policy
  df_schedule_config :: schedule_config

record origin_row =
  or_occurrence_id :: string
  or_origin :: occurrence_origin
  or_resume_next_run_at :: "string option"

record approval_row =
  av_occurrence_id :: string
  av_state :: run_approval_state
  av_requested_at :: "string option"
  av_resolved_at :: "string option"

record automation_db =
  ad_automations :: "automation_row list"
  ad_configs :: "config_row list"
  ad_definitions :: "definition_row list"
  ad_occurrences :: "occurrence list"
  ad_origins :: "origin_row list"
  ad_approvals :: "approval_row list"
  ad_runs :: "automation_run list"
  ad_scheduler_events :: "scheduler_event list"
  ad_task_runs :: "string list"

text \<open>
  \<open>INSERT\<close> into a table with a unique key, which fails on a row that clashes, and \<open>UPDATE\<close> of
  the rows that satisfy a condition. A failed transaction leaves the database as it was.
\<close>

definition insert_row :: "('a \<Rightarrow> bool) \<Rightarrow> 'a \<Rightarrow> 'a list \<Rightarrow> core_error + 'a list" where
  "insert_row clash x rows = (if list_ex clash rows then Inl CE_Database else Inr (rows @ [x]))"

definition update_rows :: "('a \<Rightarrow> bool) \<Rightarrow> ('a \<Rightarrow> 'a) \<Rightarrow> 'a list \<Rightarrow> 'a list" where
  "update_rows p f rows = map (\<lambda>x. if p x then f x else x) rows"

definition in_transaction ::
  "(automation_db \<Rightarrow> core_error + 'a \<times> automation_db) \<Rightarrow> automation_db \<Rightarrow> (core_error + 'a) \<times> automation_db" where
  "in_transaction body db = (case body db of Inl e \<Rightarrow> (Inl e, db) | Inr (x, db') \<Rightarrow> (Inr x, db'))"

text \<open>What the operations take from outside: the cron library, the clock's text formats.\<close>

record ('c, 'm, 't, 'z) automation_env =
  ae_cron :: "('c, 'm, 't, 'z) cron_env"
  ae_parse_sql_datetime :: "string \<Rightarrow> int option"
  ae_to_rfc3339 :: "int \<Rightarrow> string"

definition parse_utc_timestamp :: "('c, 'm, 't, 'z) automation_env \<Rightarrow> string \<Rightarrow> int option" where
  "parse_utc_timestamp env value = (case parse_from_rfc3339 (ae_cron env) value of
     Inr t \<Rightarrow> Some t
   | Inl _ \<Rightarrow> ae_parse_sql_datetime env value)"

definition automation_from_row ::
  "('c, 'm, 't, 'z) automation_env \<Rightarrow> schedule_config option option \<Rightarrow> automation_row \<Rightarrow> workflow_automation" where
  "automation_from_row env config row = (
     let parsed = (case config of None \<Rightarrow> None | Some c \<Rightarrow> c);
         valid = (if wa_trigger_kind row = ''schedule'' then
             (case (wa_trigger row, parsed) of
                (TriggerSchedule cron, Some c) \<Rightarrow> validate_for_save (parse_crontab (ae_cron env)) c cron = Inr ()
              | _ \<Rightarrow> False)
           else True)
     in automation_row.extend
          (row \<lparr> wa_enabled := wa_enabled row \<and> valid,
                 wa_status := (if valid then wa_status row else ''needs_review''),
                 wa_next_run_at := (if valid then wa_next_run_at row else None) \<rparr>)
          (workflow_automation.fields
            (if valid then unwrap_or default_schedule_config parsed else legacy_utc_needs_review)))"

definition config_row_of :: "automation_db \<Rightarrow> string \<Rightarrow> config_row option" where
  "config_row_of db automation_id = find (\<lambda>c. cr_automation_id c = automation_id) (ad_configs db)"

definition select_automation ::
  "('c, 'm, 't, 'z) automation_env \<Rightarrow> automation_db \<Rightarrow> string \<Rightarrow> workflow_automation option" where
  "select_automation env db automation_id =
     map_option (automation_from_row env (map_option cr_config (config_row_of db automation_id)))
       (find (\<lambda>a. wa_id a = automation_id) (ad_automations db))"

definition find_run :: "automation_db \<Rightarrow> string \<Rightarrow> automation_run option" where
  "find_run db run_id = find (\<lambda>r. rn_id r = run_id) (ad_runs db)"

definition find_occurrence :: "automation_db \<Rightarrow> string \<Rightarrow> occurrence option" where
  "find_occurrence db occurrence_id = find (\<lambda>o'. oc_id o' = occurrence_id) (ad_occurrences db)"

definition find_origin :: "automation_db \<Rightarrow> string \<Rightarrow> origin_row option" where
  "find_origin db occurrence_id = find (\<lambda>g. or_occurrence_id g = occurrence_id) (ad_origins db)"

definition find_approval :: "automation_db \<Rightarrow> string \<Rightarrow> approval_row option" where
  "find_approval db occurrence_id = find (\<lambda>v. av_occurrence_id v = occurrence_id) (ad_approvals db)"

definition fetch_workflow_run :: "automation_db \<Rightarrow> string \<Rightarrow> core_error + automation_run" where
  "fetch_workflow_run db run_id = (case find_run db run_id of None \<Rightarrow> Inl CE_Database | Some r \<Rightarrow> Inr r)"

definition fetch_workflow_occurrence :: "automation_db \<Rightarrow> string \<Rightarrow> core_error + occurrence" where
  "fetch_workflow_occurrence db occurrence_id =
     (case find_occurrence db occurrence_id of None \<Rightarrow> Inl CE_Database | Some o' \<Rightarrow> Inr o')"

definition get_workflow_automation ::
  "('c, 'm, 't, 'z) automation_env \<Rightarrow> automation_db \<Rightarrow> string \<Rightarrow> core_error + workflow_automation" where
  "get_workflow_automation env db automation_id = (case select_automation env db automation_id of
     None \<Rightarrow> Inl (CE_NotFound (''Workflow automation '' @ automation_id))
   | Some a \<Rightarrow> Inr a)"

definition get_workflow_automation_run :: "automation_db \<Rightarrow> string \<Rightarrow> core_error + automation_run" where
  "get_workflow_automation_run db run_id = (case find_run db run_id of
     None \<Rightarrow> Inl (CE_NotFound (''Workflow automation run '' @ run_id))
   | Some r \<Rightarrow> Inr r)"

definition get_workflow_automation_occurrence :: "automation_db \<Rightarrow> string \<Rightarrow> core_error + occurrence" where
  "get_workflow_automation_occurrence db occurrence_id = (case find_occurrence db occurrence_id of
     None \<Rightarrow> Inl (CE_NotFound (''Workflow automation occurrence '' @ occurrence_id))
   | Some o' \<Rightarrow> Inr o')"

section \<open>Updates of single tables\<close>

definition update_automation ::
  "string \<Rightarrow> string \<Rightarrow> (automation_row \<Rightarrow> automation_row) \<Rightarrow> automation_db \<Rightarrow> automation_db" where
  "update_automation sql_now automation_id f db =
     db \<lparr> ad_automations := update_rows (\<lambda>a. wa_id a = automation_id)
       (\<lambda>a. (f a) \<lparr> wa_updated_at := sql_now \<rparr>) (ad_automations db) \<rparr>"

definition update_occurrences :: "(occurrence \<Rightarrow> bool) \<Rightarrow> (occurrence \<Rightarrow> occurrence) \<Rightarrow> automation_db \<Rightarrow> automation_db" where
  "update_occurrences p f db = db \<lparr> ad_occurrences := update_rows p f (ad_occurrences db) \<rparr>"

definition update_runs :: "(automation_run \<Rightarrow> bool) \<Rightarrow> (automation_run \<Rightarrow> automation_run) \<Rightarrow> automation_db \<Rightarrow> automation_db" where
  "update_runs p f db = db \<lparr> ad_runs := update_rows p f (ad_runs db) \<rparr>"

text \<open>The frequent column groups of an update: an occurrence without lease, a closed run.\<close>

definition without_lease :: "occurrence \<Rightarrow> occurrence" where
  "without_lease o' = o' \<lparr> oc_lease_token := None, oc_lease_expires_at := None \<rparr>"

definition cancel_run :: "string \<Rightarrow> string \<Rightarrow> automation_run \<Rightarrow> automation_run" where
  "cancel_run sql_now why r = r \<lparr> rn_status := RS_Cancelled,
     rn_summary := Some (unwrap_or why (rn_summary r)),
     rn_finished_at := Some (unwrap_or sql_now (rn_finished_at r)) \<rparr>"

end
