(* ===== verification/Automation_Ledger.thy ===== *)
theory Automation_Ledger
  imports Automation_Types
begin

text \<open>
  The durable ledger of automation runs, \<open>crates/core/src/workflow_automation/scheduling.rs\<close> and
  \<open>approvals.rs\<close>: claiming an occurrence under a lease, starting a run, reporting a failed launch,
  moving a run between states, asking for and resolving an approval, and saving a definition.

  Every operation is one transaction on \<open>automation_db\<close>; reads that the code makes before it opens
  the transaction belong to the same step. Identifiers, lease tokens and the clock are arguments.
  Instants count nanoseconds, and the additions of minutes to them stay within their range.
\<close>

section \<open>Bounds and texts\<close>

definition AUTOMATION_NAME_MAX_CHARS :: nat where "AUTOMATION_NAME_MAX_CHARS = 160"
definition AUTOMATION_DESCRIPTION_MAX_CHARS :: nat where "AUTOMATION_DESCRIPTION_MAX_CHARS = 2000"
definition AUTOMATION_PROMPT_MAX_CHARS :: nat where "AUTOMATION_PROMPT_MAX_CHARS = 12000"
definition SCHEDULER_RETRY_MAX_ATTEMPTS :: nat where "SCHEDULER_RETRY_MAX_ATTEMPTS = 4"
definition SCHEDULER_RETRY_BACKOFF_SECONDS :: "int list" where
  "SCHEDULER_RETRY_BACKOFF_SECONDS = [300, 900, 3600, 14400]"

definition normalize_required :: "string \<Rightarrow> string \<Rightarrow> nat \<Rightarrow> core_error + string" where
  "normalize_required value field max_chars = (
     if trim value = [] then Inl (CE_InvalidInput (field @ '' cannot be empty''))
     else if length (trim value) > max_chars then Inl (CE_InvalidInput
       (field @ '' is too long (max '' @ nat_to_string max_chars @ '' chars)''))
     else Inr (trim value))"

definition normalize_optional :: "string \<Rightarrow> nat \<Rightarrow> core_error + string" where
  "normalize_optional value max_chars = (
     if length (trim value) > max_chars then Inl (CE_InvalidInput
       (''Text is too long (max '' @ nat_to_string max_chars @ '' chars)''))
     else Inr (trim value))"

definition replace_backslash :: "string \<Rightarrow> string" where
  "replace_backslash s = map (\<lambda>c. if c = CHR 0x5C then CHR ''/'' else c) s"

fun keep_new :: "string list \<Rightarrow> string list \<Rightarrow> string list" where
  "keep_new seen [] = []"
| "keep_new seen (x # xs) = (if x \<in> set seen then keep_new seen xs else x # keep_new (x # seen) xs)"

definition normalize_string_list :: "string list \<Rightarrow> string list" where
  "normalize_string_list values = keep_new []
     (map replace_backslash (filter (\<lambda>v. v \<noteq> []) (map trim values)))"

definition scheduler_retry_backoff_seconds :: "nat \<Rightarrow> int option" where
  "scheduler_retry_backoff_seconds failure_count = (
     if failure_count = 0 then None
     else if failure_count - 1 < length SCHEDULER_RETRY_BACKOFF_SECONDS
     then Some (SCHEDULER_RETRY_BACKOFF_SECONDS ! (failure_count - 1))
     else Some (last SCHEDULER_RETRY_BACKOFF_SECONDS))"

definition automation_prompt :: "workflow_automation \<Rightarrow> string" where
  "automation_prompt a = (
     let nl = CHR 0x0A;
         scope = (if wa_source_scope a = [] then ''Use the active conversation or user-selected sources.''
           else join_with '', '' (wa_source_scope a));
         approval = (if rp_require_before_run (wa_approval_policy a)
           then ''Ask for approval before executing write, network, shell, or desktop actions.''
           else ''Use the saved approval policy for this automation.'');
         allowed_tools = (if rp_allowed_tools (wa_approval_policy a) = [] then ''No tool whitelist is pinned.''
           else join_with '', '' (rp_allowed_tools (wa_approval_policy a)))
     in ''Run the saved Nexa workflow automation.'' @ [nl, nl] @ ''Automation: '' @ wa_name a @ [nl]
        @ ''Template: '' @ wa_workflow_template_id a @ [nl]
        @ ''Trigger: '' @ trigger_label (wa_trigger a) @ [nl]
        @ ''Source scope: '' @ scope @ [nl] @ ''Risk: '' @ rp_risk_level (wa_approval_policy a) @ [nl]
        @ ''Allowed tools: '' @ allowed_tools @ [nl] @ ''Approval: '' @ approval @ [nl, nl]
        @ ''Goal:'' @ [nl] @ wa_prompt a)"

definition next_run_for_trigger ::
  "('c, 'm, 't, 'z) automation_env \<Rightarrow> automation_trigger \<Rightarrow> schedule_config \<Rightarrow> bool \<Rightarrow> int
     \<Rightarrow> core_error + string option" where
  "next_run_for_trigger env trigger config enabled after = (case trigger of
     TriggerSchedule cron \<Rightarrow>
       res_bind (validate_for_save (parse_crontab (ae_cron env)) config cron) (\<lambda>_.
         if \<not> enabled then Inr None
         else res_bind (next_workflow_cron_occurrence (ae_cron env) cron (sc_timezone config) after)
           (\<lambda>t. Inr (Some (ae_to_rfc3339 env t))))
   | _ \<Rightarrow> Inr None)"

definition insert_scheduler_event ::
  "string \<Rightarrow> string option \<Rightarrow> string option \<Rightarrow> scheduler_event_type \<Rightarrow> string option \<Rightarrow> string
     \<Rightarrow> json option \<Rightarrow> string \<Rightarrow> automation_db \<Rightarrow> core_error + string \<times> automation_db" where
  "insert_scheduler_event event_id automation_id run_id event_type status summary payload sql_now db =
     res_bind (normalize_optional summary 2000) (\<lambda>summary'.
     res_bind (case status of None \<Rightarrow> Inr None
               | Some s \<Rightarrow> res_bind (normalize_optional s 120) (\<lambda>s'. Inr (if s' = [] then None else Some s')))
       (\<lambda>status'.
       if (\<exists>i \<in> set_option automation_id. \<not> list_ex (\<lambda>a. wa_id a = i) (ad_automations db))
         \<or> (\<exists>i \<in> set_option run_id. \<not> list_ex (\<lambda>r. rn_id r = i) (ad_runs db))
       then Inl CE_Database
       else res_bind (insert_row (\<lambda>e. se_id e = event_id)
           \<lparr> se_id = event_id, se_automation_id = automation_id, se_run_id = run_id,
             se_event_type = event_type_as_str event_type, se_status = status', se_summary = summary',
             se_payload = unwrap_or (JObject []) payload, se_created_at = sql_now \<rparr> (ad_scheduler_events db))
         (\<lambda>events. Inr (event_id, db \<lparr> ad_scheduler_events := events \<rparr>))))"

section \<open>Claiming an occurrence\<close>

record prepared_claim =
  pc_due_run :: due_run
  pc_definition_revision :: int
  pc_scheduled_for :: string
  pc_scheduled_at :: int
  pc_next_run_at :: "string option"
  pc_occurrence_id :: string
  pc_existing :: "occurrence option"

datatype claim_decision = ClaimSkip string | ClaimQueue u32

definition pending_statuses :: "occurrence_status list" where
  "pending_statuses = [OS_Planned, OS_Claimed, OS_RetryWait, OS_WaitingApproval]"

text \<open>\<open>ORDER BY datetime(created_at) DESC, id DESC LIMIT 1\<close>.\<close>

fun newest_occurrence :: "occurrence list \<Rightarrow> occurrence option" where
  "newest_occurrence [] = None"
| "newest_occurrence (x # xs) = (case newest_occurrence xs of
     None \<Rightarrow> Some x
   | Some y \<Rightarrow> if oc_created_at x < oc_created_at y \<or> (oc_created_at x = oc_created_at y \<and> oc_id x \<le> oc_id y)
               then Some y else Some x)"

definition origin_of :: "automation_db \<Rightarrow> occurrence \<Rightarrow> occurrence_origin" where
  "origin_of db o' = (case find_origin db (oc_id o') of None \<Rightarrow> OriginSchedule | Some g \<Rightarrow> or_origin g)"

definition resume_of :: "automation_db \<Rightarrow> occurrence \<Rightarrow> string option" where
  "resume_of db o' = (case find_origin db (oc_id o') of None \<Rightarrow> None | Some g \<Rightarrow> or_resume_next_run_at g)"

definition pending_occurrence ::
  "automation_db \<Rightarrow> string \<Rightarrow> int \<Rightarrow> occurrence_origin \<Rightarrow> string \<Rightarrow> occurrence option" where
  "pending_occurrence db automation_id revision origin cached =
     (case newest_occurrence (filter (\<lambda>o'. oc_automation_id o' = automation_id
          \<and> oc_definition_revision o' = revision \<and> oc_status o' \<in> set pending_statuses) (ad_occurrences db)) of
        None \<Rightarrow> None
      | Some o' \<Rightarrow> if origin_of db o' = origin \<and> (origin = OriginSchedule \<or> oc_scheduled_for o' = cached)
                   then Some o' else None)"

definition recorded_occurrence ::
  "automation_db \<Rightarrow> string \<Rightarrow> int \<Rightarrow> string \<Rightarrow> occurrence_origin \<Rightarrow> occurrence option" where
  "recorded_occurrence db automation_id revision scheduled_for origin =
     find (\<lambda>o'. oc_automation_id o' = automation_id \<and> oc_definition_revision o' = revision
        \<and> oc_scheduled_for o' = scheduled_for
        \<and> (\<exists>g \<in> set_option (find_origin db (oc_id o')). or_origin g = origin)) (ad_occurrences db)"

text \<open>The definition the claim is made for, read again inside the transaction.\<close>

definition refresh_due_run ::
  "('c, 'm, 't, 'z) automation_env \<Rightarrow> due_run \<Rightarrow> automation_db \<Rightarrow> core_error + due_run \<times> int" where
  "refresh_due_run env due db = (
     case select_automation env db (wa_id (dr_automation due)) of
       None \<Rightarrow> Inl CE_Database
     | Some a \<Rightarrow>
         if \<not> wa_enabled a then Inl (CE_InvalidInput
           ''Workflow occurrence was already claimed, rescheduled, or disabled'')
         else if dr_origin due = OriginManualRunNow \<and> \<not> is_schedule (wa_trigger a) then Inl (CE_InvalidInput
           ''Only scheduled definitions support durable run-now occurrences'')
         else case config_row_of db (wa_id a) of
           None \<Rightarrow> Inl CE_Database
         | Some c \<Rightarrow> Inr (due \<lparr> dr_automation := a, dr_prompt := automation_prompt a,
               dr_due_reason := (if dr_origin due = OriginManualRunNow then ''manual run requested''
                 else trigger_label (wa_trigger a)) \<rparr>, cr_revision c))"

definition invalid_occurrence_text :: "string \<Rightarrow> core_error" where
  "invalid_occurrence_text scheduled_for =
     CE_InvalidInput (''Invalid workflow scheduled occurrence '' @ quoted scheduled_for)"

text \<open>The instant the occurrence stands for: its own, or the latest missed one.\<close>

definition claimed_scheduled_for ::
  "('c, 'm, 't, 'z) automation_env \<Rightarrow> due_run \<Rightarrow> occurrence option \<Rightarrow> string \<Rightarrow> int \<Rightarrow> int
     \<Rightarrow> core_error + string" where
  "claimed_scheduled_for env due pending cached cached_at now = (
     let a = dr_automation due in
     case pending of
       Some o' \<Rightarrow> Inr (oc_scheduled_for o')
     | None \<Rightarrow>
         if dr_origin due = OriginSchedule
           \<and> sc_misfire_policy (wa_schedule_config a) = MisfireRunLatest \<and> cached_at < now
         then case wa_trigger a of
           TriggerSchedule cron \<Rightarrow>
             res_bind (latest_workflow_cron_occurrence_at_or_before (ae_cron env) cron
                 (sc_timezone (wa_schedule_config a)) cached_at now) (\<lambda>t. Inr (ae_to_rfc3339 env t))
         | _ \<Rightarrow> Inl (CE_Internal ''A scheduled occurrence must retain a schedule trigger'')
         else Inr cached)"

definition insert_occurrence ::
  "occurrence \<Rightarrow> origin_row \<Rightarrow> automation_db \<Rightarrow> core_error + automation_db" where
  "insert_occurrence o' g db =
     res_bind (insert_row (\<lambda>p. oc_id p = oc_id o' \<or> (oc_automation_id p = oc_automation_id o'
         \<and> oc_definition_revision p = oc_definition_revision o'
         \<and> oc_scheduled_for p = oc_scheduled_for o')) o' (ad_occurrences db)) (\<lambda>occurrences.
     res_bind (insert_row (\<lambda>h. or_occurrence_id h = or_occurrence_id g) g (ad_origins db)) (\<lambda>origins.
       Inr (db \<lparr> ad_occurrences := occurrences, ad_origins := origins \<rparr>)))"

definition insert_or_ignore_approval :: "string \<Rightarrow> run_approval_state \<Rightarrow> automation_db \<Rightarrow> automation_db" where
  "insert_or_ignore_approval occurrence_id state db =
     (if list_ex (\<lambda>v. av_occurrence_id v = occurrence_id) (ad_approvals db) then db
      else db \<lparr> ad_approvals := ad_approvals db @ [\<lparr> av_occurrence_id = occurrence_id, av_state = state,
        av_requested_at = None, av_resolved_at = None \<rparr>] \<rparr>)"

definition planned_occurrence :: "string \<Rightarrow> string \<Rightarrow> int \<Rightarrow> string \<Rightarrow> string \<Rightarrow> occurrence" where
  "planned_occurrence occurrence_id automation_id revision scheduled_for sql_now =
     \<lparr> oc_id = occurrence_id, oc_automation_id = automation_id, oc_definition_revision = revision,
       oc_scheduled_for = scheduled_for, oc_status = OS_Planned, oc_attempt_count = 0, oc_retry_at = None,
       oc_last_error = None, oc_lease_token = None, oc_lease_expires_at = None, oc_created_at = sql_now \<rparr>"

text \<open>What the claim is on: the definition, the pending occurrence if there is one, the instant.\<close>

record claim_target =
  ct_due :: due_run
  ct_revision :: int
  ct_pending :: "occurrence option"
  ct_scheduled_for :: string
  ct_scheduled_at :: int
  ct_resume :: "string option"
  ct_next_run_at :: "string option"

definition locate_claim ::
  "('c, 'm, 't, 'z) automation_env \<Rightarrow> due_run \<Rightarrow> string \<Rightarrow> int \<Rightarrow> automation_db \<Rightarrow> core_error + claim_target" where
  "locate_claim env due0 cached0 now db =
     res_bind (refresh_due_run env due0 db) (\<lambda>(due, revision).
       let a = dr_automation due;
           origin = dr_origin due;
           pending = pending_occurrence db (wa_id a) revision origin cached0;
           cached = (case pending of Some o' \<Rightarrow> oc_scheduled_for o' | None \<Rightarrow> cached0)
       in if origin = OriginSchedule \<and> wa_next_run_at a \<noteq> Some cached \<and> pending = None
       then Inl (CE_InvalidInput ''Workflow occurrence was already claimed, rescheduled, or disabled'')
       else case parse_utc_timestamp env cached of
         None \<Rightarrow> Inl (invalid_occurrence_text cached)
       | Some cached_at \<Rightarrow>
           if cached_at > now then Inl (CE_InvalidInput
             (''Workflow occurrence '' @ quoted cached @ '' is not due yet''))
           else res_bind (claimed_scheduled_for env due pending cached cached_at now) (\<lambda>scheduled_for.
           case parse_utc_timestamp env scheduled_for of
             None \<Rightarrow> Inl (invalid_occurrence_text scheduled_for)
           | Some scheduled_at \<Rightarrow>
               let resume = opt_or (case pending of Some o' \<Rightarrow> resume_of db o' | None \<Rightarrow> None)
                     (if origin = OriginManualRunNow then wa_next_run_at a else None)
               in res_bind (if origin = OriginManualRunNow then Inr resume
                     else next_run_for_trigger env (wa_trigger a) (wa_schedule_config a) (wa_enabled a) now)
                   (\<lambda>next_run_at. Inr \<lparr> ct_due = due \<lparr> dr_scheduled_for := Some scheduled_for \<rparr>,
                      ct_revision = revision, ct_pending = pending, ct_scheduled_for = scheduled_for,
                      ct_scheduled_at = scheduled_at, ct_resume = resume, ct_next_run_at = next_run_at \<rparr>)))"

definition prepare_workflow_occurrence_claim ::
  "('c, 'm, 't, 'z) automation_env \<Rightarrow> due_run \<Rightarrow> string \<Rightarrow> int \<Rightarrow> string \<Rightarrow> string
     \<Rightarrow> automation_db \<Rightarrow> core_error + prepared_claim \<times> automation_db" where
  "prepare_workflow_occurrence_claim env due0 cached0 now new_id sql_now db =
     res_bind (locate_claim env due0 cached0 now db) (\<lambda>t.
       let a = dr_automation (ct_due t); origin = dr_origin (ct_due t);
           existing = (case ct_pending t of Some o' \<Rightarrow> Some o'
             | None \<Rightarrow> recorded_occurrence db (wa_id a) (ct_revision t) (ct_scheduled_for t) origin);
           occurrence_id = (case existing of Some o' \<Rightarrow> oc_id o' | None \<Rightarrow> new_id)
       in res_bind (case existing of
             Some _ \<Rightarrow> Inr db
           | None \<Rightarrow> insert_occurrence
               (planned_occurrence occurrence_id (wa_id a) (ct_revision t) (ct_scheduled_for t) sql_now)
               \<lparr> or_occurrence_id = occurrence_id, or_origin = origin, or_resume_next_run_at = ct_resume t \<rparr> db)
         (\<lambda>db1. Inr (\<lparr> pc_due_run = ct_due t, pc_definition_revision = ct_revision t,
             pc_scheduled_for = ct_scheduled_for t, pc_scheduled_at = ct_scheduled_at t,
             pc_next_run_at = ct_next_run_at t, pc_occurrence_id = occurrence_id, pc_existing = existing \<rparr>,
           insert_or_ignore_approval occurrence_id
             (if rp_require_before_run (wa_approval_policy a) then ApprovalPending
              else ApprovalNotRequired) db1)))"

definition active_run_statuses :: "run_status list" where
  "active_run_statuses = [RS_Queued, RS_Running, RS_WaitingApproval, RS_Paused, RS_Resuming, RS_Cancelling]"

definition workflow_has_active_run :: "automation_db \<Rightarrow> string \<Rightarrow> string \<Rightarrow> bool" where
  "workflow_has_active_run db automation_id occurrence_id =
     list_ex (\<lambda>r. rn_automation_id r = automation_id \<and> rn_occurrence_id r \<noteq> Some occurrence_id
       \<and> rn_status r \<in> set active_run_statuses) (ad_runs db)"

definition workflow_has_isolated_source_lock :: "automation_db \<Rightarrow> prepared_claim \<Rightarrow> core_error + bool" where
  "workflow_has_isolated_source_lock db prepared = (
     let a = dr_automation (pc_due_run prepared);
         ep = sc_execution_policy (wa_schedule_config a)
     in if ep_workspace_policy ep \<noteq> IsolatedPatch then Inr False
     else case ep_source_root_fingerprint ep of
       None \<Rightarrow> Inl (CE_InvalidInput
         ''Isolated scheduled patch lost its canonical source fingerprint before claim'')
     | Some fingerprint \<Rightarrow> Inr (list_ex (\<lambda>r. rn_automation_id r \<noteq> wa_id a
         \<and> rn_status r \<in> set active_run_statuses
         \<and> list_ex (\<lambda>d. df_automation_id d = rn_automation_id r \<and> df_revision d = rn_definition_revision r
              \<and> ep_workspace_policy (sc_execution_policy (df_schedule_config d)) = IsolatedPatch
              \<and> ep_source_root_fingerprint (sc_execution_policy (df_schedule_config d)) = Some fingerprint)
            (ad_definitions db)) (ad_runs db)))"

text \<open>
  The decision on a prepared claim. The database is changed on the way: a consumed, skipped or
  exhausted occurrence moves the automation to its next run, older queued attempts are cancelled.
\<close>

definition set_next_run ::
  "string \<Rightarrow> prepared_claim \<Rightarrow> (string \<Rightarrow> string) \<Rightarrow> automation_db \<Rightarrow> automation_db" where
  "set_next_run sql_now prepared status db = update_automation sql_now (wa_id (dr_automation (pc_due_run prepared)))
     (\<lambda>a. a \<lparr> wa_next_run_at := pc_next_run_at prepared, wa_status := status (wa_status a) \<rparr>) db"

definition close_occurrence ::
  "prepared_claim \<Rightarrow> (occurrence \<Rightarrow> occurrence) \<Rightarrow> automation_db \<Rightarrow> automation_db" where
  "close_occurrence prepared f db =
     update_occurrences (\<lambda>o'. oc_id o' = pc_occurrence_id prepared) f db"

definition consumed_statuses :: "occurrence_status list" where
  "consumed_statuses =
     [OS_Running, OS_Completed, OS_Skipped, OS_Failed, OS_Cancelled, OS_TimedOut, OS_Disabled]"

definition later_than :: "('c, 'm, 't, 'z) automation_env \<Rightarrow> string option \<Rightarrow> int \<Rightarrow> bool" where
  "later_than env text now = (case Option.bind text (parse_utc_timestamp env) of
     None \<Rightarrow> False | Some t \<Rightarrow> t > now)"

text \<open>What the recorded occurrence forbids; \<open>None\<close> lets the claim go on.\<close>

definition existing_verdict ::
  "('c, 'm, 't, 'z) automation_env \<Rightarrow> prepared_claim \<Rightarrow> int \<Rightarrow> string \<Rightarrow> automation_db
     \<Rightarrow> (string \<times> automation_db) option" where
  "existing_verdict env prepared now sql_now db = (case pc_existing prepared of
     None \<Rightarrow> None
   | Some current \<Rightarrow>
       if oc_status current = OS_WaitingApproval then Some (''waiting_approval'', db)
       else if oc_status current = OS_Claimed \<and> later_than env (oc_lease_expires_at current) now
       then Some (''already_claimed_live'', db)
       else if oc_status current \<in> set consumed_statuses
       then Some (''already_consumed'',
              set_next_run sql_now prepared (\<lambda>s. if s = ''queued'' then ''ready'' else s) db)
       else if later_than env (oc_retry_at current) now then Some (''retry_backoff'', db)
       else None)"

text \<open>How a claim that is not queued closes its occurrence.\<close>

definition skipped_for_overlap :: "occurrence \<Rightarrow> occurrence" where
  "skipped_for_overlap o' = without_lease (o' \<lparr> oc_status := OS_Skipped,
     oc_last_error := Some ''overlap_policy_skip'', oc_retry_at := None \<rparr>)"

definition attempts_exhausted :: "occurrence \<Rightarrow> occurrence" where
  "attempts_exhausted o' = without_lease (o' \<lparr> oc_status := OS_Failed \<rparr>)"

definition skipped_for_misfire :: "occurrence \<Rightarrow> occurrence" where
  "skipped_for_misfire o' = without_lease (o' \<lparr> oc_status := OS_Skipped, oc_retry_at := None \<rparr>)"

definition misfire_expired :: "prepared_claim \<Rightarrow> u32 \<Rightarrow> int \<Rightarrow> bool" where
  "misfire_expired prepared attempt now = (
     let config = wa_schedule_config (dr_automation (pc_due_run prepared))
     in sc_misfire_policy config = MisfireSkip \<and> attempt = 1
        \<and> now > pc_scheduled_at prepared + nanos (uint (sc_misfire_grace_seconds config)))"

definition next_attempt :: "prepared_claim \<Rightarrow> u32" where
  "next_attempt prepared = (case pc_existing prepared of None \<Rightarrow> 1
     | Some o' \<Rightarrow> saturating_add (oc_attempt_count o') 1)"

definition supersede_queued ::
  "prepared_claim \<Rightarrow> u32 \<Rightarrow> string \<Rightarrow> automation_db \<Rightarrow> automation_db" where
  "supersede_queued prepared attempt sql_now db =
     (if attempt > 1 then update_runs (\<lambda>r. rn_occurrence_id r = Some (pc_occurrence_id prepared)
           \<and> rn_status r = RS_Queued \<and> rn_attempt r < attempt)
         (cancel_run sql_now ''Occurrence lease superseded by a newer attempt'') db
      else db)"

definition decide_workflow_occurrence_claim ::
  "('c, 'm, 't, 'z) automation_env \<Rightarrow> prepared_claim \<Rightarrow> int \<Rightarrow> string \<Rightarrow> automation_db
     \<Rightarrow> core_error + claim_decision \<times> automation_db" where
  "decide_workflow_occurrence_claim env prepared now sql_now db =
     (case existing_verdict env prepared now sql_now db of
        Some (reason, db') \<Rightarrow> Inr (ClaimSkip reason, db')
      | None \<Rightarrow>
          res_bind (workflow_has_isolated_source_lock db prepared) (\<lambda>locked.
            let a = dr_automation (pc_due_run prepared); attempt = next_attempt prepared
            in if locked then Inr (ClaimSkip ''source_workspace_locked'', db)
            else if workflow_has_active_run db (wa_id a) (pc_occurrence_id prepared)
              \<and> sc_overlap_policy (wa_schedule_config a) = OverlapSkip
            then Inr (ClaimSkip ''overlap_active'', set_next_run sql_now prepared (\<lambda>s. s)
                (close_occurrence prepared skipped_for_overlap db))
            else if unat attempt > SCHEDULER_RETRY_MAX_ATTEMPTS
            then Inr (ClaimSkip ''retry_exhausted'', set_next_run sql_now prepared (\<lambda>_. ''ready'')
                (close_occurrence prepared attempts_exhausted db))
            else let db1 = supersede_queued prepared attempt sql_now db
            in if misfire_expired prepared attempt now
            then Inr (ClaimSkip ''misfire_grace_exceeded'', set_next_run sql_now prepared (\<lambda>_. ''ready'')
                (close_occurrence prepared skipped_for_misfire db1))
            else Inr (ClaimQueue attempt, db1)))"

definition insert_run :: "automation_run \<Rightarrow> automation_db \<Rightarrow> core_error + automation_db" where
  "insert_run r db = res_bind (insert_row (\<lambda>p. rn_id p = rn_id r
       \<or> (rn_occurrence_id r \<noteq> None \<and> rn_occurrence_id p = rn_occurrence_id r \<and> rn_attempt p = rn_attempt r))
     r (ad_runs db)) (\<lambda>runs. Inr (db \<lparr> ad_runs := runs \<rparr>))"

definition queue_workflow_occurrence_claim ::
  "prepared_claim \<Rightarrow> u32 \<Rightarrow> string \<Rightarrow> string \<Rightarrow> string option \<Rightarrow> string \<Rightarrow> string \<Rightarrow> automation_db
     \<Rightarrow> core_error + (automation_run \<times> occurrence) \<times> automation_db" where
  "queue_workflow_occurrence_claim prepared attempt lease_token lease_expires_at summary run_id sql_now db = (
     let due = pc_due_run prepared; automation_id = wa_id (dr_automation due);
         db1 = update_occurrences (\<lambda>o'. oc_id o' = pc_occurrence_id prepared)
           (\<lambda>o'. o' \<lparr> oc_status := OS_Claimed, oc_attempt_count := attempt, oc_retry_at := None,
              oc_lease_token := Some lease_token, oc_lease_expires_at := Some lease_expires_at \<rparr>) db
     in res_bind (insert_run \<lparr> rn_id = run_id, rn_automation_id = automation_id, rn_task_run_id = None,
           rn_status = RS_Queued, rn_summary = opt_or summary (Some (dr_due_reason due)),
           rn_occurrence_id = Some (pc_occurrence_id prepared),
           rn_scheduled_for = Some (pc_scheduled_for prepared),
           rn_definition_revision = pc_definition_revision prepared, rn_attempt = attempt,
           rn_created_at = sql_now, rn_finished_at = None \<rparr> db1)
       (\<lambda>db2. let db3 = update_automation sql_now automation_id (\<lambda>a. a \<lparr> wa_status := ''queued'' \<rparr>) db2
         in res_bind (fetch_workflow_run db3 run_id) (\<lambda>r.
            res_bind (fetch_workflow_occurrence db3 (pc_occurrence_id prepared)) (\<lambda>o'.
              Inr ((r, o'), db3)))))"

section \<open>Runs without an occurrence\<close>

definition finished_run_statuses :: "run_status list" where
  "finished_run_statuses = [RS_Completed, RS_Failed, RS_Cancelled, RS_TimedOut, RS_Disabled]"

definition record_workflow_automation_run ::
  "('c, 'm, 't, 'z) automation_env \<Rightarrow> string \<Rightarrow> string option \<Rightarrow> string \<Rightarrow> string option \<Rightarrow> string \<Rightarrow> string
     \<Rightarrow> automation_db \<Rightarrow> core_error + automation_run \<times> automation_db" where
  "record_workflow_automation_run env automation_id task_run_id status0 summary run_id sql_now db =
     res_bind (get_workflow_automation env db automation_id) (\<lambda>_.
     res_bind (run_status_parse status0) (\<lambda>status.
       if \<exists>i \<in> set_option task_run_id. i \<notin> set (ad_task_runs db) then Inl CE_Database
       else res_bind (insert_run \<lparr> rn_id = run_id, rn_automation_id = automation_id,
           rn_task_run_id = task_run_id, rn_status = status, rn_summary = summary,
           rn_occurrence_id = None, rn_scheduled_for = None, rn_definition_revision = 1, rn_attempt = 1,
           rn_created_at = sql_now,
           rn_finished_at = (if status \<in> set finished_run_statuses then Some sql_now else None) \<rparr> db)
         (\<lambda>db1. let db2 = update_automation sql_now automation_id (\<lambda>a. a \<lparr> wa_last_run_at := Some sql_now,
                wa_status := run_status_as_str status \<rparr>) db1
           in res_bind (get_workflow_automation_run db2 run_id) (\<lambda>r. Inr (r, db2)))))"

section \<open>Claiming a due run\<close>

definition lease_end :: "('c, 'm, 't, 'z) automation_env \<Rightarrow> int \<Rightarrow> string" where
  "lease_end env now = ae_to_rfc3339 env (now + nanos 120)"

record fresh_ids =
  fi_lease_token :: string
  fi_occurrence_id :: string
  fi_run_id :: string

definition claim_body ::
  "('c, 'm, 't, 'z) automation_env \<Rightarrow> due_run \<Rightarrow> string \<Rightarrow> string option \<Rightarrow> fresh_ids \<Rightarrow> string
     \<Rightarrow> automation_db \<Rightarrow> core_error + due_run_claim \<times> automation_db" where
  "claim_body env due now_rfc3339 summary ids sql_now db = (case dr_scheduled_for due of
     None \<Rightarrow>
       res_bind (record_workflow_automation_run env (wa_id (dr_automation due)) None ''queued''
           (opt_or summary (Some (dr_due_reason due))) (fi_run_id ids) sql_now db) (\<lambda>(r, db').
         Inr (\<lparr> dc_due_run = due, dc_occurrence = None, dc_run = Some r, dc_skip_reason = None \<rparr>, db'))
   | Some cached \<Rightarrow>
       (case parse_utc_timestamp env now_rfc3339 of
          None \<Rightarrow> Inl (CE_InvalidInput (''Invalid workflow claim time '' @ quoted now_rfc3339))
        | Some now \<Rightarrow>
            res_bind (prepare_workflow_occurrence_claim env due cached now (fi_occurrence_id ids) sql_now db)
              (\<lambda>(prepared, db1).
            res_bind (decide_workflow_occurrence_claim env prepared now sql_now db1) (\<lambda>(decision, db2).
              case decision of
                ClaimSkip reason \<Rightarrow>
                  res_bind (fetch_workflow_occurrence db2 (pc_occurrence_id prepared)) (\<lambda>o'.
                    Inr (\<lparr> dc_due_run = pc_due_run prepared, dc_occurrence = Some o', dc_run = None,
                      dc_skip_reason = Some reason \<rparr>, db2))
              | ClaimQueue attempt \<Rightarrow>
                  res_bind (queue_workflow_occurrence_claim prepared attempt (fi_lease_token ids)
                      (lease_end env now) summary (fi_run_id ids) sql_now db2) (\<lambda>((r, o'), db3).
                    Inr (\<lparr> dc_due_run = pc_due_run prepared, dc_occurrence = Some o', dc_run = Some r,
                      dc_skip_reason = None \<rparr>, db3))))))"

definition claim_workflow_automation_due_run_at ::
  "('c, 'm, 't, 'z) automation_env \<Rightarrow> due_run \<Rightarrow> string \<Rightarrow> string option \<Rightarrow> fresh_ids \<Rightarrow> string
     \<Rightarrow> automation_db \<Rightarrow> (core_error + due_run_claim) \<times> automation_db" where
  "claim_workflow_automation_due_run_at env due now_rfc3339 summary ids sql_now db =
     in_transaction (claim_body env due now_rfc3339 summary ids sql_now) db"

section \<open>Starting a run\<close>

definition project_run_state :: "run_status \<Rightarrow> core_error + task_state" where
  "project_run_state s = (case project_task_status (run_status_as_str s) of
     Inl e \<Rightarrow> Inl (CE_InvalidInput (orchestrator_error_display e))
   | Inr p \<Rightarrow> Inr (st_state p))"

definition check_transition :: "task_state \<Rightarrow> task_state \<Rightarrow> core_error + unit" where
  "check_transition from to = (case validate_task_transition from to of
     Inl e \<Rightarrow> Inl (CE_InvalidInput (orchestrator_error_display e))
   | Inr u \<Rightarrow> Inr u)"

text \<open>The run owns its occurrence: claimed by this very attempt under a live lease.\<close>

definition attempt_is_authoritative ::
  "('c, 'm, 't, 'z) automation_env \<Rightarrow> int \<Rightarrow> automation_run \<Rightarrow> occurrence \<Rightarrow> bool" where
  "attempt_is_authoritative env now r o' \<longleftrightarrow>
     oc_status o' = OS_Claimed \<and> oc_attempt_count o' = rn_attempt r
     \<and> (\<exists>token \<in> set_option (oc_lease_token o'). token \<noteq> [])
     \<and> later_than env (oc_lease_expires_at o') now"

definition cursor_after_start ::
  "('c, 'm, 't, 'z) automation_env \<Rightarrow> int \<Rightarrow> automation_run \<Rightarrow> automation_db \<Rightarrow> core_error + string option" where
  "cursor_after_start env now r db = (case rn_occurrence_id r of
     None \<Rightarrow> Inr None
   | Some occurrence_id \<Rightarrow> (case find_origin db occurrence_id of
       None \<Rightarrow> Inl CE_Database
     | Some g \<Rightarrow>
         if or_origin g = OriginManualRunNow then Inr (or_resume_next_run_at g)
         else (case find (\<lambda>a. wa_id a = rn_automation_id r) (ad_automations db) of
           None \<Rightarrow> Inl (CE_NotFound (''Workflow automation '' @ rn_automation_id r))
         | Some a \<Rightarrow>
             (case config_row_of db (rn_automation_id r) of
                Some c \<Rightarrow> (case cr_config c of
                    None \<Rightarrow> Inl CE_Serialization
                  | Some config \<Rightarrow> next_run_for_trigger env (wa_trigger a) config (wa_enabled a) now)
              | None \<Rightarrow> next_run_for_trigger env (wa_trigger a) default_schedule_config (wa_enabled a) now))))"

definition start_body ::
  "('c, 'm, 't, 'z) automation_env \<Rightarrow> automation_run \<Rightarrow> string \<Rightarrow> string option \<Rightarrow> int \<Rightarrow> string
     \<Rightarrow> automation_db \<Rightarrow> core_error + automation_run \<times> automation_db" where
  "start_body env r task_run_id summary now sql_now db = (
     if task_run_id \<notin> set (ad_task_runs db)
     then Inl (CE_NotFound (''Agent task run '' @ task_run_id))
     else res_bind (cursor_after_start env now r db) (\<lambda>next_run_at.
       let db1 = update_runs (\<lambda>p. rn_id p = rn_id r)
             (\<lambda>p. p \<lparr> rn_task_run_id := Some task_run_id, rn_status := RS_Running,
                rn_summary := opt_or summary (rn_summary p), rn_finished_at := None \<rparr>) db;
           owned = (\<lambda>o'. rn_occurrence_id r = Some (oc_id o') \<and> oc_status o' = OS_Claimed
             \<and> oc_attempt_count o' = rn_attempt r)
       in if rn_occurrence_id r \<noteq> None \<and> \<not> list_ex owned (ad_occurrences db1)
       then Inl (CE_NotFound (''Workflow automation occurrence '' @ unwrap_or [] (rn_occurrence_id r)))
       else let db2 = update_occurrences owned
             (\<lambda>o'. without_lease (o' \<lparr> oc_status := OS_Running, oc_retry_at := None \<rparr>)) db1
       in if \<not> list_ex (\<lambda>a. wa_id a = rn_automation_id r) (ad_automations db2)
       then Inl (CE_NotFound (''Workflow automation '' @ rn_automation_id r))
       else let db3 = update_automation sql_now (rn_automation_id r)
             (\<lambda>a. a \<lparr> wa_status := ''running'', wa_last_run_at := Some sql_now,
                wa_next_run_at := opt_or next_run_at (wa_next_run_at a) \<rparr>) db2
       in res_bind (get_workflow_automation_run db3 (rn_id r)) (\<lambda>r'. Inr (r', db3))))"

text \<open>A run that lost its claim is cancelled, and that is committed although the call fails.\<close>

definition start_workflow_automation_run_at ::
  "('c, 'm, 't, 'z) automation_env \<Rightarrow> string \<Rightarrow> string \<Rightarrow> string option \<Rightarrow> string \<Rightarrow> string
     \<Rightarrow> automation_db \<Rightarrow> (core_error + automation_run) \<times> automation_db" where
  "start_workflow_automation_run_at env run_id task_run_id summary now_rfc3339 sql_now db = (
     case parse_utc_timestamp env now_rfc3339 of
       None \<Rightarrow> (Inl (CE_InvalidInput (''Invalid workflow start time '' @ quoted now_rfc3339)), db)
     | Some now \<Rightarrow>
     case get_workflow_automation_run db run_id of
       Inl e \<Rightarrow> (Inl e, db)
     | Inr r \<Rightarrow>
     case res_bind (project_run_state (rn_status r)) (\<lambda>s. check_transition s TS_Running) of
       Inl e \<Rightarrow> (Inl e, db)
     | Inr _ \<Rightarrow>
         if \<exists>bound \<in> set_option (rn_task_run_id r). bound \<noteq> task_run_id
         then (Inl (CE_InvalidInput (''Workflow automation run '' @ run_id
             @ '' is already bound to task run '' @ unwrap_or [] (rn_task_run_id r))), db)
         else (case rn_occurrence_id r of
           None \<Rightarrow> in_transaction (start_body env r task_run_id summary now sql_now) db
         | Some occurrence_id \<Rightarrow>
             (case get_workflow_automation_occurrence db occurrence_id of
                Inl e \<Rightarrow> (Inl e, db)
              | Inr o' \<Rightarrow>
                  if \<not> attempt_is_authoritative env now r o'
                  then (Inl (CE_InvalidInput (''Workflow automation run '' @ run_id
                          @ '' no longer owns the occurrence claim'')),
                        update_runs (\<lambda>p. rn_id p = run_id \<and> rn_status p = RS_Queued)
                          (cancel_run sql_now ''Occurrence claim was superseded or expired'') db)
                  else in_transaction (start_body env r task_run_id summary now sql_now) db)))"

section \<open>Moving a run between states\<close>

definition run_status_of_occurrence :: "run_status \<Rightarrow> occurrence_status option" where
  "run_status_of_occurrence s = (case s of
     RS_Draft \<Rightarrow> None | RS_Queued \<Rightarrow> Some OS_Queued | RS_Running \<Rightarrow> Some OS_Running
   | RS_WaitingApproval \<Rightarrow> Some OS_WaitingApproval | RS_Paused \<Rightarrow> Some OS_Paused
   | RS_Resuming \<Rightarrow> Some OS_Resuming | RS_Completed \<Rightarrow> Some OS_Completed | RS_Failed \<Rightarrow> Some OS_Failed
   | RS_Cancelled \<Rightarrow> Some OS_Cancelled | RS_TimedOut \<Rightarrow> Some OS_TimedOut
   | RS_Disabled \<Rightarrow> Some OS_Disabled | RS_Cancelling \<Rightarrow> Some OS_Cancelling)"

definition transition_body ::
  "string \<Rightarrow> string \<Rightarrow> string option \<Rightarrow> string \<Rightarrow> automation_db
     \<Rightarrow> core_error + automation_run \<times> automation_db" where
  "transition_body run_id status0 summary sql_now db =
     res_bind (run_status_parse status0) (\<lambda>target.
     res_bind (get_workflow_automation_run db run_id) (\<lambda>r.
     res_bind (project_run_state (rn_status r)) (\<lambda>current_state.
     res_bind (project_run_state target) (\<lambda>target_state.
     res_bind (if current_state \<noteq> target_state then check_transition current_state target_state else Inr ())
       (\<lambda>_.
       let db1 = update_runs (\<lambda>p. rn_id p = run_id)
             (\<lambda>p. p \<lparr> rn_status := target, rn_summary := opt_or summary (rn_summary p),
                rn_finished_at := (if target \<in> set finished_run_statuses
                  then Some (unwrap_or sql_now (rn_finished_at p)) else None) \<rparr>) db
       in res_bind (case rn_occurrence_id r of
             None \<Rightarrow> Inr db1
           | Some occurrence_id \<Rightarrow>
               if \<not> list_ex (\<lambda>o'. oc_id o' = occurrence_id) (ad_occurrences db1)
               then Inl (CE_NotFound (''Workflow automation occurrence '' @ occurrence_id))
               else (case run_status_of_occurrence target of
                  None \<Rightarrow> Inl CE_Database
                | Some s \<Rightarrow> Inr (update_occurrences (\<lambda>o'. oc_id o' = occurrence_id)
                    (\<lambda>o'. without_lease (o' \<lparr> oc_status := s \<rparr>)) db1)))
         (\<lambda>db2.
           if \<not> list_ex (\<lambda>a. wa_id a = rn_automation_id r) (ad_automations db2)
           then Inl (CE_NotFound (''Workflow automation '' @ rn_automation_id r))
           else let db3 = update_automation sql_now (rn_automation_id r)
                 (\<lambda>a. a \<lparr> wa_status := run_status_as_str target \<rparr>) db2
             in res_bind (get_workflow_automation_run db3 run_id) (\<lambda>r'. Inr (r', db3))))))))"

definition transition_workflow_automation_run ::
  "string \<Rightarrow> string \<Rightarrow> string option \<Rightarrow> string \<Rightarrow> automation_db
     \<Rightarrow> (core_error + automation_run) \<times> automation_db" where
  "transition_workflow_automation_run run_id status summary sql_now db =
     in_transaction (transition_body run_id status summary sql_now) db"

section \<open>A launch that failed\<close>

definition launch_failed_body ::
  "('c, 'm, 't, 'z) automation_env \<Rightarrow> string \<Rightarrow> string \<Rightarrow> string \<Rightarrow> string \<Rightarrow> automation_db
     \<Rightarrow> core_error + occurrence option \<times> automation_db" where
  "launch_failed_body env run_id error0 now_rfc3339 sql_now db =
     res_bind (get_workflow_automation_run db run_id) (\<lambda>r.
     case rn_occurrence_id r of
       None \<Rightarrow>
         res_bind (transition_body run_id ''cancelled''
             (Some ''Task Orchestrator launch failed before agent start'') sql_now db)
           (\<lambda>(_, db'). Inr (None, db'))
     | Some occurrence_id \<Rightarrow>
         (case parse_utc_timestamp env now_rfc3339 of
            None \<Rightarrow> Inl (CE_InvalidInput (''Invalid workflow launch failure time '' @ quoted now_rfc3339))
          | Some now \<Rightarrow>
              res_bind (normalize_optional error0 2000) (\<lambda>error.
              let exhausted = SCHEDULER_RETRY_MAX_ATTEMPTS \<le> unat (rn_attempt r);
                  retry_at = (if exhausted then None else Some (ae_to_rfc3339 env
                    (now + nanos (unwrap_or 300 (scheduler_retry_backoff_seconds (unat (rn_attempt r)))))))
              in res_bind (get_workflow_automation env db (rn_automation_id r)) (\<lambda>a.
                 case find_origin db occurrence_id of
                   None \<Rightarrow> Inl CE_Database
                 | Some g \<Rightarrow>
                     res_bind (if or_origin g = OriginManualRunNow
                         then Inr (if exhausted then or_resume_next_run_at g else None)
                         else if exhausted
                         then next_run_for_trigger env (wa_trigger a) (wa_schedule_config a) (wa_enabled a) now
                         else Inr None) (\<lambda>next_run_at.
                     let db1 = update_runs (\<lambda>p. rn_id p = run_id)
                           (\<lambda>p. p \<lparr> rn_status := RS_Cancelled, rn_summary := Some error,
                              rn_finished_at := Some sql_now \<rparr>) db;
                         db2 = update_occurrences (\<lambda>o'. oc_id o' = occurrence_id)
                           (\<lambda>o'. without_lease (o' \<lparr> oc_status := (if exhausted then OS_Failed else OS_RetryWait),
                              oc_retry_at := retry_at, oc_last_error := Some error \<rparr>)) db1;
                         db3 = update_automation sql_now (rn_automation_id r)
                           (\<lambda>x. x \<lparr> wa_status := ''ready'',
                              wa_next_run_at := opt_or next_run_at (wa_next_run_at x) \<rparr>) db2
                     in res_bind (fetch_workflow_occurrence db3 occurrence_id) (\<lambda>o'.
                          Inr (Some o', db3)))))))"

definition mark_workflow_automation_launch_failed_for_retry ::
  "('c, 'm, 't, 'z) automation_env \<Rightarrow> string \<Rightarrow> string \<Rightarrow> string \<Rightarrow> string \<Rightarrow> automation_db
     \<Rightarrow> (core_error + occurrence option) \<times> automation_db" where
  "mark_workflow_automation_launch_failed_for_retry env run_id error now_rfc3339 sql_now db =
     in_transaction (launch_failed_body env run_id error now_rfc3339 sql_now) db"

section \<open>Convergence with a closed agent run\<close>

text \<open>
  \<open>run_event_outbox.rs\<close> settles the automation runs bound to an agent run it has closed after a
  restart.
\<close>

definition converged_status :: "string \<Rightarrow> run_status option" where
  "converged_status task_status = (if task_status = ''completed'' then Some RS_Completed
     else if task_status = ''failed'' then Some RS_Failed
     else if task_status = ''timed_out'' then Some RS_TimedOut
     else if task_status = ''cancelled'' then Some RS_Cancelled
     else None)"

definition converge_binding ::
  "run_status \<Rightarrow> string \<Rightarrow> string \<times> string \<times> string option \<Rightarrow> automation_db \<Rightarrow> automation_db" where
  "converge_binding status sql_now = (\<lambda>(run_id, automation_id, occurrence_id) db.
     let db1 = update_runs (\<lambda>p. rn_id p = run_id)
           (\<lambda>p. p \<lparr> rn_status := status,
              rn_summary := (if status = RS_Cancelled
                then Some ''Agent execution was interrupted by app restart'' else rn_summary p),
              rn_finished_at := Some (unwrap_or sql_now (rn_finished_at p)) \<rparr>) db;
         db2 = (case occurrence_id of
             None \<Rightarrow> db1
           | Some i \<Rightarrow> update_occurrences (\<lambda>o'. oc_id o' = i)
               (\<lambda>o'. without_lease (o' \<lparr> oc_status := unwrap_or (oc_status o') (run_status_of_occurrence status),
                  oc_retry_at := None,
                  oc_last_error := (if status = RS_Cancelled then Some ''app_restart_interrupted''
                    else oc_last_error o') \<rparr>)) db1)
     in if list_ex (\<lambda>r. rn_automation_id r = automation_id \<and> rn_id r \<noteq> run_id
            \<and> rn_status r \<in> set active_run_statuses) (ad_runs db2)
        then db2
        else update_automation sql_now automation_id
               (\<lambda>a. a \<lparr> wa_status := run_status_as_str status \<rparr>) db2)"

definition converge_workflow_run_terminal :: "string \<Rightarrow> string \<Rightarrow> string \<Rightarrow> automation_db \<Rightarrow> automation_db" where
  "converge_workflow_run_terminal task_run_id task_status sql_now db = (case converged_status task_status of
     None \<Rightarrow> db
   | Some status \<Rightarrow> fold (converge_binding status sql_now)
       (map (\<lambda>r. (rn_id r, rn_automation_id r, rn_occurrence_id r))
         (filter (\<lambda>r. rn_task_run_id r = Some task_run_id \<and> rn_status r \<in> set active_run_statuses)
           (ad_runs db))) db)"

section \<open>Approvals\<close>

definition workflow_automation_occurrence_approval_state :: "automation_db \<Rightarrow> string \<Rightarrow> run_approval_state" where
  "workflow_automation_occurrence_approval_state db occurrence_id =
     (case find_approval db occurrence_id of None \<Rightarrow> ApprovalPending | Some v \<Rightarrow> av_state v)"

definition upsert_pending_approval :: "string \<Rightarrow> string \<Rightarrow> automation_db \<Rightarrow> automation_db" where
  "upsert_pending_approval occurrence_id sql_now db =
     (if list_ex (\<lambda>v. av_occurrence_id v = occurrence_id) (ad_approvals db)
      then db \<lparr> ad_approvals := update_rows (\<lambda>v. av_occurrence_id v = occurrence_id)
        (\<lambda>v. v \<lparr> av_state := ApprovalPending,
           av_requested_at := Some (unwrap_or sql_now (av_requested_at v)), av_resolved_at := None \<rparr>)
        (ad_approvals db) \<rparr>
      else db \<lparr> ad_approvals := ad_approvals db @ [\<lparr> av_occurrence_id = occurrence_id,
        av_state = ApprovalPending, av_requested_at = Some sql_now, av_resolved_at = None \<rparr>] \<rparr>)"

definition approval_candidate :: "automation_db \<Rightarrow> string \<Rightarrow> (string \<times> string \<times> int) option" where
  "approval_candidate db run_id = (case find_run db run_id of
     None \<Rightarrow> None
   | Some r \<Rightarrow> (case (rn_occurrence_id r, config_row_of db (rn_automation_id r),
         find (\<lambda>a. wa_id a = rn_automation_id r) (ad_automations db)) of
       (Some occurrence_id, Some c, Some a) \<Rightarrow>
         if rn_status r = RS_Queued \<and> cr_revision c = rn_definition_revision r
           \<and> rp_require_before_run (wa_approval_policy a)
         then Some (rn_automation_id r, occurrence_id, rn_definition_revision r) else None
     | _ \<Rightarrow> None))"

definition revision_json :: "int \<Rightarrow> json" where
  "revision_json i = JNumber (if 0 \<le> i then PosInt (word_of_int i) else NegInt i)"

definition waiting_approval_body ::
  "string \<Rightarrow> string \<Rightarrow> string \<Rightarrow> automation_db \<Rightarrow> core_error + bool \<times> automation_db" where
  "waiting_approval_body run_id event_id sql_now db = (case approval_candidate db run_id of
     None \<Rightarrow> Inr (False, db)
   | Some (automation_id, occurrence_id, revision) \<Rightarrow>
       let claimed = (\<lambda>o'. oc_id o' = occurrence_id \<and> oc_status o' = OS_Claimed)
       in if length (filter claimed (ad_occurrences db)) \<noteq> 1
       then Inl (CE_InvalidInput (''Workflow occurrence '' @ occurrence_id @ '' is not claimable for approval''))
       else let db1 = update_occurrences claimed
             (\<lambda>o'. without_lease (o' \<lparr> oc_status := OS_WaitingApproval \<rparr>)) db;
           db2 = upsert_pending_approval occurrence_id sql_now db1;
           db3 = update_runs (\<lambda>p. rn_id p = run_id \<and> rn_status p = RS_Queued)
             (\<lambda>p. p \<lparr> rn_status := RS_WaitingApproval \<rparr>) db2;
           db4 = update_automation sql_now automation_id
             (\<lambda>a. a \<lparr> wa_status := ''waiting_approval'' \<rparr>) db3
       in res_bind (insert_scheduler_event event_id (Some automation_id) (Some run_id) SE_ApprovalRequested
             (Some ''waiting_approval'') ''Scheduled occurrence is waiting for pre-run approval''
             (Some (JObject [(''definitionRevision'', revision_json revision),
               (''durableApproval'', JBool True), (''occurrenceId'', JString occurrence_id)])) sql_now db4)
           (\<lambda>(_, db5). Inr (True, db5)))"

definition mark_workflow_automation_run_waiting_approval ::
  "string \<Rightarrow> string \<Rightarrow> string \<Rightarrow> automation_db \<Rightarrow> (core_error + bool) \<times> automation_db" where
  "mark_workflow_automation_run_waiting_approval run_id event_id sql_now db =
     in_transaction (waiting_approval_body run_id event_id sql_now) db"

record pending_approval =
  pa_automation :: workflow_automation
  pa_run :: automation_run
  pa_occurrence_id :: string
  pa_origin :: occurrence_origin
  pa_resume_next_run_at :: "string option"

definition fetch_pending_workflow_approval ::
  "('c, 'm, 't, 'z) automation_env \<Rightarrow> automation_db \<Rightarrow> string \<Rightarrow> core_error + pending_approval" where
  "fetch_pending_workflow_approval env db run_id = (
     let stale = CE_InvalidInput (''Workflow run '' @ run_id @ '' is no longer waiting for approval'')
     in case find_run db run_id of
       None \<Rightarrow> Inl stale
     | Some r \<Rightarrow> (case rn_occurrence_id r of
         None \<Rightarrow> Inl stale
       | Some i \<Rightarrow>
           (case (select_automation env db (rn_automation_id r), config_row_of db (rn_automation_id r),
               find_approval db i, find_occurrence db i) of
              (Some a, Some c, Some v, Some o') \<Rightarrow>
                if rn_status r = RS_WaitingApproval \<and> av_state v = ApprovalPending
                  \<and> oc_status o' = OS_WaitingApproval \<and> cr_revision c = rn_definition_revision r
                then (case find_origin db i of
                    None \<Rightarrow> Inl CE_Database
                  | Some g \<Rightarrow> Inr \<lparr> pa_automation = a, pa_run = r, pa_occurrence_id = i,
                      pa_origin = or_origin g, pa_resume_next_run_at = or_resume_next_run_at g \<rparr>)
                else Inl stale
            | _ \<Rightarrow> Inl stale)))"

datatype approval_resolution = ResolutionApproved due_run_claim | ResolutionDenied automation_run

definition approve_body ::
  "('c, 'm, 't, 'z) automation_env \<Rightarrow> string \<Rightarrow> int \<Rightarrow> string \<Rightarrow> string \<Rightarrow> string
     \<Rightarrow> automation_db \<Rightarrow> core_error + approval_resolution \<times> automation_db" where
  "approve_body env run_id now lease_token event_id sql_now db =
     res_bind (fetch_pending_workflow_approval env db run_id) (\<lambda>pending.
       let i = pa_occurrence_id pending; a = pa_automation pending;
           db1 = db \<lparr> ad_approvals := update_rows
               (\<lambda>v. av_occurrence_id v = i \<and> av_state v = ApprovalPending)
               (\<lambda>v. v \<lparr> av_state := ApprovalApproved, av_resolved_at := Some sql_now \<rparr>) (ad_approvals db) \<rparr>;
           db2 = update_occurrences (\<lambda>o'. oc_id o' = i \<and> oc_status o' = OS_WaitingApproval)
             (\<lambda>o'. o' \<lparr> oc_status := OS_Claimed, oc_lease_token := Some lease_token,
                oc_lease_expires_at := Some (lease_end env now) \<rparr>) db1;
           db3 = update_runs (\<lambda>p. rn_id p = run_id \<and> rn_status p = RS_WaitingApproval)
             (\<lambda>p. p \<lparr> rn_status := RS_Queued \<rparr>) db2;
           db4 = update_automation sql_now (wa_id a) (\<lambda>x. x \<lparr> wa_status := ''queued'' \<rparr>) db3
       in res_bind (insert_scheduler_event event_id (Some (wa_id a)) (Some run_id) SE_ApprovalResolved
             (Some ''queued'') ''Scheduled occurrence was approved for launch''
             (Some (JObject [(''decision'', JString ''approved''),
               (''definitionRevision'', revision_json (rn_definition_revision (pa_run pending))),
               (''occurrenceId'', JString i)])) sql_now db4) (\<lambda>(_, db5).
          res_bind (fetch_workflow_run db5 run_id) (\<lambda>r.
          res_bind (fetch_workflow_occurrence db5 i) (\<lambda>o'.
            Inr (ResolutionApproved \<lparr>
                dc_due_run = \<lparr> dr_automation = a, dr_prompt = automation_prompt a,
                  dr_due_reason = (if pa_origin pending = OriginManualRunNow then ''manual run requested''
                    else trigger_label (wa_trigger a)),
                  dr_scheduled_for = rn_scheduled_for r, dr_origin = pa_origin pending \<rparr>,
                dc_occurrence = Some o', dc_run = Some r, dc_skip_reason = None \<rparr>, db5)))))"

definition deny_body ::
  "('c, 'm, 't, 'z) automation_env \<Rightarrow> string \<Rightarrow> int \<Rightarrow> string \<Rightarrow> string \<Rightarrow> string
     \<Rightarrow> automation_db \<Rightarrow> core_error + approval_resolution \<times> automation_db" where
  "deny_body env run_id now now_rfc3339 event_id sql_now db =
     res_bind (fetch_pending_workflow_approval env db run_id) (\<lambda>pending.
       let i = pa_occurrence_id pending; a = pa_automation pending;
           db1 = db \<lparr> ad_approvals := update_rows
               (\<lambda>v. av_occurrence_id v = i \<and> av_state v = ApprovalPending)
               (\<lambda>v. v \<lparr> av_state := ApprovalDenied, av_resolved_at := Some sql_now \<rparr>) (ad_approvals db) \<rparr>
       in res_bind (if pa_origin pending = OriginManualRunNow then Inr (pa_resume_next_run_at pending)
           else next_run_for_trigger env (wa_trigger a) (wa_schedule_config a) (wa_enabled a) now)
         (\<lambda>next_run_at.
         let db2 = update_occurrences (\<lambda>o'. oc_id o' = i)
               (\<lambda>o'. without_lease (o' \<lparr> oc_status := OS_Skipped,
                  oc_last_error := Some ''pre_run_approval_denied'', oc_retry_at := None \<rparr>)) db1;
             db3 = update_runs (\<lambda>p. rn_id p = run_id) (\<lambda>p. p \<lparr> rn_status := RS_Cancelled,
                rn_summary := Some ''Pre-run approval denied'', rn_finished_at := Some sql_now \<rparr>) db2;
             db4 = update_automation sql_now (wa_id a) (\<lambda>x. x
               \<lparr> wa_status := (if wa_enabled x then ''ready'' else ''disabled''), wa_next_run_at := next_run_at,
                 wa_last_run_at := (if wa_trigger_kind x = ''folder'' then Some now_rfc3339
                   else wa_last_run_at x) \<rparr>) db3
         in res_bind (insert_scheduler_event event_id (Some (wa_id a)) (Some run_id) SE_ApprovalResolved
               (Some ''cancelled'') ''Scheduled occurrence was denied before launch''
               (Some (JObject [(''decision'', JString ''denied''),
                 (''definitionRevision'', revision_json (rn_definition_revision (pa_run pending))),
                 (''occurrenceId'', JString i)])) sql_now db4) (\<lambda>(_, db5).
            res_bind (fetch_workflow_run db5 run_id) (\<lambda>r. Inr (ResolutionDenied r, db5)))))"

definition resolve_workflow_automation_approval_at ::
  "('c, 'm, 't, 'z) automation_env \<Rightarrow> bool \<Rightarrow> string \<Rightarrow> string \<Rightarrow> string \<Rightarrow> string \<Rightarrow> string
     \<Rightarrow> automation_db \<Rightarrow> (core_error + approval_resolution) \<times> automation_db" where
  "resolve_workflow_automation_approval_at env approve run_id now_rfc3339 lease_token event_id sql_now db = (
     case parse_utc_timestamp env now_rfc3339 of
       None \<Rightarrow> (Inl (CE_InvalidInput (''Invalid workflow '' @ (if approve then ''approval'' else ''denial'')
           @ '' time '' @ quoted now_rfc3339)), db)
     | Some now \<Rightarrow> if approve
         then in_transaction (approve_body env run_id now lease_token event_id sql_now) db
         else in_transaction (deny_body env run_id now now_rfc3339 event_id sql_now) db)"

definition approve_workflow_automation_run_at ::
  "('c, 'm, 't, 'z) automation_env \<Rightarrow> string \<Rightarrow> string \<Rightarrow> string \<Rightarrow> string \<Rightarrow> string
     \<Rightarrow> automation_db \<Rightarrow> (core_error + due_run_claim) \<times> automation_db" where
  "approve_workflow_automation_run_at env run_id now_rfc3339 lease_token event_id sql_now db =
     (case resolve_workflow_automation_approval_at env True run_id now_rfc3339 lease_token event_id sql_now db of
        (Inl e, db') \<Rightarrow> (Inl e, db')
      | (Inr (ResolutionApproved c), db') \<Rightarrow> (Inr c, db')
      | (Inr (ResolutionDenied _), db') \<Rightarrow>
          (Inl (CE_Internal ''Approval transaction returned the wrong decision''), db'))"

definition deny_workflow_automation_run_at ::
  "('c, 'm, 't, 'z) automation_env \<Rightarrow> string \<Rightarrow> string \<Rightarrow> string \<Rightarrow> string \<Rightarrow> string
     \<Rightarrow> automation_db \<Rightarrow> (core_error + automation_run) \<times> automation_db" where
  "deny_workflow_automation_run_at env run_id now_rfc3339 lease_token event_id sql_now db =
     (case resolve_workflow_automation_approval_at env False run_id now_rfc3339 lease_token event_id sql_now db of
        (Inl e, db') \<Rightarrow> (Inl e, db')
      | (Inr (ResolutionDenied r), db') \<Rightarrow> (Inr r, db')
      | (Inr (ResolutionApproved _), db') \<Rightarrow>
          (Inl (CE_Internal ''Denial transaction returned the wrong decision''), db'))"

section \<open>Saving a definition\<close>

definition supersede_revision ::
  "string \<Rightarrow> string \<Rightarrow> int \<Rightarrow> automation_db \<Rightarrow> automation_db" where
  "supersede_revision sql_now automation_id revision db =
     update_runs (\<lambda>r. rn_automation_id r = automation_id \<and> rn_definition_revision r = revision
         \<and> rn_status r \<in> {RS_Queued, RS_WaitingApproval})
       (cancel_run sql_now ''Definition superseded before execution'')
     (update_occurrences (\<lambda>o'. oc_automation_id o' = automation_id \<and> oc_definition_revision o' = revision
         \<and> oc_status o' \<in> set pending_statuses)
       (\<lambda>o'. without_lease (o' \<lparr> oc_status := OS_Cancelled, oc_last_error := Some ''definition_superseded'',
          oc_retry_at := None \<rparr>)) db)"

text \<open>\<open>MAX(revision)\<close> over the stored revisions of the definition.\<close>

definition latest_definition_revision :: "automation_db \<Rightarrow> string \<Rightarrow> int option" where
  "latest_definition_revision db automation_id = fold (\<lambda>d m. case m of
       None \<Rightarrow> Some (df_revision d) | Some n \<Rightarrow> Some (max n (df_revision d)))
     (filter (\<lambda>d. df_automation_id d = automation_id) (ad_definitions db)) None"

definition next_definition_revision :: "automation_db \<Rightarrow> string \<Rightarrow> int" where
  "next_definition_revision db automation_id = (case latest_definition_revision db automation_id of
     None \<Rightarrow> 1 | Some n \<Rightarrow> min (n + 1) (2 ^ 63 - 1))"

definition upsert_automation :: "automation_row \<Rightarrow> string \<Rightarrow> automation_db \<Rightarrow> automation_db" where
  "upsert_automation row sql_now db =
     (if list_ex (\<lambda>a. wa_id a = wa_id row) (ad_automations db)
      then update_automation sql_now (wa_id row) (\<lambda>a. row \<lparr> wa_last_run_at := wa_last_run_at a,
        wa_created_at := wa_created_at a \<rparr>) db
      else db \<lparr> ad_automations := ad_automations db @ [row] \<rparr>)"

definition upsert_config :: "string \<Rightarrow> schedule_config \<Rightarrow> int \<Rightarrow> automation_db \<Rightarrow> automation_db" where
  "upsert_config automation_id config revision db =
     (if list_ex (\<lambda>c. cr_automation_id c = automation_id) (ad_configs db)
      then db \<lparr> ad_configs := update_rows (\<lambda>c. cr_automation_id c = automation_id)
        (\<lambda>c. c \<lparr> cr_config := Some config, cr_revision := revision \<rparr>) (ad_configs db) \<rparr>
      else db \<lparr> ad_configs := ad_configs db @ [\<lparr> cr_automation_id = automation_id,
        cr_config = Some config, cr_revision = revision \<rparr>] \<rparr>)"

definition store_schedule ::
  "automation_row \<Rightarrow> schedule_config \<Rightarrow> int \<Rightarrow> automation_db \<Rightarrow> core_error + automation_db" where
  "store_schedule row config revision db = (
     if is_schedule (wa_trigger row) then
       (let db1 = upsert_config (wa_id row) config revision db
        in res_bind (insert_row (\<lambda>d. df_automation_id d = wa_id row \<and> df_revision d = revision)
             \<lparr> df_automation_id = wa_id row, df_revision = revision, df_name = wa_name row,
               df_description = wa_description row, df_workflow_template_id = wa_workflow_template_id row,
               df_prompt = wa_prompt row, df_trigger = wa_trigger row, df_source_scope = wa_source_scope row,
               df_approval_policy = wa_approval_policy row, df_schedule_config = config \<rparr> (ad_definitions db1))
           (\<lambda>definitions. Inr (db1 \<lparr> ad_definitions := definitions \<rparr>)))
     else Inr (db \<lparr> ad_configs := filter (\<lambda>c. cr_automation_id c \<noteq> wa_id row) (ad_configs db) \<rparr>))"

definition save_body ::
  "('c, 'm, 't, 'z) automation_env \<Rightarrow> save_input \<Rightarrow> schedule_config \<Rightarrow> int \<Rightarrow> string \<Rightarrow> string \<Rightarrow> string
     \<Rightarrow> automation_db \<Rightarrow> core_error + workflow_automation \<times> automation_db" where
  "save_body env input config now new_id event_id sql_now db =
     res_bind (normalize_required (si_name input) ''Automation name'' AUTOMATION_NAME_MAX_CHARS) (\<lambda>name.
     res_bind (normalize_optional (si_description input) AUTOMATION_DESCRIPTION_MAX_CHARS) (\<lambda>description.
     res_bind (normalize_required (si_workflow_template_id input) ''Workflow template'' 120) (\<lambda>template_id.
     res_bind (normalize_required (si_prompt input) ''Automation prompt'' AUTOMATION_PROMPT_MAX_CHARS) (\<lambda>prompt.
     res_bind (next_run_for_trigger env (si_trigger input) config (si_enabled input) now) (\<lambda>next_run_at.
       let i = unwrap_or new_id (si_id input);
           previous = map_option cr_revision (config_row_of db i);
           revision = next_definition_revision db i;
           row = \<lparr> wa_id = i, wa_name = name, wa_description = description,
             wa_workflow_template_id = template_id, wa_prompt = prompt,
             wa_trigger_kind = trigger_kind (si_trigger input), wa_trigger = si_trigger input,
             wa_source_scope = normalize_string_list (si_source_scope input),
             wa_approval_policy = si_approval_policy input, wa_enabled = si_enabled input,
             wa_status = (if si_enabled input then ''ready'' else ''disabled''), wa_last_run_at = None,
             wa_next_run_at = next_run_at, wa_created_at = sql_now, wa_updated_at = sql_now \<rparr>
       in res_bind (store_schedule row config revision (upsert_automation row sql_now db)) (\<lambda>db2.
          res_bind (case previous of
              None \<Rightarrow> Inr db2
            | Some p \<Rightarrow> res_bind (insert_scheduler_event event_id (Some i) None SE_DefinitionSuperseded
                (Some ''cancelled'') ''Pending occurrences were cancelled because the definition changed''
                (Some (JObject [(''definitionRevision'', if is_schedule (si_trigger input)
                    then revision_json revision else JNull),
                  (''previousDefinitionRevision'', revision_json p),
                  (''resolution'', JString ''cancelled_pending_occurrences'')])) sql_now
                (supersede_revision sql_now i p db2)) (\<lambda>(_, db3). Inr db3))
            (\<lambda>db3. res_bind (get_workflow_automation env db3 i) (\<lambda>a. Inr (a, db3)))))))))"

definition save_workflow_automation_with_schedule_config ::
  "('c, 'm, 't, 'z) automation_env \<Rightarrow> save_input \<Rightarrow> schedule_config \<Rightarrow> int \<Rightarrow> string \<Rightarrow> string \<Rightarrow> string
     \<Rightarrow> automation_db \<Rightarrow> (core_error + workflow_automation) \<times> automation_db" where
  "save_workflow_automation_with_schedule_config env input config now new_id event_id sql_now db =
     in_transaction (save_body env input config now new_id event_id sql_now) db"

definition save_workflow_automation ::
  "('c, 'm, 't, 'z) automation_env \<Rightarrow> save_input \<Rightarrow> int \<Rightarrow> string \<Rightarrow> string \<Rightarrow> string
     \<Rightarrow> automation_db \<Rightarrow> (core_error + workflow_automation) \<times> automation_db" where
  "save_workflow_automation env input now new_id event_id sql_now db =
     save_workflow_automation_with_schedule_config env input default_schedule_config now new_id event_id sql_now db"

definition set_workflow_automation_enabled ::
  "('c, 'm, 't, 'z) automation_env \<Rightarrow> string \<Rightarrow> bool \<Rightarrow> int \<Rightarrow> string \<Rightarrow> string \<Rightarrow> string
     \<Rightarrow> automation_db \<Rightarrow> (core_error + workflow_automation) \<times> automation_db" where
  "set_workflow_automation_enabled env automation_id enabled now new_id event_id sql_now db =
     (case get_workflow_automation env db automation_id of
        Inl e \<Rightarrow> (Inl e, db)
      | Inr a \<Rightarrow> save_workflow_automation_with_schedule_config env
          \<lparr> si_id = Some (wa_id a), si_name = wa_name a, si_description = wa_description a,
            si_workflow_template_id = wa_workflow_template_id a, si_prompt = wa_prompt a,
            si_trigger = wa_trigger a, si_source_scope = wa_source_scope a,
            si_approval_policy = wa_approval_policy a, si_enabled = enabled \<rparr>
          (wa_schedule_config a) now new_id event_id sql_now db)"

text \<open>Deleting an automation; the foreign keys cascade to everything recorded for it.\<close>

definition delete_workflow_automation :: "string \<Rightarrow> automation_db \<Rightarrow> (core_error + unit) \<times> automation_db" where
  "delete_workflow_automation automation_id db = (
     if \<not> list_ex (\<lambda>a. wa_id a = automation_id) (ad_automations db)
     then (Inl (CE_NotFound (''Workflow automation '' @ automation_id)), db)
     else let gone = map oc_id (filter (\<lambda>o'. oc_automation_id o' = automation_id) (ad_occurrences db));
              runs = map rn_id (filter (\<lambda>r. rn_automation_id r = automation_id) (ad_runs db))
     in (Inr (), db \<lparr>
          ad_automations := filter (\<lambda>a. wa_id a \<noteq> automation_id) (ad_automations db),
          ad_configs := filter (\<lambda>c. cr_automation_id c \<noteq> automation_id) (ad_configs db),
          ad_definitions := filter (\<lambda>d. df_automation_id d \<noteq> automation_id) (ad_definitions db),
          ad_occurrences := filter (\<lambda>o'. oc_automation_id o' \<noteq> automation_id) (ad_occurrences db),
          ad_origins := filter (\<lambda>g. or_occurrence_id g \<notin> set gone) (ad_origins db),
          ad_approvals := filter (\<lambda>v. av_occurrence_id v \<notin> set gone) (ad_approvals db),
          ad_runs := update_rows (\<lambda>r. \<exists>i \<in> set_option (rn_occurrence_id r). i \<in> set gone)
            (\<lambda>r. r \<lparr> rn_occurrence_id := None \<rparr>)
            (filter (\<lambda>r. rn_automation_id r \<noteq> automation_id) (ad_runs db)),
          ad_scheduler_events := update_rows (\<lambda>e. \<exists>i \<in> set_option (se_run_id e). i \<in> set runs)
            (\<lambda>e. e \<lparr> se_run_id := None \<rparr>)
            (filter (\<lambda>e. se_automation_id e \<noteq> Some automation_id) (ad_scheduler_events db)) \<rparr>))"

section \<open>What is due\<close>

definition workflow_automation_run_now_due_at ::
  "('c, 'm, 't, 'z) automation_env \<Rightarrow> automation_db \<Rightarrow> string \<Rightarrow> string \<Rightarrow> core_error + due_run" where
  "workflow_automation_run_now_due_at env db automation_id now_rfc3339 =
     (case parse_utc_timestamp env now_rfc3339 of
        None \<Rightarrow> Inl (CE_InvalidInput (''Invalid workflow run-now time '' @ quoted now_rfc3339))
      | Some now \<Rightarrow>
          res_bind (get_workflow_automation env db automation_id) (\<lambda>a.
            if \<not> wa_enabled a then Inl (CE_InvalidInput
              (''Workflow automation '' @ quoted automation_id @ '' is disabled''))
            else if \<not> is_schedule (wa_trigger a) then Inl (CE_InvalidInput
              (''Workflow automation '' @ quoted automation_id @ '' is not scheduled''))
            else Inr \<lparr> dr_automation = a, dr_prompt = automation_prompt a,
              dr_due_reason = ''manual run requested'',
              dr_scheduled_for = Some (ae_to_rfc3339 env now), dr_origin = OriginManualRunNow \<rparr>))"

text \<open>SQL compares the texts of instants, and treats a missing one as unknown.\<close>

definition text_due :: "string option \<Rightarrow> string \<Rightarrow> bool" where
  "text_due text now = (case text of None \<Rightarrow> True | Some t \<Rightarrow> t \<le> now)"

definition manual_occurrence_due :: "automation_db \<Rightarrow> string \<Rightarrow> string \<Rightarrow> occurrence \<Rightarrow> bool" where
  "manual_occurrence_due db automation_id now o' \<longleftrightarrow>
     oc_automation_id o' = automation_id
     \<and> (\<exists>g \<in> set_option (find_origin db (oc_id o')). or_origin g = OriginManualRunNow)
     \<and> (oc_status o' = OS_Planned
        \<or> (oc_status o' = OS_Claimed \<and> text_due (oc_lease_expires_at o') now)
        \<or> (oc_status o' = OS_RetryWait \<and> text_due (oc_retry_at o') now))"

fun oldest_occurrence :: "occurrence list \<Rightarrow> occurrence option" where
  "oldest_occurrence [] = None"
| "oldest_occurrence (x # xs) = (case oldest_occurrence xs of
     None \<Rightarrow> Some x
   | Some y \<Rightarrow> if oc_created_at y < oc_created_at x \<or> (oc_created_at x = oc_created_at y \<and> oc_id y < oc_id x)
               then Some y else Some x)"

definition row_due :: "automation_db \<Rightarrow> string \<Rightarrow> automation_row \<Rightarrow> bool" where
  "row_due db now a \<longleftrightarrow> wa_enabled a \<and> wa_status a \<noteq> ''waiting_approval''
     \<and> (wa_trigger_kind a = ''schedule'' \<or> wa_trigger_kind a = ''folder'')
     \<and> (wa_trigger_kind a = ''folder'' \<or> (\<exists>t \<in> set_option (wa_next_run_at a). t \<le> now)
        \<or> list_ex (manual_occurrence_due db (wa_id a) now) (ad_occurrences db))"

definition due_of_automation ::
  "(automation_trigger \<Rightarrow> string option \<Rightarrow> core_error + bool) \<Rightarrow> automation_db \<Rightarrow> string
     \<Rightarrow> workflow_automation \<Rightarrow> core_error + due_run option" where
  "due_of_automation folder_trigger_due db now a = (
     let due = (\<lambda>reason scheduled_for origin. Some \<lparr> dr_automation = a, dr_prompt = automation_prompt a,
           dr_due_reason = reason, dr_scheduled_for = scheduled_for, dr_origin = origin \<rparr>)
     in if \<not> wa_enabled a then Inr None
     else case wa_trigger a of
       TriggerSchedule _ \<Rightarrow>
         (case oldest_occurrence (filter (manual_occurrence_due db (wa_id a) now) (ad_occurrences db)) of
            Some o' \<Rightarrow> Inr (due ''manual run requested'' (Some (oc_scheduled_for o')) OriginManualRunNow)
          | None \<Rightarrow> Inr (due (trigger_label (wa_trigger a)) (wa_next_run_at a) OriginSchedule))
     | TriggerFolder _ _ \<Rightarrow>
         res_bind (folder_trigger_due (wa_trigger a) (wa_last_run_at a)) (\<lambda>matched.
           if \<not> matched then Inr None
           else Inr (due ''folder trigger matched a new or updated file'' (wa_next_run_at a) OriginSchedule))
     | TriggerManual \<Rightarrow> Inr None)"

fun collect_due ::
  "('a \<Rightarrow> core_error + 'b option) \<Rightarrow> 'a list \<Rightarrow> core_error + 'b list" where
  "collect_due f [] = Inr []"
| "collect_due f (x # xs) = res_bind (f x) (\<lambda>y. res_bind (collect_due f xs) (\<lambda>ys.
     Inr (case y of None \<Rightarrow> ys | Some v \<Rightarrow> v # ys)))"

definition list_due_workflow_automations ::
  "('c, 'm, 't, 'z) automation_env \<Rightarrow> (automation_trigger \<Rightarrow> string option \<Rightarrow> core_error + bool)
     \<Rightarrow> automation_db \<Rightarrow> string \<Rightarrow> core_error + due_run list" where
  "list_due_workflow_automations env folder_trigger_due db now =
     collect_due (due_of_automation folder_trigger_due db now)
       (map (\<lambda>a. automation_from_row env (map_option cr_config (config_row_of db (wa_id a))) a)
         (take 100 (sort_key (\<lambda>a. unwrap_or (wa_updated_at a) (wa_next_run_at a))
           (sort_key wa_name (filter (row_due db now) (ad_automations db))))))"

definition claim_due_workflow_automation_run ::
  "('c, 'm, 't, 'z) automation_env \<Rightarrow> (automation_trigger \<Rightarrow> string option \<Rightarrow> core_error + bool)
     \<Rightarrow> string \<Rightarrow> string \<Rightarrow> string option \<Rightarrow> fresh_ids \<Rightarrow> string
     \<Rightarrow> automation_db \<Rightarrow> (core_error + due_run_claim) \<times> automation_db" where
  "claim_due_workflow_automation_run env folder_trigger_due automation_id now summary ids sql_now db =
     (case list_due_workflow_automations env folder_trigger_due db now of
        Inl e \<Rightarrow> (Inl e, db)
      | Inr due \<Rightarrow> (case find (\<lambda>d. wa_id (dr_automation d) = automation_id) due of
          None \<Rightarrow> (Inl (CE_InvalidInput
            (''Workflow automation '' @ quoted automation_id @ '' is not currently due.'')), db)
        | Some d \<Rightarrow> claim_workflow_automation_due_run_at env d now summary ids sql_now db))"

section \<open>Retries of runs without an occurrence\<close>

record retry_decision =
  rd_allowed :: bool
  rd_max_attempts :: nat
  rd_attempts_exhausted :: bool
  rd_retryable_failure_count :: nat
  rd_last_retryable_event_type :: "string option"
  rd_last_retryable_event_at :: "string option"
  rd_backoff_seconds :: "int option"
  rd_backoff_until :: "string option"
  rd_retry_after_seconds :: "int option"

fun parse_event_times ::
  "('c, 'm, 't, 'z) automation_env \<Rightarrow> scheduler_event list \<Rightarrow> core_error + (int \<times> scheduler_event) list" where
  "parse_event_times env [] = Inr []"
| "parse_event_times env (e # es) = (case parse_utc_timestamp env (se_created_at e) of
     None \<Rightarrow> Inl (CE_InvalidInput (''Invalid scheduler event timestamp '' @ quoted (se_created_at e)))
   | Some t \<Rightarrow> res_bind (parse_event_times env es) (\<lambda>rest. Inr ((t, e) # rest)))"

text \<open>Newest first; events of the same instant by descending identifier.\<close>

definition newest_first :: "(int \<times> scheduler_event) list \<Rightarrow> (int \<times> scheduler_event) list" where
  "newest_first events = rev (sort_key fst (sort_key (se_id \<circ> snd) (rev events)))"

text \<open>The newest failures in a row, where the audit events of skipped retries do not count.\<close>

fun failure_streak :: "(int \<times> scheduler_event) list \<Rightarrow> (int \<times> scheduler_event) list" where
  "failure_streak [] = []"
| "failure_streak ((t, e) # events) = (case event_type_parse (se_event_type e) of
     None \<Rightarrow> []
   | Some k \<Rightarrow> if is_retry_audit_only k then failure_streak events
       else if \<not> is_retryable_failure k then []
       else (t, e) # failure_streak events)"

definition retry_decision_from_events ::
  "('c, 'm, 't, 'z) automation_env \<Rightarrow> scheduler_event list \<Rightarrow> string \<Rightarrow> core_error + retry_decision" where
  "retry_decision_from_events env events now_rfc3339 = (case parse_utc_timestamp env now_rfc3339 of
     None \<Rightarrow> Inl (CE_InvalidInput (''Invalid scheduler retry decision timestamp '' @ quoted now_rfc3339))
   | Some now \<Rightarrow>
       res_bind (parse_event_times env events) (\<lambda>timed.
         let streak = failure_streak (newest_first timed); count = length streak;
             decision = (\<lambda>allowed exhausted backoff until after. \<lparr> rd_allowed = allowed,
               rd_max_attempts = SCHEDULER_RETRY_MAX_ATTEMPTS,
               rd_attempts_exhausted = exhausted, rd_retryable_failure_count = count,
               rd_last_retryable_event_type = (case streak of [] \<Rightarrow> None | (t, e) # _ \<Rightarrow>
                 map_option event_type_as_str (event_type_parse (se_event_type e))),
               rd_last_retryable_event_at = (case streak of [] \<Rightarrow> None | (t, e) # _ \<Rightarrow> Some (se_created_at e)),
               rd_backoff_seconds = backoff, rd_backoff_until = until, rd_retry_after_seconds = after \<rparr>)
         in Inr (case (scheduler_retry_backoff_seconds count, streak) of
              (Some backoff, (last_failure, _) # _) \<Rightarrow>
                if SCHEDULER_RETRY_MAX_ATTEMPTS \<le> count
                then decision False True (Some backoff) None None
                else let until = last_failure + nanos backoff;
                  after = (if now < until then Some (max 1 ((until - now) div nanos 1)) else None)
                in decision (after = None) False (Some backoff) (Some (ae_to_rfc3339 env until)) after
            | _ \<Rightarrow> decision True False None None None)))"

section \<open>Lists and events\<close>

definition SCHEDULER_RETRY_EVENT_LOOKBACK_LIMIT :: nat where "SCHEDULER_RETRY_EVENT_LOOKBACK_LIMIT = 50"

text \<open>\<open>ORDER BY datetime(created_at) ASC, id ASC\<close> and its reverse.\<close>

definition oldest_first :: "('a \<Rightarrow> string) \<Rightarrow> ('a \<Rightarrow> string) \<Rightarrow> 'a list \<Rightarrow> 'a list" where
  "oldest_first created_at key rows = sort_key created_at (sort_key key rows)"

definition clamp_limit :: "nat \<Rightarrow> nat" where
  "clamp_limit limit = max 1 (min limit 500)"

definition workflow_automation_has_active_run :: "automation_db \<Rightarrow> string \<Rightarrow> bool" where
  "workflow_automation_has_active_run db automation_id =
     list_ex (\<lambda>r. rn_automation_id r = automation_id \<and> rn_task_run_id r \<noteq> None
       \<and> rn_status r \<in> set [RS_Running, RS_WaitingApproval, RS_Paused, RS_Resuming, RS_Cancelling]) (ad_runs db)"

definition get_workflow_automation_run_for_task_run :: "automation_db \<Rightarrow> string \<Rightarrow> automation_run option" where
  "get_workflow_automation_run_for_task_run db task_run_id =
     (case rev (oldest_first rn_created_at rn_id (filter (\<lambda>r. rn_task_run_id r = Some task_run_id) (ad_runs db)))
      of [] \<Rightarrow> None | r # _ \<Rightarrow> Some r)"

definition list_workflow_automation_runs_waiting_approval :: "automation_db \<Rightarrow> automation_run list" where
  "list_workflow_automation_runs_waiting_approval db =
     oldest_first rn_created_at rn_id (filter (\<lambda>r. rn_status r = RS_WaitingApproval
       \<and> (\<exists>i \<in> set_option (rn_occurrence_id r). list_ex (\<lambda>v. av_occurrence_id v = i
            \<and> av_state v = ApprovalPending) (ad_approvals db))) (ad_runs db))"

text \<open>\<open>ORDER BY enabled DESC, updated_at DESC, name ASC\<close>.\<close>

definition list_workflow_automations ::
  "('c, 'm, 't, 'z) automation_env \<Rightarrow> automation_db \<Rightarrow> workflow_automation list" where
  "list_workflow_automations env db =
     map (\<lambda>a. automation_from_row env (map_option cr_config (config_row_of db (wa_id a))) a)
       (sort_key (\<lambda>a. \<not> wa_enabled a)
         (rev (sort_key wa_updated_at (rev (sort_key wa_name (ad_automations db))))))"

definition preview_workflow_automation_prompt ::
  "('c, 'm, 't, 'z) automation_env \<Rightarrow> automation_db \<Rightarrow> string \<Rightarrow> core_error + string" where
  "preview_workflow_automation_prompt env db i =
     res_bind (get_workflow_automation env db i) (\<lambda>a. Inr (automation_prompt a))"

definition get_workflow_automation_scheduler_event :: "automation_db \<Rightarrow> string \<Rightarrow> core_error + scheduler_event" where
  "get_workflow_automation_scheduler_event db i = (case find (\<lambda>e. se_id e = i) (ad_scheduler_events db) of
     None \<Rightarrow> Inl (CE_NotFound (''Workflow automation scheduler event '' @ i))
   | Some e \<Rightarrow> Inr e)"

definition record_event_body ::
  "string \<Rightarrow> string option \<Rightarrow> string option \<Rightarrow> scheduler_event_type \<Rightarrow> string option \<Rightarrow> string
     \<Rightarrow> json option \<Rightarrow> string \<Rightarrow> automation_db \<Rightarrow> core_error + scheduler_event \<times> automation_db" where
  "record_event_body event_id automation_id run_id event_type status summary payload sql_now db =
     res_bind (insert_scheduler_event event_id automation_id run_id event_type status summary payload sql_now db)
       (\<lambda>(i, db'). res_bind (get_workflow_automation_scheduler_event db' i) (\<lambda>e. Inr (e, db')))"

definition record_workflow_automation_scheduler_event ::
  "string \<Rightarrow> string option \<Rightarrow> string option \<Rightarrow> scheduler_event_type \<Rightarrow> string option \<Rightarrow> string
     \<Rightarrow> json option \<Rightarrow> string \<Rightarrow> automation_db \<Rightarrow> (core_error + scheduler_event) \<times> automation_db" where
  "record_workflow_automation_scheduler_event event_id automation_id run_id event_type status summary payload
     sql_now db = in_transaction
       (record_event_body event_id automation_id run_id event_type status summary payload sql_now) db"

definition list_workflow_automation_scheduler_events ::
  "automation_db \<Rightarrow> string option \<Rightarrow> nat \<Rightarrow> scheduler_event list" where
  "list_workflow_automation_scheduler_events db automation_id limit =
     take (clamp_limit limit) (rev (oldest_first se_created_at se_id
       (filter (\<lambda>e. case automation_id of None \<Rightarrow> True | Some i \<Rightarrow> se_automation_id e = Some i)
         (ad_scheduler_events db))))"

definition workflow_automation_scheduler_retry_decision ::
  "('c, 'm, 't, 'z) automation_env \<Rightarrow> automation_db \<Rightarrow> string \<Rightarrow> string \<Rightarrow> core_error + retry_decision" where
  "workflow_automation_scheduler_retry_decision env db automation_id now_rfc3339 =
     (if trim automation_id = [] then Inl (CE_InvalidInput
        ''Workflow automation id is required for scheduler retry decision'')
      else retry_decision_from_events env (list_workflow_automation_scheduler_events db
        (Some (trim automation_id)) SCHEDULER_RETRY_EVENT_LOOKBACK_LIMIT) now_rfc3339)"

definition list_workflow_automation_scheduler_events_for_run ::
  "automation_db \<Rightarrow> string \<Rightarrow> nat \<Rightarrow> scheduler_event list" where
  "list_workflow_automation_scheduler_events_for_run db run_id limit =
     (if trim run_id = [] then []
      else take (clamp_limit limit) (oldest_first se_created_at se_id
        (filter (\<lambda>e. se_run_id e = Some (trim run_id)) (ad_scheduler_events db))))"

definition list_workflow_automation_scheduler_events_for_task_run ::
  "automation_db \<Rightarrow> string \<Rightarrow> nat \<Rightarrow> scheduler_event list" where
  "list_workflow_automation_scheduler_events_for_task_run db task_run_id limit =
     (if trim task_run_id = [] then []
      else take (clamp_limit limit) (oldest_first se_created_at se_id
        (filter (\<lambda>e. \<exists>i \<in> set_option (se_run_id e). list_ex (\<lambda>r. rn_id r = i
           \<and> rn_task_run_id r = Some (trim task_run_id)) (ad_runs db)) (ad_scheduler_events db))))"

section \<open>The ledger as a machine\<close>

text \<open>
  The operations in any order, with their arguments, on a database that other parts of the host
  only extend by agent task runs.
\<close>

datatype automation_op =
    OpClaim due_run string "string option" fresh_ids string
  | OpRecord string "string option" string "string option" string string
  | OpStart string string "string option" string string
  | OpLaunchFailed string string string string
  | OpTransition string string "string option" string
  | OpConverge string string string
  | OpWaitApproval string string string
  | OpResolve bool string string string string string
  | OpSave save_input schedule_config int string string string
  | OpDelete string
  | OpEvent string "string option" "string option" scheduler_event_type "string option" string "json option" string
  | OpTaskRun string

definition automation_step ::
  "('c, 'm, 't, 'z) automation_env \<Rightarrow> automation_op \<Rightarrow> automation_db \<Rightarrow> automation_db" where
  "automation_step env x db = (case x of
     OpClaim due now summary ids sql_now \<Rightarrow>
       snd (claim_workflow_automation_due_run_at env due now summary ids sql_now db)
   | OpRecord automation_id task_run_id status summary run_id sql_now \<Rightarrow>
       snd (in_transaction (record_workflow_automation_run env automation_id task_run_id status summary
         run_id sql_now) db)
   | OpStart run_id task_run_id summary now sql_now \<Rightarrow>
       snd (start_workflow_automation_run_at env run_id task_run_id summary now sql_now db)
   | OpLaunchFailed run_id error now sql_now \<Rightarrow>
       snd (mark_workflow_automation_launch_failed_for_retry env run_id error now sql_now db)
   | OpTransition run_id status summary sql_now \<Rightarrow>
       snd (transition_workflow_automation_run run_id status summary sql_now db)
   | OpConverge task_run_id status sql_now \<Rightarrow> converge_workflow_run_terminal task_run_id status sql_now db
   | OpWaitApproval run_id event_id sql_now \<Rightarrow>
       snd (mark_workflow_automation_run_waiting_approval run_id event_id sql_now db)
   | OpResolve approve run_id now token event_id sql_now \<Rightarrow>
       snd (resolve_workflow_automation_approval_at env approve run_id now token event_id sql_now db)
   | OpSave input config now new_id event_id sql_now \<Rightarrow>
       snd (save_workflow_automation_with_schedule_config env input config now new_id event_id sql_now db)
   | OpDelete automation_id \<Rightarrow> snd (delete_workflow_automation automation_id db)
   | OpEvent event_id automation_id run_id event_type status summary payload sql_now \<Rightarrow>
       snd (record_workflow_automation_scheduler_event event_id automation_id run_id event_type status summary
         payload sql_now db)
   | OpTaskRun task_run_id \<Rightarrow> db \<lparr> ad_task_runs := ad_task_runs db @ [task_run_id] \<rparr>)"

definition empty_automation_db :: automation_db where
  "empty_automation_db = \<lparr> ad_automations = [], ad_configs = [], ad_definitions = [], ad_occurrences = [],
     ad_origins = [], ad_approvals = [], ad_runs = [], ad_scheduler_events = [], ad_task_runs = [] \<rparr>"

end
