(* ===== verification/Automation_Invariant.thy ===== *)
theory Automation_Invariant
  imports Automation_Ledger
begin

text \<open>
  The invariant of the automation ledger. Whatever operations run, in any order, keys stay unique,
  every run of an occurrence holds an attempt of its own within the retry limit, and the
  occurrence's counter covers it. As long as only a run that is still open reports for its
  occurrence, an occurrence has at most one open run, and it is the one of the latest attempt.
\<close>

section \<open>Rows\<close>

abbreviation open_run :: "automation_run \<Rightarrow> bool" where
  "open_run r \<equiv> rn_status r \<in> set active_run_statuses"

definition occurrences_ok :: "occurrence list \<Rightarrow> bool" where
  "occurrences_ok occs \<longleftrightarrow> distinct (map oc_id occs)
     \<and> (\<forall>p \<in> set occs. unat (oc_attempt_count p) \<le> SCHEDULER_RETRY_MAX_ATTEMPTS)"

definition runs_attached :: "automation_run list \<Rightarrow> occurrence list \<Rightarrow> bool" where
  "runs_attached runs occs \<longleftrightarrow> distinct (map rn_id runs)
     \<and> (\<forall>r \<in> set runs. \<forall>i. rn_occurrence_id r = Some i \<longrightarrow>
          1 \<le> rn_attempt r \<and> (\<exists>p \<in> set occs. oc_id p = i \<and> rn_attempt r \<le> oc_attempt_count p))
     \<and> (\<forall>r \<in> set runs. \<forall>r' \<in> set runs. rn_occurrence_id r \<noteq> None
          \<and> rn_occurrence_id r = rn_occurrence_id r' \<and> rn_attempt r = rn_attempt r' \<longrightarrow> r = r')"

definition ledger_ok :: "automation_db \<Rightarrow> bool" where
  "ledger_ok db \<longleftrightarrow> occurrences_ok (ad_occurrences db) \<and> runs_attached (ad_runs db) (ad_occurrences db)"

text \<open>One open run per occurrence, the run of its current attempt, and consistent with its status.\<close>

definition holds_occurrence :: "automation_run \<Rightarrow> occurrence \<Rightarrow> bool" where
  "holds_occurrence r p \<longleftrightarrow> rn_attempt r = oc_attempt_count p
     \<and> oc_status p \<noteq> OS_Planned \<and> oc_status p \<noteq> OS_RetryWait
     \<and> (oc_status p = OS_Claimed \<longrightarrow> rn_status r = RS_Queued)"

definition single_flight :: "automation_db \<Rightarrow> bool" where
  "single_flight db \<longleftrightarrow> (\<forall>p \<in> set (ad_occurrences db). \<forall>r \<in> set (ad_runs db).
     rn_occurrence_id r = Some (oc_id p) \<and> open_run r \<longrightarrow> holds_occurrence r p)"

lemma set_update_rows: "set (update_rows q f xs) = (\<lambda>x. if q x then f x else x) ` set xs"
  by (simp add: update_rows_def)

lemma map_key_update:
  "(\<And>x. x \<in> set xs \<Longrightarrow> q x \<Longrightarrow> key (f x) = key x) \<Longrightarrow> map key (update_rows q f xs) = map key xs"
  by (simp add: update_rows_def)

lemma occurrences_ok_update:
  assumes "occurrences_ok occs"
    and "\<And>p. p \<in> set occs \<Longrightarrow> q p \<Longrightarrow> oc_id (f p) = oc_id p
        \<and> unat (oc_attempt_count (f p)) \<le> SCHEDULER_RETRY_MAX_ATTEMPTS"
  shows "occurrences_ok (update_rows q f occs)"
  using assms map_key_update [of occs q oc_id f]
  by (auto simp: occurrences_ok_def set_update_rows)

text \<open>Updates that keep the keys of both tables.\<close>

lemma runs_attached_update_runs:
  assumes ok: "runs_attached runs occs"
    and keys: "\<And>r. rn_id (f r) = rn_id r \<and> rn_occurrence_id (f r) = rn_occurrence_id r \<and> rn_attempt (f r) = rn_attempt r"
  shows "runs_attached (update_rows q f runs) occs"
proof -
  define g where "g = (\<lambda>r. if q r then f r else r)"
  have g: "rn_id (g r) = rn_id r" "rn_occurrence_id (g r) = rn_occurrence_id r" "rn_attempt (g r) = rn_attempt r" for r
    using keys by (simp_all add: g_def)
  have rows: "update_rows q f runs = map g runs" by (simp add: update_rows_def g_def)
  have ids: "map rn_id (map g runs) = map rn_id runs" by (simp add: g)
  show ?thesis
    using ok unfolding runs_attached_def rows ids by (simp add: g) metis
qed

lemma runs_attached_update_occurrences:
  assumes ok: "runs_attached runs occs"
    and keys: "\<And>p. p \<in> set occs \<Longrightarrow> q p \<Longrightarrow> oc_id (f p) = oc_id p \<and> oc_attempt_count p \<le> oc_attempt_count (f p)"
  shows "runs_attached runs (update_rows q f occs)"
proof -
  have cover: "\<exists>p' \<in> set (update_rows q f occs). oc_id p' = i \<and> a \<le> oc_attempt_count p'"
    if "\<exists>p \<in> set occs. oc_id p = i \<and> a \<le> oc_attempt_count p" for i a
  proof -
    from that obtain p where p: "p \<in> set occs" "oc_id p = i" "a \<le> oc_attempt_count p" by blast
    let ?p = "if q p then f p else p"
    have "?p \<in> set (update_rows q f occs)" using p by (simp add: set_update_rows)
    moreover have "oc_id ?p = i" "a \<le> oc_attempt_count ?p" using p keys [of p] by auto
    ultimately show ?thesis by blast
  qed
  from ok show ?thesis unfolding runs_attached_def using cover by blast
qed

lemma ledger_ok_update_runs:
  assumes "ledger_ok db"
    and "\<And>r. rn_id (f r) = rn_id r \<and> rn_occurrence_id (f r) = rn_occurrence_id r \<and> rn_attempt (f r) = rn_attempt r"
  shows "ledger_ok (update_runs q f db)"
  using assms runs_attached_update_runs [of "ad_runs db" "ad_occurrences db" f q]
  by (simp add: ledger_ok_def update_runs_def)

lemma ledger_ok_update_occurrences:
  assumes "ledger_ok db"
    and "\<And>p. oc_id (f p) = oc_id p \<and> oc_attempt_count (f p) = oc_attempt_count p"
  shows "ledger_ok (update_occurrences q f db)"
  using assms runs_attached_update_occurrences [of "ad_runs db" "ad_occurrences db" q f]
    occurrences_ok_update [of "ad_occurrences db" q f]
  by (auto simp: ledger_ok_def update_occurrences_def occurrences_ok_def)

text \<open>Both invariants read only the runs and the occurrences.\<close>

lemma ledger_ok_cong:
  "\<lbrakk> ad_occurrences db' = ad_occurrences db; ad_runs db' = ad_runs db \<rbrakk> \<Longrightarrow> ledger_ok db' = ledger_ok db"
  by (simp add: ledger_ok_def)

lemma single_flight_cong:
  "\<lbrakk> ad_occurrences db' = ad_occurrences db; ad_runs db' = ad_runs db \<rbrakk> \<Longrightarrow> single_flight db' = single_flight db"
  by (simp add: single_flight_def)

lemma tables_of_updates [simp, frame_simps]:
  "ad_runs (update_automation s i f db) = ad_runs db"
  "ad_occurrences (update_automation s i f db) = ad_occurrences db"
  "ad_occurrences (update_runs q g db) = ad_occurrences db"
  "ad_runs (update_occurrences q' h db) = ad_runs db"
  "ad_runs (update_runs q g db) = update_rows q g (ad_runs db)"
  "ad_occurrences (update_occurrences q' h db) = update_rows q' h (ad_occurrences db)"
  by (simp_all add: update_automation_def update_runs_def update_occurrences_def)

lemma without_lease_simps [simp]:
  "oc_id (without_lease p) = oc_id p" "oc_attempt_count (without_lease p) = oc_attempt_count p"
  "oc_status (without_lease p) = oc_status p"
  by (simp_all add: without_lease_def)

lemma cancel_run_simps [simp]:
  "rn_id (cancel_run s w r) = rn_id r" "rn_occurrence_id (cancel_run s w r) = rn_occurrence_id r"
  "rn_attempt (cancel_run s w r) = rn_attempt r" "rn_status (cancel_run s w r) = RS_Cancelled"
  by (simp_all add: cancel_run_def)

lemma find_run_SomeD: "find_run db i = Some r \<Longrightarrow> r \<in> set (ad_runs db) \<and> rn_id r = i"
  unfolding find_run_def by (drule find_SomeD) simp

lemma find_occurrence_SomeD: "find_occurrence db i = Some p \<Longrightarrow> p \<in> set (ad_occurrences db) \<and> oc_id p = i"
  unfolding find_occurrence_def by (drule find_SomeD) simp

lemma insert_row_ok_iff:
  "insert_row clash x rows = Inr rows' \<longleftrightarrow> (\<forall>y \<in> set rows. \<not> clash y) \<and> rows' = rows @ [x]"
  by (auto simp: insert_row_def list_ex_iff)

lemma in_transaction_snd:
  "snd (in_transaction body db) = (case body db of Inl e \<Rightarrow> db | Inr (x, db') \<Rightarrow> db')"
  by (simp add: in_transaction_def split: sum.splits prod.splits)

lemma in_transaction_keeps:
  assumes "P db" and "\<And>x db'. body db = Inr (x, db') \<Longrightarrow> P db'"
  shows "P (snd (in_transaction body db))"
  using assms by (auto simp: in_transaction_snd split: sum.splits)

lemma insert_scheduler_event_tables:
  "insert_scheduler_event e a r t s m p n db = Inr (x, db') \<Longrightarrow>
     ad_runs db' = ad_runs db \<and> ad_occurrences db' = ad_occurrences db"
  by (auto simp: insert_scheduler_event_def split: if_splits)

section \<open>Claims\<close>

lemma newest_occurrence_in: "newest_occurrence xs = Some x \<Longrightarrow> x \<in> set xs"
  by (induction xs arbitrary: x) (auto split: option.splits if_splits)

lemma pending_occurrence_in:
  "pending_occurrence db a v g c = Some p \<Longrightarrow> p \<in> set (ad_occurrences db)"
  by (auto simp: pending_occurrence_def dest!: newest_occurrence_in split: option.splits if_splits)

lemma recorded_occurrence_in:
  "recorded_occurrence db a v s g = Some p \<Longrightarrow> p \<in> set (ad_occurrences db)"
  unfolding recorded_occurrence_def by (drule find_SomeD) simp

lemma insert_or_ignore_approval_tables [simp]:
  "ad_runs (insert_or_ignore_approval i v db) = ad_runs db"
  "ad_occurrences (insert_or_ignore_approval i v db) = ad_occurrences db"
  by (simp_all add: insert_or_ignore_approval_def)

lemma insert_occurrence_tables:
  "insert_occurrence p g db = Inr db' \<Longrightarrow> ad_runs db' = ad_runs db
     \<and> ad_occurrences db' = ad_occurrences db @ [p] \<and> oc_id p \<notin> oc_id ` set (ad_occurrences db)"
  by (auto simp: insert_occurrence_def insert_row_ok_iff)

lemma locate_claim_pending:
  assumes "locate_claim env due c now db = Inr t" "ct_pending t = Some p"
  shows "p \<in> set (ad_occurrences db)"
proof -
  obtain due' v where refresh: "refresh_due_run env due db = Inr (due', v)"
    using assms(1) by (cases "refresh_due_run env due db") (auto simp: locate_claim_def)
  define pend where "pend = pending_occurrence db (wa_id (dr_automation due')) v (dr_origin due') c"
  have "ct_pending t = pend"
    using assms(1)
    by (auto simp: locate_claim_def refresh Let_def res_bind_ok_iff pend_def split: if_splits option.splits)
  with assms(2) pend_def show ?thesis by (metis pending_occurrence_in)
qed

text \<open>A prepared claim is on a recorded occurrence, or on a new planned one without attempts.\<close>

lemma prepare_claim_tables:
  assumes "prepare_workflow_occurrence_claim env due c now new_id s db = Inr (pc, db1)"
  shows "ad_runs db1 = ad_runs db
    \<and> (case pc_existing pc of
         Some p \<Rightarrow> p \<in> set (ad_occurrences db) \<and> oc_id p = pc_occurrence_id pc
           \<and> ad_occurrences db1 = ad_occurrences db
       | None \<Rightarrow> pc_occurrence_id pc \<notin> oc_id ` set (ad_occurrences db)
           \<and> (\<exists>p. oc_id p = pc_occurrence_id pc \<and> oc_attempt_count p = 0 \<and> oc_status p = OS_Planned
                \<and> ad_occurrences db1 = ad_occurrences db @ [p]))"
proof -
  obtain t where t: "locate_claim env due c now db = Inr t"
    using assms by (cases "locate_claim env due c now db") (auto simp: prepare_workflow_occurrence_claim_def)
  define found where "found = (case ct_pending t of Some p \<Rightarrow> Some p
    | None \<Rightarrow> recorded_occurrence db (wa_id (dr_automation (ct_due t))) (ct_revision t)
        (ct_scheduled_for t) (dr_origin (ct_due t)))"
  have member: "p \<in> set (ad_occurrences db)" if "found = Some p" for p
    using that locate_claim_pending [OF t]
    by (auto simp: found_def dest: recorded_occurrence_in split: option.splits)
  show ?thesis
  proof (cases found)
    case (Some p)
    with assms member [of p] show ?thesis
      by (simp add: prepare_workflow_occurrence_claim_def t Let_def found_def [symmetric]) auto
  next
    case None
    with assms show ?thesis
      by (simp add: prepare_workflow_occurrence_claim_def t Let_def found_def [symmetric])
         (auto simp: planned_occurrence_def dest!: insert_occurrence_tables)
  qed
qed

lemma existing_verdict_tables:
  "existing_verdict env pc now s db = Some (reason, db') \<Longrightarrow>
     ad_runs db' = ad_runs db \<and> ad_occurrences db' = ad_occurrences db"
  by (auto simp: existing_verdict_def set_next_run_def split: option.splits if_splits)

text \<open>
  A skipped claim leaves the keys alone and opens nothing; a queued claim has passed the checks on
  the recorded occurrence and closes the older queued attempts.
\<close>

lemma closed_occurrence_simps [simp]:
  assumes "f \<in> {skipped_for_overlap, attempts_exhausted, skipped_for_misfire}"
  shows "oc_id (f p) = oc_id p" "oc_attempt_count (f p) = oc_attempt_count p"
    "oc_status (f p) \<in> {OS_Skipped, OS_Failed}"
  using assms by (auto simp: skipped_for_overlap_def attempts_exhausted_def skipped_for_misfire_def)

lemma supersede_queued_tables [simp]:
  "ad_occurrences (supersede_queued pc a s db) = ad_occurrences db"
  by (simp add: supersede_queued_def)

text \<open>The effect of a skip on both tables, for some way of closing the occurrence.\<close>

definition claim_skipped :: "prepared_claim \<Rightarrow> string \<Rightarrow> automation_db \<Rightarrow> automation_db \<Rightarrow> bool" where
  "claim_skipped pc s db db' \<longleftrightarrow>
     (ad_runs db' = ad_runs db \<or> ad_runs db' = ad_runs (supersede_queued pc (next_attempt pc) s db))
     \<and> (ad_occurrences db' = ad_occurrences db
        \<or> (\<exists>f \<in> {skipped_for_overlap, attempts_exhausted, skipped_for_misfire}.
             ad_occurrences db' = update_rows (\<lambda>p. oc_id p = pc_occurrence_id pc) f (ad_occurrences db)))"

lemma decide_claim_cases:
  assumes "decide_workflow_occurrence_claim env pc now s db = Inr (d, db')"
  obtains (skip) reason where "d = ClaimSkip reason" "claim_skipped pc s db db'"
  | (queue) "d = ClaimQueue (next_attempt pc)" "existing_verdict env pc now s db = None"
      "unat (next_attempt pc) \<le> SCHEDULER_RETRY_MAX_ATTEMPTS"
      "db' = supersede_queued pc (next_attempt pc) s db"
proof (cases "existing_verdict env pc now s db")
  case (Some v)
  then obtain reason where "d = ClaimSkip reason" "ad_runs db' = ad_runs db" "ad_occurrences db' = ad_occurrences db"
    using assms by (cases v) (auto simp: decide_workflow_occurrence_claim_def dest: existing_verdict_tables)
  then show thesis by (intro skip) (simp_all add: claim_skipped_def)
next
  case None
  define overlap where "overlap \<longleftrightarrow> workflow_has_active_run db (wa_id (dr_automation (pc_due_run pc))) (pc_occurrence_id pc)
    \<and> sc_overlap_policy (wa_schedule_config (dr_automation (pc_due_run pc))) = OverlapSkip"
  obtain locked where locked: "workflow_has_isolated_source_lock db pc = Inr locked"
    using assms None
    by (cases "workflow_has_isolated_source_lock db pc") (simp_all add: decide_workflow_occurrence_claim_def)
  note eval = decide_workflow_occurrence_claim_def Let_def None locked overlap_def [symmetric]
    set_next_run_def close_occurrence_def claim_skipped_def
  consider "locked" | "\<not> locked" "overlap"
    | "\<not> locked" "\<not> overlap" "SCHEDULER_RETRY_MAX_ATTEMPTS < unat (next_attempt pc)"
    | "\<not> locked" "\<not> overlap" "unat (next_attempt pc) \<le> SCHEDULER_RETRY_MAX_ATTEMPTS"
      "misfire_expired pc (next_attempt pc) now"
    | "\<not> locked" "\<not> overlap" "unat (next_attempt pc) \<le> SCHEDULER_RETRY_MAX_ATTEMPTS"
      "\<not> misfire_expired pc (next_attempt pc) now"
    by fastforce
  then show thesis
  proof cases
    case 1
    with assms show thesis by (intro skip [of "''source_workspace_locked''"]) (auto simp: eval)
  next
    case 2
    with assms show thesis by (intro skip [of "''overlap_active''"]) (auto simp: eval)
  next
    case 3
    with assms show thesis by (intro skip [of "''retry_exhausted''"]) (auto simp: eval)
  next
    case 4
    with assms show thesis by (intro skip [of "''misfire_grace_exceeded''"]) (auto simp: eval)
  next
    case 5
    with assms None show thesis by (intro queue) (auto simp: eval)
  qed
qed

lemma insert_run_tables:
  "insert_run r db = Inr db' \<Longrightarrow> ad_runs db' = ad_runs db @ [r] \<and> ad_occurrences db' = ad_occurrences db
     \<and> (\<forall>r' \<in> set (ad_runs db). rn_id r' \<noteq> rn_id r
          \<and> (rn_occurrence_id r \<noteq> None \<and> rn_occurrence_id r' = rn_occurrence_id r \<longrightarrow> rn_attempt r' \<noteq> rn_attempt r))"
  by (auto simp: insert_run_def insert_row_ok_iff)

lemma ledger_ok_insert_run:
  assumes ok: "ledger_ok db" and ins: "insert_run r db = Inr db'"
    and covered: "\<And>i. rn_occurrence_id r = Some i \<Longrightarrow>
        1 \<le> rn_attempt r \<and> (\<exists>p \<in> set (ad_occurrences db). oc_id p = i \<and> rn_attempt r \<le> oc_attempt_count p)"
  shows "ledger_ok db'"
proof -
  note t = insert_run_tables [OF ins]
  have "rn_id r \<notin> set (map rn_id (ad_runs db))" using t by auto
  with ok t covered show ?thesis
    by (auto simp: ledger_ok_def runs_attached_def)
qed

lemma ledger_ok_insert_occurrence:
  assumes ok: "ledger_ok db" and tables: "ad_runs db' = ad_runs db" "ad_occurrences db' = ad_occurrences db @ [p]"
    and fresh: "oc_id p \<notin> oc_id ` set (ad_occurrences db)" "oc_attempt_count p = 0"
  shows "ledger_ok db'"
proof -
  have "occurrences_ok (ad_occurrences db')"
    using ok fresh by (simp add: ledger_ok_def tables occurrences_ok_def)
  moreover have "runs_attached (ad_runs db') (ad_occurrences db')"
    using ok unfolding ledger_ok_def runs_attached_def tables by auto
  ultimately show ?thesis by (simp add: ledger_ok_def)
qed

lemma prepare_claim_ledger_ok:
  assumes "ledger_ok db" "prepare_workflow_occurrence_claim env due c now new_id s db = Inr (pc, db1)"
  shows "ledger_ok db1"
  using assms(1) prepare_claim_tables [OF assms(2)] ledger_ok_insert_occurrence [OF assms(1), of db1]
  by (auto simp: ledger_ok_cong [of db1 db] split: option.splits)

lemma ledger_ok_supersede [intro]: "ledger_ok db \<Longrightarrow> ledger_ok (supersede_queued pc a s db)"
  by (auto simp: supersede_queued_def intro: ledger_ok_update_runs)

lemma claim_skipped_ledger_ok:
  assumes ok: "ledger_ok db" and skipped: "claim_skipped pc s db db'"
  shows "ledger_ok db'"
proof -
  obtain db1 where db1: "ledger_ok db1" "ad_runs db' = ad_runs db1" "ad_occurrences db1 = ad_occurrences db"
  proof -
    have "ad_runs db' = ad_runs db \<or> ad_runs db' = ad_runs (supersede_queued pc (next_attempt pc) s db)"
      using skipped by (simp add: claim_skipped_def)
    then show thesis
      using that [of db] that [of "supersede_queued pc (next_attempt pc) s db"] ok ledger_ok_supersede [OF ok]
      by auto
  qed
  from skipped consider "ad_occurrences db' = ad_occurrences db1"
    | f where "f \<in> {skipped_for_overlap, attempts_exhausted, skipped_for_misfire}"
      "ad_occurrences db' = ad_occurrences (update_occurrences (\<lambda>p. oc_id p = pc_occurrence_id pc) f db1)"
    by (auto simp: claim_skipped_def db1(3))
  then show ?thesis
  proof cases
    case 1
    with db1 show ?thesis by (simp add: ledger_ok_cong [of db' db1])
  next
    case (2 f)
    have "ledger_ok (update_occurrences (\<lambda>p. oc_id p = pc_occurrence_id pc) f db1)"
      using db1(1) 2(1) by (intro ledger_ok_update_occurrences) (simp_all only: closed_occurrence_simps simp_thms)
    with 2(2) db1(2) show ?thesis by (simp add: ledger_ok_def)
  qed
qed

text \<open>What a queued claim does to both tables.\<close>

lemma queue_claim_tables:
  assumes "queue_workflow_occurrence_claim pc a token expiry summary run_id s db = Inr ((r, p), db')"
  shows "rn_id r = run_id \<and> rn_occurrence_id r = Some (pc_occurrence_id pc) \<and> rn_attempt r = a \<and> rn_status r = RS_Queued
    \<and> (\<exists>db2. insert_run r (update_occurrences (\<lambda>q. oc_id q = pc_occurrence_id pc)
          (\<lambda>q. q \<lparr> oc_status := OS_Claimed, oc_attempt_count := a, oc_retry_at := None,
             oc_lease_token := Some token, oc_lease_expires_at := Some expiry \<rparr>) db) = Inr db2
        \<and> ad_runs db' = ad_runs db2 \<and> ad_occurrences db' = ad_occurrences db2)"
proof -
  from assms obtain q db2 where q: "insert_run q (update_occurrences (\<lambda>q. oc_id q = pc_occurrence_id pc)
          (\<lambda>q. q \<lparr> oc_status := OS_Claimed, oc_attempt_count := a, oc_retry_at := None,
             oc_lease_token := Some token, oc_lease_expires_at := Some expiry \<rparr>) db) = Inr db2"
      "rn_id q = run_id" "rn_occurrence_id q = Some (pc_occurrence_id pc)" "rn_attempt q = a" "rn_status q = RS_Queued"
    and db': "ad_runs db' = ad_runs db2" "ad_occurrences db' = ad_occurrences db2"
    and fetched: "find_run db' run_id = Some r"
    by (auto simp: queue_workflow_occurrence_claim_def Let_def res_bind_ok_iff fetch_workflow_run_def
        split: option.splits)
  have "r \<in> set (ad_runs db2)" "rn_id r = run_id" using find_run_SomeD [OF fetched] db' by auto
  with insert_run_tables [OF q(1)] q(2) have "r = q" by auto
  with q db' show ?thesis by blast
qed

lemma next_attempt_existing:
  assumes "ledger_ok db" "pc_existing pc = Some p" "p \<in> set (ad_occurrences db)"
  shows "unat (next_attempt pc) = unat (oc_attempt_count p) + 1"
  using assms by (auto simp: next_attempt_def ledger_ok_def occurrences_ok_def unat_saturating_add
      SCHEDULER_RETRY_MAX_ATTEMPTS_def)

lemma next_attempt_pos: "1 \<le> next_attempt pc"
  using saturating_add_ge [of 1] by (auto simp: next_attempt_def unat_saturating_add word_le_nat_alt split: option.splits)

text \<open>The occurrence a claim is on, after preparation, and the attempt that follows its counter.\<close>

lemma prepared_occurrence:
  assumes ok: "ledger_ok db" and prep: "prepare_workflow_occurrence_claim env due c now new_id s db = Inr (pc, db1)"
  obtains p where "p \<in> set (ad_occurrences db1)" "oc_id p = pc_occurrence_id pc"
    "unat (next_attempt pc) = unat (oc_attempt_count p) + 1"
    "pc_existing pc = Some p \<or> (pc_existing pc = None \<and> oc_status p = OS_Planned
       \<and> pc_occurrence_id pc \<notin> oc_id ` set (ad_occurrences db))"
proof (cases "pc_existing pc")
  case (Some p)
  with prepare_claim_tables [OF prep] have "p \<in> set (ad_occurrences db)" "oc_id p = pc_occurrence_id pc"
    "ad_occurrences db1 = ad_occurrences db" by simp_all
  with Some next_attempt_existing [OF ok Some] show thesis by (intro that [of p]) auto
next
  case None
  with prepare_claim_tables [OF prep] obtain p where "oc_id p = pc_occurrence_id pc" "oc_attempt_count p = 0"
    "oc_status p = OS_Planned" "ad_occurrences db1 = ad_occurrences db @ [p]"
    "pc_occurrence_id pc \<notin> oc_id ` set (ad_occurrences db)" by auto
  with None show thesis by (intro that [of p]) (auto simp: next_attempt_def)
qed

lemma occurrence_by_id:
  "\<lbrakk> ledger_ok db; p \<in> set (ad_occurrences db); q \<in> set (ad_occurrences db); oc_id p = oc_id q \<rbrakk> \<Longrightarrow> p = q"
  by (auto simp: ledger_ok_def occurrences_ok_def distinct_map inj_on_def)

lemma run_by_id: "\<lbrakk> ledger_ok db; r \<in> set (ad_runs db); r' \<in> set (ad_runs db); rn_id r = rn_id r' \<rbrakk> \<Longrightarrow> r = r'"
  by (auto simp: ledger_ok_def runs_attached_def distinct_map inj_on_def)

lemma queue_claim_ledger_ok:
  assumes ok: "ledger_ok db" and p: "p \<in> set (ad_occurrences db)" "oc_id p = pc_occurrence_id pc"
    and a: "unat a = unat (oc_attempt_count p) + 1" "unat a \<le> SCHEDULER_RETRY_MAX_ATTEMPTS"
    and queue: "queue_workflow_occurrence_claim pc a token expiry summary run_id s db = Inr ((r, q), db')"
  shows "ledger_ok db'"
proof -
  let ?f = "\<lambda>q. q \<lparr> oc_status := OS_Claimed, oc_attempt_count := a, oc_retry_at := None,
             oc_lease_token := Some token, oc_lease_expires_at := Some expiry \<rparr>"
  let ?q = "\<lambda>q. oc_id q = pc_occurrence_id pc"
  obtain db2 where ins: "insert_run r (update_occurrences ?q ?f db) = Inr db2"
      "rn_occurrence_id r = Some (pc_occurrence_id pc)" "rn_attempt r = a"
    and db': "ad_runs db' = ad_runs db2" "ad_occurrences db' = ad_occurrences db2"
    using queue_claim_tables [OF queue] by blast
  have le: "oc_attempt_count q' \<le> a" if "q' \<in> set (ad_occurrences db)" "?q q'" for q'
    using occurrence_by_id [OF ok p(1) that(1)] that p(2) a(1) by (simp add: word_le_nat_alt)
  have ok1: "ledger_ok (update_occurrences ?q ?f db)"
    using ok a(2) le
      occurrences_ok_update [of "ad_occurrences db" ?q ?f]
      runs_attached_update_occurrences [of "ad_runs db" "ad_occurrences db" ?q ?f]
    by (simp add: ledger_ok_def)
  have "1 \<le> a" using a(1) by (simp add: word_le_nat_alt)
  moreover have "?f p \<in> set (ad_occurrences (update_occurrences ?q ?f db))"
    using p by (auto simp: set_update_rows)
  ultimately have "ledger_ok db2"
    by (intro ledger_ok_insert_run [OF ok1 ins(1)]) (use ins p(2) in \<open>force intro!: bexI [of _ "?f p"]\<close>)
  with db' show ?thesis by (simp add: ledger_ok_cong [of db' db2])
qed

lemma record_run_tables:
  assumes "record_workflow_automation_run env a t st summary run_id s db = Inr (r, db')"
  obtains q db1 where "insert_run q db = Inr db1" "rn_occurrence_id q = None" "ad_runs db' = ad_runs db1"
    "ad_occurrences db' = ad_occurrences db1"
  using assms by (auto simp: record_workflow_automation_run_def Let_def res_bind_ok_iff split: if_splits)

lemma record_run_ledger_ok:
  assumes "ledger_ok db" "record_workflow_automation_run env a t st summary run_id s db = Inr (r, db')"
  shows "ledger_ok db'"
  using assms(2)
proof (rule record_run_tables)
  fix q db1
  assume "insert_run q db = Inr db1" "rn_occurrence_id q = None" "ad_runs db' = ad_runs db1"
    "ad_occurrences db' = ad_occurrences db1"
  with ledger_ok_insert_run [OF assms(1), of q db1] show ?thesis by (simp add: ledger_ok_cong [of db' db1])
qed

lemma claim_body_ledger_ok:
  assumes ok: "ledger_ok db" and claim: "claim_body env due now summary ids s db = Inr (c, db')"
  shows "ledger_ok db'"
proof (cases "dr_scheduled_for due")
  case None
  with claim obtain r where "record_workflow_automation_run env (wa_id (dr_automation due)) None ''queued''
           (opt_or summary (Some (dr_due_reason due))) (fi_run_id ids) s db = Inr (r, db')"
    by (auto simp: claim_body_def res_bind_ok_iff)
  with ok show ?thesis by (rule record_run_ledger_ok)
next
  case (Some cached)
  with claim obtain t pc db1 d db2 where
    prep: "prepare_workflow_occurrence_claim env due cached t (fi_occurrence_id ids) s db = Inr (pc, db1)"
    and decide: "decide_workflow_occurrence_claim env pc t s db1 = Inr (d, db2)"
    and rest: "(case d of
                ClaimSkip reason \<Rightarrow>
                  res_bind (fetch_workflow_occurrence db2 (pc_occurrence_id pc)) (\<lambda>o'.
                    Inr (\<lparr> dc_due_run = pc_due_run pc, dc_occurrence = Some o', dc_run = None,
                      dc_skip_reason = Some reason \<rparr>, db2))
              | ClaimQueue attempt \<Rightarrow>
                  res_bind (queue_workflow_occurrence_claim pc attempt (fi_lease_token ids)
                      (lease_end env t) summary (fi_run_id ids) s db2) (\<lambda>((r, o'), db3).
                    Inr (\<lparr> dc_due_run = pc_due_run pc, dc_occurrence = Some o', dc_run = Some r,
                      dc_skip_reason = None \<rparr>, db3))) = Inr (c, db')"
    by (auto simp: claim_body_def res_bind_ok_iff split: option.splits)
  have ok1: "ledger_ok db1" using prepare_claim_ledger_ok [OF ok prep] .
  from decide show ?thesis
  proof (cases rule: decide_claim_cases)
    case (skip reason)
    with rest have "db' = db2" by auto
    with claim_skipped_ledger_ok [OF ok1 skip(2)] show ?thesis by simp
  next
    case queue
    from prepared_occurrence [OF ok prep] obtain p where p: "p \<in> set (ad_occurrences db1)"
      "oc_id p = pc_occurrence_id pc" "unat (next_attempt pc) = unat (oc_attempt_count p) + 1" by blast
    from rest queue(1) obtain r q where q: "queue_workflow_occurrence_claim pc (next_attempt pc) (fi_lease_token ids)
        (lease_end env t) summary (fi_run_id ids) s db2 = Inr ((r, q), db')" by auto
    show ?thesis
      using queue_claim_ledger_ok [OF _ _ p(2,3) queue(3) q] ok1 p(1) queue(4) by auto
  qed
qed

section \<open>Every operation keeps the keys\<close>

lemma ledger_ok_frames [simp, frame_simps]:
  "ledger_ok (update_automation s i f db) = ledger_ok db"
  "ledger_ok (db \<lparr> ad_automations := x1 \<rparr>) = ledger_ok db"
  "ledger_ok (db \<lparr> ad_configs := x2 \<rparr>) = ledger_ok db"
  "ledger_ok (db \<lparr> ad_definitions := x3 \<rparr>) = ledger_ok db"
  "ledger_ok (db \<lparr> ad_origins := x4 \<rparr>) = ledger_ok db"
  "ledger_ok (db \<lparr> ad_approvals := x5 \<rparr>) = ledger_ok db"
  "ledger_ok (db \<lparr> ad_scheduler_events := x6 \<rparr>) = ledger_ok db"
  "ledger_ok (db \<lparr> ad_task_runs := x7 \<rparr>) = ledger_ok db"
  by (simp_all add: ledger_ok_def)

lemmas ledger_updates = ledger_ok_update_runs ledger_ok_update_occurrences

lemma start_body_ledger_ok:
  "\<lbrakk> ledger_ok db; start_body env r task summary now s db = Inr (x, db') \<rbrakk> \<Longrightarrow> ledger_ok db'"
  by (auto simp: start_body_def Let_def res_bind_ok_iff intro!: ledger_updates split: if_splits)

lemma start_ledger_ok:
  "ledger_ok db \<Longrightarrow> ledger_ok (snd (start_workflow_automation_run_at env run_id task summary now s db))"
  by (auto simp: start_workflow_automation_run_at_def in_transaction_snd intro: start_body_ledger_ok
      intro!: ledger_ok_update_runs split: option.splits sum.splits)

lemma transition_body_ledger_ok:
  "\<lbrakk> ledger_ok db; transition_body run_id status summary s db = Inr (x, db') \<rbrakk> \<Longrightarrow> ledger_ok db'"
  by (auto simp: transition_body_def Let_def res_bind_ok_iff intro!: ledger_updates split: if_splits option.splits)

text \<open>
  A report of a failed launch cancels the run and puts its occurrence back for a retry, or fails it;
  whatever state the occurrence was in and whichever attempt it was on.
\<close>

lemma launch_failed_cases:
  assumes "launch_failed_body env run_id error now s db = Inr (x, db')"
  obtains (plain) r y where "find_run db run_id = Some r" "rn_occurrence_id r = None"
      "transition_body run_id ''cancelled''
         (Some ''Task Orchestrator launch failed before agent start'') s db = Inr (y, db')"
  | (retry) r i e t where "find_run db run_id = Some r" "rn_occurrence_id r = Some i"
      "ad_runs db' = update_rows (\<lambda>p. rn_id p = run_id) (\<lambda>p. p \<lparr> rn_status := RS_Cancelled,
         rn_summary := Some e, rn_finished_at := Some s \<rparr>) (ad_runs db)"
      "ad_occurrences db' = update_rows (\<lambda>p. oc_id p = i) (\<lambda>p. without_lease (p
         \<lparr> oc_status := (if SCHEDULER_RETRY_MAX_ATTEMPTS \<le> unat (rn_attempt r) then OS_Failed else OS_RetryWait),
           oc_retry_at := t, oc_last_error := Some e \<rparr>)) (ad_occurrences db)"
proof -
  obtain r where r: "find_run db run_id = Some r"
    using assms by (cases "find_run db run_id") (auto simp: launch_failed_body_def get_workflow_automation_run_def)
  show thesis
  proof (cases "rn_occurrence_id r")
    case None
    from assms obtain y where "transition_body run_id ''cancelled''
         (Some ''Task Orchestrator launch failed before agent start'') s db = Inr (y, db')"
      by (auto simp: launch_failed_body_def get_workflow_automation_run_def res_bind_ok_iff r None)
    then show thesis by (rule plain [OF r None])
  next
    case (Some i)
    obtain t where t: "parse_utc_timestamp env now = Some t"
      using assms r Some by (cases "parse_utc_timestamp env now")
        (auto simp: launch_failed_body_def get_workflow_automation_run_def)
    obtain e where e: "normalize_optional error 2000 = Inr e"
      using assms r Some t by (cases "normalize_optional error 2000")
        (auto simp: launch_failed_body_def get_workflow_automation_run_def)
    obtain a where a: "get_workflow_automation env db (rn_automation_id r) = Inr a"
      using assms r Some t e by (cases "get_workflow_automation env db (rn_automation_id r)")
        (auto simp: launch_failed_body_def get_workflow_automation_run_def Let_def)
    obtain g where g: "find_origin db i = Some g"
      using assms r Some t e a by (cases "find_origin db i")
        (auto simp: launch_failed_body_def get_workflow_automation_run_def Let_def)
    show thesis
      by (rule retry [OF r Some, where e = e and t = "if SCHEDULER_RETRY_MAX_ATTEMPTS \<le> unat (rn_attempt r) then None
            else Some (ae_to_rfc3339 env
              (t + nanos (unwrap_or 300 (scheduler_retry_backoff_seconds (unat (rn_attempt r))))))"],
          use assms in \<open>auto simp: launch_failed_body_def get_workflow_automation_run_def Let_def res_bind_ok_iff
            r Some t e a g\<close>)
  qed
qed

lemma launch_failed_body_ledger_ok:
  assumes ok: "ledger_ok db" and body: "launch_failed_body env run_id error now s db = Inr (x, db')"
  shows "ledger_ok db'"
  using body
proof (cases rule: launch_failed_cases)
  case (plain r y)
  from transition_body_ledger_ok [OF ok plain(3)] show ?thesis .
next
  case (retry r i e t)
  define f :: "automation_run \<Rightarrow> automation_run" where "f = (\<lambda>p. p \<lparr> rn_status := RS_Cancelled, rn_summary := Some e, rn_finished_at := Some s \<rparr>)"
  define g :: "occurrence \<Rightarrow> occurrence" where "g = (\<lambda>p. without_lease (p
         \<lparr> oc_status := (if SCHEDULER_RETRY_MAX_ATTEMPTS \<le> unat (rn_attempt r) then OS_Failed else OS_RetryWait),
           oc_retry_at := t, oc_last_error := Some e \<rparr>))"
  have "ledger_ok (update_occurrences (\<lambda>p. oc_id p = i) g (update_runs (\<lambda>p. rn_id p = run_id) f db))"
    by (intro ledger_ok_update_occurrences ledger_ok_update_runs ok) (simp_all add: f_def g_def)
  then show ?thesis
    using retry(3,4) by (simp add: ledger_ok_def f_def g_def)
qed

lemma converge_binding_ledger_ok: "ledger_ok db \<Longrightarrow> ledger_ok (converge_binding st s b db)"
  by (auto simp: converge_binding_def Let_def intro!: ledger_updates split: prod.splits option.splits)

lemma converge_ledger_ok: "ledger_ok db \<Longrightarrow> ledger_ok (converge_workflow_run_terminal task st s db)"
proof -
  have "ledger_ok (fold (converge_binding status s) bs db)" if "ledger_ok db" for status bs db
    using that by (induction bs arbitrary: db) (simp_all add: converge_binding_ledger_ok)
  then show "ledger_ok db \<Longrightarrow> ledger_ok (converge_workflow_run_terminal task st s db)"
    by (auto simp: converge_workflow_run_terminal_def split: option.splits)
qed

lemma insert_scheduler_event_ledger_ok:
  "insert_scheduler_event e a r t st m p n db = Inr (x, db') \<Longrightarrow> ledger_ok db' = ledger_ok db"
  by (metis insert_scheduler_event_tables ledger_ok_cong)

lemma record_event_body_tables:
  "record_event_body e a r t st m p n db = Inr (x, db') \<Longrightarrow>
     ad_runs db' = ad_runs db \<and> ad_occurrences db' = ad_occurrences db"
  by (auto simp: record_event_body_def res_bind_ok_iff dest!: insert_scheduler_event_tables)

lemma record_event_tables [simp]:
  "ad_runs (snd (record_workflow_automation_scheduler_event e a r t st m p n db)) = ad_runs db"
  "ad_occurrences (snd (record_workflow_automation_scheduler_event e a r t st m p n db)) = ad_occurrences db"
  by (auto simp: record_workflow_automation_scheduler_event_def in_transaction_snd
      dest: record_event_body_tables split: sum.splits)

lemma record_event_ledger_ok [simp]:
  "ledger_ok (snd (record_workflow_automation_scheduler_event e a r t st m p n db)) = ledger_ok db"
  by (rule ledger_ok_cong) simp_all

lemma upsert_pending_approval_tables [simp]:
  "ad_runs (upsert_pending_approval i s db) = ad_runs db"
  "ad_occurrences (upsert_pending_approval i s db) = ad_occurrences db"
  by (simp_all add: upsert_pending_approval_def)

lemma upsert_pending_approval_ledger_ok [simp]: "ledger_ok (upsert_pending_approval i s db) = ledger_ok db"
  by (rule ledger_ok_cong) simp_all

lemma waiting_approval_body_ledger_ok:
  "\<lbrakk> ledger_ok db; waiting_approval_body run_id event_id s db = Inr (x, db') \<rbrakk> \<Longrightarrow> ledger_ok db'"
  by (auto simp: waiting_approval_body_def Let_def res_bind_ok_iff insert_scheduler_event_ledger_ok
      intro!: ledger_updates split: option.splits if_splits)

lemma approve_body_ledger_ok:
  "\<lbrakk> ledger_ok db; approve_body env run_id now token event_id s db = Inr (x, db') \<rbrakk> \<Longrightarrow> ledger_ok db'"
  by (auto simp: approve_body_def Let_def res_bind_ok_iff insert_scheduler_event_ledger_ok intro!: ledger_updates)

lemma deny_body_ledger_ok:
  "\<lbrakk> ledger_ok db; deny_body env run_id now text event_id s db = Inr (x, db') \<rbrakk> \<Longrightarrow> ledger_ok db'"
  by (auto simp: deny_body_def Let_def res_bind_ok_iff insert_scheduler_event_ledger_ok intro!: ledger_updates)

lemma resolve_ledger_ok:
  "ledger_ok db \<Longrightarrow> ledger_ok (snd (resolve_workflow_automation_approval_at env b run_id now token e s db))"
  by (auto simp: resolve_workflow_automation_approval_at_def in_transaction_snd
      intro: approve_body_ledger_ok deny_body_ledger_ok split: option.splits sum.splits)

lemma upsert_automation_tables [simp]:
  "ad_runs (upsert_automation row s db) = ad_runs db" "ad_occurrences (upsert_automation row s db) = ad_occurrences db"
  by (simp_all add: upsert_automation_def)

lemma store_schedule_tables:
  "store_schedule row config v db = Inr db' \<Longrightarrow> ad_runs db' = ad_runs db \<and> ad_occurrences db' = ad_occurrences db"
  by (auto simp: store_schedule_def upsert_config_def Let_def res_bind_ok_iff split: if_splits)

text \<open>Saving changes runs and occurrences only by superseding the previous revision.\<close>

lemma save_body_tables:
  assumes "save_body env input config now new_id event_id s db = Inr (a, db')"
  obtains "ad_runs db' = ad_runs db" "ad_occurrences db' = ad_occurrences db"
  | i p where "ad_runs db' = ad_runs (supersede_revision s i p db)"
      "ad_occurrences db' = ad_occurrences (supersede_revision s i p db)"
proof -
  let ?i = "unwrap_or new_id (si_id input)"
  obtain row v db2 where store: "store_schedule row config v (upsert_automation row s db) = Inr db2"
    and rest: "(case map_option cr_revision (config_row_of db ?i) of None \<Rightarrow> Inr db2
        | Some p \<Rightarrow> res_bind (insert_scheduler_event event_id (Some ?i) None SE_DefinitionSuperseded (Some ''cancelled'')
             ''Pending occurrences were cancelled because the definition changed''
             (Some (JObject [(''definitionRevision'', if is_schedule (si_trigger input)
                    then revision_json v else JNull),
                  (''previousDefinitionRevision'', revision_json p),
                  (''resolution'', JString ''cancelled_pending_occurrences'')])) s
             (supersede_revision s ?i p db2)) (\<lambda>(_, db3). Inr db3)) = Inr db'"
    using assms unfolding save_body_def Let_def by (elim res_bind_InrE) (rule that, assumption, simp)
  note db2 = store_schedule_tables [OF store]
  show thesis
  proof (cases "config_row_of db ?i")
    case None
    with rest db2 show thesis by (intro that(1)) simp_all
  next
    case (Some c)
    with rest obtain x e where "insert_scheduler_event event_id (Some ?i) None SE_DefinitionSuperseded
        (Some ''cancelled'') ''Pending occurrences were cancelled because the definition changed'' x s
        (supersede_revision s ?i (cr_revision c) db2) = Inr (e, db')" by (auto simp: res_bind_ok_iff)
    from insert_scheduler_event_tables [OF this] db2 show thesis
      by (intro that(2) [of ?i "cr_revision c"]) (simp_all add: supersede_revision_def)
  qed
qed

lemma supersede_revision_ledger_ok: "ledger_ok db \<Longrightarrow> ledger_ok (supersede_revision s i p db)"
  by (auto simp: supersede_revision_def intro!: ledger_updates)

lemma save_body_ledger_ok:
  assumes ok: "ledger_ok db" and body: "save_body env input config now new_id event_id s db = Inr (a, db')"
  shows "ledger_ok db'"
  using body
proof (cases rule: save_body_tables)
  case 1
  with ok show ?thesis by (simp add: ledger_ok_cong [of db' db])
next
  case (2 i p)
  from ledger_ok_cong [OF 2(2,1)] supersede_revision_ledger_ok [OF ok] show ?thesis by simp
qed

text \<open>Deleting an automation detaches the runs that other automations hold on its occurrences.\<close>

lemma runs_attached_filter:
  assumes "runs_attached runs occs" "\<And>r i. \<lbrakk> r \<in> set runs; k r; rn_occurrence_id r = Some i \<rbrakk> \<Longrightarrow>
      rn_occurrence_id (f r) = None \<or> (rn_occurrence_id (f r) = Some i \<and> (\<forall>p \<in> set occs. oc_id p = i \<longrightarrow> h p))"
    and keys: "\<And>r. rn_id (f r) = rn_id r" "\<And>r. rn_attempt (f r) = rn_attempt r"
      "\<And>r. rn_occurrence_id r = None \<Longrightarrow> rn_occurrence_id (f r) = None"
  shows "runs_attached (map f (filter k runs)) (filter h occs)"
proof -
  have occ: "rn_occurrence_id (f r) = None \<or> rn_occurrence_id (f r) = rn_occurrence_id r"
    if "r \<in> set runs" "k r" for r
    using assms(2) [OF that] keys(3) [of r] by (cases "rn_occurrence_id r") auto
  have "map rn_id (map f (filter k runs)) = map rn_id (filter k runs)" by (simp add: keys)
  then have "distinct (map rn_id (map f (filter k runs)))"
    using assms(1) by (simp only: runs_attached_def distinct_map_filter)
  moreover have "1 \<le> rn_attempt (f r) \<and> (\<exists>p \<in> set (filter h occs). oc_id p = i \<and> rn_attempt (f r) \<le> oc_attempt_count p)"
    if r: "r \<in> set runs" "k r" and i: "rn_occurrence_id (f r) = Some i" for r i
  proof -
    from occ [OF r] i have j: "rn_occurrence_id r = Some i" by simp
    with assms(1) r(1) obtain p where p: "1 \<le> rn_attempt r" "p \<in> set occs" "oc_id p = i" "rn_attempt r \<le> oc_attempt_count p"
      unfolding runs_attached_def by blast
    moreover from assms(2) [OF r j] i p(2,3) have "h p" by auto
    ultimately show ?thesis by (auto simp: keys)
  qed
  moreover have "f r = f r'"
    if r: "r \<in> set runs" "k r" and r': "r' \<in> set runs" "k r'"
      and same: "rn_occurrence_id (f r) \<noteq> None" "rn_occurrence_id (f r) = rn_occurrence_id (f r')"
        "rn_attempt (f r) = rn_attempt (f r')" for r r'
  proof -
    from occ [OF r] occ [OF r'] same have "rn_occurrence_id r \<noteq> None" "rn_occurrence_id r = rn_occurrence_id r'"
      "rn_attempt r = rn_attempt r'" by (auto simp: keys)
    with assms(1) r(1) r'(1) have "r = r'" unfolding runs_attached_def by blast
    then show ?thesis by simp
  qed
  ultimately show ?thesis unfolding runs_attached_def set_map set_filter by blast
qed

lemma delete_ledger_ok:
  assumes ok: "ledger_ok db" shows "ledger_ok (snd (delete_workflow_automation i db))"
proof (cases "list_ex (\<lambda>a. wa_id a = i) (ad_automations db)")
  case False
  with ok show ?thesis by (simp add: delete_workflow_automation_def)
next
  case True
  define gone where "gone = map oc_id (filter (\<lambda>p. oc_automation_id p = i) (ad_occurrences db))"
  define f :: "automation_run \<Rightarrow> automation_run" where
    "f = (\<lambda>r. if \<exists>j \<in> set_option (rn_occurrence_id r). j \<in> set gone then r \<lparr> rn_occurrence_id := None \<rparr> else r)"
  have kept: "rn_occurrence_id (f r) = None
      \<or> (rn_occurrence_id (f r) = Some j \<and> (\<forall>p \<in> set (ad_occurrences db). oc_id p = j \<longrightarrow> oc_automation_id p \<noteq> i))"
    if "rn_occurrence_id r = Some j" for r j
    using that by (auto simp: f_def gone_def)
  have keys: "rn_id (f r) = rn_id r" "rn_attempt (f r) = rn_attempt r"
    "rn_occurrence_id r = None \<Longrightarrow> rn_occurrence_id (f r) = None" for r by (auto simp: f_def)
  have runs: "ad_runs (snd (delete_workflow_automation i db)) = map f (filter (\<lambda>r. rn_automation_id r \<noteq> i) (ad_runs db))"
    and occs: "ad_occurrences (snd (delete_workflow_automation i db))
      = filter (\<lambda>p. oc_automation_id p \<noteq> i) (ad_occurrences db)"
    using True by (simp_all add: delete_workflow_automation_def Let_def update_rows_def f_def gone_def)
  have "runs_attached (map f (filter (\<lambda>r. rn_automation_id r \<noteq> i) (ad_runs db)))
      (filter (\<lambda>p. oc_automation_id p \<noteq> i) (ad_occurrences db))"
    by (rule runs_attached_filter) (use ok kept keys in \<open>auto simp: ledger_ok_def\<close>)
  moreover have "occurrences_ok (filter (\<lambda>p. oc_automation_id p \<noteq> i) (ad_occurrences db))"
    using ok by (auto simp: ledger_ok_def occurrences_ok_def distinct_map_filter)
  ultimately show ?thesis by (simp add: ledger_ok_def runs occs)
qed

lemma automation_step_ledger_ok:
  assumes ok: "ledger_ok db" shows "ledger_ok (automation_step env x db)"
proof -
  note keep = in_transaction_keeps [where P = ledger_ok, OF ok]
  show ?thesis
    unfolding automation_step_def claim_workflow_automation_due_run_at_def
      mark_workflow_automation_launch_failed_for_retry_def transition_workflow_automation_run_def
      mark_workflow_automation_run_waiting_approval_def save_workflow_automation_with_schedule_config_def
    by (cases x; simp only: automation_op.simps)
      (erule keep claim_body_ledger_ok [OF ok] record_run_ledger_ok [OF ok] launch_failed_body_ledger_ok [OF ok]
        transition_body_ledger_ok [OF ok] waiting_approval_body_ledger_ok [OF ok] save_body_ledger_ok [OF ok]
        | rule keep start_ledger_ok [OF ok] converge_ledger_ok [OF ok] resolve_ledger_ok [OF ok] delete_ledger_ok [OF ok]
        | simp add: ok)+
qed

end
