(* ===== verification/Automation_Flight.thy ===== *)
theory Automation_Flight
  imports Automation_Invariant
begin

text \<open>
  At most one run of an occurrence is open. The operations keep this when only an open run reports
  for its occurrence, and no claim is made on an occurrence that its run has moved back to a state
  the claim does not recognise as taken.
\<close>

section \<open>Changes to one table\<close>

definition unsettled :: "occurrence_status list" where
  "unsettled = [OS_Planned, OS_RetryWait, OS_Claimed]"

lemma single_flight_update_runs:
  assumes "single_flight db"
    and "\<And>r p. \<lbrakk> r \<in> set (ad_runs db); q r; p \<in> set (ad_occurrences db); rn_occurrence_id r = Some (oc_id p);
        open_run (f r); open_run r \<Longrightarrow> holds_occurrence r p \<rbrakk> \<Longrightarrow> holds_occurrence (f r) p"
    and "\<And>r. r \<in> set (ad_runs db) \<Longrightarrow> q r \<Longrightarrow> rn_occurrence_id (f r) = rn_occurrence_id r"
  shows "single_flight (update_runs q f db)"
  unfolding single_flight_def tables_of_updates set_update_rows
proof (intro ballI impI, elim imageE conjE)
  fix p r r'
  assume p: "p \<in> set (ad_occurrences db)" and r: "r' = (if q r then f r else r)" "r \<in> set (ad_runs db)"
    and i: "rn_occurrence_id r' = Some (oc_id p)" and op: "open_run r'"
  have held: "holds_occurrence r p" if "rn_occurrence_id r = Some (oc_id p)" "open_run r"
    using assms(1) p r(2) that by (simp add: single_flight_def)
  show "holds_occurrence r' p"
  proof (cases "q r")
    case True
    with r i op assms(3) [OF r(2) True] have "rn_occurrence_id r = Some (oc_id p)" "open_run (f r)" "r' = f r" by simp_all
    with assms(2) [OF r(2) True p] held show ?thesis by simp
  next
    case False
    with r i op held show ?thesis by simp
  qed
qed

lemma single_flight_update_occurrences:
  assumes "single_flight db"
    and "\<And>r p. \<lbrakk> p \<in> set (ad_occurrences db); q p; r \<in> set (ad_runs db); rn_occurrence_id r = Some (oc_id p);
        open_run r; holds_occurrence r p \<rbrakk> \<Longrightarrow> holds_occurrence r (f p)"
    and "\<And>p. p \<in> set (ad_occurrences db) \<Longrightarrow> q p \<Longrightarrow> oc_id (f p) = oc_id p"
  shows "single_flight (update_occurrences q f db)"
  unfolding single_flight_def tables_of_updates set_update_rows
proof (intro ballI impI, elim imageE conjE)
  fix p' p r
  assume p: "p' = (if q p then f p else p)" "p \<in> set (ad_occurrences db)" and r: "r \<in> set (ad_runs db)"
    and i: "rn_occurrence_id r = Some (oc_id p')" and op: "open_run r"
  show "holds_occurrence r p'"
  proof (cases "q p")
    case True
    with p i assms(3) [OF p(2) True] have i': "rn_occurrence_id r = Some (oc_id p)" by simp
    with assms(1) p r op have "holds_occurrence r p" by (simp add: single_flight_def)
    with assms(2) [OF p(2) True r i' op] p True show ?thesis by simp
  next
    case False
    with p i op r assms(1) show ?thesis by (simp add: single_flight_def)
  qed
qed

text \<open>Closing runs, and moving occurrences to a settled status, keep the property.\<close>

lemma single_flight_close_runs:
  assumes "single_flight db"
    and "\<And>r. rn_occurrence_id (f r) = rn_occurrence_id r" "\<And>r. \<not> open_run (f r)"
  shows "single_flight (update_runs q f db)"
  using assms by (intro single_flight_update_runs) auto

lemma single_flight_settle:
  assumes "single_flight db"
    and "\<And>p. oc_id (f p) = oc_id p \<and> oc_attempt_count (f p) = oc_attempt_count p"
    and "\<And>p. oc_status (f p) \<notin> set unsettled"
  shows "single_flight (update_occurrences q f db)"
  using assms by (intro single_flight_update_occurrences) (auto simp: holds_occurrence_def unsettled_def)

lemma single_flight_frames [simp, frame_simps]:
  "single_flight (update_automation s i f db) = single_flight db"
  "single_flight (db \<lparr> ad_automations := x1 \<rparr>) = single_flight db"
  "single_flight (db \<lparr> ad_configs := x2 \<rparr>) = single_flight db"
  "single_flight (db \<lparr> ad_definitions := x3 \<rparr>) = single_flight db"
  "single_flight (db \<lparr> ad_origins := x4 \<rparr>) = single_flight db"
  "single_flight (db \<lparr> ad_approvals := x5 \<rparr>) = single_flight db"
  "single_flight (db \<lparr> ad_scheduler_events := x6 \<rparr>) = single_flight db"
  "single_flight (db \<lparr> ad_task_runs := x7 \<rparr>) = single_flight db"
  by (simp_all add: single_flight_def)

lemma update_tables_commute:
  "update_occurrences q g (update_runs q' f db) = update_runs q' f (update_occurrences q g db)"
  by (simp add: update_runs_def update_occurrences_def)

text \<open>Two open runs of one occurrence are the same run.\<close>

lemma open_run_unique:
  assumes "ledger_ok db" "r \<in> set (ad_runs db)" "r' \<in> set (ad_runs db)"
    "rn_occurrence_id r = Some (oc_id p)" "rn_occurrence_id r' = Some (oc_id p)"
    "holds_occurrence r p" "holds_occurrence r' p"
  shows "r = r'"
  using assms by (auto simp: ledger_ok_def runs_attached_def holds_occurrence_def)

lemma single_flight_held:
  "\<lbrakk> single_flight db; p \<in> set (ad_occurrences db); r \<in> set (ad_runs db); rn_occurrence_id r = Some (oc_id p);
     open_run r \<rbrakk> \<Longrightarrow> holds_occurrence r p"
  by (simp add: single_flight_def)

section \<open>Operations that only close or settle\<close>

lemma run_status_of_occurrence_settled:
  "run_status_of_occurrence st = Some s \<Longrightarrow> s \<notin> set unsettled"
  by (auto simp: run_status_of_occurrence_def unsettled_def split: run_status.splits)

lemma converged_status_closed:
  "converged_status t = Some st \<Longrightarrow> st \<notin> set active_run_statuses
     \<and> (\<exists>s. run_status_of_occurrence st = Some s)"
  by (auto simp: converged_status_def active_run_statuses_def run_status_of_occurrence_def split: if_splits)

lemma converge_binding_single_flight:
  assumes "single_flight db" "st \<notin> set active_run_statuses" "run_status_of_occurrence st = Some s"
  shows "single_flight (converge_binding st now b db)"
  using assms run_status_of_occurrence_settled [OF assms(3)]
  by (auto simp: converge_binding_def Let_def intro!: single_flight_settle single_flight_close_runs
      split: prod.splits option.splits)

lemma converge_single_flight:
  "single_flight db \<Longrightarrow> single_flight (converge_workflow_run_terminal task st s db)"
proof -
  have "single_flight (fold (converge_binding status s) bs db)"
    if "single_flight db" "converged_status st = Some status" for status bs db
    using that(1) converged_status_closed [OF that(2)]
    by (induction bs arbitrary: db) (auto simp: converge_binding_single_flight)
  then show "single_flight db \<Longrightarrow> single_flight (converge_workflow_run_terminal task st s db)"
    by (auto simp: converge_workflow_run_terminal_def split: option.splits)
qed

lemma supersede_revision_single_flight: "single_flight db \<Longrightarrow> single_flight (supersede_revision s i p db)"
  unfolding supersede_revision_def
  by (intro single_flight_close_runs single_flight_settle)
    (simp_all add: active_run_statuses_def unsettled_def)

lemma save_body_single_flight:
  assumes ok: "single_flight db" and body: "save_body env input config now new_id event_id s db = Inr (a, db')"
  shows "single_flight db'"
  using body
proof (cases rule: save_body_tables)
  case 1
  with ok show ?thesis by (simp add: single_flight_cong [of db' db])
next
  case (2 i p)
  from single_flight_cong [OF 2(2,1)] supersede_revision_single_flight [OF ok] show ?thesis by simp
qed

lemma insert_scheduler_event_single_flight:
  "insert_scheduler_event e a r t st m p n db = Inr (x, db') \<Longrightarrow> single_flight db' = single_flight db"
  by (metis insert_scheduler_event_tables single_flight_cong)

lemma record_event_single_flight [simp]:
  "single_flight (snd (record_workflow_automation_scheduler_event e a r t st m p n db)) = single_flight db"
  by (rule single_flight_cong) simp_all

lemma deny_body_single_flight:
  "\<lbrakk> single_flight db; deny_body env run_id now text event_id s db = Inr (x, db') \<rbrakk> \<Longrightarrow> single_flight db'"
  by (auto simp: deny_body_def Let_def res_bind_ok_iff insert_scheduler_event_single_flight
      active_run_statuses_def unsettled_def intro!: single_flight_settle single_flight_close_runs)

lemma delete_single_flight:
  assumes ok: "single_flight db" shows "single_flight (snd (delete_workflow_automation i db))"
  using ok unfolding single_flight_def delete_workflow_automation_def
  by (auto simp: Let_def set_update_rows split: if_splits)

lemma insert_run_single_flight:
  "\<lbrakk> single_flight db; insert_run r db = Inr db'; rn_occurrence_id r = None \<rbrakk> \<Longrightarrow> single_flight db'"
  by (auto simp: single_flight_def dest!: insert_run_tables)

lemma record_run_single_flight:
  assumes "single_flight db" "record_workflow_automation_run env a t st summary run_id s db = Inr (r, db')"
  shows "single_flight db'"
  using assms(2)
proof (rule record_run_tables)
  fix q db1
  assume "insert_run q db = Inr db1" "rn_occurrence_id q = None" "ad_runs db' = ad_runs db1"
    "ad_occurrences db' = ad_occurrences db1"
  with insert_run_single_flight [OF assms(1), of q db1] show ?thesis by (simp add: single_flight_cong [of db' db1])
qed

section \<open>Operations that move an open run\<close>

text \<open>An occurrence settles first, then its run moves to a status that fits any settled one.\<close>

lemma holds_settled:
  "\<lbrakk> rn_attempt r = oc_attempt_count p; oc_status p \<notin> set unsettled \<rbrakk> \<Longrightarrow> holds_occurrence r p"
  by (simp add: holds_occurrence_def unsettled_def)

lemma single_flight_move_run:
  assumes sf: "single_flight db" and settle: "\<And>p. oc_id (g p) = oc_id p \<and> oc_attempt_count (g p) = oc_attempt_count p"
      "\<And>p. oc_status (g p) \<notin> set unsettled"
    and f: "\<And>r. rn_occurrence_id (f r) = rn_occurrence_id r \<and> rn_attempt (f r) = rn_attempt r"
    and owner: "\<And>r p. \<lbrakk> r \<in> set (ad_runs db); q r; p \<in> set (ad_occurrences db);
        rn_occurrence_id r = Some (oc_id p) \<rbrakk> \<Longrightarrow> q' p \<and> rn_attempt r = oc_attempt_count p"
  shows "single_flight (update_occurrences q' g (update_runs q f db))"
  unfolding update_tables_commute
proof (rule single_flight_update_runs)
  show "single_flight (update_occurrences q' g db)"
    using sf settle by (rule single_flight_settle)
  fix r p
  assume r: "r \<in> set (ad_runs (update_occurrences q' g db))" "q r"
    and p: "p \<in> set (ad_occurrences (update_occurrences q' g db))" "rn_occurrence_id r = Some (oc_id p)"
  from p(1) obtain p0 where p0: "p0 \<in> set (ad_occurrences db)" "p = (if q' p0 then g p0 else p0)"
    by (auto simp: set_update_rows)
  with p(2) settle(1) [of p0] have "rn_occurrence_id r = Some (oc_id p0)" by (simp split: if_splits)
  with owner [of r p0] r p0(1) have "q' p0" "rn_attempt r = oc_attempt_count p0" by simp_all
  with p0 settle(1) [of p0] settle(2) [of p0] f [of r] show "holds_occurrence (f r) p"
    by (intro holds_settled) simp_all
next
  fix r show "rn_occurrence_id (f r) = rn_occurrence_id r" using f by simp
qed

text \<open>A start takes the claim of its own attempt; it needs no further condition.\<close>

abbreviation started_run :: "string \<Rightarrow> string option \<Rightarrow> automation_run \<Rightarrow> automation_run" where
  "started_run task summary p \<equiv> p \<lparr> rn_task_run_id := Some task, rn_status := RS_Running,
     rn_summary := opt_or summary (rn_summary p), rn_finished_at := None \<rparr>"

abbreviation started_occurrence :: "occurrence \<Rightarrow> occurrence" where
  "started_occurrence p \<equiv> without_lease (p \<lparr> oc_status := OS_Running, oc_retry_at := None \<rparr>)"

abbreviation claimed_by :: "automation_run \<Rightarrow> occurrence \<Rightarrow> bool" where
  "claimed_by r p \<equiv> rn_occurrence_id r = Some (oc_id p) \<and> oc_status p = OS_Claimed \<and> oc_attempt_count p = rn_attempt r"

lemma start_body_tables:
  assumes "start_body env r task summary now s db = Inr (x, db')"
  shows "task \<in> set (ad_task_runs db)"
    "ad_runs db' = update_rows (\<lambda>p. rn_id p = rn_id r) (started_run task summary) (ad_runs db)"
    "ad_occurrences db' = update_rows (claimed_by r) started_occurrence (ad_occurrences db)"
    "rn_occurrence_id r = None \<or> (\<exists>p \<in> set (ad_occurrences db). claimed_by r p)"
    "find_run db' (rn_id r) = Some x"
proof -
  show known: "task \<in> set (ad_task_runs db)"
    using assms by (cases "task \<in> set (ad_task_runs db)") (simp_all add: start_body_def)
  obtain n where n: "cursor_after_start env now r db = Inr n"
    using assms known by (cases "cursor_after_start env now r db") (simp_all add: start_body_def)
  have owned: "rn_occurrence_id r = None \<or> list_ex (claimed_by r) (ad_occurrences db)"
    using assms by (auto simp: start_body_def known n Let_def split: if_splits)
  then show "rn_occurrence_id r = None \<or> (\<exists>p \<in> set (ad_occurrences db). claimed_by r p)"
    by (auto simp: list_ex_iff)
  have "ad_runs db' = update_rows (\<lambda>p. rn_id p = rn_id r) (started_run task summary) (ad_runs db)
      \<and> ad_occurrences db' = update_rows (claimed_by r) started_occurrence (ad_occurrences db)
      \<and> find_run db' (rn_id r) = Some x"
    using assms owned by (simp add: start_body_def known n Let_def split: if_splits)
      (auto simp: Let_def get_workflow_automation_run_def split: if_splits option.splits)
  then show "ad_runs db' = update_rows (\<lambda>p. rn_id p = rn_id r) (started_run task summary) (ad_runs db)"
    "ad_occurrences db' = update_rows (claimed_by r) started_occurrence (ad_occurrences db)"
    "find_run db' (rn_id r) = Some x" by simp_all
qed

lemma start_body_single_flight:
  assumes ok: "ledger_ok db" "single_flight db" and r: "r \<in> set (ad_runs db)"
    and body: "start_body env r task summary now s db = Inr (x, db')"
  shows "single_flight db'"
proof -
  note tables = start_body_tables [OF body]
  have "single_flight (update_occurrences (claimed_by r) started_occurrence
      (update_runs (\<lambda>p. rn_id p = rn_id r) (started_run task summary) db))"
  proof (rule single_flight_move_run [OF ok(2)])
    fix r' p
    assume r': "r' \<in> set (ad_runs db)" "rn_id r' = rn_id r"
      and p: "p \<in> set (ad_occurrences db)" "rn_occurrence_id r' = Some (oc_id p)"
    from run_by_id [OF ok(1) r'(1) r r'(2)] p(2) have i: "rn_occurrence_id r = Some (oc_id p)" "r' = r" by simp_all
    with tables(4) obtain p' where p': "p' \<in> set (ad_occurrences db)" "claimed_by r p'" by auto
    have "p = p'" by (rule occurrence_by_id [OF ok(1) p(1) p'(1)]) (use i p' in simp)
    with p' i show "claimed_by r p \<and> rn_attempt r' = oc_attempt_count p" by simp
  qed (simp_all add: unsettled_def)
  then show ?thesis using tables(2,3) by (simp add: single_flight_def)
qed

lemma start_single_flight:
  assumes ok: "ledger_ok db" "single_flight db"
  shows "single_flight (snd (start_workflow_automation_run_at env run_id task summary now s db))"
proof -
  have lost: "single_flight (update_runs q (cancel_run s w) db)" for q w
    using ok(2) by (rule single_flight_close_runs) (simp_all add: active_run_statuses_def)
  have start: "single_flight (snd (in_transaction (start_body env r task summary t s) db))"
    if "get_workflow_automation_run db run_id = Inr r" for r t
  proof -
    from that have "r \<in> set (ad_runs db)"
      by (auto simp: get_workflow_automation_run_def dest: find_run_SomeD split: option.splits)
    then show ?thesis
      by (intro in_transaction_keeps [where P = single_flight] ok start_body_single_flight [OF ok])
  qed
  show ?thesis
    using ok(2) lost start unfolding start_workflow_automation_run_at_def
    by (auto split: option.splits sum.splits)
qed

text \<open>A report about a run: it is open if it belongs to an occurrence.\<close>

definition reports_open :: "automation_db \<Rightarrow> string \<Rightarrow> bool" where
  "reports_open db run_id \<longleftrightarrow> (case find_run db run_id of
     None \<Rightarrow> True | Some r \<Rightarrow> rn_occurrence_id r = None \<or> open_run r)"

lemma reported_attempt:
  assumes "ledger_ok db" "single_flight db" "reports_open db run_id" "find_run db run_id = Some r"
    "r' \<in> set (ad_runs db)" "rn_id r' = run_id" "p \<in> set (ad_occurrences db)" "rn_occurrence_id r' = Some (oc_id p)"
  shows "r' = r" "open_run r" "holds_occurrence r p"
proof -
  from find_run_SomeD [OF assms(4)] assms(5,6) run_by_id [OF assms(1), of r' r] show "r' = r" by simp
  with assms show "open_run r" by (auto simp: reports_open_def)
  with \<open>r' = r\<close> single_flight_held [OF assms(2,7,5,8)] show "holds_occurrence r p" by simp
qed

lemma transition_body_tables:
  assumes "transition_body run_id status summary s db = Inr (x, db')"
  obtains r f g st where "find_run db run_id = Some r"
    "ad_runs db' = update_rows (\<lambda>p. rn_id p = run_id) f (ad_runs db)"
    "ad_occurrences db' = update_rows (\<lambda>p. rn_occurrence_id r = Some (oc_id p)) g (ad_occurrences db)"
    "\<And>p. rn_occurrence_id (f p) = rn_occurrence_id p \<and> rn_attempt (f p) = rn_attempt p"
    "\<And>p. oc_id (g p) = oc_id p \<and> oc_attempt_count (g p) = oc_attempt_count p"
    "\<And>p. oc_status (g p) \<notin> set unsettled"
proof -
  from assms obtain target r where target: "run_status_parse status = Inr target"
    and r: "find_run db run_id = Some r"
    by (auto simp: transition_body_def get_workflow_automation_run_def split: option.splits)
  let ?f = "\<lambda>p. p \<lparr> rn_status := target, rn_summary := opt_or summary (rn_summary p),
                rn_finished_at := (if target \<in> set finished_run_statuses
                  then Some (unwrap_or s (rn_finished_at p)) else None) \<rparr>"
  have run: "get_workflow_automation_run db run_id = Inr r" by (simp add: get_workflow_automation_run_def r)
  show thesis
  proof (cases "rn_occurrence_id r")
    case None
    from assms None have "ad_runs db' = update_rows (\<lambda>p. rn_id p = run_id) ?f (ad_runs db)"
      "ad_occurrences db' = ad_occurrences db"
      by (simp_all add: transition_body_def run target Let_def None) (auto simp: Let_def split: if_splits)
    with r None show thesis
      by (intro that [of r ?f "\<lambda>p. p \<lparr> oc_status := OS_Failed \<rparr>"]) (simp_all add: update_rows_def unsettled_def)
  next
    case (Some i)
    from assms obtain st where st: "run_status_of_occurrence target = Some st"
      "ad_runs db' = update_rows (\<lambda>p. rn_id p = run_id) ?f (ad_runs db)"
      "ad_occurrences db' = update_rows (\<lambda>p. oc_id p = i) (\<lambda>p. without_lease (p \<lparr> oc_status := st \<rparr>)) (ad_occurrences db)"
      by (simp add: transition_body_def run target Let_def Some) (auto simp: Let_def split: if_splits option.splits)
    from run_status_of_occurrence_settled [OF st(1)] st r Some show thesis
      by (intro that [of r ?f "\<lambda>p. without_lease (p \<lparr> oc_status := st \<rparr>)"]) (simp_all add: eq_commute)
  qed
qed

lemma transition_body_single_flight:
  assumes ok: "ledger_ok db" "single_flight db" "reports_open db run_id"
    and body: "transition_body run_id status summary s db = Inr (x, db')"
  shows "single_flight db'"
  using body
proof (rule transition_body_tables)
  fix r :: automation_run and f :: "automation_run \<Rightarrow> automation_run" and g :: "occurrence \<Rightarrow> occurrence"
  let ?q = "\<lambda>p. rn_id p = run_id" and ?o = "\<lambda>p. rn_occurrence_id r = Some (oc_id p)"
  assume r: "find_run db run_id = Some r"
    and tables: "ad_runs db' = update_rows ?q f (ad_runs db)" "ad_occurrences db' = update_rows ?o g (ad_occurrences db)"
    and fg: "\<And>p. rn_occurrence_id (f p) = rn_occurrence_id p \<and> rn_attempt (f p) = rn_attempt p"
      "\<And>p. oc_id (g p) = oc_id p \<and> oc_attempt_count (g p) = oc_attempt_count p"
      "\<And>p. oc_status (g p) \<notin> set unsettled"
  have "single_flight (update_occurrences ?o g (update_runs ?q f db))"
    by (rule single_flight_move_run [OF ok(2)])
      (use fg reported_attempt [OF ok r] in \<open>auto simp: holds_occurrence_def\<close>)
  then show ?thesis using tables by (simp add: single_flight_def)
qed

lemma launch_failed_body_single_flight:
  assumes ok: "ledger_ok db" "single_flight db" "reports_open db run_id"
    and body: "launch_failed_body env run_id error now s db = Inr (x, db')"
  shows "single_flight db'"
  using body
proof (cases rule: launch_failed_cases)
  case (plain r y)
  from transition_body_single_flight [OF ok plain(3)] show ?thesis .
next
  case (retry r i e t)
  define f :: "automation_run \<Rightarrow> automation_run"
    where "f = (\<lambda>p. p \<lparr> rn_status := RS_Cancelled, rn_summary := Some e, rn_finished_at := Some s \<rparr>)"
  define g :: "occurrence \<Rightarrow> occurrence" where "g = (\<lambda>p. without_lease (p
         \<lparr> oc_status := (if SCHEDULER_RETRY_MAX_ATTEMPTS \<le> unat (rn_attempt r) then OS_Failed else OS_RetryWait),
           oc_retry_at := t, oc_last_error := Some e \<rparr>))"
  let ?db1 = "update_runs (\<lambda>p. rn_id p = run_id) f db"
  have closed: "\<not> open_run (f p)" "rn_occurrence_id (f p) = rn_occurrence_id p" for p
    by (simp_all add: f_def active_run_statuses_def)
  have "single_flight (update_occurrences (\<lambda>p. oc_id p = i) g ?db1)"
  proof (rule single_flight_update_occurrences)
    show "single_flight ?db1" using ok(2) closed by (intro single_flight_close_runs)
    fix r' p
    assume p: "p \<in> set (ad_occurrences ?db1)" "oc_id p = i" and r': "r' \<in> set (ad_runs ?db1)"
      "rn_occurrence_id r' = Some (oc_id p)" "open_run r'"
    from r' closed(1) have old: "r' \<in> set (ad_runs db)" "rn_id r' \<noteq> run_id" by (auto simp: set_update_rows)
    note r = find_run_SomeD [OF retry(1)]
    have "open_run r" using ok(3) retry(1,2) by (simp add: reports_open_def)
    then have "holds_occurrence r p" using ok(2) p r retry(2) by (intro single_flight_held) auto
    moreover have "holds_occurrence r' p" using ok(2) p old r' by (intro single_flight_held) auto
    ultimately have "r' = r" using ok(1) old(1) r r'(2) retry(2) p(2) by (intro open_run_unique) auto
    with old(2) r show "holds_occurrence r' (g p)" by simp
  qed (simp add: g_def)
  then show ?thesis
    using retry(3,4) by (simp add: single_flight_def f_def g_def)
qed

section \<open>Approvals\<close>

lemma waiting_approval_tables:
  assumes "waiting_approval_body run_id event_id s db = Inr (x, db')"
  obtains "\<not> x" "db' = db"
  | r i where "find_run db run_id = Some r" "rn_occurrence_id r = Some i" "rn_status r = RS_Queued"
      "\<exists>p \<in> set (ad_occurrences db). oc_id p = i \<and> oc_status p = OS_Claimed"
      "ad_runs db' = update_rows (\<lambda>p. rn_id p = run_id \<and> rn_status p = RS_Queued)
         (\<lambda>p. p \<lparr> rn_status := RS_WaitingApproval \<rparr>) (ad_runs db)"
      "ad_occurrences db' = update_rows (\<lambda>p. oc_id p = i \<and> oc_status p = OS_Claimed)
         (\<lambda>p. without_lease (p \<lparr> oc_status := OS_WaitingApproval \<rparr>)) (ad_occurrences db)"
proof (cases "approval_candidate db run_id")
  case None
  with assms that(1) show thesis by (simp add: waiting_approval_body_def)
next
  case (Some v)
  then obtain a i n where v: "v = (a, i, n)" by (cases v)
  with Some obtain r where r: "find_run db run_id = Some r" "rn_occurrence_id r = Some i" "rn_status r = RS_Queued"
    by (auto simp: approval_candidate_def split: option.splits if_splits)
  have one: "length (filter (\<lambda>p. oc_id p = i \<and> oc_status p = OS_Claimed) (ad_occurrences db)) = 1"
    using assms by (rule_tac ccontr) (simp add: waiting_approval_body_def Some v)
  then have "\<exists>p \<in> set (ad_occurrences db). oc_id p = i \<and> oc_status p = OS_Claimed"
    by (metis (mono_tags, lifting) One_nat_def filter_False length_greater_0_conv zero_less_one)
  with assms one show thesis
    by (intro that(2) [OF r]) (auto simp: waiting_approval_body_def Some v Let_def res_bind_ok_iff
        dest!: insert_scheduler_event_tables)
qed

lemma waiting_approval_body_single_flight:
  assumes ok: "ledger_ok db" "single_flight db" and body: "waiting_approval_body run_id event_id s db = Inr (x, db')"
  shows "single_flight db'"
  using body
proof (cases rule: waiting_approval_tables)
  case 1
  with ok show ?thesis by simp
next
  case (2 r i)
  let ?q = "\<lambda>p. rn_id p = run_id \<and> rn_status p = RS_Queued" and ?o = "\<lambda>p. oc_id p = i \<and> oc_status p = OS_Claimed"
  have "single_flight (update_occurrences ?o (\<lambda>p. without_lease (p \<lparr> oc_status := OS_WaitingApproval \<rparr>))
      (update_runs ?q (\<lambda>p. p \<lparr> rn_status := RS_WaitingApproval \<rparr>) db))"
  proof (rule single_flight_move_run [OF ok(2)])
    fix r' p
    assume r': "r' \<in> set (ad_runs db)" "?q r'" and p: "p \<in> set (ad_occurrences db)" "rn_occurrence_id r' = Some (oc_id p)"
    from find_run_SomeD [OF 2(1)] r' have "r' = r" by (intro run_by_id [OF ok(1)]) auto
    with 2(2) p(2) have i: "oc_id p = i" by simp
    from 2(4) obtain p' where p': "p' \<in> set (ad_occurrences db)" "?o p'" by blast
    have "p = p'" by (rule occurrence_by_id [OF ok(1) p(1) p'(1)]) (use i p' in simp)
    moreover from r' p have "holds_occurrence r' p"
      by (intro single_flight_held [OF ok(2)]) (auto simp: active_run_statuses_def)
    ultimately show "?o p \<and> rn_attempt r' = oc_attempt_count p" using p' by (simp add: holds_occurrence_def)
  qed (simp_all add: unsettled_def)
  then show ?thesis using 2(5,6) by (simp add: single_flight_def)
qed

lemma approve_body_tables:
  assumes "approve_body env run_id now token event_id s db = Inr (x, db')"
  obtains r i e where "find_run db run_id = Some r" "rn_occurrence_id r = Some i" "rn_status r = RS_WaitingApproval"
    "ad_runs db' = update_rows (\<lambda>p. rn_id p = run_id \<and> rn_status p = RS_WaitingApproval)
       (\<lambda>p. p \<lparr> rn_status := RS_Queued \<rparr>) (ad_runs db)"
    "ad_occurrences db' = update_rows (\<lambda>p. oc_id p = i \<and> oc_status p = OS_WaitingApproval)
       (\<lambda>p. p \<lparr> oc_status := OS_Claimed, oc_lease_token := Some token, oc_lease_expires_at := Some e \<rparr>)
       (ad_occurrences db)"
proof -
  obtain pending where pending: "fetch_pending_workflow_approval env db run_id = Inr pending"
    using assms by (cases "fetch_pending_workflow_approval env db run_id") (simp_all add: approve_body_def)
  then obtain r where r: "find_run db run_id = Some r" "rn_occurrence_id r = Some (pa_occurrence_id pending)"
      "rn_status r = RS_WaitingApproval"
    by (auto simp: fetch_pending_workflow_approval_def Let_def split: option.splits if_splits)
  show thesis
    by (rule that [OF r]) (use assms in \<open>auto simp: approve_body_def pending Let_def res_bind_ok_iff
        dest!: insert_scheduler_event_tables\<close>)
qed

lemma approve_body_single_flight:
  assumes ok: "ledger_ok db" "single_flight db" and body: "approve_body env run_id now token event_id s db = Inr (x, db')"
  shows "single_flight db'"
  using body
proof (rule approve_body_tables)
  fix r i e
  let ?q = "\<lambda>p. rn_id p = run_id \<and> rn_status p = RS_WaitingApproval"
  let ?f = "\<lambda>p. p \<lparr> rn_status := RS_Queued \<rparr>"
  let ?o = "\<lambda>p. oc_id p = i \<and> oc_status p = OS_WaitingApproval"
  let ?g = "\<lambda>p. p \<lparr> oc_status := OS_Claimed, oc_lease_token := Some token, oc_lease_expires_at := Some e \<rparr>"
  let ?db1 = "update_runs ?q ?f db"
  assume r: "find_run db run_id = Some r" "rn_occurrence_id r = Some i" "rn_status r = RS_WaitingApproval"
    and tables: "ad_runs db' = update_rows ?q ?f (ad_runs db)" "ad_occurrences db' = update_rows ?o ?g (ad_occurrences db)"
  note r' = find_run_SomeD [OF r(1)]
  have sf1: "single_flight ?db1"
    by (rule single_flight_update_runs [OF ok(2)]) (auto simp: holds_occurrence_def active_run_statuses_def)
  have ok1: "ledger_ok ?db1" using ok(1) by (rule ledger_ok_update_runs) simp
  have reopened: "?f r \<in> set (ad_runs ?db1)" using r' r(3) by (auto simp: set_update_rows)
  have "single_flight (update_occurrences ?o ?g ?db1)"
  proof (rule single_flight_update_occurrences [OF sf1])
    fix q p
    assume p: "p \<in> set (ad_occurrences ?db1)" "?o p" and q: "q \<in> set (ad_runs ?db1)"
      "rn_occurrence_id q = Some (oc_id p)" "open_run q" "holds_occurrence q p"
    have "holds_occurrence (?f r) p"
      using p r(2) by (intro single_flight_held [OF sf1 p(1) reopened]) (simp_all add: active_run_statuses_def)
    then have "q = ?f r" using q p r(2) by (intro open_run_unique [OF ok1 q(1) reopened, of p]) simp_all
    with q(4) show "holds_occurrence q (?g p)" by (simp add: holds_occurrence_def)
  qed simp
  then show ?thesis using tables by (simp add: single_flight_def)
qed

lemma resolve_single_flight:
  assumes ok: "ledger_ok db" "single_flight db"
  shows "single_flight (snd (resolve_workflow_automation_approval_at env b run_id now token e s db))"
proof -
  note keep = in_transaction_keeps [where P = single_flight, OF ok(2)]
  show ?thesis
    unfolding resolve_workflow_automation_approval_at_def
    by (cases "parse_utc_timestamp env now"; cases b)
      (simp_all add: ok(2) keep approve_body_single_flight [OF ok] deny_body_single_flight [OF ok(2)])
qed

section \<open>Claims\<close>

text \<open>
  A claim passes over an occurrence that it finds waiting, leased or consumed. It does not count
  these statuses, into which a run can move its occurrence, as taken.
\<close>

definition unrecognised_statuses :: "occurrence_status list" where
  "unrecognised_statuses = [OS_Queued, OS_Paused, OS_Resuming, OS_Cancelling]"

definition claims_recognise :: "automation_db \<Rightarrow> string \<Rightarrow> bool" where
  "claims_recognise db automation_id \<longleftrightarrow>
     (\<forall>p \<in> set (ad_occurrences db). oc_automation_id p = automation_id \<longrightarrow> oc_status p \<notin> set unrecognised_statuses)"

lemma automation_from_row_id [simp]: "wa_id (automation_from_row env c row) = wa_id row"
  by (simp add: automation_from_row_def Let_def automation_row.defs)

lemma select_automation_id: "select_automation env db i = Some a \<Longrightarrow> wa_id a = i"
  by (auto simp: select_automation_def dest!: find_SomeD)

lemma refresh_due_run_id: "refresh_due_run env due db = Inr (due', v) \<Longrightarrow> wa_id (dr_automation due') = wa_id (dr_automation due)"
  by (auto simp: refresh_due_run_def dest: select_automation_id split: option.splits if_splits)

lemma pending_occurrence_automation: "pending_occurrence db a v g c = Some p \<Longrightarrow> oc_automation_id p = a"
  by (auto simp: pending_occurrence_def dest!: newest_occurrence_in split: option.splits if_splits)

lemma recorded_occurrence_automation: "recorded_occurrence db a v s g = Some p \<Longrightarrow> oc_automation_id p = a"
  unfolding recorded_occurrence_def by (drule find_SomeD) simp

lemma locate_claim_automation:
  assumes "locate_claim env due c now db = Inr t"
  shows "wa_id (dr_automation (ct_due t)) = wa_id (dr_automation due)"
    "ct_pending t = Some p \<Longrightarrow> oc_automation_id p = wa_id (dr_automation due)"
proof -
  obtain due' v where refresh: "refresh_due_run env due db = Inr (due', v)"
    using assms(1) by (cases "refresh_due_run env due db") (auto simp: locate_claim_def)
  define pend where "pend = pending_occurrence db (wa_id (dr_automation due')) v (dr_origin due') c"
  have t: "ct_pending t = pend \<and> wa_id (dr_automation (ct_due t)) = wa_id (dr_automation due')"
    using assms(1)
    by (auto simp: locate_claim_def refresh Let_def res_bind_ok_iff pend_def split: if_splits option.splits)
  with refresh_due_run_id [OF refresh] show "wa_id (dr_automation (ct_due t)) = wa_id (dr_automation due)" by simp
  assume "ct_pending t = Some p"
  with t pend_def refresh_due_run_id [OF refresh] show "oc_automation_id p = wa_id (dr_automation due)"
    by (metis pending_occurrence_automation)
qed

lemma prepared_claim_automation:
  assumes "prepare_workflow_occurrence_claim env due c now new_id s db = Inr (pc, db1)" "pc_existing pc = Some p"
  shows "oc_automation_id p = wa_id (dr_automation due)"
proof -
  obtain t where t: "locate_claim env due c now db = Inr t"
    using assms by (cases "locate_claim env due c now db") (auto simp: prepare_workflow_occurrence_claim_def)
  have "pc_existing pc = (case ct_pending t of Some p \<Rightarrow> Some p
    | None \<Rightarrow> recorded_occurrence db (wa_id (dr_automation (ct_due t))) (ct_revision t)
        (ct_scheduled_for t) (dr_origin (ct_due t)))"
    using assms(1) by (auto simp: prepare_workflow_occurrence_claim_def t Let_def res_bind_ok_iff)
  with assms(2) locate_claim_automation [OF t] show ?thesis
    by (auto split: option.splits dest: recorded_occurrence_automation)
qed

lemma existing_verdict_free:
  assumes "existing_verdict env pc now s db = None" "pc_existing pc = Some p"
    "oc_status p \<notin> set unrecognised_statuses"
  shows "oc_status p \<in> set unsettled"
  using assms by (cases "oc_status p")
    (auto simp: existing_verdict_def unrecognised_statuses_def unsettled_def consumed_statuses_def split: if_splits)

lemma prepare_claim_single_flight:
  assumes ok: "ledger_ok db" "single_flight db"
    and prep: "prepare_workflow_occurrence_claim env due c now new_id s db = Inr (pc, db1)"
  shows "single_flight db1"
proof -
  have no_run: "rn_occurrence_id r \<noteq> Some i" if "i \<notin> oc_id ` set (ad_occurrences db)" "r \<in> set (ad_runs db)" for r i
  proof
    assume "rn_occurrence_id r = Some i"
    with ok(1) that(2) obtain p where "p \<in> set (ad_occurrences db)" "oc_id p = i"
      unfolding ledger_ok_def runs_attached_def by blast
    with that(1) show False by blast
  qed
  show ?thesis
  proof (cases "pc_existing pc")
    case None
    with prepare_claim_tables [OF prep] obtain p where p: "oc_id p = pc_occurrence_id pc"
      "ad_occurrences db1 = ad_occurrences db @ [p]" "ad_runs db1 = ad_runs db"
      "pc_occurrence_id pc \<notin> oc_id ` set (ad_occurrences db)" by auto
    with no_run [OF p(4)] ok(2) show ?thesis by (auto simp: single_flight_def)
  next
    case (Some p)
    with prepare_claim_tables [OF prep] ok(2) show ?thesis by (simp add: single_flight_cong [of db1 db])
  qed
qed

lemma supersede_queued_single_flight:
  "single_flight db \<Longrightarrow> single_flight (supersede_queued pc a s db)"
  by (auto simp: supersede_queued_def active_run_statuses_def intro!: single_flight_close_runs)

lemma claim_skipped_single_flight:
  assumes sf: "single_flight db" and skipped: "claim_skipped pc s db db'"
  shows "single_flight db'"
proof -
  obtain db1 where db1: "single_flight db1" "ad_runs db' = ad_runs db1" "ad_occurrences db1 = ad_occurrences db"
  proof -
    have "ad_runs db' = ad_runs db \<or> ad_runs db' = ad_runs (supersede_queued pc (next_attempt pc) s db)"
      using skipped by (simp add: claim_skipped_def)
    then show thesis
      using that [of db] that [of "supersede_queued pc (next_attempt pc) s db"] sf supersede_queued_single_flight [OF sf]
      by auto
  qed
  from skipped consider "ad_occurrences db' = ad_occurrences db1"
    | f where "f \<in> {skipped_for_overlap, attempts_exhausted, skipped_for_misfire}"
      "ad_occurrences db' = ad_occurrences (update_occurrences (\<lambda>p. oc_id p = pc_occurrence_id pc) f db1)"
    by (auto simp: claim_skipped_def db1(3))
  then show ?thesis
  proof cases
    case 1
    with db1 show ?thesis by (simp add: single_flight_cong [of db' db1])
  next
    case (2 f)
    have status: "oc_status (f p) \<notin> set unsettled" for p
      using closed_occurrence_simps(3) [OF 2(1), of p] by (auto simp: unsettled_def)
    have "single_flight (update_occurrences (\<lambda>p. oc_id p = pc_occurrence_id pc) f db1)"
      by (rule single_flight_settle [OF db1(1) _ status]) (simp only: closed_occurrence_simps [OF 2(1)] simp_thms)
    with 2(2) db1(2) show ?thesis by (simp add: single_flight_def)
  qed
qed

text \<open>
  Queueing is safe when every open run of the occurrence was queued for an earlier attempt, which
  the claim has just closed.
\<close>

lemma queue_claim_single_flight:
  assumes sf: "single_flight db"
    and none: "\<And>r. \<lbrakk> r \<in> set (ad_runs db); rn_occurrence_id r = Some (pc_occurrence_id pc) \<rbrakk> \<Longrightarrow> \<not> open_run r"
    and queue: "queue_workflow_occurrence_claim pc a token expiry summary run_id s db = Inr ((r, q), db')"
  shows "single_flight db'"
proof -
  let ?f = "\<lambda>q. q \<lparr> oc_status := OS_Claimed, oc_attempt_count := a, oc_retry_at := None,
             oc_lease_token := Some token, oc_lease_expires_at := Some expiry \<rparr>"
  let ?q = "\<lambda>q. oc_id q = pc_occurrence_id pc"
  obtain db2 where ins: "insert_run r (update_occurrences ?q ?f db) = Inr db2"
    and r: "rn_occurrence_id r = Some (pc_occurrence_id pc)" "rn_attempt r = a" "rn_status r = RS_Queued"
    and db': "ad_runs db' = ad_runs db2" "ad_occurrences db' = ad_occurrences db2"
    using queue_claim_tables [OF queue] by blast
  have sf1: "single_flight (update_occurrences ?q ?f db)"
    using sf none by (intro single_flight_update_occurrences) auto
  have claimed: "holds_occurrence r p"
    if "p \<in> set (ad_occurrences (update_occurrences ?q ?f db))" "oc_id p = pc_occurrence_id pc" for p
    using that r by (auto simp: holds_occurrence_def set_update_rows)
  note t = insert_run_tables [OF ins]
  show ?thesis
    unfolding single_flight_def
  proof (intro ballI impI, elim conjE)
    fix p r'
    assume p: "p \<in> set (ad_occurrences db')" and r': "r' \<in> set (ad_runs db')" "rn_occurrence_id r' = Some (oc_id p)" "open_run r'"
    from p t db' have p': "p \<in> set (ad_occurrences (update_occurrences ?q ?f db))" by metis
    from r'(1) t db' consider "r' = r" | "r' \<in> set (ad_runs (update_occurrences ?q ?f db))" by auto
    then show "holds_occurrence r' p"
    proof cases
      case 1
      with claimed [OF p'] r' r(1) show ?thesis by simp
    next
      case 2
      with single_flight_held [OF sf1 p' _ r'(2,3)] show ?thesis by simp
    qed
  qed
qed

lemma queued_claim_closes:
  assumes ok: "ledger_ok db" "single_flight db"
    and p: "p \<in> set (ad_occurrences db)" "oc_id p = pc_occurrence_id pc" "oc_status p \<in> set unsettled"
    and a: "unat (next_attempt pc) = unat (oc_attempt_count p) + 1"
    and r: "r \<in> set (ad_runs (supersede_queued pc (next_attempt pc) s db))" "rn_occurrence_id r = Some (pc_occurrence_id pc)"
  shows "\<not> open_run r"
proof
  assume op: "open_run r"
  have old: "r \<in> set (ad_runs db) \<and> (1 < next_attempt pc \<longrightarrow> \<not> (rn_status r = RS_Queued \<and> rn_attempt r < next_attempt pc))"
    using r op by (auto simp: supersede_queued_def set_update_rows active_run_statuses_def split: if_splits)
  have held: "holds_occurrence r p" using old op r(2) p by (intro single_flight_held [OF ok(2)]) simp_all
  have "1 \<le> rn_attempt r" using ok(1) old r(2) unfolding ledger_ok_def runs_attached_def by blast
  with held have "1 \<le> unat (oc_attempt_count p)"
    by (simp add: holds_occurrence_def word_le_nat_alt)
  with a have gt: "1 < next_attempt pc" "oc_attempt_count p < next_attempt pc" by (simp_all add: word_less_nat_alt)
  from held p(3) have "rn_status r = RS_Queued" "rn_attempt r = oc_attempt_count p"
    by (auto simp: holds_occurrence_def unsettled_def)
  with old gt show False by simp
qed

lemma claim_body_single_flight:
  assumes ok: "ledger_ok db" "single_flight db" "claims_recognise db (wa_id (dr_automation due))"
    and claim: "claim_body env due now summary ids s db = Inr (c, db')"
  shows "single_flight db'"
proof (cases "dr_scheduled_for due")
  case None
  with claim obtain r where "record_workflow_automation_run env (wa_id (dr_automation due)) None ''queued''
           (opt_or summary (Some (dr_due_reason due))) (fi_run_id ids) s db = Inr (r, db')"
    by (auto simp: claim_body_def res_bind_ok_iff)
  with ok(2) show ?thesis by (rule record_run_single_flight)
next
  case (Some cached)
  with claim obtain t pc db1 d db2 where
    prep: "prepare_workflow_occurrence_claim env due cached t (fi_occurrence_id ids) s db = Inr (pc, db1)"
    and decide: "decide_workflow_occurrence_claim env pc t s db1 = Inr (d, db2)"
    and rest: "(case d of
                ClaimSkip reason \<Rightarrow>
                  res_bind (fetch_workflow_occurrence db2 (pc_occurrence_id pc)) (\<lambda>o'.
                    Inr (\<lparr> dc_due_run = pc_due_run pc, dc_occurrence = Some o', dc_run = None,
                      dc_skip_reason = Some reason \<rparr>, db2))
              | ClaimQueue attempt \<Rightarrow>
                  res_bind (queue_workflow_occurrence_claim pc attempt (fi_lease_token ids)
                      (lease_end env t) summary (fi_run_id ids) s db2) (\<lambda>((r, o'), db3).
                    Inr (\<lparr> dc_due_run = pc_due_run pc, dc_occurrence = Some o', dc_run = Some r,
                      dc_skip_reason = None \<rparr>, db3))) = Inr (c, db')"
    by (auto simp: claim_body_def res_bind_ok_iff split: option.splits)
  have ok1: "ledger_ok db1" "single_flight db1"
    using prepare_claim_ledger_ok [OF ok(1) prep] prepare_claim_single_flight [OF ok(1,2) prep] .
  from decide show ?thesis
  proof (cases rule: decide_claim_cases)
    case (skip reason)
    with rest have "db' = db2" by auto
    with claim_skipped_single_flight [OF ok1(2) skip(2)] show ?thesis by simp
  next
    case queue
    from rest queue(1) obtain r q where q: "queue_workflow_occurrence_claim pc (next_attempt pc) (fi_lease_token ids)
        (lease_end env t) summary (fi_run_id ids) s db2 = Inr ((r, q), db')" by auto
    from prepared_occurrence [OF ok(1) prep] obtain p where p: "p \<in> set (ad_occurrences db1)"
      "oc_id p = pc_occurrence_id pc" "unat (next_attempt pc) = unat (oc_attempt_count p) + 1"
      and existing: "pc_existing pc = Some p \<or> (pc_existing pc = None \<and> oc_status p = OS_Planned)" by blast
    have "oc_status p \<in> set unsettled"
      using existing
    proof
      assume e: "pc_existing pc = Some p"
      with prepare_claim_tables [OF prep] have "p \<in> set (ad_occurrences db)" by simp
      with ok(3) prepared_claim_automation [OF prep e] have "oc_status p \<notin> set unrecognised_statuses"
        by (simp add: claims_recognise_def)
      with existing_verdict_free [OF queue(2) e] show ?thesis by simp
    qed (simp add: unsettled_def)
    with queued_claim_closes [OF ok1 p(1,2) _ p(3)] queue_claim_single_flight [OF _ _ q]
      supersede_queued_single_flight [OF ok1(2)] queue(4)
    show ?thesis by blast
  qed
qed

section \<open>Fenced runs of the machine\<close>

text \<open>
  The fence: a failed launch and a move are reported only for an open run, and an automation is
  claimed only while none of its occurrences is in a status the claim does not recognise.
\<close>

definition fenced :: "automation_db \<Rightarrow> automation_op \<Rightarrow> bool" where
  "fenced db x = (case x of
     OpClaim due _ _ _ _ \<Rightarrow> claims_recognise db (wa_id (dr_automation due))
   | OpLaunchFailed run_id _ _ _ \<Rightarrow> reports_open db run_id
   | OpTransition run_id _ _ _ \<Rightarrow> reports_open db run_id
   | _ \<Rightarrow> True)"

lemma automation_step_single_flight:
  assumes ok: "ledger_ok db" "single_flight db" "fenced db x"
  shows "single_flight (automation_step env x db)"
proof (cases x)
  case (OpClaim due now summary ids s)
  with ok show ?thesis
    by (simp add: automation_step_def fenced_def claim_workflow_automation_due_run_at_def)
      (rule in_transaction_keeps [where P = single_flight, OF ok(2)], rule claim_body_single_flight [OF ok(1,2)])
next
  case (OpLaunchFailed run_id error now s)
  with ok show ?thesis
    by (simp add: automation_step_def fenced_def mark_workflow_automation_launch_failed_for_retry_def)
      (rule in_transaction_keeps [where P = single_flight, OF ok(2)], rule launch_failed_body_single_flight [OF ok(1,2)])
next
  case (OpTransition run_id st summary s)
  with ok show ?thesis
    by (simp add: automation_step_def fenced_def transition_workflow_automation_run_def)
      (rule in_transaction_keeps [where P = single_flight, OF ok(2)], rule transition_body_single_flight [OF ok(1,2)])
next
  case (OpRecord i t st summary run_id s)
  show ?thesis unfolding OpRecord automation_step_def automation_op.case
    by (rule in_transaction_keeps [where P = single_flight, OF ok(2)], rule record_run_single_flight [OF ok(2)])
next
  case (OpWaitApproval run_id e s)
  show ?thesis unfolding OpWaitApproval automation_step_def automation_op.case mark_workflow_automation_run_waiting_approval_def
    by (rule in_transaction_keeps [where P = single_flight, OF ok(2)], rule waiting_approval_body_single_flight [OF ok(1,2)])
next
  case (OpSave input config now new_id e s)
  show ?thesis unfolding OpSave automation_step_def automation_op.case save_workflow_automation_with_schedule_config_def
    by (rule in_transaction_keeps [where P = single_flight, OF ok(2)], rule save_body_single_flight [OF ok(2)])
qed (simp_all add: automation_step_def ok(2) start_single_flight [OF ok(1,2)] converge_single_flight
    resolve_single_flight [OF ok(1,2)] delete_single_flight)

inductive fenced_run :: "('c, 'm, 't, 'z) automation_env \<Rightarrow> automation_db \<Rightarrow> bool" for env where
  fenced_empty: "fenced_run env empty_automation_db"
| fenced_step: "\<lbrakk> fenced_run env db; fenced db x \<rbrakk> \<Longrightarrow> fenced_run env (automation_step env x db)"

lemma empty_ledger_ok [simp]: "ledger_ok empty_automation_db" "single_flight empty_automation_db"
  by (simp_all add: ledger_ok_def occurrences_ok_def runs_attached_def single_flight_def empty_automation_db_def)

lemma fenced_run_ok: "fenced_run env db \<Longrightarrow> ledger_ok db \<and> single_flight db"
  by (induction rule: fenced_run.induct)
    (simp_all add: automation_step_ledger_ok automation_step_single_flight)

lemma fenced_one_open_run:
  assumes "fenced_run env db" "r \<in> set (ad_runs db)" "r' \<in> set (ad_runs db)" "open_run r" "open_run r'"
    "rn_occurrence_id r = Some i" "rn_occurrence_id r' = Some i"
  shows "r = r'"
proof -
  from fenced_run_ok [OF assms(1)] have ok: "ledger_ok db" "single_flight db" by simp_all
  then obtain p where p: "p \<in> set (ad_occurrences db)" "oc_id p = i"
    using assms(2,6) unfolding ledger_ok_def runs_attached_def by blast
  with assms ok show ?thesis
    by (intro open_run_unique [of db r r' p] single_flight_held [of db p]) simp_all
qed

end
