(* ===== verification/Workflow_Launch.thy ===== *)
theory Workflow_Launch
  imports Automation_Flight Tool_Approval
begin

text \<open>
  Launching automations without a user, \<open>crates/core/src/workflow_execution.rs\<close>: the policy an
  automation is launched under, what is checked when it is saved and again when it is launched, and
  the steps from a due run to an execution ticket of \<open>crates/core/src/task_orchestrator.rs\<close>.

  The settings of an agent that launching does not read are one value of type \<open>'r\<close>. The list of
  agent configurations is the one \<open>list_agent_configs\<close> returns. Canonical paths and the hash of
  the source fingerprint come from outside, as does the text of a database error.
\<close>

section \<open>Execution tickets\<close>

definition TASK_ORCHESTRATOR_CONTRACT_VERSION :: u16 where "TASK_ORCHESTRATOR_CONTRACT_VERSION = 1"

definition BUILTIN_WORKFLOWS_PACKAGE_ID :: string where "BUILTIN_WORKFLOWS_PACKAGE_ID = ''builtin-workflows''"

record task_run_ownership =
  ow_user_id :: "string option"
  ow_profile_id :: "string option"
  ow_project_id :: "string option"
  ow_source_scope :: "string list"
  ow_package_id :: "string option"
  ow_workflow_id :: "string option"
  ow_session_id :: "string option"

datatype orchestrator_run_kind = KindAgentTask | KindWorkflowAutomation

record queue_item =
  qi_version :: u16
  qi_queue_id :: string
  qi_task_definition_id :: string
  qi_state :: task_state
  qi_ownership :: task_run_ownership
  qi_trigger_kind :: string
  qi_due_reason :: string
  qi_prompt :: string
  qi_approval_required :: bool
  qi_allowed_tools :: "string list"
  qi_risk_level :: "string option"

record delivery_envelope =
  dl_version :: u16
  dl_queue_item :: queue_item
  dl_prompt :: string

record orchestrator_run =
  og_version :: u16
  og_run_id :: string
  og_task_run_id :: "string option"
  og_task_definition_id :: "string option"
  og_kind :: orchestrator_run_kind
  og_status :: status_projection
  og_ownership :: task_run_ownership
  og_trigger_kind :: "string option"
  og_approval_required :: bool
  og_allowed_tools :: "string list"
  og_risk_level :: "string option"
  og_summary :: "string option"
  og_created_at :: "string option"
  og_finished_at :: "string option"

record execution_ticket =
  tk_version :: u16
  tk_delivery :: delivery_envelope
  tk_run :: orchestrator_run

definition workflow_automation_ownership :: "workflow_automation \<Rightarrow> task_run_ownership" where
  "workflow_automation_ownership a = \<lparr> ow_user_id = None, ow_profile_id = None,
     ow_project_id = ep_project_id (sc_execution_policy (wa_schedule_config a)),
     ow_source_scope = wa_source_scope a, ow_package_id = Some BUILTIN_WORKFLOWS_PACKAGE_ID,
     ow_workflow_id = Some (wa_workflow_template_id a), ow_session_id = None \<rparr>"

definition workflow_queue_item :: "string \<Rightarrow> workflow_automation \<Rightarrow> string \<Rightarrow> string \<Rightarrow> queue_item" where
  "workflow_queue_item queue_id a prompt due_reason = \<lparr> qi_version = TASK_ORCHESTRATOR_CONTRACT_VERSION,
     qi_queue_id = queue_id, qi_task_definition_id = wa_id a, qi_state = TS_Queued,
     qi_ownership = workflow_automation_ownership a, qi_trigger_kind = wa_trigger_kind a,
     qi_due_reason = due_reason, qi_prompt = prompt,
     qi_approval_required = rp_require_before_run (wa_approval_policy a),
     qi_allowed_tools = rp_allowed_tools (wa_approval_policy a),
     qi_risk_level = Some (rp_risk_level (wa_approval_policy a)) \<rparr>"

definition workflow_due_run_queue_item :: "due_run \<Rightarrow> queue_item" where
  "workflow_due_run_queue_item due = workflow_queue_item (''workflow_due:'' @ wa_id (dr_automation due))
     (dr_automation due) (dr_prompt due) (dr_due_reason due)"

definition workflow_due_run_delivery_envelope :: "due_run \<Rightarrow> delivery_envelope" where
  "workflow_due_run_delivery_envelope due = \<lparr> dl_version = TASK_ORCHESTRATOR_CONTRACT_VERSION,
     dl_queue_item = workflow_due_run_queue_item due, dl_prompt = dr_prompt due \<rparr>"

definition workflow_automation_delivery_envelope ::
  "workflow_automation \<Rightarrow> string \<Rightarrow> string \<Rightarrow> delivery_envelope" where
  "workflow_automation_delivery_envelope a prompt due_reason = \<lparr>
     dl_version = TASK_ORCHESTRATOR_CONTRACT_VERSION,
     dl_queue_item = workflow_queue_item (''workflow_delivery:'' @ wa_id a) a prompt due_reason,
     dl_prompt = prompt \<rparr>"

definition workflow_automation_run_projection ::
  "workflow_automation \<Rightarrow> automation_run \<Rightarrow> orchestrator_error + orchestrator_run" where
  "workflow_automation_run_projection a r =
     res_bind (project_task_status (run_status_as_str (rn_status r))) (\<lambda>status.
       Inr \<lparr> og_version = TASK_ORCHESTRATOR_CONTRACT_VERSION, og_run_id = rn_id r,
         og_task_run_id = rn_task_run_id r, og_task_definition_id = Some (wa_id a),
         og_kind = KindWorkflowAutomation, og_status = status,
         og_ownership = workflow_automation_ownership a, og_trigger_kind = Some (wa_trigger_kind a),
         og_approval_required = rp_require_before_run (wa_approval_policy a),
         og_allowed_tools = rp_allowed_tools (wa_approval_policy a),
         og_risk_level = Some (rp_risk_level (wa_approval_policy a)), og_summary = rn_summary r,
         og_created_at = Some (rn_created_at r), og_finished_at = rn_finished_at r \<rparr>)"

definition workflow_automation_execution_ticket ::
  "workflow_automation \<Rightarrow> automation_run \<Rightarrow> delivery_envelope \<Rightarrow> orchestrator_error + execution_ticket" where
  "workflow_automation_execution_ticket a r delivery =
     res_bind (workflow_automation_run_projection a r) (\<lambda>run.
       let state = st_state (og_status run);
           run_definition = unwrap_or [] (og_task_definition_id run);
           queue_definition = qi_task_definition_id (dl_queue_item delivery)
       in if state \<noteq> TS_Queued then Inl (ExecutionTicketState state)
       else if queue_definition \<noteq> run_definition
       then Inl (MismatchedExecutionTicket queue_definition run_definition)
       else Inr \<lparr> tk_version = TASK_ORCHESTRATOR_CONTRACT_VERSION, tk_delivery = delivery, tk_run = run \<rparr>)"

definition workflow_due_run_execution_ticket ::
  "due_run \<Rightarrow> automation_run \<Rightarrow> orchestrator_error + execution_ticket" where
  "workflow_due_run_execution_ticket due r =
     workflow_automation_execution_ticket (dr_automation due) r (workflow_due_run_delivery_envelope due)"

section \<open>What launching reads\<close>

record ('m, 'r) db_agent_config =
  ac_id :: string
  ac_provider :: string
  ac_provider_endpoint_id :: "string option"
  ac_model :: string
  ac_model_id :: "string option"
  ac_model_selection_resolution :: "'m option"
  ac_context_window :: "int option"
  ac_is_default :: bool
  ac_rest :: 'r

record project =
  pj_id :: string
  pj_name :: string
  pj_source_scope :: "string list option"
  pj_archived :: bool

record source_row =
  sr_id :: string
  sr_root_path :: string

record ('m, 'r) launch_tables =
  lt_configs :: "('m, 'r) db_agent_config list"
  lt_projects :: "project list"
  lt_sources :: "source_row list"

record host_env =
  he_canonicalize :: "string \<Rightarrow> string + string"
  he_blake3_hex :: "string \<Rightarrow> string"
  he_windows :: bool
  he_foreign :: string

definition get_project :: "('m, 'r) launch_tables \<Rightarrow> string \<Rightarrow> core_error + project" where
  "get_project tables i = (case find (\<lambda>p. pj_id p = i) (lt_projects tables) of
     None \<Rightarrow> Inl (CE_NotFound (''Project '' @ i))
   | Some p \<Rightarrow> Inr p)"

definition get_source :: "('m, 'r) launch_tables \<Rightarrow> string \<Rightarrow> core_error + source_row" where
  "get_source tables i = (case find (\<lambda>s. sr_id s = i) (lt_sources tables) of
     None \<Rightarrow> Inl (CE_NotFound (''Source not found: '' @ i))
   | Some s \<Rightarrow> Inr s)"

definition rewrap :: "(string \<Rightarrow> string) \<Rightarrow> host_env \<Rightarrow> core_error + 'a \<Rightarrow> core_error + 'a" where
  "rewrap message host r = (case r of
     Inl e \<Rightarrow> Inl (CE_InvalidInput (message (core_error_display (he_foreign host) e)))
   | Inr x \<Rightarrow> Inr x)"

section \<open>The launch policy\<close>

datatype launch_mode = Interactive | AuthoritativeScheduled

record ('m, 'r) launch_policy =
  lp_selected_config :: "('m, 'r) db_agent_config"
  lp_project_id :: "string option"
  lp_force_workspace_isolation :: bool
  lp_source_root_fingerprint :: "string option"
  lp_execution_mode :: "string option"
  lp_power_mode :: string
  lp_collaboration_mode :: string
  lp_orchestration_profile :: string
  lp_allowed_tools :: "string list option"
  lp_tool_approval_mode :: tool_approval_mode
  lp_agent_config_is_authoritative :: bool

definition select_workflow_launch_agent_config ::
  "('m, 'r) launch_tables \<Rightarrow> string option \<Rightarrow> core_error + ('m, 'r) db_agent_config" where
  "select_workflow_launch_agent_config tables requested = (case trimmed_nonempty requested of
     Some i \<Rightarrow> (case find (\<lambda>c. ac_id c = i) (lt_configs tables) of
         Some c \<Rightarrow> Inr c
       | None \<Rightarrow> Inl (CE_InvalidInput (''Requested agent config '' @ quoted i @ '' was not found.'')))
   | None \<Rightarrow> (case opt_or (find ac_is_default (lt_configs tables))
         (case lt_configs tables of [] \<Rightarrow> None | c # _ \<Rightarrow> Some c) of
         Some c \<Rightarrow> Inr c
       | None \<Rightarrow> Inl (CE_InvalidInput ''No agent config set. Please configure an LLM provider first.'')))"

definition validate_scheduled_execution_route ::
  "execution_policy \<Rightarrow> string \<Rightarrow> string option \<Rightarrow> core_error + unit" where
  "validate_scheduled_execution_route policy provider endpoint =
     res_bind (case trimmed_nonempty (ep_provider policy) of
         None \<Rightarrow> Inr ()
       | Some expected \<Rightarrow> if provider \<noteq> expected
           then Inl (CE_InvalidInput (''Scheduled workflow provider drift: saved '' @ quoted expected
             @ '', agent config now uses '' @ quoted provider))
           else Inr ())
       (\<lambda>_. case trimmed_nonempty (ep_provider_endpoint_id policy) of
         None \<Rightarrow> Inr ()
       | Some expected \<Rightarrow> if endpoint \<noteq> Some expected
           then Inl (CE_InvalidInput (''Scheduled workflow endpoint drift: saved '' @ quoted expected
             @ '', agent config now uses '' @ quoted (unwrap_or ''unknown'' endpoint)))
           else Inr ())"

definition apply_scheduled_execution_policy ::
  "('m, 'r) db_agent_config \<Rightarrow> execution_policy \<Rightarrow> core_error + ('m, 'r) db_agent_config" where
  "apply_scheduled_execution_policy config policy =
     res_bind (validate_scheduled_execution_route policy (ac_provider config) (ac_provider_endpoint_id config))
       (\<lambda>_. let config' = (case trimmed_nonempty (ep_model policy) of
             None \<Rightarrow> config
           | Some model \<Rightarrow> if ac_model config \<noteq> model
               then config \<lparr> ac_model := model, ac_model_id := None, ac_model_selection_resolution := None \<rparr>
               else config)
         in Inr (config' \<lparr> ac_context_window := map_option uint (ep_context_window policy) \<rparr>))"

definition build_launch_policy ::
  "('m, 'r) db_agent_config \<Rightarrow> execution_policy \<Rightarrow> approval_policy \<Rightarrow> launch_mode
     \<Rightarrow> core_error + ('m, 'r) launch_policy" where
  "build_launch_policy config ep approval mode =
     res_bind (apply_scheduled_execution_policy config ep) (\<lambda>selected.
       let authoritative = (mode = AuthoritativeScheduled)
       in Inr \<lparr> lp_selected_config = selected, lp_project_id = ep_project_id ep,
         lp_force_workspace_isolation = (authoritative \<and> ep_workspace_policy ep = IsolatedPatch),
         lp_source_root_fingerprint = (if authoritative then ep_source_root_fingerprint ep else None),
         lp_execution_mode = ep_execution_mode ep, lp_power_mode = ep_power_mode ep,
         lp_collaboration_mode = ep_collaboration_mode ep,
         lp_orchestration_profile = ep_orchestration_profile ep,
         lp_allowed_tools = (if authoritative then Some (rp_allowed_tools approval)
           else if rp_allowed_tools approval \<noteq> [] then Some (rp_allowed_tools approval) else None),
         lp_tool_approval_mode = (if authoritative then AllowAll else AskMode),
         lp_agent_config_is_authoritative = authoritative \<rparr>)"

section \<open>Tools and workspace\<close>

definition scheduled_source_root_fingerprint ::
  "host_env \<Rightarrow> ('m, 'r) launch_tables \<Rightarrow> string \<Rightarrow> core_error + string" where
  "scheduled_source_root_fingerprint host tables source_id =
     res_bind (rewrap (\<lambda>e. ''Scheduled workflow source '' @ quoted source_id @ '' is unavailable: '' @ e) host
         (get_source tables source_id)) (\<lambda>source.
       case he_canonicalize host (sr_root_path source) of
         Inl error \<Rightarrow> Inl (CE_InvalidInput (''Scheduled workflow source '' @ quoted (sr_root_path source)
           @ '' cannot be canonicalized: '' @ error))
       | Inr canonical \<Rightarrow>
           let normalized = replace_backslash canonical;
               normalized = (if he_windows host then to_ascii_lowercase normalized else normalized)
           in Inr (''blake3:'' @ he_blake3_hex host normalized))"

fun check_scheduled_tools ::
  "workspace_policy \<Rightarrow> bool \<Rightarrow> string list \<Rightarrow> core_error + bool" where
  "check_scheduled_tools policy has_write [] = Inr has_write"
| "check_scheduled_tools policy has_write (tool # tools) = (
     if tool_delegates_to_subagent (trim tool) \<and> policy = IsolatedPatch
     then Inl (CE_InvalidInput (''Scheduled tool '' @ quoted (trim tool)
       @ '' cannot yet inherit the isolated patch sandbox.''))
     else case scheduled_workspace_tool_class tool of
       Independent \<Rightarrow> check_scheduled_tools policy has_write tools
     | IsolatableWrite \<Rightarrow>
         if policy = IsolatedPatch then check_scheduled_tools policy True tools
         else Inl (CE_InvalidInput (''Scheduled tool '' @ quoted (trim tool)
           @ '' can write a workspace; select isolated_patch or remove it.''))
     | UnsupportedTool \<Rightarrow> Inl (CE_InvalidInput (''Scheduled tool '' @ quoted (trim tool)
         @ '' is not supported for unattended execution.'')))"

definition validate_scheduled_allowed_tools :: "string list \<Rightarrow> workspace_policy \<Rightarrow> core_error + unit" where
  "validate_scheduled_allowed_tools tools policy =
     res_bind (check_scheduled_tools policy False tools) (\<lambda>has_write.
       if policy = IsolatedPatch \<and> \<not> has_write
       then Inl (CE_InvalidInput ''Isolated scheduled patches require at least one isolation-safe write tool.'')
       else Inr ())"

definition validate_scheduled_workspace_target ::
  "host_env \<Rightarrow> ('m, 'r) launch_tables \<Rightarrow> workflow_automation \<Rightarrow> core_error + unit" where
  "validate_scheduled_workspace_target host tables a = (
     let ep = sc_execution_policy (wa_schedule_config a)
     in res_bind (validate_scheduled_allowed_tools (rp_allowed_tools (wa_approval_policy a)) (ep_workspace_policy ep))
       (\<lambda>_. if ep_workspace_policy ep \<noteq> IsolatedPatch then Inr ()
         else case wa_source_scope a of
           [source_id] \<Rightarrow>
             res_bind (scheduled_source_root_fingerprint host tables source_id) (\<lambda>current.
               case ep_source_root_fingerprint ep of
                 None \<Rightarrow> Inl (CE_InvalidInput ''Isolated scheduled patch is missing its Source fingerprint.'')
               | Some expected \<Rightarrow> if current \<noteq> expected then Inl (CE_InvalidInput
                   ''Scheduled Source root changed after this definition was saved; review and save it again.'')
                 else Inr ())
         | scope \<Rightarrow> Inl (CE_InvalidInput
             (''Isolated scheduled patches require exactly one snapshotted Source; found ''
               @ nat_to_string (length scope) @ ''.''))))"

definition check_launch_project ::
  "host_env \<Rightarrow> ('m, 'r) launch_tables \<Rightarrow> workflow_automation \<Rightarrow> launch_mode \<Rightarrow> core_error + unit" where
  "check_launch_project host tables a mode =
     (case ep_project_id (sc_execution_policy (wa_schedule_config a)) of
        None \<Rightarrow> Inr ()
      | Some i \<Rightarrow>
          res_bind (rewrap (\<lambda>e. ''Scheduled workflow project '' @ quoted i @ '' is unavailable: '' @ e) host
              (get_project tables i)) (\<lambda>project.
            if pj_archived project then Inl (CE_InvalidInput
              (''Scheduled workflow project '' @ quoted (pj_name project) @ '' is archived.''))
            else if mode = AuthoritativeScheduled
              \<and> \<not> set (wa_source_scope a) \<subseteq> set (unwrap_or [] (pj_source_scope project))
            then Inl (CE_InvalidInput
              ''Scheduled workflow source scope drifted outside its saved project boundary.'')
            else Inr ()))"

definition resolve_workflow_launch_policy ::
  "host_env \<Rightarrow> ('m, 'r) launch_tables \<Rightarrow> workflow_automation \<Rightarrow> launch_mode
     \<Rightarrow> core_error + ('m, 'r) launch_policy" where
  "resolve_workflow_launch_policy host tables a mode = (
     let ep = sc_execution_policy (wa_schedule_config a)
     in res_bind (check_launch_project host tables a mode) (\<lambda>_.
        res_bind (if mode = AuthoritativeScheduled then validate_scheduled_workspace_target host tables a
          else Inr ()) (\<lambda>_.
        res_bind (select_workflow_launch_agent_config tables (ep_agent_config_id ep)) (\<lambda>config.
          build_launch_policy config ep (wa_approval_policy a) mode))))"

section \<open>Saving\<close>

definition snapshot_scheduled_agent_config ::
  "schedule_config \<Rightarrow> ('m, 'r) db_agent_config \<Rightarrow> schedule_config" where
  "snapshot_scheduled_agent_config config selected = config \<lparr> sc_execution_policy := (sc_execution_policy config)
     \<lparr> ep_agent_config_id := Some (ac_id selected), ep_provider := Some (ac_provider selected),
       ep_provider_endpoint_id := ac_provider_endpoint_id selected,
       ep_model := opt_or (trimmed_nonempty (ep_model (sc_execution_policy config))) (Some (ac_model selected)) \<rparr> \<rparr>"

definition set_project_id :: "schedule_config \<Rightarrow> string option \<Rightarrow> schedule_config" where
  "set_project_id config i =
     config \<lparr> sc_execution_policy := (sc_execution_policy config) \<lparr> ep_project_id := i \<rparr> \<rparr>"

definition set_source_fingerprint :: "schedule_config \<Rightarrow> string option \<Rightarrow> schedule_config" where
  "set_source_fingerprint config f =
     config \<lparr> sc_execution_policy := (sc_execution_policy config) \<lparr> ep_source_root_fingerprint := f \<rparr> \<rparr>"

definition normalize_scheduled_config_agent_snapshot ::
  "host_env \<Rightarrow> ('m, 'r) launch_tables \<Rightarrow> schedule_config \<Rightarrow> core_error + schedule_config" where
  "normalize_scheduled_config_agent_snapshot host tables config =
     res_bind (case trimmed_nonempty (ep_project_id (sc_execution_policy config)) of
         None \<Rightarrow> Inr (set_project_id config None)
       | Some i \<Rightarrow>
           res_bind (rewrap (\<lambda>e. ''Scheduled workflow project '' @ quoted i @ '' is unavailable: '' @ e) host
               (get_project tables i)) (\<lambda>project.
             if pj_archived project then Inl (CE_InvalidInput
               (''Scheduled workflow project '' @ quoted (pj_name project) @ '' is archived.''))
             else Inr (set_project_id config (Some i))))
       (\<lambda>config'. case trimmed_nonempty (ep_agent_config_id (sc_execution_policy config')) of
           None \<Rightarrow> Inr config'
         | Some i \<Rightarrow> res_bind (select_workflow_launch_agent_config tables (Some i))
             (\<lambda>selected. Inr (snapshot_scheduled_agent_config config' selected)))"

fun check_sources :: "host_env \<Rightarrow> ('m, 'r) launch_tables \<Rightarrow> string list \<Rightarrow> core_error + unit" where
  "check_sources host tables [] = Inr ()"
| "check_sources host tables (i # rest) =
     res_bind (rewrap (\<lambda>e. ''Scheduled workflow source '' @ quoted i @ '' is unavailable: '' @ e) host
       (get_source tables i)) (\<lambda>_. check_sources host tables rest)"

text \<open>The sources of the project, when there is a project.\<close>

definition project_sources :: "('m, 'r) launch_tables \<Rightarrow> string \<Rightarrow> core_error + string list" where
  "project_sources tables i = res_bind (get_project tables i) (\<lambda>p. Inr (unwrap_or [] (pj_source_scope p)))"

definition prepare_workspace_target ::
  "host_env \<Rightarrow> ('m, 'r) launch_tables \<Rightarrow> save_input \<Rightarrow> schedule_config
     \<Rightarrow> core_error + save_input \<times> schedule_config" where
  "prepare_workspace_target host tables input config = (
     let ep = sc_execution_policy config; policy = ep_workspace_policy ep
     in if \<not> is_schedule (si_trigger input) then Inr (input, set_source_fingerprint config None)
     else res_bind (validate_scheduled_allowed_tools (rp_allowed_tools (si_approval_policy input)) policy) (\<lambda>_.
     res_bind (if si_source_scope input = [] \<and> policy \<noteq> IsolatedPatch
         then (case ep_project_id ep of None \<Rightarrow> Inr (si_source_scope input) | Some i \<Rightarrow> project_sources tables i)
         else Inr (si_source_scope input)) (\<lambda>scope.
     res_bind (check_sources host tables scope) (\<lambda>_.
     res_bind (case ep_project_id ep of None \<Rightarrow> Inr ()
         | Some i \<Rightarrow> res_bind (project_sources tables i) (\<lambda>allowed.
             if \<not> set scope \<subseteq> set allowed then Inl (CE_InvalidInput
               ''Scheduled source scope must remain inside the selected project's source boundary.'')
             else Inr ())) (\<lambda>_.
     res_bind (if policy = IsolatedPatch
         then (case scope of
             [source_id] \<Rightarrow> res_bind (scheduled_source_root_fingerprint host tables source_id) (\<lambda>f. Inr (Some f))
           | _ \<Rightarrow> Inl (CE_InvalidInput
               (''Isolated scheduled patches require exactly one explicit Source; found ''
                 @ nat_to_string (length scope) @ ''.'')))
         else Inr None) (\<lambda>fingerprint.
       Inr (input \<lparr> si_source_scope := scope \<rparr>, set_source_fingerprint config fingerprint)))))))"

definition prepare_workflow_automation_save ::
  "('c, 'm, 't, 'z) automation_env \<Rightarrow> host_env \<Rightarrow> ('o, 'r) launch_tables \<Rightarrow> save_input
     \<Rightarrow> schedule_config option \<Rightarrow> core_error + save_input \<times> schedule_config" where
  "prepare_workflow_automation_save env host tables input config0 =
     res_bind (case (si_trigger input, config0) of
         (TriggerSchedule cron, None) \<Rightarrow>
           (let legacy = legacy_workflow_schedule_config (parse_crontab (ae_cron env)) cron
            in if sc_legacy_needs_review legacy then Inl (CE_InvalidInput (''Legacy schedule '' @ quoted cron
              @ '' requires review with an explicit timezone and scheduleConfig before it can be saved.''))
            else Inr legacy)
       | (_, Some config) \<Rightarrow> Inr config
       | (_, None) \<Rightarrow> Inr default_schedule_config)
     (\<lambda>config. res_bind (normalize_scheduled_config_agent_snapshot host tables config)
        (prepare_workspace_target host tables input))"

section \<open>Preparing a launch\<close>

datatype ('m, 'r) launch_preparation =
    LaunchReady execution_ticket "('m, 'r) launch_policy"
  | LaunchPendingApproval automation_run
  | LaunchSkipped string

definition scheduler_retry_skip_event :: "retry_decision \<Rightarrow> scheduler_event_type \<times> string \<times> string" where
  "scheduler_retry_skip_event d =
     (if rd_attempts_exhausted d
      then (SE_SkippedRetryLimit, ''blocked'',
        ''Scheduler skipped due workflow because retry attempts are exhausted'')
      else (SE_SkippedBackoff, ''backoff'', ''Scheduler skipped due workflow until retry backoff expires''))"

definition scheduler_status_is_active :: "string \<Rightarrow> bool" where
  "scheduler_status_is_active status = (
     let raw = to_ascii_lowercase (trim status)
     in raw = ''cancelling'' \<or> (case project_task_status raw of
          Inl _ \<Rightarrow> False
        | Inr p \<Rightarrow> st_state p \<in> set [TS_Queued, TS_Running, TS_WaitingApproval, TS_Paused, TS_Resuming]))"

definition due_workflow_run_is_scheduler_eligible :: "due_run \<Rightarrow> bool" where
  "due_workflow_run_is_scheduler_eligible due \<longleftrightarrow>
     \<not> rp_require_before_run (wa_approval_policy (dr_automation due))
     \<and> \<not> scheduler_status_is_active (wa_status (dr_automation due))"

definition requires_preclaim_approval_skip :: "string \<Rightarrow> bool \<Rightarrow> bool" where
  "requires_preclaim_approval_skip kind require_before_run =
     (kind \<noteq> ''schedule'' \<and> require_before_run)"

text \<open>An event that fails to be written is only logged.\<close>

definition record_event_best_effort ::
  "string \<Rightarrow> string \<Rightarrow> string option \<Rightarrow> scheduler_event_type \<Rightarrow> string \<Rightarrow> string \<Rightarrow> json \<Rightarrow> string
     \<Rightarrow> automation_db \<Rightarrow> automation_db" where
  "record_event_best_effort event_id automation_id run_id event_type status summary payload sql_now db =
     snd (record_workflow_automation_scheduler_event event_id (Some automation_id) run_id event_type
       (Some status) summary (Some payload) sql_now db)"

definition opt_json :: "('a \<Rightarrow> json) \<Rightarrow> 'a option \<Rightarrow> json" where
  "opt_json f x = (case x of None \<Rightarrow> JNull | Some v \<Rightarrow> f v)"

definition retry_decision_json :: "retry_decision \<Rightarrow> json" where
  "retry_decision_json d = JObject [(''allowed'', JBool (rd_allowed d)),
     (''attemptsExhausted'', JBool (rd_attempts_exhausted d)),
     (''backoffSeconds'', opt_json revision_json (rd_backoff_seconds d)),
     (''backoffUntil'', opt_json JString (rd_backoff_until d)),
     (''lastRetryableEventAt'', opt_json JString (rd_last_retryable_event_at d)),
     (''lastRetryableEventType'', opt_json JString (rd_last_retryable_event_type d)),
     (''maxAttempts'', revision_json (int (rd_max_attempts d))),
     (''retryAfterSeconds'', opt_json revision_json (rd_retry_after_seconds d)),
     (''retryableFailureCount'', revision_json (int (rd_retryable_failure_count d)))]"

record launch_ids =
  li_claim :: fresh_ids
  li_event :: string
  li_approval_event :: string

text \<open>Without an occurrence, retries and the approval are checked before the claim; the skip and its event.\<close>

definition preclaim_skip ::
  "('c, 'm, 't, 'z) automation_env \<Rightarrow> due_run \<Rightarrow> string \<Rightarrow> string \<Rightarrow> string \<Rightarrow> automation_db
     \<Rightarrow> core_error + (string \<times> automation_db) option" where
  "preclaim_skip env due now event_id sql_now db = (
     let a = dr_automation due;
         base = [(''dueReason'', JString (dr_due_reason due))];
         tail = [(''triggerKind'', JString (wa_trigger_kind a)),
           (''workflowTemplateId'', JString (wa_workflow_template_id a))]
     in if wa_trigger_kind a = ''schedule'' then Inr None
     else res_bind (workflow_automation_scheduler_retry_decision env db (wa_id a) now) (\<lambda>decision.
       if \<not> rd_allowed decision then
         (case scheduler_retry_skip_event decision of (event_type, status, summary) \<Rightarrow>
           Inr (Some (if rd_attempts_exhausted decision then ''retry_exhausted'' else ''retry_backoff'',
             record_event_best_effort event_id (wa_id a) None event_type status summary
               (JObject (base @ [(''retryDecision'', retry_decision_json decision)] @ tail)) sql_now db)))
       else if requires_preclaim_approval_skip (wa_trigger_kind a) (rp_require_before_run (wa_approval_policy a))
       then Inr (Some (''approval_required_before_claim'',
         record_event_best_effort event_id (wa_id a) None SE_SkippedPreRunApproval ''waiting_approval''
           ''Scheduler skipped due workflow because pre-run approval is required''
           (JObject (base @ [(''riskLevel'', JString (rp_risk_level (wa_approval_policy a)))] @ tail)) sql_now db))
       else Inr None))"

text \<open>
  A claimed run that needs an approval and has none: it asks for it, and the launch stops. The
  result is \<open>None\<close> when the launch goes on.
\<close>

definition approval_gate ::
  "due_run_claim \<Rightarrow> automation_run \<Rightarrow> bool \<Rightarrow> string \<Rightarrow> string \<Rightarrow> automation_db
     \<Rightarrow> (core_error + ('m, 'r) launch_preparation option) \<times> automation_db" where
  "approval_gate claim r durable event_id sql_now db = (
     if \<not> durable then (Inr None, db)
     else case rn_occurrence_id r of
       None \<Rightarrow> (Inl (CE_InvalidInput ''Scheduled workflow claim did not retain an occurrence id.''), db)
     | Some i \<Rightarrow>
         if rp_require_before_run (wa_approval_policy (dr_automation (dc_due_run claim)))
           \<and> workflow_automation_occurrence_approval_state db i \<noteq> ApprovalApproved
         then (case mark_workflow_automation_run_waiting_approval (rn_id r) event_id sql_now db of
             (Inl e, db') \<Rightarrow> (Inl e, db')
           | (Inr requested, db') \<Rightarrow> (case get_workflow_automation_run db' (rn_id r) of
               Inl e \<Rightarrow> (Inl e, db')
             | Inr waiting \<Rightarrow>
                 if requested \<or> rn_status waiting = RS_WaitingApproval
                 then (Inr (Some (LaunchPendingApproval waiting)), db')
                 else (Inr (Some (LaunchSkipped ''approval_request_not_actionable'')), db')))
         else (Inr None, db))"

text \<open>The last part: the policy is resolved, and the claimed run becomes a ticket.\<close>

definition finish_launch ::
  "('c, 'm, 't, 'z) automation_env \<Rightarrow> host_env \<Rightarrow> ('o, 'r) launch_tables \<Rightarrow> due_run_claim \<Rightarrow> automation_run
     \<Rightarrow> string \<Rightarrow> string \<Rightarrow> string \<Rightarrow> string \<Rightarrow> string \<Rightarrow> automation_db
     \<Rightarrow> (core_error + ('o, 'r) launch_preparation) \<times> automation_db" where
  "finish_launch env host tables claim r automation_id due_reason now event_id sql_now db =
     (case resolve_workflow_launch_policy host tables (dr_automation (dc_due_run claim)) AuthoritativeScheduled of
        Inl error \<Rightarrow>
          let text = core_error_display (he_foreign host) error;
              db1 = record_event_best_effort event_id automation_id (Some (rn_id r)) SE_SkippedNoAgentConfig
                ''blocked'' ''Scheduler could not resolve the workflow's saved agent policy''
                (JObject [(''error'', JString text)]) sql_now db
          in (Inl error, snd (mark_workflow_automation_launch_failed_for_retry env (rn_id r) text now sql_now db1))
      | Inr policy \<Rightarrow> (case workflow_due_run_execution_ticket (dc_due_run claim) r of
          Inl e \<Rightarrow> (Inl (CE_InvalidInput (orchestrator_error_display e)), db)
        | Inr ticket \<Rightarrow>
            (Inr (LaunchReady ticket policy),
             record_event_best_effort event_id automation_id (Some (rn_id r)) SE_Claimed
               (st_raw_status (og_status (tk_run ticket))) ''Scheduler claimed due workflow''
               (JObject [(''attempt'', revision_json (uint (rn_attempt r))),
                 (''definitionRevision'', revision_json (rn_definition_revision r)),
                 (''dueReason'', JString due_reason),
                 (''occurrenceId'', opt_json JString (rn_occurrence_id r)),
                 (''queueId'', JString (qi_queue_id (dl_queue_item (tk_delivery ticket)))),
                 (''scheduledFor'', opt_json JString (rn_scheduled_for r))]) sql_now db)))"

definition prepare_scheduled_workflow_launch ::
  "('c, 'm, 't, 'z) automation_env \<Rightarrow> host_env \<Rightarrow> ('o, 'r) launch_tables \<Rightarrow> due_run \<Rightarrow> string \<Rightarrow> string option
     \<Rightarrow> launch_ids \<Rightarrow> string \<Rightarrow> automation_db \<Rightarrow> (core_error + ('o, 'r) launch_preparation) \<times> automation_db" where
  "prepare_scheduled_workflow_launch env host tables due now summary ids sql_now db = (
     let automation_id = wa_id (dr_automation due); due_reason = dr_due_reason due;
         durable = (wa_trigger_kind (dr_automation due) = ''schedule'')
     in case preclaim_skip env due now (li_event ids) sql_now db of
       Inl e \<Rightarrow> (Inl e, db)
     | Inr (Some (reason, db')) \<Rightarrow> (Inr (LaunchSkipped reason), db')
     | Inr None \<Rightarrow>
         (case claim_workflow_automation_due_run_at env due now
             (Some (unwrap_or (''scheduler: '' @ due_reason) summary)) (li_claim ids) sql_now db of
            (Inl error, db1) \<Rightarrow>
              (Inl error, record_event_best_effort (li_event ids) automation_id None SE_ClaimFailed ''failed''
                ''Scheduler failed to claim due workflow''
                (JObject [(''dueReason'', JString due_reason),
                  (''error'', JString (core_error_display (he_foreign host) error))]) sql_now db1)
          | (Inr claim, db1) \<Rightarrow> (case dc_run claim of
              None \<Rightarrow>
                let reason = unwrap_or ''not_launchable'' (dc_skip_reason claim)
                in (Inr (LaunchSkipped reason),
                    if reason \<in> set [''already_claimed_live'', ''already_consumed'', ''retry_backoff''] then db1
                    else record_event_best_effort (li_event ids) automation_id None SE_OccurrenceSkipped ''skipped''
                      ''Scheduler applied the saved occurrence policy''
                      (JObject [(''dueReason'', JString due_reason), (''skipReason'', JString reason)]) sql_now db1)
            | Some r \<Rightarrow> (case approval_gate claim r durable (li_approval_event ids) sql_now db1 of
                (Inl e, db2) \<Rightarrow> (Inl e, db2)
              | (Inr (Some outcome), db2) \<Rightarrow> (Inr outcome, db2)
              | (Inr None, db2) \<Rightarrow>
                  finish_launch env host tables claim r automation_id due_reason now (li_event ids) sql_now db2))))"

end
