(* ===== verification/Automation_Properties.thy ===== *)
theory Automation_Properties
  imports Automation_Flight "HOL-Library.Code_Target_Numeral"
begin

text \<open>
  The properties of the automation ledger, and small histories of it that are evaluated.
\<close>

section \<open>A small history\<close>

text \<open>Instants are whole minutes, written in unary.\<close>

definition clock_text :: "int \<Rightarrow> string" where
  "clock_text t = replicate (nat (t div nanos 60)) CHR ''1''"

definition clock_env :: "(string, int, string, int) automation_env" where
  "clock_env = \<lparr>
     ae_cron = \<lparr> parse_crontab = Inr, make_timestamp = Inr,
       find_next = (\<lambda>_ s. Inr (60 * (s div 60 + 1))), time_zone_get = Inr,
       earlier_offset = (\<lambda>_ z. Inr z), instant_of = nanos, timestamp_text = clock_text,
       parse_from_rfc3339 = (\<lambda>s. Inr (nanos 60 * int (length s))),
       from_timestamp = (\<lambda>s. Some (nanos s)), to_rfc3339_opts = clock_text, zoned_text = clock_text \<rparr>,
     ae_parse_sql_datetime = (\<lambda>_. None), ae_to_rfc3339 = clock_text \<rparr>"

definition minute :: "int \<Rightarrow> string" where
  "minute m = clock_text (nanos (60 * m))"

definition demo_input :: "bool \<Rightarrow> save_input" where
  "demo_input approval = \<lparr> si_id = Some ''a'', si_name = ''n'', si_description = [], si_workflow_template_id = ''w'',
     si_prompt = ''p'', si_trigger = TriggerSchedule ''* * * * *'', si_source_scope = [],
     si_approval_policy = \<lparr> rp_require_before_run = approval, rp_allowed_tools = [], rp_risk_level = ''low'' \<rparr>,
     si_enabled = True \<rparr>"

definition demo_due :: "int \<Rightarrow> due_run" where
  "demo_due t = \<lparr> dr_automation = \<lparr> wa_id = ''a'', wa_name = ''n'', wa_description = [],
       wa_workflow_template_id = ''w'', wa_prompt = ''p'', wa_trigger_kind = ''schedule'',
       wa_trigger = TriggerSchedule ''* * * * *'', wa_source_scope = [],
       wa_approval_policy = default_approval_policy, wa_enabled = True, wa_status = ''ready'',
       wa_last_run_at = None, wa_next_run_at = None, wa_created_at = minute 0, wa_updated_at = minute 0,
       wa_schedule_config = default_schedule_config \<rparr>,
     dr_prompt = [], dr_due_reason = [], dr_scheduled_for = Some (minute t), dr_origin = OriginSchedule \<rparr>"

definition demo_claim :: "int \<Rightarrow> string \<Rightarrow> automation_op" where
  "demo_claim t run_id = OpClaim (demo_due 1) (minute t) None
     \<lparr> fi_lease_token = ''k'' @ run_id, fi_occurrence_id = ''o'', fi_run_id = run_id \<rparr> (minute t)"

definition claimed_history :: "bool \<Rightarrow> automation_op list" where
  "claimed_history approval = [OpSave (demo_input approval) default_schedule_config 0 ''a'' ''e0'' (minute 0),
     demo_claim 1 ''r1'']"

definition run_history :: "automation_op list \<Rightarrow> automation_db" where
  "run_history xs = run_ops (automation_step clock_env) xs empty_automation_db"

definition run_states :: "automation_db \<Rightarrow> (string \<times> u32 \<times> run_status) list" where
  "run_states db = map (\<lambda>r. (rn_id r, rn_attempt r, rn_status r)) (ad_runs db)"

text \<open>
  Run 1 is claimed and its lease expires; run 2 takes over and starts. Then the host reports that
  run 1 could not be launched, and the occurrence is claimed a third time.
\<close>

definition stale_history :: "automation_op list" where
  "stale_history = claimed_history False @
     [demo_claim 4 ''r2'', OpTaskRun ''t2'', OpStart ''r2'' ''t2'' None (minute 5) (minute 5),
      OpLaunchFailed ''r1'' ''lost'' (minute 5) (minute 5),
      demo_claim 11 ''r3'', OpTaskRun ''t3'', OpStart ''r3'' ''t3'' None (minute 11) (minute 11)]"

text \<open>The first three steps after the claim, and the same history with an approval asked for.\<close>

definition takeover_history :: "automation_op list" where
  "takeover_history = claimed_history False @
     [demo_claim 4 ''r2'', OpTaskRun ''t2'', OpStart ''r2'' ''t2'' None (minute 5) (minute 5)]"

primrec fenced_ops :: "('c, 'm, 't, 'z) automation_env \<Rightarrow> automation_op list \<Rightarrow> automation_db \<Rightarrow> bool" where
  "fenced_ops env [] db = True"
| "fenced_ops env (x # xs) db = (fenced db x \<and> fenced_ops env xs (automation_step env x db))"

lemma fenced_ops_run: "\<lbrakk> fenced_run env db; fenced_ops env xs db \<rbrakk> \<Longrightarrow> fenced_run env (run_ops (automation_step env) xs db)"
  by (induction xs arbitrary: db) (auto intro: fenced_step)

section \<open>Attempts\<close>

interpretation automation_ledger: invariant_machine "automation_step env" ledger_ok for env
  by unfold_locales (rule automation_step_ledger_ok)

abbreviation runs_of :: "string \<Rightarrow> automation_db \<Rightarrow> automation_run list" where
  "runs_of i db \<equiv> filter (\<lambda>r. rn_occurrence_id r = Some i) (ad_runs db)"

lemma attempts_of_occurrence:
  assumes ok: "ledger_ok db"
  shows "distinct (map rn_attempt (runs_of i db))"
    and "set (map rn_attempt (runs_of i db)) \<subseteq> {1..4}"
proof -
  have attached: "runs_attached (ad_runs db) (ad_occurrences db)" using ok by (simp add: ledger_ok_def)
  then have "distinct (ad_runs db)" by (simp add: runs_attached_def distinct_map)
  then have "distinct (runs_of i db)" by simp
  moreover have "inj_on rn_attempt (set (runs_of i db))"
    using attached unfolding runs_attached_def inj_on_def by auto
  ultimately show "distinct (map rn_attempt (runs_of i db))" by (simp add: distinct_map)
  have "1 \<le> rn_attempt r \<and> rn_attempt r \<le> 4" if r: "r \<in> set (runs_of i db)" for r
  proof -
    from r have "r \<in> set (ad_runs db)" "rn_occurrence_id r = Some i" by simp_all
    with attached obtain p where p: "1 \<le> rn_attempt r" "p \<in> set (ad_occurrences db)" "rn_attempt r \<le> oc_attempt_count p"
      unfolding runs_attached_def by blast
    from p(2) ok have "oc_attempt_count p \<le> 4"
      by (auto simp: ledger_ok_def occurrences_ok_def SCHEDULER_RETRY_MAX_ATTEMPTS_def word_le_nat_alt)
    with p show ?thesis by simp
  qed
  then show "set (map rn_attempt (runs_of i db)) \<subseteq> {1..4}" by auto
qed

text \<open>
  C30: Whatever operations run on the automation ledger, in any order and with any arguments, the
  runs of an occurrence are numbered by distinct attempts, and there are at most four of them.
\<close>

theorem automation_attempts_bounded:
  "distinct (map rn_attempt (runs_of i (run_ops (automation_step env) xs empty_automation_db)))
   \<and> length (runs_of i (run_ops (automation_step env) xs empty_automation_db)) \<le> SCHEDULER_RETRY_MAX_ATTEMPTS"
proof -
  let ?db = "run_ops (automation_step env) xs empty_automation_db"
  have ok: "ledger_ok ?db" by (rule automation_ledger.run_inv) simp
  note attempts = attempts_of_occurrence [OF ok, of i]
  have "length (runs_of i ?db) = card (set (map rn_attempt (runs_of i ?db)))"
    using distinct_card [OF attempts(1)] by simp
  also have "\<dots> \<le> card {1..4 :: u32}" by (rule card_mono [OF _ attempts(2)]) simp
  also have "card {1..4 :: u32} = 4"
  proof -
    have "{1..4 :: u32} = {1, 2, 3, 4}" by (auto simp: word_le_nat_alt unat_arith_simps)
    then show ?thesis by simp
  qed
  finally show ?thesis using attempts(1) by (simp add: SCHEDULER_RETRY_MAX_ATTEMPTS_def)
qed

section \<open>One open run\<close>

text \<open>
  C31: As long as failed launches and moves are reported only for runs that are still open, and no
  claim is made on an automation with an occurrence in a status the claim does not recognise, an
  occurrence never has two open runs.
\<close>

theorem one_open_run_per_occurrence:
  "fenced_run env db \<Longrightarrow> length (filter open_run (runs_of i db)) \<le> 1"
proof -
  assume run: "fenced_run env db"
  let ?rs = "filter open_run (runs_of i db)"
  have "distinct (ad_runs db)"
    using fenced_run_ok [OF run] by (simp add: ledger_ok_def runs_attached_def distinct_map)
  then have "length ?rs = card (set ?rs)" by (metis distinct_card distinct_filter)
  also have "\<dots> \<le> 1"
    using fenced_one_open_run [OF run] by (simp add: card_le_Suc0_iff_eq)
  finally show ?thesis .
qed

lemma one_open_run_per_occurrence_witness:
  "run_states (run_history takeover_history) = [(''r1'', 1, RS_Cancelled), (''r2'', 2, RS_Running)]
   \<and> length (filter open_run (runs_of ''o'' (run_history takeover_history))) \<le> 1"
proof
  show "run_states (run_history takeover_history) = [(''r1'', 1, RS_Cancelled), (''r2'', 2, RS_Running)]"
    by code_simp
  have "fenced_ops clock_env takeover_history empty_automation_db" by code_simp
  with fenced_empty have "fenced_run clock_env (run_history takeover_history)"
    unfolding run_history_def by (rule fenced_ops_run)
  then show "length (filter open_run (runs_of ''o'' (run_history takeover_history))) \<le> 1"
    by (rule one_open_run_per_occurrence)
qed

text \<open>
  Without the fence an occurrence can run twice. In \<open>stale_history\<close> the late report that the first
  attempt could not be launched puts the occurrence back although the second attempt is running, and
  the claim that follows starts a third beside it.
\<close>

lemma stale_history_runs:
  "run_states (run_history stale_history)
     = [(''r1'', 1, RS_Cancelled), (''r2'', 2, RS_Running), (''r3'', 3, RS_Running)]"
  by code_simp

lemma failed_launch_tables:
  assumes "mark_workflow_automation_launch_failed_for_retry env run_id error now s db = (Inr (Some p), db')"
    and ok: "ledger_ok db"
  shows "ledger_ok db'" "rn_id q \<noteq> run_id \<Longrightarrow> q \<in> set (ad_runs db) \<Longrightarrow> q \<in> set (ad_runs db')"
    "map rn_id (ad_runs db') = map rn_id (ad_runs db)"
proof -
  have body: "launch_failed_body env run_id error now s db = Inr (Some p, db')"
    using assms(1) by (auto simp: mark_workflow_automation_launch_failed_for_retry_def in_transaction_def split: sum.splits)
  show "ledger_ok db'" by (rule launch_failed_body_ledger_ok [OF ok body])
  obtain f where runs: "ad_runs db' = update_rows (\<lambda>p. rn_id p = run_id) f (ad_runs db)" "\<And>p. rn_id (f p) = rn_id p"
    using body
  proof (cases rule: launch_failed_cases)
    case (plain r y)
    with body show thesis
      by (auto simp: launch_failed_body_def get_workflow_automation_run_def res_bind_ok_iff)
  next
    case (retry r i e t)
    from that [OF retry(3)] show thesis by simp
  qed
  show "rn_id q \<noteq> run_id \<Longrightarrow> q \<in> set (ad_runs db) \<Longrightarrow> q \<in> set (ad_runs db')"
    by (auto simp: runs(1) set_update_rows)
  show "map rn_id (ad_runs db') = map rn_id (ad_runs db)"
    by (simp add: runs update_rows_def)
qed

text \<open>What a claim does on an occurrence that waits for a retry whose time has come.\<close>

lemma retried_claim_queues:
  assumes ok: "ledger_ok db" and p: "pc_existing pc = Some p" "p \<in> set (ad_occurrences db)" "oc_status p = OS_RetryWait"
    and q: "q \<in> set (ad_runs db)" "rn_occurrence_id q = Some (oc_id p)"
    and due: "\<not> later_than env (oc_retry_at p) m" "unat (oc_attempt_count p) < SCHEDULER_RETRY_MAX_ATTEMPTS"
    and free: "workflow_has_isolated_source_lock db pc = Inr False"
      "\<not> workflow_has_active_run db (wa_id (dr_automation (pc_due_run pc))) (pc_occurrence_id pc)"
  shows "decide_workflow_occurrence_claim env pc m s db
    = Inr (ClaimQueue (oc_attempt_count p + 1), supersede_queued pc (oc_attempt_count p + 1) s db)"
proof -
  have successor: "unat (next_attempt pc) = unat (oc_attempt_count p) + 1" by (rule next_attempt_existing [OF ok p(1,2)])
  then have attempt: "next_attempt pc = oc_attempt_count p + 1"
    using due(2) by (simp add: SCHEDULER_RETRY_MAX_ATTEMPTS_def word_unat_eq_iff unat_word_ariths)
  obtain p' where "1 \<le> rn_attempt q" "p' \<in> set (ad_occurrences db)" "oc_id p' = oc_id p" "rn_attempt q \<le> oc_attempt_count p'"
    using ok q unfolding ledger_ok_def runs_attached_def by blast
  with occurrence_by_id [OF ok] p(2) have "1 \<le> oc_attempt_count p" by (metis order.trans)
  with successor have "next_attempt pc \<noteq> 1" by (auto simp: word_le_nat_alt)
  moreover have "existing_verdict env pc m s db = None"
    using p(1,3) due(1) by (simp add: existing_verdict_def consumed_statuses_def)
  ultimately show ?thesis
    using free successor due(2) by (simp add: decide_workflow_occurrence_claim_def misfire_expired_def Let_def attempt)
qed

lemma find_snoc: "\<lbrakk> find P xs = None; P x \<rbrakk> \<Longrightarrow> find P (xs @ [x]) = Some x"
  by (induction xs) (auto split: if_splits)

lemma queue_claim_succeeds:
  assumes ok: "ledger_ok db" and p: "p \<in> set (ad_occurrences db)" "oc_id p = pc_occurrence_id pc"
    and a: "oc_attempt_count p < a" and fresh: "run_id \<notin> rn_id ` set (ad_runs db)"
  shows "\<exists>r o' db'. queue_workflow_occurrence_claim pc a token expiry summary run_id s db = Inr ((r, o'), db')
    \<and> rn_occurrence_id r = Some (pc_occurrence_id pc) \<and> rn_attempt r = a \<and> rn_status r = RS_Queued
    \<and> ad_runs db' = ad_runs db @ [r]"
proof -
  define r where "r = \<lparr> rn_id = run_id, rn_automation_id = wa_id (dr_automation (pc_due_run pc)), rn_task_run_id = None,
     rn_status = RS_Queued, rn_summary = opt_or summary (Some (dr_due_reason (pc_due_run pc))),
     rn_occurrence_id = Some (pc_occurrence_id pc), rn_scheduled_for = Some (pc_scheduled_for pc),
     rn_definition_revision = pc_definition_revision pc, rn_attempt = a,
     rn_created_at = s, rn_finished_at = None \<rparr>"
  have "rn_attempt q \<noteq> a" if q: "q \<in> set (ad_runs db)" "rn_occurrence_id q = Some (pc_occurrence_id pc)" for q
  proof -
    from ok q obtain p' where p': "p' \<in> set (ad_occurrences db)" "oc_id p' = pc_occurrence_id pc" "rn_attempt q \<le> oc_attempt_count p'"
      unfolding ledger_ok_def runs_attached_def by blast
    from occurrence_by_id [OF ok p(1) p'(1)] p p' a show ?thesis by auto
  qed
  with fresh have insert: "insert_run r db1 = Inr (db1 \<lparr> ad_runs := ad_runs db @ [r] \<rparr>)"
    if "ad_runs db1 = ad_runs db" for db1
    using that by (auto simp: insert_run_def insert_row_def list_ex_iff r_def)
  have run: "find (\<lambda>r. rn_id r = run_id) (ad_runs db @ [r]) = Some r"
    using fresh by (intro find_snoc) (auto simp: find_None_iff r_def)
  have occurrence: "\<exists>o'. find (\<lambda>o'. oc_id o' = pc_occurrence_id pc)
      (update_rows (\<lambda>o'. oc_id o' = pc_occurrence_id pc) f (ad_occurrences db)) = Some o'"
    if "\<And>o'. oc_id (f o') = oc_id o'" for f
  proof -
    have "find (\<lambda>o'. oc_id o' = pc_occurrence_id pc)
      (update_rows (\<lambda>o'. oc_id o' = pc_occurrence_id pc) f (ad_occurrences db)) \<noteq> None"
      using p that unfolding find_None_iff by (auto simp: set_update_rows)
    then show ?thesis by blast
  qed
  obtain o' where "find (\<lambda>o'. oc_id o' = pc_occurrence_id pc) (update_rows (\<lambda>o'. oc_id o' = pc_occurrence_id pc)
     (\<lambda>o'. o' \<lparr> oc_status := OS_Claimed, oc_attempt_count := a, oc_retry_at := None,
        oc_lease_token := Some token, oc_lease_expires_at := Some expiry \<rparr>) (ad_occurrences db)) = Some o'"
    using occurrence by fastforce
  with insert run show ?thesis
    by (simp add: queue_workflow_occurrence_claim_def Let_def fetch_workflow_run_def fetch_workflow_occurrence_def
        find_run_def find_occurrence_def flip: r_def) (simp add: r_def)
qed

text \<open>The claim on an occurrence \<open>p\<close> gets as far as its decision, and nothing but \<open>p\<close> itself is in its way.\<close>

definition retry_claim_due ::
  "('c, 'm, 't, 'z) automation_env \<Rightarrow> due_run \<Rightarrow> string \<Rightarrow> fresh_ids \<Rightarrow> string \<Rightarrow> occurrence \<Rightarrow> automation_db \<Rightarrow> bool" where
  "retry_claim_due env due now ids s p db = (case (dr_scheduled_for due, parse_utc_timestamp env now) of
     (Some cached, Some m) \<Rightarrow>
       (case prepare_workflow_occurrence_claim env due cached m (fi_occurrence_id ids) s db of
          Inl e \<Rightarrow> False
        | Inr (pc, db1) \<Rightarrow> pc_existing pc = Some p \<and> \<not> later_than env (oc_retry_at p) m
            \<and> workflow_has_isolated_source_lock db1 pc = Inr False
            \<and> \<not> workflow_has_active_run db1 (wa_id (dr_automation (pc_due_run pc))) (oc_id p)
            \<and> find_run db1 (fi_run_id ids) = None)
   | _ \<Rightarrow> False)"

text \<open>
  C35: In every reachable ledger, a report that the launch of a run failed puts the occurrence back to
  wait for a retry, whatever the occurrence and its other runs are doing: a later attempt that is
  running keeps running. When the retry is due, the next claim, which overlooks the runs of its own
  occurrence, queues a further attempt beside the one that runs.
\<close>

theorem late_launch_failure_doubles_run:
  assumes reach: "db = run_ops (automation_step env) xs empty_automation_db"
    and late: "mark_workflow_automation_launch_failed_for_retry env run_id error now s db = (Inr (Some p), db')"
      "oc_status p = OS_RetryWait"
    and q: "q \<in> set (ad_runs db)" "rn_occurrence_id q = Some (oc_id p)" "rn_status q = RS_Running" "rn_id q \<noteq> run_id"
    and claim: "retry_claim_due env due now' ids s' p db'" "unat (oc_attempt_count p) < SCHEDULER_RETRY_MAX_ATTEMPTS"
  shows "\<exists>c r db2. claim_workflow_automation_due_run_at env due now' summary ids s' db' = (Inr c, db2)
    \<and> dc_run c = Some r \<and> rn_status r = RS_Queued \<and> rn_attempt r = oc_attempt_count p + 1
    \<and> rn_occurrence_id r = rn_occurrence_id q \<and> r \<noteq> q \<and> {q, r} \<subseteq> set (ad_runs db2)"
proof -
  have "ledger_ok db" unfolding reach by (rule automation_ledger.run_inv) simp
  note reported = failed_launch_tables [OF late(1) this]
  from claim(1) obtain cached m pc db1 where due: "dr_scheduled_for due = Some cached" "parse_utc_timestamp env now' = Some m"
    and prep: "prepare_workflow_occurrence_claim env due cached m (fi_occurrence_id ids) s' db' = Inr (pc, db1)"
    and pc: "pc_existing pc = Some p" "\<not> later_than env (oc_retry_at p) m"
      "workflow_has_isolated_source_lock db1 pc = Inr False"
      "\<not> workflow_has_active_run db1 (wa_id (dr_automation (pc_due_run pc))) (oc_id p)"
      "find_run db1 (fi_run_id ids) = None"
    unfolding retry_claim_due_def by (auto split: option.splits sum.splits)
  from pc(5) have fresh: "fi_run_id ids \<notin> rn_id ` set (ad_runs db1)" by (auto simp: find_run_def find_None_iff)
  have tables: "ad_runs db1 = ad_runs db'" "p \<in> set (ad_occurrences db1)" "oc_id p = pc_occurrence_id pc"
    using prepare_claim_tables [OF prep] pc(1) by auto
  have ok: "ledger_ok db1" by (rule prepare_claim_ledger_ok [OF reported(1) prep])
  have running: "q \<in> set (ad_runs db1)" using reported(2) q tables(1) by simp
  let ?a = "oc_attempt_count p + 1"
  let ?db = "supersede_queued pc ?a s' db1"
  have decided: "decide_workflow_occurrence_claim env pc m s' db1 = Inr (ClaimQueue ?a, ?db)"
    using retried_claim_queues [OF ok pc(1) tables(2) late(2) running q(2) pc(2) claim(2) pc(3)] pc(4) tables(3) by simp
  have less: "oc_attempt_count p < ?a"
    using claim(2) by (simp add: word_less_nat_alt unat_word_ariths SCHEDULER_RETRY_MAX_ATTEMPTS_def)
  have kept: "q \<in> set (ad_runs ?db)"
    using running q(3) by (force simp: supersede_queued_def update_runs_def set_update_rows)
  have "map rn_id (ad_runs ?db) = map rn_id (ad_runs db1)"
    by (simp add: supersede_queued_def update_runs_def update_rows_def)
  with fresh have fresh': "fi_run_id ids \<notin> rn_id ` set (ad_runs ?db)" by (metis list.set_map)
  have pending: "p \<in> set (ad_occurrences ?db)" using tables(2) by simp
  obtain r o' db2 where queued: "queue_workflow_occurrence_claim pc ?a (fi_lease_token ids) (lease_end env m) summary
      (fi_run_id ids) s' ?db = Inr ((r, o'), db2)"
    and r: "rn_occurrence_id r = Some (pc_occurrence_id pc)" "rn_attempt r = ?a" "rn_status r = RS_Queued"
      "ad_runs db2 = ad_runs ?db @ [r]"
    using queue_claim_succeeds [OF ledger_ok_supersede [OF ok] pending tables(3) less fresh',
        where token = "fi_lease_token ids" and expiry = "lease_end env m" and summary = summary and s = s']
    by (elim exE conjE) (rule that)
  have "claim_workflow_automation_due_run_at env due now' summary ids s' db'
     = (Inr \<lparr> dc_due_run = pc_due_run pc, dc_occurrence = Some o', dc_run = Some r, dc_skip_reason = None \<rparr>, db2)"
    by (simp add: claim_workflow_automation_due_run_at_def in_transaction_def claim_body_def due prep decided queued)
  with r q tables(3) kept show ?thesis by auto
qed

lemma late_launch_failure_doubles_run_witness:
  "\<exists>p db' c r q db2. mark_workflow_automation_launch_failed_for_retry clock_env ''r1'' ''lost'' (minute 5) (minute 5)
       (run_history takeover_history) = (Inr (Some p), db')
     \<and> claim_workflow_automation_due_run_at clock_env (demo_due 1) (minute 11) None
         \<lparr> fi_lease_token = ''k'', fi_occurrence_id = ''x'', fi_run_id = ''r3'' \<rparr> (minute 11) db' = (Inr c, db2)
     \<and> dc_run c = Some r \<and> rn_status r = RS_Queued \<and> rn_status q = RS_Running \<and> rn_occurrence_id r = rn_occurrence_id q
     \<and> {q, r} \<subseteq> set (ad_runs db2)"
proof -
  define db where "db = run_history takeover_history"
  define ids where "ids = \<lparr> fi_lease_token = ''k'', fi_occurrence_id = ''x'', fi_run_id = ''r3'' \<rparr>"
  define reported where "reported = mark_workflow_automation_launch_failed_for_retry clock_env ''r1'' ''lost'' (minute 5) (minute 5) db"
  have "case reported of (Inr (Some p), db') \<Rightarrow> oc_id p = ''o'' \<and> oc_status p = OS_RetryWait \<and> oc_attempt_count p = 2
      \<and> retry_claim_due clock_env (demo_due 1) (minute 11) ids (minute 11) p db' | _ \<Rightarrow> False"
    unfolding reported_def db_def ids_def by code_simp
  then obtain p db' where late: "reported = (Inr (Some p), db')" "oc_id p = ''o''" "oc_status p = OS_RetryWait"
    "oc_attempt_count p = 2" "retry_claim_due clock_env (demo_due 1) (minute 11) ids (minute 11) p db'"
    by (auto split: prod.splits sum.splits option.splits)
  have "list_ex (\<lambda>q. rn_occurrence_id q = Some ''o'' \<and> rn_status q = RS_Running \<and> rn_id q \<noteq> ''r1'') (ad_runs db)"
    unfolding db_def by code_simp
  then obtain q where q: "q \<in> set (ad_runs db)" "rn_occurrence_id q = Some (oc_id p)" "rn_status q = RS_Running"
    "rn_id q \<noteq> ''r1''" using late(2) by (auto simp: list_ex_iff)
  have "unat (oc_attempt_count p) < SCHEDULER_RETRY_MAX_ATTEMPTS"
    by (simp add: late(4) SCHEDULER_RETRY_MAX_ATTEMPTS_def)
  from late_launch_failure_doubles_run [OF db_def [unfolded run_history_def] late(1) [unfolded reported_def] late(3) q late(5) this, of None]
  obtain c r db2 where "claim_workflow_automation_due_run_at clock_env (demo_due 1) (minute 11) None ids (minute 11) db' = (Inr c, db2)"
    "dc_run c = Some r" "rn_status r = RS_Queued" "rn_occurrence_id r = rn_occurrence_id q" "{q, r} \<subseteq> set (ad_runs db2)"
    by (elim exE conjE) (rule that)
  with late(1) q(3) show ?thesis
    unfolding reported_def db_def ids_def by (intro exI conjI)
qed

section \<open>Starts\<close>

lemma find_update_rows:
  "\<lbrakk> find p xs = Some x; q x; \<And>y. p (f y) = p y \<rbrakk> \<Longrightarrow> find p (update_rows (\<lambda>y. p y \<and> q y) f xs) = Some (f x)"
  by (induction xs) (auto simp: update_rows_def split: if_splits)

lemma find_occurrence_status:
  assumes "find_occurrence db i = Some p" "ad_occurrences db = update_rows (\<lambda>p. oc_id p = i \<and> oc_status p = st) f occs"
    "\<And>p. oc_status (f p) \<noteq> st"
  shows "oc_status p \<noteq> st"
  using find_occurrence_SomeD [OF assms(1)] assms(2,3) by (auto simp: set_update_rows)

text \<open>
  Once a run waits for approval, starting it fails and changes nothing, whatever task, time and
  summary the host gives.
\<close>

theorem approval_gates_start:
  assumes "mark_workflow_automation_run_waiting_approval run_id e s db = (Inr True, db')"
  shows "\<exists>err. start_workflow_automation_run_at env run_id task summary now s' db' = (Inl err, db')"
proof -
  have body: "waiting_approval_body run_id e s db = Inr (True, db')"
    using assms by (auto simp: mark_workflow_automation_run_waiting_approval_def in_transaction_def split: sum.splits)
  then show ?thesis
  proof (cases rule: waiting_approval_tables)
    case 1
    then show ?thesis by simp
  next
    case (2 r i)
    let ?r = "r \<lparr> rn_status := RS_WaitingApproval \<rparr>"
    have found: "find_run db' run_id = Some ?r"
      using 2(1,3) find_run_SomeD [OF 2(1)]
      by (simp add: find_run_def 2(5)) (rule find_update_rows, simp_all)
    have lost: "\<not> attempt_is_authoritative env t ?r p" if "find_occurrence db' i = Some p" for p t
      using find_occurrence_status [OF that 2(6)] by (simp add: attempt_is_authoritative_def)
    have same: "update_runs (\<lambda>p. rn_id p = run_id \<and> rn_status p = RS_Queued) f db' = db'" for f
      by (auto simp: update_runs_def 2(5) update_rows_def intro!: automation_db.equality map_cong)
    show ?thesis
      using lost same 2(2)
      by (auto simp: start_workflow_automation_run_at_def get_workflow_automation_run_def found
          get_workflow_automation_occurrence_def split: option.splits sum.splits)
  qed
qed

lemma approval_gates_start_witness:
  "\<exists>err. start_workflow_automation_run_at clock_env ''r1'' ''t'' None (minute 1) (minute 1)
       (snd (mark_workflow_automation_run_waiting_approval ''r1'' ''e1'' (minute 1) (run_history (claimed_history True))))
     = (Inl err, snd (mark_workflow_automation_run_waiting_approval ''r1'' ''e1'' (minute 1)
         (run_history (claimed_history True))))"
proof -
  let ?asked = "mark_workflow_automation_run_waiting_approval ''r1'' ''e1'' (minute 1) (run_history (claimed_history True))"
  have "fst ?asked = Inr True" by code_simp
  then have "?asked = (Inr True, snd ?asked)" by (metis prod.collapse)
  then show ?thesis by (rule approval_gates_start)
qed

text \<open>
  A run of an occurrence starts only out of the claim of its own attempt, under a lease that has
  not expired, and for a recorded task run. The start binds the run to the task, moves exactly that
  occurrence to running and gives up its lease.
\<close>

theorem start_takes_claim:
  assumes "start_workflow_automation_run_at env run_id task summary now s
      (run_ops (automation_step env) xs empty_automation_db) = (Inr r, db')"
    and "rn_occurrence_id r = Some i"
  shows "rn_id r = run_id \<and> rn_status r = RS_Running \<and> rn_task_run_id r = Some task
    \<and> task \<in> set (ad_task_runs (run_ops (automation_step env) xs empty_automation_db))
    \<and> (\<exists>p t. p \<in> set (ad_occurrences (run_ops (automation_step env) xs empty_automation_db))
         \<and> oc_id p = i \<and> oc_status p = OS_Claimed \<and> oc_attempt_count p = rn_attempt r
         \<and> parse_utc_timestamp env now = Some t \<and> later_than env (oc_lease_expires_at p) t)
    \<and> ad_occurrences db' = map (\<lambda>q. if oc_id q = i
         then without_lease (q \<lparr> oc_status := OS_Running, oc_retry_at := None \<rparr>) else q)
         (ad_occurrences (run_ops (automation_step env) xs empty_automation_db))"
proof -
  let ?db = "run_ops (automation_step env) xs empty_automation_db"
  have ok: "ledger_ok ?db" by (rule automation_ledger.run_inv) simp
  obtain t where t: "parse_utc_timestamp env now = Some t"
    using assms(1) by (cases "parse_utc_timestamp env now") (simp_all add: start_workflow_automation_run_at_def)
  obtain r0 where r0: "find_run ?db run_id = Some r0"
    using assms(1) by (cases "find_run ?db run_id")
      (simp_all add: start_workflow_automation_run_at_def get_workflow_automation_run_def t)
  note member = find_run_SomeD [OF r0]
  have run: "get_workflow_automation_run ?db run_id = Inr r0" by (simp add: get_workflow_automation_run_def r0)
  have body: "start_body env r0 task summary t s ?db = Inr (r, db')"
    and live: "rn_occurrence_id r0 = Some j \<Longrightarrow>
      \<exists>p. find_occurrence ?db j = Some p \<and> attempt_is_authoritative env t r0 p" for j
    using assms(1)
    by (auto simp: start_workflow_automation_run_at_def t run in_transaction_def
        get_workflow_automation_occurrence_def split: sum.splits if_splits option.splits)
  note tables = start_body_tables [OF body]
  have r: "r = started_run task summary r0"
  proof -
    from tables(5) member have "r \<in> set (ad_runs db')" "rn_id r = rn_id r0" by (auto dest: find_run_SomeD)
    then obtain q where q: "q \<in> set (ad_runs ?db)" "rn_id q = rn_id r0" "r = started_run task summary q"
      by (auto simp: tables(2) set_update_rows split: if_splits)
    from run_by_id [OF ok q(1) _ q(2)] member q(3) show ?thesis by simp
  qed
  with assms(2) have i: "rn_occurrence_id r0 = Some i" by simp
  from live [OF i] obtain p where p: "find_occurrence ?db i = Some p" "attempt_is_authoritative env t r0 p" by blast
  have claimed: "claimed_by r0 q \<longleftrightarrow> oc_id q = i" if "q \<in> set (ad_occurrences ?db)" for q
  proof
    assume "oc_id q = i"
    with find_occurrence_SomeD [OF p(1)] have "q = p" by (intro occurrence_by_id [OF ok that]) auto
    with p(2) i \<open>oc_id q = i\<close> show "claimed_by r0 q" by (simp add: attempt_is_authoritative_def)
  qed (use i in simp)
  then have "ad_occurrences db' = map (\<lambda>q. if oc_id q = i then started_occurrence q else q) (ad_occurrences ?db)"
    unfolding tables(3) update_rows_def by (intro map_cong) auto
  moreover have "\<exists>p t. p \<in> set (ad_occurrences ?db)
         \<and> oc_id p = i \<and> oc_status p = OS_Claimed \<and> oc_attempt_count p = rn_attempt r
         \<and> parse_utc_timestamp env now = Some t \<and> later_than env (oc_lease_expires_at p) t"
    using find_occurrence_SomeD [OF p(1)] p(2) t r by (auto simp: attempt_is_authoritative_def)
  ultimately show ?thesis using r member tables(1) by simp
qed

definition start_history :: "automation_op list" where
  "start_history = claimed_history False @ [OpTaskRun ''t1'']"

lemma start_takes_claim_witness:
  "\<exists>r db' p. start_workflow_automation_run_at clock_env ''r1'' ''t1'' None (minute 2) (minute 2) (run_history start_history)
       = (Inr r, db') \<and> rn_occurrence_id r = Some ''o'' \<and> rn_status r = RS_Running
     \<and> p \<in> set (ad_occurrences (run_history start_history)) \<and> oc_status p = OS_Claimed \<and> oc_attempt_count p = rn_attempt r"
proof -
  let ?started = "start_workflow_automation_run_at clock_env ''r1'' ''t1'' None (minute 2) (minute 2) (run_history start_history)"
  have "case fst ?started of Inl e \<Rightarrow> False | Inr r \<Rightarrow> rn_occurrence_id r = Some ''o''" by code_simp
  then obtain r db' where r: "?started = (Inr r, db')" "rn_occurrence_id r = Some ''o''"
    by (cases ?started) (auto split: sum.splits)
  from start_takes_claim [OF r(1) [unfolded run_history_def] r(2)] r show ?thesis
    unfolding run_history_def by blast
qed

section \<open>Retries\<close>

abbreviation audit_event :: "int \<times> scheduler_event \<Rightarrow> bool" where
  "audit_event \<equiv> \<lambda>(t, e). \<exists>k. event_type_parse (se_event_type e) = Some k \<and> is_retry_audit_only k"

lemma failure_streak_audits:
  "\<forall>x \<in> set audits. audit_event x \<Longrightarrow> failure_streak (audits @ events) = failure_streak events"
  by (induction audits) (auto split: option.splits)

lemma failure_streak_launch:
  "\<lbrakk> event_type_parse (se_event_type f) = Some SE_LaunchFailed; event_type_parse (se_event_type c) = Some SE_Claimed \<rbrakk>
     \<Longrightarrow> failure_streak ((t, f) # (t', c) # rest) = [(t, f)]"
  by (simp add: is_retry_audit_only_def is_retryable_failure_def)

lemma first_backoff: "scheduler_retry_backoff_seconds (Suc 0) = Some 300"
  by (simp add: scheduler_retry_backoff_seconds_def SCHEDULER_RETRY_BACKOFF_SECONDS_def)

text \<open>
  The limit on retries looks at 50 events, and the skips it causes are events: once they fill the
  window, the failures are forgotten and the retry is allowed.
\<close>

lemma audit_window_forgets_failures:
  assumes "trim i \<noteq> []" "parse_utc_timestamp env now = Some m"
    and "parse_event_times env (list_workflow_automation_scheduler_events db (Some (trim i))
        SCHEDULER_RETRY_EVENT_LOOKBACK_LIMIT) = Inr timed"
    and "\<forall>x \<in> set timed. audit_event x"
  shows "\<exists>d. workflow_automation_scheduler_retry_decision env db i now = Inr d \<and> rd_allowed d
    \<and> rd_retryable_failure_count d = 0"
proof -
  have "set (newest_first timed) = set timed" by (simp add: newest_first_def)
  with assms(4) have "failure_streak (newest_first timed) = []"
    using failure_streak_audits [of "newest_first timed" "[]"] by simp
  with assms(1-3) show ?thesis
    by (simp add: workflow_automation_scheduler_retry_decision_def retry_decision_from_events_def Let_def
        scheduler_retry_backoff_seconds_def)
qed

text \<open>
  Every launch records that it claimed its run before it can record that it failed. The failures
  in a row end at such a record, so a failed launch always counts as the first one: the retry is
  allowed after 300 seconds, however many launches have failed before.
\<close>

theorem launch_failures_never_exhaust:
  assumes "parse_utc_timestamp env now = Some m" and "parse_event_times env events = Inr timed"
    and "newest_first timed = audits @ (t, f) # (t', c) # rest" and "\<forall>x \<in> set audits. audit_event x"
    and "event_type_parse (se_event_type f) = Some SE_LaunchFailed"
    and "event_type_parse (se_event_type c) = Some SE_Claimed"
  shows "\<exists>d. retry_decision_from_events env events now = Inr d \<and> rd_retryable_failure_count d = 1
    \<and> \<not> rd_attempts_exhausted d \<and> (rd_allowed d \<longleftrightarrow> t + nanos 300 \<le> m)"
proof -
  have "failure_streak (newest_first timed) = [(t, f)]"
    unfolding assms(3) failure_streak_audits [OF assms(4)] by (rule failure_streak_launch [OF assms(5,6)])
  with assms(1,2) show ?thesis
    by (auto simp: retry_decision_from_events_def Let_def first_backoff SCHEDULER_RETRY_MAX_ATTEMPTS_def)
qed

definition demo_event :: "int \<Rightarrow> scheduler_event_type \<Rightarrow> scheduler_event" where
  "demo_event m k = \<lparr> se_id = minute m, se_automation_id = Some ''a'', se_run_id = None,
     se_event_type = event_type_as_str k, se_status = None, se_summary = [], se_payload = JObject [],
     se_created_at = minute m \<rparr>"

definition five_failed_launches :: "scheduler_event list" where
  "five_failed_launches = concat (map (\<lambda>m. [demo_event (2 * m) SE_Claimed, demo_event (2 * m + 1) SE_LaunchFailed])
     [1, 2, 3, 4, 5])"

lemma launch_failures_never_exhaust_witness:
  "\<exists>d. retry_decision_from_events clock_env five_failed_launches (minute 16) = Inr d
     \<and> rd_retryable_failure_count d = 1 \<and> \<not> rd_attempts_exhausted d \<and> rd_allowed d"
proof -
  define timed where "timed = map (\<lambda>e. (nanos 60 * int (length (se_created_at e)), e)) five_failed_launches"
  have times: "parse_event_times clock_env five_failed_launches = Inr timed" unfolding timed_def by code_simp
  have newest: "newest_first timed = [] @ (nanos (60 * 11), demo_event 11 SE_LaunchFailed)
      # (nanos (60 * 10), demo_event 10 SE_Claimed) # drop 2 (newest_first timed)"
    unfolding timed_def by code_simp
  have types: "event_type_parse (se_event_type (demo_event 11 SE_LaunchFailed)) = Some SE_LaunchFailed"
    "event_type_parse (se_event_type (demo_event 10 SE_Claimed)) = Some SE_Claimed" by code_simp+
  have now: "parse_utc_timestamp clock_env (minute 16) = Some (nanos (60 * 16))" by code_simp
  from launch_failures_never_exhaust [OF now times newest _ types] show ?thesis by simp
qed

end
