(* ===== verification/Launch_Properties.thy ===== *)
theory Launch_Properties
  imports Workflow_Launch Automation_Properties
begin

text \<open>
  What holds of an automation that is launched without a user: the policy it runs under is confined
  to what was saved, and what needed an approval has it.
\<close>

section \<open>Tools and workspace\<close>

definition tool_confined :: "bool \<Rightarrow> string \<Rightarrow> bool" where
  "tool_confined isolated tool \<longleftrightarrow> scheduled_workspace_tool_class tool = Independent
     \<or> (scheduled_workspace_tool_class tool = IsolatableWrite \<and> isolated)"

lemma check_scheduled_tools_ok:
  "check_scheduled_tools policy w tools = Inr w' \<Longrightarrow>
     (\<forall>t \<in> set tools. tool_confined (policy = IsolatedPatch) t
        \<and> (policy = IsolatedPatch \<longrightarrow> \<not> tool_delegates_to_subagent (trim t)))
     \<and> w' = (w \<or> (policy = IsolatedPatch \<and> (\<exists>t \<in> set tools. scheduled_workspace_tool_class t = IsolatableWrite)))"
  by (induction tools arbitrary: w)
    (auto simp: tool_confined_def split: scheduled_tool_class.splits if_splits)

lemma check_scheduled_tools_total:
  "\<lbrakk> \<forall>t \<in> set tools. tool_confined (policy = IsolatedPatch) t
        \<and> (policy = IsolatedPatch \<longrightarrow> \<not> tool_delegates_to_subagent (trim t)) \<rbrakk>
     \<Longrightarrow> \<exists>w'. check_scheduled_tools policy w tools = Inr w'"
  by (induction tools arbitrary: w) (auto simp: tool_confined_def)

lemma validate_scheduled_allowed_tools_iff:
  "validate_scheduled_allowed_tools tools policy = Inr () \<longleftrightarrow>
     (\<forall>t \<in> set tools. tool_confined (policy = IsolatedPatch) t
        \<and> (policy = IsolatedPatch \<longrightarrow> \<not> tool_delegates_to_subagent (trim t)))
     \<and> (policy = IsolatedPatch \<longrightarrow> (\<exists>t \<in> set tools. scheduled_workspace_tool_class t = IsolatableWrite))"
  (is "?check \<longleftrightarrow> ?tools \<and> ?write")
proof
  assume ?check
  then obtain w where w: "check_scheduled_tools policy False tools = Inr w" "policy = IsolatedPatch \<longrightarrow> w"
    by (auto simp: validate_scheduled_allowed_tools_def res_bind_ok_iff split: if_splits)
  from check_scheduled_tools_ok [OF w(1)] w(2) show "?tools \<and> ?write" by auto
next
  assume ok: "?tools \<and> ?write"
  then obtain w where w: "check_scheduled_tools policy False tools = Inr w"
    using check_scheduled_tools_total by blast
  from check_scheduled_tools_ok [OF w] ok w show ?check
    by (auto simp: validate_scheduled_allowed_tools_def)
qed

lemma workspace_target_ok:
  assumes "validate_scheduled_workspace_target host tables a = Inr ()"
  shows "validate_scheduled_allowed_tools (rp_allowed_tools (wa_approval_policy a))
      (ep_workspace_policy (sc_execution_policy (wa_schedule_config a))) = Inr ()"
    and "ep_workspace_policy (sc_execution_policy (wa_schedule_config a)) = IsolatedPatch \<Longrightarrow>
      \<exists>s f. wa_source_scope a = [s] \<and> scheduled_source_root_fingerprint host tables s = Inr f
        \<and> ep_source_root_fingerprint (sc_execution_policy (wa_schedule_config a)) = Some f"
  using assms
  by (auto simp: validate_scheduled_workspace_target_def Let_def res_bind_ok_iff
      split: if_splits list.splits option.splits)

section \<open>The claimed run\<close>

lemma claim_run_found:
  assumes "claim_workflow_automation_due_run_at env due now summary ids s db = (Inr c, db')" "dc_run c = Some r"
  shows "find_run db' (rn_id r) = Some r"
proof -
  have body: "claim_body env due now summary ids s db = Inr (c, db')"
    using assms(1) by (auto simp: claim_workflow_automation_due_run_at_def in_transaction_def split: sum.splits)
  have found: "find_run db' (rn_id r) = Some r" if "find_run db' i = Some r" for i
    using that find_run_SomeD [OF that] by simp
  show ?thesis
  proof (cases "dr_scheduled_for due")
    case None
    with body obtain q where "record_workflow_automation_run env (wa_id (dr_automation due)) None ''queued''
           (opt_or summary (Some (dr_due_reason due))) (fi_run_id ids) s db = Inr (q, db')"
        "c = \<lparr> dc_due_run = due, dc_occurrence = None, dc_run = Some q, dc_skip_reason = None \<rparr>"
      by (auto simp: claim_body_def res_bind_ok_iff)
    with assms(2) show ?thesis
      by (auto simp: record_workflow_automation_run_def Let_def res_bind_ok_iff get_workflow_automation_run_def
          intro!: found split: if_splits option.splits)
  next
    case (Some cached)
    with body obtain pc d db2 t where
      rest: "(case d of
                ClaimSkip reason \<Rightarrow>
                  res_bind (fetch_workflow_occurrence db2 (pc_occurrence_id pc)) (\<lambda>o'.
                    Inr (\<lparr> dc_due_run = pc_due_run pc, dc_occurrence = Some o', dc_run = None,
                      dc_skip_reason = Some reason \<rparr>, db2))
              | ClaimQueue attempt \<Rightarrow>
                  res_bind (queue_workflow_occurrence_claim pc attempt (fi_lease_token ids)
                      (lease_end env t) summary (fi_run_id ids) s db2) (\<lambda>((r, o'), db3).
                    Inr (\<lparr> dc_due_run = pc_due_run pc, dc_occurrence = Some o', dc_run = Some r,
                      dc_skip_reason = None \<rparr>, db3))) = Inr (c, db')"
      by (auto simp: claim_body_def res_bind_ok_iff split: option.splits)
    with assms(2) obtain attempt q where
      "queue_workflow_occurrence_claim pc attempt (fi_lease_token ids)
         (lease_end env t) summary (fi_run_id ids) s db2 = Inr ((r, q), db')"
      by (cases d) (auto simp: res_bind_ok_iff)
    then show ?thesis
      by (auto simp: queue_workflow_occurrence_claim_def Let_def res_bind_ok_iff fetch_workflow_run_def
          intro!: found split: option.splits)
  qed
qed

text \<open>A claim without an instant leaves the due run as it was given.\<close>

lemma claim_unscheduled_due:
  "\<lbrakk> claim_workflow_automation_due_run_at env due now summary ids s db = (Inr c, db'); dr_scheduled_for due = None \<rbrakk>
     \<Longrightarrow> dc_due_run c = due"
  by (auto simp: claim_workflow_automation_due_run_at_def in_transaction_def claim_body_def res_bind_ok_iff
      split: sum.splits)

text \<open>A claim with an instant reads the definition again from the ledger.\<close>

lemma locate_claim_definition:
  assumes "locate_claim env due c now db = Inr t"
  shows "select_automation env db (wa_id (dr_automation due)) = Some (dr_automation (ct_due t))"
proof -
  obtain due' v where refresh: "refresh_due_run env due db = Inr (due', v)"
    using assms by (cases "refresh_due_run env due db") (auto simp: locate_claim_def)
  from assms refresh have "dr_automation (ct_due t) = dr_automation due'"
    by (auto simp: locate_claim_def Let_def res_bind_ok_iff split: if_splits option.splits)
  with refresh show ?thesis by (auto simp: refresh_due_run_def split: option.splits if_splits)
qed

lemma prepare_claim_definition:
  "prepare_workflow_occurrence_claim env due c now i s db = Inr (p, db')
     \<Longrightarrow> select_automation env db (wa_id (dr_automation due)) = Some (dr_automation (pc_due_run p))"
  by (auto simp: prepare_workflow_occurrence_claim_def Let_def res_bind_ok_iff dest: locate_claim_definition)

lemma claim_definition:
  assumes "claim_workflow_automation_due_run_at env due now summary ids s db = (Inr c, db')"
    and "dr_scheduled_for due = Some cached"
  shows "select_automation env db (wa_id (dr_automation due)) = Some (dr_automation (dc_due_run c))"
proof -
  from assms(1) have "claim_body env due now summary ids s db = Inr (c, db')"
    by (auto simp: claim_workflow_automation_due_run_at_def in_transaction_def split: sum.splits)
  with assms(2) obtain t p db1 d db2 where
    prepared: "prepare_workflow_occurrence_claim env due cached t (fi_occurrence_id ids) s db = Inr (p, db1)"
    and rest: "(case d of
                ClaimSkip reason \<Rightarrow>
                  res_bind (fetch_workflow_occurrence db2 (pc_occurrence_id p)) (\<lambda>o'.
                    Inr (\<lparr> dc_due_run = pc_due_run p, dc_occurrence = Some o', dc_run = None,
                      dc_skip_reason = Some reason \<rparr>, db2))
              | ClaimQueue attempt \<Rightarrow>
                  res_bind (queue_workflow_occurrence_claim p attempt (fi_lease_token ids)
                      (lease_end env t) summary (fi_run_id ids) s db2) (\<lambda>((r, o'), db3).
                    Inr (\<lparr> dc_due_run = pc_due_run p, dc_occurrence = Some o', dc_run = Some r,
                      dc_skip_reason = None \<rparr>, db3))) = Inr (c, db')"
    by (auto simp: claim_body_def res_bind_ok_iff split: option.splits)
  from rest have "dc_due_run c = pc_due_run p" by (cases d) (auto simp: res_bind_ok_iff)
  with prepare_claim_definition [OF prepared] show ?thesis by simp
qed

lemma find_run_frame: "ad_runs db' = ad_runs db \<Longrightarrow> find_run db' i = find_run db i"
  by (simp add: find_run_def)

lemma insert_scheduler_event_approvals:
  "insert_scheduler_event e a r t st m p n db = Inr (x, db') \<Longrightarrow> ad_approvals db' = ad_approvals db"
  by (auto simp: insert_scheduler_event_def split: if_splits)

lemma record_event_body_approvals:
  "record_event_body e a r t st m p n db = Inr (x, db') \<Longrightarrow> ad_approvals db' = ad_approvals db"
  by (auto simp: record_event_body_def res_bind_ok_iff dest: insert_scheduler_event_approvals)

lemma record_best_effort_frame [simp]:
  "ad_runs (record_event_best_effort e a r t st m p s db) = ad_runs db"
  "ad_approvals (record_event_best_effort e a r t st m p s db) = ad_approvals db"
  by (auto simp: record_event_best_effort_def)
    (auto simp: record_workflow_automation_scheduler_event_def in_transaction_snd
      dest: record_event_body_approvals split: sum.splits)

lemma approval_state_frame:
  "ad_approvals db' = ad_approvals db \<Longrightarrow>
     workflow_automation_occurrence_approval_state db' i = workflow_automation_occurrence_approval_state db i"
  by (simp add: workflow_automation_occurrence_approval_state_def find_approval_def)

section \<open>A launch that is ready\<close>

lemma finish_launch_ready:
  assumes "finish_launch env host tables claim r i reason now e s db = (Inr (LaunchReady ticket policy), db')"
  shows "resolve_workflow_launch_policy host tables (dr_automation (dc_due_run claim)) AuthoritativeScheduled = Inr policy"
    and "workflow_due_run_execution_ticket (dc_due_run claim) r = Inr ticket"
    and "ad_runs db' = ad_runs db" and "ad_approvals db' = ad_approvals db"
  using assms by (auto simp: finish_launch_def Let_def split: sum.splits)

lemma finish_launch_only_ready:
  "finish_launch env host tables claim r i reason now e s db = (Inr p, db') \<Longrightarrow> \<exists>ticket policy. p = LaunchReady ticket policy"
  by (auto simp: finish_launch_def Let_def split: sum.splits)

lemma queued_status_all:
  "\<forall>x \<in> set [RS_Draft, RS_Queued, RS_Running, RS_WaitingApproval, RS_Paused, RS_Resuming, RS_Completed,
     RS_Failed, RS_Cancelled, RS_TimedOut, RS_Disabled, RS_Cancelling]. (case project_task_status (run_status_as_str x) of Inl _ \<Rightarrow> False
     | Inr y \<Rightarrow> (st_state y = TS_Queued) = (x = RS_Queued))"
  by code_simp

lemma queued_status:
  "project_task_status (run_status_as_str x) = Inr y \<Longrightarrow> st_state y = TS_Queued \<Longrightarrow> x = RS_Queued"
  using bspec [OF queued_status_all, of x] by (cases x) auto

lemma ticket_fields:
  assumes "workflow_due_run_execution_ticket due r = Inr ticket"
  shows "st_state (og_status (tk_run ticket)) = TS_Queued" "og_run_id (tk_run ticket) = rn_id r"
    "og_approval_required (tk_run ticket) = rp_require_before_run (wa_approval_policy (dr_automation due))"
    "ow_source_scope (og_ownership (tk_run ticket)) = wa_source_scope (dr_automation due)"
    "rn_status r = RS_Queued"
proof -
  from assms obtain status where status: "project_task_status (run_status_as_str (rn_status r)) = Inr status"
    "st_state status = TS_Queued"
    and fields: "og_status (tk_run ticket) = status" "og_run_id (tk_run ticket) = rn_id r"
    "og_approval_required (tk_run ticket) = rp_require_before_run (wa_approval_policy (dr_automation due))"
    "ow_source_scope (og_ownership (tk_run ticket)) = wa_source_scope (dr_automation due)"
    by (auto simp: workflow_due_run_execution_ticket_def workflow_automation_execution_ticket_def
        workflow_automation_run_projection_def res_bind_ok_iff Let_def workflow_automation_ownership_def
        split: if_splits)
  then show "st_state (og_status (tk_run ticket)) = TS_Queued" "og_run_id (tk_run ticket) = rn_id r"
    "og_approval_required (tk_run ticket) = rp_require_before_run (wa_approval_policy (dr_automation due))"
    "ow_source_scope (og_ownership (tk_run ticket)) = wa_source_scope (dr_automation due)" by simp_all
  from status show "rn_status r = RS_Queued" by (rule queued_status)
qed

lemma approval_gate_passes:
  "approval_gate claim r durable e s db = (Inr None, db') \<Longrightarrow> db' = db \<and> (durable \<longrightarrow> (\<exists>i. rn_occurrence_id r = Some i
     \<and> (rp_require_before_run (wa_approval_policy (dr_automation (dc_due_run claim)))
        \<longrightarrow> workflow_automation_occurrence_approval_state db i = ApprovalApproved)))"
  by (auto simp: approval_gate_def split: option.splits sum.splits prod.splits if_splits)

lemma approval_gate_outcome:
  "approval_gate claim r durable e s db = (Inr (Some p), db') \<Longrightarrow> p \<noteq> LaunchReady ticket policy"
  by (auto simp: approval_gate_def split: option.splits sum.splits prod.splits if_splits)

text \<open>The way to a ready launch.\<close>

lemma launch_ready_cases:
  fixes policy :: "('o, 'r) launch_policy"
  assumes "prepare_scheduled_workflow_launch env host tables due now summary ids s db
      = (Inr (LaunchReady ticket policy), db')"
  obtains claim r db1 where
    "preclaim_skip env due now (li_event ids) s db = Inr None"
    "claim_workflow_automation_due_run_at env due now
       (Some (unwrap_or (''scheduler: '' @ dr_due_reason due) summary)) (li_claim ids) s db = (Inr claim, db1)"
    "dc_run claim = Some r"
    "wa_trigger_kind (dr_automation due) = ''schedule'' \<Longrightarrow> \<exists>i. rn_occurrence_id r = Some i
       \<and> (rp_require_before_run (wa_approval_policy (dr_automation (dc_due_run claim)))
          \<longrightarrow> workflow_automation_occurrence_approval_state db1 i = ApprovalApproved)"
    "finish_launch env host tables claim r (wa_id (dr_automation due)) (dr_due_reason due) now (li_event ids) s db1
       = (Inr (LaunchReady ticket policy), db')"
proof -
  define msg where "msg = unwrap_or (''scheduler: '' @ dr_due_reason due) summary"
  note start = assms [unfolded prepare_scheduled_workflow_launch_def Let_def, folded msg_def]
  define claimed where "claimed = claim_workflow_automation_due_run_at env due now (Some msg) (li_claim ids) s db"
  have skip: "preclaim_skip env due now (li_event ids) s db = Inr None"
  proof (cases "preclaim_skip env due now (li_event ids) s db")
    case (Inr v)
    with start show ?thesis by (cases v) auto
  qed (use start in \<open>simp\<close>)
  obtain claim db1 where claimed: "claimed = (Inr claim, db1)"
  proof (cases claimed)
    case (Pair v db1)
    with start that show thesis by (cases v) (simp_all add: skip Pair [unfolded claimed_def])
  qed
  note claim = claimed [unfolded claimed_def]
  obtain r where r: "dc_run claim = Some r"
    using start by (cases "dc_run claim") (simp_all add: skip claim)
  let ?gate = "approval_gate claim r (wa_trigger_kind (dr_automation due) = ''schedule'') (li_approval_event ids) s db1
    :: (core_error + ('o, 'r) launch_preparation option) \<times> automation_db"
  have gate: "?gate = (Inr None, db1)"
  proof (cases ?gate)
    case (Pair v db2)
    have "v = Inr None"
      using start by (cases v) (use Pair in \<open>auto simp: skip claim r dest: approval_gate_outcome split: option.splits\<close>)
    with Pair show ?thesis by (auto dest: approval_gate_passes)
  qed
  show thesis
  proof (rule that [OF skip claim [unfolded msg_def] r])
    show "finish_launch env host tables claim r (wa_id (dr_automation due)) (dr_due_reason due) now (li_event ids) s db1
       = (Inr (LaunchReady ticket policy), db')"
      using start by (simp add: skip claim r gate)
  next
    assume "wa_trigger_kind (dr_automation due) = ''schedule''"
    then show "\<exists>i. rn_occurrence_id r = Some i
       \<and> (rp_require_before_run (wa_approval_policy (dr_automation (dc_due_run claim)))
          \<longrightarrow> workflow_automation_occurrence_approval_state db1 i = ApprovalApproved)"
      using approval_gate_passes [OF gate] by simp
  qed
qed

section \<open>What saving promises to launching\<close>

declare trim_idem [simp]

lemma trimmed_nonempty_idem: "trimmed_nonempty v = Some i \<Longrightarrow> trimmed_nonempty (Some i) = Some i"
  by (auto simp: trimmed_nonempty_def split: option.splits if_splits)

lemma select_requested_ok:
  assumes "select_workflow_launch_agent_config tables (Some i) = Inr c" "trimmed_nonempty v = Some i"
  shows "c \<in> set (lt_configs tables) \<and> select_workflow_launch_agent_config tables (Some (ac_id c)) = Inr c"
proof -
  have "trimmed_nonempty (Some i) = Some i" by (rule trimmed_nonempty_idem [OF assms(2)])
  with assms(1) have "find (\<lambda>c. ac_id c = i) (lt_configs tables) = Some c"
    by (auto simp: select_workflow_launch_agent_config_def split: option.splits)
  then have "c \<in> set (lt_configs tables)" "ac_id c = i" by (auto simp: find_Some_iff)
  with assms(1) show ?thesis by simp
qed

lemma prepare_workspace_target_ok:
  assumes "prepare_workspace_target host tables input config = Inr (input', config')" "is_schedule (si_trigger input)"
  obtains fingerprint where
    "config' = set_source_fingerprint config fingerprint" "si_approval_policy input' = si_approval_policy input"
    "validate_scheduled_allowed_tools (rp_allowed_tools (si_approval_policy input))
       (ep_workspace_policy (sc_execution_policy config)) = Inr ()"
    "\<And>i. ep_project_id (sc_execution_policy config) = Some i
       \<Longrightarrow> \<exists>p. get_project tables i = Inr p \<and> set (si_source_scope input') \<subseteq> set (unwrap_or [] (pj_source_scope p))"
    "ep_workspace_policy (sc_execution_policy config) = IsolatedPatch
       \<Longrightarrow> \<exists>i f. si_source_scope input' = [i] \<and> scheduled_source_root_fingerprint host tables i = Inr f
             \<and> fingerprint = Some f"
  using assms
  by (auto simp: prepare_workspace_target_def project_sources_def Let_def res_bind_ok_iff
      split: if_splits option.splits list.splits)

lemma normalize_snapshot_ok:
  assumes "normalize_scheduled_config_agent_snapshot host tables config = Inr config'"
  shows "ep_project_id (sc_execution_policy config') = Some i
      \<Longrightarrow> \<exists>p. get_project tables i = Inr p \<and> \<not> pj_archived p"
    and "trimmed_nonempty (ep_agent_config_id (sc_execution_policy config')) \<noteq> None
      \<Longrightarrow> \<exists>c. c \<in> set (lt_configs tables)
        \<and> select_workflow_launch_agent_config tables (ep_agent_config_id (sc_execution_policy config')) = Inr c
        \<and> ep_provider (sc_execution_policy config') = Some (ac_provider c)
        \<and> ep_provider_endpoint_id (sc_execution_policy config') = ac_provider_endpoint_id c"
  using assms
  by (auto simp: normalize_scheduled_config_agent_snapshot_def snapshot_scheduled_agent_config_def set_project_id_def
      rewrap_def Let_def res_bind_ok_iff split: if_splits option.splits sum.splits
      dest: select_requested_ok)

section \<open>A launch\<close>

text \<open>An isolated patch of one source of a project, saved, claimed and launched.\<close>

definition demo_host :: host_env where
  "demo_host = \<lparr> he_canonicalize = Inr, he_blake3_hex = (\<lambda>s. s), he_windows = False, he_foreign = [] \<rparr>"

definition demo_tables :: "(unit, unit) launch_tables" where
  "demo_tables = \<lparr>
     lt_configs = [\<lparr> ac_id = ''c'', ac_provider = ''openai'', ac_provider_endpoint_id = None, ac_model = ''m'',
       ac_model_id = None, ac_model_selection_resolution = None, ac_context_window = None, ac_is_default = True,
       ac_rest = () \<rparr>],
     lt_projects = [\<lparr> pj_id = ''p'', pj_name = ''P'', pj_source_scope = Some [''s''], pj_archived = False \<rparr>],
     lt_sources = [\<lparr> sr_id = ''s'', sr_root_path = ''/s'' \<rparr>] \<rparr>"

definition patch_input :: save_input where
  "patch_input = demo_input False \<lparr> si_source_scope := [''s''],
     si_approval_policy := \<lparr> rp_require_before_run = False, rp_allowed_tools = [''edit_file''], rp_risk_level = ''low'' \<rparr> \<rparr>"

definition patch_config :: schedule_config where
  "patch_config = default_schedule_config \<lparr> sc_execution_policy := default_execution_policy
     \<lparr> ep_project_id := Some ''p'', ep_workspace_policy := IsolatedPatch, ep_agent_config_id := Some '' c '',
       ep_orchestration_profile := ''codeUltra'' \<rparr> \<rparr>"

definition prepared_save :: "core_error + save_input \<times> schedule_config" where
  "prepared_save = prepare_workflow_automation_save clock_env demo_host demo_tables patch_input (Some patch_config)"

definition saved_db :: automation_db where
  "saved_db = (case prepared_save of Inl e \<Rightarrow> empty_automation_db
     | Inr (input, config) \<Rightarrow> run_history [OpSave input config 0 ''a'' ''e0'' (minute 0)])"

text \<open>An approved run that could not be launched; its occurrence is tried again after five minutes.\<close>

definition approved_db :: automation_db where
  "approved_db = run_history (claimed_history True @ [OpWaitApproval ''r1'' ''e3'' (minute 1),
     OpResolve True ''r1'' (minute 1) ''k1'' ''e4'' (minute 1), OpLaunchFailed ''r1'' ''lost'' (minute 1) (minute 1)])"

definition demo_ids :: launch_ids where
  "demo_ids = \<lparr> li_claim = \<lparr> fi_lease_token = ''k'', fi_occurrence_id = ''o'', fi_run_id = ''r'' \<rparr>,
     li_event = ''e1'', li_approval_event = ''e2'' \<rparr>"

definition demo_launch :: "int \<Rightarrow> automation_db \<Rightarrow> (core_error + (unit, unit) launch_preparation) \<times> automation_db" where
  "demo_launch t db = prepare_scheduled_workflow_launch clock_env demo_host demo_tables (demo_due 1) (minute t) None
     demo_ids (minute t) db"

text \<open>The ticket and the policy of a ready launch.\<close>

fun launched :: "(core_error + ('m, 'r) launch_preparation) \<times> automation_db
    \<Rightarrow> (execution_ticket \<times> ('m, 'r) launch_policy) option" where
  "launched (Inr (LaunchReady ticket policy), _) = Some (ticket, policy)"
| "launched _ = None"

lemma launchedE:
  assumes "case launched x of None \<Rightarrow> False | Some (ticket, policy) \<Rightarrow> P ticket policy"
  obtains ticket policy db where "x = (Inr (LaunchReady ticket policy), db)" "P ticket policy"
  using assms by (cases x rule: launched.cases) auto

lemma patch_launched:
  "case launched (demo_launch 1 saved_db) of None \<Rightarrow> False | Some (ticket, policy) \<Rightarrow>
      lp_force_workspace_isolation policy \<and> lp_project_id policy = Some ''p''"
  by code_simp

lemma approved_launched:
  "case launched (demo_launch 6 approved_db) of None \<Rightarrow> False | Some (ticket, policy) \<Rightarrow>
      og_run_id (tk_run ticket) = ''r'' \<and> og_approval_required (tk_run ticket)"
  by code_simp

section \<open>Properties\<close>

text \<open>
  The policy that an automation \<open>a\<close> was saved with: its list of tools, its project, its workspace and
  its modes, and an agent configuration that has what the automation pins of it.
\<close>

definition runs_as_saved :: "workflow_automation \<Rightarrow> ('m, 'r) launch_policy \<Rightarrow> bool" where
  "runs_as_saved a policy \<longleftrightarrow> (
     let ep = sc_execution_policy (wa_schedule_config a); selected = lp_selected_config policy
     in lp_allowed_tools policy = Some (rp_allowed_tools (wa_approval_policy a))
      \<and> lp_project_id policy = ep_project_id ep
      \<and> (lp_force_workspace_isolation policy \<longleftrightarrow> ep_workspace_policy ep = IsolatedPatch)
      \<and> lp_source_root_fingerprint policy = ep_source_root_fingerprint ep
      \<and> lp_execution_mode policy = ep_execution_mode ep \<and> lp_power_mode policy = ep_power_mode ep
      \<and> lp_collaboration_mode policy = ep_collaboration_mode ep
      \<and> lp_orchestration_profile policy = ep_orchestration_profile ep
      \<and> trimmed_nonempty (ep_agent_config_id ep) \<in> {None, Some (ac_id selected)}
      \<and> trimmed_nonempty (ep_provider ep) \<in> {None, Some (ac_provider selected)}
      \<and> trimmed_nonempty (ep_provider_endpoint_id ep) \<in> {None, ac_provider_endpoint_id selected}
      \<and> trimmed_nonempty (ep_model ep) \<in> {None, Some (ac_model selected)}
      \<and> ac_context_window selected = map_option uint (ep_context_window ep))"

lemma build_launch_policy_as_saved:
  assumes "build_launch_policy config (sc_execution_policy (wa_schedule_config a)) (wa_approval_policy a)
      AuthoritativeScheduled = Inr policy"
    and "select_workflow_launch_agent_config tables (ep_agent_config_id (sc_execution_policy (wa_schedule_config a)))
      = Inr config"
  shows "runs_as_saved a policy"
proof -
  let ?ep = "sc_execution_policy (wa_schedule_config a)"
  from assms(1) obtain selected where selected: "apply_scheduled_execution_policy config ?ep = Inr selected"
    "lp_selected_config policy = selected"
    by (auto simp: build_launch_policy_def Let_def res_bind_ok_iff)
  have "trimmed_nonempty (ep_agent_config_id ?ep) \<in> {None, Some (ac_id config)}"
    using assms(2) by (auto simp: select_workflow_launch_agent_config_def find_Some_iff split: option.splits)
  moreover from selected(1) have "ac_id selected = ac_id config" "ac_provider selected = ac_provider config"
    "ac_provider_endpoint_id selected = ac_provider_endpoint_id config"
    "trimmed_nonempty (ep_model ?ep) \<in> {None, Some (ac_model selected)}"
    "ac_context_window selected = map_option uint (ep_context_window ?ep)"
    and "validate_scheduled_execution_route ?ep (ac_provider config) (ac_provider_endpoint_id config) = Inr ()"
    by (auto simp: apply_scheduled_execution_policy_def Let_def res_bind_ok_iff split: option.splits)
  moreover from this(6) have "trimmed_nonempty (ep_provider ?ep) \<in> {None, Some (ac_provider config)}"
    "trimmed_nonempty (ep_provider_endpoint_id ?ep) \<in> {None, ac_provider_endpoint_id config}"
    by (auto simp: validate_scheduled_execution_route_def res_bind_ok_iff split: option.splits if_splits)
  ultimately show ?thesis
    using assms(1) selected(2) by (auto simp: runs_as_saved_def build_launch_policy_def Let_def res_bind_ok_iff)
qed

text \<open>
  C32: Whatever is launched without a user runs under the saved policy: the one of the definition in
  the ledger at the claim, or of the given due run when it has no instant. Its tools are exactly the
  saved list, each of which needs no workspace or is isolated from it; its project, workspace,
  fingerprint, modes and agent configuration are the saved ones and its sources those of the
  definition. An isolated patch works on exactly one source, whose root is still the saved one; the
  project is there, not archived, and covers the sources.
\<close>

theorem scheduled_launch_confined:
  assumes "prepare_scheduled_workflow_launch env host tables due now summary ids s db
      = (Inr (LaunchReady ticket policy), db')"
  shows "\<exists>a. (case dr_scheduled_for due of
          None \<Rightarrow> a = dr_automation due
        | Some _ \<Rightarrow> select_automation env db (wa_id (dr_automation due)) = Some a)
    \<and> runs_as_saved a policy \<and> ow_source_scope (og_ownership (tk_run ticket)) = wa_source_scope a
    \<and> lp_agent_config_is_authoritative policy
    \<and> (\<forall>t \<in> set (rp_allowed_tools (wa_approval_policy a)). tool_confined (lp_force_workspace_isolation policy) t)
    \<and> (lp_force_workspace_isolation policy \<longrightarrow>
         (\<exists>i f. wa_source_scope a = [i] \<and> scheduled_source_root_fingerprint host tables i = Inr f
            \<and> lp_source_root_fingerprint policy = Some f))
    \<and> (\<forall>i \<in> set_option (lp_project_id policy). \<exists>p. get_project tables i = Inr p \<and> \<not> pj_archived p
         \<and> set (wa_source_scope a) \<subseteq> set (unwrap_or [] (pj_source_scope p)))"
  using assms
proof (rule launch_ready_cases)
  fix claim r db1
  assume claimed: "claim_workflow_automation_due_run_at env due now
       (Some (unwrap_or (''scheduler: '' @ dr_due_reason due) summary)) (li_claim ids) s db = (Inr claim, db1)"
    and finish: "finish_launch env host tables claim r (wa_id (dr_automation due)) (dr_due_reason due) now
      (li_event ids) s db1 = (Inr (LaunchReady ticket policy), db')"
  let ?a = "dr_automation (dc_due_run claim)"
  let ?ep = "sc_execution_policy (wa_schedule_config ?a)"
  note ready = finish_launch_ready [OF finish]
  from ready(1) obtain config where project: "check_launch_project host tables ?a AuthoritativeScheduled = Inr ()"
    and target: "validate_scheduled_workspace_target host tables ?a = Inr ()"
    and config: "select_workflow_launch_agent_config tables (ep_agent_config_id ?ep) = Inr config"
    and build: "build_launch_policy config ?ep (wa_approval_policy ?a) AuthoritativeScheduled = Inr policy"
    by (auto simp: resolve_workflow_launch_policy_def Let_def res_bind_ok_iff)
  have saved: "runs_as_saved ?a policy" by (rule build_launch_policy_as_saved [OF build config])
  then have policy: "lp_force_workspace_isolation policy \<longleftrightarrow> ep_workspace_policy ?ep = IsolatedPatch"
    "lp_source_root_fingerprint policy = ep_source_root_fingerprint ?ep" "lp_project_id policy = ep_project_id ?ep"
    by (simp_all add: runs_as_saved_def Let_def)
  have "lp_agent_config_is_authoritative policy"
    using build by (auto simp: build_launch_policy_def Let_def res_bind_ok_iff)
  moreover have "\<forall>t \<in> set (rp_allowed_tools (wa_approval_policy ?a)). tool_confined (lp_force_workspace_isolation policy) t"
    using workspace_target_ok(1) [OF target] policy(1) by (auto simp: validate_scheduled_allowed_tools_iff)
  moreover have "\<forall>i \<in> set_option (lp_project_id policy). \<exists>p. get_project tables i = Inr p \<and> \<not> pj_archived p
         \<and> set (wa_source_scope ?a) \<subseteq> set (unwrap_or [] (pj_source_scope p))"
    using project policy(3)
    by (auto simp: check_launch_project_def rewrap_def res_bind_ok_iff split: option.splits sum.splits if_splits)
  moreover have "lp_force_workspace_isolation policy \<longrightarrow> (\<exists>i f. wa_source_scope ?a = [i]
      \<and> scheduled_source_root_fingerprint host tables i = Inr f \<and> lp_source_root_fingerprint policy = Some f)"
    using workspace_target_ok(2) [OF target] policy(1,2) by simp
  moreover have "case dr_scheduled_for due of None \<Rightarrow> ?a = dr_automation due
      | Some _ \<Rightarrow> select_automation env db (wa_id (dr_automation due)) = Some ?a"
    using claim_definition [OF claimed] claim_unscheduled_due [OF claimed] by (auto split: option.split)
  ultimately show ?thesis using saved ticket_fields(4) [OF ready(2)] by blast
qed

lemma scheduled_launch_confined_witness:
  "\<exists>(ticket :: execution_ticket) (policy :: (unit, unit) launch_policy) a i. launched (demo_launch 1 saved_db) = Some (ticket, policy)
     \<and> select_automation clock_env saved_db ''a'' = Some a \<and> runs_as_saved a policy
     \<and> lp_project_id policy = Some ''p'' \<and> wa_source_scope a = [i]"
proof (rule launchedE [OF patch_launched])
  fix ticket policy db
  assume launch: "demo_launch 1 saved_db = (Inr (LaunchReady ticket policy), db)"
    "lp_force_workspace_isolation policy \<and> lp_project_id policy = Some ''p''"
  have "dr_scheduled_for (demo_due 1) = Some (minute 1)" "wa_id (dr_automation (demo_due 1)) = ''a''" by code_simp+
  with scheduled_launch_confined [OF launch(1) [unfolded demo_launch_def]] launch show ?thesis by auto
qed

text \<open>
  C33: A launch is ready only for a queued run of the ledger. When the due run has a schedule trigger
  or no instant and the automation asks for an approval before it runs, the occurrence of the run has
  been approved. (For another trigger with an instant the launch has no approval gate behind the
  claim, which reads the definition again: what it then asks for is not checked.)
\<close>

theorem scheduled_launch_approved:
  assumes "prepare_scheduled_workflow_launch env host tables due now summary ids s db
      = (Inr (LaunchReady ticket policy), db')"
  shows "\<exists>r. find_run db' (og_run_id (tk_run ticket)) = Some r \<and> rn_status r = RS_Queued
    \<and> ((wa_trigger_kind (dr_automation due) = ''schedule'' \<or> dr_scheduled_for due = None)
         \<and> og_approval_required (tk_run ticket) \<longrightarrow> (\<exists>i. rn_occurrence_id r = Some i
         \<and> workflow_automation_occurrence_approval_state db' i = ApprovalApproved))"
  using assms
proof (rule launch_ready_cases)
  fix claim r db1
  assume skip: "preclaim_skip env due now (li_event ids) s db = Inr None"
    and claim: "claim_workflow_automation_due_run_at env due now
       (Some (unwrap_or (''scheduler: '' @ dr_due_reason due) summary)) (li_claim ids) s db = (Inr claim, db1)"
    and r: "dc_run claim = Some r"
    and durable: "wa_trigger_kind (dr_automation due) = ''schedule'' \<Longrightarrow> \<exists>i. rn_occurrence_id r = Some i
       \<and> (rp_require_before_run (wa_approval_policy (dr_automation (dc_due_run claim)))
          \<longrightarrow> workflow_automation_occurrence_approval_state db1 i = ApprovalApproved)"
    and finish: "finish_launch env host tables claim r (wa_id (dr_automation due)) (dr_due_reason due) now
      (li_event ids) s db1 = (Inr (LaunchReady ticket policy), db')"
  note ready = finish_launch_ready [OF finish]
  note ticket = ticket_fields [OF ready(2)]
  have found: "find_run db' (og_run_id (tk_run ticket)) = Some r"
    using claim_run_found [OF claim r] find_run_frame [OF ready(3)] ticket(2) by simp
  have "\<exists>i. rn_occurrence_id r = Some i \<and> workflow_automation_occurrence_approval_state db' i = ApprovalApproved"
    if kind: "wa_trigger_kind (dr_automation due) = ''schedule'' \<or> dr_scheduled_for due = None"
      and req: "og_approval_required (tk_run ticket)"
  proof (cases "wa_trigger_kind (dr_automation due) = ''schedule''")
    case True
    with durable req ticket(3) approval_state_frame [OF ready(4)] show ?thesis by auto
  next
    case False
    with kind claim_unscheduled_due [OF claim] have "dc_due_run claim = due" by simp
    with req ticket(3) have "rp_require_before_run (wa_approval_policy (dr_automation due))" by simp
    with skip False show ?thesis
      by (auto simp: preclaim_skip_def Let_def res_bind_ok_iff requires_preclaim_approval_skip_def split: if_splits prod.splits)
  qed
  then show ?thesis using found ticket(5) by (intro exI [of _ r] conjI impI) auto
qed

lemma scheduled_launch_approved_witness:
  "\<exists>db r i. snd (demo_launch 6 approved_db) = db \<and> find_run db ''r'' = Some r
     \<and> rn_status r = RS_Queued \<and> rn_occurrence_id r = Some i
     \<and> workflow_automation_occurrence_approval_state db i = ApprovalApproved"
proof (rule launchedE [OF approved_launched])
  fix ticket policy db
  assume launch: "demo_launch 6 approved_db = (Inr (LaunchReady ticket policy), db)"
    "og_run_id (tk_run ticket) = ''r'' \<and> og_approval_required (tk_run ticket)"
  have "wa_trigger_kind (dr_automation (demo_due 1)) = ''schedule'' \<or> dr_scheduled_for (demo_due 1) = None"
    by (simp add: demo_due_def)
  from this scheduled_launch_approved [OF launch(1) [unfolded demo_launch_def]] launch show ?thesis by auto
qed

text \<open>
  C34: A schedule that pins an agent configuration and passes the checks of saving passes every check
  of launching as long as projects, sources and configurations stay as they are, unless a provider
  or endpoint name is padded with blanks: a launch that is refused means that something changed.
\<close>

theorem saved_schedule_launches:
  assumes "prepare_workflow_automation_save env host tables input config = Inr (input', config')"
    and "is_schedule (si_trigger input)"
    and "trimmed_nonempty (ep_agent_config_id (sc_execution_policy config')) \<noteq> None"
    and "\<forall>c \<in> set (lt_configs tables). trim (ac_provider c) = ac_provider c
       \<and> (\<forall>e \<in> set_option (ac_provider_endpoint_id c). trim e = e)"
    and "wa_schedule_config a = config'" "wa_source_scope a = si_source_scope input'"
    and "wa_approval_policy a = si_approval_policy input'"
  shows "\<exists>policy. resolve_workflow_launch_policy host tables a AuthoritativeScheduled = Inr policy"
proof -
  from assms(1) obtain config0 config1
    where config1: "normalize_scheduled_config_agent_snapshot host tables config0 = Inr config1"
      and target: "prepare_workspace_target host tables input config1 = Inr (input', config')"
    by (auto simp: prepare_workflow_automation_save_def res_bind_ok_iff)
  show ?thesis
  proof (rule prepare_workspace_target_ok [OF target assms(2)], goal_cases)
    case (1 f)
    have fields: "wa_schedule_config a = set_source_fingerprint config1 f" using 1(1) assms(5) by simp
    have "trimmed_nonempty (ep_agent_config_id (sc_execution_policy config1)) \<noteq> None"
      using assms(3) 1(1) by (simp add: set_source_fingerprint_def)
    from normalize_snapshot_ok(2) [OF config1 this] obtain c where c: "c \<in> set (lt_configs tables)"
      "select_workflow_launch_agent_config tables (ep_agent_config_id (sc_execution_policy config1)) = Inr c"
      "ep_provider (sc_execution_policy config1) = Some (ac_provider c)"
      "ep_provider_endpoint_id (sc_execution_policy config1) = ac_provider_endpoint_id c" by blast
    have project: "check_launch_project host tables a AuthoritativeScheduled = Inr ()"
      using normalize_snapshot_ok(1) [OF config1] 1(4) assms(6)
      by (auto simp: check_launch_project_def fields set_source_fingerprint_def rewrap_def split: option.splits)
    have workspace: "validate_scheduled_workspace_target host tables a = Inr ()"
      using 1(2,3,5) assms(6,7)
      by (auto simp: validate_scheduled_workspace_target_def Let_def fields set_source_fingerprint_def)
    have route: "validate_scheduled_execution_route (sc_execution_policy (wa_schedule_config a))
        (ac_provider c) (ac_provider_endpoint_id c) = Inr ()"
      using c(3,4) bspec [OF assms(4) c(1)]
      by (auto simp: validate_scheduled_execution_route_def fields set_source_fingerprint_def trimmed_nonempty_def
          split: option.splits)
    show ?case
      using project workspace c(2) route
      by (simp add: resolve_workflow_launch_policy_def build_launch_policy_def apply_scheduled_execution_policy_def
          Let_def fields set_source_fingerprint_def)
  qed
qed

lemma saved_schedule_launches_witness:
  "\<exists>(input :: save_input) config policy. prepared_save = Inr (input, config)
     \<and> resolve_workflow_launch_policy demo_host demo_tables
         ((dr_automation (demo_due 1)) \<lparr> wa_schedule_config := config, wa_source_scope := si_source_scope input,
           wa_approval_policy := si_approval_policy input \<rparr>) AuthoritativeScheduled = Inr policy"
proof -
  have "case prepared_save of Inl e \<Rightarrow> False
     | Inr (input, config) \<Rightarrow> trimmed_nonempty (ep_agent_config_id (sc_execution_policy config)) \<noteq> None" by code_simp
  then obtain input config where saved: "prepared_save = Inr (input, config)"
    "trimmed_nonempty (ep_agent_config_id (sc_execution_policy config)) \<noteq> None"
    by (auto split: sum.splits)
  have configs: "\<forall>c \<in> set (lt_configs demo_tables). trim (ac_provider c) = ac_provider c
       \<and> (\<forall>e \<in> set_option (ac_provider_endpoint_id c). trim e = e)" by code_simp
  have schedule: "is_schedule (si_trigger patch_input)" by code_simp
  let ?a = "(dr_automation (demo_due 1)) \<lparr> wa_schedule_config := config, wa_source_scope := si_source_scope input,
           wa_approval_policy := si_approval_policy input \<rparr>"
  have "\<exists>policy. resolve_workflow_launch_policy demo_host demo_tables ?a AuthoritativeScheduled = Inr policy"
    by (rule saved_schedule_launches [OF saved(1) [unfolded prepared_save_def] schedule saved(2) configs]) simp_all
  with saved(1) show ?thesis by blast
qed

end
