(* ===== verification/Message_History.thy ===== *)
theory Message_History
  imports Provider_Turn
begin

text \<open>
  The history of a conversation on its way to a provider: the checks at the provider boundary and
  the repair of persisted histories of \<open>crates/core/src/llm/message_validation.rs\<close>, and the projection
  of provider-native state of \<open>crates/core/src/llm/reasoning_replay.rs\<close>.

  Loops over indices are recursions over the rest of the list; a round is an assistant message with
  calls and the tool messages that follow it.
\<close>

section \<open>Diagnostics\<close>

datatype message_source =
  SourcePersisted | SourceStream | SourceRecovery | SourceSubagentHandoff | SourceProviderBoundary

definition message_source_display :: "message_source \<Rightarrow> string" where
  "message_source_display s = (case s of
     SourcePersisted \<Rightarrow> ''persisted'' | SourceStream \<Rightarrow> ''stream'' | SourceRecovery \<Rightarrow> ''recovery''
   | SourceSubagentHandoff \<Rightarrow> ''subagent_handoff'' | SourceProviderBoundary \<Rightarrow> ''provider_boundary'')"

datatype invalid_assistant_handling = DropInvalid | RejectInvalid

record normalization_context =
  nc_provider :: "string option"
  nc_model :: "string option"
  nc_conversation_id :: "string option"
  nc_turn_id :: "string option"
  nc_message_index :: nat
  nc_source :: message_source
  nc_invalid_assistant :: invalid_assistant_handling

definition provider_boundary_context :: "string \<Rightarrow> string \<Rightarrow> nat \<Rightarrow> normalization_context" where
  "provider_boundary_context provider model i = \<lparr> nc_provider = Some provider, nc_model = Some model,
     nc_conversation_id = None, nc_turn_id = None, nc_message_index = i,
     nc_source = SourceProviderBoundary, nc_invalid_assistant = RejectInvalid \<rparr>"

definition persisted_context :: "string option \<Rightarrow> nat \<Rightarrow> normalization_context" where
  "persisted_context conversation_id i = \<lparr> nc_provider = None, nc_model = None,
     nc_conversation_id = conversation_id, nc_turn_id = None, nc_message_index = i,
     nc_source = SourcePersisted, nc_invalid_assistant = DropInvalid \<rparr>"

record message_diagnostic =
  mg_provider :: "string option"
  mg_model :: "string option"
  mg_conversation_id :: "string option"
  mg_turn_id :: "string option"
  mg_message_index :: nat
  mg_role :: string
  mg_has_content :: bool
  mg_tool_call_count :: nat
  mg_source :: message_source
  mg_reason :: string

definition bool_display :: "bool \<Rightarrow> string" where
  "bool_display b = (if b then ''true'' else ''false'')"

definition validation_error_display :: "message_diagnostic \<Rightarrow> string" where
  "validation_error_display d =
     ''invalid '' @ mg_role d @ '' message at index '' @ nat_to_string (mg_message_index d)
     @ '' (source='' @ message_source_display (mg_source d)
     @ '', provider='' @ unwrap_or ''unknown'' (mg_provider d)
     @ '', model='' @ unwrap_or ''unknown'' (mg_model d)
     @ '', conversation_id='' @ unwrap_or ''unknown'' (mg_conversation_id d)
     @ '', turn_id='' @ unwrap_or ''unknown'' (mg_turn_id d)
     @ '', has_content='' @ bool_display (mg_has_content d)
     @ '', tool_call_count='' @ nat_to_string (mg_tool_call_count d) @ ''): '' @ mg_reason d"

definition role_name :: "role \<Rightarrow> string" where
  "role_name r = (case r of RoleSystem \<Rightarrow> ''system'' | RoleUser \<Rightarrow> ''user''
     | RoleAssistant \<Rightarrow> ''assistant'' | RoleTool \<Rightarrow> ''tool'')"

fun visible_part :: "content_part \<Rightarrow> bool" where
  "visible_part (PartText t) = nonblank t"
| "visible_part (PartImage media_type data) = (data \<noteq> [])"
| "visible_part (PartProviderTurn e) = False"

definition has_visible_content :: "message \<Rightarrow> bool" where
  "has_visible_content m = list_ex visible_part (cm_parts m)"

definition calls_of :: "message \<Rightarrow> tool_call_request list" where
  "calls_of m = unwrap_or [] (cm_tool_calls m)"

definition is_complete_tool_call :: "serde_env \<Rightarrow> tool_call_request \<Rightarrow> bool" where
  "is_complete_tool_call serde call \<longleftrightarrow> nonblank (tc_id call) \<and> nonblank (tc_name call)
     \<and> (case sd_json serde (tc_arguments call) of None \<Rightarrow> False | Some arguments \<Rightarrow> json_is_object arguments)"

definition mk_diagnostic :: "normalization_context \<Rightarrow> message \<Rightarrow> bool \<Rightarrow> nat \<Rightarrow> string \<Rightarrow> message_diagnostic" where
  "mk_diagnostic ctx m has_content call_count reason = \<lparr> mg_provider = nc_provider ctx, mg_model = nc_model ctx,
     mg_conversation_id = nc_conversation_id ctx, mg_turn_id = nc_turn_id ctx,
     mg_message_index = nc_message_index ctx, mg_role = role_name (cm_role m), mg_has_content = has_content,
     mg_tool_call_count = call_count, mg_source = nc_source ctx, mg_reason = reason \<rparr>"

section \<open>Assistant messages\<close>

definition normalize_assistant_message ::
  "serde_env \<Rightarrow> normalization_context \<Rightarrow> message \<Rightarrow> message_diagnostic + message option" where
  "normalize_assistant_message serde ctx m = (
     if cm_role m \<noteq> RoleAssistant then Inr (Some m)
     else let has_content = has_visible_content m;
              original = length (calls_of m);
              invalid = length (filter (\<lambda>c. \<not> is_complete_tool_call serde c) (calls_of m))
       in if invalid > 0 \<and> nc_invalid_assistant ctx = RejectInvalid
          then Inl (mk_diagnostic ctx m has_content original (nat_to_string invalid @ '' incomplete tool call(s)''))
          else let calls = filter (is_complete_tool_call serde) (calls_of m);
                   m' = m \<lparr> cm_tool_calls := (if calls = [] then None else Some calls) \<rparr>
            in if has_content \<or> calls \<noteq> [] then Inr (Some m')
               else let reason = (if original > 0 then ''assistant message contained only incomplete tool calls''
                      else if (case cm_reasoning_content m' of None \<Rightarrow> False | Some r \<Rightarrow> nonblank r)
                      then ''assistant message contained reasoning without visible content or tool calls''
                      else ''assistant message contained no visible content or tool calls'')
                 in (case nc_invalid_assistant ctx of
                       DropInvalid \<Rightarrow> Inr None
                     | RejectInvalid \<Rightarrow> Inl (mk_diagnostic ctx m' False 0 reason)))"

record validation_report =
  vr_messages :: "message list"
  vr_dropped :: "message_diagnostic list"

fun normalize_from ::
  "serde_env \<Rightarrow> normalization_context \<Rightarrow> nat \<Rightarrow> message list \<Rightarrow> message_diagnostic + validation_report" where
  "normalize_from serde ctx i [] = Inr \<lparr> vr_messages = [], vr_dropped = [] \<rparr>"
| "normalize_from serde ctx i (m # ms) = (
     let ctx' = ctx \<lparr> nc_message_index := i \<rparr> in
     res_bind (normalize_assistant_message serde ctx' m) (\<lambda>normalized.
     res_bind (normalize_from serde ctx (i + 1) ms) (\<lambda>report.
       case normalized of
         Some m' \<Rightarrow> Inr (report \<lparr> vr_messages := m' # vr_messages report \<rparr>)
       | None \<Rightarrow> Inr (report \<lparr> vr_dropped := mk_diagnostic ctx' m (has_visible_content m) (length (calls_of m))
           ''legacy-invalid assistant message removed before provider dispatch'' # vr_dropped report \<rparr>))))"

definition validate_message_sequence ::
  "serde_env \<Rightarrow> normalization_context \<Rightarrow> message list \<Rightarrow> message_diagnostic + validation_report" where
  "validate_message_sequence serde ctx ms = normalize_from serde ctx 0 ms"

section \<open>The provider boundary\<close>

definition tool_result_id :: "message \<Rightarrow> string" where
  "tool_result_id m = (case cm_name m of None \<Rightarrow> [] | Some n \<Rightarrow> trim n)"

text \<open>\<open>pending\<close> holds the ids of the calls without a result, \<open>resolved\<close> those answered in this round.\<close>

fun add_pending ::
  "normalization_context \<Rightarrow> message \<Rightarrow> tool_call_request list \<Rightarrow> string list \<Rightarrow> message_diagnostic + string list" where
  "add_pending ctx m [] pending = Inr pending"
| "add_pending ctx m (c # cs) pending = (
     if tc_id c \<in> set pending
     then Inl (mk_diagnostic ctx m (has_visible_content m) (length (calls_of m)) ''duplicate tool call id'')
     else add_pending ctx m cs (tc_id c # pending))"

definition take_result ::
  "normalization_context \<Rightarrow> message \<Rightarrow> string list \<Rightarrow> string list
     \<Rightarrow> message_diagnostic + string list \<times> string list" where
  "take_result ctx m pending resolved = (
     let i = tool_result_id m; bad = (\<lambda>content reason. Inl (mk_diagnostic ctx m content 0 reason))
     in if i = [] then bad (has_visible_content m) ''tool result has no tool call id''
     else if i \<in> set resolved then bad (has_visible_content m) ''duplicate tool result''
     else if i \<notin> set pending then bad (has_visible_content m) ''orphan tool result''
     else if \<not> has_visible_content m then bad False ''tool result has no content''
     else Inr (removeAll i pending, i # resolved))"

fun validate_calls_from ::
  "normalization_context \<Rightarrow> message option \<Rightarrow> nat \<Rightarrow> string list \<Rightarrow> string list \<Rightarrow> message list
     \<Rightarrow> message_diagnostic + unit" where
  "validate_calls_from ctx last_message i pending resolved [] = (
     if pending = [] then Inr ()
     else case last_message of
       None \<Rightarrow> Inr ()
     | Some m \<Rightarrow> Inl (mk_diagnostic (ctx \<lparr> nc_message_index := i - 1 \<rparr>) m (has_visible_content m) (length (calls_of m))
         (nat_to_string (length pending) @ '' tool call(s) have no result'')))"
| "validate_calls_from ctx last_message i pending resolved (m # ms) = (
     let ctx' = ctx \<lparr> nc_message_index := i \<rparr> in
     if cm_role m \<noteq> RoleTool \<and> pending \<noteq> []
     then Inl (mk_diagnostic ctx' m (has_visible_content m) (length (calls_of m))
       (nat_to_string (length pending) @ '' tool call(s) have no result before the next non-tool message''))
     else (case cm_role m of
         RoleAssistant \<Rightarrow> res_bind (add_pending ctx' m (calls_of m) pending)
           (\<lambda>pending'. validate_calls_from ctx (Some m) (i + 1) pending' [] ms)
       | RoleTool \<Rightarrow> res_bind (take_result ctx' m pending resolved)
           (\<lambda>(pending', resolved'). validate_calls_from ctx (Some m) (i + 1) pending' resolved' ms)
       | _ \<Rightarrow> validate_calls_from ctx (Some m) (i + 1) pending [] ms))"

definition validate_tool_call_sequence ::
  "normalization_context \<Rightarrow> message list \<Rightarrow> message_diagnostic + unit" where
  "validate_tool_call_sequence ctx ms = validate_calls_from ctx None 0 [] [] ms"

definition as_llm_error :: "message_diagnostic + 'a \<Rightarrow> core_error + 'a" where
  "as_llm_error r = (case r of
     Inl d \<Rightarrow> Inl (CE_Llm (''message validation failed: '' @ validation_error_display d))
   | Inr x \<Rightarrow> Inr x)"

definition validate_provider_request_with_context ::
  "serde_env \<Rightarrow> message list \<Rightarrow> string \<Rightarrow> string \<Rightarrow> string option \<Rightarrow> string option \<Rightarrow> core_error + unit" where
  "validate_provider_request_with_context serde ms provider model conversation_id turn_id = (
     let ctx = (provider_boundary_context provider model 0)
           \<lparr> nc_conversation_id := conversation_id, nc_turn_id := turn_id \<rparr>
     in res_bind (as_llm_error (validate_message_sequence serde ctx ms)) (\<lambda>report.
          as_llm_error (validate_tool_call_sequence ctx (vr_messages report))))"

definition validate_provider_request :: "serde_env \<Rightarrow> message list \<Rightarrow> string \<Rightarrow> string \<Rightarrow> core_error + unit" where
  "validate_provider_request serde ms provider model =
     validate_provider_request_with_context serde ms provider model None None"

section \<open>Repairing a persisted history\<close>

abbreviation is_tool :: "message \<Rightarrow> bool" where "is_tool m \<equiv> cm_role m = RoleTool"

definition unit_is_complete :: "serde_env \<Rightarrow> tool_call_request list \<Rightarrow> message list \<Rightarrow> bool" where
  "unit_is_complete serde calls results \<longleftrightarrow>
     list_all (is_complete_tool_call serde) calls \<and> distinct (map tc_id calls)
     \<and> length results = length calls
     \<and> list_all (\<lambda>r. tool_result_id r \<noteq> [] \<and> has_visible_content r \<and> tool_result_id r \<in> set (map tc_id calls)) results
     \<and> distinct (map tool_result_id results)
     \<and> set (map tc_id calls) = set (map tool_result_id results)"

record repair_report =
  rr_messages :: "message list"
  rr_repairs :: "message_diagnostic list"

definition report_keep :: "message list \<Rightarrow> repair_report \<Rightarrow> repair_report" where
  "report_keep ms report = report \<lparr> rr_messages := ms @ rr_messages report \<rparr>"

definition report_repair :: "message_diagnostic \<Rightarrow> message list \<Rightarrow> repair_report \<Rightarrow> repair_report" where
  "report_repair d ms report = report \<lparr> rr_messages := ms @ rr_messages report, rr_repairs := d # rr_repairs report \<rparr>"

definition visible_assistant :: "message \<Rightarrow> message" where
  "visible_assistant m = clear_provider_turn (m \<lparr> cm_tool_calls := None \<rparr>)"

function repair_from :: "serde_env \<Rightarrow> string option \<Rightarrow> nat \<Rightarrow> message list \<Rightarrow> repair_report" where
  "repair_from serde conversation_id i [] = \<lparr> rr_messages = [], rr_repairs = [] \<rparr>"
| "repair_from serde conversation_id i (m # ms) = (
     let ctx = persisted_context conversation_id i; next = repair_from serde conversation_id (i + 1) ms in
     if cm_role m = RoleTool then
       report_repair (mk_diagnostic ctx m (has_visible_content m) 0 ''orphan persisted tool result removed'') [] next
     else if cm_role m \<noteq> RoleAssistant then report_keep [m] next
     else if calls_of m = [] then
       (if has_visible_content m then report_keep [m \<lparr> cm_tool_calls := None \<rparr>] next
        else report_repair (mk_diagnostic ctx m False 0 ''empty persisted assistant message removed'') [] next)
     else let results = takeWhile is_tool ms; rest = dropWhile is_tool ms;
              next' = repair_from serde conversation_id (i + 1 + length results) rest
       in if unit_is_complete serde (calls_of m) results then report_keep (m # results) next'
          else report_repair (mk_diagnostic ctx m (has_visible_content m) (length (calls_of m))
              (''invalid persisted assistant/tool replay unit repaired (calls='' @ nat_to_string (length (calls_of m))
                @ '', results='' @ nat_to_string (length results) @ '')''))
            (if has_visible_content m then [visible_assistant m] else []) next')"
  by pat_completeness auto
termination
  by (relation "measure (\<lambda>(serde, c, i, ms). length ms)") (auto simp: le_imp_less_Suc length_dropWhile_le)

definition repair_persisted_message_history :: "serde_env \<Rightarrow> message list \<Rightarrow> string option \<Rightarrow> repair_report" where
  "repair_persisted_message_history serde ms conversation_id = repair_from serde conversation_id 0 ms"

section \<open>Provider-native state in a history\<close>

definition LEGACY_MISSING_REASONING_SENTINEL :: string where
  "LEGACY_MISSING_REASONING_SENTINEL = ''[reasoning content unavailable in local history]''"

definition MAX_BOUNDARY_FIELD_CHARS :: nat where "MAX_BOUNDARY_FIELD_CHARS = 1500"

text \<open>The horizontal ellipsis is outside the characters of the model and is written as its UTF-8 bytes.\<close>

definition ELLIPSIS :: string where "ELLIPSIS = [CHR 0xE2, CHR 0x80, CHR 0xA6]"

definition sanitize_reasoning_text :: "string option \<Rightarrow> string option" where
  "sanitize_reasoning_text value = (case trimmed_nonempty value of
     None \<Rightarrow> None
   | Some v \<Rightarrow> if v = LEGACY_MISSING_REASONING_SENTINEL then None else Some v)"

definition bounded_visible_text :: "string \<Rightarrow> string" where
  "bounded_visible_text value = (
     if length (trim value) \<le> MAX_BOUNDARY_FIELD_CHARS then trim value
     else take MAX_BOUNDARY_FIELD_CHARS (trim value) @ ELLIPSIS @ '' [truncated at replay boundary]'')"

definition is_assistant :: "message \<Rightarrow> bool" where "is_assistant m \<longleftrightarrow> cm_role m = RoleAssistant"

definition starts_tool_unit :: "message \<Rightarrow> bool" where
  "starts_tool_unit m \<longleftrightarrow> is_assistant m \<and> calls_of m \<noteq> []"

definition compact_visible_conclusion :: "message list \<Rightarrow> message option" where
  "compact_visible_conclusion ms =
     map_option (\<lambda>m. text_message RoleAssistant (bounded_visible_text (text_content m)))
       (find (\<lambda>m. is_assistant m \<and> calls_of m = [] \<and> nonblank (text_content m)) (rev ms))"

text \<open>
  The number of messages behind an assistant message with calls that belong to its replay chain:
  results, further calls with their results, and the assistant message that ends it.
\<close>

function chain_length :: "message list \<Rightarrow> nat" where
  "chain_length ms = (let n = length (takeWhile is_tool ms) in case dropWhile is_tool ms of
     [] \<Rightarrow> n
   | a # rest \<Rightarrow> if \<not> is_assistant a then n
       else if calls_of a = [] then n + 1
       else n + 1 + chain_length rest)"
  by pat_completeness auto
termination
proof (relation "measure length", goal_cases)
  case (2 ms n a rest)
  have "length (dropWhile is_tool ms) \<le> length ms" by (rule length_dropWhile_le)
  with 2(2) show ?case by simp
qed simp

declare chain_length.simps [simp del]

definition atomic_tool_replay_unit_end :: "message list \<Rightarrow> nat \<Rightarrow> nat" where
  "atomic_tool_replay_unit_end ms start = start + 1 + chain_length (drop (start + 1) ms)"

record replay_projection =
  rj_messages :: "message list"
  rj_omitted_units :: nat

text \<open>The loop over chains: one whose state cannot be replayed leaves only its conclusion.\<close>

function project_units :: "(message \<Rightarrow> bool) \<Rightarrow> message list \<Rightarrow> replay_projection" where
  "project_units invalid [] = \<lparr> rj_messages = [], rj_omitted_units = 0 \<rparr>"
| "project_units invalid (m # ms) = (
     if starts_tool_unit m then
       let end' = chain_length ms; chain = m # take end' ms; next = project_units invalid (drop end' ms)
       in if list_ex (\<lambda>x. starts_tool_unit x \<and> invalid x) chain
          then next \<lparr> rj_messages := (case compact_visible_conclusion chain of None \<Rightarrow> [] | Some c \<Rightarrow> [c])
                 @ rj_messages next, rj_omitted_units := rj_omitted_units next + 1 \<rparr>
          else next \<lparr> rj_messages := chain @ rj_messages next \<rparr>
     else let next = project_units invalid ms in next \<lparr> rj_messages := m # rj_messages next \<rparr>)"
  by pat_completeness auto
termination by (relation "measure (\<lambda>(p, ms). length ms)") auto

definition prepare_reasoning_replay_history :: "message list \<Rightarrow> replay_policy \<Rightarrow> replay_projection" where
  "prepare_reasoning_replay_history ms policy = (
     let normalized = map (\<lambda>m. m \<lparr> cm_reasoning_content :=
           (if policy = ReplayForbidden then None else sanitize_reasoning_text (cm_reasoning_content m)) \<rparr>) ms
     in if \<not> requires_tool_call_payload policy then \<lparr> rj_messages = normalized, rj_omitted_units = 0 \<rparr>
        else project_units (\<lambda>m. cm_reasoning_content m = None) normalized)"

definition envelope_blocks_replay :: "serde_env \<Rightarrow> route_snapshot \<Rightarrow> message \<Rightarrow> bool" where
  "envelope_blocks_replay serde route m = (
     if requires_tool_call_payload (rs_replay_policy route) then
       (case provider_turn m of
          None \<Rightarrow> True
        | Some e \<Rightarrow> \<not> is_compatible_with e route \<or> \<not> authorizes_tool_dispatch serde e)
     else
       (case provider_turn m of
          None \<Rightarrow> False
        | Some e \<Rightarrow> pt_replay_payload e \<noteq> NoPayload
            \<and> (\<not> is_compatible_with e route \<or> \<not> authorizes_tool_dispatch serde e)))"

definition prepare_provider_replay_history ::
  "serde_env \<Rightarrow> message list \<Rightarrow> route_snapshot \<Rightarrow> replay_projection" where
  "prepare_provider_replay_history serde ms route = (
     if \<not> requires_tool_call_payload (rs_replay_policy route) \<and> rs_replay_policy route \<noteq> ReplayNotRequired
     then prepare_reasoning_replay_history ms (rs_replay_policy route)
     else project_units (envelope_blocks_replay serde route)
       (map (\<lambda>m. m \<lparr> cm_reasoning_content := (case provider_turn m of
            None \<Rightarrow> sanitize_reasoning_text (cm_reasoning_content m)
          | Some e \<Rightarrow> payload_reasoning_content (pt_replay_payload e)) \<rparr>) ms))"

end
