(* ===== verification/Context_Window.thy ===== *)
theory Context_Window
  imports Message_History
begin

text \<open>
  What of a conversation fits into a model's context: the token estimates and the trimming of
  \<open>crates/core/src/conversation/memory.rs\<close>, the budget of \<open>agent/context_pipeline.rs\<close> and the boundary and
  result of a compaction of \<open>agent/context_compaction.rs\<close>.

  The tokenizer library and the shared model catalog are the record \<open>token_env\<close>. Floating-point
  products that are truncated to an integer are computed exactly, with the rounding of their width.
  The percentage of a budget decision is only displayed and is left out.
\<close>

section \<open>Bytes and floats\<close>

definition utf8_len :: "char \<Rightarrow> nat" where
  "utf8_len c = (if char_code c < 128 then 1 else 2)"

text \<open>\<open>str::len\<close>: the length in bytes.\<close>

definition str_len :: "string \<Rightarrow> nat" where
  "str_len s = sum_list (map utf8_len s)"

fun bit_length :: "nat \<Rightarrow> nat" where
  "bit_length n = (if n = 0 then 0 else 1 + bit_length (n div 2))"

declare bit_length.simps [simp del]

text \<open>The nearest number with \<open>p\<close> significant bits, ties to even.\<close>

definition round_bits :: "nat \<Rightarrow> nat \<Rightarrow> nat" where
  "round_bits p n = (
     if bit_length n \<le> p then n
     else let k = bit_length n - p; q = n div 2 ^ k; r = n mod 2 ^ k; half = 2 ^ (k - 1)
       in (if half < r \<or> (r = half \<and> odd q) then q + 1 else q) * 2 ^ k)"

text \<open>A float cast to \<open>u32\<close> saturates.\<close>

definition float_as_u32 :: "nat \<Rightarrow> u32" where
  "float_as_u32 n = (if n < 2 ^ 32 then of_nat n else - 1)"

section \<open>Token estimates\<close>

datatype tokenizer = O200kBase | Cl100kBase

record token_env =
  te_bpe_for_model :: "string \<Rightarrow> (string \<Rightarrow> nat) option"
  te_bpe_for_tokenizer :: "tokenizer \<Rightarrow> (string \<Rightarrow> nat) option"
  te_catalog_context :: "string \<Rightarrow> u64 option"

definition is_cjk :: "char \<Rightarrow> bool" where
  "is_cjk c = (let n = char_code c in
     (0x4E00 \<le> n \<and> n \<le> 0x9FFF) \<or> (0x3400 \<le> n \<and> n \<le> 0x4DBF) \<or> (0xF900 \<le> n \<and> n \<le> 0xFAFF)
     \<or> (0x3000 \<le> n \<and> n \<le> 0x303F) \<or> (0x3040 \<le> n \<and> n \<le> 0x309F) \<or> (0x30A0 \<le> n \<and> n \<le> 0x30FF)
     \<or> (0xAC00 \<le> n \<and> n \<le> 0xD7AF))"

definition heuristic_token_count :: "string \<Rightarrow> u32" where
  "heuristic_token_count text = (
     if text = [] then 0
     else let ascii = length (filter (\<lambda>c. char_code c < 128) text);
              cjk = length (filter (\<lambda>c. \<not> char_code c < 128 \<and> is_cjk c) text);
              other = length (filter (\<lambda>c. \<not> char_code c < 128 \<and> \<not> is_cjk c) text)
       in of_nat ((ascii + 3) div 4) + of_nat ((2 * cjk + 2) div 3) + of_nat ((other + 1) div 2))"

text \<open>The part behind the last slash, up to a colon or a tilde.\<close>

definition canonical_model_id_for_context :: "string \<Rightarrow> string" where
  "canonical_model_id_for_context model =
     takeWhile (\<lambda>c. c \<noteq> CHR '':'' \<and> c \<noteq> CHR ''~'')
       (rev (takeWhile (\<lambda>c. c \<noteq> CHR ''/'') (rev (to_ascii_lowercase (trim model)))))"

datatype name_pattern = StartsWith string | Contains string

fun name_matches :: "string \<Rightarrow> name_pattern \<Rightarrow> bool" where
  "name_matches m (StartsWith p) = starts_with m p"
| "name_matches m (Contains p) = str_contains m p"

definition first_window :: "(name_pattern list \<times> u32) list \<Rightarrow> string \<Rightarrow> u32 option" where
  "first_window rules m = map_option snd (find (\<lambda>(patterns, tokens). list_ex (name_matches m) patterns) rules)"

definition EXACT_WINDOWS :: "(string list \<times> u32) list" where
  "EXACT_WINDOWS = [
     ([''gpt-6-astra'', ''gpt-5.6'', ''gpt-5.6-sol'', ''gpt-5.6-terra'', ''gpt-5.6-luna''], 1050000),
     ([''gpt-5.5'', ''gpt-5.5-2026-04-23'', ''gpt-5.5-pro'', ''gpt-5.5-pro-2026-04-23''], 1050000),
     ([''gpt-5.4'', ''gpt-5.4-2026-03-05'', ''gpt-5.4-pro'', ''gpt-5.4-pro-2026-03-05''], 1050000),
     ([''gpt-5.4-mini'', ''gpt-5.4-mini-2026-03-05''], 400000),
     ([''gpt-5.4-nano'', ''gpt-5.4-nano-2026-03-05''], 400000),
     ([''gpt-5.3-codex'', ''gpt-5.3-codex-2025-12-19''], 400000),
     ([''gpt-5.2'', ''gpt-5.2-codex'', ''gpt-5.2-pro''], 400000),
     ([''gpt-5.1'', ''gpt-5.1-codex''], 400000), ([''gpt-5'', ''gpt-5-mini'', ''gpt-5-nano''], 400000),
     ([''gpt-4.1'', ''gpt-4.1-2025-04-14''], 1047576),
     ([''gpt-4.1-mini'', ''gpt-4.1-mini-2025-04-14''], 1047576),
     ([''gpt-4.1-nano'', ''gpt-4.1-nano-2025-04-14''], 1047576),
     ([''gpt-4.5-preview'', ''gpt-4.5-preview-2025-02-27''], 128000),
     ([''gpt-4o'', ''gpt-4o-mini'', ''gpt-4o-audio-preview'', ''chatgpt-4o-latest''], 128000),
     ([''gpt-4o-2024-11-20'', ''gpt-4o-2024-08-06'', ''gpt-4o-2024-05-13''], 128000),
     ([''gpt-4o-mini-2024-07-18''], 128000), ([''gpt-4-turbo'', ''gpt-4-turbo-2024-04-09''], 128000),
     ([''gpt-4-0613''], 8192), ([''gpt-3.5-turbo'', ''gpt-3.5-turbo-0125''], 16385),
     ([''o4-mini'', ''o4-mini-2025-04-16''], 200000), ([''o3'', ''o3-2025-04-16''], 200000),
     ([''o3-mini'', ''o3-mini-2025-01-31''], 200000), ([''o3-pro'', ''o3-pro-2025-06-10''], 200000),
     ([''o1'', ''o1-2024-12-17''], 200000), ([''o1-mini'', ''o1-mini-2024-09-12''], 128000),
     ([''o1-pro'', ''o1-pro-2025-03-19''], 200000), ([''codex-mini-latest''], 200000),
     ([''claude-fable-5-1'', ''claude-fable-5'', ''claude-mythos-5'', ''claude-sonnet-5''], 1000000),
     ([''claude-opus-4-8'', ''claude-opus-4-7'', ''claude-opus-4-6''], 1000000),
     ([''claude-sonnet-4-6''], 1000000), ([''claude-opus-4-5'', ''claude-opus-4-5-20251101''], 200000),
     ([''claude-opus-4-1'', ''claude-opus-4-1-20250805''], 200000),
     ([''claude-opus-4-0'', ''claude-opus-4-20250514''], 200000),
     ([''claude-sonnet-4-5'', ''claude-sonnet-4-5-20250929''], 200000),
     ([''claude-sonnet-4-0'', ''claude-sonnet-4-20250514''], 200000),
     ([''claude-haiku-4-5'', ''claude-haiku-4-5-20251001''], 200000),
     ([''claude-3-7-sonnet-20250219'', ''claude-3-7-sonnet-latest''], 200000),
     ([''claude-3-5-sonnet-20241022'', ''claude-3-5-sonnet-latest''], 200000),
     ([''claude-3-5-haiku-20241022'', ''claude-3-5-haiku-latest''], 200000),
     ([''claude-3-opus-20240229'', ''claude-3-opus-latest''], 200000),
     ([''claude-3-sonnet-20240229''], 200000), ([''claude-3-haiku-20240307''], 200000),
     ([''claude-2.1''], 200000), ([''claude-2.0''], 100000),
     ([''gemini-3.8-flash'', ''gemini-3.7-flash'', ''gemini-3.6-flash'', ''gemini-3.5-flash'', ''gemini-3.5-flash-lite'', ''gemini-3.1-pro-preview'', ''gemini-3.1-flash-lite'', ''gemini-3-pro-preview'', ''gemini-3-flash-preview''], 1048576),
     ([''gemini-2.5-pro'', ''gemini-2.5-pro-preview-05-06''], 1048576),
     ([''gemini-2.5-flash'', ''gemini-2.5-flash-preview-04-17''], 1048576),
     ([''gemini-2.5-flash-lite''], 1048576),
     ([''gemini-2.0-flash'', ''gemini-2.0-flash-lite''], 1048576),
     ([''gemini-1.5-pro'', ''gemini-1.5-pro-latest''], 2097152),
     ([''gemini-1.5-flash'', ''gemini-1.5-flash-latest''], 1048576),
     ([''muse-spark-1.3'', ''meta/muse-spark-1.3''], 1048576),
     ([''deepseek-v4-pro'', ''deepseek-v4-flash''], 1000000),
     ([''deepseek-chat'', ''deepseek-reasoner''], 128000),
     ([''glm-5.3'', ''glm-5.2'', ''glm-5.2-fast-preview''], 1000000),
     ([''glm-5.1'', ''glm-5'', ''glm-5-turbo''], 200000), ([''glm-4-long''], 1000000),
     ([''kimi-k3'', ''moonshotai/kimi-k3''], 1048576),
     ([''kimi-k2.7-code'', ''kimi-k2.6'', ''kimi-k2.5'', ''kimi-k2-thinking'', ''kimi-k2''], 256000),
     ([''kimi-latest''], 128000), ([''minimax-m3''], 1000000),
     ([''minimax-m2.7'', ''minimax-m2.7-highspeed'', ''minimax-m2.5'', ''minimax-m2.5-highspeed'', ''minimax-m2.1'', ''minimax-m2.1-highspeed'', ''minimax-m2''], 204800),
     ([''doubao-seed-1-6-251015'', ''doubao-seed-1-6-thinking'', ''doubao-seed-code-preview-251028'', ''doubao-seed-1-6-flash-250828''], 256000),
     ([''qwen3.8-max-preview'', ''qwen3.8-flash'', ''qwen3.8-2.4t-a95b'', ''qwen3.8-27b''], 1000000),
     ([''qwen3.7-max'', ''qwen3.7-max-2026-05-20'', ''qwen3.7-max-2026-06-08''], 1000000),
     ([''qwen3.7-plus'', ''qwen3.7-plus-2026-05-26''], 1000000), ([''qwen3.6-max-preview''], 262144),
     ([''qwen3-max-preview''], 81920),
     ([''baichuan-m3-plus'', ''baichuan-m3'', ''baichuan-m2-plus'', ''baichuan-m2'', ''baichuan4-turbo'', ''baichuan4''], 32000),
     ([''grok-4.6'', ''grok-4.5''], 500000), ([''grok-4.3''], 1000000),
     ([''grok-4'', ''grok-4-0709''], 256000),
     ([''grok-4-1-fast'', ''grok-4-1-fast-reasoning'', ''grok-4-1-fast-non-reasoning''], 2000000),
     ([''grok-4-fast-reasoning'', ''grok-4-fast-non-reasoning''], 2000000),
     ([''grok-code-fast-1''], 256000), ([''grok-3'', ''grok-3-latest'', ''grok-3-mini''], 131072),
     ([''grok-2'', ''grok-2-latest''], 131072),
     ([''mistral-medium-3-5'', ''mistral-small-2603''], 256000), ([''mistral-large-2512''], 256000),
     ([''mistral-medium-2508'', ''magistral-medium-2509'', ''mistral-small-2506''], 128000),
     ([''codestral-2508''], 128000), ([''devstral-2512'', ''devstral-2-2512''], 256000)]"

definition QWEN_WINDOWS :: "(name_pattern list \<times> u32) list" where
  "QWEN_WINDOWS = [
     ([StartsWith ''qwen3.8-'', StartsWith ''qwen3.5-plus'', StartsWith ''qwen3.7-max'', StartsWith ''qwen3.7-flash'', StartsWith ''qwen3.6-plus'', StartsWith ''qwen3.6-flash'', StartsWith ''qwen3.5-flash'', StartsWith ''qwen3-coder-plus''], 1000000),
     ([StartsWith ''qwen3-max'', StartsWith ''qwen3-coder-next'', StartsWith ''qwen3-vl-plus''], 262144),
     ([StartsWith ''qwen3-vl-flash''], 258048),
     ([StartsWith ''qwq-plus'', StartsWith ''qvq-max''], 131072)]"

definition FALLBACK_WINDOWS :: "(name_pattern list \<times> u32) list" where
  "FALLBACK_WINDOWS = [
     ([StartsWith ''gpt-5.6'', StartsWith ''gpt-5.5''], 1050000),
     ([StartsWith ''gpt-5.4-mini'', StartsWith ''gpt-5.4-nano''], 400000),
     ([StartsWith ''gpt-5.4''], 1050000), ([StartsWith ''gpt-5''], 400000),
     ([StartsWith ''gpt-4.1''], 1047576), ([StartsWith ''gpt-4.5''], 128000),
     ([StartsWith ''gpt-4o''], 128000), ([StartsWith ''gpt-4''], 128000),
     ([StartsWith ''gpt-3.5''], 16385),
     ([StartsWith ''o1'', StartsWith ''o3'', StartsWith ''o4''], 200000),
     ([StartsWith ''codex''], 200000),
     ([StartsWith ''claude-fable-5'', StartsWith ''claude-mythos-5'', StartsWith ''claude-sonnet-5''], 1000000),
     ([Contains ''claude''], 200000), ([Contains ''gemini''], 1048576),
     ([StartsWith ''deepseek-v4''], 1000000), ([Contains ''deepseek''], 128000),
     ([StartsWith ''grok-4.6''], 500000), ([StartsWith ''grok-4.5''], 500000),
     ([StartsWith ''grok-4.3''], 1000000),
     ([StartsWith ''grok-4-1-fast'', StartsWith ''grok-4-fast''], 2000000),
     ([StartsWith ''grok-code-fast''], 256000), ([StartsWith ''grok-4''], 256000),
     ([Contains ''grok''], 131072),
     ([StartsWith ''mistral-medium-3-5'', StartsWith ''mistral-small-2603''], 256000),
     ([Contains ''codestral''], 128000), ([Contains ''devstral''], 256000),
     ([Contains ''magistral''], 128000), ([Contains ''mistral'', Contains ''mixtral''], 128000),
     ([Contains ''llama''], 128000), ([StartsWith ''glm-5.3'', StartsWith ''glm-5.2''], 1000000),
     ([Contains ''glm''], 128000), ([Contains ''kimi-k3''], 1048576), ([Contains ''kimi-k2''], 256000),
     ([Contains ''kimi'', Contains ''moonshot''], 128000), ([StartsWith ''minimax-m3''], 1000000),
     ([StartsWith ''minimax-m2''], 204800), ([StartsWith ''qwen3.7-plus''], 1000000),
     ([Contains ''qwen''], 128000), ([Contains ''doubao''], 128000), ([Contains ''baichuan''], 128000),
     ([Contains ''phi''], 128000), ([Contains ''command''], 128000), ([Contains ''yi''], 128000),
     ([Contains ''starcoder''], 16384)]"

definition is_ascii_digit :: "char \<Rightarrow> bool" where
  "is_ascii_digit c = (48 \<le> char_code c \<and> char_code c \<le> 57)"

definition is_ascii_alphanumeric :: "char \<Rightarrow> bool" where
  "is_ascii_alphanumeric c = (is_ascii_digit c \<or> (65 \<le> char_code c \<and> char_code c \<le> 90)
     \<or> (97 \<le> char_code c \<and> char_code c \<le> 122))"

text \<open>A number with the unit \<open>k\<close> or \<open>m\<close> that stands alone; \<open>prev\<close> is the byte before the rest.\<close>

function hint_from :: "char option \<Rightarrow> string \<Rightarrow> u32 option" where
  "hint_from prev [] = None"
| "hint_from prev (c # cs) = (
     if \<not> is_ascii_digit c then hint_from (Some c) cs
     else case dropWhile is_ascii_digit cs of
       [] \<Rightarrow> None
     | x # xs \<Rightarrow>
         let digits = c # takeWhile is_ascii_digit cs;
             prev_ok = (case prev of None \<Rightarrow> True | Some p \<Rightarrow> \<not> is_ascii_alphanumeric p);
             next_ok = (case xs of [] \<Rightarrow> True | y # _ \<Rightarrow> \<not> is_ascii_alphanumeric y);
             kilo = (x \<in> set ''kK''); mega = (x \<in> set ''mM'')
         in if \<not> kilo \<and> \<not> mega then hint_from (Some x) xs
            else if \<not> prev_ok \<or> \<not> next_ok then hint_from (Some x) xs
            else map_option (\<lambda>v. saturating_mul (of_nat v) (if kilo then 1000 else 1000000)) (parse_u32 digits))"
  by pat_completeness auto
termination
proof (relation "measure (\<lambda>(p, s). length s)", goal_cases)
  case (3 prev c cs x xs)
  have "length (dropWhile is_ascii_digit cs) \<le> length cs" by (rule length_dropWhile_le)
  with 3 show ?case by simp
next
  case (4 prev c cs x xs)
  have "length (dropWhile is_ascii_digit cs) \<le> length cs" by (rule length_dropWhile_le)
  with 4 show ?case by simp
qed simp_all

definition parse_context_window_hint :: "string \<Rightarrow> u32 option" where
  "parse_context_window_hint m = hint_from None m"

definition qwen_model_context_window :: "string \<Rightarrow> u32 option" where
  "qwen_model_context_window m = first_window QWEN_WINDOWS m"

definition prefix_model_context_window :: "string \<Rightarrow> u32 option" where
  "prefix_model_context_window m = opt_or (parse_context_window_hint m)
     (opt_or (qwen_model_context_window m) (first_window FALLBACK_WINDOWS m))"

definition model_profile_context_window :: "string \<Rightarrow> u32 option" where
  "model_profile_context_window m = (case find (\<lambda>(names, tokens). m \<in> set names) EXACT_WINDOWS of
     Some (names, tokens) \<Rightarrow> Some tokens
   | None \<Rightarrow> prefix_model_context_window m)"

datatype context_window_authority = UserOverride | CatalogAuthority | ModelProfile | ProviderManaged

record resolved_context_window =
  cw_capacity_tokens :: "u32 option"
  cw_authority :: context_window_authority

definition resolve_model_context_window :: "string \<Rightarrow> resolved_context_window" where
  "resolve_model_context_window model = (
     let capacity = model_profile_context_window (canonical_model_id_for_context model)
     in \<lparr> cw_capacity_tokens = capacity,
          cw_authority = (if capacity \<noteq> None then ModelProfile else ProviderManaged) \<rparr>)"

definition resolve_context_window :: "string \<Rightarrow> u32 option \<Rightarrow> resolved_context_window" where
  "resolve_context_window model override = (case override of
     Some capacity \<Rightarrow> \<lparr> cw_capacity_tokens = Some capacity, cw_authority = UserOverride \<rparr>
   | None \<Rightarrow> resolve_model_context_window model)"

definition u32_try_from :: "u64 \<Rightarrow> u32 option" where
  "u32_try_from n = (if uint n < 2 ^ 32 then Some (ucast n) else None)"

definition model_context_window :: "token_env \<Rightarrow> string \<Rightarrow> u32" where
  "model_context_window env model =
     (case Option.bind (opt_or (te_catalog_context env model)
             (te_catalog_context env (canonical_model_id_for_context model))) u32_try_from of
        Some tokens \<Rightarrow> tokens
      | None \<Rightarrow> unwrap_or 32000 (cw_capacity_tokens (resolve_model_context_window model)))"

definition tokenizer_count :: "token_env \<Rightarrow> string option \<Rightarrow> string \<Rightarrow> u32 option" where
  "tokenizer_count env model_hint text = (
     if text = [] then Some 0
     else case Option.bind model_hint (te_bpe_for_model env) of
       Some bpe \<Rightarrow> Some (of_nat (bpe text))
     | None \<Rightarrow> map_option (\<lambda>bpe. of_nat (bpe text))
         (te_bpe_for_tokenizer env
           (if (case model_hint of None \<Rightarrow> 128000 | Some model \<Rightarrow> model_context_window env model) \<ge> 200000
            then O200kBase else Cl100kBase)))"

definition estimate_text_tokens :: "token_env \<Rightarrow> string option \<Rightarrow> string \<Rightarrow> u32" where
  "estimate_text_tokens env model_hint text =
     unwrap_or (heuristic_token_count text) (tokenizer_count env model_hint text) + 4"

fun image_tokens :: "content_part \<Rightarrow> u32" where
  "image_tokens (PartImage media_type data) = max (of_nat (str_len data div 1500)) 258"
| "image_tokens _ = 0"

definition call_tokens :: "token_env \<Rightarrow> string option \<Rightarrow> tool_call_request \<Rightarrow> u32" where
  "call_tokens env model_hint c = estimate_text_tokens env model_hint (tc_id c)
     + estimate_text_tokens env model_hint (tc_name c) + estimate_text_tokens env model_hint (tc_arguments c) + 4"

definition estimate_message_tokens :: "token_env \<Rightarrow> string option \<Rightarrow> message \<Rightarrow> u32" where
  "estimate_message_tokens env model_hint m =
     estimate_text_tokens env model_hint (text_content m) + sum_list (map image_tokens (cm_parts m))
     + sum_list (map (call_tokens env model_hint) (calls_of m))"

definition context_safety_buffer :: "u32 \<Rightarrow> u32" where
  "context_safety_buffer max_tokens =
     (if max_tokens \<le> 8192 then 256 else min (max (max_tokens div 25) 1024) 8192)"

section \<open>Trimming\<close>

record message_block =
  mb_messages :: "message list"
  mb_token_cost :: u32

abbreviation message_cost :: "token_env \<Rightarrow> message \<Rightarrow> u32" where
  "message_cost env \<equiv> estimate_message_tokens env None"

definition total_cost :: "token_env \<Rightarrow> u32 \<Rightarrow> message list \<Rightarrow> u32" where
  "total_cost env used ms = fold (\<lambda>m n. saturating_add n (message_cost env m)) ms used"

text \<open>The blocks so far are kept newest first.\<close>

function blocks_from :: "token_env \<Rightarrow> message_block list \<Rightarrow> message list \<Rightarrow> message_block list" where
  "blocks_from env blocks [] = rev blocks"
| "blocks_from env blocks (m # ms) = (
     if cm_role m = RoleSystem \<and> blocks \<noteq> [] then
       blocks_from env ((hd blocks) \<lparr> mb_messages := mb_messages (hd blocks) @ [m],
           mb_token_cost := saturating_add (mb_token_cost (hd blocks)) (message_cost env m) \<rparr> # tl blocks) ms
     else if starts_tool_unit m then
       let n = chain_length ms
       in blocks_from env (\<lparr> mb_messages = m # take n ms,
            mb_token_cost = total_cost env (message_cost env m) (take n ms) \<rparr> # blocks) (drop n ms)
     else blocks_from env (\<lparr> mb_messages = [m], mb_token_cost = message_cost env m \<rparr> # blocks) ms)"
  by pat_completeness auto
termination by (relation "measure (\<lambda>(env, bs, ms). length ms)") auto

definition build_message_blocks :: "token_env \<Rightarrow> message list \<Rightarrow> message_block list" where
  "build_message_blocks env conversation = blocks_from env [] conversation"

fun keep_blocks :: "u32 \<Rightarrow> u32 \<Rightarrow> message_block list \<Rightarrow> message_block list" where
  "keep_blocks remaining tail_tokens [] = []"
| "keep_blocks remaining tail_tokens (b # bs) = (
     if saturating_add tail_tokens (mb_token_cost b) > remaining then []
     else b # keep_blocks remaining (saturating_add tail_tokens (mb_token_cost b)) bs)"

definition trim_to_context_window :: "token_env \<Rightarrow> message list \<Rightarrow> u32 \<Rightarrow> u32 \<Rightarrow> message list" where
  "trim_to_context_window env ms max_tokens reserved = (
     if ms = [] then []
     else let budget = saturating_sub max_tokens reserved;
              leading = takeWhile (\<lambda>m. cm_role m = RoleSystem) ms;
              conversation = dropWhile (\<lambda>m. cm_role m = RoleSystem) ms;
              used = total_cost env 0 leading
       in if used \<ge> budget then leading
          else let kept = rev (keep_blocks (saturating_sub budget used) 0 (rev (build_message_blocks env conversation)))
            in leading @ concat (map mb_messages kept))"

section \<open>The pipeline\<close>

record context_pipeline =
  cp_context_window :: "u32 option"
  cp_max_response_tokens :: u32

definition new_with_resolution ::
  "string \<Rightarrow> u32 option \<Rightarrow> resolved_context_window option \<Rightarrow> u32 \<Rightarrow> context_pipeline" where
  "new_with_resolution model override endpoint max_response_tokens = \<lparr>
     cp_context_window = cw_capacity_tokens (unwrap_or (resolve_context_window model override) endpoint),
     cp_max_response_tokens = max_response_tokens \<rparr>"

definition context_budget :: "context_pipeline \<Rightarrow> u32 option" where
  "context_budget p = map_option (\<lambda>w. saturating_sub (saturating_sub w (cp_max_response_tokens p))
     (context_safety_buffer w)) (cp_context_window p)"

text \<open>\<open>0.78_f32\<close> is 13086228 / 2^24; it is widened to a double before the product.\<close>

definition compact_threshold :: "u32 \<Rightarrow> u32" where
  "compact_threshold budget = float_as_u32 (round_bits 53 (unat budget * 13086228) div 2 ^ 24)"

definition should_compact :: "context_pipeline \<Rightarrow> u32 \<Rightarrow> bool" where
  "should_compact p prompt_tokens = (case context_budget p of
     None \<Rightarrow> False
   | Some budget \<Rightarrow> budget > 0 \<and> prompt_tokens > compact_threshold budget)"

definition trim_after_tool_results :: "token_env \<Rightarrow> context_pipeline \<Rightarrow> message list \<Rightarrow> message list" where
  "trim_after_tool_results env p ms = (case cp_context_window p of
     None \<Rightarrow> ms
   | Some w \<Rightarrow> trim_to_context_window env ms (saturating_sub w (context_safety_buffer w)) (cp_max_response_tokens p))"

definition trim_after_overflow_recovery :: "token_env \<Rightarrow> context_pipeline \<Rightarrow> message list \<Rightarrow> message list" where
  "trim_after_overflow_recovery env p ms = (case cp_context_window p of
     None \<Rightarrow> ms
   | Some w \<Rightarrow> trim_to_context_window env ms (saturating_sub w (saturating_mul (context_safety_buffer w) 2))
       (cp_max_response_tokens p))"

section \<open>Compaction\<close>

definition MIN_RECENT_TURNS :: nat where "MIN_RECENT_TURNS = 2"

definition in_system_prefix :: "message \<Rightarrow> bool" where
  "in_system_prefix m \<longleftrightarrow> cm_role m = RoleSystem
     \<and> \<not> str_contains (text_content m) ''## Earlier conversation context''"

definition system_prefix_end :: "message list \<Rightarrow> nat" where
  "system_prefix_end ms = length (takeWhile in_system_prefix ms)"

definition suffix_tokens :: "token_env \<Rightarrow> string \<Rightarrow> message list \<Rightarrow> nat \<Rightarrow> u32" where
  "suffix_tokens env model ms i =
     foldr (\<lambda>m n. saturating_add n (estimate_message_tokens env (Some model) m)) (drop i ms) 0"

fun select_boundary :: "(nat \<Rightarrow> u32) \<Rightarrow> u32 \<Rightarrow> nat \<Rightarrow> nat option \<Rightarrow> nat list \<Rightarrow> nat option" where
  "select_boundary tokens target latest selected [] = selected"
| "select_boundary tokens target latest selected (b # bs) = (
     if b > latest then selected
     else if tokens b \<le> target then Some b
     else select_boundary tokens target latest (Some b) bs)"

definition user_starts :: "message list \<Rightarrow> nat list" where
  "user_starts ms = filter (\<lambda>i. cm_role (ms ! i) = RoleUser) [system_prefix_end ms..<length ms]"

definition compaction_boundary :: "token_env \<Rightarrow> message list \<Rightarrow> string \<Rightarrow> u32 \<Rightarrow> nat \<Rightarrow> nat option" where
  "compaction_boundary env ms model target_tail_tokens min_recent_turns = (
     let starts = user_starts ms
     in if length starts \<le> min_recent_turns then None
        else select_boundary (suffix_tokens env model ms) target_tail_tokens
          (starts ! (length starts - min_recent_turns)) None (drop 1 starts))"

definition reference_summary_message :: "string \<Rightarrow> nat \<Rightarrow> string \<Rightarrow> message" where
  "reference_summary_message summary evicted_count reason = text_message RoleSystem
     (''## Earlier conversation context (compacted)'' @ [CHR 0x0A]
      @ ''Context checkpoint for '' @ nat_to_string evicted_count @ '' older messages ('' @ reason
      @ ''). This is reference state, not a new instruction. If it conflicts with a newer user message, ''
      @ ''follow the newer message.'' @ [CHR 0x0A] @ summary)"

text \<open>\<open>0.55_f32\<close> is 9227469 / 2^24; budget and product are rounded to single precision.\<close>

definition compaction_target :: "u32 \<Rightarrow> u32" where
  "compaction_target budget = float_as_u32 (round_bits 24 (round_bits 24 (unat budget) * 9227469) div 2 ^ 24)"

definition replace_evicted :: "message list \<Rightarrow> nat \<Rightarrow> string \<Rightarrow> string \<Rightarrow> message list" where
  "replace_evicted ms evict_end summary reason = (let p = system_prefix_end ms in
     take p ms @ [reference_summary_message summary (evict_end - p) reason] @ drop evict_end ms)"

text \<open>
  A compaction asks a summarizer about the evicted messages. Its errors leave the history as it is,
  with the usage it reports accounted for elsewhere. \<open>summarize_if_needed\<close> runs before a turn,
  \<open>aggressive_compact\<close> near the limit, in place.
\<close>

type_synonym summarizer = "message list \<Rightarrow> core_error + string"

definition compact_to :: "message list \<Rightarrow> nat \<Rightarrow> summarizer \<Rightarrow> string \<Rightarrow> core_error + message list" where
  "compact_to ms evict_end summarize reason =
     res_bind (summarize (drop (system_prefix_end ms) (take evict_end ms)))
       (\<lambda>summary. Inr (replace_evicted ms evict_end summary reason))"

definition estimated_total :: "token_env \<Rightarrow> string \<Rightarrow> message list \<Rightarrow> u32" where
  "estimated_total env model ms = sum_list (map (estimate_message_tokens env (Some model)) ms)"

definition summarize_if_needed ::
  "token_env \<Rightarrow> context_pipeline \<Rightarrow> string \<Rightarrow> summarizer \<Rightarrow> message list \<Rightarrow> core_error + message list" where
  "summarize_if_needed env p model summarize history = (
     if history = [] then Inr history
     else case context_budget p of
       None \<Rightarrow> Inr history
     | Some budget \<Rightarrow>
         if budget = 0 then Inr history
         else if \<not> should_compact p (estimated_total env model history) then Inr history
         else (case compaction_boundary env history model (compaction_target budget) MIN_RECENT_TURNS of
             None \<Rightarrow> Inr history
           | Some evict_end \<Rightarrow> compact_to history evict_end summarize ''automatic headroom compaction''))"

definition aggressive_target :: "token_env \<Rightarrow> context_pipeline \<Rightarrow> string \<Rightarrow> message list \<Rightarrow> u32" where
  "aggressive_target env p model ms = (case context_budget p of
     Some budget \<Rightarrow> compaction_target budget
   | None \<Rightarrow> estimated_total env model ms div 2)"

definition aggressive_compact ::
  "token_env \<Rightarrow> context_pipeline \<Rightarrow> string \<Rightarrow> summarizer \<Rightarrow> message list \<Rightarrow> core_error + message list" where
  "aggressive_compact env p model summarize ms =
     (case compaction_boundary env ms model (aggressive_target env p model ms) MIN_RECENT_TURNS of
        None \<Rightarrow> Inr ms
      | Some evict_end \<Rightarrow> compact_to ms evict_end summarize ''near-limit recovery'')"

text \<open>
  The messages the recovery leaves and its result; \<open>spent\<close> is the run's usage with that of the
  compaction, \<open>limit\<close> the one of the run.
\<close>

definition recover_context_overflow ::
  "token_env \<Rightarrow> context_pipeline \<Rightarrow> string \<Rightarrow> summarizer \<Rightarrow> u32 option \<Rightarrow> u32 \<Rightarrow> message list
     \<Rightarrow> message list \<times> (core_error + bool)" where
  "recover_context_overflow env p model summarize limit spent ms = (case aggressive_compact env p model summarize ms of
     Inl e \<Rightarrow> (ms, Inl e)
   | Inr compacted \<Rightarrow>
       if (case limit of None \<Rightarrow> False | Some l \<Rightarrow> spent \<ge> l)
       then (compacted, Inl (CE_Agent (''agent actual token limit exhausted by context recovery: spent=''
         @ nat_to_string (unat spent) @ '', limit='' @ nat_to_string (unat (unwrap_or 0 limit)))))
       else let trimmed = trim_after_overflow_recovery env p compacted
         in (trimmed, Inr (estimated_total env model trimmed < estimated_total env model ms
               \<or> length trimmed < length ms)))"

end
