(* ===== verification/Prompt_Compile.thy ===== *)
theory Prompt_Compile
  imports Context_Window
begin

text \<open>
  From the parts of a prompt to the messages of a request: the prompt model of
  \<open>crates/core/src/agent/prompt_ir.rs\<close>, and the assembly, the budgets and the accounting of
  \<open>crates/core/src/agent/context.rs\<close>.

  The sections on skills are texts built elsewhere: they are functions of their budget. The date is
  an argument, and so is the printing of JSON.
\<close>

section \<open>Prompt blocks\<close>

datatype prompt_layer = PolicyLayer | DeveloperLayer | RuntimeLayer | EvidenceLayer | TranscriptLayer | ControllerStateLayer

record prompt_block =
  pb_layer :: prompt_layer
  pb_content :: string
  pb_stability :: prompt_stability
  pb_cache_boundary_hint :: "cache_boundary_hint option"

definition cache_semantics_for_layer :: "prompt_layer \<Rightarrow> prompt_stability \<times> cache_boundary_hint option" where
  "cache_semantics_for_layer layer = (case layer of
     PolicyLayer \<Rightarrow> (Stable, Some PolicyEnd)
   | DeveloperLayer \<Rightarrow> (Stable, Some PolicyEnd)
   | EvidenceLayer \<Rightarrow> (Replayable, Some StableEvidenceEnd)
   | RuntimeLayer \<Rightarrow> (Replayable, Some ReplayableTurnTail)
   | TranscriptLayer \<Rightarrow> (Replayable, Some ReplayableTurnTail)
   | ControllerStateLayer \<Rightarrow> (Volatile, Some ReplayableTurnTail))"

definition prompt_block_new :: "prompt_layer \<Rightarrow> string \<Rightarrow> prompt_block option" where
  "prompt_block_new layer content = (
     if trim content = [] then None
     else case cache_semantics_for_layer layer of (stability, hint) \<Rightarrow>
       Some \<lparr> pb_layer = layer, pb_content = content, pb_stability = stability, pb_cache_boundary_hint = hint \<rparr>)"

definition with_cache_semantics :: "prompt_stability \<Rightarrow> cache_boundary_hint option \<Rightarrow> prompt_block \<Rightarrow> prompt_block" where
  "with_cache_semantics stability hint b = b \<lparr> pb_stability := stability, pb_cache_boundary_hint := hint \<rparr>"

abbreviation newline :: string where "newline \<equiv> [CHR 0x0A]"

definition joined_blocks :: "prompt_block list \<Rightarrow> string option" where
  "joined_blocks blocks = (
     let parts = filter (\<lambda>t. t \<noteq> []) (map (\<lambda>b. trim (pb_content b)) blocks)
     in if parts = [] then None else Some (join_with (newline @ newline) parts))"

definition message_from_blocks :: "role \<Rightarrow> prompt_block list \<Rightarrow> message option" where
  "message_from_blocks r blocks0 = (
     let blocks = filter (\<lambda>b. nonblank (pb_content b)) blocks0
     in map_option (\<lambda>content.
          let semantics = find_map (\<lambda>b. map_option (Pair (pb_stability b)) (pb_cache_boundary_hint b)) (rev blocks)
          in case semantics of
               Some (stability, boundary) \<Rightarrow> with_prompt_cache_hint stability boundary (text_message r content)
             | None \<Rightarrow> text_message r content)
        (joined_blocks blocks))"

definition controller_state_message :: "string \<Rightarrow> message option" where
  "controller_state_message content =
     map_option (with_prompt_lifetime LifetimeStep)
       (Option.bind (prompt_block_new ControllerStateLayer content) (\<lambda>b. message_from_blocks RoleSystem [b]))"

definition evidence_message :: "string \<Rightarrow> message option" where
  "evidence_message content =
     Option.bind (prompt_block_new EvidenceLayer content) (\<lambda>b. message_from_blocks RoleSystem [b])"

definition is_step_controller :: "message \<Rightarrow> bool" where
  "is_step_controller m = (case cm_prompt_cache_hint m of
     None \<Rightarrow> False
   | Some hint \<Rightarrow> pch_stability hint = Volatile \<and> pch_lifetime hint = LifetimeStep)"

text \<open>An answer-only sample keeps the newest step directive only.\<close>

fun keep_newest_controller :: "message list \<Rightarrow> message list" where
  "keep_newest_controller [] = []"
| "keep_newest_controller (m # ms) = (
     if is_step_controller m \<and> list_ex is_step_controller ms then keep_newest_controller ms
     else m # keep_newest_controller ms)"

definition messages_for_model_step :: "message list \<Rightarrow> bool \<Rightarrow> message list" where
  "messages_for_model_step ms final_answer_only = (if \<not> final_answer_only then ms else keep_newest_controller ms)"

record agent_prompt =
  ap_policy :: "prompt_block list"
  ap_developer :: "prompt_block list"
  ap_runtime :: "prompt_block list"
  ap_evidence :: "prompt_block list"
  ap_transcript :: "message list"
  ap_current_user :: "message option"
  ap_controller_state :: "prompt_block list"

datatype runtime_placement = AfterPolicy | AtTail

definition opt_list :: "'a option \<Rightarrow> 'a list" where
  "opt_list x = (case x of None \<Rightarrow> [] | Some v \<Rightarrow> [v])"

definition context_messages :: "agent_prompt \<Rightarrow> message list" where
  "context_messages p = concat (map (\<lambda>blocks. opt_list (message_from_blocks RoleSystem blocks))
     [ap_runtime p, ap_evidence p, ap_controller_state p])"

definition compile_to_messages :: "agent_prompt \<Rightarrow> runtime_placement \<Rightarrow> message list" where
  "compile_to_messages p placement =
     opt_list (message_from_blocks RoleSystem (ap_policy p @ ap_developer p))
     @ (if placement = AfterPolicy then context_messages p else [])
     @ ap_transcript p
     @ opt_list (map_option (with_prompt_cache_hint Replayable ReplayableTurnTail) (ap_current_user p))
     @ (if placement = AtTail then context_messages p else [])"

section \<open>Budgets\<close>

definition CHARS_PER_TOKEN_ESTIMATE :: nat where "CHARS_PER_TOKEN_ESTIMATE = 4"
definition SYSTEM_PROMPT_CONTEXT_FRACTION :: nat where "SYSTEM_PROMPT_CONTEXT_FRACTION = 4"
definition MIN_SYSTEM_PROMPT_CHARS :: nat where "MIN_SYSTEM_PROMPT_CHARS = 16000"
definition MAX_SYSTEM_PROMPT_CHARS :: nat where "MAX_SYSTEM_PROMPT_CHARS = 256000"
definition MIN_SKILL_PROMPT_CHARS :: nat where "MIN_SKILL_PROMPT_CHARS = 8000"
definition MAX_SKILL_PROMPT_CHARS :: nat where "MAX_SKILL_PROMPT_CHARS = 64000"

definition system_prompt_char_budget :: "u32 \<Rightarrow> u32 \<Rightarrow> nat" where
  "system_prompt_char_budget effective_context reserved = (
     let available_tokens = unat (saturating_sub effective_context reserved)
     in if available_tokens = 0
        then min MIN_SYSTEM_PROMPT_CHARS (unat effective_context * CHARS_PER_TOKEN_ESTIMATE)
        else let available_chars = available_tokens * CHARS_PER_TOKEN_ESTIMATE;
                 target = min (max (available_chars div SYSTEM_PROMPT_CONTEXT_FRACTION) MIN_SYSTEM_PROMPT_CHARS)
                   MAX_SYSTEM_PROMPT_CHARS
          in min target available_chars)"

definition skill_prompt_char_budget :: "u32 \<Rightarrow> nat \<Rightarrow> nat" where
  "skill_prompt_char_budget context_window system_prompt_budget =
     min (min (max (unat context_window * CHARS_PER_TOKEN_ESTIMATE div 100) MIN_SKILL_PROMPT_CHARS) MAX_SKILL_PROMPT_CHARS)
       (system_prompt_budget div 2)"

definition stable_system_prompt_char_budget :: "nat \<Rightarrow> nat \<Rightarrow> nat" where
  "stable_system_prompt_char_budget system_prompt_budget skill_budget = system_prompt_budget - skill_budget"

text \<open>The longest prefix of whole characters within a number of bytes.\<close>

fun take_bytes :: "nat \<Rightarrow> string \<Rightarrow> string" where
  "take_bytes n [] = []"
| "take_bytes n (c # cs) = (if utf8_len c \<le> n then c # take_bytes (n - utf8_len c) cs else [])"

text \<open>What precedes the last occurrence of a character.\<close>

definition before_last :: "char \<Rightarrow> string \<Rightarrow> string option" where
  "before_last c s = (if c \<in> set s then Some (rev (tl (dropWhile (\<lambda>x. x \<noteq> c) (rev s)))) else None)"

definition cap_text_to_chars :: "string \<Rightarrow> nat \<Rightarrow> string \<Rightarrow> string" where
  "cap_text_to_chars text max_chars marker = (
     if str_len text \<le> max_chars then text
     else if max_chars = 0 then []
     else let content_limit = max_chars - min (str_len marker) max_chars
       in if content_limit = 0 then take max_chars marker
          else let truncated = take_bytes content_limit text
            in unwrap_or truncated (opt_or (before_last (CHR 0x0A) truncated) (before_last (CHR '' '') truncated))
               @ marker)"

definition truncated_marker :: string where "truncated_marker = newline @ ''...[truncated]''"

definition truncate_text :: "string \<Rightarrow> nat \<Rightarrow> string" where
  "truncate_text text max_chars = (
     let clean = trim (map (\<lambda>c. if c = CHR 0x0A then CHR '' '' else c) text)
     in if str_len clean \<le> max_chars then clean
        else let truncated = take_bytes max_chars clean
          in unwrap_or truncated (before_last (CHR '' '') truncated) @ ''...'')"

section \<open>The recap of evicted messages\<close>

definition MAX_RECAP_CHARS :: nat where "MAX_RECAP_CHARS = 800"

definition recap_line :: "message \<Rightarrow> string option" where
  "recap_line m = (case cm_role m of
     RoleUser \<Rightarrow>
       let text = text_content m in
       if trim text = [] then (if has_images m then Some ''- User asked: [image]'' else None)
       else Some (''- User asked: '' @ (if has_images m then ''[image] '' else []) @ truncate_text text 100)
   | RoleAssistant \<Rightarrow>
       if calls_of m \<noteq> [] then None
       else let text = text_content m in
         if trim text = [] then None else Some (''- You answered: '' @ truncate_text text 80)
   | _ \<Rightarrow> None)"

fun recap_lines :: "nat \<Rightarrow> message list \<Rightarrow> string list" where
  "recap_lines used [] = []"
| "recap_lines used (m # ms) = (
     if used \<ge> MAX_RECAP_CHARS then []
     else case recap_line m of
       None \<Rightarrow> recap_lines used ms
     | Some line \<Rightarrow> line # recap_lines (used + str_len line) ms)"

definition build_evicted_recap :: "message list \<Rightarrow> string" where
  "build_evicted_recap evicted = (
     let parts = recap_lines 0 evicted
     in if parts = [] then []
        else ''## Earlier conversation context (summarized)'' @ newline
          @ ''These topics were discussed earlier but trimmed for context space:'' @ newline
          @ join_with newline parts)"

section \<open>Preparing the messages of a request\<close>

record tool_definition =
  td_name :: string
  td_description :: string
  td_parameters :: json

record prompt_env = token_env +
  pe_json_text :: "json \<Rightarrow> string"
  pe_serde :: serde_env
  pe_today :: string

definition estimate_tool_definition_tokens :: "prompt_env \<Rightarrow> string \<Rightarrow> tool_definition \<Rightarrow> u32" where
  "estimate_tool_definition_tokens env model tool =
     estimate_text_tokens (token_env.truncate env) (Some model)
       (td_name tool @ '' '' @ td_description tool @ '' '' @ pe_json_text env (td_parameters tool)) + 10"

definition estimate_tool_tokens_for_model :: "prompt_env \<Rightarrow> string \<Rightarrow> tool_definition list \<Rightarrow> u32" where
  "estimate_tool_tokens_for_model env model tools =
     sum_list (map (estimate_tool_definition_tokens env model) tools)"

definition combine_prompt_sections :: "string \<Rightarrow> string \<Rightarrow> string" where
  "combine_prompt_sections first second = (
     if first = [] \<and> second = [] then [] else if second = [] then first
     else if first = [] then second else first @ second)"

definition combine_prompt_section_parts :: "string list \<Rightarrow> string" where
  "combine_prompt_section_parts sections =
     join_with (newline @ newline) (filter (\<lambda>s. s \<noteq> []) (map trim sections))"

record prepare_options =
  po_include_skill_system_prompt :: bool
  po_volatile_system_sections :: "string list"
  po_evidence_sections :: "string list"
  po_controller_state_sections :: "string list"
  po_append_volatile_to_tail :: bool
  po_endpoint_context_resolution :: "resolved_context_window option"

definition default_prepare_options :: prepare_options where
  "default_prepare_options = \<lparr> po_include_skill_system_prompt = True, po_volatile_system_sections = [],
     po_evidence_sections = [], po_controller_state_sections = [], po_append_volatile_to_tail = False,
     po_endpoint_context_resolution = None \<rparr>"

record skill_sections =
  ss_loaded :: "nat \<Rightarrow> string"
  ss_available :: "string \<Rightarrow> nat \<Rightarrow> string"

record prompt_budgets =
  bu_effective_context :: u32
  bu_system_prompt :: nat
  bu_skill_index :: nat

definition prompt_budgets_for :: "u32 \<Rightarrow> u32 \<Rightarrow> u32 \<Rightarrow> prompt_budgets" where
  "prompt_budgets_for max_context tool_overhead max_tokens_response = (
     let effective = saturating_sub (saturating_sub max_context tool_overhead) (context_safety_buffer max_context);
         system_budget = system_prompt_char_budget effective max_tokens_response
     in \<lparr> bu_effective_context = effective, bu_system_prompt = system_budget,
          bu_skill_index = skill_prompt_char_budget max_context system_budget \<rparr>)"

definition user_message :: "content_part list \<Rightarrow> message" where
  "user_message parts = \<lparr> cm_role = RoleUser, cm_parts = parts, cm_name = None, cm_tool_calls = None,
     cm_reasoning_content = None, cm_prompt_cache_hint = None \<rparr>"

text \<open>The prompt before trimming; \<open>history\<close> has been repaired.\<close>

definition assemble_prompt ::
  "prompt_env \<Rightarrow> string \<Rightarrow> message list \<Rightarrow> content_part list \<Rightarrow> skill_sections \<Rightarrow> prepare_options
     \<Rightarrow> prompt_budgets \<Rightarrow> agent_prompt" where
  "assemble_prompt env system_prompt history user_parts skills options budgets = (
     let user_query = join_with '' '' (List.map_filter part_text user_parts);
         floor' = min MIN_SYSTEM_PROMPT_CHARS (bu_system_prompt budgets div 2);
         loaded = (if po_include_skill_system_prompt options
           then ss_loaded skills (bu_system_prompt budgets - floor') else []);
         remaining = min (bu_system_prompt budgets - floor' - str_len loaded) (bu_skill_index budgets);
         available = (if po_include_skill_system_prompt options
           then ss_available skills user_query remaining else []);
         stable = cap_text_to_chars system_prompt
           (stable_system_prompt_char_budget (bu_system_prompt budgets) (str_len available + str_len loaded))
           truncated_marker;
         runtime_section = ''## Runtime Context'' @ newline @ ''Current date: '' @ pe_today env @ '' (UTC)'';
         volatile = combine_prompt_section_parts ([runtime_section] @ po_volatile_system_sections options
           @ [combine_prompt_sections available loaded])
     in \<lparr> ap_policy = opt_list (prompt_block_new PolicyLayer stable), ap_developer = [],
          ap_runtime = opt_list (prompt_block_new RuntimeLayer volatile),
          ap_evidence = List.map_filter (prompt_block_new EvidenceLayer) (po_evidence_sections options),
          ap_transcript = history, ap_current_user = Some (user_message user_parts),
          ap_controller_state = List.map_filter (prompt_block_new ControllerStateLayer)
            (po_controller_state_sections options) \<rparr>)"

fun map_first_text :: "(string \<Rightarrow> string) \<Rightarrow> content_part list \<Rightarrow> content_part list" where
  "map_first_text f (PartText t # ps) = PartText (f t) # ps"
| "map_first_text f ps = ps"

definition not_system :: "message \<Rightarrow> bool" where "not_system m \<longleftrightarrow> cm_role m \<noteq> RoleSystem"

text \<open>When messages were dropped, the last system message gets a recap of them.\<close>

definition add_recap :: "nat \<Rightarrow> message list \<Rightarrow> message list \<Rightarrow> message list" where
  "add_recap system_prompt_budget ms trimmed = (
     let evicted_count = length (filter not_system ms) - length (filter not_system trimmed);
         recap = build_evicted_recap (take evicted_count (filter not_system ms))
     in if evicted_count = 0 \<or> recap = [] then trimmed
        else rev (update_first (\<lambda>m. cm_role m = RoleSystem)
          (\<lambda>m. m \<lparr> cm_parts := map_first_text (\<lambda>t. cap_text_to_chars (t @ newline @ newline @ recap)
             system_prompt_budget truncated_marker) (cm_parts m) \<rparr>) (rev trimmed)))"

definition prepare_messages_with_options ::
  "prompt_env \<Rightarrow> string \<Rightarrow> message list \<Rightarrow> content_part list \<Rightarrow> string \<Rightarrow> u32 \<Rightarrow> u32 option
     \<Rightarrow> skill_sections \<Rightarrow> tool_definition list \<Rightarrow> prepare_options \<Rightarrow> message list" where
  "prepare_messages_with_options env system_prompt history user_parts model max_tokens_response override
     skills tools options = (
     let repaired = rr_messages (repair_persisted_message_history (pe_serde env) history None);
         resolved = unwrap_or (resolve_context_window model override) (po_endpoint_context_resolution options);
         budgets = prompt_budgets_for (unwrap_or 128000 (cw_capacity_tokens resolved))
           (estimate_tool_tokens_for_model env model tools) max_tokens_response;
         prompt = assemble_prompt env system_prompt repaired user_parts skills options budgets;
         ms = compile_to_messages prompt (if po_append_volatile_to_tail options then AtTail else AfterPolicy);
         trimmed = (if cw_capacity_tokens resolved \<noteq> None
           then trim_to_context_window (token_env.truncate env) ms (bu_effective_context budgets) max_tokens_response
           else ms)
     in add_recap (bu_system_prompt budgets) ms trimmed)"

definition prepare_messages ::
  "prompt_env \<Rightarrow> string \<Rightarrow> message list \<Rightarrow> content_part list \<Rightarrow> string \<Rightarrow> u32 \<Rightarrow> u32 option
     \<Rightarrow> skill_sections \<Rightarrow> tool_definition list \<Rightarrow> message list" where
  "prepare_messages env system_prompt history user_parts model max_tokens_response override skills tools =
     prepare_messages_with_options env system_prompt history user_parts model max_tokens_response override
       skills tools default_prepare_options"

end
