(* ===== verification/Replay_Safety.thy ===== *)
theory Replay_Safety
  imports Message_History
begin

text \<open>
  Which histories a provider accepts, as a specification by rounds, and that the checks of the
  boundary, the repair of persisted histories and the projection of native state meet it.
\<close>

section \<open>Histories a provider accepts\<close>

text \<open>
  The specification: every assistant message says something or calls tools, a message with calls is
  followed at once by exactly one visible result for each call, and there is no other tool message.
\<close>

function replay_safe :: "serde_env \<Rightarrow> message list \<Rightarrow> bool" where
  "replay_safe serde [] = True"
| "replay_safe serde (m # ms) = (
     if cm_role m = RoleTool then False
     else if cm_role m \<noteq> RoleAssistant then replay_safe serde ms
     else if calls_of m = [] then has_visible_content m \<and> replay_safe serde ms
     else unit_is_complete serde (calls_of m) (takeWhile is_tool ms) \<and> replay_safe serde (dropWhile is_tool ms))"
  by pat_completeness auto
termination
  by (relation "measure (\<lambda>(serde, ms). length ms)") (auto simp: le_imp_less_Suc length_dropWhile_le)

text \<open>The checks on calls and results alone, with the ids that wait for a result.\<close>

fun calls_answered :: "string list \<Rightarrow> message list \<Rightarrow> bool" where
  "calls_answered pending [] = (pending = [])"
| "calls_answered pending (m # ms) = (case cm_role m of
     RoleTool \<Rightarrow> tool_result_id m \<noteq> [] \<and> tool_result_id m \<in> set pending \<and> has_visible_content m
       \<and> calls_answered (removeAll (tool_result_id m) pending) ms
   | RoleAssistant \<Rightarrow> pending = [] \<and> distinct (map tc_id (calls_of m)) \<and> calls_answered (map tc_id (calls_of m)) ms
   | _ \<Rightarrow> pending = [] \<and> calls_answered [] ms)"

lemma add_pending_ok:
  "add_pending ctx m cs pending = Inr pending' \<longleftrightarrow> distinct (map tc_id cs)
     \<and> set (map tc_id cs) \<inter> set pending = {} \<and> pending' = rev (map tc_id cs) @ pending"
  by (induction cs arbitrary: pending) auto

lemma take_result_ok:
  "take_result ctx m pending resolved = Inr (pending', resolved') \<longleftrightarrow>
     tool_result_id m \<noteq> [] \<and> tool_result_id m \<notin> set resolved \<and> tool_result_id m \<in> set pending
     \<and> has_visible_content m \<and> pending' = removeAll (tool_result_id m) pending
     \<and> resolved' = tool_result_id m # resolved"
  by (auto simp: take_result_def Let_def)

lemma calls_answered_set: "set p = set q \<Longrightarrow> calls_answered p ms = calls_answered q ms"
proof (induction ms arbitrary: p q)
  case (Cons m ms)
  have "calls_answered (removeAll i p) ms = calls_answered (removeAll i q) ms" for i
    by (rule Cons.IH) (simp add: Cons.prems)
  moreover have "p = [] \<longleftrightarrow> q = []" using Cons.prems by (metis set_empty)
  ultimately show ?case using Cons.prems by (cases "cm_role m") simp_all
qed auto

lemma validate_calls_from_ok:
  "\<lbrakk> set pending \<inter> set resolved = {}; last_message \<noteq> None \<or> pending = [] \<rbrakk>
     \<Longrightarrow> validate_calls_from ctx last_message i pending resolved ms = Inr () \<longleftrightarrow> calls_answered pending ms"
proof (induction ms arbitrary: last_message i pending resolved)
  case Nil
  then show ?case by (auto split: option.splits)
next
  case (Cons m ms)
  show ?case
  proof (cases "cm_role m")
    case RoleTool
    have step: "validate_calls_from ctx (Some m) (i + 1) (removeAll (tool_result_id m) pending)
        (tool_result_id m # resolved) ms = Inr () \<longleftrightarrow> calls_answered (removeAll (tool_result_id m) pending) ms"
      using Cons.prems by (intro Cons.IH) auto
    show ?thesis using RoleTool Cons.prems step
      by (auto simp: Let_def res_bind_ok_iff take_result_ok)
  next
    case RoleAssistant
    have step: "validate_calls_from ctx (Some m) (i + 1) (rev (map tc_id (calls_of m))) [] ms = Inr ()
        \<longleftrightarrow> calls_answered (map tc_id (calls_of m)) ms"
      by (subst Cons.IH) (simp_all add: calls_answered_set [of "rev _" "map tc_id (calls_of m)"])
    show ?thesis using RoleAssistant step by (auto simp: Let_def res_bind_ok_iff add_pending_ok)
  next
    case RoleSystem
    then show ?thesis using Cons.IH [of "[]" "[]"] by (auto simp: Let_def)
  next
    case RoleUser
    then show ?thesis using Cons.IH [of "[]" "[]"] by (auto simp: Let_def)
  qed
qed


section \<open>The boundary decides the specification\<close>

definition assistant_ok :: "serde_env \<Rightarrow> message \<Rightarrow> bool" where
  "assistant_ok serde m \<longleftrightarrow> is_assistant m \<longrightarrow> list_all (is_complete_tool_call serde) (calls_of m)
     \<and> (has_visible_content m \<or> calls_of m \<noteq> [])"

definition drop_empty_calls :: "message \<Rightarrow> message" where
  "drop_empty_calls m = (if is_assistant m
     then m \<lparr> cm_tool_calls := (if calls_of m = [] then None else Some (calls_of m)) \<rparr> else m)"

lemma calls_of_update [simp]:
  "calls_of (m \<lparr> cm_tool_calls := c \<rparr>) = unwrap_or [] c"
  "calls_of (m \<lparr> cm_reasoning_content := x \<rparr>) = calls_of m"
  by (simp_all add: calls_of_def)

lemma visible_update [simp]:
  "has_visible_content (m \<lparr> cm_tool_calls := c \<rparr>) = has_visible_content m"
  "has_visible_content (m \<lparr> cm_reasoning_content := x \<rparr>) = has_visible_content m"
  by (simp_all add: has_visible_content_def)

lemma result_id_update [simp]:
  "tool_result_id (m \<lparr> cm_tool_calls := c \<rparr>) = tool_result_id m"
  "tool_result_id (m \<lparr> cm_reasoning_content := x \<rparr>) = tool_result_id m"
  by (simp_all add: tool_result_id_def)

lemma is_assistant_update [simp]:
  "is_assistant (m \<lparr> cm_tool_calls := c \<rparr>) = is_assistant m"
  "is_assistant (m \<lparr> cm_reasoning_content := x \<rparr>) = is_assistant m"
  by (simp_all add: is_assistant_def)

lemma drop_empty_calls_simps [simp]:
  "cm_role (drop_empty_calls m) = cm_role m" "calls_of (drop_empty_calls m) = calls_of m"
  "has_visible_content (drop_empty_calls m) = has_visible_content m"
  "tool_result_id (drop_empty_calls m) = tool_result_id m"
  by (simp_all add: drop_empty_calls_def)

lemma filter_all: "length (filter (\<lambda>x. \<not> P x) xs) = 0 \<longleftrightarrow> list_all P xs"
  by (auto simp: filter_empty_conv list_all_iff)

lemma normalize_assistant_reject:
  assumes "nc_invalid_assistant ctx = RejectInvalid"
  shows "normalize_assistant_message serde ctx m = Inr r \<longleftrightarrow> assistant_ok serde m \<and> r = Some (drop_empty_calls m)"
proof -
  have all: "list_all (is_complete_tool_call serde) (calls_of m) \<Longrightarrow> filter (is_complete_tool_call serde) (calls_of m) = calls_of m"
    by (simp add: list_all_iff)
  show ?thesis
    using assms all filter_all [of "is_complete_tool_call serde" "calls_of m"]
    by (auto simp: normalize_assistant_message_def Let_def assistant_ok_def drop_empty_calls_def is_assistant_def)
qed

lemma normalize_from_reject:
  assumes "nc_invalid_assistant ctx = RejectInvalid"
  shows "normalize_from serde ctx i ms = Inr report \<longleftrightarrow> list_all (assistant_ok serde) ms
    \<and> report = \<lparr> vr_messages = map drop_empty_calls ms, vr_dropped = [] \<rparr>"
  using assms
  by (induction ms arbitrary: i report)
    (auto simp: Let_def res_bind_ok_iff normalize_assistant_reject)

lemma calls_answered_cong:
  assumes "\<And>m. cm_role (f m) = cm_role m" "\<And>m. calls_of (f m) = calls_of m"
    "\<And>m. has_visible_content (f m) = has_visible_content m" "\<And>m. tool_result_id (f m) = tool_result_id m"
  shows "calls_answered pending (map f ms) = calls_answered pending ms"
proof (induction ms arbitrary: pending)
  case (Cons m ms)
  then show ?case by (cases "cm_role m") (simp_all add: assms)
qed simp

lemma as_llm_error_ok [simp]: "as_llm_error r = Inr x \<longleftrightarrow> r = Inr x"
  by (simp add: as_llm_error_def split: sum.splits)

lemma validate_with_context_iff:
  "validate_provider_request_with_context serde ms provider model c t = Inr () \<longleftrightarrow>
     list_all (assistant_ok serde) ms \<and> calls_answered [] ms"
  by (auto simp: validate_provider_request_with_context_def provider_boundary_context_def Let_def res_bind_ok_iff
      validate_message_sequence_def normalize_from_reject validate_tool_call_sequence_def
      validate_calls_from_ok calls_answered_cong)

text \<open>The results of one round, and what follows them.\<close>

definition results_complete :: "string list \<Rightarrow> message list \<Rightarrow> bool" where
  "results_complete pending results \<longleftrightarrow>
     list_all (\<lambda>r. tool_result_id r \<noteq> [] \<and> has_visible_content r \<and> tool_result_id r \<in> set pending) results
     \<and> distinct (map tool_result_id results) \<and> set pending = set (map tool_result_id results)"

lemma unit_is_complete_alt:
  "unit_is_complete serde calls results \<longleftrightarrow> list_all (is_complete_tool_call serde) calls
     \<and> distinct (map tc_id calls) \<and> results_complete (map tc_id calls) results"
proof -
  have "length results = length calls"
    if "distinct (map tc_id calls)" "distinct (map tool_result_id results)"
      "set (map tc_id calls) = set (map tool_result_id results)"
    using that by (metis distinct_card length_map)
  then show ?thesis unfolding unit_is_complete_def results_complete_def by blast
qed

lemma results_complete_Cons:
  "results_complete pending (m # rs) \<longleftrightarrow> tool_result_id m \<noteq> [] \<and> tool_result_id m \<in> set pending
     \<and> has_visible_content m \<and> results_complete (removeAll (tool_result_id m) pending) rs"
  by (auto simp: results_complete_def list_all_iff image_iff)

lemma results_complete_Nil [simp]: "results_complete pending [] \<longleftrightarrow> pending = []"
  by (simp add: results_complete_def)

lemma calls_answered_round:
  "calls_answered pending ms \<longleftrightarrow>
     results_complete pending (takeWhile is_tool ms) \<and> calls_answered [] (dropWhile is_tool ms)"
proof (induction ms arbitrary: pending)
  case (Cons m ms)
  show ?case
  proof (cases "cm_role m = RoleTool")
    case True
    then show ?thesis by (simp add: Cons.IH results_complete_Cons)
  next
    case False
    then show ?thesis by (cases "cm_role m") auto
  qed
qed simp

lemma tools_assistant_ok: "list_all (assistant_ok serde) (takeWhile is_tool ms)"
  by (auto simp: list_all_iff assistant_ok_def is_assistant_def dest: set_takeWhileD)

lemma assistants_split:
  "list_all (assistant_ok serde) ms = list_all (assistant_ok serde) (dropWhile is_tool ms)"
  using tools_assistant_ok [of serde ms] by (metis list_all_append takeWhile_dropWhile_id)

lemma replay_safe_iff:
  "replay_safe serde ms \<longleftrightarrow> list_all (assistant_ok serde) ms \<and> calls_answered [] ms"
proof (induction serde ms rule: replay_safe.induct)
  case (2 serde m ms)
  show ?case
  proof (cases "cm_role m")
    case RoleAssistant
    show ?thesis
    proof (cases "calls_of m = []")
      case True
      with RoleAssistant 2(2) show ?thesis by (auto simp: assistant_ok_def is_assistant_def)
    next
      case False
      have "calls_answered [] (m # ms) \<longleftrightarrow> distinct (map tc_id (calls_of m))
          \<and> results_complete (map tc_id (calls_of m)) (takeWhile is_tool ms) \<and> calls_answered [] (dropWhile is_tool ms)"
        using RoleAssistant calls_answered_round [of "map tc_id (calls_of m)" ms] by simp
      moreover have "list_all (assistant_ok serde) (m # ms) \<longleftrightarrow> list_all (is_complete_tool_call serde) (calls_of m)
          \<and> list_all (assistant_ok serde) (dropWhile is_tool ms)"
        using RoleAssistant False assistants_split [of serde ms] by (auto simp: assistant_ok_def is_assistant_def)
      ultimately show ?thesis
        using RoleAssistant False 2(3) by (auto simp: unit_is_complete_alt)
    qed
  qed (use 2 in \<open>auto simp: assistant_ok_def is_assistant_def\<close>)
qed simp

lemma validate_iff_replay_safe:
  "validate_provider_request_with_context serde ms provider model c t = Inr () \<longleftrightarrow> replay_safe serde ms"
  by (simp add: validate_with_context_iff replay_safe_iff)


lemma replay_safe_no_result: "replay_safe serde ms \<Longrightarrow> takeWhile is_tool ms = [] \<and> dropWhile is_tool ms = ms"
  by (cases ms) (auto split: if_splits)

lemma replay_safe_append: "\<lbrakk> replay_safe serde xs; replay_safe serde ys \<rbrakk> \<Longrightarrow> replay_safe serde (xs @ ys)"
proof (induction serde xs rule: replay_safe.induct)
  case (2 serde m ms)
  show ?case
  proof (cases "dropWhile is_tool ms = []")
    case True
    then have tools: "takeWhile is_tool ms = ms" by (metis append_Nil2 takeWhile_dropWhile_id)
    have all: "unit_is_complete serde c (takeWhile is_tool ms) = unit_is_complete serde c ms" for c
      by (simp only: tools)
    from tools have "\<forall>x \<in> set ms. is_tool x" by (metis set_takeWhileD)
    then have "takeWhile is_tool (ms @ ys) = ms @ takeWhile is_tool ys" "dropWhile is_tool (ms @ ys) = dropWhile is_tool ys"
      by (simp_all add: takeWhile_append2 dropWhile_append2)
    with 2 True all replay_safe_no_result [OF 2(5)] show ?thesis by (auto split: if_splits)
  next
    case False
    then obtain x where "x \<in> set ms" "\<not> is_tool x" by (auto simp: dropWhile_eq_Nil_conv)
    then have "takeWhile is_tool (ms @ ys) = takeWhile is_tool ms" "dropWhile is_tool (ms @ ys) = dropWhile is_tool ms @ ys"
      by (auto simp: takeWhile_append1 dropWhile_append1)
    with 2 show ?thesis by (auto split: if_splits)
  qed
qed simp

section \<open>Repair\<close>

definition part_of_transcript :: "message \<Rightarrow> bool" where
  "part_of_transcript m \<longleftrightarrow> \<not> is_tool m \<and> (is_assistant m \<longrightarrow> has_visible_content m)"

text \<open>What the user can read: system and user messages and what the assistant said.\<close>

definition visible_transcript :: "message list \<Rightarrow> (role \<times> string) list" where
  "visible_transcript ms = map (\<lambda>m. (cm_role m, text_content m)) (filter part_of_transcript ms)"

lemma visible_transcript_simps [simp]:
  "visible_transcript [] = []"
  "visible_transcript (m # ms) = (if part_of_transcript m then [(cm_role m, text_content m)] else []) @ visible_transcript ms"
  "visible_transcript (xs @ ys) = visible_transcript xs @ visible_transcript ys"
  by (simp_all add: visible_transcript_def)

lemma visible_transcript_tools: "\<forall>m \<in> set ms. is_tool m \<Longrightarrow> visible_transcript ms = []"
  by (induction ms) (auto simp: part_of_transcript_def)

lemma visible_transcript_dropWhile: "visible_transcript (dropWhile is_tool ms) = visible_transcript ms"
proof -
  have "visible_transcript (takeWhile is_tool ms) = []" by (rule visible_transcript_tools) (auto dest: set_takeWhileD)
  then show ?thesis by (metis append_Nil takeWhile_dropWhile_id visible_transcript_simps(3))
qed

lemma visible_assistant_simps [simp]:
  "cm_role (visible_assistant m) = cm_role m" "calls_of (visible_assistant m) = []"
  "cm_tool_calls (visible_assistant m) = None"
  by (simp_all add: visible_assistant_def clear_provider_turn_def calls_of_def)

lemma visible_without_envelope:
  "list_ex visible_part (filter (\<lambda>p. part_envelope p = None) ps) = list_ex visible_part ps"
proof (induction ps)
  case (Cons p ps)
  then show ?case by (cases p) auto
qed simp

lemma text_without_envelope:
  "List.map_filter part_text (filter (\<lambda>p. part_envelope p = None) ps) = List.map_filter part_text ps"
proof (induction ps)
  case (Cons p ps)
  then show ?case by (cases p) (auto simp: List.map_filter_simps)
qed simp

lemma visible_assistant_content [simp]:
  "has_visible_content (visible_assistant m) = has_visible_content m"
  "text_content (visible_assistant m) = text_content m"
  by (simp_all add: visible_assistant_def clear_provider_turn_def has_visible_content_def text_content_def
      visible_without_envelope text_without_envelope)

lemma report_simps [simp]:
  "rr_messages (report_keep ms r) = ms @ rr_messages r" "rr_messages (report_repair d ms r) = ms @ rr_messages r"
  "rr_repairs (report_keep ms r) = rr_repairs r" "rr_repairs (report_repair d ms r) = d # rr_repairs r"
  by (simp_all add: report_keep_def report_repair_def)

lemma replay_safe_round:
  assumes "calls_of m \<noteq> []" "is_assistant m" "unit_is_complete serde (calls_of m) results"
    "\<forall>x \<in> set results. is_tool x" "replay_safe serde ms"
  shows "replay_safe serde (m # results @ ms)"
proof -
  have "takeWhile is_tool (results @ ms) = results" "dropWhile is_tool (results @ ms) = ms"
    using assms(4) replay_safe_no_result [OF assms(5)] by (simp_all add: takeWhile_append2 dropWhile_append2)
  with assms show ?thesis by (simp add: is_assistant_def)
qed

lemma takeWhile_tools: "\<forall>x \<in> set (takeWhile is_tool ms). is_tool x"
  by (auto dest: set_takeWhileD)

lemma repair_safe: "replay_safe serde (rr_messages (repair_from serde c i ms))"
proof (induction serde c i ms rule: repair_from.induct)
  case (2 serde c i m ms)
  show ?case
  proof (cases "cm_role m = RoleAssistant \<and> calls_of m \<noteq> []")
    case True
    then show ?thesis
      using 2(2) [OF refl refl] True replay_safe_round [of m serde "takeWhile is_tool ms", OF _ _ _ takeWhile_tools]
      by (auto simp: Let_def is_assistant_def)
  next
    case False
    with 2(1) show ?thesis by (auto simp: Let_def)
  qed
qed simp

lemma repair_transcript: "visible_transcript (rr_messages (repair_from serde c i ms)) = visible_transcript ms"
proof (induction serde c i ms rule: repair_from.induct)
  case (2 serde c i m ms)
  show ?case
  proof (cases "cm_role m = RoleAssistant \<and> calls_of m \<noteq> []")
    case True
    have tools: "visible_transcript (takeWhile is_tool ms) = []"
      by (rule visible_transcript_tools) (rule takeWhile_tools)
    from True 2(2) show ?thesis
      by (auto simp: Let_def tools visible_transcript_dropWhile part_of_transcript_def is_assistant_def)
  next
    case False
    with 2(1) show ?thesis
      by (auto simp: Let_def part_of_transcript_def is_assistant_def text_content_def)
  qed
qed simp

lemma drop_empty_calls_id: "calls_of m \<noteq> [] \<Longrightarrow> drop_empty_calls m = m"
  by (cases m) (auto simp: drop_empty_calls_def calls_of_def unwrap_or_def split: option.splits)

lemma drop_empty_calls_other: "\<not> is_assistant m \<Longrightarrow> drop_empty_calls m = m"
  by (simp add: drop_empty_calls_def)

lemma repair_safe_history:
  "replay_safe serde ms \<Longrightarrow> repair_from serde c i ms = \<lparr> rr_messages = map drop_empty_calls ms, rr_repairs = [] \<rparr>"
proof (induction serde c i ms rule: repair_from.induct)
  case (2 serde c i m ms)
  have tools: "map drop_empty_calls (takeWhile is_tool ms) = takeWhile is_tool ms"
    using takeWhile_tools [of ms] by (intro map_idI) (auto simp: drop_empty_calls_other is_assistant_def)
  have split: "map drop_empty_calls ms = takeWhile is_tool ms @ map drop_empty_calls (dropWhile is_tool ms)"
    by (metis map_append takeWhile_dropWhile_id tools)
  show ?case
  proof (cases "cm_role m = RoleAssistant \<and> calls_of m \<noteq> []")
    case True
    with 2(2-3) split show ?thesis
      by (auto simp: Let_def report_keep_def drop_empty_calls_id)
  next
    case False
    with 2(1,3) show ?thesis
      by (auto simp: Let_def report_keep_def drop_empty_calls_def is_assistant_def split: if_splits)
  qed
qed simp

lemma drop_empty_calls_none: "cm_tool_calls m = None \<Longrightarrow> drop_empty_calls m = m"
  by (cases m) (simp add: drop_empty_calls_def calls_of_def)

lemma drop_empty_calls_tools: "map drop_empty_calls (takeWhile is_tool ms) = takeWhile is_tool ms"
  using takeWhile_tools [of ms] by (intro map_idI) (auto simp: drop_empty_calls_other is_assistant_def)

lemma repair_normal:
  "map drop_empty_calls (rr_messages (repair_from serde c i ms)) = rr_messages (repair_from serde c i ms)"
proof (induction serde c i ms rule: repair_from.induct)
  case (2 serde c i m ms)
  show ?case
  proof (cases "cm_role m = RoleAssistant \<and> calls_of m \<noteq> []")
    case True
    with 2(2) [OF refl refl] drop_empty_calls_tools [of ms] show ?thesis
      by (auto simp: Let_def drop_empty_calls_none drop_empty_calls_id)
  next
    case False
    with 2(1) show ?thesis
      by (auto simp: Let_def drop_empty_calls_none drop_empty_calls_other is_assistant_def)
  qed
qed simp

lemma repair_repaired:
  "repair_from serde c' j (rr_messages (repair_from serde c i ms))
     = \<lparr> rr_messages = rr_messages (repair_from serde c i ms), rr_repairs = [] \<rparr>"
  by (simp add: repair_safe_history [OF repair_safe] repair_normal)

section \<open>Chains and their projection\<close>

lemma chain_length_append:
  "\<lbrakk> \<forall>t \<in> set ts. is_tool t; rest = [] \<or> \<not> is_tool (hd rest) \<rbrakk> \<Longrightarrow>
     chain_length (ts @ rest) = length ts + (case rest of [] \<Rightarrow> 0
       | a # rest' \<Rightarrow> if \<not> is_assistant a then 0 else if calls_of a = [] then 1 else 1 + chain_length rest')"
proof -
  assume tools: "\<forall>t \<in> set ts. is_tool t" and rest: "rest = [] \<or> \<not> is_tool (hd rest)"
  then have "takeWhile is_tool (ts @ rest) = ts" "dropWhile is_tool (ts @ rest) = rest"
    by (cases rest; simp add: takeWhile_append2 dropWhile_append2)+
  then show ?thesis by (subst chain_length.simps) (auto simp: Let_def split: list.splits)
qed

lemma calls_answered_chain:
  "calls_answered pending ms \<Longrightarrow>
     calls_answered pending (take (chain_length ms) ms) \<and> calls_answered [] (drop (chain_length ms) ms)"
proof (induction ms arbitrary: pending rule: chain_length.induct)
  case (1 ms)
  define ts rest where "ts = takeWhile is_tool ms" and "rest = dropWhile is_tool ms"
  have ms: "ms = ts @ rest" by (simp add: ts_def rest_def)
  have tools: "\<forall>t \<in> set ts. is_tool t" unfolding ts_def by (rule takeWhile_tools)
  have hd: "rest = [] \<or> \<not> is_tool (hd rest)" using hd_dropWhile unfolding rest_def by blast
  note n = chain_length_append [OF tools hd, folded ms]
  have T: "takeWhile is_tool (ts @ ys) = ts \<and> dropWhile is_tool (ts @ ys) = ys"
    if "ys = [] \<or> \<not> is_tool (hd ys)" for ys
    using tools that by (cases ys) (simp_all add: takeWhile_append2 dropWhile_append2)
  have round: "calls_answered pending (ts @ ys) \<longleftrightarrow> results_complete pending ts \<and> calls_answered [] ys"
    if "ys = [] \<or> \<not> is_tool (hd ys)" for ys
    by (subst calls_answered_round) (simp add: T [OF that])
  from 1(2) round [OF hd] have ok: "results_complete pending ts" "calls_answered [] rest" by (simp_all add: ms)
  show ?case
  proof (cases rest)
    case Nil
    with n ok round [of "[]"] ms show ?thesis by simp
  next
    case (Cons a rest')
    show ?thesis
    proof (cases "is_assistant a")
      case False
      with Cons n ok round [of "[]"] ms show ?thesis by simp
    next
      case assistant: True
      then have role: "cm_role a = RoleAssistant" by (simp add: is_assistant_def)
      show ?thesis
      proof (cases "calls_of a = []")
        case True
        with Cons assistant n ok role round [of "[a]"] ms show ?thesis by simp
      next
        case False
        have "calls_answered (map tc_id (calls_of a)) rest'" using ok(2) Cons role by simp
        from 1(1) [OF refl Cons [unfolded rest_def] _ False this] assistant
        have "calls_answered (map tc_id (calls_of a)) (take (chain_length rest') rest')"
          "calls_answered [] (drop (chain_length rest') rest')" by simp_all
        moreover have "distinct (map tc_id (calls_of a))" using ok(2) Cons role by simp
        ultimately show ?thesis
          using Cons assistant False n ok(1) role round [of "a # take (chain_length rest') rest'"] ms by simp
      qed
    qed
  qed
qed

lemma replay_safe_chain:
  assumes "replay_safe serde (m # ms)" "starts_tool_unit m"
  shows "replay_safe serde (m # take (chain_length ms) ms)" "replay_safe serde (drop (chain_length ms) ms)"
proof -
  have role: "cm_role m = RoleAssistant" using assms(2) by (simp add: starts_tool_unit_def is_assistant_def)
  from assms(1) role have "calls_answered (map tc_id (calls_of m)) ms" "list_all (assistant_ok serde) ms"
    "assistant_ok serde m" "distinct (map tc_id (calls_of m))" by (auto simp: replay_safe_iff)
  with role calls_answered_chain [OF this(1)]
  show "replay_safe serde (m # take (chain_length ms) ms)" "replay_safe serde (drop (chain_length ms) ms)"
    by (auto simp: replay_safe_iff list_all_iff dest: in_set_takeD in_set_dropD)
qed

lemma replay_safe_tail: "\<lbrakk> replay_safe serde (m # ms); \<not> starts_tool_unit m \<rbrakk> \<Longrightarrow> replay_safe serde [m] \<and> replay_safe serde ms"
  by (auto simp: starts_tool_unit_def is_assistant_def split: if_splits)

lemma nonblank_iff: "nonblank s \<longleftrightarrow> (\<exists>c \<in> set s. \<not> is_whitespace c)"
  using is_blank_iff [of s] by (auto simp: is_blank_def)

lemma bounded_visible_nonblank:
  assumes "nonblank s"
  shows "nonblank (bounded_visible_text s)"
proof (cases "length (trim s) \<le> MAX_BOUNDARY_FIELD_CHARS")
  case True
  with assms show ?thesis by (simp add: bounded_visible_text_def trim_idem)
next
  case False
  have "CHR 0xE2 \<in> set ELLIPSIS" "\<not> is_whitespace (CHR 0xE2)" by code_simp+
  with False show ?thesis unfolding nonblank_iff bounded_visible_text_def by auto
qed

lemma conclusion_safe:
  assumes "compact_visible_conclusion ms = Some c"
  shows "replay_safe serde [c]"
proof -
  from assms obtain m where "c = text_message RoleAssistant (bounded_visible_text (text_content m))" "nonblank (text_content m)"
    by (auto simp: compact_visible_conclusion_def dest!: find_SomeD)
  then show ?thesis
    using bounded_visible_nonblank by (simp add: text_message_def calls_of_def has_visible_content_def)
qed

lemma project_units_safe: "replay_safe serde ms \<Longrightarrow> replay_safe serde (rj_messages (project_units invalid ms))"
proof (induction invalid ms rule: project_units.induct)
  case (2 invalid m ms)
  show ?case
  proof (cases "starts_tool_unit m")
    case True
    note chain = replay_safe_chain [OF 2(3) True]
    let ?next = "project_units invalid (drop (chain_length ms) ms)" and ?chain = "m # take (chain_length ms) ms"
    have next': "replay_safe serde (rj_messages ?next)"
      by (rule 2(1) [OF True refl refl chain(2)])
    have kept: "replay_safe serde (?chain @ rj_messages ?next)"
      by (rule replay_safe_append [OF chain(1) next'])
    have omitted: "replay_safe serde ((case compact_visible_conclusion ?chain of None \<Rightarrow> [] | Some c \<Rightarrow> [c])
        @ rj_messages ?next)"
    proof (cases "compact_visible_conclusion ?chain")
      case (Some c)
      then show ?thesis using replay_safe_append [OF conclusion_safe [OF Some] next'] by (simp only: option.case)
    qed (simp add: next')
    have "rj_messages (project_units invalid (m # ms)) =
        (if list_ex (\<lambda>x. starts_tool_unit x \<and> invalid x) ?chain
         then (case compact_visible_conclusion ?chain of None \<Rightarrow> [] | Some c \<Rightarrow> [c]) @ rj_messages ?next
         else ?chain @ rj_messages ?next)"
      using True by (simp add: Let_def)
    with kept omitted show ?thesis by (simp only: split: if_split) blast
  next
    case False
    from replay_safe_tail [OF 2(3) False] 2(2) False replay_safe_append [of serde "[m]"] show ?thesis
      by (fastforce simp: Let_def)
  qed
qed simp

lemma replay_safe_map:
  assumes "\<And>m. cm_role (f m) = cm_role m" "\<And>m. calls_of (f m) = calls_of m"
    "\<And>m. has_visible_content (f m) = has_visible_content m" "\<And>m. tool_result_id (f m) = tool_result_id m"
  shows "replay_safe serde (map f ms) = replay_safe serde ms"
  by (simp add: replay_safe_iff calls_answered_cong [OF assms] list_all_iff assistant_ok_def is_assistant_def assms)

lemma reasoning_projection_safe:
  "replay_safe serde ms \<Longrightarrow> replay_safe serde (rj_messages (prepare_reasoning_replay_history ms policy))"
  by (auto simp: prepare_reasoning_replay_history_def Let_def replay_safe_map intro!: project_units_safe)

lemma provider_projection_safe:
  "replay_safe serde ms \<Longrightarrow> replay_safe serde (rj_messages (prepare_provider_replay_history serde ms route))"
  by (auto simp: prepare_provider_replay_history_def replay_safe_map reasoning_projection_safe intro!: project_units_safe)

end
