(* ===== verification/History_Stages.thy ===== *)
theory History_Stages
  imports Prompt_Compile Replay_Safety
begin

text \<open>
  What the stages that shape a conversation keep: trimming to the window, compaction at a user
  message, the compiled prompt, the recap and the step controllers.
\<close>

section \<open>Trimming\<close>

lemma blocks_concat:
  "concat (map mb_messages (blocks_from env blocks ms)) = concat (map mb_messages (rev blocks)) @ ms"
proof (induction env blocks ms rule: blocks_from.induct)
  case (2 env blocks m ms)
  then show ?case by (cases blocks) (auto simp: Let_def)
qed simp

lemma blocks_safe:
  "\<lbrakk> list_all (\<lambda>b. replay_safe serde (mb_messages b)) blocks; replay_safe serde ms \<rbrakk>
     \<Longrightarrow> list_all (\<lambda>b. replay_safe serde (mb_messages b)) (blocks_from env blocks ms)"
proof (induction env blocks ms rule: blocks_from.induct)
  case (1 env blocks)
  then show ?case by simp
next
  case (2 env blocks m ms)
  show ?case
  proof (cases "cm_role m = RoleSystem \<and> blocks \<noteq> []")
    case True
    then obtain b bs where blocks: "blocks = b # bs" by (cases blocks) auto
    have "replay_safe serde [m]" "replay_safe serde ms" using True 2(5) by auto
    with 2(1) [OF True] 2(4) True blocks show ?thesis by (simp add: replay_safe_append)
  next
    case False
    show ?thesis
    proof (cases "starts_tool_unit m")
      case True
      then have role: "cm_role m \<noteq> RoleSystem" by (simp add: starts_tool_unit_def is_assistant_def)
      note chain = replay_safe_chain [OF 2(5) True]
      with 2(2) [OF False True refl] 2(4) role True show ?thesis
        by (simp del: replay_safe.simps add: Let_def)
    next
      case unit: False
      note tail = replay_safe_tail [OF 2(5) unit]
      with 2(3) [OF False unit] 2(4) False unit show ?thesis by (auto simp: Let_def)
    qed
  qed
qed

lemma keep_blocks_prefix: "\<exists>n. keep_blocks remaining used bs = take n bs"
proof (induction remaining used bs rule: keep_blocks.induct)
  case (2 remaining used b bs)
  then show ?case
    by (cases "saturating_add used (mb_token_cost b) > remaining") (force intro: exI [of _ 0], metis keep_blocks.simps(2) take_Suc_Cons)
qed simp

abbreviation is_system :: "message \<Rightarrow> bool" where "is_system m \<equiv> cm_role m = RoleSystem"

lemma kept_blocks_suffix: "\<exists>n. rev (keep_blocks remaining used (rev bs)) = drop n bs"
  using keep_blocks_prefix [of remaining used "rev bs"] by (metis rev_rev_ident rev_take)

text \<open>What is kept of the conversation is the messages of its last blocks.\<close>

lemma trim_shape:
  "\<exists>n. trim_to_context_window env ms max_tokens reserved = takeWhile is_system ms
     @ concat (map mb_messages (drop n (build_message_blocks env (dropWhile is_system ms))))"
proof -
  let ?blocks = "build_message_blocks env (dropWhile is_system ms)"
  have none: "concat (map mb_messages (drop (length ?blocks) ?blocks)) = []" by simp
  show ?thesis
  proof (cases "ms = []")
    case True
    then show ?thesis by (intro exI [of _ "length ?blocks"]) (simp add: trim_to_context_window_def)
  next
    case False
    show ?thesis
      unfolding trim_to_context_window_def Let_def
      using False none kept_blocks_suffix by (smt (verit) append_Nil2)
  qed
qed

lemma systems_safe: "\<forall>m \<in> set ms. is_system m \<Longrightarrow> replay_safe serde ms"
  by (induction ms) auto

lemma leading_safe: "replay_safe serde (takeWhile is_system ms)"
  by (rule systems_safe) (auto dest: set_takeWhileD)

lemma safe_after_systems: "replay_safe serde ms \<Longrightarrow> replay_safe serde (dropWhile is_system ms)"
  by (induction ms) auto

lemma safe_concat: "list_all (replay_safe serde) xss \<Longrightarrow> replay_safe serde (concat xss)"
  by (induction xss) (auto intro: replay_safe_append)

lemma trim_safe:
  assumes "replay_safe serde ms"
  shows "replay_safe serde (trim_to_context_window env ms max_tokens reserved)"
proof -
  obtain n where shape: "trim_to_context_window env ms max_tokens reserved = takeWhile is_system ms
     @ concat (map mb_messages (drop n (build_message_blocks env (dropWhile is_system ms))))"
    using trim_shape by blast
  have "list_all (\<lambda>b. replay_safe serde (mb_messages b)) (build_message_blocks env (dropWhile is_system ms))"
    unfolding build_message_blocks_def using safe_after_systems [OF assms] by (intro blocks_safe) simp_all
  then have "list_all (replay_safe serde) (map mb_messages (drop n (build_message_blocks env (dropWhile is_system ms))))"
    by (auto simp: list_all_iff dest: in_set_dropD)
  then show ?thesis unfolding shape by (intro replay_safe_append leading_safe safe_concat)
qed

lemma trim_suffix:
  "\<exists>k. trim_to_context_window env ms max_tokens reserved = takeWhile is_system ms @ drop k (dropWhile is_system ms)"
proof -
  let ?c = "dropWhile is_system ms"
  let ?b = "build_message_blocks env ?c"
  obtain n where shape: "trim_to_context_window env ms max_tokens reserved = takeWhile is_system ms
     @ concat (map mb_messages (drop n ?b))" using trim_shape by blast
  have "concat (map mb_messages (take n ?b)) @ concat (map mb_messages (drop n ?b)) = ?c"
    by (metis append_Nil append_take_drop_id blocks_concat build_message_blocks_def concat.simps(1) concat_append
        list.map(1) map_append rev.simps(1))
  then have "concat (map mb_messages (drop n ?b)) = drop (length (concat (map mb_messages (take n ?b)))) ?c"
    by (metis append_eq_conv_conj)
  with shape show ?thesis by metis
qed

section \<open>What trimming costs\<close>

definition messages_cost :: "token_env \<Rightarrow> message list \<Rightarrow> nat" where
  "messages_cost env ms = sum_list (map (\<lambda>m. unat (message_cost env m)) ms)"

lemma messages_cost_simps [simp]:
  "messages_cost env [] = 0" "messages_cost env (m # ms) = unat (message_cost env m) + messages_cost env ms"
  "messages_cost env (xs @ ys) = messages_cost env xs + messages_cost env ys"
  by (simp_all add: messages_cost_def)

abbreviation MAX_U32 :: nat where "MAX_U32 \<equiv> 2 ^ 32 - 1"

lemma total_cost_unat: "unat (total_cost env used ms) = min (unat used + messages_cost env ms) MAX_U32"
proof (induction ms arbitrary: used)
  case Nil
  have "unat used \<le> MAX_U32" using unat_le_max [of used] by simp
  then show ?case by (simp add: total_cost_def)
next
  case (Cons m ms)
  then show ?case
    by (simp add: total_cost_def unat_saturating_add)
qed

definition block_cost_ok :: "token_env \<Rightarrow> message_block \<Rightarrow> bool" where
  "block_cost_ok env b \<longleftrightarrow> unat (mb_token_cost b) = min (messages_cost env (mb_messages b)) MAX_U32"

lemma message_cost_max: "unat (message_cost env m) \<le> MAX_U32"
  using unat_le_max [of "message_cost env m"] by simp

lemma blocks_cost: "list_all (block_cost_ok env) blocks \<Longrightarrow> list_all (block_cost_ok env) (blocks_from env blocks ms)"
proof (induction env blocks ms rule: blocks_from.induct)
  case (2 env blocks m ms)
  show ?case
  proof (cases "cm_role m = RoleSystem \<and> blocks \<noteq> []")
    case True
    then obtain b bs where "blocks = b # bs" by (cases blocks) auto
    with 2(1) 2(4) True show ?thesis by (simp add: block_cost_ok_def unat_saturating_add)
  next
    case False
    have "block_cost_ok env \<lparr> mb_messages = m # take n ms, mb_token_cost = total_cost env (message_cost env m) (take n ms) \<rparr>"
      "block_cost_ok env \<lparr> mb_messages = [m], mb_token_cost = message_cost env m \<rparr>" for n
      using message_cost_max [of env m] by (simp_all add: block_cost_ok_def total_cost_unat)
    with 2(2,3) 2(4) False show ?thesis by (cases "blocks = []") (simp_all add: Let_def)
  qed
qed simp

lemma keep_blocks_cost:
  "\<lbrakk> unat remaining < MAX_U32; unat used \<le> unat remaining; list_all (block_cost_ok env) bs \<rbrakk>
     \<Longrightarrow> unat used + messages_cost env (concat (map mb_messages (keep_blocks remaining used bs))) \<le> unat remaining"
proof (induction remaining used bs rule: keep_blocks.induct)
  case (2 remaining used b bs)
  show ?case
  proof (cases "saturating_add used (mb_token_cost b) > remaining")
    case False
    then have fits: "unat (saturating_add used (mb_token_cost b)) \<le> unat remaining"
      by (simp add: word_le_nat_alt not_less)
    with 2(2) 2(4) have "unat (saturating_add used (mb_token_cost b)) = unat used + messages_cost env (mb_messages b)"
      by (simp add: unat_saturating_add block_cost_ok_def min_def split: if_splits)
    with 2(1) [OF False 2(2) fits] 2(4) False show ?thesis by simp
  qed (use 2 in simp)
qed simp

lemma messages_cost_concat_rev:
  "messages_cost env (concat (map mb_messages (rev bs))) = messages_cost env (concat (map mb_messages bs))"
  by (induction bs) simp_all

lemma trim_cost:
  assumes "max_tokens \<noteq> - 1"
  shows "trim_to_context_window env ms max_tokens reserved = takeWhile is_system ms
    \<or> messages_cost env (trim_to_context_window env ms max_tokens reserved) \<le> unat max_tokens - unat reserved"
proof -
  define budget leading where "budget = saturating_sub max_tokens reserved" and "leading = takeWhile is_system ms"
  define used kept where "used = total_cost env 0 leading"
    and "kept = keep_blocks (saturating_sub budget used) 0 (rev (build_message_blocks env (dropWhile is_system ms)))"
  show ?thesis
  proof (cases "ms = [] \<or> used \<ge> budget")
    case True
    then show ?thesis unfolding used_def budget_def leading_def by (auto simp: trim_to_context_window_def Let_def)
  next
    case False
    have "unat max_tokens \<noteq> unat (- 1 :: u32)" using assms by (metis word_unat_eq_iff)
    then have max: "unat max_tokens < MAX_U32" using unat_le_max [of max_tokens] by (simp add: unat_max)
    have budget: "unat budget = unat max_tokens - unat reserved" unfolding budget_def by (rule unat_saturating_sub)
    from False have lt: "unat used < unat budget" by (simp add: word_less_nat_alt not_le)
    with budget max have used: "unat used = messages_cost env leading"
      by (simp add: used_def total_cost_unat min_def split: if_splits)
    have rem: "unat (saturating_sub budget used) = unat budget - unat used" by (rule unat_saturating_sub)
    have "list_all (block_cost_ok env) (rev (build_message_blocks env (dropWhile is_system ms)))"
      unfolding build_message_blocks_def by (simp add: blocks_cost)
    then have "messages_cost env (concat (map mb_messages kept)) \<le> unat (saturating_sub budget used)"
      using keep_blocks_cost [of "saturating_sub budget used" 0] rem budget max
      unfolding kept_def by fastforce
    moreover have "trim_to_context_window env ms max_tokens reserved = leading @ concat (map mb_messages (rev kept))"
      using False unfolding kept_def used_def budget_def leading_def by (simp add: trim_to_context_window_def Let_def)
    ultimately show ?thesis using rem used budget lt by (intro disjI2) (simp add: messages_cost_concat_rev)
  qed
qed

section \<open>Compaction\<close>

lemma select_boundary_range:
  "select_boundary tokens target latest selected bs = Some b \<Longrightarrow> selected = Some b \<or> b \<in> set bs \<and> b \<le> latest"
  by (induction tokens target latest selected bs rule: select_boundary.induct) (auto split: if_splits)

lemma boundary_is_turn:
  assumes "compaction_boundary env ms model target n = Some b"
  shows "b \<in> set (drop 1 (user_starts ms)) \<and> b \<le> user_starts ms ! (length (user_starts ms) - n)
    \<and> n < length (user_starts ms)"
  using assms select_boundary_range by (fastforce simp: compaction_boundary_def Let_def split: if_splits)

text \<open>A history splits at a message that is not a tool result.\<close>

lemma calls_answered_split:
  "\<lbrakk> calls_answered pending (xs @ u # ys); cm_role u \<noteq> RoleTool \<rbrakk>
     \<Longrightarrow> calls_answered pending xs \<and> calls_answered [] (u # ys)"
proof (induction xs arbitrary: pending)
  case Nil
  then show ?case by (cases "cm_role u") auto
next
  case (Cons x xs)
  then show ?case by (cases "cm_role x") auto
qed

lemma replay_safe_split:
  assumes "replay_safe serde ms" "i < length ms" "cm_role (ms ! i) \<noteq> RoleTool"
  shows "replay_safe serde (drop i ms)"
proof -
  have "ms = take i ms @ ms ! i # drop (Suc i) ms" using assms(2) by (simp add: id_take_nth_drop)
  with assms calls_answered_split [of "[]" "take i ms" "ms ! i" "drop (Suc i) ms"]
  have "calls_answered [] (drop i ms)" by (simp add: replay_safe_iff Cons_nth_drop_Suc)
  with assms(1) show ?thesis by (auto simp: replay_safe_iff list_all_iff dest: in_set_dropD)
qed

lemma prefix_systems: "m \<in> set (take (system_prefix_end ms) ms) \<Longrightarrow> is_system m"
  by (auto simp: system_prefix_end_def takeWhile_eq_take [symmetric] in_system_prefix_def dest!: set_takeWhileD)

lemma summary_message_system [simp]: "cm_role (reference_summary_message s n reason) = RoleSystem"
  by (simp add: reference_summary_message_def text_message_def)

lemma replace_evicted_safe:
  assumes "replay_safe serde ms" "compaction_boundary env ms model target n = Some b"
  shows "replay_safe serde (replace_evicted ms b summary reason)"
proof -
  have "b \<in> set (user_starts ms)" using boundary_is_turn [OF assms(2)] by (meson in_set_dropD)
  then have "replay_safe serde (drop b ms)" by (intro replay_safe_split [OF assms(1)]) (auto simp: user_starts_def)
  moreover have "replay_safe serde (take (system_prefix_end ms) ms)" by (intro systems_safe) (auto dest: prefix_systems)
  ultimately show ?thesis by (simp add: replace_evicted_def Let_def replay_safe_append)
qed

lemma compact_to_safe:
  assumes "replay_safe serde ms" "compaction_boundary env ms model target n = Some b"
    "compact_to ms b summarize reason = Inr r"
  shows "replay_safe serde r"
  using assms(3) replace_evicted_safe [OF assms(1,2)] by (auto simp: compact_to_def)

lemma summarize_safe:
  "\<lbrakk> replay_safe serde ms; summarize_if_needed env p model summarize ms = Inr r \<rbrakk> \<Longrightarrow> replay_safe serde r"
  by (auto simp: summarize_if_needed_def compact_to_safe split: option.splits if_splits)

lemma aggressive_safe:
  "\<lbrakk> replay_safe serde ms; aggressive_compact env p model summarize ms = Inr r \<rbrakk> \<Longrightarrow> replay_safe serde r"
  by (auto simp: aggressive_compact_def compact_to_safe split: option.splits)

lemma overflow_trim_safe: "replay_safe serde ms \<Longrightarrow> replay_safe serde (trim_after_overflow_recovery env p ms)"
  by (auto simp: trim_after_overflow_recovery_def trim_safe split: option.splits)

lemma recover_safe:
  assumes "replay_safe serde ms"
  shows "replay_safe serde (fst (recover_context_overflow env p model summarize limit spent ms))"
proof (cases "aggressive_compact env p model summarize ms")
  case (Inr compacted)
  with aggressive_safe [OF assms Inr] overflow_trim_safe show ?thesis
    by (simp add: recover_context_overflow_def Let_def)
qed (simp add: recover_context_overflow_def assms)

text \<open>The turns a boundary keeps: each turn starts with a user message.\<close>

definition turns :: "message list \<Rightarrow> nat" where
  "turns ms = length (filter (\<lambda>m. cm_role m = RoleUser) ms)"

lemma drop_as_map: "drop b ms = map (\<lambda>i. ms ! i) [b..<length ms]"
  by (metis drop_map drop_upt map_nth plus_nat.add_0)

lemma sorted_filter_from:
  "\<lbrakk> sorted_wrt (<) xs; k < length xs \<rbrakk> \<Longrightarrow> filter (\<lambda>x. xs ! k \<le> x) xs = drop k (xs :: nat list)"
proof (induction xs arbitrary: k)
  case (Cons x xs)
  show ?case
  proof (cases k)
    case 0
    with Cons.prems show ?thesis by (auto simp: filter_id_conv less_imp_le)
  next
    case (Suc j)
    with Cons.prems have "x < xs ! j" by simp
    then have "\<not> xs ! j \<le> x" by simp
    with Suc Cons show ?thesis by simp
  qed
qed simp

lemma user_starts_sorted: "sorted_wrt (<) (user_starts ms)"
  unfolding user_starts_def by (simp add: sorted_wrt_filter)

lemma turns_from_start:
  assumes "k < length (user_starts ms)"
  shows "turns (drop (user_starts ms ! k) ms) = length (user_starts ms) - k"
proof -
  let ?b = "user_starts ms ! k" and ?p = "system_prefix_end ms"
  have "?b \<in> set (user_starts ms)" using assms by simp
  then have "?p \<le> ?b" "?b < length ms" by (auto simp: user_starts_def)
  then have upt: "filter (\<lambda>i. ?b \<le> i) [?p..<length ms] = [?b..<length ms]"
    using upt_add_eq_append [of ?p ?b "length ms - ?b"] by simp
  have "drop k (user_starts ms) = filter (\<lambda>i. ?b \<le> i) (user_starts ms)"
    by (rule sorted_filter_from [OF user_starts_sorted assms, symmetric])
  also have "\<dots> = filter (\<lambda>i. cm_role (ms ! i) = RoleUser) (filter (\<lambda>i. ?b \<le> i) [?p..<length ms])"
    unfolding user_starts_def filter_filter by (rule filter_cong) auto
  finally have "length (filter (\<lambda>i. cm_role (ms ! i) = RoleUser) [?b..<length ms]) = length (user_starts ms) - k"
    using upt by (metis length_drop)
  then show ?thesis by (simp add: turns_def drop_as_map filter_map comp_def)
qed

lemma select_boundary_target:
  "\<lbrakk> select_boundary tokens target latest selected bs = Some b; sorted_wrt (<) bs; latest \<in> set bs \<rbrakk>
     \<Longrightarrow> tokens b \<le> target \<or> b = latest"
proof (induction tokens target latest selected bs rule: select_boundary.induct)
  case (2 tokens target latest selected x bs)
  show ?case
  proof (cases "latest = x")
    case True
    with 2(3) have "select_boundary tokens target latest (Some x) bs = Some x"
      by (cases bs) auto
    with 2 True show ?thesis by (auto split: if_splits)
  next
    case False
    with 2 show ?thesis by (auto split: if_splits)
  qed
qed simp

lemma boundary_turns:
  assumes "compaction_boundary env ms model target n = Some b" "0 < n"
  shows "cm_role (ms ! b) = RoleUser" "n \<le> turns (drop b ms)" "system_prefix_end ms < b" "b < length ms"
    "suffix_tokens env model ms b \<le> target \<or> turns (drop b ms) = n"
proof -
  let ?s = "user_starts ms"
  have n: "n < length ?s" and mem: "b \<in> set (drop 1 ?s)" and le: "b \<le> ?s ! (length ?s - n)"
    using boundary_is_turn [OF assms(1)] by simp_all
  from mem obtain j where "j < length (drop 1 ?s)" "drop 1 ?s ! j = b" by (metis in_set_conv_nth)
  then obtain k where k: "b = ?s ! k" "k < length ?s" "0 < k" by (intro that [of "Suc j"]) simp_all
  then have "b \<in> set ?s" by simp
  then show "cm_role (ms ! b) = RoleUser" "b < length ms" by (auto simp: user_starts_def)
  have "?s ! 0 < b" using sorted_wrt_nth_less [OF user_starts_sorted, of 0 k] k by simp
  moreover have "system_prefix_end ms \<le> ?s ! 0"
  proof -
    have "?s ! 0 \<in> set ?s" using k by (intro nth_mem) linarith
    then show ?thesis unfolding user_starts_def by simp
  qed
  ultimately show "system_prefix_end ms < b" by simp
  have "k \<le> length ?s - n"
  proof (rule ccontr)
    assume "\<not> k \<le> length ?s - n"
    then have "?s ! (length ?s - n) < b" using sorted_wrt_nth_less [OF user_starts_sorted, of "length ?s - n" k] k by simp
    with le show False by simp
  qed
  with n k turns_from_start [of k ms] show "n \<le> turns (drop b ms)" by simp
  have latest: "?s ! (length ?s - n) \<in> set (drop 1 ?s)"
  proof -
    have "drop 1 ?s ! (length ?s - Suc n) = ?s ! (length ?s - n)" using n assms(2) by (simp add: Suc_diff_Suc)
    moreover have "length ?s - Suc n < length (drop 1 ?s)" using n assms(2) by simp
    ultimately show ?thesis by (metis nth_mem)
  qed
  have "select_boundary (suffix_tokens env model ms) target (?s ! (length ?s - n)) None (drop 1 ?s) = Some b"
    using assms(1) n by (simp add: compaction_boundary_def Let_def)
  moreover have "turns (drop (?s ! (length ?s - n)) ms) = n"
    using turns_from_start [of "length ?s - n" ms] n assms(2) by simp
  moreover have "sorted_wrt (<) (drop 1 ?s)" by (rule sorted_wrt_drop [OF user_starts_sorted])
  ultimately show "suffix_tokens env model ms b \<le> target \<or> turns (drop b ms) = n"
    using select_boundary_target latest by blast
qed

section \<open>The prompt\<close>

lemma message_from_blocks_role: "message_from_blocks r blocks = Some m \<Longrightarrow> cm_role m = r"
  by (auto simp: message_from_blocks_def Let_def text_message_def with_prompt_cache_hint_def split: option.splits)

lemma opt_message_safe: "r = RoleSystem \<Longrightarrow> replay_safe serde (opt_list (message_from_blocks r blocks))"
  by (cases "message_from_blocks r blocks") (auto simp: opt_list_def dest: message_from_blocks_role)

lemma context_messages_safe: "replay_safe serde (context_messages p)"
  unfolding context_messages_def by (intro safe_concat) (simp add: list_all_iff opt_message_safe)

text \<open>A compiled prompt replays when its transcript does and its user message is one.\<close>

lemma compile_safe:
  assumes "replay_safe serde (ap_transcript p)" "\<And>m. ap_current_user p = Some m \<Longrightarrow> cm_role m = RoleUser"
  shows "replay_safe serde (compile_to_messages p placement)"
proof -
  have "replay_safe serde (opt_list (map_option (with_prompt_cache_hint Replayable ReplayableTurnTail) (ap_current_user p)))"
    using assms(2) by (cases "ap_current_user p") (simp_all add: opt_list_def with_prompt_cache_hint_def)
  with assms(1) show ?thesis
    unfolding compile_to_messages_def
    by (intro replay_safe_append opt_message_safe refl) (simp_all add: context_messages_safe)
qed

text \<open>Only a system message is rewritten by the recap.\<close>

definition same_but_system :: "message \<Rightarrow> message \<Rightarrow> bool" where
  "same_but_system m m' \<longleftrightarrow> m = m' \<or> is_system m \<and> is_system m'"

lemma calls_answered_same:
  "list_all2 same_but_system ms ms' \<Longrightarrow> calls_answered pending ms = calls_answered pending ms'"
proof (induction ms ms' arbitrary: pending rule: list_all2_induct)
  case (Cons m ms m' ms')
  show ?case
  proof (cases "m = m'")
    case True
    with Cons.IH show ?thesis by (cases "cm_role m") simp_all
  next
    case False
    with Cons show ?thesis by (simp add: same_but_system_def)
  qed
qed simp

lemma replay_safe_same:
  assumes "list_all2 same_but_system ms ms'"
  shows "replay_safe serde ms = replay_safe serde ms'"
proof -
  have "list_all (assistant_ok serde) ms = list_all (assistant_ok serde) ms'"
    using assms
    by (induction rule: list_all2_induct) (auto simp: same_but_system_def assistant_ok_def is_assistant_def)
  with calls_answered_same [OF assms] show ?thesis by (simp add: replay_safe_iff)
qed

lemma same_refl: "list_all2 same_but_system ms ms"
  by (simp add: list_all2_refl same_but_system_def)

lemma update_first_same:
  assumes "\<And>m. P m \<Longrightarrow> is_system m \<and> is_system (f m)"
  shows "list_all2 same_but_system ms (update_first P f ms)"
proof (induction ms)
  case (Cons m ms)
  then show ?case by (cases "P m") (simp_all add: same_refl same_but_system_def [of m] assms)
qed simp

lemma update_system_safe:
  assumes "\<And>m. is_system (f m) = is_system m"
  shows "replay_safe serde (rev (update_first is_system f (rev ms))) = replay_safe serde ms"
proof -
  have "list_all2 same_but_system (rev (rev ms)) (rev (update_first is_system f (rev ms)))"
    unfolding list_all2_rev by (rule update_first_same) (simp add: assms)
  then show ?thesis using replay_safe_same [of ms] by simp
qed

lemma add_recap_safe: "replay_safe serde trimmed \<Longrightarrow> replay_safe serde (add_recap budget ms trimmed)"
  by (simp add: add_recap_def Let_def update_system_safe)

lemma transcript_repaired: "replay_safe serde (rr_messages (repair_persisted_message_history serde history conversation))"
  by (simp add: repair_persisted_message_history_def repair_safe)

lemma prepared_safe:
  "replay_safe (pe_serde env) (prepare_messages_with_options env system_prompt history user_parts model
     max_tokens_response override skills tools options)"
proof -
  have compiled: "replay_safe (pe_serde env) (compile_to_messages (assemble_prompt env system_prompt
      (rr_messages (repair_persisted_message_history (pe_serde env) history None)) user_parts skills options budgets)
      placement)" for budgets placement
    by (rule compile_safe) (auto simp: assemble_prompt_def Let_def transcript_repaired user_message_def)
  show ?thesis
    unfolding prepare_messages_with_options_def Let_def
    by (intro add_recap_safe) (simp add: compiled trim_safe)
qed

section \<open>Step controllers\<close>

lemma keep_newest_safe:
  "\<lbrakk> calls_answered pending ms; \<forall>m \<in> set ms. is_step_controller m \<longrightarrow> is_system m \<rbrakk>
     \<Longrightarrow> calls_answered pending (keep_newest_controller ms)"
proof (induction ms arbitrary: pending)
  case (Cons m ms)
  then show ?case by (cases "cm_role m") auto
qed simp

lemma keep_newest_subset: "set (keep_newest_controller ms) \<subseteq> set ms"
  by (induction ms) auto

lemma model_step_safe:
  assumes "replay_safe serde ms" "\<forall>m \<in> set ms. is_step_controller m \<longrightarrow> is_system m"
  shows "replay_safe serde (messages_for_model_step ms final)"
  using assms keep_newest_subset [of ms]
  by (auto simp: messages_for_model_step_def replay_safe_iff keep_newest_safe list_all_iff)

lemma keep_newest_one: "length (filter is_step_controller (keep_newest_controller ms)) \<le> 1"
proof (induction ms)
  case (Cons m ms)
  have "\<not> list_ex is_step_controller ms \<Longrightarrow> filter is_step_controller (keep_newest_controller ms) = []"
    using keep_newest_subset [of ms] by (auto simp: list_ex_iff filter_empty_conv)
  with Cons show ?case by auto
qed simp

section \<open>Projection\<close>

text \<open>A tool chain is kept only when the native state of each of its calls can be replayed.\<close>

lemma project_units_kept:
  "m \<in> set (rj_messages (project_units invalid ms)) \<Longrightarrow> starts_tool_unit m \<Longrightarrow> \<not> invalid m"
proof (induction invalid ms rule: project_units.induct)
  case (2 invalid x ms)
  have conclusion: "\<not> starts_tool_unit c" if "compact_visible_conclusion zs = Some c" for zs c
    using that by (auto simp: compact_visible_conclusion_def starts_tool_unit_def calls_of_def text_message_def)
  show ?case
  proof (cases "starts_tool_unit x")
    case True
    from 2(1) [OF True refl refl] 2(3,4) True conclusion show ?thesis
      by (auto simp: Let_def list_ex_iff split: if_splits option.splits)
  next
    case False
    with 2(2) [OF False] 2(3,4) show ?thesis by (auto simp: Let_def)
  qed
qed simp

lemma replayed_call:
  assumes "requires_tool_call_payload (rs_replay_policy route)"
    "m \<in> set (rj_messages (prepare_provider_replay_history serde ms route))" "starts_tool_unit m"
  shows "\<exists>e. provider_turn m = Some e \<and> is_compatible_with e route \<and> authorizes_tool_dispatch serde e"
proof -
  have "\<not> envelope_blocks_replay serde route m"
    using assms project_units_kept by (auto simp: prepare_provider_replay_history_def)
  with assms(1) show ?thesis by (auto simp: envelope_blocks_replay_def split: option.splits)
qed

section \<open>Stages\<close>

text \<open>What a run does to its messages between two requests.\<close>

datatype history_stage =
    TrimAfterToolResults context_pipeline
  | SummarizeIfNeeded context_pipeline string summarizer
  | AggressiveCompact context_pipeline string summarizer
  | RecoverContextOverflow context_pipeline string summarizer "u32 option" u32
  | ProjectForRoute route_snapshot
  | RepairHistory "string option"

definition unless_error :: "'a \<Rightarrow> 'e + 'a \<Rightarrow> 'a" where
  "unless_error x r = (case r of Inl e \<Rightarrow> x | Inr y \<Rightarrow> y)"

fun run_stage :: "serde_env \<Rightarrow> token_env \<Rightarrow> history_stage \<Rightarrow> message list \<Rightarrow> message list" where
  "run_stage serde env (TrimAfterToolResults p) ms = trim_after_tool_results env p ms"
| "run_stage serde env (SummarizeIfNeeded p model summarize) ms =
     unless_error ms (summarize_if_needed env p model summarize ms)"
| "run_stage serde env (AggressiveCompact p model summarize) ms =
     unless_error ms (aggressive_compact env p model summarize ms)"
| "run_stage serde env (RecoverContextOverflow p model summarize limit spent) ms =
     fst (recover_context_overflow env p model summarize limit spent ms)"
| "run_stage serde env (ProjectForRoute route) ms = rj_messages (prepare_provider_replay_history serde ms route)"
| "run_stage serde env (RepairHistory c) ms = rr_messages (repair_persisted_message_history serde ms c)"

lemma unless_errorI: "\<lbrakk> P x; \<And>y. r = Inr y \<Longrightarrow> P y \<rbrakk> \<Longrightarrow> P (unless_error x r)"
  by (cases r) (simp_all add: unless_error_def)

lemma tool_trim_safe: "replay_safe serde ms \<Longrightarrow> replay_safe serde (trim_after_tool_results env p ms)"
  by (cases "cp_context_window p") (simp_all add: trim_after_tool_results_def trim_safe)

lemma stage_safe:
  assumes "replay_safe serde ms"
  shows "replay_safe serde (run_stage serde env stage ms)"
proof (cases stage)
  case (SummarizeIfNeeded p model summarize)
  then show ?thesis using summarize_safe [OF assms] assms by (simp add: unless_errorI [where P = "replay_safe serde"])
next
  case (AggressiveCompact p model summarize)
  then show ?thesis using aggressive_safe [OF assms] assms by (simp add: unless_errorI [where P = "replay_safe serde"])
qed (simp_all add: assms tool_trim_safe recover_safe provider_projection_safe transcript_repaired)

interpretation hs: invariant_machine "run_stage serde env" "replay_safe serde" for serde env
  by unfold_locales (rule stage_safe)

section \<open>What a compaction keeps\<close>

text \<open>
  A compaction leaves the history as it is, or replaces the oldest turns by one summary behind the
  system prompt. It keeps two turns at least, and more only while they fit the target.
\<close>

definition recent_turns_kept :: "token_env \<Rightarrow> string \<Rightarrow> u32 \<Rightarrow> message list \<Rightarrow> message list \<Rightarrow> bool" where
  "recent_turns_kept env model target ms r \<longleftrightarrow> r = ms \<or>
     (\<exists>evicted kept summary. ms = take (system_prefix_end ms) ms @ evicted @ kept
        \<and> r = take (system_prefix_end ms) ms @ [summary] @ kept
        \<and> evicted \<noteq> [] \<and> is_system summary \<and> cm_role (hd kept) = RoleUser \<and> MIN_RECENT_TURNS \<le> turns kept
        \<and> (suffix_tokens env model kept 0 \<le> target \<or> turns kept = MIN_RECENT_TURNS))"

lemma replace_evicted_kept:
  assumes "compaction_boundary env ms model target MIN_RECENT_TURNS = Some b"
  shows "recent_turns_kept env model target ms (replace_evicted ms b summary reason)"
proof -
  let ?p = "system_prefix_end ms"
  note b = boundary_turns [OF assms] and two = MIN_RECENT_TURNS_def
  have split: "ms = take ?p ms @ drop ?p (take b ms) @ drop b ms"
    using b(3) by (simp add: two) (metis append_assoc append_take_drop_id less_imp_le min.absorb1 take_take)
  moreover have "drop ?p (take b ms) \<noteq> []" using b(3,4) by (simp add: two)
  moreover have "hd (drop b ms) = ms ! b" using b(4) by (simp add: two hd_drop_conv_nth)
  moreover have "suffix_tokens env model (drop b ms) 0 = suffix_tokens env model ms b" by (simp add: suffix_tokens_def)
  ultimately show ?thesis
    using b unfolding recent_turns_kept_def replace_evicted_def Let_def two
    by (metis summary_message_system zero_less_numeral)
qed

lemma nothing_evicted [simp]: "recent_turns_kept env model target ms ms"
  by (simp add: recent_turns_kept_def)

lemma compact_to_kept:
  assumes "compaction_boundary env ms model target MIN_RECENT_TURNS = Some b" "compact_to ms b summarize reason = Inr r"
  shows "recent_turns_kept env model target ms r"
  using assms(2) replace_evicted_kept [OF assms(1)] by (auto simp: compact_to_def)

lemma aggressive_kept:
  "aggressive_compact env p model summarize ms = Inr r
     \<Longrightarrow> recent_turns_kept env model (aggressive_target env p model ms) ms r"
  by (auto simp: aggressive_compact_def compact_to_kept split: option.splits)

lemma summarize_kept:
  "summarize_if_needed env p model summarize ms = Inr r
     \<Longrightarrow> recent_turns_kept env model (compaction_target (unwrap_or 0 (context_budget p))) ms r"
  by (cases "context_budget p") (auto simp: summarize_if_needed_def compact_to_kept split: option.splits if_splits)

section \<open>Answer-only steps\<close>

lemma keep_newest_others: "filter (\<lambda>m. \<not> is_step_controller m) (keep_newest_controller ms) = filter (\<lambda>m. \<not> is_step_controller m) ms"
  by (induction ms) auto

lemma find_append: "find P (xs @ ys) = (case find P xs of None \<Rightarrow> find P ys | Some x \<Rightarrow> Some x)"
  by (induction xs) auto

lemma keep_newest_last: "find is_step_controller (rev (keep_newest_controller ms)) = find is_step_controller (rev ms)"
proof (induction ms)
  case (Cons m ms)
  have none: "find is_step_controller (rev ms) \<noteq> None" if "list_ex is_step_controller ms"
    using that by (auto simp: find_None_iff list_ex_iff)
  with Cons show ?case by (auto simp: find_append split: option.splits)
qed simp

end
