(* ===== verification/History_Properties.thy ===== *)
theory History_Properties
  imports History_Stages
begin

text \<open>
  What the theories on message histories show of the code, from the persisted history to the
  request at the provider boundary.
\<close>

section \<open>The boundary\<close>

text \<open>
  C9: The validation at the provider boundary decides the specification by rounds: a request is
  accepted exactly when every assistant message says something or calls tools, and the complete
  calls of a message are answered at once, each by one visible result, with no other tool message.
\<close>

theorem boundary_decides_replay_safe:
  "validate_provider_request serde ms provider model = Inr () \<longleftrightarrow> replay_safe serde ms"
  unfolding validate_provider_request_def by (rule validate_iff_replay_safe)

text \<open>
  C13: The repair of a persisted history makes it acceptable to every provider, loses nothing the
  user can read, and has nothing left to repair when it runs again.
\<close>

theorem repair_makes_history_safe:
  "let repaired = rr_messages (repair_persisted_message_history serde ms conversation)
   in replay_safe serde repaired \<and> visible_transcript repaired = visible_transcript ms
     \<and> repair_persisted_message_history serde repaired conversation' = \<lparr> rr_messages = repaired, rr_repairs = [] \<rparr>"
  unfolding repair_persisted_message_history_def Let_def
  by (simp add: repair_safe repair_transcript repair_repaired)

text \<open>
  C8: Whatever history was persisted, and whatever the window, the tools, the skills and the
  options are, the messages prepared for a request pass the provider boundary, and so do they after
  the native state of any route has been projected out of them.
\<close>

theorem prepared_request_accepted:
  "let ms = prepare_messages_with_options env system_prompt history user_parts model max_tokens override
         skills tools options
   in validate_provider_request (pe_serde env) ms provider name = Inr ()
     \<and> validate_provider_request (pe_serde env)
         (rj_messages (prepare_provider_replay_history (pe_serde env) ms route)) provider name = Inr ()"
  unfolding validate_provider_request_def Let_def
  by (simp add: validate_iff_replay_safe prepared_safe provider_projection_safe)

section \<open>Between two requests\<close>

definition demo_serde :: serde_env where
  "demo_serde = \<lparr> sd_json = (\<lambda>t. if t = ''{}'' then Some (JObject []) else None), sd_anthropic = (\<lambda>_. None),
     sd_responses = (\<lambda>_. None), sd_gemini = (\<lambda>_. None) \<rparr>"

definition demo_tokens :: token_env where
  "demo_tokens = \<lparr> te_bpe_for_model = (\<lambda>_. Some (\<lambda>t. 1)), te_bpe_for_tokenizer = (\<lambda>_. None), te_catalog_context = (\<lambda>_. None) \<rparr>"

definition demo_call :: tool_call_request where
  "demo_call = \<lparr> tc_id = ''c1'', tc_name = ''search'', tc_arguments = ''{}'', tc_thought_signature = None \<rparr>"

definition demo_round :: "message list" where
  "demo_round = [(text_message RoleAssistant ''looking'') \<lparr> cm_tool_calls := Some [demo_call] \<rparr>,
     text_with_name RoleTool ''found'' ''c1'', text_message RoleAssistant ''done'']"

definition demo_history :: "message list" where
  "demo_history = text_message RoleSystem ''policy'' # text_message RoleUser ''first'' # demo_round
     @ text_message RoleUser ''second'' # demo_round @ [text_message RoleUser ''third'']"

lemma demo_history_safe: "replay_safe demo_serde demo_history" by code_simp

text \<open>
  C12: Trimming after tool results, compaction before a turn and near the limit, the recovery from an
  overflow, the projection for a route and the repair, in any order and any number and with the
  errors that stop them, keep a history the provider boundary accepts.
\<close>

theorem stages_keep_request_acceptable:
  assumes "replay_safe serde ms"
  shows "validate_provider_request serde (run_ops (run_stage serde env) stages ms) provider model = Inr ()"
  unfolding validate_provider_request_def using hs.run_inv [OF assms]
  by (simp add: validate_iff_replay_safe)

lemma stages_keep_request_acceptable_witness:
  "validate_provider_request demo_serde (run_ops (run_stage demo_serde demo_tokens)
     [TrimAfterToolResults \<lparr> cp_context_window = Some 400, cp_max_response_tokens = 20 \<rparr>,
      AggressiveCompact \<lparr> cp_context_window = None, cp_max_response_tokens = 20 \<rparr> ''m'' (\<lambda>_. Inr ''summary'')]
     demo_history) ''p'' ''m'' = Inr ()"
  by (rule stages_keep_request_acceptable [OF demo_history_safe])

section \<open>The window\<close>

text \<open>
  C15: Trimming returns the leading system messages and a suffix of the conversation, and what it
  returns costs no more than the window leaves beside the reserved response, unless nothing but the
  system messages is left.
\<close>

theorem trim_fits_window:
  assumes "max_tokens \<noteq> - 1"
  shows "let r = trim_to_context_window env ms max_tokens reserved; leading = takeWhile is_system ms
    in (\<exists>k. r = leading @ drop k (dropWhile is_system ms))
      \<and> (r = leading \<or> messages_cost env r \<le> unat max_tokens - unat reserved)"
  using trim_suffix trim_cost [OF assms] by (simp add: Let_def)

lemma trim_fits_window_witness:
  "let r = trim_to_context_window demo_tokens demo_history 60 8; leading = takeWhile is_system demo_history
    in (\<exists>k. r = leading @ drop k (dropWhile is_system demo_history))
      \<and> (r = leading \<or> messages_cost demo_tokens r \<le> unat (60 :: u32) - unat (8 :: u32))"
  by (rule trim_fits_window) simp

text \<open>
  C16: A compaction, before a turn or near the limit, leaves the history as it is or replaces its
  oldest turns by one system message behind the system prompt. The rest starts with a user message
  and has two turns or more, and more than two only when its estimate fits the target of the
  compaction.
\<close>

theorem compaction_keeps_recent_turns:
  assumes "summarize_if_needed env p model summarize ms = Inr r \<and> target = compaction_target (unwrap_or 0 (context_budget p))
    \<or> aggressive_compact env p model summarize ms = Inr r \<and> target = aggressive_target env p model ms"
  shows "recent_turns_kept env model target ms r"
  using assms summarize_kept aggressive_kept by metis

lemma compaction_keeps_recent_turns_witness:
  "recent_turns_kept demo_tokens ''m'' 61 (demo_history @ demo_round)
     (take 1 demo_history @ [reference_summary_message ''summary'' 4 ''near-limit recovery''] @ drop 5 (demo_history @ demo_round))"
proof -
  have "aggressive_compact demo_tokens \<lparr> cp_context_window = None, cp_max_response_tokens = 20 \<rparr> ''m'' (\<lambda>_. Inr ''summary'')
      (demo_history @ demo_round)
    = Inr (take 1 demo_history @ [reference_summary_message ''summary'' 4 ''near-limit recovery''] @ drop 5 (demo_history @ demo_round))"
    "61 = aggressive_target demo_tokens \<lparr> cp_context_window = None, cp_max_response_tokens = 20 \<rparr> ''m''
      (demo_history @ demo_round)"
    by code_simp+
  then show ?thesis by (intro compaction_keeps_recent_turns [OF disjI2] conjI)
qed

text \<open>
  An answer-only step sends at most one step directive, the newest one, and every other message
  in its order.
\<close>

theorem answer_only_keeps_newest_directive:
  "let kept = messages_for_model_step ms True
   in length (filter is_step_controller kept) \<le> 1
     \<and> find is_step_controller (rev kept) = find is_step_controller (rev ms)
     \<and> filter (\<lambda>m. \<not> is_step_controller m) kept = filter (\<lambda>m. \<not> is_step_controller m) ms"
  using keep_newest_one [of ms] by (simp add: messages_for_model_step_def Let_def keep_newest_last keep_newest_others)

section \<open>Native state\<close>

definition demo_route :: "reasoning_api_style \<Rightarrow> route_snapshot" where
  "demo_route style = \<lparr> rs_provider_endpoint_id = ''e'', rs_provider_family = ''openai'', rs_api_style = style,
     rs_model_id = ''m'', rs_reasoning_profile_id = ''r'', rs_reasoning_profile_version = 1,
     rs_replay_policy = RequiredOnToolCall \<rparr>"

definition demo_items :: "json list" where
  "demo_items = [JObject [(''type'', JString ''reasoning''), (''id'', JString ''r1''), (''status'', JString ''completed''),
       (''encrypted_content'', JString ''x'')],
     JObject [(''type'', JString ''function_call''), (''id'', JString ''f1''), (''status'', JString ''completed''),
       (''call_id'', JString ''c1''), (''name'', JString ''search''), (''arguments'', JString ''{}'')]]"

definition demo_envelope :: provider_turn_envelope where
  "demo_envelope = capture_with_replay_payload demo_serde (\<lambda>r v i c. ''digest'') ''t'' ''s'' (demo_route OpenAiResponses)
     ''looking'' None None [demo_call] True
     (Some (OpenAiResponseItems \<lparr> rp_response_status = ''completed'', rp_items = demo_items \<rparr>))"

text \<open>
  C11: A turn with tool calls dispatches them only on a route that says what it needs, and where
  the route needs native state or the provider sent some, only with such state. Where the
  state has the form that names calls (response items, Gemini parts), it names call by call the tool,
  the arguments and, where it has one, the id of the call that is dispatched; the blocks of a paused
  turn name none, so no call is dispatched with them. Of the other forms (reasoning text, thinking
  blocks, reasoning details), which have no calls to compare with, only the presence is checked.
\<close>

theorem dispatch_rests_on_native_calls:
  assumes "authorizes_tool_dispatch serde e" "pt_tool_calls e \<noteq> []"
  shows "rs_replay_policy (pt_route e) \<notin> {ReplayForbidden, ReplayUnknown}
    \<and> (if requires_tool_call_payload (rs_replay_policy (pt_route e)) \<or> pt_replay_payload e \<noteq> NoPayload
       then pt_replay_payload e \<noteq> NoPayload
         \<and> (case native_calls serde (pt_replay_payload e) of None \<Rightarrow> payload_is_present serde (pt_replay_payload e)
            | Some native \<Rightarrow> list_all2 (call_agrees serde) native (pt_tool_calls e))
       else rs_replay_policy (pt_route e) = ReplayNotRequired)"
proof -
  let ?policy = "rs_replay_policy (pt_route e)" and ?payload = "pt_replay_payload e"
  have valid: "payload_authorizes_tool_calls serde (pt_route e) (pt_tool_calls e) ?payload"
    if "requires_tool_call_payload ?policy \<or> ?payload \<noteq> NoPayload"
    using assms that by (cases ?policy) (auto simp: authorizes_tool_dispatch_def authorizes_tool_call_def
        requires_tool_call_payload_def Let_def split: if_splits)
  have policy: "?policy \<notin> {ReplayForbidden, ReplayUnknown}"
    using assms by (auto simp: authorizes_tool_dispatch_def authorizes_tool_call_def Let_def)
  have "native_calls serde ?payload = None \<Longrightarrow> payload_authorizes_tool_calls serde (pt_route e) (pt_tool_calls e) ?payload
      \<Longrightarrow> payload_is_present serde ?payload"
    by (cases ?payload) (auto simp: payload_authorizes_tool_calls_def)
  with valid policy payload_authorizes_present [OF _ assms(2)] payload_authorizes_native show ?thesis
    by (cases ?policy) (auto simp: requires_tool_call_payload_def split: option.split)
qed

lemma dispatch_rests_on_native_calls_witness:
  "native_calls demo_serde (pt_replay_payload demo_envelope) = Some [(Some ''c1'', ''search'', Some (JObject []))]
   \<and> rs_replay_policy (pt_route demo_envelope) \<notin> {ReplayForbidden, ReplayUnknown}"
proof -
  have "authorizes_tool_dispatch demo_serde demo_envelope" "pt_tool_calls demo_envelope \<noteq> []" by code_simp+
  moreover have "native_calls demo_serde (pt_replay_payload demo_envelope) = Some [(Some ''c1'', ''search'', Some (JObject []))]"
    by code_simp
  ultimately show ?thesis using dispatch_rests_on_native_calls [of demo_serde demo_envelope] by simp
qed

text \<open>
  What is projected for a route that needs native state has tool calls only on assistant
  messages whose envelope was captured on that route and authorized their dispatch.
\<close>

theorem replayed_calls_have_native_state:
  assumes "requires_tool_call_payload (rs_replay_policy route)"
    "m \<in> set (rj_messages (prepare_provider_replay_history serde ms route))" "is_assistant m" "calls_of m \<noteq> []"
  shows "\<exists>e. provider_turn m = Some e \<and> is_compatible_with e route \<and> authorizes_tool_dispatch serde e"
  using replayed_call [OF assms(1,2)] assms(3,4) by (simp add: starts_tool_unit_def)

lemma replayed_calls_have_native_state_witness:
  "let m = set_provider_turn demo_envelope ((text_message RoleAssistant ''looking'') \<lparr> cm_tool_calls := Some [demo_call] \<rparr>)
   in \<exists>e. provider_turn m = Some e \<and> is_compatible_with e (demo_route OpenAiResponses) \<and> authorizes_tool_dispatch demo_serde e"
  unfolding Let_def
  by (rule replayed_calls_have_native_state [where ms = "[set_provider_turn demo_envelope
        ((text_message RoleAssistant ''looking'') \<lparr> cm_tool_calls := Some [demo_call] \<rparr>), text_with_name RoleTool ''found'' ''c1'']"])
    code_simp+

end
