(* ===== verification/Provider_Fallback.thy ===== *)
theory Provider_Fallback
  imports Model_Attempt Replay_Safety
begin

text \<open>
  The chain of providers of an automatic binding, \<open>crates/core/src/llm/fallback.rs\<close>: which route a
  request takes, when it advances to the next one, and the events its stream hands on.

  A provider is third-party code: a route holds what it answers to a request (the stream it opens,
  as the list of its events, or the completion), its snapshot of a route and who projects histories.
  The selection callback is an argument; the log holds the selections it has committed. The active
  position is shared by all requests of the chain: between two polls of a stream others may move it.
\<close>

section \<open>Routes\<close>

datatype replay_history_projection = ProjectionCaller replay_policy | ProviderSelectedRoute

record 'p completion_request =
  cq_messages :: "message list"
  cq_model :: string
  cq_provider_type :: "'p option"

record ('p, 'x) fallback_route =
  fr_index :: nat
  fr_model :: string
  fr_provider_type :: 'p
  fr_projection :: "'p completion_request \<Rightarrow> replay_history_projection"
  fr_snapshot :: "'p completion_request \<Rightarrow> route_snapshot"
  fr_stream :: "'p completion_request \<Rightarrow> core_error + 'x provider_stream_event list"
  fr_complete :: "'p completion_request \<Rightarrow> core_error + 'x"

type_synonym selection = "nat \<times> nat \<times> string"

record ('p, 'x) fallback_provider =
  fo_routes :: "('p, 'x) fallback_route list"
  fo_active :: nat
  fo_on_selected :: "selection \<Rightarrow> core_error + unit"
  fo_committed :: "selection list"

fun extend_routes :: "('p, 'x) fallback_route list \<Rightarrow> ('p, 'x) fallback_route list
    \<Rightarrow> core_error + ('p, 'x) fallback_route list" where
  "extend_routes routes [] = Inr routes"
| "extend_routes routes (c # cs) = (
     if fr_index c \<le> (if routes = [] then 0 else fr_index (last routes))
     then Inl (CE_InvalidInput ''Automatic fallback candidates must be strictly ordered'')
     else extend_routes (routes @ [c]) cs)"

definition fallback_new :: "('p, 'x) fallback_route \<Rightarrow> ('p, 'x) fallback_route list
    \<Rightarrow> (selection \<Rightarrow> core_error + unit) \<Rightarrow> core_error + ('p, 'x) fallback_provider" where
  "fallback_new primary fallbacks on_selected = res_bind (extend_routes [primary] fallbacks) (\<lambda>routes.
     Inr \<lparr> fo_routes = routes, fo_active = 0, fo_on_selected = on_selected, fo_committed = [] \<rparr>)"

definition active_position :: "('p, 'x) fallback_provider \<Rightarrow> nat" where
  "active_position f = min (fo_active f) (length (fo_routes f) - 1)"

definition addressed :: "('p, 'x) fallback_route \<Rightarrow> 'p completion_request \<Rightarrow> 'p completion_request" where
  "addressed route request = request \<lparr> cq_model := fr_model route, cq_provider_type := Some (fr_provider_type route) \<rparr>"

definition request_for_route ::
  "serde_env \<Rightarrow> ('p, 'x) fallback_provider \<Rightarrow> 'p completion_request \<Rightarrow> nat \<Rightarrow> 'p completion_request" where
  "request_for_route serde f request position = (
     let route = fo_routes f ! position; request' = addressed route request
     in case fr_projection route request' of
          ProviderSelectedRoute \<Rightarrow> request'
        | ProjectionCaller policy \<Rightarrow> request' \<lparr> cq_messages := rj_messages (prepare_provider_replay_history serde
            (cq_messages request') ((fr_snapshot route request') \<lparr> rs_replay_policy := policy \<rparr>)) \<rparr>)"

text \<open>
  The route of the tool loop in progress. The first component of the search says whether the
  message decides, the second one with which route.
\<close>

definition lock_of_message :: "message \<Rightarrow> route_snapshot option option" where
  "lock_of_message m = (
     if cm_role m = RoleAssistant \<and> calls_of m = [] then
       (case provider_turn m of
          None \<Rightarrow> Some None
        | Some e \<Rightarrow> if pt_capture_status e \<in> set [CaptureInterrupted, CaptureTruncated] then None else Some None)
     else case provider_turn m of
       None \<Rightarrow> None
     | Some e \<Rightarrow> if pt_tool_calls e = [] then None else Some (Some (pt_route e)))"

definition locked_route :: "message list \<Rightarrow> route_snapshot option" where
  "locked_route ms = Option.bind (find_map lock_of_message (rev ms)) id"

definition position_of_route ::
  "('p, 'x) fallback_provider \<Rightarrow> 'p completion_request \<Rightarrow> route_snapshot \<Rightarrow> nat option" where
  "position_of_route f request locked = find_map (\<lambda>(position, route).
       if same_route_identity (fr_snapshot route (addressed route request)) locked then Some position else None)
     (enumerate 0 (fo_routes f))"

definition locked_position_for_request ::
  "('p, 'x) fallback_provider \<Rightarrow> 'p completion_request \<Rightarrow> nat option" where
  "locked_position_for_request f request =
     Option.bind (locked_route (cq_messages request)) (position_of_route f request)"

definition route_window :: "('p, 'x) fallback_provider \<Rightarrow> 'p completion_request \<Rightarrow> nat \<times> nat" where
  "route_window f request = (case locked_position_for_request f request of
     Some locked \<Rightarrow> (locked, locked + 1)
   | None \<Rightarrow> (active_position f, length (fo_routes f)))"

definition route_snapshot_of :: "serde_env \<Rightarrow> ('p, 'x) fallback_provider \<Rightarrow> 'p completion_request \<Rightarrow> route_snapshot" where
  "route_snapshot_of serde f request = (
     let position = unwrap_or (active_position f) (locked_position_for_request f request)
     in fr_snapshot (fo_routes f ! position) (request_for_route serde f request position))"

section \<open>Selecting a route\<close>

definition fallback_reason :: "('p, 'x) fallback_provider \<Rightarrow> nat \<Rightarrow> string" where
  "fallback_reason f position = (if fr_index (fo_routes f ! position) = 0
     then ''primary_invocation_failed_automatic_fallback'' else ''fallback_invocation_failed_automatic_fallback'')"

definition selection_of :: "('p, 'x) fallback_provider \<Rightarrow> nat \<Rightarrow> nat \<Rightarrow> selection" where
  "selection_of f from_position to_position =
     (fr_index (fo_routes f ! from_position), fr_index (fo_routes f ! to_position), fallback_reason f from_position)"

definition select_route ::
  "('p, 'x) fallback_provider \<Rightarrow> nat \<Rightarrow> nat \<Rightarrow> ('p, 'x) fallback_provider \<times> (core_error + unit)" where
  "select_route f from_position to_position = (
     if from_position = to_position then (f, Inr ())
     else if fo_active f \<noteq> from_position then
       (f, Inl (CE_Conflict (''Automatic fallback route changed concurrently from ''
          @ nat_to_string from_position @ '' to '' @ nat_to_string (fo_active f))))
     else let selection = selection_of f from_position to_position in
       case fo_on_selected f selection of
         Inl e \<Rightarrow> (f \<lparr> fo_active := from_position \<rparr>, Inl e)
       | Inr u \<Rightarrow> (f \<lparr> fo_active := to_position, fo_committed := fo_committed f @ [selection] \<rparr>, Inr ()))"

definition automatic_fallback_error :: "core_error \<Rightarrow> bool" where
  "automatic_fallback_error e = (case e of
     CE_RateLimited secs \<Rightarrow> True | CE_TransientLlm m \<Rightarrow> True | CE_ProviderUnavailable status m \<Rightarrow> True
   | CE_StreamIncomplete m \<Rightarrow> True | _ \<Rightarrow> False)"

abbreviation exhausted_error :: core_error where
  "exhausted_error \<equiv> CE_TransientLlm ''Automatic fallback chain is exhausted''"

text \<open>
  The loop over the positions of a window, for streams and for completions; \<open>attempt\<close> calls the
  provider at a position.
\<close>

fun first_accepted :: "(nat \<Rightarrow> core_error + 'a) \<Rightarrow> core_error option \<Rightarrow> nat list \<Rightarrow> core_error + nat \<times> 'a" where
  "first_accepted attempt last_retryable [] = Inl (unwrap_or exhausted_error last_retryable)"
| "first_accepted attempt last_retryable (p # ps) = (case attempt p of
     Inr x \<Rightarrow> Inr (p, x)
   | Inl e \<Rightarrow> if automatic_fallback_error e then first_accepted attempt (Some e) ps else Inl e)"

definition stream_at :: "serde_env \<Rightarrow> ('p, 'x) fallback_provider \<Rightarrow> 'p completion_request \<Rightarrow> nat
    \<Rightarrow> core_error + 'x provider_stream_event list" where
  "stream_at serde f request p = fr_stream (fo_routes f ! p) (request_for_route serde f request p)"

definition complete_at :: "serde_env \<Rightarrow> ('p, 'x) fallback_provider \<Rightarrow> 'p completion_request \<Rightarrow> nat \<Rightarrow> core_error + 'x" where
  "complete_at serde f request p = fr_complete (fo_routes f ! p) (request_for_route serde f request p)"

definition open_stream_from :: "serde_env \<Rightarrow> ('p, 'x) fallback_provider \<Rightarrow> 'p completion_request \<Rightarrow> nat \<Rightarrow> nat
    \<Rightarrow> core_error + nat \<times> 'x provider_stream_event list" where
  "open_stream_from serde f request start_position end_position =
     first_accepted (stream_at serde f request) None [start_position..<end_position]"

definition locked_conflict :: core_error where
  "locked_conflict = CE_Conflict ''The provider route changed after this tool loop was locked''"

definition fallback_complete :: "serde_env \<Rightarrow> ('p, 'x) fallback_provider \<Rightarrow> 'p completion_request
    \<Rightarrow> ('p, 'x) fallback_provider \<times> (core_error + 'x)" where
  "fallback_complete serde f request = (case route_window f request of (selected_position, end_position) \<Rightarrow>
     if selected_position \<noteq> active_position f then (f, Inl locked_conflict)
     else case first_accepted (complete_at serde f request) None [selected_position..<end_position] of
       Inl e \<Rightarrow> (f, Inl e)
     | Inr (p, response) \<Rightarrow> (case select_route f selected_position p of
           (f', Inl e) \<Rightarrow> (f', Inl e)
         | (f', Inr u) \<Rightarrow> (f', Inr response)))"

section \<open>Streams\<close>

record ('p, 'x) fallback_stream =
  fs_request :: "'p completion_request"
  fs_selected :: nat
  fs_current :: nat
  fs_end :: nat
  fs_stream :: "'x provider_stream_event list"
  fs_emitted :: bool

definition fallback_stream_events :: "serde_env \<Rightarrow> ('p, 'x) fallback_provider \<Rightarrow> 'p completion_request
    \<Rightarrow> core_error + ('p, 'x) fallback_stream" where
  "fallback_stream_events serde f request = (case route_window f request of (selected_position, end_position) \<Rightarrow>
     if selected_position \<noteq> active_position f then Inl locked_conflict
     else res_bind (open_stream_from serde f request selected_position end_position) (\<lambda>(p, events).
       Inr \<lparr> fs_request = request, fs_selected = selected_position, fs_current = p, fs_end = end_position,
         fs_stream = events, fs_emitted = False \<rparr>))"

definition failure_from_error :: "string \<Rightarrow> core_error \<Rightarrow> provider_stream_failure" where
  "failure_from_error foreign e = (case e of
     CE_Llm m \<Rightarrow> PF_Provider m
   | CE_ProviderUnavailable status m \<Rightarrow> PF_ProviderUnavailable status m
   | CE_RateLimited secs \<Rightarrow> PF_RateLimited secs
   | CE_ContextOverflow prompt_tokens max_tokens \<Rightarrow> PF_ContextOverflow prompt_tokens max_tokens
   | CE_Internal m \<Rightarrow> PF_Internal m
   | _ \<Rightarrow> PF_Internal (core_error_display foreign e))"

definition provider_stream_event_from_error :: "string \<Rightarrow> core_error \<Rightarrow> 'x provider_stream_event" where
  "provider_stream_event_from_error foreign e = (case e of
     CE_StreamIncomplete m \<Rightarrow> PS_RecoverableError m PRC_Provider
   | CE_TransientLlm m \<Rightarrow> PS_RecoverableError m PRC_Network
   | CE_Cancelled m \<Rightarrow> PS_Cancelled m
   | _ \<Rightarrow> PS_TerminalError (failure_from_error foreign e))"

text \<open>Chunks, hosted tools and replay state are output; the source has one arm for each.\<close>

fun is_output :: "'x provider_stream_event \<Rightarrow> bool" where
  "is_output (PS_Chunk c) = True"
| "is_output (PS_HostedTool t) = True"
| "is_output (PS_ReplayState r) = True"
| "is_output _ = False"

fun is_recoverable :: "'x provider_stream_event \<Rightarrow> bool" where
  "is_recoverable (PS_RecoverableError m c) = True"
| "is_recoverable _ = False"

definition refused_retryably :: "(nat \<Rightarrow> core_error + 'a) \<Rightarrow> nat \<Rightarrow> bool" where
  "refused_retryably attempt q = (case attempt q of Inl e \<Rightarrow> automatic_fallback_error e | Inr x \<Rightarrow> False)"

lemma first_accepted_Inr:
  "first_accepted attempt last_retryable [i..<j] = Inr (p, x) \<Longrightarrow>
     i \<le> p \<and> p < j \<and> attempt p = Inr x \<and> list_all (refused_retryably attempt) [i..<p]"
proof (induction "[i..<j]" arbitrary: last_retryable i)
  case (Cons q ps)
  have upt: "q = i" "ps = [Suc i..<j]" "i < j" using Cons(2) [symmetric] by (auto simp add: upt_eq_Cons_conv)
  show ?case
  proof (cases "attempt i")
    case (Inl e)
    with Cons(3) upt have "first_accepted attempt (Some e) [Suc i..<j] = Inr (p, x)" "automatic_fallback_error e"
      by (simp_all add: upt_rec [of i] split: if_splits)
    with Cons(1) [OF upt(2) this(1)] Inl show ?thesis by (simp add: upt_rec [of i] refused_retryably_def)
  next
    case (Inr y)
    with Cons(3) upt show ?thesis by (simp add: upt_rec [of i])
  qed
qed simp

lemma open_stream_range:
  "open_stream_from serde f request i j = Inr (p, events) \<Longrightarrow> i \<le> p \<and> p < j"
  by (auto simp: open_stream_from_def dest: first_accepted_Inr)

text \<open>One poll of the stream: an iteration of the loop in its unfolding.\<close>

type_synonym ('p, 'x) polled = "('p, 'x) fallback_provider \<times> 'x provider_stream_event option \<times> ('p, 'x) fallback_stream option"

definition emit :: "string \<Rightarrow> ('p, 'x) fallback_provider \<Rightarrow> ('p, 'x) fallback_stream \<Rightarrow> 'x provider_stream_event
    \<Rightarrow> ('p, 'x) polled" where
  "emit foreign f s e = (
     if fs_emitted s then (f, Some e, Some s)
     else case select_route f (fs_selected s) (fs_current s) of
       (f', Inl err) \<Rightarrow> (f', Some (PS_TerminalError (failure_from_error foreign err)), None)
     | (f', Inr u) \<Rightarrow> (f', Some e, Some (s \<lparr> fs_selected := fs_current s, fs_emitted := True \<rparr>)))"

function stream_poll :: "serde_env \<Rightarrow> string \<Rightarrow> ('p, 'x) fallback_provider \<Rightarrow> ('p, 'x) fallback_stream \<Rightarrow> ('p, 'x) polled" where
  "stream_poll serde foreign f s = (
     let may_advance = (\<not> fs_emitted s \<and> fs_current s + 1 < fs_end s);
         opened = open_stream_from serde f (fs_request s) (fs_current s + 1) (fs_end s)
     in case fs_stream s of
          e # es \<Rightarrow>
            let rest = s \<lparr> fs_stream := es \<rparr> in
            if is_output e then emit foreign f rest e
            else if is_recoverable e \<and> may_advance then
              (case opened of
                 Inl err \<Rightarrow> (f, Some (provider_stream_event_from_error foreign err), None)
               | Inr (p, events) \<Rightarrow> stream_poll serde foreign f (s \<lparr> fs_current := p, fs_stream := events \<rparr>))
            else (f, Some e, Some rest)
        | [] \<Rightarrow>
            if may_advance then
              (case opened of
                 Inl err \<Rightarrow> (f, Some (provider_stream_event_from_error foreign err), None)
               | Inr (p, events) \<Rightarrow> stream_poll serde foreign f (s \<lparr> fs_current := p, fs_stream := events \<rparr>))
            else if \<not> fs_emitted s then
              (f, Some (PS_RecoverableError ''Provider stream ended before producing output'' PRC_Provider), None)
            else (f, None, None))"
  by pat_completeness auto
termination
  by (relation "measure (\<lambda>(serde, foreign, f, s). fs_end s - fs_current s)") (auto dest!: open_stream_range [OF sym])

declare stream_poll.simps [simp del]

text \<open>
  Polls until the stream ends; before each poll, others may have moved the active position and
  committed selections of their own.
\<close>

type_synonym move = "(nat \<times> selection list) option"

definition moved :: "move \<Rightarrow> ('p, 'x) fallback_provider \<Rightarrow> ('p, 'x) fallback_provider" where
  "moved move f = (case move of
     None \<Rightarrow> f
   | Some (position, selections) \<Rightarrow> f \<lparr> fo_active := position, fo_committed := fo_committed f @ selections \<rparr>)"

fun stream_polls :: "serde_env \<Rightarrow> string \<Rightarrow> move list \<Rightarrow> ('p, 'x) fallback_provider \<Rightarrow> ('p, 'x) fallback_stream option
    \<Rightarrow> ('p, 'x) fallback_provider \<times> 'x provider_stream_event list" where
  "stream_polls serde foreign moves f None = (f, [])"
| "stream_polls serde foreign [] f (Some s) = (f, [])"
| "stream_polls serde foreign (move # moves) f (Some s) = (
     case stream_poll serde foreign (moved move f) s of
       (f', event, next_state) \<Rightarrow> (case stream_polls serde foreign moves f' next_state of
         (f'', events) \<Rightarrow> (f'', (case event of None \<Rightarrow> events | Some e \<Rightarrow> e # events))))"

end
