(* ===== verification/Fallback_Properties.thy ===== *)
theory Fallback_Properties
  imports Provider_Fallback
begin

text \<open>
  What the chain of providers shows: the events of a stream come from one route, whose selection is
  committed before the first of them is handed on, a tool loop stays on its route, and the active
  position only advances.
\<close>

section \<open>What selecting a route changes\<close>

lemma select_route_frame:
  "select_route f i j = (f', r) \<Longrightarrow> fo_routes f' = fo_routes f \<and> fo_on_selected f' = fo_on_selected f"
  by (auto simp: select_route_def Let_def split: if_splits sum.splits)

lemma select_route_ok:
  "select_route f i j = (f', Inr ()) \<Longrightarrow> i = j \<and> f' = f
     \<or> i \<noteq> j \<and> fo_active f = i \<and> fo_active f' = j \<and> fo_on_selected f (selection_of f i j) = Inr ()
       \<and> fo_committed f' = fo_committed f @ [selection_of f i j]"
  by (auto simp: select_route_def Let_def split: if_splits sum.splits)

lemma select_route_error:
  "select_route f i j = (f', Inl e) \<Longrightarrow> f' = f"
  by (auto simp: select_route_def Let_def split: if_splits sum.splits)

lemma routes_cong:
  assumes "fo_routes f' = fo_routes f"
  shows "request_for_route serde f' = request_for_route serde f" "stream_at serde f' = stream_at serde f"
    "complete_at serde f' = complete_at serde f" "selection_of f' = selection_of f"
proof -
  show request: "request_for_route serde f' = request_for_route serde f"
    by (rule ext)+ (simp add: request_for_route_def assms)
  show "stream_at serde f' = stream_at serde f" by (rule ext)+ (simp add: stream_at_def request assms)
  show "complete_at serde f' = complete_at serde f" by (rule ext)+ (simp add: complete_at_def request assms)
  show "selection_of f' = selection_of f"
    by (rule ext)+ (simp add: selection_of_def fallback_reason_def assms)
qed

section \<open>Polls\<close>

text \<open>A stream that has not emitted output: none has been read from its current route either.\<close>

definition quiet :: "serde_env \<Rightarrow> ('p, 'x) fallback_provider \<Rightarrow> ('p, 'x) fallback_stream \<Rightarrow> bool" where
  "quiet serde f s \<longleftrightarrow> \<not> fs_emitted s \<and> fs_selected s \<le> fs_current s \<and> fs_current s < fs_end s
     \<and> (\<exists>events. stream_at serde f (fs_request s) (fs_current s) = Inr events
        \<and> filter is_output events = filter is_output (fs_stream s))"

definition same_call :: "('p, 'x) fallback_stream \<Rightarrow> ('p, 'x) fallback_stream \<Rightarrow> bool" where
  "same_call s t \<longleftrightarrow> fs_request t = fs_request s \<and> fs_end t = fs_end s"

definition first_output :: "serde_env \<Rightarrow> ('p, 'x) fallback_provider \<Rightarrow> ('p, 'x) fallback_stream \<Rightarrow> ('p, 'x) polled \<Rightarrow> bool" where
  "first_output serde f s r \<longleftrightarrow> (\<exists>f' e t events. r = (f', Some e, Some t) \<and> is_output e \<and> fs_emitted t
     \<and> stream_at serde f (fs_request s) (fs_current t) = Inr events
     \<and> filter is_output events = e # filter is_output (fs_stream t)
     \<and> fs_selected s \<le> fs_current t \<and> fs_current t < fs_end s
     \<and> (fs_current t = fs_selected s \<and> f' = f
        \<or> fo_active f = fs_selected s \<and> fo_active f' = fs_current t
          \<and> fo_committed f' = fo_committed f @ [selection_of f (fs_selected s) (fs_current t)]))"

definition no_output :: "serde_env \<Rightarrow> ('p, 'x) fallback_provider \<Rightarrow> ('p, 'x) fallback_stream \<Rightarrow> ('p, 'x) polled \<Rightarrow> bool" where
  "no_output serde f s r \<longleftrightarrow> (\<exists>ev s'. r = (f, ev, s') \<and> (\<forall>e \<in> set_option ev. \<not> is_output e)
     \<and> (\<forall>t \<in> set_option s'. quiet serde f t \<and> same_call s t \<and> fs_selected t = fs_selected s))"

lemma advanced_quiet:
  assumes "quiet serde f s"
    "open_stream_from serde f (fs_request s) (fs_current s + 1) (fs_end s) = Inr (p, events)"
  shows "quiet serde f (s \<lparr> fs_current := p, fs_stream := events \<rparr>)"
proof -
  have "fs_current s + 1 \<le> p" "p < fs_end s" "stream_at serde f (fs_request s) p = Inr events"
    using assms(2) first_accepted_Inr unfolding open_stream_from_def by fast+
  with assms(1) show ?thesis by (auto simp: quiet_def)
qed

lemma error_event_quiet: "\<not> is_output (provider_stream_event_from_error foreign e)"
  by (cases e) (simp_all add: provider_stream_event_from_error_def)

lemma emit_first:
  assumes "quiet serde f s" "fs_stream s = e # es" "is_output e"
  shows "first_output serde f s (emit foreign f (s \<lparr> fs_stream := es \<rparr>) e)
    \<or> no_output serde f s (emit foreign f (s \<lparr> fs_stream := es \<rparr>) e)"
proof (cases "select_route f (fs_selected s) (fs_current s)")
  case (Pair f' r)
  show ?thesis
  proof (cases r)
    case (Inl err)
    then show ?thesis using Pair select_route_error [of f "fs_selected s" "fs_current s" f' err] assms(1)
      by (simp add: emit_def no_output_def quiet_def)
  next
    case (Inr u)
    then show ?thesis using Pair select_route_ok [of f "fs_selected s" "fs_current s" f'] assms
      by (auto simp: emit_def first_output_def quiet_def)
  qed
qed

lemma first_output_cong:
  "\<lbrakk> first_output serde f t r; same_call s t; fs_selected t = fs_selected s \<rbrakk> \<Longrightarrow> first_output serde f s r"
  by (auto simp: first_output_def same_call_def)

lemma no_output_cong:
  "\<lbrakk> no_output serde f t r; same_call s t; fs_selected t = fs_selected s \<rbrakk> \<Longrightarrow> no_output serde f s r"
  by (auto simp: no_output_def same_call_def)

lemma poll_quiet:
  "quiet serde f s \<Longrightarrow> first_output serde f s (stream_poll serde foreign f s) \<or> no_output serde f s (stream_poll serde foreign f s)"
proof (induction "fs_end s - fs_current s" arbitrary: s rule: less_induct)
  case (less s)
  let ?opened = "open_stream_from serde f (fs_request s) (fs_current s + 1) (fs_end s)"
  let ?advance = "fs_current s + 1 < fs_end s"
  have not_emitted: "\<not> fs_emitted s" using less(2) by (simp add: quiet_def)
  have failed: "no_output serde f s (f, Some (provider_stream_event_from_error foreign e), None)" for e
    by (simp add: no_output_def error_event_quiet)
  have advanced: "first_output serde f s (stream_poll serde foreign f (s \<lparr> fs_current := p, fs_stream := events \<rparr>))
      \<or> no_output serde f s (stream_poll serde foreign f (s \<lparr> fs_current := p, fs_stream := events \<rparr>))"
    if "?opened = Inr (p, events)" "?advance" for p events
  proof -
    let ?t = "s \<lparr> fs_current := p, fs_stream := events \<rparr>"
    have "fs_end ?t - fs_current ?t < fs_end s - fs_current s" 
      using open_stream_range [OF that(1)] by (simp add: diff_less_mono2 Suc_le_lessD)
    from less(1) [OF this advanced_quiet [OF less(2) that(1)]]
    have "first_output serde f ?t (stream_poll serde foreign f ?t) \<or> no_output serde f ?t (stream_poll serde foreign f ?t)" .
    moreover have "same_call s ?t" "fs_selected ?t = fs_selected s" by (simp_all add: same_call_def)
    ultimately show ?thesis using first_output_cong no_output_cong by blast
  qed
  show ?case
  proof (cases "fs_stream s")
    case Nil
    show ?thesis
    proof (cases ?advance)
      case True
      show ?thesis
      proof (cases ?opened)
        case (Inl e)
        with Nil True not_emitted failed show ?thesis by (simp add: stream_poll.simps [of serde foreign f s])
      next
        case (Inr r)
        then obtain p events where r: "?opened = Inr (p, events)" by (cases r) simp
        with Nil True not_emitted advanced [OF r True] show ?thesis by (simp add: stream_poll.simps [of serde foreign f s])
      qed
    next
      case False
      with Nil not_emitted show ?thesis by (simp add: stream_poll.simps [of serde foreign f s] no_output_def)
    qed
  next
    case (Cons e es)
    show ?thesis
    proof (cases "is_output e")
      case True
      with Cons emit_first [OF less(2) Cons True] show ?thesis by (simp add: stream_poll.simps [of serde foreign f s])
    next
      case no_out: False
      have rest: "no_output serde f s (f, Some e, Some (s \<lparr> fs_stream := es \<rparr>))"
        using less(2) Cons no_out by (auto simp: no_output_def quiet_def same_call_def)
      show ?thesis
      proof (cases "is_recoverable e \<and> ?advance")
        case True
        show ?thesis
        proof (cases ?opened)
          case (Inl err)
          with Cons no_out True not_emitted failed show ?thesis by (simp add: stream_poll.simps [of serde foreign f s])
        next
          case (Inr r)
          then obtain p events where r: "?opened = Inr (p, events)" by (cases r) simp
          with Cons no_out True not_emitted advanced [OF r] show ?thesis by (simp add: stream_poll.simps [of serde foreign f s])
        qed
      next
        case False
        with Cons no_out not_emitted rest show ?thesis by (auto simp: stream_poll.simps [of serde foreign f s])
      qed
    qed
  qed
qed

lemma poll_emitted:
  "fs_emitted s \<Longrightarrow> stream_poll serde foreign f s = (case fs_stream s of
     [] \<Rightarrow> (f, None, None) | e # es \<Rightarrow> (f, Some e, Some (s \<lparr> fs_stream := es \<rparr>)))"
  by (simp add: stream_poll.simps [of serde foreign f s] emit_def Let_def split: list.splits)

lemma moved_routes [simp]: "fo_routes (moved move f) = fo_routes f"
  by (simp add: moved_def split: option.splits)

lemma moved_committed: "set (fo_committed f) \<subseteq> set (fo_committed (moved move f))"
  by (auto simp: moved_def split: option.splits)

section \<open>A whole stream\<close>

lemma polls_emitted:
  "fs_emitted s \<Longrightarrow> stream_polls serde foreign moves f (Some s) = (f', events) \<Longrightarrow>
     prefix events (fs_stream s) \<and> set (fo_committed f) \<subseteq> set (fo_committed f') \<and> fo_routes f' = fo_routes f"
proof (induction moves arbitrary: f s f' events)
  case (Cons move moves)
  show ?case
  proof (cases "fs_stream s")
    case Nil
    with Cons.prems have "f' = moved move f" "events = []" by (simp_all add: poll_emitted)
    then show ?thesis using moved_committed by simp
  next
    case (Cons e es)
    let ?t = "s \<lparr> fs_stream := es \<rparr>"
    obtain f'' events' where run: "stream_polls serde foreign moves (moved move f) (Some ?t) = (f'', events')"
      by (cases "stream_polls serde foreign moves (moved move f) (Some ?t)") simp
    then have "f' = f''" "events = e # events'"
      using Cons Cons.prems by (simp_all add: poll_emitted)
    with Cons.IH [OF _ run] Cons Cons.prems moved_committed [of f move] show ?thesis by auto
  qed
qed simp

definition one_route :: "serde_env \<Rightarrow> ('p, 'x) fallback_provider \<Rightarrow> ('p, 'x) fallback_stream
    \<Rightarrow> ('p, 'x) fallback_provider \<Rightarrow> 'x provider_stream_event list \<Rightarrow> bool" where
  "one_route serde f s f' output \<longleftrightarrow> output = [] \<or> (\<exists>p events. fs_selected s \<le> p \<and> p < fs_end s
     \<and> stream_at serde f (fs_request s) p = Inr events \<and> prefix output (filter is_output events)
     \<and> (p = fs_selected s \<or> selection_of f (fs_selected s) p \<in> set (fo_committed f')))"

lemma filter_prefix: "prefix xs ys \<Longrightarrow> prefix (filter P xs) (filter P ys)"
  by (auto simp: prefix_def)

lemma quiet_cong:
  assumes "fo_routes f' = fo_routes f"
  shows "quiet serde f' s = quiet serde f s"
  by (simp add: quiet_def routes_cong(2) [OF assms])

lemma one_route_cong:
  "\<lbrakk> one_route serde f t f' output; fo_routes f = fo_routes g; same_call s t; fs_selected t = fs_selected s \<rbrakk>
     \<Longrightarrow> one_route serde g s f' output"
  using routes_cong(2) [of f g serde] routes_cong(4) [of f g] by (simp add: one_route_def same_call_def)

lemma polls_one_route:
  "\<lbrakk> quiet serde f s; stream_polls serde foreign moves f (Some s) = (f', events) \<rbrakk>
     \<Longrightarrow> one_route serde f s f' (filter is_output events)"
proof (induction moves arbitrary: f s f' events)
  case Nil
  then show ?case by (simp add: one_route_def)
next
  case (Cons move moves)
  let ?g = "moved move f"
  have quiet: "quiet serde ?g s" using Cons.prems(1) by (simp add: quiet_cong [of ?g f])
  obtain g' ev t where polled: "stream_poll serde foreign ?g s = (g', ev, t)" by (metis prod_cases3)
  obtain f'' events' where run: "stream_polls serde foreign moves g' t = (f'', events')" by fastforce
  from Cons.prems(2) polled run
  have result: "f' = f''" "events = (case ev of None \<Rightarrow> events' | Some e \<Rightarrow> e # events')" by simp_all
  from poll_quiet [OF quiet, of foreign] polled consider
    (first) "first_output serde ?g s (g', ev, t)" | (none) "no_output serde ?g s (g', ev, t)" by auto
  then show ?case
  proof cases
    case first
    then obtain e u es where e: "ev = Some e" "t = Some u" "is_output e" "fs_emitted u"
      "stream_at serde ?g (fs_request s) (fs_current u) = Inr es" "filter is_output es = e # filter is_output (fs_stream u)"
      "fs_selected s \<le> fs_current u" "fs_current u < fs_end s"
      "fs_current u = fs_selected s \<or> selection_of ?g (fs_selected s) (fs_current u) \<in> set (fo_committed g')"
      by (auto simp: first_output_def)
    from polls_emitted [OF e(4)] run e(2) have "prefix events' (fs_stream u)"
      "set (fo_committed g') \<subseteq> set (fo_committed f'')" by auto
    with e filter_prefix [of events' "fs_stream u" is_output] result routes_cong(2) [of ?g f serde] routes_cong(4) [of ?g f]
    show ?thesis unfolding one_route_def by (intro disjI2 exI [of _ "fs_current u"] exI [of _ es]) auto
  next
    case none
    then have same: "g' = ?g" and ev: "filter is_output events = filter is_output events'"
      and next': "\<And>u. t = Some u \<Longrightarrow> quiet serde ?g u \<and> same_call s u \<and> fs_selected u = fs_selected s"
      using result by (auto simp: no_output_def split: option.splits)
    show ?thesis
    proof (cases t)
      case None
      with run ev show ?thesis by (simp add: one_route_def)
    next
      case (Some u)
      with Cons.IH [of ?g u f'' events'] next' run same have "one_route serde ?g u f'' (filter is_output events')" by simp
      with one_route_cong [of serde ?g u f'' _ f s] next' [OF Some] result ev show ?thesis by simp
    qed
  qed
qed

section \<open>Requests of the chain\<close>

definition in_window :: "('p, 'x) fallback_provider \<Rightarrow> 'p completion_request \<Rightarrow> nat \<Rightarrow> bool" where
  "in_window f request p \<longleftrightarrow> (case locked_position_for_request f request of
     Some locked \<Rightarrow> p = locked | None \<Rightarrow> active_position f \<le> p \<and> p < length (fo_routes f))"

lemma window_positions:
  "route_window f request = (i, j) \<Longrightarrow> i \<le> p \<Longrightarrow> p < j \<Longrightarrow> in_window f request p"
  by (auto simp: route_window_def in_window_def split: option.splits)

lemma stream_starts_quiet:
  assumes "fallback_stream_events serde f request = Inr s"
  shows "quiet serde f s \<and> fs_request s = request \<and> fs_selected s = active_position f
    \<and> route_window f request = (active_position f, fs_end s)"
proof -
  obtain i j where w: "route_window f request = (i, j)" by (cases "route_window f request")
  with assms obtain p events where opened: "open_stream_from serde f request i j = Inr (p, events)"
    and i: "i = active_position f" and s: "s = \<lparr> fs_request = request, fs_selected = i, fs_current = p, fs_end = j,
      fs_stream = events, fs_emitted = False \<rparr>"
    by (auto simp: fallback_stream_events_def split: if_splits)
  from first_accepted_Inr [OF opened [unfolded open_stream_from_def]] show ?thesis
    by (simp add: s w i quiet_def)
qed

lemma find_map_append: "find_map f (xs @ ys) = opt_or (find_map f xs) (find_map f ys)"
  by (induction xs) (simp_all add: opt_or_def split: option.splits)

lemma find_map_all_None: "\<forall>x \<in> set xs. f x = None \<Longrightarrow> find_map f xs = None"
  by (simp add: find_map_None_iff)

lemma tool_loop_lock:
  assumes "calls_of m \<noteq> []" "provider_turn m = Some e" "pt_tool_calls e \<noteq> []" "\<forall>x \<in> set later. lock_of_message x = None"
  shows "locked_route (earlier @ m # later) = Some (pt_route e)"
  using assms find_map_all_None [of "rev later" lock_of_message]
  by (simp add: locked_route_def find_map_append opt_or_def lock_of_message_def)

section \<open>Properties\<close>

definition demo_provider :: "nat \<Rightarrow> core_error + nat provider_stream_event list \<Rightarrow> core_error + nat \<Rightarrow> (nat, nat) fallback_route" where
  "demo_provider i events response = \<lparr> fr_index = i, fr_model = ''m'' @ nat_to_string i, fr_provider_type = i,
     fr_projection = (\<lambda>request. ProjectionCaller RequiredOnToolCall),
     fr_snapshot = (\<lambda>request. route_unknown ''p'' (cq_model request) RequiredOnToolCall),
     fr_stream = (\<lambda>request. events), fr_complete = (\<lambda>request. response) \<rparr>"

definition demo_chunk :: "string \<Rightarrow> nat provider_stream_event" where
  "demo_chunk t = PS_Chunk \<lparr> ck_delta = t, ck_tool_call_delta = None, ck_thinking_delta = None \<rparr>"

definition demo_chain :: "nat provider_stream_event list \<Rightarrow> (nat, nat) fallback_provider" where
  "demo_chain first_events = \<lparr> fo_routes = [demo_provider 0 (Inr first_events) (Inl (CE_RateLimited 3)),
       demo_provider 2 (Inr [demo_chunk ''a'', demo_chunk ''b'']) (Inr 7)],
     fo_active = 0, fo_on_selected = (\<lambda>s. Inr ()), fo_committed = [] \<rparr>"

definition demo_parser :: serde_env where
  "demo_parser = \<lparr> sd_json = (\<lambda>t. if t = ''{}'' then Some (JObject []) else None), sd_anthropic = (\<lambda>_. None),
     sd_responses = (\<lambda>_. None), sd_gemini = (\<lambda>_. None) \<rparr>"

definition demo_request :: "message list \<Rightarrow> nat completion_request" where
  "demo_request ms = \<lparr> cq_messages = ms, cq_model = ''m0'', cq_provider_type = None \<rparr>"

definition demo_open :: "(nat, nat) fallback_stream" where
  "demo_open = \<lparr> fs_request = demo_request [], fs_selected = 0, fs_current = 0, fs_end = 2,
     fs_stream = [PS_RecoverableError ''reset'' PRC_Network], fs_emitted = False \<rparr>"

text \<open>
  C10: Whatever the providers answer and however other requests move the active position between two
  polls, all the output of a stream comes from one route, in the order of that route's stream. The
  route is the one the tool loop is locked to, or one of those from the active route on, and when it
  is not the active route its selection has been committed.
\<close>

theorem fallback_output_from_one_route:
  assumes "fallback_stream_events serde f request = Inr s"
    "stream_polls serde foreign moves f (Some s) = (f', events)" "filter is_output events \<noteq> []"
  shows "\<exists>p emitted. in_window f request p \<and> stream_at serde f request p = Inr emitted
    \<and> prefix (filter is_output events) (filter is_output emitted)
    \<and> (p = active_position f \<or> selection_of f (active_position f) p \<in> set (fo_committed f'))"
proof -
  from stream_starts_quiet [OF assms(1)] have s: "quiet serde f s" "fs_request s = request"
    "fs_selected s = active_position f" "route_window f request = (active_position f, fs_end s)" by simp_all
  from polls_one_route [OF s(1) assms(2)] assms(3) s(2,3) window_positions [OF s(4)] show ?thesis
    unfolding one_route_def by metis
qed

lemma fallback_output_from_one_route_witness:
  "\<exists>p emitted. in_window (demo_chain [PS_RecoverableError ''reset'' PRC_Network]) (demo_request []) p
    \<and> stream_at demo_parser (demo_chain [PS_RecoverableError ''reset'' PRC_Network]) (demo_request []) p = Inr emitted
    \<and> prefix (filter is_output [demo_chunk ''a'', demo_chunk ''b'']) (filter is_output emitted)
    \<and> (p = active_position (demo_chain [PS_RecoverableError ''reset'' PRC_Network])
       \<or> selection_of (demo_chain [PS_RecoverableError ''reset'' PRC_Network])
           (active_position (demo_chain [PS_RecoverableError ''reset'' PRC_Network])) p
         \<in> set [(0, 2, ''primary_invocation_failed_automatic_fallback'')])"
proof -
  let ?f = "demo_chain [PS_RecoverableError ''reset'' PRC_Network]"
  let ?polled = "stream_polls demo_parser [] [None, None, None] ?f (Some demo_open)"
  have opened: "fallback_stream_events demo_parser ?f (demo_request []) = Inr demo_open" by code_simp
  have "snd ?polled = [demo_chunk ''a'', demo_chunk ''b'']" by code_simp
  then have polled: "?polled = (fst ?polled, [demo_chunk ''a'', demo_chunk ''b''])" by (metis prod.collapse)
  have committed: "fo_committed (fst ?polled) = [(0, 2, ''primary_invocation_failed_automatic_fallback'')]" by code_simp
  have "filter is_output [demo_chunk ''a'', demo_chunk ''b''] \<noteq> []" by (simp add: demo_chunk_def)
  from fallback_output_from_one_route [OF opened polled this] committed show ?thesis by simp
qed

text \<open>
  A completion returns the answer of the first route of its window that gives one, after every
  route before it has refused with an error that permits a fallback, and commits the selection of
  that route; an error leaves the chain as it was.
\<close>

theorem fallback_completes_on_first_route:
  "case fallback_complete serde f request of
     (f', Inl e) \<Rightarrow> f' = f
   | (f', Inr response) \<Rightarrow> \<exists>p. in_window f request p \<and> complete_at serde f request p = Inr response
       \<and> list_all (refused_retryably (complete_at serde f request)) [active_position f..<p]
       \<and> (if p = active_position f then f' = f
          else fo_active f' = p \<and> fo_committed f' = fo_committed f @ [selection_of f (active_position f) p])"
proof -
  obtain i j where w: "route_window f request = (i, j)" by (cases "route_window f request")
  show ?thesis
  proof (cases "i = active_position f")
    case False
    with w show ?thesis by (simp add: fallback_complete_def)
  next
    case True
    show ?thesis
    proof (cases "first_accepted (complete_at serde f request) None [i..<j]")
      case (Inl e)
      with w True show ?thesis by (simp add: fallback_complete_def)
    next
      case (Inr r)
      then obtain p response where r: "r = (p, response)"
        and first: "first_accepted (complete_at serde f request) None [i..<j] = Inr (p, response)" by (cases r) simp
      obtain f' u where selected: "select_route f i p = (f', u)" by (cases "select_route f i p")
      from first_accepted_Inr [OF first] have p: "i \<le> p" "p < j" "complete_at serde f request p = Inr response"
        "list_all (refused_retryably (complete_at serde f request)) [i..<p]" by simp_all
      show ?thesis
      proof (cases u)
        case (Inl e)
        with w True first selected select_route_error [of f i p f'] show ?thesis by (simp add: fallback_complete_def)
      next
        case (Inr v)
        have "if p = i then f' = f else fo_active f' = p \<and> fo_committed f' = fo_committed f @ [selection_of f i p]"
          using select_route_ok [of f i p f'] selected Inr by auto
        with w True first selected Inr p window_positions [OF w p(1,2)] show ?thesis
          by (simp add: fallback_complete_def) (intro exI [of _ p], auto)
      qed
    qed
  qed
qed

text \<open>
  C14: While a tool loop is in progress, after an assistant turn with calls and captured calls that
  only messages follow that do not decide a route, the chain is looked up for the route of that
  turn. When it has the route, a completion asks no other one and nothing else changes; when the
  active position has moved away from it, the completion refuses with a conflict. When the chain has
  the route no longer, the request is not locked: its window is the active route and all behind it.
\<close>

theorem tool_loop_stays_on_route:
  assumes "cq_messages request = earlier @ m # later" "calls_of m \<noteq> []" "provider_turn m = Some e"
    "pt_tool_calls e \<noteq> []" "\<forall>x \<in> set later. lock_of_message x = None"
  shows "case position_of_route f request (pt_route e) of
      Some p \<Rightarrow> fallback_complete serde f request
        = (f, if p = active_position f then complete_at serde f request p else Inl locked_conflict)
    | None \<Rightarrow> route_window f request = (active_position f, length (fo_routes f))"
proof -
  have locked: "locked_position_for_request f request = position_of_route f request (pt_route e)"
    using tool_loop_lock [OF assms(2-5), of earlier] assms(1) by (simp add: locked_position_for_request_def)
  show ?thesis
  proof (cases "position_of_route f request (pt_route e)")
    case None
    with locked show ?thesis by (simp add: route_window_def)
  next
    case (Some p)
    with locked have "route_window f request = (p, p + 1)" by (simp add: route_window_def)
    with Some show ?thesis by (simp add: fallback_complete_def select_route_def split: sum.splits)
  qed
qed

definition demo_tool_turn :: message where
  "demo_tool_turn = (let calls = [\<lparr> tc_id = ''c'', tc_name = ''n'', tc_arguments = ''{}'', tc_thought_signature = None \<rparr>] in
     set_provider_turn (capture_envelope demo_parser (\<lambda>r v i c. ''d'') ''t'' ''s''
       (route_unknown ''p'' ''m2'' RequiredOnToolCall) ''x'' None None calls True)
     ((text_message RoleAssistant ''x'') \<lparr> cm_tool_calls := Some calls \<rparr>))"

lemma tool_loop_stays_on_route_witness:
  "fallback_complete demo_parser (demo_chain []) (demo_request [demo_tool_turn, text_with_name RoleTool ''r'' ''c''])
   = (demo_chain [], Inl locked_conflict)"
proof -
  let ?r = "demo_request [demo_tool_turn, text_with_name RoleTool ''r'' ''c'']"
  obtain e where e: "provider_turn demo_tool_turn = Some e" "pt_tool_calls e \<noteq> []"
    "position_of_route (demo_chain []) ?r (pt_route e) = Some 1"
  proof
    show "provider_turn demo_tool_turn = Some (the (provider_turn demo_tool_turn))" by code_simp
  qed code_simp+
  have "calls_of demo_tool_turn \<noteq> []" "\<forall>x \<in> set [text_with_name RoleTool ''r'' ''c'']. lock_of_message x = None" by code_simp+
  from tool_loop_stays_on_route [OF _ this(1) e(1,2) this(2), where earlier = "[]", of ?r "demo_chain []" demo_parser] e(3)
  show ?thesis by (simp add: demo_request_def active_position_def demo_chain_def)
qed

text \<open>
  A request that passes the provider boundary passes it too in the form it has on each route.
\<close>

theorem route_requests_accepted:
  assumes "validate_provider_request serde (cq_messages request) provider model = Inr ()"
  shows "validate_provider_request serde (cq_messages (request_for_route serde f request p)) provider' model' = Inr ()"
  using assms
  by (auto simp: validate_provider_request_def validate_iff_replay_safe request_for_route_def addressed_def Let_def
      provider_projection_safe split: replay_history_projection.split)

lemma route_requests_accepted_witness:
  "validate_provider_request demo_parser (cq_messages (request_for_route demo_parser (demo_chain [])
     (demo_request [text_message RoleUser ''hi'', demo_tool_turn, text_with_name RoleTool ''r'' ''c'']) 1)) ''p'' ''m'' = Inr ()"
  by (rule route_requests_accepted [where provider = "''p''" and model = "''m''"]) code_simp

section \<open>After an event that ends the stream\<close>

text \<open>
  A stream that has handed on a terminal error and is polled again goes to the next route: the end
  of the stream of the failed route counts as a stream without output.
\<close>

lemma stream_continues_after_terminal_error:
  "snd (stream_polls demo_parser [] [None, None] (demo_chain [PS_TerminalError (PF_Provider ''denied'')])
     (Some \<lparr> fs_request = demo_request [], fs_selected = 0, fs_current = 0, fs_end = 2,
        fs_stream = [PS_TerminalError (PF_Provider ''denied'')], fs_emitted = False \<rparr>))
   = [PS_TerminalError (PF_Provider ''denied''), demo_chunk ''a'']"
  by code_simp

end
