(* ===== verification/Output_Recovery.thy ===== *)
theory Output_Recovery
  imports Prompt_Compile "HOL-Library.While_Combinator"
begin

text \<open>
  What happens to a model step whose output is not complete, \<open>crates/core/src/agent/output_recovery.rs\<close>,
  and the messages the turn loop continues with, \<open>agent/turn_loop.rs\<close>.

  The source works on bytes. A byte overlap of two texts ends at the end of a character of the first
  one, so the model counts characters, and the tests for a character boundary hold.
\<close>

section \<open>The longest overlap\<close>

text \<open>
  The search with failure links: \<open>links ! i\<close> is the length of the longest proper border of the first
  \<open>i + 1\<close> elements of the pattern.
\<close>

definition fall_back :: "'a list \<Rightarrow> nat list \<Rightarrow> 'a \<Rightarrow> nat \<Rightarrow> nat" where
  "fall_back pattern links c matched =
     while (\<lambda>m. 0 < m \<and> c \<noteq> pattern ! m) (\<lambda>m. links ! (m - 1)) matched"

definition link_step :: "'a list \<Rightarrow> nat list \<times> nat \<Rightarrow> nat \<Rightarrow> nat list \<times> nat" where
  "link_step pattern s i = (case s of (links, matched) \<Rightarrow>
     let m = fall_back pattern links (pattern ! i) matched
     in if pattern ! i = pattern ! m then (links[i := m + 1], m + 1) else (links, m))"

definition prefix_lengths :: "'a list \<Rightarrow> nat list" where
  "prefix_lengths pattern =
     fst (foldl (link_step pattern) (replicate (length pattern) 0, 0) [1..<length pattern])"

fun scan_tail :: "'a list \<Rightarrow> nat list \<Rightarrow> nat \<Rightarrow> 'a list \<Rightarrow> nat" where
  "scan_tail pattern links matched [] = matched"
| "scan_tail pattern links matched (c # cs) = (
     let m = fall_back pattern links c matched
     in if c = pattern ! m then
          (if m + 1 = length pattern
           then (if cs = [] then m + 1 else scan_tail pattern links (links ! m) cs)
           else scan_tail pattern links (m + 1) cs)
        else scan_tail pattern links m cs)"

definition longest_suffix_prefix_overlap :: "'a list \<Rightarrow> 'a list \<Rightarrow> nat" where
  "longest_suffix_prefix_overlap existing fragment = (
     if fragment = [] \<or> existing = [] then 0
     else scan_tail fragment (prefix_lengths fragment) 0 (drop (length existing - length fragment) existing))"

text \<open>The grown text and what is new in it.\<close>

definition append_with_overlap :: "string \<Rightarrow> string \<Rightarrow> string \<times> string" where
  "append_with_overlap existing fragment = (
     let novel = drop (longest_suffix_prefix_overlap existing fragment) fragment
     in (existing @ novel, novel))"

section \<open>Acknowledgements\<close>

definition CONTINUATION_ACK_PREFIX :: string where "CONTINUATION_ACK_PREFIX = ''<nexa-continuation-ack:''"

definition continuation_ack :: "u32 \<Rightarrow> string" where
  "continuation_ack n = CONTINUATION_ACK_PREFIX @ nat_to_string (unat n) @ ''>''"

definition strip_expected_continuation_ack :: "string \<Rightarrow> string option \<Rightarrow> string \<times> bool" where
  "strip_expected_continuation_ack content expected = (case expected of
     None \<Rightarrow> (content, False)
   | Some ack \<Rightarrow> (case strip_prefix (trim_start content) ack of
         None \<Rightarrow> (content, False)
       | Some rest \<Rightarrow> (unwrap_or rest (opt_or (strip_prefix rest [CHR 0x0D, CHR 0x0A]) (strip_prefix rest [CHR 0x0A])), True)))"

section \<open>State\<close>

datatype finish_reason =
    FinishStop | FinishLength | FinishToolCalls | FinishContentFilter | FinishProviderPause | FinishContextLimit
  | FinishMalformedToolCall | FinishProtocolIncomplete | FinishUnknown string | FinishOther

datatype continuation_commit = Committed string | CommittedWhitespace string | AmbiguousReplay | CommitEmpty

datatype recovery_cause = CauseOutputLimit | CauseEmptyTerminal | CauseProviderPause | CauseContextLimit

datatype recovery_failure =
    FailContentFiltered | FailOutputLimit | FailEmptyTerminal | FailMalformedToolCall | FailProtocolIncomplete
  | FailUnsupportedTerminal string

datatype rejection_cause =
    RejectOutputLimit | RejectProviderPause | RejectContextLimit | RejectMalformedToolCall
  | RejectProtocolIncomplete | RejectToolsSuppressed

datatype recovery_decision =
    ContinueOutput recovery_cause string
  | RejectToolRound rejection_cause bool
  | ToolRound string string
  | FinalAnswer string string
  | RejectOutput recovery_failure

record recovery_checkpoint =
  or_active :: bool
  or_visible_prefix :: string
  or_pending :: "string list"
  or_expected_ack :: "string option"
  or_next_ack :: u32
  or_empty_retried :: bool
  or_stalled_limits :: u8
  or_stalled_resumes :: u8
  or_last_pause :: "string option"
  or_awaiting_first :: bool

record output_recovery = recovery_checkpoint +
  or_staged :: "recovery_checkpoint option"

definition output_recovery_default :: output_recovery where
  "output_recovery_default = \<lparr> or_active = False, or_visible_prefix = [], or_pending = [], or_expected_ack = None,
     or_next_ack = 0, or_empty_retried = False, or_stalled_limits = 0, or_stalled_resumes = 0,
     or_last_pause = None, or_awaiting_first = False, or_staged = None \<rparr>"

definition STALL_THRESHOLD :: u8 where "STALL_THRESHOLD = 3"

definition has_visible_answer :: "output_recovery \<Rightarrow> bool" where
  "has_visible_answer s = nonblank (or_visible_prefix s)"

definition commit_staged_tool_round :: "output_recovery \<Rightarrow> output_recovery" where
  "commit_staged_tool_round s = s \<lparr> or_staged := None \<rparr>"

definition rollback_staged_tool_round :: "output_recovery \<Rightarrow> output_recovery" where
  "rollback_staged_tool_round s = (case or_staged s of
     None \<Rightarrow> s
   | Some c \<Rightarrow> recovery_checkpoint.extend c (output_recovery.fields None))"

definition cause_prompt :: "recovery_cause \<Rightarrow> bool \<Rightarrow> string" where
  "cause_prompt cause had_visible_content = (case cause of
     CauseOutputLimit \<Rightarrow> if had_visible_content
       then ''The provider reached its per-request output limit. Continue exactly where the visible answer stopped, without repeating prior text. Keep hidden reasoning out of the answer channel. You may use tools if the task still requires them.''
       else ''The provider reached its per-request output limit before producing answer-channel text. Continue the unfinished task. Keep hidden reasoning separate, use tools if still needed, and finish with a concise visible answer.''
   | CauseEmptyTerminal \<Rightarrow> ''The provider ended without answer-channel text. Continue the unfinished task once, keep hidden reasoning separate, and finish with a concise visible answer.''
   | CauseProviderPause \<Rightarrow> ''The provider paused its server-side tool turn. Resume from the committed provider state, do not repeat completed local tools, and continue the unfinished task.''
   | CauseContextLimit \<Rightarrow> ''The provider reached the model context limit. Continue after context rollover, preserve committed tool results, and finish the unfinished task without repeating side effects.'')"

definition recovery_prompt :: "recovery_cause \<Rightarrow> bool \<Rightarrow> output_recovery \<Rightarrow> output_recovery \<times> string" where
  "recovery_prompt cause had_visible_content s = (
     let n = saturating_add (or_next_ack s) 1; ack = continuation_ack n
     in (s \<lparr> or_next_ack := n, or_expected_ack := Some ack \<rparr>,
         cause_prompt cause had_visible_content
         @ '' Begin the next answer-channel response with the exact control marker `'' @ ack
         @ ''` on its own line, then emit only the new continuation. Nexa removes the marker before display. The marker is required to confirm an intentional continuation whose text repeats an earlier fragment.''))"

section \<open>Committing a fragment\<close>

definition committed_as :: "string \<Rightarrow> continuation_commit" where
  "committed_as delta = (if delta = [] then CommitEmpty else if nonblank delta then Committed delta else CommittedWhitespace delta)"

definition show_delta :: "string \<Rightarrow> output_recovery \<Rightarrow> output_recovery" where
  "show_delta delta s = s \<lparr> or_visible_prefix := or_visible_prefix s @ delta, or_pending := [] \<rparr>"

definition hold_fragment :: "string \<Rightarrow> output_recovery \<Rightarrow> output_recovery" where
  "hold_fragment fragment s = s \<lparr> or_pending := or_pending s @ [fragment] \<rparr>"

definition commit_continuation_fragment ::
  "string \<Rightarrow> bool \<Rightarrow> output_recovery \<Rightarrow> continuation_commit \<times> output_recovery" where
  "commit_continuation_fragment fragment acknowledged s = (
     let held = concat (or_pending s) in
     if fragment = [] then (CommitEmpty, s)
     else if \<not> nonblank fragment then
       (if or_pending s = [] then (CommittedWhitespace fragment, show_delta fragment s)
        else if \<not> acknowledged then (AmbiguousReplay, hold_fragment fragment s)
        else (committed_as (held @ fragment), show_delta (held @ fragment) s))
     else if acknowledged then
       (let confirms = (or_pending s \<noteq> [] \<and> last (or_pending s) = fragment);
            delta = held @ (if confirms then [] else fragment)
        in (committed_as delta, show_delta delta s))
     else if longest_suffix_prefix_overlap (or_visible_prefix s) fragment = length fragment
       \<or> (or_visible_prefix s \<noteq> [] \<and> str_contains (or_visible_prefix s) fragment)
     then (AmbiguousReplay, hold_fragment fragment s)
     else let delta = held @ snd (append_with_overlap (or_visible_prefix s @ held) fragment)
       in (committed_as delta, show_delta delta s))"

text \<open>What a commit shows, and whether that is progress.\<close>

definition shown :: "continuation_commit \<Rightarrow> string \<times> bool" where
  "shown c = (case c of
     Committed delta \<Rightarrow> (delta, True) | CommittedWhitespace delta \<Rightarrow> (delta, False)
   | AmbiguousReplay \<Rightarrow> ([], False) | CommitEmpty \<Rightarrow> ([], False))"

definition canonical_interrupted_content :: "output_recovery \<Rightarrow> string \<Rightarrow> string" where
  "canonical_interrupted_content s content = (
     case strip_expected_continuation_ack content (or_expected_ack s) of (rest, acknowledged) \<Rightarrow>
       let preview = s \<lparr> or_staged := None, or_expected_ack := None \<rparr>;
           partial_marker = (\<not> acknowledged \<and> (case or_expected_ack s of
               None \<Rightarrow> False
             | Some ack \<Rightarrow> trim_start rest \<noteq> [] \<and> starts_with ack (trim_start rest)))
       in or_visible_prefix (if partial_marker then preview
            else snd (commit_continuation_fragment rest acknowledged preview)))"

section \<open>Observing a sample\<close>

text \<open>A stalled streak ends the episode unless this sample still showed a separator.\<close>

definition streak_ends :: "string \<Rightarrow> u8 \<Rightarrow> bool" where
  "streak_ends delta streak = (let next = saturating_add streak 1 in
     (delta = [] \<or> (delta \<noteq> [] \<and> streak \<ge> STALL_THRESHOLD)) \<and> next \<ge> STALL_THRESHOLD)"

definition observe_length :: "string \<Rightarrow> bool \<Rightarrow> bool \<Rightarrow> output_recovery \<Rightarrow> recovery_decision \<times> output_recovery" where
  "observe_length content acknowledged has_tool_calls s0 = (
     let s1 = s0 \<lparr> or_last_pause := None \<rparr> in
     if has_tool_calls then (RejectToolRound RejectOutputLimit False, s1)
     else let s2 = (if \<not> or_active s1 then s1 \<lparr> or_awaiting_first := \<not> nonblank content \<rparr> else s1);
              s3 = s2 \<lparr> or_active := True, or_stalled_resumes := 0 \<rparr>
       in case commit_continuation_fragment content acknowledged s3 of (commit, s) \<Rightarrow>
            (case shown commit of (delta, progress) \<Rightarrow>
               if progress
               then (ContinueOutput CauseOutputLimit delta, s \<lparr> or_awaiting_first := False, or_stalled_limits := 0 \<rparr>)
               else let s' = s \<lparr> or_stalled_limits := saturating_add (or_stalled_limits s) 1 \<rparr>
                 in (if streak_ends delta (or_stalled_limits s) then RejectOutput FailOutputLimit
                     else ContinueOutput CauseOutputLimit delta, s')))"

definition note_pause :: "recovery_cause \<Rightarrow> string option \<Rightarrow> output_recovery \<Rightarrow> bool \<times> output_recovery" where
  "note_pause cause fingerprint s = (
     if cause = CauseProviderPause then
       (case fingerprint of
          None \<Rightarrow> (False, s)
        | Some state \<Rightarrow> (or_last_pause s \<noteq> Some state, s \<lparr> or_last_pause := Some state \<rparr>))
     else (False, s \<lparr> or_last_pause := None \<rparr>))"

definition observe_resumable ::
  "recovery_cause \<Rightarrow> string \<Rightarrow> bool \<Rightarrow> bool \<Rightarrow> string option \<Rightarrow> output_recovery \<Rightarrow> recovery_decision \<times> output_recovery" where
  "observe_resumable cause content acknowledged has_tool_calls fingerprint s0 = (
     case note_pause cause fingerprint s0 of (state_progress, s1) \<Rightarrow>
       let s2 = s1 \<lparr> or_active := True \<rparr> in
       if has_tool_calls then
         (RejectToolRound (if cause = CauseProviderPause then RejectProviderPause else RejectContextLimit) state_progress, s2)
       else case commit_continuation_fragment content acknowledged (s2 \<lparr> or_stalled_limits := 0 \<rparr>) of (commit, s) \<Rightarrow>
         (case shown commit of (delta, progress) \<Rightarrow>
            if progress \<or> state_progress then (ContinueOutput cause delta, s \<lparr> or_stalled_resumes := 0 \<rparr>)
            else let s' = s \<lparr> or_stalled_resumes := saturating_add (or_stalled_resumes s) 1 \<rparr>
              in (if streak_ends delta (or_stalled_resumes s) then RejectOutput FailProtocolIncomplete
                  else ContinueOutput cause delta, s')))"

definition observe_tool_round :: "string \<Rightarrow> bool \<Rightarrow> output_recovery \<Rightarrow> recovery_decision \<times> output_recovery" where
  "observe_tool_round content acknowledged s0 = (
     let s1 = s0 \<lparr> or_staged := Some (recovery_checkpoint.truncate s0) \<rparr>;
         finish = (\<lambda>s. s \<lparr> or_stalled_limits := 0, or_stalled_resumes := 0, or_last_pause := None \<rparr>)
     in if or_active s1 \<and> or_awaiting_first s1 \<and> \<not> nonblank (or_visible_prefix s1) then
          (ToolRound [] content, finish (s1 \<lparr> or_active := False, or_awaiting_first := False, or_pending := [] \<rparr>))
        else if or_active s1 then
          (case commit_continuation_fragment content acknowledged s1 of (commit, s) \<Rightarrow>
             (case commit of
                Committed delta \<Rightarrow> (ToolRound delta [], finish s)
              | CommittedWhitespace delta \<Rightarrow> (ToolRound delta [], finish s)
              | _ \<Rightarrow> (ToolRound (concat (or_pending s)) [], finish (show_delta (concat (or_pending s)) s))))
        else (ToolRound content [], finish s1))"

definition observe_answer :: "string \<Rightarrow> bool \<Rightarrow> output_recovery \<Rightarrow> recovery_decision \<times> output_recovery" where
  "observe_answer content acknowledged s0 = (
     case commit_continuation_fragment content acknowledged s0 of (commit, s) \<Rightarrow>
       if commit = AmbiguousReplay \<or> commit = CommitEmpty then
         (let s' = s \<lparr> or_active := True, or_stalled_limits := saturating_add (or_stalled_limits s) 1 \<rparr>
          in (if or_stalled_limits s' \<ge> STALL_THRESHOLD then RejectOutput FailOutputLimit
              else ContinueOutput CauseOutputLimit [], s'))
       else (FinalAnswer (or_visible_prefix s) (fst (shown commit)),
         s \<lparr> or_visible_prefix := [], or_active := False, or_pending := [], or_expected_ack := None, or_empty_retried := False,
            or_stalled_limits := 0, or_stalled_resumes := 0, or_last_pause := None, or_awaiting_first := False \<rparr>))"

definition observe_empty :: "output_recovery \<Rightarrow> recovery_decision \<times> output_recovery" where
  "observe_empty s = (
     if \<not> or_empty_retried s
     then (ContinueOutput CauseEmptyTerminal [], s \<lparr> or_active := True, or_awaiting_first := True, or_empty_retried := True \<rparr>)
     else (RejectOutput FailEmptyTerminal, s))"

definition observe_with_provider_state ::
  "finish_reason option \<Rightarrow> string \<Rightarrow> bool \<Rightarrow> string option \<Rightarrow> output_recovery \<Rightarrow> recovery_decision \<times> output_recovery" where
  "observe_with_provider_state finish_reason raw_content has_tool_calls fingerprint s0 = (
     let s = s0 \<lparr> or_expected_ack := None \<rparr> in
     case strip_expected_continuation_ack raw_content (or_expected_ack s0) of (content, acknowledged) \<Rightarrow>
     (case finish_reason of
        Some FinishContentFilter \<Rightarrow> (RejectOutput FailContentFiltered, s)
      | Some (FinishUnknown reason) \<Rightarrow> (RejectOutput (FailUnsupportedTerminal reason), s)
      | Some FinishMalformedToolCall \<Rightarrow>
          (if has_tool_calls then RejectToolRound RejectMalformedToolCall False else RejectOutput FailMalformedToolCall, s)
      | Some FinishProtocolIncomplete \<Rightarrow>
          (if has_tool_calls then RejectToolRound RejectProtocolIncomplete False else RejectOutput FailProtocolIncomplete, s)
      | Some FinishOther \<Rightarrow>
          (if has_tool_calls then RejectToolRound RejectProtocolIncomplete False else RejectOutput FailProtocolIncomplete, s)
      | Some FinishLength \<Rightarrow> observe_length content acknowledged has_tool_calls s
      | Some FinishProviderPause \<Rightarrow> observe_resumable CauseProviderPause content acknowledged has_tool_calls fingerprint s
      | Some FinishContextLimit \<Rightarrow> observe_resumable CauseContextLimit content acknowledged has_tool_calls fingerprint s
      | _ \<Rightarrow>
          if has_tool_calls then observe_tool_round content acknowledged s
          else if nonblank content then observe_answer content acknowledged s
          else observe_empty s))"

section \<open>What the turn loop continues with\<close>

definition capture_recovery_assistant_message ::
  "serde_env \<Rightarrow> digest_fun \<Rightarrow> string \<Rightarrow> string \<Rightarrow> route_snapshot \<Rightarrow> string \<Rightarrow> string \<Rightarrow> string option \<Rightarrow> bool
     \<Rightarrow> replay_payload option \<Rightarrow> message" where
  "capture_recovery_assistant_message serde digest turn_item_id sample_id route full_content iteration_thinking
     recovery_reasoning reasoning_was_requested provider_replay = (
     let m = (text_message RoleAssistant full_content) \<lparr> cm_reasoning_content := recovery_reasoning \<rparr>
     in set_provider_turn (capture_with_replay_payload serde digest turn_item_id sample_id route (text_content m)
          (sanitize_reasoning_text (Some iteration_thinking)) recovery_reasoning [] reasoning_was_requested
          provider_replay) m)"

text \<open>
  The messages that the branch for \<open>ContinueOutput\<close> appends; \<open>capture\<close> builds the assistant message
  for the text that was shown, and \<open>rollover\<close> is the recovery from a context overflow, which may fail.
\<close>

definition continuation_recorded :: "serde_env \<Rightarrow> recovery_cause \<Rightarrow> string \<Rightarrow> replay_payload option \<Rightarrow> bool" where
  "continuation_recorded serde cause visible_delta provider_replay \<longleftrightarrow>
     visible_delta \<noteq> [] \<or> cause = CauseProviderPause
     \<or> (cause = CauseOutputLimit \<and> (case provider_replay of None \<Rightarrow> False | Some p \<Rightarrow> payload_is_present serde p))"

definition continue_output ::
  "serde_env \<Rightarrow> (string \<Rightarrow> message) \<Rightarrow> (message list \<Rightarrow> core_error + message list) \<Rightarrow> recovery_cause \<Rightarrow> string
     \<Rightarrow> replay_payload option \<Rightarrow> output_recovery \<Rightarrow> message list \<Rightarrow> core_error + output_recovery \<times> message list" where
  "continue_output serde capture rollover cause visible_delta provider_replay s ms = (
     let had_visible_content = has_visible_answer s;
         recorded = ms @ (if continuation_recorded serde cause visible_delta provider_replay
                          then [capture visible_delta] else [])
     in res_bind (if cause = CauseContextLimit then rollover recorded else Inr recorded) (\<lambda>ms'.
        case recovery_prompt cause had_visible_content s of (s', prompt) \<Rightarrow>
          Inr (s', ms' @ opt_list (controller_state_message prompt))))"

end
