(* ===== verification/Recovery_Properties.thy ===== *)
theory Recovery_Properties
  imports Output_Recovery Replay_Safety
begin

text \<open>
  What the recovery of incomplete output shows: the search for an overlap finds the longest one, the
  deltas that were shown make up the answer, a tool round rolls back, and when a stalled episode ends.
\<close>

section \<open>The longest overlap\<close>

definition overlaps :: "'a list \<Rightarrow> 'a list \<Rightarrow> nat \<Rightarrow> bool" where
  "overlaps p xs k \<longleftrightarrow> k \<le> length p \<and> suffix (take k p) xs"

definition longest :: "'a list \<Rightarrow> 'a list \<Rightarrow> nat \<Rightarrow> bool" where
  "longest p xs m \<longleftrightarrow> overlaps p xs m \<and> (\<forall>k. overlaps p xs k \<longrightarrow> k \<le> m)"

definition border :: "'a list \<Rightarrow> nat \<Rightarrow> nat \<Rightarrow> bool" where
  "border p m j \<longleftrightarrow> j < m \<and> suffix (take j p) (take m p)"

definition links_ok :: "'a list \<Rightarrow> nat list \<Rightarrow> nat \<Rightarrow> bool" where
  "links_ok p links n \<longleftrightarrow> (\<forall>m. 0 < m \<and> m \<le> n \<longrightarrow>
     border p m (links ! (m - 1)) \<and> (\<forall>j. border p m j \<longrightarrow> j \<le> links ! (m - 1)))"

lemma overlaps_0 [simp]: "overlaps p xs 0"
  by (simp add: overlaps_def)

lemma overlaps_snoc: "overlaps p (xs @ [c]) (Suc k) \<longleftrightarrow> k < length p \<and> overlaps p xs k \<and> p ! k = c"
  by (auto simp: overlaps_def take_Suc_conv_app_nth)

lemma overlaps_border:
  assumes "overlaps p xs m" "j < m"
  shows "overlaps p xs j \<longleftrightarrow> border p m j"
proof -
  have m: "m \<le> length p" "suffix (take m p) xs" using assms(1) by (simp_all add: overlaps_def)
  have "suffix (take j p) (take m p)" if "suffix (take j p) xs"
    using suffix_length_suffix [OF that m(2)] assms(2) m(1) by simp
  moreover have "suffix (take j p) xs" if "suffix (take j p) (take m p)"
    using suffix_order.trans [OF that m(2)] .
  ultimately show ?thesis using assms(2) m(1) by (auto simp: overlaps_def border_def)
qed

lemma fall_back_overlaps:
  assumes "links_ok p links m" "overlaps p xs m" "\<forall>k. overlaps p (xs @ [c]) (Suc k) \<longrightarrow> k \<le> m"
  defines "r \<equiv> fall_back p links c m"
  shows "overlaps p xs r \<and> r \<le> m \<and> (r = 0 \<or> c = p ! r) \<and> (\<forall>k. overlaps p (xs @ [c]) (Suc k) \<longrightarrow> k \<le> r)"
  unfolding r_def fall_back_def
proof (rule while_rule [where P = "\<lambda>r. overlaps p xs r \<and> r \<le> m \<and> (\<forall>k. overlaps p (xs @ [c]) (Suc k) \<longrightarrow> k \<le> r)"
      and r = "measure id"], goal_cases)
  case (2 r)
  then have "border p r (links ! (r - 1))" "\<forall>j. border p r j \<longrightarrow> j \<le> links ! (r - 1)" "0 < r"
    using assms(1) by (auto simp: links_ok_def)
  moreover have "k < r" if "overlaps p (xs @ [c]) (Suc k)" for k
    using that 2 by (metis le_neq_implies_less overlaps_snoc)
  ultimately show ?case using 2 overlaps_border [of p xs r] by (auto simp: border_def overlaps_snoc)
next
  case (5 r)
  then show ?case using assms(1) by (auto simp: links_ok_def border_def)
qed (use assms(2,3) in auto)

lemma longest_step:
  fixes c :: 'a
  assumes "links_ok p links m" "longest p xs m" "m < length p"
  defines "r \<equiv> fall_back p links c m"
  shows "longest p (xs @ [c]) (if c = p ! r then r + 1 else r)" "r < length p" "c \<noteq> p ! r \<Longrightarrow> r = 0"
proof -
  have r: "overlaps p xs r \<and> r \<le> m \<and> (r = 0 \<or> c = p ! r) \<and> (\<forall>k. overlaps p (xs @ [c]) (Suc k) \<longrightarrow> k \<le> r)"
    unfolding r_def using assms(2) by (intro fall_back_overlaps assms(1)) (auto simp: longest_def overlaps_snoc)
  then show "r < length p" "c \<noteq> p ! r \<Longrightarrow> r = 0" using assms(3) by auto
  have "k \<le> (if c = p ! r then r + 1 else r)" if "overlaps p (xs @ [c]) k" for k
  proof (cases k)
    case (Suc j)
    with that r have "j \<le> r" "p ! j = c" by (auto simp: overlaps_snoc)
    with r Suc show ?thesis by (cases "c = p ! r") auto
  qed simp
  moreover have "overlaps p (xs @ [c]) (if c = p ! r then r + 1 else r)"
    using r assms(3) by (auto simp: overlaps_snoc)
  ultimately show "longest p (xs @ [c]) (if c = p ! r then r + 1 else r)" by (simp add: longest_def)
qed

lemma border_overlaps:
  assumes "0 < m" "m \<le> length p"
  shows "border p m j \<longleftrightarrow> overlaps p (tl (take m p)) j"
proof -
  obtain y ys where y: "take m p = y # ys" using assms by (cases "take m p") auto
  then have len: "length ys = m - 1" using assms by (metis length_Cons length_take min.absorb2 diff_Suc_1)
  have "take j p \<noteq> y # ys" if "j < m" using that assms len by (metis length_Cons length_take min.absorb2 less_imp_le
      less_le_trans nat_neq_iff Suc_pred y)
  moreover have "j < m" if "suffix (take j p) ys" "j \<le> length p"
    using suffix_length_le [OF that(1)] that(2) len assms by simp
  ultimately show ?thesis using y assms by (auto simp: border_def overlaps_def suffix_Cons)
qed

lemma longest_bound: "longest p xs m \<Longrightarrow> m \<le> length xs"
  by (auto simp: longest_def overlaps_def dest: suffix_length_le)

definition linked :: "'a list \<Rightarrow> nat \<Rightarrow> nat list \<times> nat \<Rightarrow> bool" where
  "linked p i s \<longleftrightarrow> length (fst s) = length p \<and> links_ok p (fst s) i \<and> longest p (tl (take i p)) (snd s)
     \<and> (\<forall>j. i \<le> j \<and> j < length p \<longrightarrow> fst s ! j = 0)"

lemma linked_step:
  assumes "linked p i s" "0 < i" "i < length p"
  shows "linked p (Suc i) (link_step p s i)"
proof -
  obtain links m where s: "s = (links, m)" by (cases s)
  define r where "r = fall_back p links (p ! i) m"
  define m' where "m' = (if p ! i = p ! r then r + 1 else r)"
  have len: "length links = length p" and ok: "links_ok p links i" and best: "longest p (tl (take i p)) m"
    and zero: "\<And>j. i \<le> j \<Longrightarrow> j < length p \<Longrightarrow> links ! j = 0"
    using assms(1) by (auto simp: linked_def s)
  have m: "m \<le> i" "m < length p" using longest_bound [OF best] assms by auto
  have ok_m: "links_ok p links m" using ok m(1) by (auto simp: links_ok_def)
  have text_i: "tl (take (Suc i) p) = tl (take i p) @ [p ! i]"
  proof -
    have "take i p \<noteq> []" using assms(2,3) by (cases p; cases i) auto
    then show ?thesis using assms(3) by (simp add: take_Suc_conv_app_nth tl_append2)
  qed
  have best': "longest p (tl (take (Suc i) p)) m'" and no_match: "p ! i \<noteq> p ! r \<Longrightarrow> r = 0"
    using longest_step [OF ok_m best m(2), of "p ! i"] unfolding text_i m'_def r_def by auto
  define links' where "links' = (if p ! i = p ! r then links[i := r + 1] else links)"
  have step: "link_step p s i = (links', m')"
    unfolding link_step_def s links'_def m'_def r_def by (simp add: Let_def)
  have at_i: "links' ! i = m'" using zero [of i] assms(3) len no_match by (auto simp: links'_def m'_def)
  have "links_ok p links' (Suc i)"
    unfolding links_ok_def
  proof (intro allI impI)
    fix k assume k: "0 < k \<and> k \<le> Suc i"
    show "border p k (links' ! (k - 1)) \<and> (\<forall>j. border p k j \<longrightarrow> j \<le> links' ! (k - 1))"
    proof (cases "k = Suc i")
      case True
      with best' at_i assms(3) show ?thesis by (simp add: border_overlaps longest_def)
    next
      case False
      with k have "links' ! (k - 1) = links ! (k - 1)" by (auto simp: links'_def)
      with ok k False show ?thesis by (simp add: links_ok_def)
    qed
  qed
  with step best' len zero show ?thesis by (auto simp: linked_def links'_def)
qed

lemma linked_all: "0 < length p \<Longrightarrow> i < length p \<Longrightarrow>
  linked p (Suc i) (foldl (link_step p) (replicate (length p) 0, 0) [1..<Suc i])"
proof (induction i)
  case 0
  have "tl (take (Suc 0) p) = []" by (cases p) auto
  moreover have "replicate (length p) (0 :: nat) ! 0 = 0" using 0 by simp
  ultimately show ?case by (auto simp: linked_def links_ok_def border_def longest_def overlaps_def)
next
  case (Suc i)
  then have "linked p (Suc i) (foldl (link_step p) (replicate (length p) 0, 0) [1..<Suc i])" by simp
  from linked_step [OF this _ Suc.prems(2)] show ?case by simp
qed

lemma prefix_lengths_ok: "p \<noteq> [] \<Longrightarrow> links_ok p (prefix_lengths p) (length p)"
  using linked_all [of p "length p - 1"] by (simp add: linked_def prefix_lengths_def)

lemma scan_tail_longest:
  "\<lbrakk> links_ok p links (length p); longest p xs m; m < length p \<or> cs = []; length xs + length cs \<le> length p \<rbrakk>
     \<Longrightarrow> longest p (xs @ cs) (scan_tail p links m cs)"
proof (induction cs arbitrary: xs m)
  case (Cons c cs)
  define r where "r = fall_back p links c m"
  have "links_ok p links m" using Cons.prems(1,3) by (auto simp: links_ok_def)
  note step = longest_step [OF this Cons.prems(2), of c, folded r_def]
  have m: "m < length p" using Cons.prems(3) by simp
  have best: "longest p (xs @ [c]) (if c = p ! r then r + 1 else r)" using step m by simp
  have bound: "(if c = p ! r then r + 1 else r) \<le> length xs + 1" using longest_bound [OF best] by simp
  have "longest p ((xs @ [c]) @ cs) (scan_tail p links (if c = p ! r then r + 1 else r) cs)"
    if "(if c = p ! r then r + 1 else r) < length p \<or> cs = []"
    using Cons.IH [OF Cons.prems(1) best that] Cons.prems(4) by simp
  moreover have "cs = []" if "c = p ! r" "r + 1 = length p"
  proof -
    have "r + 1 \<le> length xs + 1" using bound that by simp
    moreover have "length xs + (length cs + 1) \<le> r + 1" using Cons.prems(4) that(2) by simp
    ultimately have "length cs = 0" by linarith
    then show ?thesis by simp
  qed
  moreover have "r < length p" using step m by simp
  ultimately show ?case by (auto simp: r_def [symmetric] Let_def)
qed simp

lemma suffix_in_tail:
  assumes "length ys \<le> n"
  shows "suffix ys xs \<longleftrightarrow> suffix ys (drop (length xs - n) xs)"
proof
  assume "suffix ys xs"
  from suffix_length_suffix [OF this suffix_drop [of "length xs - n" xs]] suffix_length_le [OF this] assms
  show "suffix ys (drop (length xs - n) xs)" by simp
next
  assume "suffix ys (drop (length xs - n) xs)"
  then show "suffix ys xs" using suffix_drop suffix_order.trans by blast
qed

lemma overlap_longest: "longest fragment existing (longest_suffix_prefix_overlap existing fragment)"
proof (cases "fragment = [] \<or> existing = []")
  case True
  then show ?thesis by (auto simp: longest_suffix_prefix_overlap_def longest_def overlaps_def)
next
  case False
  let ?tail = "drop (length existing - length fragment) existing"
  have "longest fragment ([] @ ?tail) (scan_tail fragment (prefix_lengths fragment) 0 ?tail)"
    using False prefix_lengths_ok [of fragment]
    by (intro scan_tail_longest) (auto simp: longest_def overlaps_def)
  moreover have "overlaps fragment existing k \<longleftrightarrow> overlaps fragment ?tail k" for k
    using suffix_in_tail [of "take k fragment" "length fragment" existing] by (auto simp: overlaps_def)
  ultimately show ?thesis using False by (simp add: longest_suffix_prefix_overlap_def longest_def)
qed

section \<open>What is shown\<close>

lemma committed_as_shown [simp]: "fst (shown (committed_as delta)) = delta"
  by (simp add: committed_as_def shown_def)

lemma shown_simps [simp]:
  "shown AmbiguousReplay = ([], False)" "shown CommitEmpty = ([], False)"
  "shown (CommittedWhitespace d) = (d, False)" "shown (Committed d) = (d, True)"
  by (simp_all add: shown_def)

lemma progress_shown: "commit = committed_as delta \<Longrightarrow> snd (shown commit) = nonblank delta"
  by (cases "delta = []") (simp_all add: committed_as_def trim_def trim_start_def)

definition shown_or_held :: "output_recovery \<Rightarrow> continuation_commit \<Rightarrow> output_recovery \<Rightarrow> bool" where
  "shown_or_held s commit s' \<longleftrightarrow> or_visible_prefix s' = or_visible_prefix s @ fst (shown commit)
     \<and> snd (shown commit) = nonblank (fst (shown commit))
     \<and> s' = s \<lparr> or_visible_prefix := or_visible_prefix s', or_pending := or_pending s' \<rparr>"

lemma shown_or_heldI:
  "shown_or_held s (committed_as delta) (show_delta delta s)" "shown_or_held s AmbiguousReplay (hold_fragment f s)"
  "shown_or_held s CommitEmpty s" "\<not> nonblank delta \<Longrightarrow> shown_or_held s (CommittedWhitespace delta) (show_delta delta s)"
  using progress_shown [OF refl, of delta]
  by (simp_all add: shown_or_held_def show_delta_def hold_fragment_def trim_def trim_start_def)

lemma commit_shown:
  assumes "commit_continuation_fragment fragment acknowledged s = (commit, s')"
  shows "shown_or_held s commit s'"
  using assms by (auto simp: commit_continuation_fragment_def Let_def shown_or_heldI split: if_splits)

lemma interrupted_extends: "prefix (or_visible_prefix s) (canonical_interrupted_content s content)"
proof -
  let ?preview = "s \<lparr> or_staged := None, or_expected_ack := None \<rparr>"
  have "prefix (or_visible_prefix s) (or_visible_prefix (snd (commit_continuation_fragment fragment acknowledged ?preview)))"
    for fragment acknowledged
    using commit_shown [of fragment acknowledged ?preview] by (cases "commit_continuation_fragment fragment acknowledged ?preview")
      (auto simp: shown_or_held_def)
  then show ?thesis by (auto simp: canonical_interrupted_content_def Let_def split: prod.split)
qed

definition answer_channel :: "output_recovery \<Rightarrow> bool" where
  "answer_channel s \<longleftrightarrow> or_active s \<and> \<not> (or_awaiting_first s \<and> \<not> nonblank (or_visible_prefix s))"

definition accounted :: "output_recovery \<Rightarrow> recovery_decision \<times> output_recovery \<Rightarrow> bool" where
  "accounted s r = (case r of (decision, s') \<Rightarrow> (case decision of
     ContinueOutput cause delta \<Rightarrow> or_visible_prefix s' = or_visible_prefix s @ delta
   | FinalAnswer content delta \<Rightarrow> content = or_visible_prefix s @ delta \<and> or_visible_prefix s' = [] \<and> \<not> or_active s'
   | ToolRound delta working \<Rightarrow> or_visible_prefix s' = or_visible_prefix s @ (if answer_channel s then delta else [])
       \<and> (if answer_channel s then working = [] else delta = [] \<or> working = [])
   | RejectToolRound cause progress \<Rightarrow> or_visible_prefix s' = or_visible_prefix s
   | RejectOutput failure \<Rightarrow> (\<exists>blank. or_visible_prefix s' = or_visible_prefix s @ blank \<and> \<not> nonblank blank)))"

lemma blank_nil [simp]: "trim [] = []"
  by (simp add: trim_def trim_start_def)

lemma accounted_cong:
  "\<lbrakk> accounted t r; or_visible_prefix t = or_visible_prefix s; answer_channel t = answer_channel s \<rbrakk> \<Longrightarrow> accounted s r"
  by (auto simp: accounted_def split: recovery_decision.splits)

lemma length_accounted: "accounted s (observe_length content acknowledged tools s)"
proof -
  have "accounted s (case commit_continuation_fragment content acknowledged t of (commit, u) \<Rightarrow>
            (case shown commit of (delta, progress) \<Rightarrow>
               if progress
               then (ContinueOutput CauseOutputLimit delta, u \<lparr> or_awaiting_first := False, or_stalled_limits := 0 \<rparr>)
               else let u' = u \<lparr> or_stalled_limits := saturating_add (or_stalled_limits u) 1 \<rparr>
                 in (if streak_ends delta (or_stalled_limits u) then RejectOutput FailOutputLimit
                     else ContinueOutput CauseOutputLimit delta, u')))"
    if "or_visible_prefix t = or_visible_prefix s" for t
    using that commit_shown [of content acknowledged t]
    by (cases "commit_continuation_fragment content acknowledged t", cases "shown (fst (commit_continuation_fragment content acknowledged t))")
      (auto simp: accounted_def shown_or_held_def)
  then show ?thesis by (simp add: observe_length_def Let_def accounted_def)
qed

lemma resumable_accounted: "accounted s (observe_resumable cause content acknowledged tools fingerprint s)"
proof -
  obtain progress t where noted: "note_pause cause fingerprint s = (progress, t)" by (cases "note_pause cause fingerprint s")
  then have prefix: "or_visible_prefix t = or_visible_prefix s" by (auto simp: note_pause_def split: if_splits option.splits)
  let ?u = "t \<lparr> or_active := True, or_stalled_limits := 0 \<rparr>"
  obtain commit v where commit: "commit_continuation_fragment content acknowledged ?u = (commit, v)"
    by (cases "commit_continuation_fragment content acknowledged ?u")
  obtain delta p where shown: "shown commit = (delta, p)" by (cases "shown commit")
  from commit_shown [OF commit] prefix noted commit shown show ?thesis
    by (auto simp: observe_resumable_def accounted_def shown_or_held_def Let_def)
qed

lemma tool_round_accounted: "accounted s (observe_tool_round content acknowledged s)"
proof -
  let ?t = "s \<lparr> or_staged := Some (recovery_checkpoint.truncate s) \<rparr>"
  obtain commit u where commit: "commit_continuation_fragment content acknowledged ?t = (commit, u)"
    by (cases "commit_continuation_fragment content acknowledged ?t")
  from commit_shown [OF commit] commit show ?thesis
    by (cases commit) (auto simp: observe_tool_round_def accounted_def answer_channel_def shown_or_held_def show_delta_def Let_def)
qed

lemma answer_accounted: "accounted s (observe_answer content acknowledged s)"
proof -
  obtain commit u where commit: "commit_continuation_fragment content acknowledged s = (commit, u)"
    by (cases "commit_continuation_fragment content acknowledged s")
  from commit_shown [OF commit] commit show ?thesis
    by (cases commit) (auto simp: observe_answer_def accounted_def shown_or_held_def Let_def)
qed

lemma observe_accounted: "accounted s (observe_with_provider_state reason raw tools fingerprint s)"
proof -
  let ?t = "s \<lparr> or_expected_ack := None \<rparr>"
  obtain content acknowledged where strip: "strip_expected_continuation_ack raw (or_expected_ack s) = (content, acknowledged)"
    by (cases "strip_expected_continuation_ack raw (or_expected_ack s)")
  have same: "or_visible_prefix ?t = or_visible_prefix s" "answer_channel ?t = answer_channel s"
    by (simp_all add: answer_channel_def)
  have refused: "accounted s (RejectOutput f, ?t)" "accounted s (RejectToolRound c b, ?t)" for f c b
    by (auto simp: accounted_def intro: exI [of _ "[]"])
  have empty: "accounted s (observe_empty ?t)" by (auto simp: accounted_def observe_empty_def)
  show ?thesis
    unfolding observe_with_provider_state_def Let_def strip prod.case
    using refused empty accounted_cong [OF length_accounted same] accounted_cong [OF resumable_accounted same]
      accounted_cong [OF tool_round_accounted same] accounted_cong [OF answer_accounted same]
    by (simp split: option.split finish_reason.split)
qed

section \<open>Tool rounds\<close>

lemma commit_keeps:
  assumes "commit_continuation_fragment fragment acknowledged s = (commit, s')"
  shows "or_staged s' = or_staged s" "or_stalled_limits s' = or_stalled_limits s"
    "or_stalled_resumes s' = or_stalled_resumes s" "or_last_pause s' = or_last_pause s"
    "snd (shown commit) = nonblank (fst (shown commit))"
proof -
  from commit_shown [OF assms]
  have s': "s' = s \<lparr> or_visible_prefix := or_visible_prefix s', or_pending := or_pending s' \<rparr>"
    and "snd (shown commit) = nonblank (fst (shown commit))" by (auto simp: shown_or_held_def)
  from arg_cong [OF s', of or_staged] arg_cong [OF s', of or_stalled_limits] arg_cong [OF s', of or_stalled_resumes]
    arg_cong [OF s', of or_last_pause] this(2)
  show "or_staged s' = or_staged s" "or_stalled_limits s' = or_stalled_limits s"
    "or_stalled_resumes s' = or_stalled_resumes s" "or_last_pause s' = or_last_pause s"
    "snd (shown commit) = nonblank (fst (shown commit))" by simp_all
qed

lemma extend_truncate:
  "recovery_checkpoint.extend (recovery_checkpoint.truncate s) (output_recovery.fields None) = s \<lparr> or_staged := None \<rparr>"
  by (cases s) (simp add: recovery_checkpoint.defs output_recovery.defs)

lemma tool_round_staged:
  "or_staged (snd (observe_tool_round content acknowledged s)) = Some (recovery_checkpoint.truncate s)"
proof -
  let ?t = "s \<lparr> or_staged := Some (recovery_checkpoint.truncate s) \<rparr>"
  obtain commit u where commit: "commit_continuation_fragment content acknowledged ?t = (commit, u)"
    by (cases "commit_continuation_fragment content acknowledged ?t")
  from commit_keeps(1) [OF commit] commit show ?thesis
    by (cases commit) (auto simp: observe_tool_round_def show_delta_def Let_def)
qed

lemma tool_round_rolls_back:
  "rollback_staged_tool_round (snd (observe_tool_round content acknowledged s)) = s \<lparr> or_staged := None \<rparr>"
  by (simp add: rollback_staged_tool_round_def tool_round_staged extend_truncate)

lemma length_no_round: "fst (observe_length content acknowledged tools s) \<noteq> ToolRound v w"
  by (auto simp: observe_length_def Let_def split: prod.splits if_splits)

lemma resumable_no_round: "fst (observe_resumable cause content acknowledged tools fingerprint s) \<noteq> ToolRound v w"
  by (auto simp: observe_resumable_def Let_def split: prod.splits if_splits)

lemma answer_no_round: "fst (observe_answer content acknowledged s) \<noteq> ToolRound v w"
  by (auto simp: observe_answer_def Let_def split: prod.splits if_splits)

lemma empty_no_round: "fst (observe_empty s) \<noteq> ToolRound v w"
  by (simp add: observe_empty_def)

lemmas no_round = length_no_round resumable_no_round answer_no_round empty_no_round

lemma observed_round_is_staged:
  assumes "observe_with_provider_state reason raw tools fingerprint s = (ToolRound v w, s')"
  shows "\<exists>content acknowledged. s' = snd (observe_tool_round content acknowledged (s \<lparr> or_expected_ack := None \<rparr>))"
proof -
  let ?t = "s \<lparr> or_expected_ack := None \<rparr>"
  obtain content acknowledged where strip: "strip_expected_continuation_ack raw (or_expected_ack s) = (content, acknowledged)"
    by (cases "strip_expected_continuation_ack raw (or_expected_ack s)")
  have "fst r \<noteq> ToolRound v w \<Longrightarrow> r \<noteq> (ToolRound v w, s')" for r by auto
  note never = no_round [THEN this]
  from assms have "observe_tool_round content acknowledged ?t = (ToolRound v w, s')"
    unfolding observe_with_provider_state_def Let_def strip prod.case
    by (simp add: never split: option.splits finish_reason.splits if_splits)
  then show ?thesis by (metis snd_conv)
qed

section \<open>Stalled episodes\<close>

lemma streak_goes_on: "\<not> streak_ends delta streak \<Longrightarrow> unat streak < 3"
  by (auto simp: streak_ends_def Let_def STALL_THRESHOLD_def word_le_nat_alt unat_saturating_add split: if_splits)

text \<open>The samples of an episode, as long as each is answered with a continuation.\<close>

type_synonym observed_sample = "finish_reason option \<times> string \<times> bool \<times> string option"

fun observe_all :: "observed_sample list \<Rightarrow> output_recovery \<Rightarrow> recovery_decision list" where
  "observe_all [] s = []"
| "observe_all ((reason, raw, tools, fingerprint) # samples) s = (
     case observe_with_provider_state reason raw tools fingerprint s of (decision, s') \<Rightarrow>
       decision # (case decision of
         ContinueOutput cause delta \<Rightarrow> observe_all samples (fst (recovery_prompt cause (has_visible_answer s') s'))
       | _ \<Rightarrow> []))"

lemma prompt_state: "fst (recovery_prompt cause had_visible_content s) = s \<lparr> or_next_ack := saturating_add (or_next_ack s) 1,
     or_expected_ack := Some (continuation_ack (saturating_add (or_next_ack s) 1)) \<rparr>"
  by (simp add: recovery_prompt_def Let_def)

lemma observe_continues:
  "\<lbrakk> observe_with_provider_state reason raw tools fingerprint s = (ContinueOutput cause delta, s'); n = saturating_add (or_next_ack s') 1 \<rbrakk>
   \<Longrightarrow> observe_all ((reason, raw, tools, fingerprint) # samples) s = ContinueOutput cause delta
     # observe_all samples (s' \<lparr> or_next_ack := n, or_expected_ack := Some (continuation_ack n) \<rparr>)"
  by (simp add: prompt_state)

lemma observe_ends:
  "\<lbrakk> observe_with_provider_state reason raw tools fingerprint s = (decision, s'); \<And>cause delta. decision \<noteq> ContinueOutput cause delta \<rbrakk>
   \<Longrightarrow> observe_all ((reason, raw, tools, fingerprint) # samples) s = [decision]"
  by (simp split: recovery_decision.split)

definition output_limit_sample :: "observed_sample \<Rightarrow> bool" where
  "output_limit_sample x \<longleftrightarrow> fst x = Some FinishLength \<and> \<not> fst (snd (snd x))"

lemma length_step:
  assumes "observe_length content acknowledged False s = (decision, s')"
  shows "decision = RejectOutput FailOutputLimit
    \<or> (\<exists>delta. decision = ContinueOutput CauseOutputLimit delta
        \<and> (nonblank delta \<or> unat (or_stalled_limits s) < 3 \<and> or_stalled_limits s' = saturating_add (or_stalled_limits s) 1))"
proof -
  define t where "t = (if \<not> or_active s then s \<lparr> or_last_pause := None, or_awaiting_first := \<not> nonblank content \<rparr>
      else s \<lparr> or_last_pause := None \<rparr>) \<lparr> or_active := True, or_stalled_resumes := 0 \<rparr>"
  have same: "or_stalled_limits t = or_stalled_limits s" by (simp add: t_def)
  obtain commit u where commit: "commit_continuation_fragment content acknowledged t = (commit, u)"
    by (cases "commit_continuation_fragment content acknowledged t")
  obtain delta progress where shown: "shown commit = (delta, progress)" by (cases "shown commit")
  note kept = commit_keeps(2,5) [OF commit]
  have progress: "progress = nonblank delta" using kept(2) shown by simp
  have "(decision, s') = (if progress then (ContinueOutput CauseOutputLimit delta, u \<lparr> or_awaiting_first := False, or_stalled_limits := 0 \<rparr>)
      else (if streak_ends delta (or_stalled_limits u) then RejectOutput FailOutputLimit
         else ContinueOutput CauseOutputLimit delta, u \<lparr> or_stalled_limits := saturating_add (or_stalled_limits u) 1 \<rparr>))"
    using assms commit shown by (cases "or_active s"; cases progress) (simp_all add: observe_length_def t_def Let_def)
  then show ?thesis using streak_goes_on [of delta "or_stalled_limits u"] kept(1) same progress
    by (cases progress; cases "streak_ends delta (or_stalled_limits u)") auto
qed

lemma length_episode:
  "\<lbrakk> list_all output_limit_sample samples; unat (or_stalled_limits s) + length samples > 3; unat (or_stalled_limits s) \<le> 3;
     \<forall>d \<in> set (observe_all samples s). \<forall>cause delta. d = ContinueOutput cause delta \<longrightarrow> \<not> nonblank delta \<rbrakk>
   \<Longrightarrow> last (observe_all samples s) = RejectOutput FailOutputLimit"
proof (induction samples arbitrary: s)
  case (Cons x samples)
  obtain raw fingerprint where x: "x = (Some FinishLength, raw, False, fingerprint)"
    using Cons.prems(1) by (cases x) (auto simp: output_limit_sample_def)
  let ?t = "s \<lparr> or_expected_ack := None \<rparr>"
  obtain content acknowledged where strip: "strip_expected_continuation_ack raw (or_expected_ack s) = (content, acknowledged)"
    by (cases "strip_expected_continuation_ack raw (or_expected_ack s)")
  obtain decision s' where step: "observe_length content acknowledged False ?t = (decision, s')"
    by (cases "observe_length content acknowledged False ?t")
  have observed: "observe_with_provider_state (Some FinishLength) raw False fingerprint s = (decision, s')"
    using step by (simp add: observe_with_provider_state_def strip)
  from length_step [OF step] show ?case
  proof (elim disjE exE conjE)
    assume "decision = RejectOutput FailOutputLimit"
    then show ?thesis using observed by (simp add: x)
  next
    fix delta
    assume d: "decision = ContinueOutput CauseOutputLimit delta" "nonblank delta"
    then show ?thesis using Cons.prems(4) observed by (simp add: x)
  next
    fix delta
    assume d: "decision = ContinueOutput CauseOutputLimit delta" "unat (or_stalled_limits ?t) < 3"
      "or_stalled_limits s' = saturating_add (or_stalled_limits ?t) 1"
    define u where "u = fst (recovery_prompt CauseOutputLimit (has_visible_answer s') s')"
    have stalled: "unat (or_stalled_limits u) = unat (or_stalled_limits s) + 1"
      using d(2,3) by (simp add: u_def recovery_prompt_def Let_def unat_saturating_add)
    have rest: "observe_all (x # samples) s = decision # observe_all samples u"
      using observed d(1) by (simp add: x u_def)
    have "last (observe_all samples u) = RejectOutput FailOutputLimit"
      using Cons.prems(1,2,4) stalled d(2) unfolding rest by (intro Cons.IH) auto
    moreover have "observe_all samples u \<noteq> []"
      using Cons.prems(2) d(2) by (cases samples) (auto split: prod.splits)
    ultimately show ?thesis by (simp add: rest)
  qed
qed simp

section \<open>The next request\<close>

lemma capture_recovery_parts:
  "cm_role (capture_recovery_assistant_message serde digest item sample route content thinking reasoning requested replay) = RoleAssistant"
  "calls_of (capture_recovery_assistant_message serde digest item sample route content thinking reasoning requested replay) = []"
  "has_visible_content (capture_recovery_assistant_message serde digest item sample route content thinking reasoning requested replay)
     = nonblank content"
  by (simp_all add: capture_recovery_assistant_message_def set_provider_turn_def clear_provider_turn_def text_message_def
      calls_of_def has_visible_content_def Let_def)

lemma controller_role: "controller_state_message content = Some m \<Longrightarrow> cm_role m = RoleSystem"
  by (auto simp: controller_state_message_def message_from_blocks_def with_prompt_lifetime_def with_prompt_cache_hint_def
      text_message_def Let_def bind_eq_Some_conv split: option.splits)

lemma controller_appended:
  "replay_safe serde (ms @ opt_list (controller_state_message content)) \<longleftrightarrow> replay_safe serde ms"
proof (cases "controller_state_message content")
  case (Some m)
  have "calls_answered pending (xs @ [m]) \<longleftrightarrow> calls_answered pending xs" for pending xs
    using controller_role [OF Some] by (induction xs arbitrary: pending) (simp_all split: role.split)
  then show ?thesis using Some controller_role [OF Some]
    by (simp add: replay_safe_iff assistant_ok_def is_assistant_def opt_list_def)
qed (simp add: opt_list_def)

lemma recorded_safe:
  assumes "replay_safe serde ms" "cm_role m = RoleAssistant" "calls_of m = []"
  shows "replay_safe serde (ms @ [m]) \<longleftrightarrow> has_visible_content m"
proof
  assume "replay_safe serde (ms @ [m])"
  then show "has_visible_content m" using assms(2,3) by (simp add: replay_safe_iff assistant_ok_def is_assistant_def)
next
  assume "has_visible_content m"
  then show "replay_safe serde (ms @ [m])" using assms by (intro replay_safe_append) simp_all
qed

section \<open>Properties\<close>

text \<open>
  C19: The search with failure links finds the longest suffix of the shown answer that is a prefix of the
  new fragment, for every answer and every fragment.
\<close>

theorem overlap_is_longest:
  "longest_suffix_prefix_overlap existing fragment = Max {k. k \<le> length fragment \<and> suffix (take k fragment) existing}"
proof -
  have "finite {k. k \<le> length fragment \<and> suffix (take k fragment) existing}" by simp
  then show ?thesis using overlap_longest [of fragment existing]
    by (intro Max_eqI [symmetric]) (auto simp: longest_def overlaps_def)
qed

text \<open>
  C18: What the user saw is the answer: when an episode of continuations ends with a final answer, its text
  is what had been shown before, followed by the visible parts of every continuation and of the last sample.
\<close>

theorem answer_is_what_was_shown:
  assumes "observe_all samples s = decisions @ [FinalAnswer content delta]"
  shows "content = or_visible_prefix s @ concat (map (\<lambda>d. case d of ContinueOutput cause delta \<Rightarrow> delta | _ \<Rightarrow> []) decisions) @ delta"
  using assms
proof (induction samples s arbitrary: decisions rule: observe_all.induct)
  case (2 reason raw tools fingerprint samples s)
  obtain decision s' where step: "observe_with_provider_state reason raw tools fingerprint s = (decision, s')"
    by (cases "observe_with_provider_state reason raw tools fingerprint s")
  have acc: "accounted s (decision, s')" using observe_accounted [of s reason raw tools fingerprint] by (simp add: step)
  show ?case
  proof (cases decision)
    case (ContinueOutput cause d)
    let ?u = "fst (recovery_prompt cause (has_visible_answer s') s')"
    from 2(2) step ContinueOutput obtain rest
      where "decisions = decision # rest" "observe_all samples ?u = rest @ [FinalAnswer content delta]"
      by (cases decisions) auto
    moreover have "or_visible_prefix ?u = or_visible_prefix s @ d"
      using acc ContinueOutput by (simp add: accounted_def recovery_prompt_def Let_def)
    ultimately show ?thesis using 2(1) [OF step [symmetric] ContinueOutput] ContinueOutput by simp
  next
    case (FinalAnswer c d)
    with 2(2) step have "decisions = []" "c = content" "d = delta" by (cases decisions; simp)+
    then show ?thesis using acc FinalAnswer by (simp add: accounted_def)
  qed (use 2(2) step in \<open>cases decisions; simp\<close>)+
qed simp

lemma answer_is_what_was_shown_witness:
  "observe_all [(Some FinishLength, ''Hello wor'', False, None), (Some FinishStop, ''worldly'', False, None)] output_recovery_default
     = [ContinueOutput CauseOutputLimit ''Hello wor'', FinalAnswer ''Hello worldly'' ''ldly'']
   \<and> ''Hello worldly'' = or_visible_prefix output_recovery_default @ concat (map (\<lambda>d. case d of
       ContinueOutput cause delta \<Rightarrow> delta | _ \<Rightarrow> []) [ContinueOutput CauseOutputLimit ''Hello wor'']) @ ''ldly''"
proof -
  let ?s = "output_recovery_default \<lparr> or_active := True, or_visible_prefix := ''Hello wor'' \<rparr>"
  have first: "observe_with_provider_state (Some FinishLength) ''Hello wor'' False None output_recovery_default
      = (ContinueOutput CauseOutputLimit ''Hello wor'', ?s)" by code_simp
  have second: "observe_with_provider_state (Some FinishStop) ''worldly'' False None
      (?s \<lparr> or_next_ack := 1, or_expected_ack := Some (continuation_ack 1) \<rparr>)
      = (FinalAnswer ''Hello worldly'' ''ldly'', output_recovery_default \<lparr> or_next_ack := 1 \<rparr>)" by code_simp
  have ended: "observe_all [(Some FinishStop, ''worldly'', False, None)]
      (?s \<lparr> or_next_ack := 1, or_expected_ack := Some (continuation_ack 1) \<rparr>) = [FinalAnswer ''Hello worldly'' ''ldly'']"
    by (rule observe_ends [OF second]) simp
  have armed: "saturating_add (or_next_ack ?s) 1 = 1" by code_simp
  have run: "observe_all [(Some FinishLength, ''Hello wor'', False, None), (Some FinishStop, ''worldly'', False, None)]
      output_recovery_default = [ContinueOutput CauseOutputLimit ''Hello wor''] @ [FinalAnswer ''Hello worldly'' ''ldly'']"
    by (simp only: observe_continues [OF first armed [symmetric]] ended append.simps)
  from answer_is_what_was_shown [OF run] run show ?thesis by (simp only: append.simps simp_thms)
qed

text \<open>
  Four samples in a row that reach the output limit without tool calls, none of them with anything new to
  show, end the episode with a refusal, whatever the state was.
\<close>

theorem output_limit_stalls:
  assumes "list_all output_limit_sample samples" "4 \<le> length samples" "unat (or_stalled_limits s) \<le> 3"
    and "\<forall>d \<in> set (observe_all samples s). \<forall>cause delta. d = ContinueOutput cause delta \<longrightarrow> \<not> nonblank delta"
  shows "last (observe_all samples s) = RejectOutput FailOutputLimit"
  using assms by (intro length_episode) auto

lemma output_limit_stalls_witness:
  "let sample = (Some FinishLength, [], False, None)
   in last (observe_all [sample, sample, sample, sample] output_recovery_default) = RejectOutput FailOutputLimit"
proof -
  let ?sample = "(Some FinishLength, [], False, None)"
  define t where "t n ack = output_recovery_default \<lparr> or_active := True, or_awaiting_first := True, or_stalled_limits := n,
      or_next_ack := ack \<rparr>" for n ack
  let ?armed = "\<lambda>n ack. t n ack \<lparr> or_next_ack := ack, or_expected_ack := Some (continuation_ack ack) \<rparr>"
  have first: "observe_with_provider_state (Some FinishLength) [] False None output_recovery_default
      = (ContinueOutput CauseOutputLimit [], t 1 0)" unfolding t_def by code_simp
  have second: "observe_with_provider_state (Some FinishLength) [] False None (?armed 1 1)
      = (ContinueOutput CauseOutputLimit [], t 2 1)" unfolding t_def by code_simp
  have third: "observe_with_provider_state (Some FinishLength) [] False None (?armed 2 2)
      = (RejectOutput FailOutputLimit, t 3 2)" unfolding t_def by code_simp
  have acks: "1 = saturating_add (or_next_ack (t 1 0)) 1" "2 = saturating_add (or_next_ack (t 2 1)) 1"
    unfolding t_def by code_simp+
  have same: "t 1 0 \<lparr> or_next_ack := 1, or_expected_ack := a \<rparr> = t 1 1 \<lparr> or_next_ack := 1, or_expected_ack := a \<rparr>"
    "t 2 1 \<lparr> or_next_ack := 2, or_expected_ack := a \<rparr> = t 2 2 \<lparr> or_next_ack := 2, or_expected_ack := a \<rparr>" for a
    by (simp_all add: t_def)
  have ended: "observe_all [?sample, ?sample] (?armed 2 2) = [RejectOutput FailOutputLimit]"
    by (rule observe_ends [OF third]) simp
  have run: "observe_all [?sample, ?sample, ?sample, ?sample] output_recovery_default
      = [ContinueOutput CauseOutputLimit [], ContinueOutput CauseOutputLimit [], RejectOutput FailOutputLimit]"
    by (simp only: observe_continues [OF first acks(1)] observe_continues [OF second acks(2)] ended same)
  show ?thesis unfolding Let_def
  proof (rule output_limit_stalls)
    show "unat (or_stalled_limits output_recovery_default) \<le> 3" by (simp add: output_recovery_default_def)
  qed (simp_all only: run, auto simp: output_limit_sample_def)
qed

text \<open>
  C20: A tool round is staged: rolling it back restores the answer, the held fragments, the streaks and
  everything else the sample changed, but for the marker it was asked to begin with.
\<close>

theorem tool_round_rolls_back_sample:
  assumes "observe_with_provider_state reason raw tools fingerprint s = (ToolRound delta working, s')"
  shows "rollback_staged_tool_round s' = s \<lparr> or_expected_ack := None, or_staged := None \<rparr>"
  using observed_round_is_staged [OF assms] by (auto simp: tool_round_rolls_back)

lemma tool_round_rolls_back_sample_witness:
  "let s = output_recovery_default \<lparr> or_active := True, or_visible_prefix := ''Hello wor'', or_stalled_limits := 2 \<rparr>
   in rollback_staged_tool_round (snd (observe_with_provider_state (Some FinishToolCalls) ''worldly'' True None s)) = s"
proof -
  let ?s = "output_recovery_default \<lparr> or_active := True, or_visible_prefix := ''Hello wor'', or_stalled_limits := 2 \<rparr>"
  have "fst (observe_with_provider_state (Some FinishToolCalls) ''worldly'' True None ?s) = ToolRound ''ldly'' []" by code_simp
  then have "observe_with_provider_state (Some FinishToolCalls) ''worldly'' True None ?s
      = (ToolRound ''ldly'' [], snd (observe_with_provider_state (Some FinishToolCalls) ''worldly'' True None ?s))"
    by (metis prod.collapse)
  from tool_round_rolls_back_sample [OF this] show ?thesis by (simp add: output_recovery_default_def Let_def)
qed

text \<open>
  C17: After a continuation the provider boundary accepts the next request exactly when text was shown or
  no assistant message was recorded: a pause without visible text records a message that is refused.
\<close>

theorem continuation_accepted_iff:
  assumes "validate_provider_request serde ms provider name = Inr ()" "cause \<noteq> CauseContextLimit"
    and "continue_output serde (\<lambda>content. capture_recovery_assistant_message serde digest item sample route content thinking
           reasoning requested replay) rollover cause delta replay s ms = Inr (s', ms')"
  shows "validate_provider_request serde ms' provider name = Inr ()
    \<longleftrightarrow> nonblank delta \<or> \<not> continuation_recorded serde cause delta replay"
proof -
  let ?m = "capture_recovery_assistant_message serde digest item sample route delta thinking reasoning requested replay"
  have safe: "replay_safe serde ms" using assms(1) by (simp add: validate_provider_request_def validate_iff_replay_safe)
  have "replay_safe serde ms' \<longleftrightarrow> replay_safe serde (ms @ (if continuation_recorded serde cause delta replay then [?m] else []))"
    using assms(2,3) controller_appended [of serde "ms @ (if continuation_recorded serde cause delta replay then [?m] else [])"]
    by (auto simp: continue_output_def Let_def split: prod.splits)
  also have "\<dots> \<longleftrightarrow> nonblank delta \<or> \<not> continuation_recorded serde cause delta replay"
    using safe recorded_safe [OF safe, of ?m] by (simp add: capture_recovery_parts)
  finally show ?thesis by (simp add: validate_provider_request_def validate_iff_replay_safe)
qed

definition no_json :: serde_env where
  "no_json = \<lparr> sd_json = (\<lambda>_. None), sd_anthropic = (\<lambda>_. None), sd_responses = (\<lambda>_. None), sd_gemini = (\<lambda>_. None) \<rparr>"

definition pause_capture :: "string \<Rightarrow> message" where
  "pause_capture content = capture_recovery_assistant_message no_json (\<lambda>_ _ _ _. ''d'') ''item'' ''sample''
     (route_unknown ''anthropic'' ''m'' ReplayNotRequired) content [] None False
     (Some (AnthropicPausedTurnBlocks [JObject [(''type'', JString ''server_tool_use'')]]))"

lemma continuation_accepted_iff_witness:
  "case continue_output no_json pause_capture Inr CauseProviderPause []
       (Some (AnthropicPausedTurnBlocks [JObject [(''type'', JString ''server_tool_use'')]])) output_recovery_default
       [text_message RoleUser ''search'']
   of Inl e \<Rightarrow> False | Inr (s', ms') \<Rightarrow> validate_provider_request no_json ms' ''anthropic'' ''m'' \<noteq> Inr ()"
proof -
  let ?payload = "Some (AnthropicPausedTurnBlocks [JObject [(''type'', JString ''server_tool_use'')]])"
  have start: "validate_provider_request no_json [text_message RoleUser ''search''] ''anthropic'' ''m'' = Inr ()" by code_simp
  have recorded: "continuation_recorded no_json CauseProviderPause [] ?payload" by (simp add: continuation_recorded_def)
  obtain s' ms' where continued: "continue_output no_json pause_capture Inr CauseProviderPause [] ?payload output_recovery_default
      [text_message RoleUser ''search''] = Inr (s', ms')"
    by (cases "recovery_prompt CauseProviderPause (has_visible_answer output_recovery_default) output_recovery_default")
      (simp add: continue_output_def Let_def)
  have "\<not> validate_provider_request no_json ms' ''anthropic'' ''m'' = Inr ()"
    using continuation_accepted_iff [OF start _ continued [unfolded pause_capture_def [abs_def]]] recorded by simp
  with continued show ?thesis by simp
qed

end
