(* ===== verification/Spec2Isabelle.thy ===== *)
theory Spec2Isabelle
  imports Outbox_Properties Workflow_Properties Attempt_Properties Delegation_Scheduler
    Background_Governor Workflow_Scheduler Tool_Gate Launch_Properties History_Properties
    Fallback_Properties Recovery_Properties
begin

text \<open>
  Verification of the core of Nexa, a desktop assistant written in Rust.

  The assistant answers a user turn in a loop of model samples and tool calls. Its core crate
  (\<open>crates/core/src\<close>) owns the loop, the budgets, the permission gate, the durable record of every
  run and the workflows that structure larger tasks; the desktop host
  (\<open>apps/desktop/src-tauri/src\<close>) owns the user interface, the delegation to subagents, the
  background indexing and the automations. The development models the parts that decide, count,
  order and record; the parts that only move bytes to a provider, a file or a window are left out.

  \<^bold>\<open>How the parts interact.\<close> A turn holds a budget of provider requests and tool rounds
  (\<open>Turn_Budget\<close>). Each model sample is an attempt (\<open>Model_Attempt\<close>) that draws its requests from
  that budget and asks the retry policy (\<open>Stream_Recovery\<close>) what to do after a failure. Its request
  is prepared from the persisted history: the history is repaired (\<open>Message_History\<close>), compiled with the
  prompt (\<open>Prompt_Compile\<close>), trimmed or compacted to the context window (\<open>Context_Window\<close>), reduced to what
  the provider can replay and checked at the provider boundary (\<open>Message_History\<close>, with the native state of
  \<open>Provider_Turn\<close>); a chain of providers (\<open>Provider_Fallback\<close>) picks the route that answers. A sample whose
  output is not complete is continued by the recovery (\<open>Output_Recovery\<close>), which records what was shown and asks
  for the rest. Every tool
  call the sample asks for is described by the capability table (\<open>Tool_Capability\<close>), weighed by the
  policy rules (\<open>Policy_Engine\<close>) and put to the user under a permission key (\<open>Tool_Approval\<close>) by the
  gate (\<open>Tool_Gate\<close>) before it runs. Delegated calls pass the admission of the delegation scheduler
  (\<open>Delegation_Scheduler\<close>). All events of the run go through the outbox (\<open>Run_Event_Outbox\<close>), which
  numbers them, writes the durable ones to the run ledger (\<open>Task_Run\<close>) and only then shows them to
  the host, in the event format of \<open>Agent_Run\<close>. Workflows (\<open>Workflow_Ir\<close>) constrain which node of a
  task may run; the scheduler (\<open>Workflow_Scheduler\<close>) says when an automation is due, the automation
  ledger (\<open>Automation_Ledger\<close>) claims each occurrence, numbers its attempts and keeps approvals and
  retries, and launching (\<open>Workflow_Launch\<close>) checks the saved policy and hands a claimed run over as a
  ticket. The indexing in the background yields to the foreground through the governor (\<open>Background_Governor\<close>).
\<close>

section \<open>Theories and sources\<close>

text \<open>
  \<^item> \<open>Nexa_Prelude\<close>: machine integers (\<open>u8\<close> to \<open>u64\<close> as words, \<open>usize\<close> as \<open>nat\<close>) with the saturating
    operations of Rust, the string operations the sources call, lists updated in place, the
    collections \<open>sat_simps\<close>, \<open>inv_intros\<close> and \<open>frame_simps\<close>, and the interfaces of the
    development, below.
  \<^item> \<open>Nexa_Json\<close>: the values of \<open>serde_json\<close> (objects as association lists in order), their
    accessors and the rewrite of all string leaves of \<open>sensitive_data.rs\<close>.
  \<^item> \<open>Core_Error\<close>: \<open>error.rs\<close>, the error enumeration and its texts.
  \<^item> \<open>Agent_Run\<close>: \<open>agent_run.rs\<close>, the enumerations of the event protocol with their wire names,
    the contract of every event kind (\<open>contract_for_kind\<close>), the builders of events and the
    validation of durable events (\<open>validate_durable_contract\<close>).
  \<^item> \<open>Task_Run\<close>: \<open>task_run.rs\<close> with the functions of \<open>db.rs\<close>, \<open>conversation/mod.rs\<close> and
    \<open>interaction.rs\<close> it calls. The database is a record of its tables; a transaction is a function
    that returns the new database or an error and the old one. Modelled are the batch, pause and
    failure transactions with their projections to task rows and conversation turns.
  \<^item> \<open>Run_Event_Outbox\<close>: \<open>run_event_outbox.rs\<close>. The state \<open>outbox\<close> holds the producer's sequence
    counter, the bounded queue, the actor's deferred batch, the shared outcome cells, the database
    and the events already delivered to the host. \<open>outbox_step\<close> interleaves producers, the actor,
    the timer and other writers of the database. \<open>Outbox_Invariant\<close> holds the invariant of its
    reachable states, \<open>Outbox_Properties\<close> what follows for the host.
  \<^item> \<open>Workflow_Ir\<close>: \<open>workflow_ir.rs\<close>, workflow graphs, validation by counting in-degrees, the life
    cycle of nodes, verification gates, reconfiguration and the completion decision.
    \<open>Workflow_Graph\<close> relates validation to acyclicity, \<open>Workflow_Properties\<close> holds the rest.
  \<^item> \<open>Turn_Budget\<close>: \<open>agent/turn_budget.rs\<close>. \<open>Stream_Recovery\<close>: \<open>agent/stream_recovery.rs\<close>.
  \<^item> \<open>Model_Attempt\<close>: \<open>agent/model_attempt.rs\<close> with the chunk types of \<open>llm/mod.rs\<close> and the events of
    \<open>agent/events.rs\<close>. \<open>attempt_iteration\<close> is one round of the loop of \<open>next\<close>; the answers of the
    provider come from a record \<open>attempt_env\<close>. \<open>Attempt_Properties\<close> holds its invariants and the
    termination of \<open>next\<close>.
  \<^item> \<open>Provider_Turn\<close>: the messages of \<open>llm/mod.rs\<close>, the replay policies of \<open>llm/reasoning_profile.rs\<close> and
    \<open>llm/provider_turn.rs\<close>: routes, the native state of the provider dialects, its capture in envelopes,
    and which envelopes authorize the dispatch of tool calls. \<open>Message_History\<close>:
    \<open>llm/message_validation.rs\<close> and \<open>llm/reasoning_replay.rs\<close>, the provider boundary, the repair of persisted
    histories and the projection of native state. \<open>Replay_Safety\<close> holds the specification by rounds,
    \<open>replay_safe\<close>, and that these operations meet it.
  \<^item> \<open>Context_Window\<close>: \<open>conversation/memory.rs\<close>, \<open>agent/context_pipeline.rs\<close> and \<open>agent/context_compaction.rs\<close>:
    windows, token estimates, trimming by atomic blocks, the compaction boundary, compaction and the
    recovery from an overflow. \<open>Prompt_Compile\<close>: \<open>agent/prompt_ir.rs\<close> and \<open>agent/context.rs\<close>, from prompt blocks
    to the messages of a request. \<open>History_Stages\<close> and \<open>History_Properties\<close> hold what they keep.
  \<^item> \<open>Provider_Fallback\<close>: \<open>llm/fallback.rs\<close>, the routes of an automatic binding, their selection and the
    stream that advances before its first output; \<open>Fallback_Properties\<close> holds what follows.
  \<^item> \<open>Output_Recovery\<close>: \<open>agent/output_recovery.rs\<close> and, of \<open>agent/turn_loop.rs\<close>, the messages a continuation
    appends: the overlap search, acknowledgements, held and committed fragments, staged tool rounds and the
    decision after every finish reason. \<open>Recovery_Properties\<close> holds what follows.
  \<^item> \<open>Delegation_Scheduler\<close>: \<open>delegation_scheduler.rs\<close> of the desktop, with the settings of
    \<open>agent/mod.rs\<close> it resolves: limits, lanes, two-phase admission, accounting and rollback.
  \<^item> \<open>Background_Governor\<close>: \<open>background_work_governor.rs\<close> of the desktop.
  \<^item> \<open>Workflow_Schedule_Config\<close> and \<open>Workflow_Scheduler\<close>: \<open>workflow_scheduler.rs\<close>, the settings of an
    automation's schedule with their validation, and the search for its occurrences.
  \<^item> \<open>Policy_Engine\<close>: \<open>policy_engine.rs\<close>, the rules and their strictest effect. \<open>Tool_Capability\<close>:
    \<open>tools/capability.rs\<close> and the \<open>Tool\<close> trait and registry of \<open>tools/mod.rs\<close>, the access profile and
    resources of every call and the Plan-mode surface. \<open>Tool_Approval\<close>: \<open>approval.rs\<close>, permission
    keys, requests, stored decisions. \<open>Tool_Gate\<close>: the gate of \<open>agent/tool_dispatch.rs\<close> and the
    approval callback of \<open>desktop_agent_session/dependencies.rs\<close>.
  \<^item> \<open>Automation_Types\<close>: the states, rows and texts of \<open>workflow_automation/types.rs\<close> and the task
    states of \<open>task_orchestrator.rs\<close>. \<open>Automation_Ledger\<close>: \<open>workflow_automation/mod.rs\<close>, \<open>scheduling.rs\<close>,
    \<open>approvals.rs\<close> and \<open>events.rs\<close>: saving and deleting automations, what is due, claiming, starting,
    moving, failing and approving runs, scheduler events and the retry decision. The database is the
    record \<open>automation_db\<close> of its tables; \<open>automation_op\<close> lists the operations. \<open>Automation_Invariant\<close>
    holds the invariant of the ledger, \<open>Automation_Flight\<close> the one of fenced histories and
    \<open>Automation_Properties\<close> what follows.
  \<^item> \<open>Workflow_Launch\<close>: \<open>workflow_execution.rs\<close> and the tickets of \<open>task_orchestrator.rs\<close>, with the
    lookups of \<open>project.rs\<close> and \<open>sources.rs\<close>: preparing a save, the launch policy, and the steps from
    a due run to a ticket. \<open>Launch_Properties\<close> holds what is guaranteed of a launch.
\<close>

section \<open>Interfaces\<close>

text \<open>
  \<^item> \<open>invariant_machine\<close>: operations that keep an invariant keep it over every sequence. Interpreted
    for the outbox (\<open>outbox_machine\<close>, \<open>submission_closed\<close>), the ledger (\<open>closed_ledger\<close>), workflows
    (\<open>workflow_machine\<close>), a turn (\<open>turn\<close>), an attempt (\<open>attempt\<close>, \<open>budgeted_attempt\<close>,
    \<open>logged_attempt\<close>), delegation (\<open>worker_lanes\<close>, \<open>call_budget\<close>), the governor
    (\<open>background_work\<close>), the automation ledger (\<open>automation_ledger\<close>) and the stages a message history
    passes (\<open>hs\<close>). The machines step with the definitions of the code.
  \<^item> \<open>monotone_machine\<close> extends it by a measure that no operation lowers: the head of a run in the
    ledger (\<open>ledger\<close>).
  \<^item> \<open>refinement_machine\<close> extends it by an abstraction that every operation respects: the governor
    against the specification that keeps the last change of every path (\<open>governed\<close>).
  \<^item> \<open>wire_codec\<close>: an enumeration with its textual form; interpreted for the six enumerations of the
    event protocol and for approval decisions.
\<close>

section \<open>What is shown\<close>

text \<open>
  \<^item> Run events (\<open>Agent_Run\<close>): what the durable contract accepts and reports, that the builders meet
    it, and that wire names are read back.
  \<^item> Ledger (\<open>Task_Run\<close>): the ledger only grows, keys stay unique, heads never move back, at most
    one event closes a run, a closed run is immutable, the closing batch settles the projections in
    the same transaction, and the failure claim is idempotent.
  \<^item> Outbox (\<open>Outbox_Properties\<close>): in every reachable state durable events are delivered only after
    they are in the ledger, sequence numbers increase, nothing follows the closing event, a flush
    is a barrier, a reported terminal is durable, the actor never stops silently, submission stays
    closed, saturation drops previews only, and a pause directly behind a preview fails closed in every
    reachable state.
  \<^item> Workflows (\<open>Workflow_Properties\<close>): validation accepts exactly the well-formed acyclic graphs, a
    valid unfinished workflow has a ready node, every operation keeps the life-cycle invariant, and
    a failed command passes no gate.
  \<^item> Turns and attempts (\<open>Turn_Budget\<close>, \<open>Attempt_Properties\<close>): budgets are never exceeded, nothing is
    sent behind the replay barrier, discarded drafts are reset before a replay, and \<open>next\<close> returns.
  \<^item> Message histories (\<open>History_Properties\<close>): the boundary decides the specification by rounds, the
    repair is safe, keeps the visible transcript and is idempotent, whatever is prepared for a
    request is accepted, every stage keeps that, trimming fits the window, compaction keeps the
    recent turns, replayed calls have native state of their route, and calls are dispatched only
    with native state where it is needed, which agrees with them where it names calls.
  \<^item> Fallback (\<open>Fallback_Properties\<close>): the output of a stream comes from one route whose selection is
    committed, completions come from the first route that answers, tool loops stay on their route
    while the chain has it, and what happens to a stream that is polled after its end.
  \<^item> Output recovery (\<open>Recovery_Properties\<close>): the overlap search is exact, the final answer is what was shown,
    samples that stay at the output limit end the episode, staged tool rounds roll back, and which continuations
    the provider boundary accepts.
  \<^item> Delegation and background work: admission never exceeds its limits nor starves the control
    lanes, and the governor refines its specification.
  \<^item> Scheduler (\<open>Workflow_Scheduler\<close>): the forward search returns the least kept occurrence, the
    binary search returns kept occurrences of its window only, the last one where the forward search
    reaches its next occurrences, and when the forward search gives up.
  \<^item> Tool permissions (\<open>Tool_Capability\<close>, \<open>Tool_Approval\<close>, \<open>Tool_Gate\<close>): the Plan-mode surface stays
    passive under all arguments, permission keys are injective, no call that needs approval
    executes on the desktop without consent, decisions are remembered under their key, and what
    the gate does without any callback.
  \<^item> Automations (\<open>Automation_Properties\<close>): the attempts of an occurrence are distinct and at most
    four whatever operations run; an occurrence has one open run as long as nothing is reported for
    closed runs, and a late report of a failed launch lets it run twice; a run starts only out of the live claim of its attempt
    and never while it waits for approval; launches that fail never use up the retries.
  \<^item> Launching (\<open>Launch_Properties\<close>): a ready launch runs under exactly the policy of the definition
    in the ledger and belongs to a queued run, which is approved for schedules; a schedule that passes the checks of saving passes those of launching.
\<close>

section \<open>Bounds and fuel\<close>

text \<open>
  Constants are those of the sources: a queue of 512 commands, batches of 32 events, delegation
  limits clamped to their ranges, retry limits of at most 10, 25 search windows of 1400 days, 20
  preview occurrences. Counters keep their width; sequence numbers are \<open>u64\<close> and saturate, so the
  ordering properties assume fewer than \<open>2 ^ 64 - 1\<close> accepted commands. \<open>next_uncancelled\<close> runs the loop
  of \<open>next\<close> with fuel; \<open>next_terminates\<close> shows that 35 iterations suffice in every reachable state,
  because every retry counter is bounded by the policy. The cost bound of trimming assumes a window
  below \<open>2 ^ 32 - 1\<close> tokens, where costs cannot saturate unnoticed. The overlap search follows its
  failure links with \<open>while\<close>; links only point back, and \<open>overlap_longest\<close> shows what the loop ends with.
  Acknowledgements are numbered with a saturating \<open>u32\<close>. All other loops are structural recursions or have a termination proof.
\<close>

section \<open>Arguments that stand for code outside the model\<close>

text \<open>
  \<^item> The per-string redaction (regular expressions) is an argument \<open>redact\<close>; identifiers, clocks and
    failures of the storage come from the record \<open>storage_env\<close>; the checkpoint that a pause writes
    is prepared by the caller.
  \<^item> The order in which a hash map yields its keys is an argument wherever it could matter
    (\<open>initial_queue\<close>), and validation is shown not to depend on it.
  \<^item> The provider of an attempt and the number of units its projection omits are the functions of
    \<open>attempt_env\<close>; texts of foreign errors are arguments. A route of the fallback chain holds what its
    provider answers to a request; the commit of a selection is a callback, and other requests may
    move the active position before every poll (\<open>move\<close>).
  \<^item> Reading JSON and the derived types that are read from texts is the record \<open>serde_env\<close>; the
    tokenizer library and the shared model catalogue are \<open>token_env\<close>; the texts on skills are functions
    of their budget, and the summarizer one of the evicted messages. The recovery from a context overflow
    between two messages of a continuation is the function \<open>rollover\<close>. Products with a float are
    computed exactly and rounded to the precision of the source.
  \<^item> The cron and time zone libraries are the functions of \<open>cron_env\<close>. \<open>cron_laws\<close> states what
    their documentation promises: a search from an instant returns the next matching second or
    reports that its own horizon holds none, and zones are resolved by name.
  \<^item> The owner of a tool (\<open>owner_of\<close>), the methods that a tool implements (fields of the record
    \<open>tool\<close>), the keyed digest of the arguments, the host of a URL, and the texts shown to the user.
  \<^item> The clock, the conversion of instants and the cron library of the automations are the record
    \<open>automation_env\<close>; fresh identifiers are arguments, and so is the verdict of a folder trigger.
    Columns of JSON hold the values themselves, with \<open>None\<close> for a text that does not parse. SQL compares
    instants as texts, and so does the model. A read directly before a transaction belongs to the
    same step.
  \<^item> Canonical paths, the hash of the source fingerprint and the platform are the record \<open>host_env\<close>;
    the tables of agent configurations, projects and sources the record \<open>launch_tables\<close>.
  \<^item> A text is a list of characters with scalar values below 256; where bytes matter, the UTF-8
    encoding is written out (\<open>utf8_bytes\<close>).
\<close>

section \<open>Not modelled\<close>

text \<open>
  \<^item> The asynchronous orchestration of a turn (\<open>agent/turn_loop.rs\<close>, \<open>agent/model_step.rs\<close>, the rest of
    \<open>agent/tool_dispatch.rs\<close>), provider clients (the rest of \<open>llm\<close>), the tools themselves, browser and desktop
    control, search, ingestion and embeddings, the MCP client, settings and migrations, media and
    document conversion, the Tauri commands and the TypeScript interface: they consist of input and
    output or of prompt text.
  \<^item> Of the modelled files: the projection from executor events to run events
    (\<open>from_agent_event\<close>), the registry of outboxes and the recovery after a restart, the compiler
    from task plans to workflows and the observation of browser and desktop gates, the serialised
    budget snapshot of the delegation scheduler, the listing of stored permissions, the
    projections of envelopes for auditing, the usage accounting of compactions, the breakdown of the
    context by kind, and of the automations the resumption from checkpoints, the learning statistics, the investigation graph,
    the check of files for folder triggers, and the projection of agent tasks to orchestrator runs.
\<close>

end
